(* ===== verification/Prelude.thy ===== *)
theory Prelude
  imports Complex_Main "HOL-Library.AList" "HOL-Library.Multiset"
    "HOL-Library.List_Lexorder" "HOL-Library.Char_ord" "HOL-Library.Sorting_Algorithms"
begin

text \<open>
  What every component shares: results with errors as values, the parts of the JavaScript
  standard library the source uses everywhere (\<open>Map\<close>, \<open>new Set\<close>, the stable
  \<open>Array.prototype.sort\<close>, the nullish operator, string tests), and the generic lemmas on
  them. Strings are lists of code units below 256; \<open>localeCompare\<close> is implementation defined
  in ECMA-402, so it is a parameter \<open>lc\<close> of type \<open>string comparator\<close>: the only thing
  fixed about it is what ECMA-262 promises, that it is a consistent comparison. Two different
  strings may still compare as equal.
\<close>

named_theorems js_simps \<open>evaluation rules for the JavaScript library functions\<close>

section \<open>Results\<close>

text \<open>A computation that throws is \<open>Inl\<close> of the error, one that returns is \<open>Inr\<close>.\<close>

fun and_then :: "'e + 'a \<Rightarrow> ('a \<Rightarrow> 'e + 'b) \<Rightarrow> 'e + 'b" where
  "and_then (Inl e) f = Inl e"
| "and_then (Inr a) f = f a"

definition throw_if :: "bool \<Rightarrow> 'e \<Rightarrow> 'e + unit" where
  "throw_if b e = (if b then Inl e else Inr ())"

lemma and_then_Inr_iff:
  "and_then r f = Inr b \<longleftrightarrow> (\<exists>a. r = Inr a \<and> f a = Inr b)"
  by (cases r) auto

lemma throw_if_Inr_iff [simp]: "throw_if b e = Inr u \<longleftrightarrow> \<not> b"
  by (simp add: throw_if_def)

lemma throw_if_Inl_iff [simp]: "throw_if b e = Inl e' \<longleftrightarrow> b \<and> e = e'"
  by (auto simp: throw_if_def)

section \<open>Optional values\<close>

text \<open>\<open>a ?? b\<close>, with \<open>None\<close> for both \<open>undefined\<close> and \<open>null\<close>.\<close>

fun nullish :: "'a option \<Rightarrow> 'a option \<Rightarrow> 'a option" where
  "nullish (Some a) b = Some a"
| "nullish None b = b"

fun or_else :: "'a option \<Rightarrow> 'a \<Rightarrow> 'a" where
  "or_else (Some a) b = a"
| "or_else None b = b"

text \<open>A string is falsy when it is absent or empty.\<close>

definition truthy :: "string option \<Rightarrow> bool" where
  "truthy s \<longleftrightarrow> (case s of None \<Rightarrow> False | Some v \<Rightarrow> v \<noteq> [])"

lemma truthy_simps [simp]: "truthy None = False" "truthy (Some v) = (v \<noteq> [])"
  by (simp_all add: truthy_def)

lemma truthyE: "truthy s \<Longrightarrow> (\<And>v. s = Some v \<Longrightarrow> v \<noteq> [] \<Longrightarrow> P) \<Longrightarrow> P"
  by (cases s) auto

lemma nullish_None [simp]: "nullish a None = a"
  by (cases a) simp_all

lemma nullish_eq_None_iff [simp]: "nullish a b = None \<longleftrightarrow> a = None \<and> b = None"
  by (cases a) simp_all

lemma nullish_assoc: "nullish (nullish a b) c = nullish a (nullish b c)"
  by (cases a) simp_all

section \<open>JavaScript Map\<close>

text \<open>
  A \<open>Map\<close> is an association list in insertion order. \<open>set\<close> on a key that is present
  keeps its place, on a new one appends it: this is \<^const>\<open>AList.update\<close>.
\<close>

type_synonym ('k, 'v) jsmap = "('k \<times> 'v) list"

abbreviation map_get :: "('k, 'v) jsmap \<Rightarrow> 'k \<Rightarrow> 'v option" where
  "map_get m k \<equiv> map_of m k"

abbreviation map_set :: "'k \<Rightarrow> 'v \<Rightarrow> ('k, 'v) jsmap \<Rightarrow> ('k, 'v) jsmap" where
  "map_set k v m \<equiv> AList.update k v m"

abbreviation map_values :: "('k, 'v) jsmap \<Rightarrow> 'v list" where
  "map_values m \<equiv> map snd m"

abbreviation map_keys :: "('k, 'v) jsmap \<Rightarrow> 'k list" where
  "map_keys m \<equiv> map fst m"

lemma map_get_set: "map_get (map_set k v m) k' = (if k = k' then Some v else map_get m k')"
  by (simp add: update_conv')

lemma map_get_set_same [simp]: "map_get (map_set k v m) k = Some v"
  by (simp add: update_conv')

lemma map_get_set_other [simp]: "k \<noteq> k' \<Longrightarrow> map_get (map_set k v m) k' = map_get m k'"
  by (simp add: update_conv')

lemma map_set_fresh: "map_get m k = None \<Longrightarrow> map_set k v m = m @ [(k, v)]"
  by (induction m) (auto split: if_splits)

lemma map_keys_set [simp]: "set (map_keys (map_set k v m)) = insert k (set (map_keys m))"
  by (simp add: dom_update)

lemma distinct_map_set: "distinct (map_keys m) \<Longrightarrow> distinct (map_keys (map_set k v m))"
  by (rule distinct_update)

lemma map_values_get:
  "distinct (map_keys m) \<Longrightarrow> v \<in> set (map_values m) \<longleftrightarrow> (\<exists>k. map_get m k = Some v)"
  by (force simp: map_of_eq_Some_iff)

section \<open>Searching a list\<close>

lemma find_the_row:
  assumes "distinct (map f rows)" "r \<in> set rows" "f r = k"
  shows "find (\<lambda>row. f row = k) rows = Some r"
  using assms by (induction rows) (auto simp: image_iff)

lemma find_in_list: "find P xs = Some x \<Longrightarrow> x \<in> set xs \<and> P x"
  by (auto simp: find_Some_iff)

lemma find_append: "find P (xs @ ys) = (case find P xs of None \<Rightarrow> find P ys | Some x \<Rightarrow> Some x)"
  by (induction xs) simp_all

text \<open>\<open>xs.join(sep)\<close>.\<close>

fun join :: "string \<Rightarrow> string list \<Rightarrow> string" where
  "join sep [] = []"
| "join sep [x] = x"
| "join sep (x # xs) = x @ sep @ join sep xs"

section \<open>Set, sort\<close>

text \<open>\<open>[...new Set(xs)]\<close> keeps the first of equal elements, in order.\<close>

fun js_unique :: "'a list \<Rightarrow> 'a list" where
  "js_unique [] = []"
| "js_unique (x # xs) = x # filter (\<lambda>y. y \<noteq> x) (js_unique xs)"

lemma set_js_unique [simp]: "set (js_unique xs) = set xs"
  by (induction xs) auto

lemma distinct_js_unique [simp]: "distinct (js_unique xs)"
  by (induction xs) auto

lemma js_unique_distinct: "distinct xs \<Longrightarrow> js_unique xs = xs"
  by (induction xs) (auto simp: filter_id_conv)

text \<open>\<open>xs.sort((a, b) => f(a).localeCompare(f(b)))\<close>: the stable sort by key.\<close>

abbreviation sort_on :: "'k comparator \<Rightarrow> ('a \<Rightarrow> 'k) \<Rightarrow> 'a list \<Rightarrow> 'a list" where
  "sort_on lc f xs \<equiv> Sorting_Algorithms.sort (key f lc) xs"

abbreviation js_sorted :: "'k comparator \<Rightarrow> ('a \<Rightarrow> 'k) \<Rightarrow> 'a list \<Rightarrow> bool" where
  "js_sorted lc f xs \<equiv> Sorting_Algorithms.sorted (key f lc) xs"

text \<open>A comparison that tells all strings (or all the keys of a list) apart.\<close>

definition tells_apart :: "'k comparator \<Rightarrow> 'k set \<Rightarrow> bool" where
  "tells_apart lc K \<longleftrightarrow> (\<forall>a \<in> K. \<forall>b \<in> K. compare lc a b = Equiv \<longrightarrow> a = b)"

lemma tells_apartD: "tells_apart lc K \<Longrightarrow> a \<in> K \<Longrightarrow> b \<in> K \<Longrightarrow> compare lc a b = Equiv \<Longrightarrow> a = b"
  by (auto simp: tells_apart_def)

lemma tells_apart_subset: "tells_apart lc K \<Longrightarrow> L \<subseteq> K \<Longrightarrow> tells_apart lc L"
  by (auto simp: tells_apart_def)

lemma tells_apart_default [simp]: "tells_apart (default :: 'a::linorder comparator) K"
  by (simp add: tells_apart_def)

text \<open>
  Where the keys tell the elements apart, the result of a sort does not depend on the order of
  its input: two lists with the same elements sort to the same list.
\<close>

lemma sort_eq_if_mset_eq:
  assumes "mset xs = mset ys"
    and apart: "\<And>x y. x \<in> set xs \<Longrightarrow> y \<in> set xs \<Longrightarrow> compare cmp x y = Equiv \<Longrightarrow> x = y"
  shows "Sorting_Algorithms.sort cmp xs = Sorting_Algorithms.sort cmp ys"
proof (rule sort_eqI)
  show "mset xs = mset (Sorting_Algorithms.sort cmp ys)" using assms(1) by simp
  show "Sorting_Algorithms.sorted cmp (Sorting_Algorithms.sort cmp ys)" by simp
  fix z assume z: "z \<in> set xs"
  have same: "stable_segment cmp z zs = replicate (count (mset zs) z) z"
    if "mset zs = mset xs" for zs
  proof -
    have in_xs: "set zs = set xs" using that by (metis set_mset_mset)
    have "stable_segment cmp z zs = filter (\<lambda>x. x = z) zs"
      by (rule filter_cong) (use in_xs z apart in auto)
    also have "\<dots> = replicate (count (mset zs) z) z"
      by (induction zs) auto
    finally show ?thesis .
  qed
  show "stable_segment cmp z xs = stable_segment cmp z (Sorting_Algorithms.sort cmp ys)"
    using same [of xs] same [of ys] assms(1) by (simp add: stable_sort)
qed

lemma sort_on_cong:
  assumes "mset xs = mset ys" and "inj_on f (set xs)" and "tells_apart lc (f ` set xs)"
  shows "sort_on lc f xs = sort_on lc f ys"
  using assms(1)
proof (rule sort_eq_if_mset_eq)
  fix x y assume "x \<in> set xs" "y \<in> set xs" "compare (key f lc) x y = Equiv"
  then show "x = y"
    using assms(2,3) by (auto simp: tells_apart_def dest: inj_onD)
qed

text \<open>A sorted list is left as it is.\<close>

lemma sort_sorted: "Sorting_Algorithms.sorted cmp xs \<Longrightarrow> Sorting_Algorithms.sort cmp xs = xs"
  by (rule sort_eqI) simp_all

text \<open>\<open>uniqueSorted(values)\<close>, the same helper in six files of the source.\<close>

definition uniqueSorted :: "string comparator \<Rightarrow> string list \<Rightarrow> string list" where
  "uniqueSorted lc values = Sorting_Algorithms.sort lc (js_unique values)"

lemma set_uniqueSorted [simp]: "set (uniqueSorted lc xs) = set xs"
  by (simp add: uniqueSorted_def)

lemma distinct_sort [simp]: "distinct (Sorting_Algorithms.sort cmp xs) = distinct xs"
  by (metis mset_sort mset_eq_imp_distinct_iff)

lemma distinct_uniqueSorted [simp]: "distinct (uniqueSorted lc xs)"
  by (simp add: uniqueSorted_def)

lemma sorted_uniqueSorted [simp]: "Sorting_Algorithms.sorted lc (uniqueSorted lc xs)"
  by (simp add: uniqueSorted_def)

lemma uniqueSorted_eq_Nil_iff [simp]: "uniqueSorted lc xs = [] \<longleftrightarrow> xs = []"
  by (metis set_uniqueSorted set_empty)

lemma uniqueSorted_idem [simp]: "uniqueSorted lc (uniqueSorted lc xs) = uniqueSorted lc xs"
  by (simp add: uniqueSorted_def js_unique_distinct sort_sorted)

lemma uniqueSorted_cong:
  assumes "set xs = set ys" and "tells_apart lc (set xs)"
  shows "uniqueSorted lc xs = uniqueSorted lc ys"
  unfolding uniqueSorted_def
proof (rule sort_eq_if_mset_eq)
  have "set (js_unique xs) = set (js_unique ys)" using assms(1) by simp
  then show "mset (js_unique xs) = mset (js_unique ys)"
    by (subst (asm) set_eq_iff_mset_eq_distinct) simp_all
qed (use assms(2) in \<open>auto dest: tells_apartD\<close>)

end
