(* ===== verification/JsValue.thy ===== *)
theory JsValue
  imports Prelude
begin

text \<open>
  JSON values, as \<open>JsonValueSchema\<close> of \<open>src/src/contracts/event-contract.ts\<close> declares
  them, and \<open>JSON.stringify\<close> of strings and of arrays of strings, which the source uses to
  build composite keys. The main result is that the encoding of an array of strings is
  injective, whatever the strings hold: a composite key never confuses two field lists.
  A number is a finite rational (every finite double is one), an infinity or NaN; the sign of
  a zero is not kept.
\<close>

section \<open>Values\<close>

datatype js_number = Finite rat | PosInf | NegInf | NotANumber

datatype json =
  JNull
| JBool bool
| JNum js_number
| JStr string
| JArr "json list"
| JObj "(string \<times> json) list"

text \<open>\<open>Number.isFinite\<close>.\<close>

fun isFinite :: "js_number \<Rightarrow> bool" where
  "isFinite (Finite q) = True"
| "isFinite _ = False"

text \<open>Reading a property of an object; a missing one is \<open>undefined\<close>.\<close>

definition get_prop :: "(string \<times> json) list \<Rightarrow> string \<Rightarrow> json option" where
  "get_prop obj k = map_of obj k"

lemma get_prop_set [simp]: "get_prop (map_set k v obj) k' = (if k = k' then Some v else get_prop obj k')"
  by (simp add: get_prop_def map_get_set)

section \<open>JSON.stringify of a string\<close>

definition hex_digit :: "nat \<Rightarrow> char" where
  "hex_digit n = ''0123456789abcdef'' ! n"

definition backslash :: char where "backslash = CHR 0x5C"
definition quote_mark :: char where "quote_mark = CHR 0x22"

definition json_escape :: "char \<Rightarrow> string" where
  "json_escape c =
     (if c = quote_mark then [backslash, quote_mark]
      else if c = backslash then [backslash, backslash]
      else if c = CHR 0x08 then backslash # ''b''
      else if c = CHR 0x09 then backslash # ''t''
      else if c = CHR 0x0A then backslash # ''n''
      else if c = CHR 0x0C then backslash # ''f''
      else if c = CHR 0x0D then backslash # ''r''
      else if of_char c < (32 :: nat)
        then backslash # ''u00'' @ [hex_digit (of_char c div 16), hex_digit (of_char c mod 16)]
      else [c])"

definition json_quote :: "string \<Rightarrow> string" where
  "json_quote s = quote_mark # concat (map json_escape s) @ [quote_mark]"

text \<open>A reader of one escaped character, the inverse of \<^const>\<open>json_escape\<close>.\<close>

definition unhex :: "char \<Rightarrow> nat" where
  "unhex c = (if of_char c < (58 :: nat) then of_char c - 48 else of_char c - 87)"

fun json_unescape :: "string \<Rightarrow> (char \<times> string) option" where
  "json_unescape (c # cs) =
     (if c = quote_mark then None
      else if c \<noteq> backslash then Some (c, cs)
      else (case cs of
          [] \<Rightarrow> None
        | d # ds \<Rightarrow>
            if d = CHR ''b'' then Some (CHR 0x08, ds)
            else if d = CHR ''t'' then Some (CHR 0x09, ds)
            else if d = CHR ''n'' then Some (CHR 0x0A, ds)
            else if d = CHR ''f'' then Some (CHR 0x0C, ds)
            else if d = CHR ''r'' then Some (CHR 0x0D, ds)
            else if d = CHR ''u'' then
              (case ds of _ # _ # h # l # rest \<Rightarrow> Some (char_of (16 * unhex h + unhex l), rest)
               | _ \<Rightarrow> None)
            else Some (d, ds)))"
| "json_unescape [] = None"

lemma unhex_hex_digit: "n < 16 \<Longrightarrow> unhex (hex_digit n) = n"
proof -
  assume "n < 16"
  then have "n \<in> set [0..<16]" by simp
  moreover have "\<forall>n \<in> set [0..<16]. unhex (hex_digit n) = n" by code_simp
  ultimately show ?thesis by blast
qed

lemma unescape_escape [simp]: "json_unescape (json_escape c @ x) = Some (c, x)"
proof (cases "of_char c < (32 :: nat)")
  case True
  have "char_of (16 * (of_char c div 16) + of_char c mod 16 :: nat) = c"
    by simp
  moreover have "of_char c div 16 < (16 :: nat)" "of_char c mod 16 < (16 :: nat)"
    using True by simp_all
  ultimately show ?thesis
    by (simp add: json_escape_def backslash_def quote_mark_def unhex_hex_digit)
next
  case False
  then show ?thesis
    by (auto simp: json_escape_def backslash_def quote_mark_def)
qed

lemma escape_head: "\<exists>d ds. json_escape c = d # ds \<and> d \<noteq> quote_mark"
  by (auto simp: json_escape_def backslash_def quote_mark_def)

lemma escaped_string_inject:
  "concat (map json_escape s) @ quote_mark # x = concat (map json_escape t) @ quote_mark # y
   \<longleftrightarrow> s = t \<and> x = y"
proof (induction s arbitrary: t)
  case Nil
  show ?case using escape_head by (cases t) (auto, metis Cons_eq_append_conv list.inject)
next
  case (Cons c s)
  show ?case
  proof (cases t)
    case Nil
    then show ?thesis using escape_head [of c] by auto
  next
    case (Cons d t')
    have "json_escape c @ a = json_escape d @ b \<longleftrightarrow> c = d \<and> a = b" for a b
      by (metis unescape_escape option.inject prod.inject)
    then show ?thesis using Cons.IH [of t'] Cons by auto
  qed
qed

lemma json_quote_append_inject:
  "json_quote s @ x = json_quote t @ y \<longleftrightarrow> s = t \<and> x = y"
  using escaped_string_inject [of s x t y] by (simp add: json_quote_def)

section \<open>JSON.stringify of an array of strings\<close>

fun json_items :: "string list \<Rightarrow> string" where
  "json_items [] = '']''"
| "json_items [s] = json_quote s @ '']''"
| "json_items (s # ss) = json_quote s @ '','' @ json_items ss"

definition json_array :: "string list \<Rightarrow> string" where
  "json_array ss = ''['' @ json_items ss"

lemma json_items_ne_Nil: "json_items (s # ss) = json_quote s @ (if ss = [] then '']'' else '','' @ json_items ss)"
  by (cases ss) simp_all

lemma json_quote_ne_bracket: "json_quote s @ x \<noteq> '']''"
  by (simp add: json_quote_def quote_mark_def)

lemma json_items_inject: "json_items ss = json_items ts \<Longrightarrow> ss = ts"
proof (induction ss arbitrary: ts)
  case Nil
  then show ?case by (cases ts) (auto simp: json_items_ne_Nil json_quote_def quote_mark_def)
next
  case (Cons s ss)
  show ?case
  proof (cases ts)
    case Nil
    with Cons.prems show ?thesis
      by (auto simp: json_items_ne_Nil json_quote_def quote_mark_def)
  next
    case (Cons t ts')
    with Cons.prems have "s = t \<and>
        (if ss = [] then '']'' else '','' @ json_items ss)
         = (if ts' = [] then '']'' else '','' @ json_items ts')"
      by (simp add: json_items_ne_Nil json_quote_append_inject)
    with Cons.IH [of ts'] Cons show ?thesis by (auto split: if_splits)
  qed
qed

lemma json_array_inject [simp]: "json_array ss = json_array ts \<longleftrightarrow> ss = ts"
  by (auto simp: json_array_def dest: json_items_inject)

section \<open>Reading properties with a type test\<close>

text \<open>
  \<open>getString\<close> and \<open>getNumber\<close> of \<open>src/src/projections/business-projections.ts\<close>.
\<close>

fun getString :: "json option \<Rightarrow> string option" where
  "getString (Some (JStr s)) = (if s \<noteq> [] then Some s else None)"
| "getString _ = None"

fun getNumber :: "json option \<Rightarrow> js_number option" where
  "getNumber (Some (JNum n)) = (if isFinite n then Some n else None)"
| "getNumber _ = None"

fun_cases getString_SomeE: "getString v = Some s"
fun_cases getNumber_SomeE: "getNumber v = Some n"

lemma getString_truthy: "getString v = Some s \<Longrightarrow> s \<noteq> []"
  by (auto elim!: getString_SomeE split: if_splits)

lemma getNumber_finite: "getNumber v = Some n \<Longrightarrow> isFinite n"
  by (auto elim!: getNumber_SomeE split: if_splits)

end
