(* ===== verification/EventContract.thy ===== *)
theory EventContract
  imports JsValue
begin

text \<open>
  The event contract of \<open>src/src/contracts/event-contract.ts\<close>: one datatype per enumeration,
  one record per object schema, and \<open>valid_event\<close>, the checks \<open>DataDynaEventSchema\<close>
  declares on the fields (minimum lengths, timestamps). The format zod accepts for
  \<open>datetime({ offset: true })\<close> is zod's own and is the parameter \<open>dt\<close>. Parsing an
  unknown value is zod's work too: a parser \<open>safeParse\<close> is an argument of the ingestion
  handler, and \<open>parses_contract\<close> states what the code relies on, that what it returns
  satisfies the declared checks.
\<close>

section \<open>Enumerations\<close>

datatype EventContractVersion = V_event_contract_v1

datatype EventSource = Src_mini_program | Src_pos | Src_mobile_hq | Src_datamesh | Src_system

datatype EventDomain =
  Dom_user_behavior | Dom_transaction_scene | Dom_merchant_action
| Dom_external_fact_snapshot | Dom_system_fact

datatype EventName =
  EN_mini_program_menu_item_viewed
| EN_mini_program_cart_updated
| EN_mini_program_checkout_started
| EN_pos_order_opened
| EN_pos_order_paid
| EN_pos_refund_recorded
| EN_mobile_hq_experiment_review_submitted
| EN_mobile_hq_experiment_review_viewed
| EN_mobile_hq_experiment_accepted
| EN_mobile_hq_experiment_modified
| EN_mobile_hq_experiment_rejected
| EN_mobile_hq_experiment_applied_recorded
| EN_mobile_hq_experiment_reverted_recorded
| EN_mobile_hq_merchant_preference_confirmed
| EN_datamesh_member_rfm_snapshot_imported
| EN_system_projection_rebuilt

datatype Environment = Env_local | Env_dev | Env_test | Env_staging | Env_prod

datatype ActorType = Act_customer | Act_cashier | Act_merchant | Act_system | Act_datamesh

datatype EntityType =
  Ent_store | Ent_member | Ent_cart | Ent_order | Ent_order_item | Ent_payment | Ent_refund
| Ent_menu_item | Ent_experiment_plan | Ent_experiment_review | Ent_merchant_preference
| Ent_rfm_snapshot | Ent_projection

datatype IdempotencyScope = Scope_producer | Scope_store | Scope_brand | Scope_global

text \<open>The literals of the enumerations whose text the code uses.\<close>

fun source_text :: "EventSource \<Rightarrow> string" where
  "source_text Src_mini_program = ''mini_program''"
| "source_text Src_pos = ''pos''"
| "source_text Src_mobile_hq = ''mobile_hq''"
| "source_text Src_datamesh = ''datamesh''"
| "source_text Src_system = ''system''"

fun environment_text :: "Environment \<Rightarrow> string" where
  "environment_text Env_local = ''local''"
| "environment_text Env_dev = ''dev''"
| "environment_text Env_test = ''test''"
| "environment_text Env_staging = ''staging''"
| "environment_text Env_prod = ''prod''"

fun scope_text :: "IdempotencyScope \<Rightarrow> string" where
  "scope_text Scope_producer = ''producer''"
| "scope_text Scope_store = ''store''"
| "scope_text Scope_brand = ''brand''"
| "scope_text Scope_global = ''global''"

fun domain_text :: "EventDomain \<Rightarrow> string" where
  "domain_text Dom_user_behavior = ''user_behavior''"
| "domain_text Dom_transaction_scene = ''transaction_scene''"
| "domain_text Dom_merchant_action = ''merchant_action''"
| "domain_text Dom_external_fact_snapshot = ''external_fact_snapshot''"
| "domain_text Dom_system_fact = ''system_fact''"

fun name_text :: "EventName \<Rightarrow> string" where
  "name_text EN_mini_program_menu_item_viewed = ''mini_program.menu_item_viewed''"
| "name_text EN_mini_program_cart_updated = ''mini_program.cart_updated''"
| "name_text EN_mini_program_checkout_started = ''mini_program.checkout_started''"
| "name_text EN_pos_order_opened = ''pos.order_opened''"
| "name_text EN_pos_order_paid = ''pos.order_paid''"
| "name_text EN_pos_refund_recorded = ''pos.refund_recorded''"
| "name_text EN_mobile_hq_experiment_review_submitted = ''mobile_hq.experiment_review_submitted''"
| "name_text EN_mobile_hq_experiment_review_viewed = ''mobile_hq.experiment_review_viewed''"
| "name_text EN_mobile_hq_experiment_accepted = ''mobile_hq.experiment_accepted''"
| "name_text EN_mobile_hq_experiment_modified = ''mobile_hq.experiment_modified''"
| "name_text EN_mobile_hq_experiment_rejected = ''mobile_hq.experiment_rejected''"
| "name_text EN_mobile_hq_experiment_applied_recorded = ''mobile_hq.experiment_applied_recorded''"
| "name_text EN_mobile_hq_experiment_reverted_recorded = ''mobile_hq.experiment_reverted_recorded''"
| "name_text EN_mobile_hq_merchant_preference_confirmed = ''mobile_hq.merchant_preference_confirmed''"
| "name_text EN_datamesh_member_rfm_snapshot_imported = ''datamesh.member_rfm_snapshot_imported''"
| "name_text EN_system_projection_rebuilt = ''system.projection_rebuilt''"

lemma source_text_inject [simp]: "source_text a = source_text b \<longleftrightarrow> a = b"
  by (cases a; cases b) simp_all

lemma environment_text_inject [simp]: "environment_text a = environment_text b \<longleftrightarrow> a = b"
  by (cases a; cases b) simp_all

lemma environment_text_ne_Nil [simp]: "environment_text a \<noteq> []"
  by (cases a) simp_all

lemma scope_text_inject [simp]: "scope_text a = scope_text b \<longleftrightarrow> a = b"
  by (cases a; cases b) simp_all

section \<open>Objects\<close>

record Producer =
  prd_service :: string
  prd_app :: "string option"
  prd_environment :: "Environment option"
  prd_emittedAt :: string
  prd_schemaRef :: "string option"

record Identity =
  idt_brandId :: "string option"
  idt_storeId :: "string option"
  idt_merchantId :: "string option"
  idt_memberId :: "string option"
  idt_customerId :: "string option"
  idt_deviceId :: "string option"
  idt_actorType :: "ActorType option"

record Correlation =
  cor_eventId :: string
  cor_traceId :: "string option"
  cor_sessionId :: "string option"
  cor_requestId :: "string option"
  cor_causationId :: "string option"
  cor_correlationId :: "string option"

record Entity =
  ent_type :: EntityType
  ent_id :: string
  ent_version :: "string option"

record Idempotency =
  idm_key :: string
  idm_scope :: IdempotencyScope

record DataDynaEvent =
  ev_version :: EventContractVersion
  ev_source :: EventSource
  ev_domain :: EventDomain
  ev_name :: EventName
  ev_occurredAt :: string
  ev_producer :: Producer
  ev_identity :: Identity
  ev_correlation :: Correlation
  ev_entity :: Entity
  ev_properties :: "(string \<times> json) list"
  ev_idempotency :: Idempotency

section \<open>The declared checks\<close>

text \<open>\<open>z.string().min(1)\<close> and its \<open>.optional()\<close>.\<close>

definition nonempty :: "string \<Rightarrow> bool" where
  "nonempty s \<longleftrightarrow> s \<noteq> []"

definition optional_nonempty :: "string option \<Rightarrow> bool" where
  "optional_nonempty s \<longleftrightarrow> s \<noteq> Some []"

lemma optional_nonempty_simps [simp]:
  "optional_nonempty None" "optional_nonempty (Some s) \<longleftrightarrow> s \<noteq> []"
  by (simp_all add: optional_nonempty_def)

definition valid_producer :: "(string \<Rightarrow> bool) \<Rightarrow> Producer \<Rightarrow> bool" where
  "valid_producer dt p \<longleftrightarrow>
     nonempty (prd_service p) \<and> optional_nonempty (prd_app p) \<and> dt (prd_emittedAt p)
     \<and> optional_nonempty (prd_schemaRef p)"

definition valid_identity :: "Identity \<Rightarrow> bool" where
  "valid_identity i \<longleftrightarrow>
     optional_nonempty (idt_brandId i) \<and> optional_nonempty (idt_storeId i)
     \<and> optional_nonempty (idt_merchantId i) \<and> optional_nonempty (idt_memberId i)
     \<and> optional_nonempty (idt_customerId i) \<and> optional_nonempty (idt_deviceId i)"

definition valid_correlation :: "Correlation \<Rightarrow> bool" where
  "valid_correlation c \<longleftrightarrow>
     nonempty (cor_eventId c) \<and> optional_nonempty (cor_traceId c)
     \<and> optional_nonempty (cor_sessionId c) \<and> optional_nonempty (cor_requestId c)
     \<and> optional_nonempty (cor_causationId c) \<and> optional_nonempty (cor_correlationId c)"

definition valid_entity :: "Entity \<Rightarrow> bool" where
  "valid_entity e \<longleftrightarrow> nonempty (ent_id e) \<and> optional_nonempty (ent_version e)"

definition valid_idempotency :: "Idempotency \<Rightarrow> bool" where
  "valid_idempotency i \<longleftrightarrow> nonempty (idm_key i)"

definition valid_event :: "(string \<Rightarrow> bool) \<Rightarrow> DataDynaEvent \<Rightarrow> bool" where
  "valid_event dt e \<longleftrightarrow>
     dt (ev_occurredAt e) \<and> valid_producer dt (ev_producer e) \<and> valid_identity (ev_identity e)
     \<and> valid_correlation (ev_correlation e) \<and> valid_entity (ev_entity e)
     \<and> valid_idempotency (ev_idempotency e)"

text \<open>
  What the handlers rely on: a parse that succeeds returns an event with the declared checks.
  A failed parse returns the messages of its issues.
\<close>

definition parses_contract ::
  "(string \<Rightarrow> bool) \<Rightarrow> ('payload \<Rightarrow> string list + DataDynaEvent) \<Rightarrow> bool" where
  "parses_contract dt safeParse \<longleftrightarrow> (\<forall>p e. safeParse p = Inr e \<longrightarrow> valid_event dt e)"

lemma parses_contractD: "parses_contract dt safeParse \<Longrightarrow> safeParse p = Inr e \<Longrightarrow> valid_event dt e"
  by (auto simp: parses_contract_def)

text \<open>
  \<open>parseDataDynaEvent\<close> on a value that already has the shape of an event: it returns the
  event or throws.
\<close>

definition parseDataDynaEvent :: "(string \<Rightarrow> bool) \<Rightarrow> DataDynaEvent \<Rightarrow> DataDynaEvent option" where
  "parseDataDynaEvent dt e = (if valid_event dt e then Some e else None)"

lemma valid_event_identity:
  "valid_event dt e \<Longrightarrow> idt_merchantId (ev_identity e) \<noteq> Some []"
  "valid_event dt e \<Longrightarrow> idt_storeId (ev_identity e) \<noteq> Some []"
  by (auto simp: valid_event_def valid_identity_def optional_nonempty_def)

end
