(* ===== verification/RawEventStore.thy ===== *)
theory RawEventStore
  imports EventContract
begin

text \<open>
  The raw event store of \<open>src/src/ingestion/raw-event-store.ts\<close>: the records, the
  idempotency identity of an event, and \<open>InMemoryRawEventStore\<close> with its two maps. The
  state is the record \<open>mem_store\<close>; \<open>now\<close> is what \<open>new Date().toISOString()\<close>
  reads. The invariant \<open>mem_inv\<close> says how the two maps agree.
\<close>

section \<open>Records\<close>

record RawEventRecord =
  re_eventId :: string
  re_idempotencyKey :: string
  re_idempotencyScope :: IdempotencyScope
  re_contractVersion :: EventContractVersion
  re_source :: EventSource
  re_domain :: EventDomain
  re_name :: EventName
  re_occurredAt :: string
  re_receivedAt :: string
  re_producerService :: string
  re_producerEnvironment :: "Environment option"
  re_credentialId :: "string option"
  re_brandId :: "string option"
  re_merchantId :: "string option"
  re_storeId :: "string option"
  re_entityType :: EntityType
  re_entityId :: string
  re_properties :: "(string \<times> json) list"
  re_event :: DataDynaEvent

text \<open>The audited payload is what was posted, or the parsed event a tenant check refused.\<close>

datatype 'p audited_payload = PostedPayload 'p | ParsedPayload DataDynaEvent

record InvalidRawEventAuditContext =
  au_credentialId :: "string option"
  au_merchantId :: "string option"
  au_storeId :: "string option"
  au_producerService :: "string option"
  au_producerEnvironment :: "string option"
  au_source :: "string option"
  au_reasonCode :: "string option"

definition no_audit_context :: InvalidRawEventAuditContext where
  "no_audit_context = \<lparr>au_credentialId = None, au_merchantId = None, au_storeId = None,
     au_producerService = None, au_producerEnvironment = None, au_source = None,
     au_reasonCode = None\<rparr>"

record 'p InvalidRawEventRecord =
  ir_receivedAt :: string
  ir_reason :: string
  ir_payload :: "'p audited_payload"
  ir_credentialId :: "string option"
  ir_merchantId :: "string option"
  ir_storeId :: "string option"
  ir_producerService :: "string option"
  ir_producerEnvironment :: "string option"
  ir_source :: "string option"
  ir_reasonCode :: "string option"

record PersistAcceptedResult =
  pr_record :: RawEventRecord
  pr_duplicate :: bool

datatype store_error =
  EventIdConflict string
| DatabaseError string

section \<open>Idempotency identity\<close>

definition opt_environment_text :: "Environment option \<Rightarrow> string" where
  "opt_environment_text e = (case e of None \<Rightarrow> [] | Some v \<Rightarrow> environment_text v)"

lemma opt_environment_text_inject [simp]:
  "opt_environment_text a = opt_environment_text b \<longleftrightarrow> a = b"
  by (cases a; cases b) (simp_all add: opt_environment_text_def, metis environment_text_ne_Nil)

definition rawEventIdempotencyIdentity :: "DataDynaEvent \<Rightarrow> string" where
  "rawEventIdempotencyIdentity e = json_array
     [or_else (idt_merchantId (ev_identity e)) [],
      or_else (idt_storeId (ev_identity e)) [],
      prd_service (ev_producer e),
      opt_environment_text (prd_environment (ev_producer e)),
      source_text (ev_source e),
      scope_text (idm_scope (ev_idempotency e)),
      idm_key (ev_idempotency e)]"

definition recordMatchesTenantIdempotency :: "RawEventRecord \<Rightarrow> DataDynaEvent \<Rightarrow> bool" where
  "recordMatchesTenantIdempotency r e \<longleftrightarrow>
     or_else (re_merchantId r) [] = or_else (idt_merchantId (ev_identity e)) []
     \<and> or_else (re_storeId r) [] = or_else (idt_storeId (ev_identity e)) []
     \<and> re_producerService r = prd_service (ev_producer e)
     \<and> opt_environment_text (re_producerEnvironment r)
        = opt_environment_text (prd_environment (ev_producer e))
     \<and> re_source r = ev_source e
     \<and> re_idempotencyScope r = idm_scope (ev_idempotency e)
     \<and> re_idempotencyKey r = idm_key (ev_idempotency e)"

section \<open>The record of an event\<close>

definition rawEventRecord :: "string \<Rightarrow> string option \<Rightarrow> DataDynaEvent \<Rightarrow> RawEventRecord" where
  "rawEventRecord now credentialId e = \<lparr>
     re_eventId = cor_eventId (ev_correlation e),
     re_idempotencyKey = idm_key (ev_idempotency e),
     re_idempotencyScope = idm_scope (ev_idempotency e),
     re_contractVersion = ev_version e,
     re_source = ev_source e,
     re_domain = ev_domain e,
     re_name = ev_name e,
     re_occurredAt = ev_occurredAt e,
     re_receivedAt = now,
     re_producerService = prd_service (ev_producer e),
     re_producerEnvironment = prd_environment (ev_producer e),
     re_credentialId = credentialId,
     re_brandId = idt_brandId (ev_identity e),
     re_merchantId = idt_merchantId (ev_identity e),
     re_storeId = idt_storeId (ev_identity e),
     re_entityType = ent_type (ev_entity e),
     re_entityId = ent_id (ev_entity e),
     re_properties = ev_properties e,
     re_event = e\<rparr>"

text \<open>
  The identity a stored record carries in its columns. The two ways the code compares
  identities agree: a record matches an event exactly when this string is the composite key of
  the event.
\<close>

definition record_identity :: "RawEventRecord \<Rightarrow> string" where
  "record_identity r = json_array
     [or_else (re_merchantId r) [], or_else (re_storeId r) [], re_producerService r,
      opt_environment_text (re_producerEnvironment r), source_text (re_source r),
      scope_text (re_idempotencyScope r), re_idempotencyKey r]"

lemma record_matches_iff_identity:
  "recordMatchesTenantIdempotency r e \<longleftrightarrow> record_identity r = rawEventIdempotencyIdentity e"
  by (simp add: recordMatchesTenantIdempotency_def rawEventIdempotencyIdentity_def record_identity_def)

lemma rawEventRecord_identity [simp]:
  "record_identity (rawEventRecord now c e) = rawEventIdempotencyIdentity e"
  "re_eventId (rawEventRecord now c e) = cor_eventId (ev_correlation e)"
  "re_event (rawEventRecord now c e) = e"
  by (simp_all add: record_identity_def rawEventIdempotencyIdentity_def rawEventRecord_def)

section \<open>InMemoryRawEventStore\<close>

record 'p mem_store =
  acceptedByIdempotencyIdentity :: "(string, RawEventRecord) jsmap"
  acceptedByEventId :: "(string, RawEventRecord) jsmap"
  invalidEvents :: "'p InvalidRawEventRecord list"

definition mem_new :: "'p mem_store" where
  "mem_new = \<lparr>acceptedByIdempotencyIdentity = [], acceptedByEventId = [], invalidEvents = []\<rparr>"

definition mem_persistAccepted ::
  "string \<Rightarrow> DataDynaEvent \<Rightarrow> string option \<Rightarrow> 'p mem_store
   \<Rightarrow> (store_error + PersistAcceptedResult) \<times> 'p mem_store" where
  "mem_persistAccepted now e credentialId s =
     (let idempotencyIdentity = rawEventIdempotencyIdentity e;
          eventId = cor_eventId (ev_correlation e)
      in case map_get (acceptedByEventId s) eventId of
           Some existingByEventId \<Rightarrow>
             (if recordMatchesTenantIdempotency existingByEventId e
              then (Inr \<lparr>pr_record = existingByEventId, pr_duplicate = True\<rparr>, s)
              else (Inl (EventIdConflict eventId), s))
         | None \<Rightarrow>
             (case map_get (acceptedByIdempotencyIdentity s) idempotencyIdentity of
                Some existingByIdempotency \<Rightarrow>
                  (Inr \<lparr>pr_record = existingByIdempotency, pr_duplicate = True\<rparr>, s)
              | None \<Rightarrow>
                  (let record = rawEventRecord now credentialId e
                   in (Inr \<lparr>pr_record = record, pr_duplicate = False\<rparr>,
                       s\<lparr>acceptedByIdempotencyIdentity :=
                            map_set idempotencyIdentity record (acceptedByIdempotencyIdentity s),
                          acceptedByEventId := map_set eventId record (acceptedByEventId s)\<rparr>))))"

definition invalidRawEventRecord ::
  "string \<Rightarrow> 'p audited_payload \<Rightarrow> string \<Rightarrow> InvalidRawEventAuditContext option
   \<Rightarrow> 'p InvalidRawEventRecord" where
  "invalidRawEventRecord now payload reason ctx =
     (let auditContext = or_else ctx no_audit_context
      in \<lparr>ir_receivedAt = now, ir_reason = reason, ir_payload = payload,
          ir_credentialId = au_credentialId auditContext,
          ir_merchantId = au_merchantId auditContext,
          ir_storeId = au_storeId auditContext,
          ir_producerService = au_producerService auditContext,
          ir_producerEnvironment = au_producerEnvironment auditContext,
          ir_source = au_source auditContext,
          ir_reasonCode = au_reasonCode auditContext\<rparr>)"

definition mem_persistInvalid ::
  "string \<Rightarrow> 'p audited_payload \<Rightarrow> string \<Rightarrow> InvalidRawEventAuditContext option \<Rightarrow> 'p mem_store
   \<Rightarrow> (store_error + 'p InvalidRawEventRecord) \<times> 'p mem_store" where
  "mem_persistInvalid now payload reason auditContext s =
     (let record = invalidRawEventRecord now payload reason auditContext
      in (Inr record, s\<lparr>invalidEvents := invalidEvents s @ [record]\<rparr>))"

definition mem_accepted :: "'p mem_store \<Rightarrow> RawEventRecord list" where
  "mem_accepted s = map_values (acceptedByIdempotencyIdentity s)"

definition mem_invalid :: "'p mem_store \<Rightarrow> 'p InvalidRawEventRecord list" where
  "mem_invalid s = invalidEvents s"

section \<open>The contract of a raw event store\<close>

text \<open>
  \<open>interface RawEventStore\<close>, with the laws its users rely on. \<open>accepted\<close> lists what
  is stored, in order; \<open>fresh_record\<close> is the record the store makes of a new event. An event
  is new when neither its id nor its idempotency identity is stored; it is a duplicate when its
  identity is stored and its id does not belong to another identity; otherwise it is refused.
  A database may also refuse an event it cannot represent (\<open>storable\<close>,
  \<open>auditable\<close>), and keeps a payload in its own form (\<open>kept_payload\<close>). The laws for
  duplicates are for events whose tenant fields are not the empty string, which the event contract
  guarantees (\<open>valid_event_no_empty_tenant\<close>): SQL tells \<open>NULL\<close> and the empty string apart
  where the composite key does not.
\<close>

definition no_empty_tenant :: "DataDynaEvent \<Rightarrow> bool" where
  "no_empty_tenant e \<longleftrightarrow>
     idt_merchantId (ev_identity e) \<noteq> Some [] \<and> idt_storeId (ev_identity e) \<noteq> Some []"

lemma valid_event_no_empty_tenant: "valid_event dt e \<Longrightarrow> no_empty_tenant e"
  by (simp add: no_empty_tenant_def valid_event_identity)

text \<open>
  The abstract store: which identities and event ids are taken, in the order they were taken, and
  whether a post is new, a duplicate or refused.
\<close>

datatype accept_answer = AnswerNew | AnswerDuplicate | AnswerRefused

definition spec_accept ::
  "(DataDynaEvent \<Rightarrow> bool) \<Rightarrow> DataDynaEvent \<Rightarrow> (string \<times> string) list
   \<Rightarrow> accept_answer \<times> (string \<times> string) list" where
  "spec_accept storable e taken =
     (let identity = rawEventIdempotencyIdentity e; eventId = cor_eventId (ev_correlation e)
      in if \<not> storable e \<or> (\<exists>(k, i) \<in> set taken. i = eventId \<and> k \<noteq> identity) then (AnswerRefused, taken)
         else if identity \<in> fst ` set taken then (AnswerDuplicate, taken)
         else (AnswerNew, taken @ [(identity, eventId)]))"

definition taken_by :: "RawEventRecord list \<Rightarrow> (string \<times> string) list" where
  "taken_by rs = map (\<lambda>r. (record_identity r, re_eventId r)) rs"

lemma taken_by_image: "fst ` set (taken_by rs) = record_identity ` set rs"
  by (simp add: taken_by_def image_image)

lemma taken_by_ex:
  "(\<exists>(k, i) \<in> set (taken_by rs). P k i) \<longleftrightarrow> (\<exists>r \<in> set rs. P (record_identity r) (re_eventId r))"
  by (simp add: taken_by_def)

lemma taken_by_append: "taken_by (rs @ [r]) = taken_by rs @ [(record_identity r, re_eventId r)]"
  by (simp add: taken_by_def)

fun answer_of :: "store_error + PersistAcceptedResult \<Rightarrow> accept_answer" where
  "answer_of (Inl err) = AnswerRefused"
| "answer_of (Inr res) = (if pr_duplicate res then AnswerDuplicate else AnswerNew)"

text \<open>A sequence of posts, each with the clock and the credential of its moment.\<close>

fun persist_all ::
  "(string \<Rightarrow> DataDynaEvent \<Rightarrow> string option \<Rightarrow> 's \<Rightarrow> (store_error + PersistAcceptedResult) \<times> 's)
   \<Rightarrow> (string \<times> DataDynaEvent \<times> string option) list \<Rightarrow> 's \<Rightarrow> accept_answer list \<times> 's" where
  "persist_all persist [] s = ([], s)"
| "persist_all persist ((now, e, c) # posts) s =
     (let (res, s1) = persist now e c s; (answers, s2) = persist_all persist posts s1
      in (answer_of res # answers, s2))"

fun spec_accept_all ::
  "(DataDynaEvent \<Rightarrow> bool) \<Rightarrow> DataDynaEvent list \<Rightarrow> (string \<times> string) list
   \<Rightarrow> accept_answer list \<times> (string \<times> string) list" where
  "spec_accept_all storable [] taken = ([], taken)"
| "spec_accept_all storable (e # es) taken =
     (let (a, taken1) = spec_accept storable e taken; (as, taken2) = spec_accept_all storable es taken1
      in (a # as, taken2))"

locale raw_event_store =
  fixes persistAccepted :: "string \<Rightarrow> DataDynaEvent \<Rightarrow> string option \<Rightarrow> 's
           \<Rightarrow> (store_error + PersistAcceptedResult) \<times> 's"
    and persistInvalid :: "string \<Rightarrow> 'p audited_payload \<Rightarrow> string
           \<Rightarrow> InvalidRawEventAuditContext option \<Rightarrow> 's
           \<Rightarrow> (store_error + 'p InvalidRawEventRecord) \<times> 's"
    and accepted :: "'s \<Rightarrow> RawEventRecord list"
    and invalid :: "'s \<Rightarrow> 'p InvalidRawEventRecord list"
    and fresh_record :: "string \<Rightarrow> string option \<Rightarrow> DataDynaEvent \<Rightarrow> RawEventRecord"
    and storable :: "DataDynaEvent \<Rightarrow> bool"
    and auditable :: "'p audited_payload \<Rightarrow> string \<Rightarrow> InvalidRawEventAuditContext option \<Rightarrow> bool"
    and kept_payload :: "'p audited_payload \<Rightarrow> 'p audited_payload"
    and inv :: "'s \<Rightarrow> bool"
  assumes fresh_identity: "record_identity (fresh_record now c e) = rawEventIdempotencyIdentity e"
    and fresh_eventId: "re_eventId (fresh_record now c e) = cor_eventId (ev_correlation e)"
    and inv_distinct_identity: "inv s \<Longrightarrow> distinct (map record_identity (accepted s))"
    and inv_distinct_eventId: "inv s \<Longrightarrow> distinct (map re_eventId (accepted s))"
    and accept_new:
      "inv s \<Longrightarrow> storable e \<Longrightarrow> no_empty_tenant e
       \<Longrightarrow> cor_eventId (ev_correlation e) \<notin> re_eventId ` set (accepted s)
       \<Longrightarrow> rawEventIdempotencyIdentity e \<notin> record_identity ` set (accepted s)
       \<Longrightarrow> \<exists>s'. persistAccepted now e c s
              = (Inr \<lparr>pr_record = fresh_record now c e, pr_duplicate = False\<rparr>, s')
            \<and> inv s' \<and> accepted s' = accepted s @ [fresh_record now c e] \<and> invalid s' = invalid s"
    and accept_duplicate:
      "inv s \<Longrightarrow> storable e \<Longrightarrow> no_empty_tenant e
       \<Longrightarrow> r \<in> set (accepted s) \<Longrightarrow> record_identity r = rawEventIdempotencyIdentity e
       \<Longrightarrow> (\<And>q. q \<in> set (accepted s) \<Longrightarrow> re_eventId q = cor_eventId (ev_correlation e) \<Longrightarrow> q = r)
       \<Longrightarrow> persistAccepted now e c s = (Inr \<lparr>pr_record = r, pr_duplicate = True\<rparr>, s)"
    and accept_conflict:
      "inv s \<Longrightarrow> q \<in> set (accepted s) \<Longrightarrow> re_eventId q = cor_eventId (ev_correlation e)
       \<Longrightarrow> record_identity q \<noteq> rawEventIdempotencyIdentity e
       \<Longrightarrow> \<exists>err. persistAccepted now e c s = (Inl err, s)"
    and accept_unstorable:
      "inv s \<Longrightarrow> \<not> storable e \<Longrightarrow> \<exists>err. persistAccepted now e c s = (Inl err, s)"
    and audit_invalid:
      "inv s \<Longrightarrow> auditable p reason ctx
       \<Longrightarrow> \<exists>s'. persistInvalid now p reason ctx s
                = (Inr (invalidRawEventRecord now (kept_payload p) reason ctx), s')
            \<and> inv s' \<and> accepted s' = accepted s
            \<and> invalid s' = invalid s @ [invalidRawEventRecord now (kept_payload p) reason ctx]"
    and audit_refused:
      "inv s \<Longrightarrow> \<not> auditable p reason ctx \<Longrightarrow> \<exists>err. persistInvalid now p reason ctx s = (Inl err, s)"
begin

lemma stored_unique:
  "inv s \<Longrightarrow> q \<in> set (accepted s) \<Longrightarrow> r \<in> set (accepted s) \<Longrightarrow> record_identity q = record_identity r
   \<Longrightarrow> q = r"
  using inv_distinct_identity by (auto simp: distinct_map dest: inj_onD)

text \<open>Why an event may be refused, and that the three cases are all there is.\<close>

definition refusable :: "'s \<Rightarrow> DataDynaEvent \<Rightarrow> bool" where
  "refusable s e \<longleftrightarrow>
     \<not> storable e
     \<or> (\<exists>q \<in> set (accepted s). re_eventId q = cor_eventId (ev_correlation e)
           \<and> record_identity q \<noteq> rawEventIdempotencyIdentity e)"

lemma refusable_refused: "inv s \<Longrightarrow> refusable s e \<Longrightarrow> \<exists>err. persistAccepted now e c s = (Inl err, s)"
  using accept_conflict accept_unstorable by (fastforce simp: refusable_def)

lemma persist_cases [consumes 2, case_names new duplicate refused]:
  assumes "inv s" "no_empty_tenant e"
  obtains (new) s' where
      "\<not> refusable s e" "cor_eventId (ev_correlation e) \<notin> re_eventId ` set (accepted s)"
      "rawEventIdempotencyIdentity e \<notin> record_identity ` set (accepted s)"
      "persistAccepted now e c s
         = (Inr \<lparr>pr_record = fresh_record now c e, pr_duplicate = False\<rparr>, s')"
      "inv s'" "accepted s' = accepted s @ [fresh_record now c e]" "invalid s' = invalid s"
    | (duplicate) r where
      "\<not> refusable s e" "r \<in> set (accepted s)" "record_identity r = rawEventIdempotencyIdentity e"
      "persistAccepted now e c s = (Inr \<lparr>pr_record = r, pr_duplicate = True\<rparr>, s)"
    | (refused) err where
      "refusable s e" "persistAccepted now e c s = (Inl err, s)"
proof -
  let ?id = "cor_eventId (ev_correlation e)" and ?key = "rawEventIdempotencyIdentity e"
  show thesis
  proof (cases "refusable s e")
    case True
    with refusable_refused [OF assms(1)] refused show thesis by metis
  next
    case ok: False
    then have st: "storable e" by (simp add: refusable_def)
    show thesis
    proof (cases "?key \<in> record_identity ` set (accepted s)")
      case True
      then obtain r where r: "r \<in> set (accepted s)" "record_identity r = ?key" by auto
      have "q = r" if "q \<in> set (accepted s)" "re_eventId q = ?id" for q
        using that ok r by (intro stored_unique [OF assms(1)]) (auto simp: refusable_def)
      from accept_duplicate [OF assms(1) st assms(2) r this] show thesis using duplicate [OF ok r] by blast
    next
      case False
      with ok have "?id \<notin> re_eventId ` set (accepted s)" by (auto simp: image_iff refusable_def)
      from accept_new [OF assms(1) st assms(2) this False, of now c] show thesis
        using new [OF ok \<open>?id \<notin> _\<close> False] by blast
    qed
  qed
qed

text \<open>Nothing stored is ever lost or changed, and the invariant is kept.\<close>

lemma persist_keeps:
  assumes "inv s" "no_empty_tenant e" "persistAccepted now e c s = (res, s')"
  shows "inv s' \<and> (\<exists>more. accepted s' = accepted s @ more) \<and> invalid s' = invalid s"
  using assms(1,2) by (cases rule: persist_cases [where now = now and c = c])
    (use assms in simp_all)

text \<open>What an acknowledgement means: the returned record is stored under the event's identity.\<close>

lemma persist_ack_stored:
  assumes "inv s" "no_empty_tenant e" "persistAccepted now e c s = (Inr res, s')"
  shows "pr_record res \<in> set (accepted s')
    \<and> record_identity (pr_record res) = rawEventIdempotencyIdentity e
    \<and> (pr_duplicate res \<longleftrightarrow> accepted s' = accepted s)"
  using assms(1,2) by (cases rule: persist_cases [where now = now and c = c])
    (use assms fresh_identity in auto)

text \<open>One operation, and a whole run, refine the abstract store.\<close>

lemma spec_accept_taken:
  "spec_accept storable e (taken_by (accepted s)) =
     (if refusable s e then (AnswerRefused, taken_by (accepted s))
      else if rawEventIdempotencyIdentity e \<in> record_identity ` set (accepted s)
      then (AnswerDuplicate, taken_by (accepted s))
      else (AnswerNew, taken_by (accepted s)
              @ [(rawEventIdempotencyIdentity e, cor_eventId (ev_correlation e))]))"
  by (simp add: spec_accept_def Let_def refusable_def taken_by_image taken_by_ex)

lemma persist_refines:
  assumes "inv s" "no_empty_tenant e" "persistAccepted now e c s = (res, s')"
  shows "spec_accept storable e (taken_by (accepted s)) = (answer_of res, taken_by (accepted s'))"
  using assms(1,2)
proof (cases rule: persist_cases [where now = now and c = c])
  case (new t)
  with assms(3) have "s' = t" "res = Inr \<lparr>pr_record = fresh_record now c e, pr_duplicate = False\<rparr>"
    by simp_all
  with new show ?thesis
    by (simp add: spec_accept_taken taken_by_append fresh_identity fresh_eventId)
next
  case (duplicate r)
  with assms(3) have "s' = s" "res = Inr \<lparr>pr_record = r, pr_duplicate = True\<rparr>" by simp_all
  moreover have "rawEventIdempotencyIdentity e \<in> record_identity ` set (accepted s)"
    using duplicate(2,3) by (metis imageI)
  ultimately show ?thesis using duplicate(1) by (simp add: spec_accept_taken)
next
  case (refused err)
  with assms(3) have "s' = s" "res = Inl err" by simp_all
  with refused show ?thesis by (simp add: spec_accept_taken)
qed

lemma persist_all_refines:
  "inv s \<Longrightarrow> \<forall>(now, e, c) \<in> set posts. no_empty_tenant e
   \<Longrightarrow> persist_all persistAccepted posts s = (as, s')
   \<Longrightarrow> spec_accept_all storable (map (\<lambda>(now, e, c). e) posts) (taken_by (accepted s))
         = (as, taken_by (accepted s')) \<and> inv s'"
proof (induction posts arbitrary: s as)
  case (Cons p posts)
  obtain now e c where p: "p = (now, e, c)" by (cases p)
  obtain res s1 where 1: "persistAccepted now e c s = (res, s1)" by fastforce
  with Cons.prems p obtain as' where
    2: "persist_all persistAccepted posts s1 = (as', s')" "as = answer_of res # as'"
    by (auto simp: Let_def split: prod.splits)
  have e: "no_empty_tenant e" using Cons.prems(2) p by simp
  have "inv s1" using persist_keeps [OF Cons.prems(1) e 1] by simp
  from Cons.IH [OF this _ 2(1)] persist_refines [OF Cons.prems(1) e 1] 2(2) Cons.prems(2) p
  show ?case by (simp add: Let_def)
qed simp

text \<open>
  Posting again after an acknowledgement, at any later time and under any credential, returns
  the record of the first time, marked as a duplicate, and changes nothing.
\<close>

lemma persist_again:
  assumes "inv s" "no_empty_tenant e" "persistAccepted now e c s = (Inr res, s')"
  shows "persistAccepted now' e c' s' = (Inr \<lparr>pr_record = pr_record res, pr_duplicate = True\<rparr>, s')"
proof -
  have inv': "inv s'" using persist_keeps [OF assms] by simp
  note stored = persist_ack_stored [OF assms]
  have "\<not> refusable s' e"
    using assms(1,2)
  proof (cases rule: persist_cases [where now = now and c = c])
    case (new t)
    then have acc: "accepted s' = accepted s @ [fresh_record now c e]"
      using assms(3) by simp
    show ?thesis
      unfolding refusable_def acc using new(1,2) by (auto simp: refusable_def fresh_identity)
  qed (use assms(3) in simp_all)
  then have "storable e"
    and only: "\<And>q. q \<in> set (accepted s') \<Longrightarrow> re_eventId q = cor_eventId (ev_correlation e)
      \<Longrightarrow> q = pr_record res"
    using stored by (auto simp: refusable_def intro!: stored_unique [OF inv'])
  then show ?thesis
    using stored assms(2) by (intro accept_duplicate [OF inv']) auto
qed

end

section \<open>The in-memory store keeps the contract\<close>

definition mem_inv :: "'p mem_store \<Rightarrow> bool" where
  "mem_inv s \<longleftrightarrow>
     acceptedByIdempotencyIdentity s = map (\<lambda>r. (record_identity r, r)) (mem_accepted s)
     \<and> acceptedByEventId s = map (\<lambda>r. (re_eventId r, r)) (mem_accepted s)
     \<and> distinct (map record_identity (mem_accepted s))
     \<and> distinct (map re_eventId (mem_accepted s))"

lemma map_of_keyed: "map_of (map (\<lambda>r. (f r, r)) rs) k = Some r \<Longrightarrow> r \<in> set rs \<and> f r = k"
  by (induction rs) (auto split: if_splits)

lemma map_of_keyed_None [simp]: "map_of (map (\<lambda>r. (f r, r)) rs) k = None \<longleftrightarrow> k \<notin> f ` set rs"
  by (induction rs) auto

lemma map_of_keyed_Some:
  "distinct (map f rs) \<Longrightarrow> r \<in> set rs \<Longrightarrow> map_of (map (\<lambda>r. (f r, r)) rs) (f r) = Some r"
  by (induction rs) (auto, metis image_eqI)

lemma mem_new_inv: "mem_inv mem_new"
  by (simp add: mem_inv_def mem_new_def mem_accepted_def)

lemma mem_accept_new:
  assumes "mem_inv s" "cor_eventId (ev_correlation e) \<notin> re_eventId ` set (mem_accepted s)"
    "rawEventIdempotencyIdentity e \<notin> record_identity ` set (mem_accepted s)"
  shows "\<exists>s'. mem_persistAccepted now e c s
              = (Inr \<lparr>pr_record = rawEventRecord now c e, pr_duplicate = False\<rparr>, s')
            \<and> mem_inv s' \<and> mem_accepted s' = mem_accepted s @ [rawEventRecord now c e]
            \<and> mem_invalid s' = mem_invalid s"
proof -
  let ?key = "rawEventIdempotencyIdentity e" and ?id = "cor_eventId (ev_correlation e)"
  let ?r = "rawEventRecord now c e"
  let ?s' = "s\<lparr>acceptedByIdempotencyIdentity := acceptedByIdempotencyIdentity s @ [(?key, ?r)],
                acceptedByEventId := acceptedByEventId s @ [(?id, ?r)]\<rparr>"
  have none: "map_get (acceptedByEventId s) ?id = None"
    "map_get (acceptedByIdempotencyIdentity s) ?key = None"
    using assms by (simp_all add: mem_inv_def)
  have acc: "mem_accepted ?s' = mem_accepted s @ [?r]"
    by (simp add: mem_accepted_def)
  have maps: "acceptedByIdempotencyIdentity ?s' = map (\<lambda>r. (record_identity r, r)) (mem_accepted s @ [?r])"
    "acceptedByEventId ?s' = map (\<lambda>r. (re_eventId r, r)) (mem_accepted s @ [?r])"
    using assms(1) by (simp_all add: mem_inv_def)
  have "mem_inv ?s'"
    unfolding mem_inv_def acc maps using assms by (simp add: mem_inv_def)
  moreover have "mem_persistAccepted now e c s = (Inr \<lparr>pr_record = ?r, pr_duplicate = False\<rparr>, ?s')"
    using none by (simp add: mem_persistAccepted_def Let_def map_set_fresh)
  ultimately show ?thesis using acc by (auto simp: mem_invalid_def)
qed

lemma mem_accept_duplicate:
  assumes "mem_inv s" "r \<in> set (mem_accepted s)"
    "record_identity r = rawEventIdempotencyIdentity e"
    "\<And>q. q \<in> set (mem_accepted s) \<Longrightarrow> re_eventId q = cor_eventId (ev_correlation e) \<Longrightarrow> q = r"
  shows "mem_persistAccepted now e c s = (Inr \<lparr>pr_record = r, pr_duplicate = True\<rparr>, s)"
proof (cases "map_get (acceptedByEventId s) (cor_eventId (ev_correlation e))")
  case None
  have "map_get (acceptedByIdempotencyIdentity s) (rawEventIdempotencyIdentity e) = Some r"
    using assms map_of_keyed_Some [of record_identity "mem_accepted s" r]
    by (simp add: mem_inv_def)
  with None show ?thesis by (simp add: mem_persistAccepted_def Let_def)
next
  case (Some q)
  moreover have "acceptedByEventId s = map (\<lambda>r. (re_eventId r, r)) (mem_accepted s)"
    using assms(1) by (simp add: mem_inv_def)
  ultimately have "q \<in> set (mem_accepted s) \<and> re_eventId q = cor_eventId (ev_correlation e)"
    by (intro map_of_keyed) simp
  then have "q = r" using assms(4) by simp
  with Some assms(3) show ?thesis
    by (simp add: mem_persistAccepted_def record_matches_iff_identity)
qed

lemma mem_accept_conflict:
  assumes "mem_inv s" "q \<in> set (mem_accepted s)" "re_eventId q = cor_eventId (ev_correlation e)"
    "record_identity q \<noteq> rawEventIdempotencyIdentity e"
  shows "mem_persistAccepted now e c s = (Inl (EventIdConflict (cor_eventId (ev_correlation e))), s)"
proof -
  have "map_get (acceptedByEventId s) (cor_eventId (ev_correlation e)) = Some q"
    using assms map_of_keyed_Some [of re_eventId "mem_accepted s" q] by (simp add: mem_inv_def)
  with assms(4) show ?thesis
    by (simp add: mem_persistAccepted_def record_matches_iff_identity)
qed

interpretation mem: raw_event_store mem_persistAccepted mem_persistInvalid mem_accepted mem_invalid
    rawEventRecord "\<lambda>_. True" "\<lambda>_ _ _. True" "\<lambda>p. p" mem_inv
proof (unfold_locales, goal_cases)
  case (5 s e now c)
  then show ?case by (intro mem_accept_new) auto
next
  case (6 s e r now c)
  then show ?case by (intro mem_accept_duplicate) auto
next
  case (7 s q e now c)
  then show ?case by (blast intro: mem_accept_conflict)
next
  case (9 s p reason ctx now)
  then show ?case
    by (simp add: mem_persistInvalid_def mem_inv_def mem_accepted_def mem_invalid_def Let_def)
qed (simp_all add: mem_inv_def)

end
