(* ===== verification/Ingestion.thy ===== *)
theory Ingestion
  imports RawEventStore
begin

text \<open>
  The ingestion handlers of \<open>src/src/ingestion/event-handlers.ts\<close> and the product
  analytics mirror of \<open>src/src/ingestion/posthog-sink.ts\<close>. The store is passed in, as the
  code passes it: a record \<open>store_ops\<close> of its two operations. The state is the store's own
  and the list of events handed to the PostHog sink, which is fire and forget. An exception of
  the store is an \<open>Inl\<close>. The lemmas about the handlers are proved once for every store
  that keeps the contract \<open>raw_event_store\<close>.
\<close>

section \<open>PostHog mirror\<close>

record PostHogSinkEvent =
  ph_event :: EventName
  ph_distinctId :: string
  ph_properties :: "(string \<times> json) list"

definition set_if_truthy ::
  "string \<Rightarrow> string option \<Rightarrow> (string \<times> json) list \<Rightarrow> (string \<times> json) list" where
  "set_if_truthy k v obj =
     (if truthy v then map_set k (JStr (or_else v [])) obj else obj)"

definition toPostHogSinkEvent :: "DataDynaEvent \<Rightarrow> PostHogSinkEvent" where
  "toPostHogSinkEvent e =
     (let properties = map_set ''eventId'' (JStr (cor_eventId (ev_correlation e)))
            (map_set ''source'' (JStr (source_text (ev_source e))) (ev_properties e));
          properties = set_if_truthy ''storeId'' (idt_storeId (ev_identity e)) properties;
          properties = set_if_truthy ''brandId'' (idt_brandId (ev_identity e)) properties
      in \<lparr>ph_event = ev_name e,
          ph_distinctId =
            or_else (nullish (idt_memberId (ev_identity e))
                    (nullish (idt_customerId (ev_identity e))
                    (nullish (idt_deviceId (ev_identity e))
                             (idt_storeId (ev_identity e)))))
              (cor_eventId (ev_correlation e)),
          ph_properties = properties\<rparr>)"

section \<open>Contexts, dependencies, results\<close>

record AuthenticatedIngestionContext =
  ctx_credentialId :: string
  ctx_merchantId :: string
  ctx_storeIds :: "string list"
  ctx_producerService :: string
  ctx_producerEnvironment :: string
  ctx_source :: string

record ('s, 'p) store_ops =
  so_persistAccepted :: "string \<Rightarrow> DataDynaEvent \<Rightarrow> string option \<Rightarrow> 's
    \<Rightarrow> (store_error + PersistAcceptedResult) \<times> 's"
  so_persistInvalid :: "string \<Rightarrow> 'p audited_payload \<Rightarrow> string \<Rightarrow> InvalidRawEventAuditContext option
    \<Rightarrow> 's \<Rightarrow> (store_error + 'p InvalidRawEventRecord) \<times> 's"

record 's ingest_state =
  ist_store :: 's
  ist_postHog :: "PostHogSinkEvent list"

datatype TenantPolicyErrorCode = TENANT_IDENTITY_REQUIRED | TENANT_MISMATCH

datatype TenantPolicyValidation =
  TenantPolicyOk
| TenantPolicyFailure nat TenantPolicyErrorCode string

datatype 'p EventIngestionResult =
  AcceptedEvent bool RawEventRecord
| InvalidEvent "'p InvalidRawEventRecord"
| TenantPolicyRejected nat TenantPolicyErrorCode string "'p InvalidRawEventRecord"

fun result_ok :: "'p EventIngestionResult \<Rightarrow> bool" where
  "result_ok (AcceptedEvent dup r) = True"
| "result_ok _ = False"

fun result_status :: "'p EventIngestionResult \<Rightarrow> nat" where
  "result_status (AcceptedEvent dup r) = 202"
| "result_status (InvalidEvent i) = 400"
| "result_status (TenantPolicyRejected st code msg i) = st"

fun tenant_code_text :: "TenantPolicyErrorCode \<Rightarrow> string" where
  "tenant_code_text TENANT_IDENTITY_REQUIRED = ''TENANT_IDENTITY_REQUIRED''"
| "tenant_code_text TENANT_MISMATCH = ''TENANT_MISMATCH''"

section \<open>Tenant policy\<close>

definition validateTenantPolicy ::
  "DataDynaEvent \<Rightarrow> AuthenticatedIngestionContext \<Rightarrow> TenantPolicyValidation" where
  "validateTenantPolicy e c =
     (if \<not> truthy (idt_merchantId (ev_identity e))
         \<or> \<not> truthy (idt_storeId (ev_identity e))
         \<or> prd_environment (ev_producer e) = None
         \<or> idm_scope (ev_idempotency e) \<noteq> Scope_store
      then TenantPolicyFailure 400 TENANT_IDENTITY_REQUIRED ''Tenant identity required''
      else if idt_merchantId (ev_identity e) \<noteq> Some (ctx_merchantId c)
         \<or> or_else (idt_storeId (ev_identity e)) [] \<notin> set (ctx_storeIds c)
         \<or> prd_service (ev_producer e) \<noteq> ctx_producerService c
         \<or> opt_environment_text (prd_environment (ev_producer e)) \<noteq> ctx_producerEnvironment c
         \<or> source_text (ev_source e) \<noteq> ctx_source c
      then TenantPolicyFailure 403 TENANT_MISMATCH ''Tenant mismatch''
      else TenantPolicyOk)"

text \<open>\<open>context.storeIds[0]\<close>, which is \<open>undefined\<close> for an empty list.\<close>

fun first_of :: "'a list \<Rightarrow> 'a option" where
  "first_of [] = None"
| "first_of (x # xs) = Some x"

definition buildInvalidAuditContext ::
  "AuthenticatedIngestionContext option \<Rightarrow> DataDynaEvent option \<Rightarrow> string option
   \<Rightarrow> InvalidRawEventAuditContext option" where
  "buildInvalidAuditContext ctx event reasonCode =
     (case ctx of
        None \<Rightarrow> None
      | Some c \<Rightarrow> Some \<lparr>
          au_credentialId = Some (ctx_credentialId c),
          au_merchantId = nullish (Option.bind event (\<lambda>e. idt_merchantId (ev_identity e)))
                            (Some (ctx_merchantId c)),
          au_storeId = nullish (Option.bind event (\<lambda>e. idt_storeId (ev_identity e)))
                         (first_of (ctx_storeIds c)),
          au_producerService = nullish (map_option (\<lambda>e. prd_service (ev_producer e)) event)
                                 (Some (ctx_producerService c)),
          au_producerEnvironment =
            nullish (Option.bind event (\<lambda>e. map_option environment_text (prd_environment (ev_producer e))))
              (Some (ctx_producerEnvironment c)),
          au_source = nullish (map_option (\<lambda>e. source_text (ev_source e)) event) (Some (ctx_source c)),
          au_reasonCode = reasonCode\<rparr>)"

section \<open>Handlers\<close>

definition enqueueProductAnalytics ::
  "DataDynaEvent \<Rightarrow> bool \<Rightarrow> 's ingest_state \<Rightarrow> 's ingest_state" where
  "enqueueProductAnalytics e hasSink st =
     (if hasSink then st\<lparr>ist_postHog := ist_postHog st @ [toPostHogSinkEvent e]\<rparr> else st)"

definition audit ::
  "string \<Rightarrow> ('s, 'p) store_ops \<Rightarrow> 'p audited_payload \<Rightarrow> string
   \<Rightarrow> InvalidRawEventAuditContext option \<Rightarrow> ('p InvalidRawEventRecord \<Rightarrow> 'r)
   \<Rightarrow> 's ingest_state \<Rightarrow> (store_error + 'r) \<times> 's ingest_state" where
  "audit now ops payload reason auditContext mk st =
     (case so_persistInvalid ops now payload reason auditContext (ist_store st) of
        (Inl err, s') \<Rightarrow> (Inl err, st\<lparr>ist_store := s'\<rparr>)
      | (Inr invalid, s') \<Rightarrow> (Inr (mk invalid), st\<lparr>ist_store := s'\<rparr>))"

definition rejectInvalidEvent ::
  "string \<Rightarrow> ('s, 'p) store_ops \<Rightarrow> 'p \<Rightarrow> string list \<Rightarrow> AuthenticatedIngestionContext option
   \<Rightarrow> 's ingest_state \<Rightarrow> (store_error + 'p EventIngestionResult) \<times> 's ingest_state" where
  "rejectInvalidEvent now ops payload issues ctx =
     audit now ops (PostedPayload payload) (join ''; '' issues)
       (buildInvalidAuditContext ctx None None) InvalidEvent"

definition rejectTenantPolicy ::
  "string \<Rightarrow> ('s, 'p) store_ops \<Rightarrow> DataDynaEvent \<Rightarrow> nat \<Rightarrow> TenantPolicyErrorCode \<Rightarrow> string
   \<Rightarrow> AuthenticatedIngestionContext
   \<Rightarrow> 's ingest_state \<Rightarrow> (store_error + 'p EventIngestionResult) \<times> 's ingest_state" where
  "rejectTenantPolicy now ops e status code message ctx =
     audit now ops (ParsedPayload e) message
       (buildInvalidAuditContext (Some ctx) (Some e) (Some (tenant_code_text code)))
       (TenantPolicyRejected status code message)"

definition persistValidEvent ::
  "string \<Rightarrow> ('s, 'p) store_ops \<Rightarrow> bool \<Rightarrow> DataDynaEvent \<Rightarrow> AuthenticatedIngestionContext option
   \<Rightarrow> 's ingest_state \<Rightarrow> (store_error + 'p EventIngestionResult) \<times> 's ingest_state" where
  "persistValidEvent now ops hasSink e ctx st =
     (case so_persistAccepted ops now e (map_option ctx_credentialId ctx) (ist_store st) of
        (Inl err, s') \<Rightarrow> (Inl err, st\<lparr>ist_store := s'\<rparr>)
      | (Inr persisted, s') \<Rightarrow>
          (let st' = st\<lparr>ist_store := s'\<rparr>;
               st' = (if pr_duplicate persisted then st' else enqueueProductAnalytics e hasSink st')
           in (Inr (AcceptedEvent (pr_duplicate persisted) (pr_record persisted)), st')))"

definition handlePostEvent ::
  "string \<Rightarrow> ('p \<Rightarrow> string list + DataDynaEvent) \<Rightarrow> ('s, 'p) store_ops \<Rightarrow> bool
   \<Rightarrow> 'p \<Rightarrow> AuthenticatedIngestionContext option
   \<Rightarrow> 's ingest_state \<Rightarrow> (store_error + 'p EventIngestionResult) \<times> 's ingest_state" where
  "handlePostEvent now safeParse ops hasSink payload ctx st =
     (case safeParse payload of
        Inl issues \<Rightarrow> rejectInvalidEvent now ops payload issues ctx st
      | Inr e \<Rightarrow>
          (case ctx of
             None \<Rightarrow> persistValidEvent now ops hasSink e ctx st
           | Some c \<Rightarrow>
               (case validateTenantPolicy e c of
                  TenantPolicyFailure status code message \<Rightarrow>
                    rejectTenantPolicy now ops e status code message c st
                | TenantPolicyOk \<Rightarrow> persistValidEvent now ops hasSink e ctx st)))"

section \<open>Batches\<close>

text \<open>
  \<open>payload.map(...)\<close> starts every handler, and each runs to its store call before the next
  starts; \<open>Promise.all\<close> then returns the results in order, or the first exception. Whether
  or not one throws, all the handlers have run: the state is the last one either way. With a
  store whose operations are atomic this is the sequence of the calls.
\<close>

datatype 'p BatchPayload = NotAnArray 'p | ArrayPayload "'p list"

datatype 'p BatchResult =
  BatchResults bool "'p EventIngestionResult list"
| BatchInvalid "'p InvalidRawEventRecord"

fun handle_each ::
  "string \<Rightarrow> ('p \<Rightarrow> string list + DataDynaEvent) \<Rightarrow> ('s, 'p) store_ops \<Rightarrow> bool
   \<Rightarrow> AuthenticatedIngestionContext option \<Rightarrow> 'p list
   \<Rightarrow> 's ingest_state \<Rightarrow> (store_error + 'p EventIngestionResult) list \<times> 's ingest_state" where
  "handle_each now safeParse ops hasSink ctx [] st = ([], st)"
| "handle_each now safeParse ops hasSink ctx (p # ps) st =
     (let (r, st1) = handlePostEvent now safeParse ops hasSink p ctx st;
          (rs, st2) = handle_each now safeParse ops hasSink ctx ps st1
      in (r # rs, st2))"

fun promise_all :: "('e + 'a) list \<Rightarrow> 'e + 'a list" where
  "promise_all [] = Inr []"
| "promise_all (Inl e # rs) = Inl e"
| "promise_all (Inr a # rs) = and_then (promise_all rs) (\<lambda>as. Inr (a # as))"

definition handlePostEventsBatch ::
  "string \<Rightarrow> ('p \<Rightarrow> string list + DataDynaEvent) \<Rightarrow> ('s, 'p) store_ops \<Rightarrow> bool
   \<Rightarrow> 'p BatchPayload \<Rightarrow> AuthenticatedIngestionContext option
   \<Rightarrow> 's ingest_state \<Rightarrow> (store_error + 'p BatchResult) \<times> 's ingest_state" where
  "handlePostEventsBatch now safeParse ops hasSink payload ctx st =
     (case payload of
        NotAnArray p \<Rightarrow>
          audit now ops (PostedPayload p) ''Batch payload must be an array''
            (buildInvalidAuditContext ctx None None) BatchInvalid st
      | ArrayPayload ps \<Rightarrow>
          (let (rs, st') = handle_each now safeParse ops hasSink ctx ps st
           in (and_then (promise_all rs) (\<lambda>results. Inr (BatchResults (list_all result_ok results) results)),
               st')))"

fun batch_status :: "'p BatchResult \<Rightarrow> nat" where
  "batch_status (BatchResults ok rs) = 207"
| "batch_status (BatchInvalid i) = 400"

section \<open>Lemmas on the policy\<close>

lemma tenant_policy_ok_iff:
  "validateTenantPolicy e c = TenantPolicyOk \<longleftrightarrow>
     idt_merchantId (ev_identity e) = Some (ctx_merchantId c) \<and> ctx_merchantId c \<noteq> []
     \<and> (\<exists>sid. idt_storeId (ev_identity e) = Some sid \<and> sid \<noteq> [] \<and> sid \<in> set (ctx_storeIds c))
     \<and> (\<exists>env. prd_environment (ev_producer e) = Some env
              \<and> environment_text env = ctx_producerEnvironment c)
     \<and> prd_service (ev_producer e) = ctx_producerService c
     \<and> source_text (ev_source e) = ctx_source c
     \<and> idm_scope (ev_idempotency e) = Scope_store"
  by (auto simp: validateTenantPolicy_def truthy_def opt_environment_text_def split: option.splits)

lemma tenant_policy_failure_cases:
  "validateTenantPolicy e c = TenantPolicyFailure st code msg \<Longrightarrow>
     (st = 400 \<and> code = TENANT_IDENTITY_REQUIRED) \<or> (st = 403 \<and> code = TENANT_MISMATCH)"
  by (auto simp: validateTenantPolicy_def split: if_splits)

lemma length_promise_all: "promise_all rs = Inr as \<Longrightarrow> rs = map Inr as"
  by (induction rs arbitrary: as rule: promise_all.induct) (auto simp: and_then_Inr_iff)

lemma promise_all_map_Inr [simp]: "promise_all (map Inr as) = Inr as"
  by (induction as) simp_all

section \<open>What the handlers guarantee over any store with the contract\<close>

definition make_ops ::
  "(string \<Rightarrow> DataDynaEvent \<Rightarrow> string option \<Rightarrow> 's \<Rightarrow> (store_error + PersistAcceptedResult) \<times> 's)
   \<Rightarrow> (string \<Rightarrow> 'p audited_payload \<Rightarrow> string \<Rightarrow> InvalidRawEventAuditContext option
       \<Rightarrow> 's \<Rightarrow> (store_error + 'p InvalidRawEventRecord) \<times> 's)
   \<Rightarrow> ('s, 'p) store_ops" where
  "make_ops acc rej = \<lparr>so_persistAccepted = acc, so_persistInvalid = rej\<rparr>"

lemma make_ops_sel [simp]:
  "so_persistAccepted (make_ops acc rej) = acc" "so_persistInvalid (make_ops acc rej) = rej"
  by (simp_all add: make_ops_def)

text \<open>A stored record lies inside the tenant a credential authenticates.\<close>

definition record_of_tenant :: "AuthenticatedIngestionContext \<Rightarrow> RawEventRecord \<Rightarrow> bool" where
  "record_of_tenant c r \<longleftrightarrow>
     re_merchantId r = Some (ctx_merchantId c) \<and> ctx_merchantId c \<noteq> []
     \<and> (\<exists>sid \<in> set (ctx_storeIds c). sid \<noteq> [] \<and> re_storeId r = Some sid)
     \<and> re_producerService r = ctx_producerService c
     \<and> map_option environment_text (re_producerEnvironment r) = Some (ctx_producerEnvironment c)
     \<and> source_text (re_source r) = ctx_source c
     \<and> re_idempotencyScope r = Scope_store"

lemma or_else_eq_nonempty: "or_else v [] = s \<Longrightarrow> s \<noteq> [] \<Longrightarrow> v = Some s"
  by (cases v) auto

lemma policy_ok_record_of_tenant:
  assumes ok: "validateTenantPolicy e c = TenantPolicyOk"
    and same: "record_identity r = rawEventIdempotencyIdentity e"
  shows "record_of_tenant c r"
proof -
  from ok obtain sid env where e:
    "idt_merchantId (ev_identity e) = Some (ctx_merchantId c)" "ctx_merchantId c \<noteq> []"
    "idt_storeId (ev_identity e) = Some sid" "sid \<noteq> []" "sid \<in> set (ctx_storeIds c)"
    "prd_environment (ev_producer e) = Some env" "environment_text env = ctx_producerEnvironment c"
    "prd_service (ev_producer e) = ctx_producerService c" "source_text (ev_source e) = ctx_source c"
    "idm_scope (ev_idempotency e) = Scope_store"
    by (auto simp: tenant_policy_ok_iff)
  from same have r:
    "or_else (re_merchantId r) [] = ctx_merchantId c" "or_else (re_storeId r) [] = sid"
    "re_producerService r = ctx_producerService c" "re_producerEnvironment r = Some env"
    "source_text (re_source r) = ctx_source c" "re_idempotencyScope r = Scope_store"
    using e by (simp_all only: record_identity_def rawEventIdempotencyIdentity_def or_else.simps
      json_array_inject list.inject source_text_inject scope_text_inject opt_environment_text_inject)
  show ?thesis
    using r(3-6) e or_else_eq_nonempty [OF r(1)] or_else_eq_nonempty [OF r(2)]
    by (auto simp: record_of_tenant_def)
qed

text \<open>The PostHog sink received an event that the store holds this record of.\<close>

definition mirrors :: "PostHogSinkEvent \<Rightarrow> RawEventRecord \<Rightarrow> bool" where
  "mirrors ph r \<longleftrightarrow>
     (\<exists>e. ph = toPostHogSinkEvent e \<and> record_identity r = rawEventIdempotencyIdentity e
        \<and> re_eventId r = cor_eventId (ev_correlation e))"

text \<open>The states of a service that answers authenticated posts, one by one or in batches.\<close>

inductive ingest_reachable ::
  "('p \<Rightarrow> string list + DataDynaEvent) \<Rightarrow> ('s, 'p) store_ops \<Rightarrow> bool
   \<Rightarrow> 's ingest_state \<Rightarrow> 's ingest_state \<Rightarrow> bool"
  for safeParse ops hasSink st where
  start: "ingest_reachable safeParse ops hasSink st st"
| post: "ingest_reachable safeParse ops hasSink st st1
    \<Longrightarrow> handlePostEvent now safeParse ops hasSink p (Some c) st1 = (r, st2)
    \<Longrightarrow> ingest_reachable safeParse ops hasSink st st2"
| batch: "ingest_reachable safeParse ops hasSink st st1
    \<Longrightarrow> handlePostEventsBatch now safeParse ops hasSink b (Some c) st1 = (rb, st2)
    \<Longrightarrow> ingest_reachable safeParse ops hasSink st st2"

text \<open>The answers among the outcomes of a batch, the records they stored, the ones audited.\<close>

fun answers :: "('e + 'a) list \<Rightarrow> 'a list" where
  "answers [] = []"
| "answers (Inr a # rs) = a # answers rs"
| "answers (Inl e # rs) = answers rs"

fun new_records :: "'p EventIngestionResult list \<Rightarrow> RawEventRecord list" where
  "new_records [] = []"
| "new_records (AcceptedEvent False r # rs) = r # new_records rs"
| "new_records (_ # rs) = new_records rs"

lemma answers_map_Inr [simp]: "answers (map Inr as) = as"
  by (induction as) simp_all

context raw_event_store
begin

abbreviation ops :: "('s, 'p) store_ops" where
  "ops \<equiv> make_ops persistAccepted persistInvalid"

lemma audit_effect [consumes 2, case_names recorded refused]:
  assumes "inv (ist_store st)" "audit now ops payload reason ctx mk st = (res, st')"
  obtains (recorded) i s' where "auditable payload reason ctx"
      "i = invalidRawEventRecord now (kept_payload payload) reason ctx" "res = Inr (mk i)"
      "st' = st\<lparr>ist_store := s'\<rparr>" "inv s'" "accepted s' = accepted (ist_store st)"
      "invalid s' = invalid (ist_store st) @ [i]"
    | (refused) err where "\<not> auditable payload reason ctx" "res = Inl err" "st' = st"
proof (cases "auditable payload reason ctx")
  case True
  with audit_invalid [OF assms(1) True, of now] assms(2) recorded show thesis
    by (auto simp: audit_def)
next
  case False
  with audit_refused [OF assms(1) False, of now] assms(2) refused show thesis
    by (auto simp: audit_def)
qed

text \<open>
  Every way \<open>handlePostEvent\<close> can end: an audit record written for an invalid payload or for
  a refused tenant, the event stored, a duplicate recognised, or an exception of the store.
\<close>

lemma handle_cases [consumes 3, case_names invalid tenant new duplicate refused]:
  assumes contract: "parses_contract dt safeParse" and inv: "inv (ist_store st)"
    and h: "handlePostEvent now safeParse ops hasSink p ctx st = (res, st')"
  obtains (invalid) issues i s' where
      "safeParse p = Inl issues" "res = Inr (InvalidEvent i)"
      "i = invalidRawEventRecord now (kept_payload (PostedPayload p)) (join ''; '' issues)
             (buildInvalidAuditContext ctx None None)"
      "st' = st\<lparr>ist_store := s'\<rparr>" "inv s'" "accepted s' = accepted (ist_store st)"
      "invalid s' = invalid (ist_store st) @ [i]"
    | (tenant) e c status code msg i s' where
      "safeParse p = Inr e" "ctx = Some c"
      "validateTenantPolicy e c = TenantPolicyFailure status code msg"
      "res = Inr (TenantPolicyRejected status code msg i)"
      "i = invalidRawEventRecord now (kept_payload (ParsedPayload e)) msg
             (buildInvalidAuditContext ctx (Some e) (Some (tenant_code_text code)))"
      "st' = st\<lparr>ist_store := s'\<rparr>" "inv s'" "accepted s' = accepted (ist_store st)"
      "invalid s' = invalid (ist_store st) @ [i]"
    | (new) e r s' where
      "safeParse p = Inr e" "no_empty_tenant e"
      "\<And>c. ctx = Some c \<Longrightarrow> validateTenantPolicy e c = TenantPolicyOk"
      "r = fresh_record now (map_option ctx_credentialId ctx) e"
      "res = Inr (AcceptedEvent False r)" "inv s'"
      "accepted s' = accepted (ist_store st) @ [r]" "invalid s' = invalid (ist_store st)"
      "st' = \<lparr>ist_store = s',
              ist_postHog = ist_postHog st @ (if hasSink then [toPostHogSinkEvent e] else [])\<rparr>"
    | (duplicate) e r where
      "safeParse p = Inr e" "no_empty_tenant e"
      "\<And>c. ctx = Some c \<Longrightarrow> validateTenantPolicy e c = TenantPolicyOk"
      "r \<in> set (accepted (ist_store st))" "record_identity r = rawEventIdempotencyIdentity e"
      "res = Inr (AcceptedEvent True r)" "st' = st"
    | (refused) err where
      "res = Inl err" "st' = st"
proof (cases "safeParse p")
  case (Inl issues)
  then have a: "audit now ops (PostedPayload p) (join ''; '' issues)
      (buildInvalidAuditContext ctx None None) InvalidEvent st = (res, st')"
    using h by (simp add: handlePostEvent_def rejectInvalidEvent_def)
  from inv a show thesis by (cases rule: audit_effect) (use that(1) [OF Inl] that(5) in metis)+
next
  case (Inr e)
  have e: "no_empty_tenant e"
    using valid_event_no_empty_tenant parses_contractD [OF contract Inr] by blast
  let ?ok = "\<forall>c. ctx = Some c \<longrightarrow> validateTenantPolicy e c = TenantPolicyOk"
  show thesis
  proof (cases ?ok)
    case False
    then obtain c status code msg where f: "ctx = Some c"
      "validateTenantPolicy e c = TenantPolicyFailure status code msg"
      by (metis TenantPolicyValidation.exhaust)
    then have a: "audit now ops (ParsedPayload e) msg
        (buildInvalidAuditContext ctx (Some e) (Some (tenant_code_text code)))
        (TenantPolicyRejected status code msg) st = (res, st')"
      using h Inr by (simp add: handlePostEvent_def rejectTenantPolicy_def)
    from inv a show thesis by (cases rule: audit_effect) (use that(2) [OF Inr f] that(5) in metis)+
  next
    case True
    then have p: "persistValidEvent now ops hasSink e ctx st = (res, st')"
      using h Inr by (cases ctx) (simp_all add: handlePostEvent_def)
    have ok: "validateTenantPolicy e c = TenantPolicyOk" if "ctx = Some c" for c
      using True that by simp
    show thesis using inv e
    proof (cases rule: persist_cases [where now = now and c = "map_option ctx_credentialId ctx"])
      case (new s')
      then have "res = Inr (AcceptedEvent False (fresh_record now (map_option ctx_credentialId ctx) e))"
        "st' = \<lparr>ist_store = s',
            ist_postHog = ist_postHog st @ (if hasSink then [toPostHogSinkEvent e] else [])\<rparr>"
        using p by (auto simp: persistValidEvent_def enqueueProductAnalytics_def Let_def)
      with new show thesis using that(3) [OF Inr e ok refl] by blast
    next
      case (duplicate r)
      with p have "res = Inr (AcceptedEvent True r)" "st' = st"
        by (auto simp: persistValidEvent_def)
      with duplicate show thesis using that(4) [OF Inr e ok] by blast
    next
      case (refused err)
      with p have "res = Inl err" "st' = st" by (auto simp: persistValidEvent_def)
      then show thesis by (rule that(5))
    qed
  qed
qed

lemma handle_tenant_isolated:
  assumes "parses_contract dt safeParse" "inv (ist_store st)"
    "handlePostEvent now safeParse ops hasSink p (Some c) st = (Inr (AcceptedEvent dup r), st')"
  shows "record_of_tenant c r \<and> r \<in> set (accepted (ist_store st'))"
  using assms
proof (cases rule: handle_cases)
  case (new e r')
  then show ?thesis
    using policy_ok_record_of_tenant [of e c r] by (simp add: fresh_identity)
next
  case (duplicate e r')
  then show ?thesis using policy_ok_record_of_tenant [of e c r] by simp
qed simp_all

text \<open>A request ends in a write of one record to one of the two tables, or in none.\<close>

lemma handle_effect:
  assumes "parses_contract dt safeParse" "inv (ist_store st)"
    "handlePostEvent now safeParse ops hasSink p ctx st = (res, st')"
  shows "case res of
     Inl err \<Rightarrow> st' = st
   | Inr (AcceptedEvent True r) \<Rightarrow> st' = st
   | Inr (AcceptedEvent False r) \<Rightarrow>
       accepted (ist_store st') = accepted (ist_store st) @ [r]
       \<and> invalid (ist_store st') = invalid (ist_store st)
   | Inr (InvalidEvent i) \<Rightarrow>
       accepted (ist_store st') = accepted (ist_store st) \<and> ist_postHog st' = ist_postHog st
       \<and> invalid (ist_store st') = invalid (ist_store st) @ [i]
       \<and> ir_reasonCode i = None \<and> ir_payload i = kept_payload (PostedPayload p)
   | Inr (TenantPolicyRejected status code msg i) \<Rightarrow>
       accepted (ist_store st') = accepted (ist_store st) \<and> ist_postHog st' = ist_postHog st
       \<and> invalid (ist_store st') = invalid (ist_store st) @ [i]
       \<and> ir_reasonCode i = Some (tenant_code_text code)
       \<and> ir_credentialId i = map_option ctx_credentialId ctx"
  using assms
  by (cases rule: handle_cases)
    (auto simp: invalidRawEventRecord_def buildInvalidAuditContext_def no_audit_context_def
       split: option.splits)

text \<open>
  A retry of an accepted post, by any credential the policy lets through, is answered with the
  record of the first time and changes neither the store nor the sink.
\<close>

lemma handle_retry:
  assumes "parses_contract dt safeParse" "inv (ist_store st)"
    "handlePostEvent now safeParse ops hasSink p ctx st = (Inr (AcceptedEvent dup r), st')"
  shows "handlePostEvent now' safeParse ops hasSink p ctx st' = (Inr (AcceptedEvent True r), st')"
proof -
  obtain e where e: "safeParse p = Inr e" "no_empty_tenant e" "\<And>c. ctx = Some c \<Longrightarrow> validateTenantPolicy e c = TenantPolicyOk"
    using assms by (cases rule: handle_cases) simp_all
  then have run: "handlePostEvent n safeParse ops hasSink p ctx s = persistValidEvent n ops hasSink e ctx s"
    for n s by (cases ctx) (simp_all add: handlePostEvent_def)
  from assms(3) obtain res s' where p:
    "persistAccepted now e (map_option ctx_credentialId ctx) (ist_store st) = (Inr res, s')"
    "ist_store st' = s'" "r = pr_record res"
    unfolding run by (auto simp: persistValidEvent_def enqueueProductAnalytics_def Let_def
        split: prod.splits sum.splits if_splits)
  from persist_again [OF assms(2) e(2) p(1)] p(2,3) show ?thesis
    unfolding run by (simp add: persistValidEvent_def Let_def)
qed

lemma handle_inv:
  assumes "parses_contract dt safeParse" "inv (ist_store st)"
    "handlePostEvent now safeParse ops hasSink p ctx st = (res, st')"
  shows "inv (ist_store st')"
  using assms by (cases rule: handle_cases) (use assms(2) in simp_all)

lemma handle_mirrored:
  assumes "parses_contract dt safeParse" "inv (ist_store st)"
    "handlePostEvent now safeParse ops True p ctx st = (res, st')"
    "list_all2 mirrors (ist_postHog st) (accepted (ist_store st))"
  shows "list_all2 mirrors (ist_postHog st') (accepted (ist_store st'))"
  using assms(1-3)
proof (cases rule: handle_cases)
  case (new e r s')
  have "mirrors (toPostHogSinkEvent e) r"
    using new(4) by (auto simp: mirrors_def fresh_identity fresh_eventId)
  then show ?thesis using new assms(4) by (simp add: list_all2_appendI)
qed (use assms(4) in simp_all)

text \<open>Batches: what one post preserves, a batch preserves.\<close>

lemma handle_each_keeps:
  assumes "\<And>st now p res st'. P st \<Longrightarrow> handlePostEvent now safeParse ops hasSink p ctx st = (res, st') \<Longrightarrow> P st'"
  shows "P st \<Longrightarrow> handle_each now safeParse ops hasSink ctx ps st = (rs, st') \<Longrightarrow> P st'"
proof (induction ps arbitrary: st rs)
  case (Cons p ps)
  obtain r st1 where 1: "handlePostEvent now safeParse ops hasSink p ctx st = (r, st1)"
    by fastforce
  with Cons.prems obtain rs' where "handle_each now safeParse ops hasSink ctx ps st1 = (rs', st')"
    by (auto simp: Let_def split: prod.splits)
  then show ?case using Cons.IH [of st1 rs'] assms [OF Cons.prems(1) 1] by blast
qed simp

lemma batch_keeps:
  assumes "\<And>st now p res st'. P st \<Longrightarrow> handlePostEvent now safeParse ops hasSink p ctx st = (res, st') \<Longrightarrow> P st'"
    and "\<And>s s' :: 's ingest_state. P s \<Longrightarrow> inv (ist_store s') \<Longrightarrow> accepted (ist_store s') = accepted (ist_store s)
           \<Longrightarrow> ist_postHog s' = ist_postHog s \<Longrightarrow> P s'"
    and "inv (ist_store st)" "P st"
    and "handlePostEventsBatch now safeParse ops hasSink b ctx st = (rb, st')"
  shows "P st'"
proof (cases b)
  case (NotAnArray p)
  with assms(5) have a: "audit now ops (PostedPayload p) ''Batch payload must be an array''
      (buildInvalidAuditContext ctx None None) BatchInvalid st = (rb, st')"
    by (simp add: handlePostEventsBatch_def)
  from assms(3) a show ?thesis
    by (cases rule: audit_effect) (use assms(2) [OF assms(4), of st'] assms(4) in simp_all)
next
  case (ArrayPayload ps)
  obtain rs where "handle_each now safeParse ops hasSink ctx ps st = (rs, st')"
    using assms(5) by (auto simp: ArrayPayload handlePostEventsBatch_def split: prod.splits)
  from handle_each_keeps [of P, OF assms(1) assms(4) this] show ?thesis .
qed

lemma reachable_keeps:
  assumes "ingest_reachable safeParse ops hasSink st st'" "parses_contract dt safeParse"
    and "inv (ist_store st)" "P st"
    and one: "\<And>st c now p res st'. inv (ist_store st) \<Longrightarrow> P st
          \<Longrightarrow> handlePostEvent now safeParse ops hasSink p (Some c) st = (res, st') \<Longrightarrow> P st'"
    and cong: "\<And>s s' :: 's ingest_state. P s \<Longrightarrow> accepted (ist_store s') = accepted (ist_store s)
           \<Longrightarrow> ist_postHog s' = ist_postHog s \<Longrightarrow> P s'"
  shows "inv (ist_store st') \<and> P st'"
  using assms(1)
proof induction
  case start
  then show ?case using assms(3,4) by simp
next
  case (post st1 now p c r st2)
  then show ?case using one handle_inv [OF assms(2)] by metis
next
  case (batch st1 now b c rb st2)
  show ?case
  proof (rule batch_keeps [where P = "\<lambda>s. inv (ist_store s) \<and> P s", OF _ _ _ batch.IH batch.hyps(2)])
    fix st now p res st'
    assume "inv (ist_store st) \<and> P st"
      "handlePostEvent now safeParse ops hasSink p (Some c) st = (res, st')"
    then show "inv (ist_store st') \<and> P st'" using one handle_inv [OF assms(2)] by metis
  next
    fix s s' :: "'s ingest_state" assume "inv (ist_store s) \<and> P s" "inv (ist_store s')"
      "accepted (ist_store s') = accepted (ist_store s)" "ist_postHog s' = ist_postHog s"
    then show "inv (ist_store s') \<and> P s'" using cong by blast
  qed (use batch.IH in simp)
qed

text \<open>
  In every reachable state the sink has been handed exactly one event per stored record, in the
  order of the store, and every record added since the start is inside some tenant.
\<close>

lemma reachable_mirrored:
  assumes "ingest_reachable safeParse ops True st st'" "parses_contract dt safeParse"
    "inv (ist_store st)" "list_all2 mirrors (ist_postHog st) (accepted (ist_store st))"
  shows "list_all2 mirrors (ist_postHog st') (accepted (ist_store st'))"
proof -
  let ?P = "\<lambda>s. list_all2 mirrors (ist_postHog s) (accepted (ist_store s))"
  have "inv (ist_store st') \<and> ?P st'"
    using assms by (rule reachable_keeps [where P = ?P]) (blast intro: handle_mirrored [OF assms(2)], simp)
  then show ?thesis by blast
qed

lemma reachable_tenants:
  assumes "ingest_reachable safeParse ops hasSink st st'" "parses_contract dt safeParse"
    "inv (ist_store st)"
  shows "\<exists>more. accepted (ist_store st') = accepted (ist_store st) @ more
     \<and> (\<forall>r \<in> set more. \<exists>c. record_of_tenant c r)"
proof -
  let ?P = "\<lambda>s. \<exists>more. accepted (ist_store s) = accepted (ist_store st) @ more
     \<and> (\<forall>r \<in> set more. \<exists>c. record_of_tenant c r)"
  have "inv (ist_store st') \<and> ?P st'"
    using assms
  proof (rule reachable_keeps [where P = ?P])
    fix s c now p res s'
    assume s: "inv (ist_store s)" "?P s"
      "handlePostEvent now safeParse ops hasSink p (Some c) s = (res, s')"
    from assms(2) s(1,3) show "?P s'"
    proof (cases rule: handle_cases)
      case (new e r)
      have "record_of_tenant c r"
        using handle_tenant_isolated [OF assms(2) s(1)] s(3) new(5) by blast
      with new s(2) show ?thesis by auto
    qed (use s(2) in simp_all)
  qed simp_all
  then show ?thesis by blast
qed

text \<open>
  A batch posts its elements one after the other. When it answers, it answers every element in
  order; the stored and audited records are those of the answers. When the store refuses one
  element the whole batch fails, although the other elements have been stored.
\<close>

lemma handle_each_effect:
  assumes "parses_contract dt safeParse"
  shows "inv (ist_store st) \<Longrightarrow> handle_each now safeParse ops hasSink ctx ps st = (rs, st') \<Longrightarrow>
    length rs = length ps \<and> inv (ist_store st')
    \<and> accepted (ist_store st') = accepted (ist_store st) @ new_records (answers rs)
    \<and> length (invalid (ist_store st'))
       = length (invalid (ist_store st)) + length (filter (\<lambda>a. \<not> result_ok a) (answers rs))"
proof (induction ps arbitrary: st rs)
  case (Cons p ps)
  obtain r st1 where 1: "handlePostEvent now safeParse ops hasSink p ctx st = (r, st1)"
    by fastforce
  with Cons.prems obtain rs' where
    2: "handle_each now safeParse ops hasSink ctx ps st1 = (rs', st')" "rs = r # rs'"
    by (auto simp: Let_def split: prod.splits)
  have 3: "inv (ist_store st1)" using handle_inv [OF assms Cons.prems(1) 1] .
  show ?case
    using assms Cons.prems(1) 1 by (cases rule: handle_cases) (use Cons.IH [OF 3 2(1)] 2(2) in simp_all)
qed simp

lemma batch_effect:
  assumes "parses_contract dt safeParse" "inv (ist_store st)"
    "handlePostEventsBatch now safeParse ops hasSink (ArrayPayload ps) ctx st = (Inr b, st')"
  shows "\<exists>rs. b = BatchResults (list_all result_ok rs) rs \<and> length rs = length ps
    \<and> accepted (ist_store st') = accepted (ist_store st) @ new_records rs
    \<and> length (invalid (ist_store st'))
       = length (invalid (ist_store st)) + length (filter (\<lambda>a. \<not> result_ok a) rs)"
proof -
  obtain rs where rs: "handle_each now safeParse ops hasSink ctx ps st = (rs, st')"
    "and_then (promise_all rs) (\<lambda>results. Inr (BatchResults (list_all result_ok results) results)) = Inr b"
    using assms(3) by (auto simp: handlePostEventsBatch_def split: prod.splits)
  then obtain as where as: "promise_all rs = Inr as" "b = BatchResults (list_all result_ok as) as"
    by (auto simp: and_then_Inr_iff)
  from length_promise_all [OF as(1)] have "rs = map Inr as" .
  then show ?thesis
    using handle_each_effect [OF assms(1,2) rs(1)] as(2) by auto
qed

end

end
