(* ===== verification/JsText.thy ===== *)
theory JsText
  imports JsValue
begin

text \<open>
  The text functions of JavaScript that the redaction code uses, for code units below 256:
  character classes of regular expressions, \<open>toLowerCase\<close>, \<open>includes\<close>,
  \<open>slice\<close>, and \<open>replace\<close> with a global expression. An expression is a matcher:
  from the character before a position and the text at it to the length of the match there and the
  replacement. The expressions of the source have no ambiguous repetition (neighbouring classes are
  disjoint), so the greedy match is the only one and no backtracking is needed.
\<close>

section \<open>Classes\<close>

definition js_space :: "char \<Rightarrow> bool" where
  "js_space c \<longleftrightarrow> c \<in> {CHR 0x09, CHR 0x0A, CHR 0x0B, CHR 0x0C, CHR 0x0D, CHR 0x20, CHR 0xA0}"

definition js_digit :: "char \<Rightarrow> bool" where
  "js_digit c \<longleftrightarrow> 48 \<le> (of_char c :: nat) \<and> (of_char c :: nat) \<le> 57"

definition js_word :: "char \<Rightarrow> bool" where
  "js_word c \<longleftrightarrow>
     (let n = of_char c :: nat
      in (65 \<le> n \<and> n \<le> 90) \<or> (97 \<le> n \<and> n \<le> 122) \<or> (48 \<le> n \<and> n \<le> 57) \<or> n = 95)"

lemma digit_word: "js_digit c \<Longrightarrow> js_word c"
  by (simp add: js_digit_def js_word_def Let_def)

text \<open>\<open>toLowerCase\<close> on Latin-1: A to Z, and 0xC0 to 0xDE but for the multiplication sign.\<close>

definition js_lower_char :: "char \<Rightarrow> char" where
  "js_lower_char c =
     (let n = of_char c :: nat
      in if (65 \<le> n \<and> n \<le> 90) \<or> (192 \<le> n \<and> n \<le> 222 \<and> n \<noteq> 215) then char_of (n + 32) else c)"

definition js_lower :: "string \<Rightarrow> string" where
  "js_lower s = map js_lower_char s"

fun starts_with :: "string \<Rightarrow> string \<Rightarrow> bool" where
  "starts_with [] s \<longleftrightarrow> True"
| "starts_with (p # ps) [] \<longleftrightarrow> False"
| "starts_with (p # ps) (c # cs) \<longleftrightarrow> p = c \<and> starts_with ps cs"

fun text_includes :: "string \<Rightarrow> string \<Rightarrow> bool" where
  "text_includes [] needle \<longleftrightarrow> needle = []"
| "text_includes (c # cs) needle \<longleftrightarrow> starts_with needle (c # cs) \<or> text_includes cs needle"

definition js_trim :: "string \<Rightarrow> string" where
  "js_trim s = rev (dropWhile js_space (rev (dropWhile js_space s)))"

text \<open>\<open>String(n)\<close> of a natural number.\<close>

fun nat_text :: "nat \<Rightarrow> string" where
  "nat_text n = (if n < 10 then [char_of (48 + n)] else nat_text (n div 10) @ [char_of (48 + n mod 10)])"

declare nat_text.simps [simp del]

lemma nat_text_ne_Nil [simp]: "nat_text n \<noteq> []"
  by (subst nat_text.simps) simp

section \<open>Matching\<close>

text \<open>The number of characters a class takes greedily.\<close>

definition span :: "(char \<Rightarrow> bool) \<Rightarrow> string \<Rightarrow> nat" where
  "span P s = length (takeWhile P s)"

lemma span_le: "span P s \<le> length s"
  by (simp add: span_def length_takeWhile_le)

text \<open>\<open>\b\<close> between the character before and the one after.\<close>

definition at_boundary :: "char option \<Rightarrow> string \<Rightarrow> bool" where
  "at_boundary prev s \<longleftrightarrow>
     (case prev of None \<Rightarrow> False | Some c \<Rightarrow> js_word c) \<noteq> (case s of [] \<Rightarrow> False | c # cs \<Rightarrow> js_word c)"

type_synonym matcher = "char option \<Rightarrow> string \<Rightarrow> (nat \<times> string) option"

text \<open>\<open>s.replace(expression, replacement)\<close> with the global flag; matches are not empty.\<close>

function replace_from :: "matcher \<Rightarrow> char option \<Rightarrow> string \<Rightarrow> string" where
  "replace_from m prev [] = []"
| "replace_from m prev (c # cs) =
     (case m prev (c # cs) of
        Some (Suc n, replacement) \<Rightarrow>
          replacement @ replace_from m (Some (last (take (Suc n) (c # cs)))) (drop n cs)
      | _ \<Rightarrow> c # replace_from m (Some c) cs)"
  by pat_completeness auto
termination by (relation "measure (\<lambda>(m, prev, s). length s)") auto

definition replace_all :: "matcher \<Rightarrow> string \<Rightarrow> string" where
  "replace_all m s = replace_from m None s"

text \<open>A value, the class \<open>[^\s,;]\<close> of both secrets expressions.\<close>

definition value_char :: "char \<Rightarrow> bool" where
  "value_char c \<longleftrightarrow> \<not> js_space c \<and> c \<noteq> CHR '','' \<and> c \<noteq> CHR '';''"

section \<open>The four expressions\<close>

text \<open>\<open>/bearer\s+[^\s,;]+/gi\<close>, replaced by \<open>bearer [redacted]\<close>.\<close>

definition match_bearer :: matcher where
  "match_bearer prev s =
     (if starts_with ''bearer'' (js_lower (take 6 s)) then
        (let spaces = span js_space (drop 6 s); vals = span value_char (drop (6 + spaces) s)
         in if 0 < spaces \<and> 0 < vals then Some (6 + spaces + vals, ''bearer [redacted]'') else None)
      else None)"

text \<open>
  \<open>/\b(token|secret|password|credential|idempotency\w*|payment\w*|customer\w*|card\w*)\s*[:=]\s*[^\s,;]+/gi\<close>,
  replaced by \<open>$1=[redacted]\<close>. A name with \<open>True\<close> takes the word characters after it too.
\<close>

definition secret_names :: "(string \<times> bool) list" where
  "secret_names =
     [(''token'', False), (''secret'', False), (''password'', False), (''credential'', False),
      (''idempotency'', True), (''payment'', True), (''customer'', True), (''card'', True)]"

definition match_secret_tail :: "nat \<Rightarrow> string \<Rightarrow> (nat \<times> string) option" where
  "match_secret_tail n s =
     (let sp1 = span js_space (drop n s); rest = drop (n + sp1) s
      in case rest of
           [] \<Rightarrow> None
         | c # cs \<Rightarrow>
             if c = CHR '':'' \<or> c = CHR ''='' then
               (let sp2 = span js_space cs; vals = span value_char (drop sp2 cs)
                in if 0 < vals then Some (n + sp1 + 1 + sp2 + vals, take n s @ ''=[redacted]'') else None)
             else None)"

fun match_names :: "(string \<times> bool) list \<Rightarrow> string \<Rightarrow> (nat \<times> string) option" where
  "match_names [] s = None"
| "match_names ((nm, more) # names) s =
     (if starts_with nm (js_lower (take (length nm) s)) then
        (let n = length nm + (if more then span js_word (drop (length nm) s) else 0)
         in case match_secret_tail n s of Some r \<Rightarrow> Some r | None \<Rightarrow> match_names names s)
      else match_names names s)"

definition match_secret :: matcher where
  "match_secret prev s = (if at_boundary prev s then match_names secret_names s else None)"

text \<open>\<open>/\b\d{13,19}\b/g\<close>.\<close>

definition match_long_number :: matcher where
  "match_long_number prev s =
     (let n = span js_digit s
      in if at_boundary prev s \<and> 13 \<le> n \<and> n \<le> 19 \<and> (case drop n s of [] \<Rightarrow> True | c # cs \<Rightarrow> \<not> js_word c)
         then Some (n, ''[redacted-number]'') else None)"

text \<open>\<open>/\+?\d{10,15}\b/g\<close>.\<close>

definition match_phone :: matcher where
  "match_phone prev s =
     (let plus = (case s of c # cs \<Rightarrow> if c = CHR ''+'' then 1 else 0 | [] \<Rightarrow> 0);
          n = span js_digit (drop plus s)
      in if 10 \<le> n \<and> n \<le> 15 \<and> (case drop (plus + n) s of [] \<Rightarrow> True | c # cs \<Rightarrow> \<not> js_word c)
         then Some (plus + n, ''[redacted-number]'') else None)"

section \<open>safeText\<close>

definition truncate_text :: "string \<Rightarrow> string" where
  "truncate_text value = (if length value > 240 then take 237 value @ ''...'' else value)"

definition safeText :: "string \<Rightarrow> string" where
  "safeText value = truncate_text
     (replace_all match_phone (replace_all match_long_number
        (replace_all match_secret (replace_all match_bearer value))))"

lemma length_safeText: "length (safeText s) \<le> 240"
  by (simp add: safeText_def truncate_text_def)

section \<open>What is redacted\<close>

lemma replace_from_unmatched:
  "m prev (c # cs) = None \<Longrightarrow> replace_from m prev (c # cs) = c # replace_from m (Some c) cs"
  by simp

lemma replace_from_matched:
  "m prev (c # cs) = Some (Suc n, r) \<Longrightarrow>
   replace_from m prev (c # cs) = r @ replace_from m (Some (last (take (Suc n) (c # cs)))) (drop n cs)"
  by simp

text \<open>
  The digits of a run that stands alone as a word and has 13 to 19 digits are gone: wherever
  the scan reaches such a run it emits the marker instead.
\<close>

lemma span_append: "(\<And>c. c \<in> set xs \<Longrightarrow> P c) \<Longrightarrow> (case ys of [] \<Rightarrow> True | y # _ \<Rightarrow> \<not> P y)
   \<Longrightarrow> span P (xs @ ys) = length xs"
  by (cases ys) (auto simp: span_def takeWhile_append takeWhile_eq_all_conv [THEN iffD2])

lemma long_number_redacted:
  assumes "\<forall>c \<in> set ds. js_digit c" "13 \<le> length ds" "length ds \<le> 19"
    and prev: "case prev of None \<Rightarrow> True | Some c \<Rightarrow> \<not> js_word c"
    and rest: "case rest of [] \<Rightarrow> True | c # cs \<Rightarrow> \<not> js_word c"
  shows "\<exists>p. replace_from match_long_number prev (ds @ rest)
    = ''[redacted-number]'' @ replace_from match_long_number p rest"
proof -
  from assms(2) obtain d ds' where ds: "ds = d # ds'" by (cases ds) auto
  have n: "span js_digit (ds @ rest) = length ds"
    using assms(1) rest by (intro span_append) (auto split: list.splits dest: digit_word)
  have "at_boundary prev (ds @ rest)"
    using assms(1) prev digit_word by (auto simp: at_boundary_def ds split: option.splits)
  then have "match_long_number prev (ds @ rest) = Some (length ds, ''[redacted-number]'')"
    using n assms(2,3) rest by (simp add: match_long_number_def Let_def)
  then show ?thesis
    unfolding ds append_Cons using replace_from_matched [of match_long_number prev d "ds' @ rest" "length ds'"]
    by auto
qed

end
