(* ===== verification/Auth.thy ===== *)
theory Auth
  imports Ingestion JsText
begin

text \<open>
  Bearer authentication of \<open>src/src/app/auth/ingestion-auth.ts\<close> and the checks
  \<open>src/src/app/config/runtime-config.ts\<close> makes on the configured credentials. The string
  functions of JavaScript it uses (\<open>trim\<close>, \<open>toLowerCase\<close>) are those of \<open>JsText\<close>; \<open>split(/\s+/)\<close> is
  defined here.
\<close>

section \<open>String functions\<close>

function js_split_space :: "string \<Rightarrow> string list" where
  "js_split_space s =
     (let word = takeWhile (\<lambda>c. \<not> js_space c) s; rest = dropWhile (\<lambda>c. \<not> js_space c) s
      in if rest = [] then [word] else word # js_split_space (dropWhile js_space rest))"
  by auto
termination
proof (relation "measure length", goal_cases)
  case (2 s word rest)
  then obtain c cs where rest: "rest = c # cs" "js_space c"
    by (metis dropWhile_eq_Cons_conv list.exhaust)
  have "length (dropWhile js_space cs) \<le> length cs" by (rule length_dropWhile_le)
  moreover have "length (c # cs) \<le> length s" using 2 rest by (metis length_dropWhile_le)
  ultimately show ?case using rest by simp
qed simp

declare js_split_space.simps [simp del]

section \<open>Credentials\<close>

record IngestionCredential =
  cr_credentialId :: string
  cr_token :: string
  cr_merchantId :: string
  cr_storeIds :: "string list"
  cr_producerService :: string
  cr_producerEnvironment :: string
  cr_source :: string

text \<open>\<open>z.string().trim().min(1)\<close> on every field, and a non-empty list of stores.\<close>

definition trimmed_nonempty :: "string \<Rightarrow> string option" where
  "trimmed_nonempty s = (let t = js_trim s in if t = [] then None else Some t)"

fun all_some :: "'a option list \<Rightarrow> 'a list option" where
  "all_some [] = Some []"
| "all_some (None # xs) = None"
| "all_some (Some a # xs) = map_option (Cons a) (all_some xs)"

definition parse_credential :: "IngestionCredential \<Rightarrow> IngestionCredential option" where
  "parse_credential c =
     (case all_some [trimmed_nonempty (cr_credentialId c), trimmed_nonempty (cr_token c),
                     trimmed_nonempty (cr_merchantId c), trimmed_nonempty (cr_producerService c),
                     trimmed_nonempty (cr_producerEnvironment c), trimmed_nonempty (cr_source c)] of
        Some [i, t, m, s, e, src] \<Rightarrow>
          (case all_some (map trimmed_nonempty (cr_storeIds c)) of
             Some (st # sts) \<Rightarrow>
               Some \<lparr>cr_credentialId = i, cr_token = t, cr_merchantId = m, cr_storeIds = st # sts,
                     cr_producerService = s, cr_producerEnvironment = e, cr_source = src\<rparr>
           | _ \<Rightarrow> None)
      | _ \<Rightarrow> None)"

datatype credential_issue = DuplicateCredentialId nat | DuplicateToken nat

fun duplicate_issues ::
  "(nat \<Rightarrow> credential_issue) \<Rightarrow> (string, nat) jsmap \<Rightarrow> nat \<Rightarrow> string list \<Rightarrow> credential_issue list" where
  "duplicate_issues mk firstIndexByValue index [] = []"
| "duplicate_issues mk firstIndexByValue index (v # vs) =
     (case map_get firstIndexByValue v of
        None \<Rightarrow> duplicate_issues mk (map_set v index firstIndexByValue) (Suc index) vs
      | Some existingIndex \<Rightarrow> mk index # duplicate_issues mk firstIndexByValue (Suc index) vs)"

definition assertUniqueCredentials :: "IngestionCredential list \<Rightarrow> credential_issue list" where
  "assertUniqueCredentials cs =
     duplicate_issues DuplicateCredentialId [] 0 (map cr_credentialId cs)
     @ duplicate_issues DuplicateToken [] 0 (map cr_token cs)"

text \<open>What \<open>IngestionCredentialsSchema\<close> lets through.\<close>

definition parse_credentials :: "IngestionCredential list \<Rightarrow> IngestionCredential list option" where
  "parse_credentials cs =
     (case all_some (map parse_credential cs) of
        None \<Rightarrow> None
      | Some ps \<Rightarrow> if ps = [] \<or> assertUniqueCredentials ps \<noteq> [] then None else Some ps)"

section \<open>Authentication\<close>

datatype header = NoHeader | OneHeader string | HeaderList "string list"

definition bearer_token_of :: "string \<Rightarrow> string option" where
  "bearer_token_of h =
     (case js_split_space (js_trim h) of
        [scheme, token] \<Rightarrow> if js_lower scheme \<noteq> ''bearer'' \<or> token = [] then None else Some token
      | _ \<Rightarrow> None)"

fun extractBearerToken :: "header \<Rightarrow> string option" where
  "extractBearerToken NoHeader = None"
| "extractBearerToken (OneHeader h) = bearer_token_of h"
| "extractBearerToken (HeaderList [h]) = bearer_token_of h"
| "extractBearerToken (HeaderList hs) = None"

definition withoutToken :: "IngestionCredential \<Rightarrow> AuthenticatedIngestionContext" where
  "withoutToken c = \<lparr>ctx_credentialId = cr_credentialId c, ctx_merchantId = cr_merchantId c,
     ctx_storeIds = cr_storeIds c, ctx_producerService = cr_producerService c,
     ctx_producerEnvironment = cr_producerEnvironment c, ctx_source = cr_source c\<rparr>"

text \<open>\<open>None\<close> is the 401 response.\<close>

definition authenticateIngestionRequest ::
  "header \<Rightarrow> IngestionCredential list \<Rightarrow> AuthenticatedIngestionContext option" where
  "authenticateIngestionRequest authorizationHeader credentials =
     (case extractBearerToken authorizationHeader of
        None \<Rightarrow> None
      | Some token \<Rightarrow>
          if token = [] then None
          else map_option withoutToken (find (\<lambda>candidate. cr_token candidate = token) credentials))"

section \<open>Lemmas on strings\<close>

lemma split_word: "\<forall>c \<in> set s. \<not> js_space c \<Longrightarrow> js_split_space s = [s]"
  by (subst js_split_space.simps) (simp add: takeWhile_eq_all_conv [THEN iffD2] dropWhile_eq_Nil_conv [THEN iffD2])

lemma split_two:
  assumes "\<forall>c \<in> set a. \<not> js_space c" "js_space d" "\<forall>c \<in> set b. \<not> js_space c" "b \<noteq> []"
  shows "js_split_space (a @ d # b) = [a, b]"
proof -
  have "takeWhile (\<lambda>c. \<not> js_space c) (a @ d # b) = a"
    "dropWhile (\<lambda>c. \<not> js_space c) (a @ d # b) = d # b"
    using assms(1,2) by (simp_all add: takeWhile_append dropWhile_append)
  moreover have "dropWhile js_space b = b" using assms(3,4) by (cases b) simp_all
  ultimately show ?thesis
    using assms(2) split_word [OF assms(3)] by (subst js_split_space.simps) simp
qed

lemma split_no_space: "w \<in> set (js_split_space s) \<Longrightarrow> c \<in> set w \<Longrightarrow> \<not> js_space c"
proof (induction s rule: js_split_space.induct)
  case (1 s)
  then show ?case
    by (subst (asm) (2) js_split_space.simps)
      (auto simp: Let_def dest: set_takeWhileD split: if_splits)
qed

lemma trim_no_space:
  assumes "s \<noteq> []" "\<not> js_space (hd s)" "\<not> js_space (last s)"
  shows "js_trim s = s"
proof -
  have "dropWhile js_space s = s" using assms by (cases s) simp_all
  moreover have "dropWhile js_space (rev s) = rev s"
    using assms by (cases s rule: rev_cases) simp_all
  ultimately show ?thesis by (simp add: js_trim_def)
qed

section \<open>Lemmas on authentication\<close>

lemma bearer_token_no_space: "bearer_token_of h = Some t \<Longrightarrow> t \<noteq> [] \<and> (\<forall>c \<in> set t. \<not> js_space c)"
proof -
  assume "bearer_token_of h = Some t"
  then obtain scheme where "js_split_space (js_trim h) = [scheme, t]" "t \<noteq> []"
    by (auto simp: bearer_token_of_def split: list.splits if_splits)
  with split_no_space [of t "js_trim h"] show ?thesis by auto
qed

lemma extracted_no_space: "extractBearerToken h = Some t \<Longrightarrow> t \<noteq> [] \<and> (\<forall>c \<in> set t. \<not> js_space c)"
  by (cases h rule: extractBearerToken.cases) (auto dest: bearer_token_no_space)

text \<open>The header \<open>Bearer token\<close> a client sends for a token without spaces is understood.\<close>

lemma bearer_round_trip:
  assumes "t \<noteq> []" "\<forall>c \<in> set t. \<not> js_space c"
  shows "extractBearerToken (OneHeader (''Bearer '' @ t)) = Some t"
proof -
  have "\<not> js_space (last (''Bearer '' @ t))" using assms by simp
  then have "js_trim (''Bearer '' @ t) = ''Bearer '' @ t"
    by (intro trim_no_space) (simp_all add: js_space_def)
  moreover have "js_split_space (''Bearer'' @ CHR '' '' # t) = [''Bearer'', t]"
    using assms by (intro split_two) (auto simp: js_space_def)
  moreover have "js_lower ''Bearer'' = ''bearer''" by code_simp
  ultimately show ?thesis using assms(1) by (simp add: bearer_token_of_def)
qed

lemma duplicate_issues_Nil_iff:
  "duplicate_issues mk seen i vs = []
     \<longleftrightarrow> distinct vs \<and> (\<forall>v \<in> set vs. map_get seen v = None)"
  by (induction mk seen i vs rule: duplicate_issues.induct)
    (auto simp: map_get_set split: option.splits)

lemma unique_credentials:
  "assertUniqueCredentials cs = [] \<longleftrightarrow> distinct (map cr_credentialId cs) \<and> distinct (map cr_token cs)"
  by (simp add: assertUniqueCredentials_def duplicate_issues_Nil_iff)

lemma authenticate_SomeD:
  assumes "authenticateIngestionRequest h cs = Some ctx"
  shows "\<exists>c \<in> set cs. extractBearerToken h = Some (cr_token c) \<and> ctx = withoutToken c"
  using assms
  by (auto simp: authenticateIngestionRequest_def find_Some_iff split: option.splits if_splits)

lemma find_token:
  "distinct (map cr_token cs) \<Longrightarrow> c \<in> set cs
   \<Longrightarrow> find (\<lambda>candidate. cr_token candidate = cr_token c) cs = Some c"
  by (induction cs) (auto simp: image_iff)

lemma parse_credentials_unique:
  "parse_credentials raw = Some cs \<Longrightarrow>
   distinct (map cr_token cs) \<and> distinct (map cr_credentialId cs) \<and> cs \<noteq> []"
  by (auto simp: parse_credentials_def unique_credentials split: option.splits if_splits)

end
