(* ===== verification/PosProducer.thy ===== *)
theory PosProducer
  imports Auth
begin

text \<open>
  The POS producer: the mapping of a paid order to an event
  (\<open>src/src/app/producers/pos-order-paid-mapper.ts\<close>) and its delivery to the ingestion route
  (\<open>src/src/app/producers/pos-events-delivery.ts\<close>). The transport is a function from the
  request to the response or an exception or a timeout, with the state of what is behind it.
\<close>

section \<open>The fixture\<close>

datatype PaymentMethodType = card_present | cash | stored_value | other_method

fun payment_method_text :: "PaymentMethodType \<Rightarrow> string" where
  "payment_method_text card_present = ''card_present''"
| "payment_method_text cash = ''cash''"
| "payment_method_text stored_value = ''stored_value''"
| "payment_method_text other_method = ''other''"

text \<open>
  The fields of \<open>PosOrderPaidFixtureSchema\<close> that vary; the literals it demands are constants.
\<close>

record PosOrderPaidFixture =
  fx_merchantId :: string
  fx_storeId :: string
  fx_brandId :: "string option"
  fx_orderId :: string
  fx_paymentId :: string
  fx_orderVersion :: string
  fx_paidAt :: string
  fx_emittedAt :: string
  fx_paymentMethodType :: PaymentMethodType
  fx_currency :: string
  fx_lineItemCount :: int

definition upper_letter :: "char \<Rightarrow> bool" where
  "upper_letter c \<longleftrightarrow> 65 \<le> (of_char c :: nat) \<and> (of_char c :: nat) \<le> 90"

definition valid_fixture :: "(string \<Rightarrow> bool) \<Rightarrow> PosOrderPaidFixture \<Rightarrow> bool" where
  "valid_fixture dt f \<longleftrightarrow>
     nonempty (fx_merchantId f) \<and> nonempty (fx_storeId f) \<and> optional_nonempty (fx_brandId f)
     \<and> nonempty (fx_orderId f) \<and> nonempty (fx_paymentId f) \<and> nonempty (fx_orderVersion f)
     \<and> dt (fx_paidAt f) \<and> dt (fx_emittedAt f)
     \<and> length (fx_currency f) = 3 \<and> list_all upper_letter (fx_currency f)
     \<and> 0 \<le> fx_lineItemCount f"

section \<open>The mapping\<close>

definition pos_event_id :: "PosOrderPaidFixture \<Rightarrow> string" where
  "pos_event_id f = ''pos.order_paid:'' @ fx_storeId f @ '':'' @ fx_orderId f @ '':'' @ fx_paymentId f"

definition pos_idempotency_key :: "PosOrderPaidFixture \<Rightarrow> string" where
  "pos_idempotency_key f = ''pos.order_paid:v1:'' @ fx_orderId f @ '':'' @ fx_paymentId f"

definition pos_event :: "PosOrderPaidFixture \<Rightarrow> DataDynaEvent" where
  "pos_event f = \<lparr>
     ev_version = V_event_contract_v1,
     ev_source = Src_pos,
     ev_domain = Dom_transaction_scene,
     ev_name = EN_pos_order_paid,
     ev_occurredAt = fx_paidAt f,
     ev_producer = \<lparr>prd_service = ''pos-lite-cashier'', prd_app = Some ''pos-register'',
       prd_environment = Some Env_test, prd_emittedAt = fx_emittedAt f,
       prd_schemaRef = Some (''pos.order-paid.v1'' @ '' -> data-dyna.event-contract.v1'')\<rparr>,
     ev_identity = \<lparr>idt_brandId = (if truthy (fx_brandId f) then fx_brandId f else None),
       idt_storeId = Some (fx_storeId f), idt_merchantId = Some (fx_merchantId f),
       idt_memberId = None, idt_customerId = None, idt_deviceId = None,
       idt_actorType = Some Act_cashier\<rparr>,
     ev_correlation = \<lparr>cor_eventId = pos_event_id f, cor_traceId = None, cor_sessionId = None,
       cor_requestId = None, cor_causationId = None,
       cor_correlationId = Some (''pos-order:'' @ fx_orderId f)\<rparr>,
     ev_entity = \<lparr>ent_type = Ent_order, ent_id = fx_orderId f, ent_version = Some (fx_orderVersion f)\<rparr>,
     ev_properties =
       [(''orderStatus'', JStr ''paid''), (''paymentStatus'', JStr ''paid''),
        (''orderChannel'', JStr ''in_store_pos''),
        (''paymentMethodType'', JStr (payment_method_text (fx_paymentMethodType f))),
        (''currency'', JStr (fx_currency f)),
        (''lineItemCount'', JNum (Finite (of_int (fx_lineItemCount f))))],
     ev_idempotency = \<lparr>idm_key = pos_idempotency_key f, idm_scope = Scope_store\<rparr>\<rparr>"

text \<open>The fixture parser is zod's: \<open>parseFixture\<close>; \<open>None\<close> is an exception.\<close>

definition parses_fixture :: "(string \<Rightarrow> bool) \<Rightarrow> ('x \<Rightarrow> PosOrderPaidFixture option) \<Rightarrow> bool" where
  "parses_fixture dt parseFixture \<longleftrightarrow> (\<forall>x f. parseFixture x = Some f \<longrightarrow> valid_fixture dt f)"

definition mapPosOrderPaidToDataDynaEvent ::
  "(string \<Rightarrow> bool) \<Rightarrow> ('x \<Rightarrow> PosOrderPaidFixture option) \<Rightarrow> 'x \<Rightarrow> DataDynaEvent option" where
  "mapPosOrderPaidToDataDynaEvent dt parseFixture input =
     (case parseFixture input of
        None \<Rightarrow> None
      | Some fixture \<Rightarrow> parseDataDynaEvent dt (pos_event fixture))"

section \<open>Delivery\<close>

datatype PosEventsDeliveryOutcome =
  Out_sent | Out_duplicate | Out_invalid_payload | Out_tenant_identity_required
| Out_unauthorized | Out_tenant_mismatch | Out_transient_send_failure

datatype PosEventsDeliveryRetryAdvice =
  Adv_none | Adv_fix_payload_contract | Adv_fix_credentials | Adv_fix_tenant_mapping
| Adv_retry_or_backfill

record PosEventsDeliveryResult =
  dl_ok :: bool
  dl_outcome :: PosEventsDeliveryOutcome
  dl_statusCode :: "int option"
  dl_retryAdvice :: PosEventsDeliveryRetryAdvice
  dl_primaryFlowBlocked :: bool

record 'x PosEventsDeliveryTransportRequest =
  rq_method :: string
  rq_path :: string
  rq_headers :: "(string \<times> string) list"
  rq_timeoutMs :: int
  rq_payload :: 'x

text \<open>What \<open>withTransportTimeout\<close> yields: a response, no response in time, an exception.\<close>

datatype transport_outcome = Response int "json option" | TimedOut | TransportError

definition deliveryResult ::
  "PosEventsDeliveryOutcome \<Rightarrow> int option \<Rightarrow> PosEventsDeliveryRetryAdvice \<Rightarrow> bool
   \<Rightarrow> PosEventsDeliveryResult" where
  "deliveryResult outcome statusCode retryAdvice ok =
     \<lparr>dl_ok = ok, dl_outcome = outcome, dl_statusCode = statusCode, dl_retryAdvice = retryAdvice,
      dl_primaryFlowBlocked = False\<rparr>"

text \<open>
  \<open>bodyObject\<close>: an array is an object too; its keys are indices, so the names read below are
  missing there.
\<close>

fun bodyObject :: "json option \<Rightarrow> (string \<times> json) list" where
  "bodyObject (Some (JObj obj)) = obj"
| "bodyObject _ = []"

definition isDuplicateResponse :: "json option \<Rightarrow> bool" where
  "isDuplicateResponse body \<longleftrightarrow> get_prop (bodyObject body) ''duplicate'' = Some (JBool True)"

definition errorCode :: "json option \<Rightarrow> string option" where
  "errorCode body =
     (case get_prop (bodyObject (get_prop (bodyObject body) ''error'')) ''code'' of
        Some (JStr code) \<Rightarrow> Some code
      | _ \<Rightarrow> None)"

definition classifyEventsDeliveryResponse :: "int \<Rightarrow> json option \<Rightarrow> PosEventsDeliveryResult" where
  "classifyEventsDeliveryResponse statusCode body =
     (if statusCode = 202 then
        deliveryResult (if isDuplicateResponse body then Out_duplicate else Out_sent)
          (Some statusCode) Adv_none True
      else if statusCode = 401 then
        deliveryResult Out_unauthorized (Some statusCode) Adv_fix_credentials False
      else if statusCode = 403 then
        deliveryResult Out_tenant_mismatch (Some statusCode) Adv_fix_tenant_mapping False
      else if statusCode = 400 \<and> errorCode body = Some ''TENANT_IDENTITY_REQUIRED'' then
        deliveryResult Out_tenant_identity_required (Some statusCode) Adv_fix_tenant_mapping False
      else if statusCode = 400 then
        deliveryResult Out_invalid_payload (Some statusCode) Adv_fix_payload_contract False
      else if statusCode \<ge> 500 then
        deliveryResult Out_transient_send_failure (Some statusCode) Adv_retry_or_backfill False
      else deliveryResult Out_invalid_payload (Some statusCode) Adv_fix_payload_contract False)"

definition POS_EVENTS_DELIVERY_TIMEOUT_MS :: int where
  "POS_EVENTS_DELIVERY_TIMEOUT_MS = 1500"

definition delivery_request ::
  "string \<Rightarrow> int option \<Rightarrow> 'x \<Rightarrow> 'x PosEventsDeliveryTransportRequest" where
  "delivery_request bearerToken timeoutMs payload =
     \<lparr>rq_method = ''POST'', rq_path = ''/events'',
      rq_headers = [(''authorization'', ''Bearer '' @ bearerToken),
                    (''content-type'', ''application/json'')],
      rq_timeoutMs = max 1 (or_else timeoutMs POS_EVENTS_DELIVERY_TIMEOUT_MS),
      rq_payload = payload\<rparr>"

definition sendDataDynaEventToEvents ::
  "string \<Rightarrow> int option \<Rightarrow> ('x PosEventsDeliveryTransportRequest \<Rightarrow> 's \<Rightarrow> transport_outcome \<times> 's)
   \<Rightarrow> 'x \<Rightarrow> 's \<Rightarrow> PosEventsDeliveryResult \<times> 's" where
  "sendDataDynaEventToEvents bearerToken timeoutMs transport payload s =
     (case transport (delivery_request bearerToken timeoutMs payload) s of
        (Response statusCode body, s') \<Rightarrow> (classifyEventsDeliveryResponse statusCode body, s')
      | (TimedOut, s') \<Rightarrow> (deliveryResult Out_transient_send_failure None Adv_retry_or_backfill False, s')
      | (TransportError, s') \<Rightarrow>
          (deliveryResult Out_transient_send_failure None Adv_retry_or_backfill False, s'))"

definition deliverPosOrderPaidFixtureToEvents ::
  "(string \<Rightarrow> bool) \<Rightarrow> ('x \<Rightarrow> PosOrderPaidFixture option) \<Rightarrow> string \<Rightarrow> int option
   \<Rightarrow> (DataDynaEvent PosEventsDeliveryTransportRequest \<Rightarrow> 's \<Rightarrow> transport_outcome \<times> 's)
   \<Rightarrow> 'x \<Rightarrow> 's \<Rightarrow> PosEventsDeliveryResult \<times> 's" where
  "deliverPosOrderPaidFixtureToEvents dt parseFixture bearerToken timeoutMs transport fixture s =
     (case mapPosOrderPaidToDataDynaEvent dt parseFixture fixture of
        None \<Rightarrow> (deliveryResult Out_invalid_payload None Adv_fix_payload_contract False, s)
      | Some e \<Rightarrow> sendDataDynaEventToEvents bearerToken timeoutMs transport e s)"

section \<open>Lemmas\<close>

lemma pos_event_valid: "valid_fixture dt f \<Longrightarrow> valid_event dt (pos_event f)"
  by (auto simp: valid_fixture_def valid_event_def pos_event_def valid_producer_def
      valid_identity_def valid_correlation_def valid_entity_def valid_idempotency_def nonempty_def
      optional_nonempty_def pos_event_id_def pos_idempotency_key_def)

lemma pos_mapping_total:
  "parses_fixture dt parseFixture \<Longrightarrow> parseFixture x = Some f
   \<Longrightarrow> mapPosOrderPaidToDataDynaEvent dt parseFixture x = Some (pos_event f)"
  by (simp add: mapPosOrderPaidToDataDynaEvent_def parseDataDynaEvent_def parses_fixture_def
      pos_event_valid)

text \<open>A colon separates the parts of the keys; two ids without one are told apart by them.\<close>

lemma colon_append_inject:
  "CHR '':'' \<notin> set a \<Longrightarrow> CHR '':'' \<notin> set b \<Longrightarrow>
   a @ CHR '':'' # x = b @ CHR '':'' # y \<longleftrightarrow> a = b \<and> x = y"
proof (induction a arbitrary: b)
  case Nil
  then show ?case by (cases b) auto
next
  case (Cons c a)
  then show ?case by (cases b) auto
qed

lemma pos_idempotency_key_inject:
  "CHR '':'' \<notin> set (fx_orderId f) \<Longrightarrow> CHR '':'' \<notin> set (fx_orderId g) \<Longrightarrow>
   pos_idempotency_key f = pos_idempotency_key g
     \<longleftrightarrow> fx_orderId f = fx_orderId g \<and> fx_paymentId f = fx_paymentId g"
  by (simp add: pos_idempotency_key_def colon_append_inject)

lemma pos_identity_iff:
  "rawEventIdempotencyIdentity (pos_event f) = rawEventIdempotencyIdentity (pos_event g)
   \<longleftrightarrow> fx_merchantId f = fx_merchantId g \<and> fx_storeId f = fx_storeId g
     \<and> pos_idempotency_key f = pos_idempotency_key g"
  by (auto simp: rawEventIdempotencyIdentity_def pos_event_def)

end
