(* ===== verification/Observability.thy ===== *)
theory Observability
  imports Auth
begin

text \<open>
  Runtime logs and metrics: \<open>src/src/app/observability/runtime-log.ts\<close> and
  \<open>src/src/app/observability/runtime-metrics.ts\<close>. A sink is the list of what it was handed, or
  nothing when none is configured; a sink that throws changes nothing else, because the code
  catches it. A field that is \<open>undefined\<close> is left out, as serialising the record does. Times are
  read from a clock the caller passes in.
\<close>

section \<open>Identifiers\<close>

text \<open>The class \<open>[A-Za-z0-9._:/=-]\<close> of both patterns.\<close>

definition safe_id_char :: "char \<Rightarrow> bool" where
  "safe_id_char c \<longleftrightarrow>
     (let n = of_char c :: nat
      in (65 \<le> n \<and> n \<le> 90) \<or> (97 \<le> n \<and> n \<le> 122) \<or> (48 \<le> n \<and> n \<le> 57)
         \<or> c \<in> set ''._:/=-'')"

definition safe_id_pattern :: "string \<Rightarrow> bool" where
  "safe_id_pattern s \<longleftrightarrow> 1 \<le> length s \<and> length s \<le> 128 \<and> list_all safe_id_char s"

definition safe_id_of :: "string \<Rightarrow> string option" where
  "safe_id_of value =
     (let trimmed = js_trim value
      in if trimmed = [] \<or> \<not> safe_id_pattern trimmed then None else Some trimmed)"

fun safeObservabilityId :: "header \<Rightarrow> string option" where
  "safeObservabilityId NoHeader = None"
| "safeObservabilityId (OneHeader v) = safe_id_of v"
| "safeObservabilityId (HeaderList [v]) = safe_id_of v"
| "safeObservabilityId (HeaderList vs) = None"

record RequestObservabilityContext =
  ro_requestId :: string
  ro_correlationId :: string

definition createRequestObservabilityContext ::
  "string \<Rightarrow> header \<Rightarrow> header \<Rightarrow> RequestObservabilityContext" where
  "createRequestObservabilityContext uuid xRequestId xCorrelationId =
     (let requestId = or_else (safeObservabilityId xRequestId) uuid
      in \<lparr>ro_requestId = requestId,
          ro_correlationId = or_else (safeObservabilityId xCorrelationId) requestId\<rparr>)"

section \<open>Logs\<close>

datatype RuntimeEnvironment = Run_local | Run_test

datatype RuntimeLogLevel = Log_info | Log_warn | Log_error

datatype RuntimeLogEvent =
  Ev_runtime_request_completed | Ev_ingestion_auth_rejected | Ev_ingestion_event_accepted
| Ev_ingestion_event_duplicate | Ev_ingestion_event_invalid
| Ev_ingestion_event_tenant_policy_rejected | Ev_ingestion_batch_completed
| Ev_worker_job_started | Ev_worker_job_checkpointed | Ev_worker_job_completed
| Ev_worker_job_failed | Ev_worker_job_retry_scheduled | Ev_worker_job_dead_lettered

fun log_event_text :: "RuntimeLogEvent \<Rightarrow> string" where
  "log_event_text Ev_runtime_request_completed = ''runtime.request.completed''"
| "log_event_text Ev_ingestion_auth_rejected = ''ingestion.auth.rejected''"
| "log_event_text Ev_ingestion_event_accepted = ''ingestion.event.accepted''"
| "log_event_text Ev_ingestion_event_duplicate = ''ingestion.event.duplicate''"
| "log_event_text Ev_ingestion_event_invalid = ''ingestion.event.invalid''"
| "log_event_text Ev_ingestion_event_tenant_policy_rejected = ''ingestion.event.tenant_policy_rejected''"
| "log_event_text Ev_ingestion_batch_completed = ''ingestion.batch.completed''"
| "log_event_text Ev_worker_job_started = ''worker.job.started''"
| "log_event_text Ev_worker_job_checkpointed = ''worker.job.checkpointed''"
| "log_event_text Ev_worker_job_completed = ''worker.job.completed''"
| "log_event_text Ev_worker_job_failed = ''worker.job.failed''"
| "log_event_text Ev_worker_job_retry_scheduled = ''worker.job.retry_scheduled''"
| "log_event_text Ev_worker_job_dead_lettered = ''worker.job.dead_lettered''"

datatype RuntimeLogOutcome =
  Outc_accepted | Outc_duplicate | Outc_invalid | Outc_unauthorized
| Outc_tenant_identity_required | Outc_tenant_mismatch | Outc_started | Outc_checkpointed
| Outc_completed | Outc_failed | Outc_retry_scheduled | Outc_dead_lettered | Outc_error

fun outcome_text :: "RuntimeLogOutcome \<Rightarrow> string" where
  "outcome_text Outc_accepted = ''accepted''"
| "outcome_text Outc_duplicate = ''duplicate''"
| "outcome_text Outc_invalid = ''invalid''"
| "outcome_text Outc_unauthorized = ''unauthorized''"
| "outcome_text Outc_tenant_identity_required = ''tenant_identity_required''"
| "outcome_text Outc_tenant_mismatch = ''tenant_mismatch''"
| "outcome_text Outc_started = ''started''"
| "outcome_text Outc_checkpointed = ''checkpointed''"
| "outcome_text Outc_completed = ''completed''"
| "outcome_text Outc_failed = ''failed''"
| "outcome_text Outc_retry_scheduled = ''retry_scheduled''"
| "outcome_text Outc_dead_lettered = ''dead_lettered''"
| "outcome_text Outc_error = ''error''"

text \<open>The optional fields are a list of name and value.\<close>

record RuntimeLogRecord =
  lg_timestamp :: string
  lg_level :: RuntimeLogLevel
  lg_service :: string
  lg_runtime_environment :: RuntimeEnvironment
  lg_event :: RuntimeLogEvent
  lg_fields :: "(string \<times> json) list"

record RuntimeLogInput =
  li_level :: RuntimeLogLevel
  li_event :: RuntimeLogEvent
  li_fields :: "(string \<times> json) list"

text \<open>An object literal: the fields that are \<open>undefined\<close> are left out.\<close>

fun defined_fields :: "(string \<times> 'a option) list \<Rightarrow> (string \<times> 'a) list" where
  "defined_fields [] = []"
| "defined_fields ((k, None) # fs) = defined_fields fs"
| "defined_fields ((k, Some v) # fs) = (k, v) # defined_fields fs"

abbreviation jstr :: "string option \<Rightarrow> json option" where
  "jstr s \<equiv> map_option JStr s"

abbreviation jint :: "int \<Rightarrow> json option" where
  "jint i \<equiv> Some (JNum (Finite (of_int i)))"

abbreviation jnat :: "nat \<Rightarrow> json option" where
  "jnat n \<equiv> Some (JNum (Finite (of_nat n)))"

definition emitRuntimeLog ::
  "string \<Rightarrow> RuntimeEnvironment \<Rightarrow> RuntimeLogInput \<Rightarrow> RuntimeLogRecord list option
   \<Rightarrow> RuntimeLogRecord list option" where
  "emitRuntimeLog now runtimeEnvironment inp sink =
     (case sink of
        None \<Rightarrow> None
      | Some records \<Rightarrow> Some (records @
          [\<lparr>lg_timestamp = now, lg_level = li_level inp, lg_service = ''data-dyna'',
            lg_runtime_environment = runtimeEnvironment, lg_event = li_event inp,
            lg_fields = li_fields inp\<rparr>]))"

section \<open>Metrics\<close>

datatype RuntimeMetricName =
  M_http_requests_total | M_http_request_duration_ms | M_ingestion_events_total
| M_ingestion_batch_items_total | M_ingestion_auth_rejections_total
| M_ingestion_tenant_policy_failures_total | M_runtime_errors_total | M_worker_jobs_total
| M_worker_checkpoints_total | M_worker_duration_ms | M_worker_lag_ms

datatype RuntimeMetricType = counter | histogram

type_synonym metric_labels = "(string \<times> string) list"

record RuntimeMetricRecord =
  mt_timestamp :: string
  mt_service :: string
  mt_runtime_environment :: RuntimeEnvironment
  mt_name :: RuntimeMetricName
  mt_type :: RuntimeMetricType
  mt_value :: int
  mt_labels :: metric_labels

definition allowedMetricLabelKeys :: "string list" where
  "allowedMetricLabelKeys =
     [''route'', ''method'', ''status_class'', ''outcome'', ''error_code'', ''source'',
      ''producer_service'', ''producer_environment'', ''event_domain'', ''event_name'',
      ''worker_kind'', ''failure_class'', ''reason_code'']"

definition httpStatusClass :: "int \<Rightarrow> string" where
  "httpStatusClass status =
     (if status \<ge> 500 then ''5xx'' else if status \<ge> 400 then ''4xx'' else ''2xx'')"

fun sanitize_keys :: "string list \<Rightarrow> metric_labels \<Rightarrow> metric_labels" where
  "sanitize_keys [] labels = []"
| "sanitize_keys (k # ks) labels =
     (case map_of labels k of
        None \<Rightarrow> sanitize_keys ks labels
      | Some value \<Rightarrow>
          if length value = 0 then sanitize_keys ks labels
          else if safe_id_pattern value then (k, value) # sanitize_keys ks labels
          else sanitize_keys ks labels)"

definition sanitizeMetricLabels :: "metric_labels \<Rightarrow> metric_labels" where
  "sanitizeMetricLabels labels = sanitize_keys allowedMetricLabelKeys labels"

definition emitRuntimeMetric ::
  "string \<Rightarrow> RuntimeEnvironment \<Rightarrow> RuntimeMetricName \<Rightarrow> RuntimeMetricType \<Rightarrow> int \<Rightarrow> metric_labels
   \<Rightarrow> RuntimeMetricRecord list option \<Rightarrow> RuntimeMetricRecord list option" where
  "emitRuntimeMetric now runtimeEnvironment nm ty v labels sink =
     (case sink of
        None \<Rightarrow> None
      | Some records \<Rightarrow> Some (records @
          [\<lparr>mt_timestamp = now, mt_service = ''data-dyna'',
            mt_runtime_environment = runtimeEnvironment, mt_name = nm, mt_type = ty,
            mt_value = v, mt_labels = sanitizeMetricLabels labels\<rparr>]))"

definition incrementRuntimeCounter ::
  "string \<Rightarrow> RuntimeEnvironment \<Rightarrow> RuntimeMetricName \<Rightarrow> metric_labels
   \<Rightarrow> RuntimeMetricRecord list option \<Rightarrow> RuntimeMetricRecord list option" where
  "incrementRuntimeCounter now env nm labels = emitRuntimeMetric now env nm counter 1 labels"

definition observeRuntimeDuration ::
  "string \<Rightarrow> RuntimeEnvironment \<Rightarrow> RuntimeMetricName \<Rightarrow> int \<Rightarrow> metric_labels
   \<Rightarrow> RuntimeMetricRecord list option \<Rightarrow> RuntimeMetricRecord list option" where
  "observeRuntimeDuration now env nm v labels = emitRuntimeMetric now env nm histogram v labels"

text \<open>\<open>InMemoryRuntimeMetricSink.sum\<close>.\<close>

definition labelsMatch :: "metric_labels \<Rightarrow> metric_labels \<Rightarrow> bool" where
  "labelsMatch actual expected = list_all (\<lambda>(k, v). map_of actual k = Some v) expected"

definition metric_sum :: "RuntimeMetricRecord list \<Rightarrow> RuntimeMetricName \<Rightarrow> metric_labels \<Rightarrow> int" where
  "metric_sum records nm labels =
     sum_list (map mt_value
       (filter (\<lambda>r. mt_name r = nm \<and> labelsMatch (mt_labels r) labels) records))"

section \<open>Lemmas\<close>

definition safe_labels :: "metric_labels \<Rightarrow> bool" where
  "safe_labels ls \<longleftrightarrow>
     distinct (map fst ls)
     \<and> (\<forall>(k, v) \<in> set ls. k \<in> set allowedMetricLabelKeys \<and> safe_id_pattern v)"

lemma sanitize_keys_spec:
  "distinct ks \<Longrightarrow> distinct (map fst (sanitize_keys ks ls))
     \<and> (\<forall>(k, v) \<in> set (sanitize_keys ks ls). k \<in> set ks \<and> safe_id_pattern v \<and> map_of ls k = Some v)"
  by (induction ks) (auto simp: case_prod_beta image_iff split: option.splits)

lemma sanitize_safe: "safe_labels (sanitizeMetricLabels ls)"
proof -
  have "distinct allowedMetricLabelKeys" by (simp add: allowedMetricLabelKeys_def)
  from sanitize_keys_spec [OF this, of ls] show ?thesis
    by (auto simp: safe_labels_def sanitizeMetricLabels_def)
qed

text \<open>Nothing is invented: a label that comes out is one that went in.\<close>

lemma sanitize_from:
  "(k, v) \<in> set (sanitizeMetricLabels ls) \<Longrightarrow> map_of ls k = Some v"
proof -
  have "distinct allowedMetricLabelKeys" by (simp add: allowedMetricLabelKeys_def)
  from sanitize_keys_spec [OF this, of ls] show "(k, v) \<in> set (sanitizeMetricLabels ls) \<Longrightarrow> ?thesis"
    by (auto simp: sanitizeMetricLabels_def)
qed

lemma safeObservabilityId_safe: "safeObservabilityId h = Some s \<Longrightarrow> safe_id_pattern s"
  by (cases h rule: safeObservabilityId.cases)
    (auto simp: safe_id_of_def Let_def split: if_splits)

lemma emit_metric_Some [simp]:
  "emitRuntimeMetric now env nm ty v labels None = None"
  "emitRuntimeMetric now env nm ty v labels (Some rs) = Some (rs @
      [\<lparr>mt_timestamp = now, mt_service = ''data-dyna'', mt_runtime_environment = env,
        mt_name = nm, mt_type = ty, mt_value = v, mt_labels = sanitizeMetricLabels labels\<rparr>])"
  by (simp_all add: emitRuntimeMetric_def)

lemma emit_log_Some [simp]:
  "emitRuntimeLog now env inp None = None"
  "emitRuntimeLog now env inp (Some rs) = Some (rs @
      [\<lparr>lg_timestamp = now, lg_level = li_level inp, lg_service = ''data-dyna'',
        lg_runtime_environment = env, lg_event = li_event inp, lg_fields = li_fields inp\<rparr>])"
  by (simp_all add: emitRuntimeLog_def)

lemma metric_sum_append [simp]: "metric_sum (xs @ ys) nm ls = metric_sum xs nm ls + metric_sum ys nm ls"
  by (simp add: metric_sum_def)

end
