(* ===== verification/EventsRoute.thy ===== *)
theory EventsRoute
  imports Observability
begin

text \<open>
  The routes \<open>POST /events\<close> and \<open>POST /events/batch\<close> of
  \<open>src/src/app/http/events-route.ts\<close>: authentication, the ingestion handler, and every log
  and metric a request emits. The state is the ingestion state and the two sinks. Fastify answers an
  exception with status 500 and a body of its own; here it is \<open>RouteThrew\<close>. The route is
  fixed by \<open>events_route\<close>; its literal text labels the records.
\<close>

section \<open>Requests, replies, state\<close>

datatype events_route = Route_events | Route_events_batch

fun route_text :: "events_route \<Rightarrow> string" where
  "route_text Route_events = ''/events''"
| "route_text Route_events_batch = ''/events/batch''"

record 'b route_request =
  req_method :: string
  req_authorization :: header
  req_xRequestId :: header
  req_xCorrelationId :: header
  req_body :: 'b

text \<open>
  What a request reads from outside: the time of day of its records, \<open>Date.now()\<close> at its
  start and its end, and a random identifier.
\<close>

record route_clock =
  clk_now :: string
  clk_started :: int
  clk_ended :: int
  clk_uuid :: string

record ('s, 'p) EventsRouteOptions =
  opt_ops :: "('s, 'p) store_ops"
  opt_postHogSink :: bool
  opt_credentials :: "IngestionCredential list"
  opt_runtimeEnvironment :: RuntimeEnvironment

record 's route_state =
  rs_ingest :: "'s ingest_state"
  rs_logs :: "RuntimeLogRecord list option"
  rs_metrics :: "RuntimeMetricRecord list option"

datatype 'p route_reply =
  UnauthorizedReply
| EventReply "'p EventIngestionResult"
| BatchReply "'p BatchResult"
| RouteThrew store_error

fun reply_status :: "'p route_reply \<Rightarrow> nat" where
  "reply_status UnauthorizedReply = 401"
| "reply_status (EventReply r) = result_status r"
| "reply_status (BatchReply r) = batch_status r"
| "reply_status (RouteThrew e) = 500"

record RouteLogContext =
  lc_route :: events_route
  lc_method :: string
  lc_startedAt :: int
  lc_observability :: RequestObservabilityContext

definition buildRouteLogContext :: "route_clock \<Rightarrow> 'b route_request \<Rightarrow> events_route \<Rightarrow> RouteLogContext" where
  "buildRouteLogContext clk request route =
     \<lparr>lc_route = route, lc_method = req_method request, lc_startedAt = clk_started clk,
      lc_observability = createRequestObservabilityContext (clk_uuid clk)
        (req_xRequestId request) (req_xCorrelationId request)\<rparr>"

definition emit_log ::
  "('s, 'p) EventsRouteOptions \<Rightarrow> route_clock \<Rightarrow> RuntimeLogLevel \<Rightarrow> RuntimeLogEvent
   \<Rightarrow> (string \<times> json option) list \<Rightarrow> 's route_state \<Rightarrow> 's route_state" where
  "emit_log dep clk level event flds st =
     st\<lparr>rs_logs := emitRuntimeLog (clk_now clk) (opt_runtimeEnvironment dep)
          \<lparr>li_level = level, li_event = event, li_fields = defined_fields flds\<rparr> (rs_logs st)\<rparr>"

definition increment ::
  "('s, 'p) EventsRouteOptions \<Rightarrow> route_clock \<Rightarrow> RuntimeMetricName \<Rightarrow> (string \<times> string option) list
   \<Rightarrow> 's route_state \<Rightarrow> 's route_state" where
  "increment dep clk nm labels st =
     st\<lparr>rs_metrics := incrementRuntimeCounter (clk_now clk) (opt_runtimeEnvironment dep) nm
          (defined_fields labels) (rs_metrics st)\<rparr>"

definition observe ::
  "('s, 'p) EventsRouteOptions \<Rightarrow> route_clock \<Rightarrow> RuntimeMetricName \<Rightarrow> int \<Rightarrow> (string \<times> string option) list
   \<Rightarrow> 's route_state \<Rightarrow> 's route_state" where
  "observe dep clk nm v labels st =
     st\<lparr>rs_metrics := observeRuntimeDuration (clk_now clk) (opt_runtimeEnvironment dep) nm v
          (defined_fields labels) (rs_metrics st)\<rparr>"

section \<open>Outcomes\<close>

fun outcomeFromTenantPolicyCode :: "TenantPolicyErrorCode \<Rightarrow> RuntimeLogOutcome" where
  "outcomeFromTenantPolicyCode TENANT_MISMATCH = Outc_tenant_mismatch"
| "outcomeFromTenantPolicyCode TENANT_IDENTITY_REQUIRED = Outc_tenant_identity_required"

fun outcomeFromEventResult :: "'p EventIngestionResult \<Rightarrow> RuntimeLogOutcome" where
  "outcomeFromEventResult (AcceptedEvent dup r) = (if dup then Outc_duplicate else Outc_accepted)"
| "outcomeFromEventResult (TenantPolicyRejected st code msg i) = outcomeFromTenantPolicyCode code"
| "outcomeFromEventResult (InvalidEvent i) = Outc_invalid"

fun errorCodeFromEventResult :: "'p EventIngestionResult \<Rightarrow> string option" where
  "errorCodeFromEventResult (AcceptedEvent dup r) = None"
| "errorCodeFromEventResult (TenantPolicyRejected st code msg i) = Some (tenant_code_text code)"
| "errorCodeFromEventResult (InvalidEvent i) = Some ''invalid_schema''"

fun is_fresh :: "'p EventIngestionResult \<Rightarrow> bool" where
  "is_fresh (AcceptedEvent dup r) \<longleftrightarrow> \<not> dup"
| "is_fresh _ = False"

fun outcomeFromBatchResult :: "'p BatchResult \<Rightarrow> RuntimeLogOutcome" where
  "outcomeFromBatchResult (BatchInvalid i) = Outc_invalid"
| "outcomeFromBatchResult (BatchResults ok results) =
     (if list_all is_fresh results then Outc_accepted
      else if list_ex (\<lambda>item. \<not> result_ok item) results then Outc_invalid
      else Outc_duplicate)"

fun errorCodeFromBatchResult :: "'p BatchResult \<Rightarrow> string option" where
  "errorCodeFromBatchResult (BatchInvalid i) = Some ''invalid_schema''"
| "errorCodeFromBatchResult (BatchResults ok results) = None"

record batch_summary =
  sum_accepted :: nat
  sum_duplicate :: nat
  sum_invalid :: nat
  sum_tenantPolicyFailure :: nat

fun summarize_one :: "'p EventIngestionResult \<Rightarrow> batch_summary \<Rightarrow> batch_summary" where
  "summarize_one (AcceptedEvent dup r) s =
     (if dup then s\<lparr>sum_duplicate := sum_duplicate s + 1\<rparr> else s\<lparr>sum_accepted := sum_accepted s + 1\<rparr>)"
| "summarize_one (TenantPolicyRejected st code msg i) s =
     s\<lparr>sum_tenantPolicyFailure := sum_tenantPolicyFailure s + 1\<rparr>"
| "summarize_one (InvalidEvent i) s = s\<lparr>sum_invalid := sum_invalid s + 1\<rparr>"

definition summarizeBatchResults :: "'p EventIngestionResult list \<Rightarrow> batch_summary" where
  "summarizeBatchResults results =
     fold summarize_one results
       \<lparr>sum_accepted = 0, sum_duplicate = 0, sum_invalid = 0, sum_tenantPolicyFailure = 0\<rparr>"

definition credentialLogFields :: "AuthenticatedIngestionContext \<Rightarrow> (string \<times> json option) list" where
  "credentialLogFields c =
     [(''credential_id'', Some (JStr (ctx_credentialId c))),
      (''merchant_id'', Some (JStr (ctx_merchantId c))),
      (''source'', Some (JStr (ctx_source c))),
      (''producer_service'', Some (JStr (ctx_producerService c))),
      (''producer_environment'', Some (JStr (ctx_producerEnvironment c)))]"

definition credentialMetricLabels :: "AuthenticatedIngestionContext \<Rightarrow> (string \<times> string option) list" where
  "credentialMetricLabels c =
     [(''source'', Some (ctx_source c)), (''producer_service'', Some (ctx_producerService c)),
      (''producer_environment'', Some (ctx_producerEnvironment c))]"

section \<open>What a request emits\<close>

definition emitAuthRejected ::
  "('s, 'p) EventsRouteOptions \<Rightarrow> route_clock \<Rightarrow> RouteLogContext \<Rightarrow> 's route_state \<Rightarrow> 's route_state" where
  "emitAuthRejected dep clk lc st =
     increment dep clk M_ingestion_auth_rejections_total
       [(''route'', Some (route_text (lc_route lc))), (''method'', Some (lc_method lc)),
        (''error_code'', Some ''UNAUTHORIZED'')]
     (emit_log dep clk Log_warn Ev_ingestion_auth_rejected
       [(''request_id'', Some (JStr (ro_requestId (lc_observability lc)))),
        (''correlation_id'', Some (JStr (ro_correlationId (lc_observability lc)))),
        (''route'', Some (JStr (route_text (lc_route lc)))),
        (''method'', Some (JStr (lc_method lc))),
        (''status'', jnat 401), (''outcome'', Some (JStr (outcome_text Outc_unauthorized))),
        (''error_code'', Some (JStr ''UNAUTHORIZED''))] st)"

text \<open>
  The labels of a result: an accepted event's own fields replace those of the credential. As in
  the object, the last value of a key counts.
\<close>

definition override_labels ::
  "(string \<times> string option) list \<Rightarrow> (string \<times> string option) list \<Rightarrow> (string \<times> string option) list" where
  "override_labels new old = new @ filter (\<lambda>(k, v). k \<notin> fst ` set new) old"

fun persisted_labels :: "'p EventIngestionResult \<Rightarrow> (string \<times> string option) list" where
  "persisted_labels (AcceptedEvent dup r) =
     [(''source'', Some (source_text (re_source r))),
      (''producer_service'', Some (re_producerService r)),
      (''producer_environment'', map_option environment_text (re_producerEnvironment r)),
      (''event_domain'', Some (domain_text (re_domain r))),
      (''event_name'', Some (name_text (re_name r)))]"
| "persisted_labels _ = []"

definition metricLabelsFromEventResult ::
  "RouteLogContext option \<Rightarrow> 'p EventIngestionResult \<Rightarrow> AuthenticatedIngestionContext
   \<Rightarrow> (string \<times> string option) list" where
  "metricLabelsFromEventResult lc result c =
     override_labels (persisted_labels result)
       ((''route'', map_option (\<lambda>l. route_text (lc_route l)) lc)
        # credentialMetricLabels c
        @ [(''outcome'', Some (outcome_text (outcomeFromEventResult result))),
           (''error_code'', errorCodeFromEventResult result)])"

fun policy_code :: "'p EventIngestionResult \<Rightarrow> TenantPolicyErrorCode option" where
  "policy_code (TenantPolicyRejected st code msg i) = Some code"
| "policy_code _ = None"

definition emitIngestionEventMetric ::
  "('s, 'p) EventsRouteOptions \<Rightarrow> route_clock \<Rightarrow> RouteLogContext \<Rightarrow> 'p EventIngestionResult
   \<Rightarrow> AuthenticatedIngestionContext \<Rightarrow> 's route_state \<Rightarrow> 's route_state" where
  "emitIngestionEventMetric dep clk lc result c st =
     (let st = increment dep clk M_ingestion_events_total
                 (metricLabelsFromEventResult (Some lc) result c) st
      in case policy_code result of
           None \<Rightarrow> st
         | Some code \<Rightarrow> increment dep clk M_ingestion_tenant_policy_failures_total
             (credentialMetricLabels c @ [(''error_code'', Some (tenant_code_text code))]) st)"

definition emitBatchItemMetric ::
  "('s, 'p) EventsRouteOptions \<Rightarrow> route_clock \<Rightarrow> 'p EventIngestionResult
   \<Rightarrow> AuthenticatedIngestionContext \<Rightarrow> 's route_state \<Rightarrow> 's route_state" where
  "emitBatchItemMetric dep clk result c =
     increment dep clk M_ingestion_batch_items_total (metricLabelsFromEventResult None result c)"

definition eventCorrelationId :: "bool \<Rightarrow> RawEventRecord \<Rightarrow> RouteLogContext \<Rightarrow> string" where
  "eventCorrelationId duplicate r lc =
     (if duplicate then ro_correlationId (lc_observability lc)
      else or_else (Option.bind (cor_correlationId (ev_correlation (re_event r))) safe_id_of)
             (ro_correlationId (lc_observability lc)))"

definition emitInvalidEvent ::
  "('s, 'p) EventsRouteOptions \<Rightarrow> route_clock \<Rightarrow> RouteLogContext
   \<Rightarrow> AuthenticatedIngestionContext \<Rightarrow> 's route_state \<Rightarrow> 's route_state" where
  "emitInvalidEvent dep clk lc c =
     emit_log dep clk Log_warn Ev_ingestion_event_invalid
       ([(''request_id'', Some (JStr (ro_requestId (lc_observability lc)))),
         (''correlation_id'', Some (JStr (ro_correlationId (lc_observability lc)))),
         (''route'', Some (JStr (route_text (lc_route lc)))),
         (''method'', Some (JStr (lc_method lc))),
         (''status'', jnat 400), (''outcome'', Some (JStr (outcome_text Outc_invalid))),
         (''error_code'', Some (JStr ''invalid_schema''))] @ credentialLogFields c)"

fun emit_result_log ::
  "('s, 'p) EventsRouteOptions \<Rightarrow> route_clock \<Rightarrow> RouteLogContext \<Rightarrow> 'p EventIngestionResult
   \<Rightarrow> AuthenticatedIngestionContext \<Rightarrow> 's route_state \<Rightarrow> 's route_state" where
  "emit_result_log dep clk lc (AcceptedEvent duplicate r) c st =
     emit_log dep clk Log_info
       (if duplicate then Ev_ingestion_event_duplicate else Ev_ingestion_event_accepted)
       [(''request_id'', Some (JStr (ro_requestId (lc_observability lc)))),
        (''correlation_id'', Some (JStr (eventCorrelationId duplicate r lc))),
        (''route'', Some (JStr (route_text (lc_route lc)))),
        (''method'', Some (JStr (lc_method lc))),
        (''status'', jnat 202),
        (''outcome'', Some (JStr (outcome_text (if duplicate then Outc_duplicate else Outc_accepted)))),
        (''credential_id'', jstr (nullish (re_credentialId r) (Some (ctx_credentialId c)))),
        (''merchant_id'', jstr (re_merchantId r)), (''store_id'', jstr (re_storeId r)),
        (''source'', Some (JStr (source_text (re_source r)))),
        (''producer_service'', Some (JStr (re_producerService r))),
        (''producer_environment'', jstr (map_option environment_text (re_producerEnvironment r))),
        (''event_domain'', Some (JStr (domain_text (re_domain r)))),
        (''event_name'', Some (JStr (name_text (re_name r))))] st"
| "emit_result_log dep clk lc (TenantPolicyRejected status code msg i) c st =
     emit_log dep clk Log_warn Ev_ingestion_event_tenant_policy_rejected
       [(''request_id'', Some (JStr (ro_requestId (lc_observability lc)))),
        (''correlation_id'', Some (JStr (ro_correlationId (lc_observability lc)))),
        (''route'', Some (JStr (route_text (lc_route lc)))),
        (''method'', Some (JStr (lc_method lc))),
        (''status'', jnat status),
        (''outcome'', Some (JStr (outcome_text (outcomeFromTenantPolicyCode code)))),
        (''error_code'', Some (JStr (tenant_code_text code))),
        (''credential_id'', jstr (nullish (ir_credentialId i) (Some (ctx_credentialId c)))),
        (''merchant_id'', jstr (ir_merchantId i)), (''store_id'', jstr (ir_storeId i)),
        (''source'', jstr (ir_source i)), (''producer_service'', jstr (ir_producerService i)),
        (''producer_environment'', jstr (ir_producerEnvironment i))] st"
| "emit_result_log dep clk lc (InvalidEvent i) c st = emitInvalidEvent dep clk lc c st"

definition emitIngestionResult ::
  "('s, 'p) EventsRouteOptions \<Rightarrow> route_clock \<Rightarrow> RouteLogContext \<Rightarrow> 'p EventIngestionResult
   \<Rightarrow> AuthenticatedIngestionContext \<Rightarrow> 's route_state \<Rightarrow> 's route_state" where
  "emitIngestionResult dep clk lc result c st =
     emit_result_log dep clk lc result c (emitIngestionEventMetric dep clk lc result c st)"

fun batch_size :: "'p BatchPayload \<Rightarrow> nat option" where
  "batch_size (ArrayPayload ps) = Some (length ps)"
| "batch_size (NotAnArray p) = None"

definition emitBatchCompleted ::
  "('s, 'p) EventsRouteOptions \<Rightarrow> route_clock \<Rightarrow> RouteLogContext \<Rightarrow> nat \<Rightarrow> RuntimeLogOutcome
   \<Rightarrow> string option \<Rightarrow> 'p BatchPayload \<Rightarrow> 'p EventIngestionResult list
   \<Rightarrow> 's route_state \<Rightarrow> 's route_state" where
  "emitBatchCompleted dep clk lc status outc err payload results =
     (let summary = summarizeBatchResults results
      in emit_log dep clk (if status \<ge> 500 then Log_error else Log_info) Ev_ingestion_batch_completed
           [(''request_id'', Some (JStr (ro_requestId (lc_observability lc)))),
            (''correlation_id'', Some (JStr (ro_correlationId (lc_observability lc)))),
            (''route'', Some (JStr (route_text (lc_route lc)))),
            (''method'', Some (JStr (lc_method lc))),
            (''status'', jnat status), (''outcome'', Some (JStr (outcome_text outc))),
            (''error_code'', jstr err),
            (''batch_size'', Option.bind (batch_size payload) (\<lambda>n. jnat n)),
            (''accepted_count'', jnat (sum_accepted summary)),
            (''duplicate_count'', jnat (sum_duplicate summary)),
            (''invalid_count'', jnat (sum_invalid summary)),
            (''tenant_policy_failure_count'', jnat (sum_tenantPolicyFailure summary))])"

fun emitBatchIngestionResult ::
  "('s, 'p) EventsRouteOptions \<Rightarrow> route_clock \<Rightarrow> RouteLogContext \<Rightarrow> 'p BatchResult
   \<Rightarrow> AuthenticatedIngestionContext \<Rightarrow> 'p BatchPayload \<Rightarrow> 's route_state \<Rightarrow> 's route_state" where
  "emitBatchIngestionResult dep clk lc (BatchInvalid i) c payload st =
     emitBatchCompleted dep clk lc 400 Outc_invalid (Some ''invalid_schema'') payload []
       (emitInvalidEvent dep clk lc c st)"
| "emitBatchIngestionResult dep clk lc (BatchResults ok results) c payload st =
     emitBatchCompleted dep clk lc 207 (outcomeFromBatchResult (BatchResults ok results)) None payload
       results
       (fold (\<lambda>item st. emitBatchItemMetric dep clk item c (emitIngestionResult dep clk lc item c st))
          results st)"

definition emitRequestCompleted ::
  "('s, 'p) EventsRouteOptions \<Rightarrow> route_clock \<Rightarrow> RouteLogContext \<Rightarrow> nat \<Rightarrow> RuntimeLogOutcome
   \<Rightarrow> string option \<Rightarrow> (string \<times> json option) list \<Rightarrow> 's route_state \<Rightarrow> 's route_state" where
  "emitRequestCompleted dep clk lc status outc err extra st =
     (let durationMs = max 0 (clk_ended clk - lc_startedAt lc);
          labels = [(''route'', Some (route_text (lc_route lc))), (''method'', Some (lc_method lc)),
                    (''status_class'', Some (httpStatusClass (int status)))];
          st = emit_log dep clk (if status \<ge> 500 then Log_error else Log_info)
                 Ev_runtime_request_completed
                 ([(''request_id'', Some (JStr (ro_requestId (lc_observability lc)))),
                   (''correlation_id'', Some (JStr (ro_correlationId (lc_observability lc)))),
                   (''route'', Some (JStr (route_text (lc_route lc)))),
                   (''method'', Some (JStr (lc_method lc))),
                   (''status'', jnat status), (''duration_ms'', jint durationMs),
                   (''outcome'', Some (JStr (outcome_text outc))), (''error_code'', jstr err)] @ extra) st;
          st = increment dep clk M_http_requests_total
                 (labels @ [(''outcome'', Some (outcome_text outc))]) st;
          st = observe dep clk M_http_request_duration_ms durationMs labels st
      in if status \<ge> 500 then
           increment dep clk M_runtime_errors_total
             [(''route'', Some (route_text (lc_route lc))), (''method'', Some (lc_method lc)),
              (''error_code'', Some (or_else err ''unexpected_error''))] st
         else st)"

section \<open>The routes\<close>

definition reject_unauthorized ::
  "('s, 'p) EventsRouteOptions \<Rightarrow> route_clock \<Rightarrow> RouteLogContext \<Rightarrow> 's route_state
   \<Rightarrow> 'p route_reply \<times> 's route_state" where
  "reject_unauthorized dep clk lc st =
     (UnauthorizedReply,
      emitRequestCompleted dep clk lc 401 Outc_unauthorized (Some ''UNAUTHORIZED'') []
        (emitAuthRejected dep clk lc st))"

definition post_events ::
  "('p \<Rightarrow> string list + DataDynaEvent) \<Rightarrow> ('s, 'p) EventsRouteOptions \<Rightarrow> route_clock
   \<Rightarrow> 'p route_request \<Rightarrow> 's route_state \<Rightarrow> 'p route_reply \<times> 's route_state" where
  "post_events safeParse dep clk request st =
     (let lc = buildRouteLogContext clk request Route_events
      in case authenticateIngestionRequest (req_authorization request) (opt_credentials dep) of
           None \<Rightarrow> reject_unauthorized dep clk lc st
         | Some c \<Rightarrow>
             (case handlePostEvent (clk_now clk) safeParse (opt_ops dep) (opt_postHogSink dep)
                     (req_body request) (Some c) (rs_ingest st) of
                (Inl err, ing) \<Rightarrow>
                  (RouteThrew err,
                   emitRequestCompleted dep clk lc 500 Outc_error (Some ''unexpected_error'')
                     (credentialLogFields c) (st\<lparr>rs_ingest := ing\<rparr>))
              | (Inr result, ing) \<Rightarrow>
                  (EventReply result,
                   emitRequestCompleted dep clk lc (result_status result)
                     (outcomeFromEventResult result) (errorCodeFromEventResult result)
                     (credentialLogFields c)
                     (emitIngestionResult dep clk lc result c (st\<lparr>rs_ingest := ing\<rparr>)))))"

definition post_events_batch ::
  "('p \<Rightarrow> string list + DataDynaEvent) \<Rightarrow> ('s, 'p) EventsRouteOptions \<Rightarrow> route_clock
   \<Rightarrow> 'p BatchPayload route_request \<Rightarrow> 's route_state \<Rightarrow> 'p route_reply \<times> 's route_state" where
  "post_events_batch safeParse dep clk request st =
     (let lc = buildRouteLogContext clk request Route_events_batch
      in case authenticateIngestionRequest (req_authorization request) (opt_credentials dep) of
           None \<Rightarrow> reject_unauthorized dep clk lc st
         | Some c \<Rightarrow>
             (case handlePostEventsBatch (clk_now clk) safeParse (opt_ops dep) (opt_postHogSink dep)
                     (req_body request) (Some c) (rs_ingest st) of
                (Inl err, ing) \<Rightarrow>
                  (RouteThrew err,
                   emitRequestCompleted dep clk lc 500 Outc_error (Some ''unexpected_error'')
                     (credentialLogFields c) (st\<lparr>rs_ingest := ing\<rparr>))
              | (Inr result, ing) \<Rightarrow>
                  (BatchReply result,
                   emitRequestCompleted dep clk lc (batch_status result)
                     (outcomeFromBatchResult result) (errorCodeFromBatchResult result)
                     (credentialLogFields c
                        @ [(''batch_size'', Option.bind (batch_size (req_body request)) (\<lambda>n. jnat n))])
                     (emitBatchIngestionResult dep clk lc result c (req_body request)
                        (st\<lparr>rs_ingest := ing\<rparr>)))))"

section \<open>Lemmas\<close>

text \<open>The emitters touch nothing but the sinks.\<close>

named_theorems emitters \<open>definitions of what a request emits\<close>

lemma emit_log_ingest [simp]: "rs_ingest (emit_log dep clk level event flds st) = rs_ingest st"
  by (simp add: emit_log_def)

lemma increment_ingest [simp]: "rs_ingest (increment dep clk nm ls st) = rs_ingest st"
  by (simp add: increment_def)

lemma observe_ingest [simp]: "rs_ingest (observe dep clk nm v ls st) = rs_ingest st"
  by (simp add: observe_def)

declare emitAuthRejected_def [emitters] emitRequestCompleted_def [emitters]
  emitIngestionEventMetric_def [emitters] emitBatchItemMetric_def [emitters]
  emitInvalidEvent_def [emitters] emitIngestionResult_def [emitters] emitBatchCompleted_def [emitters]

lemma emit_result_log_ingest [simp]: "rs_ingest (emit_result_log dep clk lc r c st) = rs_ingest st"
  by (induction dep clk lc r c st rule: emit_result_log.induct) (simp_all add: emitters)

lemma emitAuthRejected_ingest [simp]: "rs_ingest (emitAuthRejected dep clk lc st) = rs_ingest st"
  by (simp add: emitters)

lemma emitRequestCompleted_ingest [simp]:
  "rs_ingest (emitRequestCompleted dep clk lc status outc err extra st) = rs_ingest st"
  by (simp add: emitters Let_def)

lemma emitIngestionResult_ingest [simp]: "rs_ingest (emitIngestionResult dep clk lc r c st) = rs_ingest st"
  by (simp add: emitters Let_def split: option.split)

lemma emitBatchItems_ingest [simp]:
  "rs_ingest (fold (\<lambda>item st. emitBatchItemMetric dep clk item c (emitIngestionResult dep clk lc item c st))
     results st) = rs_ingest st"
  by (induction results arbitrary: st) (simp_all add: emitBatchItemMetric_def)

lemma emitBatchIngestionResult_ingest [simp]:
  "rs_ingest (emitBatchIngestionResult dep clk lc r c payload st) = rs_ingest st"
  by (cases r) (simp_all add: emitBatchCompleted_def emitInvalidEvent_def Let_def)

text \<open>How many requests the counter has seen; with no sink there is nothing to count.\<close>

definition counted :: "RuntimeMetricName \<Rightarrow> 's route_state \<Rightarrow> int" where
  "counted nm st = (case rs_metrics st of None \<Rightarrow> 0 | Some rs \<Rightarrow> metric_sum rs nm [])"

lemma counted_simps [simp]:
  "counted nm (emit_log dep clk level event flds st) = counted nm st"
  "counted nm (increment dep clk nm' ls st)
     = counted nm st + (if nm = nm' \<and> rs_metrics st \<noteq> None then 1 else 0)"
  "counted nm (observe dep clk nm' v ls st)
     = counted nm st + (if nm = nm' \<and> rs_metrics st \<noteq> None then v else 0)"
  "counted nm (rs_ingest_update f st) = counted nm st"
  by (auto simp: counted_def emit_log_def increment_def observe_def incrementRuntimeCounter_def
      observeRuntimeDuration_def metric_sum_def labelsMatch_def split: option.splits)

lemma has_sink_simps [simp]:
  "rs_metrics (emit_log dep clk level event flds st) = None \<longleftrightarrow> rs_metrics st = None"
  "rs_metrics (increment dep clk nm ls st) = None \<longleftrightarrow> rs_metrics st = None"
  "rs_metrics (observe dep clk nm v ls st) = None \<longleftrightarrow> rs_metrics st = None"
  by (cases "rs_metrics st"; simp add: emit_log_def increment_def observe_def
      incrementRuntimeCounter_def observeRuntimeDuration_def)+

lemma emit_result_log_counted [simp]:
  "counted nm (emit_result_log dep clk lc r c st) = counted nm st"
  "rs_metrics (emit_result_log dep clk lc r c st) = None \<longleftrightarrow> rs_metrics st = None"
  by (induction dep clk lc r c st rule: emit_result_log.induct) (simp_all add: emitters)

text \<open>One event: one tick of the event counter, and one of the policy counter for a policy refusal.\<close>

lemma emitIngestionResult_counted:
  "counted nm (emitIngestionResult dep clk lc r c st) = counted nm st
     + (if rs_metrics st = None then 0
        else (if nm = M_ingestion_events_total then 1 else 0)
           + (if nm = M_ingestion_tenant_policy_failures_total \<and> policy_code r \<noteq> None then 1 else 0))"
  "rs_metrics (emitIngestionResult dep clk lc r c st) = None \<longleftrightarrow> rs_metrics st = None"
  by (auto simp: emitIngestionResult_def emitIngestionEventMetric_def Let_def split: option.split)

lemma emitBatchItems_counted:
  "counted nm (fold (\<lambda>item st. emitBatchItemMetric dep clk item c (emitIngestionResult dep clk lc item c st))
     results st)
   = counted nm st
     + (if rs_metrics st = None then 0
        else (if nm = M_ingestion_events_total then int (length results) else 0)
           + (if nm = M_ingestion_batch_items_total then int (length results) else 0)
           + (if nm = M_ingestion_tenant_policy_failures_total
              then int (length (filter (\<lambda>r. policy_code r \<noteq> None) results)) else 0))"
  "rs_metrics (fold (\<lambda>item st. emitBatchItemMetric dep clk item c (emitIngestionResult dep clk lc item c st))
     results st) = None \<longleftrightarrow> rs_metrics st = None"
  by (induction results arbitrary: st)
    (auto simp: emitBatchItemMetric_def emitIngestionResult_counted)

lemma emitBatchIngestionResult_counted:
  "counted M_http_requests_total (emitBatchIngestionResult dep clk lc r c payload st)
     = counted M_http_requests_total st"
  "rs_metrics (emitBatchIngestionResult dep clk lc r c payload st) = None \<longleftrightarrow> rs_metrics st = None"
  by (cases r; simp add: emitBatchCompleted_def emitInvalidEvent_def Let_def emitBatchItems_counted)+

lemma emitRequestCompleted_counted:
  "counted nm (emitRequestCompleted dep clk lc status outc err extra st) = counted nm st
     + (if rs_metrics st = None then 0
        else (if nm = M_http_requests_total then 1 else 0)
           + (if nm = M_http_request_duration_ms then max 0 (clk_ended clk - lc_startedAt lc) else 0)
           + (if nm = M_runtime_errors_total \<and> status \<ge> 500 then 1 else 0))"
  by (auto simp: emitRequestCompleted_def Let_def)

lemma summarize_counts:
  "sum_accepted (fold summarize_one rs s) + sum_duplicate (fold summarize_one rs s)
     + sum_invalid (fold summarize_one rs s) + sum_tenantPolicyFailure (fold summarize_one rs s)
   = sum_accepted s + sum_duplicate s + sum_invalid s + sum_tenantPolicyFailure s + length rs"
proof (induction rs arbitrary: s)
  case (Cons r rs)
  then show ?case by (cases r) auto
qed simp

lemma summarize_accepted:
  "sum_accepted (fold summarize_one rs s) = sum_accepted s + length (filter is_fresh rs)"
proof (induction rs arbitrary: s)
  case (Cons r rs)
  then show ?case by (cases r) auto
qed simp

lemma new_records_fresh: "length (new_records rs) = length (filter is_fresh rs)"
  by (induction rs rule: new_records.induct) auto

text \<open>Every label of every metric in the sink is one of the allowed ones, with a safe value.\<close>

definition metrics_safe :: "'s route_state \<Rightarrow> bool" where
  "metrics_safe st \<longleftrightarrow>
     (case rs_metrics st of None \<Rightarrow> True | Some rs \<Rightarrow> \<forall>r \<in> set rs. safe_labels (mt_labels r))"

lemma metrics_safe_simps [simp]:
  "metrics_safe (emit_log dep clk level event flds st) = metrics_safe st"
  "metrics_safe (increment dep clk nm ls st) = metrics_safe st"
  "metrics_safe (observe dep clk nm v ls st) = metrics_safe st"
  "metrics_safe (rs_ingest_update f st) = metrics_safe st"
  by (auto simp: metrics_safe_def emit_log_def increment_def observe_def incrementRuntimeCounter_def
      observeRuntimeDuration_def sanitize_safe split: option.splits)

lemma emit_result_log_safe [simp]: "metrics_safe (emit_result_log dep clk lc r c st) = metrics_safe st"
  by (induction dep clk lc r c st rule: emit_result_log.induct) (simp_all add: emitters)

lemma emitIngestionResult_safe [simp]: "metrics_safe (emitIngestionResult dep clk lc r c st) = metrics_safe st"
  by (simp add: emitIngestionResult_def emitIngestionEventMetric_def Let_def split: option.split)

lemma emitBatchItems_safe [simp]:
  "metrics_safe (fold (\<lambda>item st. emitBatchItemMetric dep clk item c (emitIngestionResult dep clk lc item c st))
     results st) = metrics_safe st"
  by (induction results arbitrary: st) (simp_all add: emitBatchItemMetric_def)

lemma emitBatchIngestionResult_safe [simp]:
  "metrics_safe (emitBatchIngestionResult dep clk lc r c payload st) = metrics_safe st"
  by (cases r) (simp_all add: emitBatchCompleted_def emitInvalidEvent_def Let_def)

lemma emitRequestCompleted_safe [simp]:
  "metrics_safe (emitRequestCompleted dep clk lc status outc err extra st) = metrics_safe st"
  "metrics_safe (emitAuthRejected dep clk lc st) = metrics_safe st"
  by (simp_all add: emitRequestCompleted_def emitAuthRejected_def Let_def)

end
