(* ===== verification/PostgresRawEvents.thy ===== *)
theory PostgresRawEvents
  imports Ingestion
begin

text \<open>
  The durable raw event store of \<open>src/src/app/repositories/postgres-raw-event-repository.ts\<close>
  over the tables of \<open>src/migrations/0001_raw_events.sql\<close> and
  \<open>src/migrations/0008_raw_event_tenancy.sql\<close>. A table is the list of its rows in the order of
  insertion; a statement is atomic. What PostgreSQL does to a value it stores is the record
  \<open>pg_server\<close>, a parameter: how a timestamp reads back (\<open>db_instant\<close>), how JSONB normalises
  objects, and which events and payloads it can represent at all. The second half runs several
  calls at once, statement by statement, in any interleaving.
\<close>

section \<open>The database\<close>

record 'p pg_server =
  db_instant :: "string \<Rightarrow> string"
  db_properties :: "(string \<times> json) list \<Rightarrow> (string \<times> json) list"
  db_event :: "DataDynaEvent \<Rightarrow> DataDynaEvent"
  db_payload :: "'p audited_payload \<Rightarrow> 'p audited_payload"
  db_storable :: "DataDynaEvent \<Rightarrow> bool"
  db_auditable :: "'p audited_payload \<Rightarrow> string \<Rightarrow> InvalidRawEventAuditContext option \<Rightarrow> bool"

text \<open>A column that allows \<open>NULL\<close> is an option.\<close>

record RawEventRow =
  event_id :: string
  idempotency_key :: string
  idempotency_scope :: IdempotencyScope
  contract_version :: EventContractVersion
  source :: EventSource
  domain :: EventDomain
  name :: EventName
  occurred_at :: string
  received_at :: string
  producer_service :: string
  producer_environment :: "Environment option"
  credential_id :: "string option"
  brand_id :: "string option"
  merchant_id :: "string option"
  store_id :: "string option"
  entity_type :: EntityType
  entity_id :: string
  row_properties :: "(string \<times> json) list"
  row_event :: DataDynaEvent

record 'p pg_tables =
  raw_events :: "RawEventRow list"
  invalid_raw_events :: "'p InvalidRawEventRecord list"

definition toRawEventRecord :: "RawEventRow \<Rightarrow> RawEventRecord" where
  "toRawEventRecord row = \<lparr>
     re_eventId = event_id row,
     re_idempotencyKey = idempotency_key row,
     re_idempotencyScope = idempotency_scope row,
     re_contractVersion = contract_version row,
     re_source = source row,
     re_domain = domain row,
     re_name = name row,
     re_occurredAt = occurred_at row,
     re_receivedAt = received_at row,
     re_producerService = producer_service row,
     re_producerEnvironment = producer_environment row,
     re_credentialId = credential_id row,
     re_brandId = brand_id row,
     re_merchantId = merchant_id row,
     re_storeId = store_id row,
     re_entityType = entity_type row,
     re_entityId = entity_id row,
     re_properties = row_properties row,
     re_event = row_event row\<rparr>"

definition raw_event_row ::
  "'p pg_server \<Rightarrow> string \<Rightarrow> string option \<Rightarrow> DataDynaEvent \<Rightarrow> RawEventRow" where
  "raw_event_row srv now credentialId e = \<lparr>
     event_id = cor_eventId (ev_correlation e),
     idempotency_key = idm_key (ev_idempotency e),
     idempotency_scope = idm_scope (ev_idempotency e),
     contract_version = ev_version e,
     source = ev_source e,
     domain = ev_domain e,
     name = ev_name e,
     occurred_at = db_instant srv (ev_occurredAt e),
     received_at = now,
     producer_service = prd_service (ev_producer e),
     producer_environment = prd_environment (ev_producer e),
     credential_id = credentialId,
     brand_id = idt_brandId (ev_identity e),
     merchant_id = idt_merchantId (ev_identity e),
     store_id = idt_storeId (ev_identity e),
     entity_type = ent_type (ev_entity e),
     entity_id = ent_id (ev_entity e),
     row_properties = db_properties srv (ev_properties e),
     row_event = db_event srv e\<rparr>"

text \<open>The key of \<open>raw_events_tenant_idempotency_unique_idx\<close>.\<close>

definition tenant_idempotency_index ::
  "RawEventRow \<Rightarrow> string \<times> string \<times> string \<times> string \<times> EventSource \<times> IdempotencyScope \<times> string" where
  "tenant_idempotency_index row =
     (or_else (merchant_id row) [], or_else (store_id row) [], producer_service row,
      opt_environment_text (producer_environment row), source row, idempotency_scope row,
      idempotency_key row)"

definition unique_violation :: string where
  "unique_violation = ''23505''"

definition insert_raw_event ::
  "'p pg_server \<Rightarrow> string \<Rightarrow> DataDynaEvent \<Rightarrow> string option \<Rightarrow> 'p pg_tables
   \<Rightarrow> (string + RawEventRow) \<times> 'p pg_tables" where
  "insert_raw_event srv now e credentialId t =
     (let row = raw_event_row srv now credentialId e
      in if \<not> db_storable srv e then (Inl ''22P02'', t)
         else if event_id row \<in> event_id ` set (raw_events t)
            \<or> tenant_idempotency_index row \<in> tenant_idempotency_index ` set (raw_events t)
         then (Inl unique_violation, t)
         else (Inr row, t\<lparr>raw_events := raw_events t @ [row]\<rparr>))"

section \<open>PostgresRawEventRepository\<close>

definition isUniqueViolation :: "string \<Rightarrow> bool" where
  "isUniqueViolation code \<longleftrightarrow> code = unique_violation"

definition findByEventId :: "string \<Rightarrow> 'p pg_tables \<Rightarrow> RawEventRecord option" where
  "findByEventId eventId t =
     map_option toRawEventRecord (find (\<lambda>row. event_id row = eventId) (raw_events t))"

definition findByTenantIdempotency :: "DataDynaEvent \<Rightarrow> 'p pg_tables \<Rightarrow> RawEventRecord option" where
  "findByTenantIdempotency e t =
     map_option toRawEventRecord (find (\<lambda>row.
         merchant_id row = idt_merchantId (ev_identity e)
         \<and> store_id row = idt_storeId (ev_identity e)
         \<and> producer_service row = prd_service (ev_producer e)
         \<and> producer_environment row = prd_environment (ev_producer e)
         \<and> source row = ev_source e
         \<and> idempotency_scope row = idm_scope (ev_idempotency e)
         \<and> idempotency_key row = idm_key (ev_idempotency e)) (raw_events t))"

definition pg_persistAccepted ::
  "'p pg_server \<Rightarrow> string \<Rightarrow> DataDynaEvent \<Rightarrow> string option \<Rightarrow> 'p pg_tables
   \<Rightarrow> (store_error + PersistAcceptedResult) \<times> 'p pg_tables" where
  "pg_persistAccepted srv now e credentialId t =
     (case insert_raw_event srv now e credentialId t of
        (Inr row, t') \<Rightarrow> (Inr \<lparr>pr_record = toRawEventRecord row, pr_duplicate = False\<rparr>, t')
      | (Inl code, t') \<Rightarrow>
          if isUniqueViolation code then
            (case findByEventId (cor_eventId (ev_correlation e)) t' of
               Some existingByEventId \<Rightarrow>
                 if \<not> recordMatchesTenantIdempotency existingByEventId e
                 then (Inl (DatabaseError code), t')
                 else (case findByTenantIdempotency e t' of
                         Some existing \<Rightarrow> (Inr \<lparr>pr_record = existing, pr_duplicate = True\<rparr>, t')
                       | None \<Rightarrow> (Inl (DatabaseError code), t'))
             | None \<Rightarrow>
                 (case findByTenantIdempotency e t' of
                    Some existing \<Rightarrow> (Inr \<lparr>pr_record = existing, pr_duplicate = True\<rparr>, t')
                  | None \<Rightarrow> (Inl (DatabaseError code), t')))
          else (Inl (DatabaseError code), t'))"

definition pg_persistInvalid ::
  "'p pg_server \<Rightarrow> string \<Rightarrow> 'p audited_payload \<Rightarrow> string \<Rightarrow> InvalidRawEventAuditContext option
   \<Rightarrow> 'p pg_tables \<Rightarrow> (store_error + 'p InvalidRawEventRecord) \<times> 'p pg_tables" where
  "pg_persistInvalid srv now payload reason auditContext t =
     (if \<not> db_auditable srv payload reason auditContext then (Inl (DatabaseError ''22P05''), t)
      else (let row = invalidRawEventRecord now (db_payload srv payload) reason auditContext
            in (Inr row, t\<lparr>invalid_raw_events := invalid_raw_events t @ [row]\<rparr>)))"

definition pg_empty :: "'p pg_tables" where
  "pg_empty = \<lparr>raw_events = [], invalid_raw_events = []\<rparr>"

section \<open>The repository keeps the store's contract\<close>

definition pg_accepted :: "'p pg_tables \<Rightarrow> RawEventRecord list" where
  "pg_accepted t = map toRawEventRecord (raw_events t)"

definition pg_record :: "'p pg_server \<Rightarrow> string \<Rightarrow> string option \<Rightarrow> DataDynaEvent \<Rightarrow> RawEventRecord" where
  "pg_record srv now credentialId e = toRawEventRecord (raw_event_row srv now credentialId e)"

text \<open>The table constraints, and no stored tenant field is the empty string.\<close>

definition pg_inv :: "'p pg_tables \<Rightarrow> bool" where
  "pg_inv t \<longleftrightarrow>
     distinct (map event_id (raw_events t))
     \<and> distinct (map tenant_idempotency_index (raw_events t))
     \<and> (\<forall>row \<in> set (raw_events t). merchant_id row \<noteq> Some [] \<and> store_id row \<noteq> Some [])"

lemma pg_empty_inv: "pg_inv pg_empty"
  by (simp add: pg_inv_def pg_empty_def)

lemma pg_empty_sel [simp]: "pg_accepted pg_empty = []" "invalid_raw_events pg_empty = []"
  by (simp_all add: pg_accepted_def pg_empty_def)

lemma toRawEventRecord_eventId [simp]: "re_eventId (toRawEventRecord row) = event_id row"
  by (simp add: toRawEventRecord_def)

lemma record_identity_index:
  "record_identity (toRawEventRecord a) = record_identity (toRawEventRecord b)
   \<longleftrightarrow> tenant_idempotency_index a = tenant_idempotency_index b"
  by (auto simp: record_identity_def toRawEventRecord_def tenant_idempotency_index_def)

lemma raw_event_row_identity [simp]:
  "record_identity (toRawEventRecord (raw_event_row srv now c e)) = rawEventIdempotencyIdentity e"
  "event_id (raw_event_row srv now c e) = cor_eventId (ev_correlation e)"
  by (simp_all add: record_identity_def rawEventIdempotencyIdentity_def toRawEventRecord_def
      raw_event_row_def)

lemma index_iff_identity:
  "tenant_idempotency_index row = tenant_idempotency_index (raw_event_row srv now c e)
   \<longleftrightarrow> record_identity (toRawEventRecord row) = rawEventIdempotencyIdentity e"
  by (metis record_identity_index raw_event_row_identity(1))

lemma index_stored_iff:
  "tenant_idempotency_index (raw_event_row srv now c e) \<in> tenant_idempotency_index ` set (raw_events t)
   \<longleftrightarrow> rawEventIdempotencyIdentity e \<in> record_identity ` set (pg_accepted t)"
proof
  assume "tenant_idempotency_index (raw_event_row srv now c e) \<in> tenant_idempotency_index ` set (raw_events t)"
  then obtain row where row: "row \<in> set (raw_events t)"
    "tenant_idempotency_index row = tenant_idempotency_index (raw_event_row srv now c e)"
    by (auto elim!: imageE)
  from row(2) have "record_identity (toRawEventRecord row) = rawEventIdempotencyIdentity e"
    by (simp only: index_iff_identity)
  with row(1) show "rawEventIdempotencyIdentity e \<in> record_identity ` set (pg_accepted t)"
    by (force simp: pg_accepted_def image_iff)
next
  assume "rawEventIdempotencyIdentity e \<in> record_identity ` set (pg_accepted t)"
  then obtain row where row: "row \<in> set (raw_events t)"
    "record_identity (toRawEventRecord row) = rawEventIdempotencyIdentity e"
    by (auto simp: pg_accepted_def)
  from row(2) have "tenant_idempotency_index row = tenant_idempotency_index (raw_event_row srv now c e)"
    by (simp only: index_iff_identity)
  with row(1) show "tenant_idempotency_index (raw_event_row srv now c e) \<in> tenant_idempotency_index ` set (raw_events t)"
    by (metis imageI)
qed

lemma event_id_stored_iff: "event_id ` set (raw_events t) = re_eventId ` set (pg_accepted t)"
  by (simp add: pg_accepted_def image_image)

lemma or_else_nonempty_inject: "a \<noteq> Some [] \<Longrightarrow> b \<noteq> Some [] \<Longrightarrow> or_else a [] = or_else b [] \<longleftrightarrow> a = b"
  by (cases a; cases b) auto

text \<open>
  On rows without empty tenant fields the \<open>IS NOT DISTINCT FROM\<close> condition of the query is the
  equality of the unique index.
\<close>

lemma find_identity:
  assumes "pg_inv t" "no_empty_tenant e"
  shows "findByTenantIdempotency e t
    = map_option toRawEventRecord
        (find (\<lambda>row. record_identity (toRawEventRecord row) = rawEventIdempotencyIdentity e) (raw_events t))"
proof -
  have "(merchant_id row = idt_merchantId (ev_identity e) \<and> store_id row = idt_storeId (ev_identity e)
         \<and> producer_service row = prd_service (ev_producer e)
         \<and> producer_environment row = prd_environment (ev_producer e) \<and> source row = ev_source e
         \<and> idempotency_scope row = idm_scope (ev_idempotency e)
         \<and> idempotency_key row = idm_key (ev_idempotency e))
      \<longleftrightarrow> record_identity (toRawEventRecord row) = rawEventIdempotencyIdentity e"
    if "row \<in> set (raw_events t)" for row
    using assms that
    by (auto simp: record_identity_def rawEventIdempotencyIdentity_def toRawEventRecord_def
        pg_inv_def no_empty_tenant_def or_else_nonempty_inject)
  then show ?thesis
    unfolding findByTenantIdempotency_def
    by (intro arg_cong [where f = "map_option toRawEventRecord"] find_cong) simp_all
qed

lemma find_by_identity:
  assumes "pg_inv t" "no_empty_tenant e" "row \<in> set (raw_events t)"
    "record_identity (toRawEventRecord row) = rawEventIdempotencyIdentity e"
  shows "findByTenantIdempotency e t = Some (toRawEventRecord row)"
proof -
  have "distinct (map (record_identity \<circ> toRawEventRecord) (raw_events t))"
    using assms(1) record_identity_index by (auto simp: pg_inv_def distinct_map inj_on_def)
  from find_the_row [OF this assms(3), of "rawEventIdempotencyIdentity e"] assms show ?thesis
    by (simp add: find_identity)
qed

lemma find_by_event_id:
  assumes "pg_inv t" "row \<in> set (raw_events t)" "event_id row = i"
  shows "findByEventId i t = Some (toRawEventRecord row)"
  using assms find_the_row [of event_id "raw_events t" row i]
  by (simp add: findByEventId_def pg_inv_def)

lemma find_by_event_id_None:
  "findByEventId i t = None \<longleftrightarrow> i \<notin> event_id ` set (raw_events t)"
  by (auto simp: findByEventId_def find_None_iff)

lemma find_by_event_id_Some:
  "findByEventId i t = Some r \<Longrightarrow> r \<in> set (pg_accepted t) \<and> re_eventId r = i"
  by (auto simp: findByEventId_def pg_accepted_def find_Some_iff)

lemma insert_new:
  assumes "pg_inv t" "db_storable srv e" "no_empty_tenant e"
    "cor_eventId (ev_correlation e) \<notin> re_eventId ` set (pg_accepted t)"
    "rawEventIdempotencyIdentity e \<notin> record_identity ` set (pg_accepted t)"
  shows "\<exists>t'. insert_raw_event srv now e c t = (Inr (raw_event_row srv now c e), t')
    \<and> pg_inv t' \<and> pg_accepted t' = pg_accepted t @ [pg_record srv now c e]
    \<and> invalid_raw_events t' = invalid_raw_events t"
proof -
  let ?row = "raw_event_row srv now c e"
  let ?t' = "t\<lparr>raw_events := raw_events t @ [?row]\<rparr>"
  have fresh: "event_id ?row \<notin> event_id ` set (raw_events t)"
    "tenant_idempotency_index ?row \<notin> tenant_idempotency_index ` set (raw_events t)"
    using assms(4,5) by (simp_all only: index_stored_iff event_id_stored_iff raw_event_row_identity(2) not_False_eq_True)
  have "merchant_id ?row \<noteq> Some [] \<and> store_id ?row \<noteq> Some []"
    using assms(3) by (simp add: raw_event_row_def no_empty_tenant_def)
  then have "pg_inv ?t'" using assms(1) fresh by (auto simp: pg_inv_def)
  moreover have "insert_raw_event srv now e c t = (Inr ?row, ?t')"
    using fresh assms(2) by (simp add: insert_raw_event_def Let_def)
  ultimately show ?thesis by (auto simp: pg_accepted_def pg_record_def)
qed

lemma insert_violation:
  assumes "db_storable srv e"
    "cor_eventId (ev_correlation e) \<in> re_eventId ` set (pg_accepted t)
     \<or> rawEventIdempotencyIdentity e \<in> record_identity ` set (pg_accepted t)"
  shows "insert_raw_event srv now e c t = (Inl unique_violation, t)"
  using assms by (simp add: insert_raw_event_def Let_def index_stored_iff event_id_stored_iff)

lemma insert_unstorable: "\<not> db_storable srv e \<Longrightarrow> insert_raw_event srv now e c t = (Inl ''22P02'', t)"
  by (simp add: insert_raw_event_def Let_def)

interpretation pg: raw_event_store "pg_persistAccepted srv" "pg_persistInvalid srv" pg_accepted
    invalid_raw_events "pg_record srv" "db_storable srv" "db_auditable srv" "db_payload srv" pg_inv
  for srv
proof (unfold_locales, goal_cases)
  case 1 show ?case by (simp add: pg_record_def)
next
  case 2 show ?case by (simp add: pg_record_def)
next
  case (3 s)
  then show ?case
    using record_identity_index by (auto simp: pg_inv_def pg_accepted_def distinct_map inj_on_def)
next
  case (4 s)
  then show ?case by (auto simp: pg_inv_def pg_accepted_def comp_def)
next
  case (5 t e now c)
  then show ?case using insert_new [OF 5, of now c] by (auto simp: pg_persistAccepted_def pg_record_def)
next
  case (6 t e r now c)
  then obtain row where row: "row \<in> set (raw_events t)" "r = toRawEventRecord row"
    by (auto simp: pg_accepted_def)
  have found: "findByTenantIdempotency e t = Some r"
    using find_by_identity [OF 6(1) 6(3) row(1)] row(2) 6(5) by simp
  have same: "recordMatchesTenantIdempotency q e"
    if "findByEventId (cor_eventId (ev_correlation e)) t = Some q" for q
    using find_by_event_id_Some [OF that] 6(5) 6(6) [of q] by (simp add: record_matches_iff_identity)
  have "insert_raw_event srv now e c t = (Inl unique_violation, t)"
    using 6(2,4,5) by (intro insert_violation) force+
  with found same show ?case
    by (simp add: pg_persistAccepted_def isUniqueViolation_def split: option.split)
next
  case (7 t q e now c)
  then obtain row where row: "row \<in> set (raw_events t)" "q = toRawEventRecord row"
    by (auto simp: pg_accepted_def)
  have "findByEventId (cor_eventId (ev_correlation e)) t = Some q"
    using find_by_event_id [OF 7(1) row(1)] row(2) 7(3) by simp
  moreover have "\<not> recordMatchesTenantIdempotency q e"
    using 7(4) by (simp add: record_matches_iff_identity)
  moreover have "insert_raw_event srv now e c t = (Inl unique_violation, t)" if "db_storable srv e"
    using that 7(2,3) by (intro insert_violation) force+
  ultimately show ?case
    by (cases "db_storable srv e")
      (simp_all add: pg_persistAccepted_def isUniqueViolation_def insert_unstorable unique_violation_def)
next
  case (8 t e now c)
  then show ?case
    by (simp add: pg_persistAccepted_def insert_unstorable isUniqueViolation_def unique_violation_def)
next
  case (9 t p reason ctx now)
  then show ?case by (simp add: pg_persistInvalid_def Let_def pg_inv_def pg_accepted_def)
next
  case (10 t p reason ctx now)
  then show ?case by (simp add: pg_persistInvalid_def)
qed

section \<open>Concurrent calls\<close>

text \<open>
  Each \<open>await this.client.query\<close> is a point where another call may run: a call of
  \<open>persistAccepted\<close> is three statements with the phase it is in between them.
  \<open>pg_call_step\<close> runs the next statement of one call.
\<close>

datatype pg_phase =
  Inserting
| SelectingByEventId string
| SelectingByIdentity string
| Returned PersistAcceptedResult
| Thrown store_error

record pg_call =
  pc_now :: string
  pc_event :: DataDynaEvent
  pc_credentialId :: "string option"
  pc_phase :: pg_phase

fun pg_phase_step ::
  "'p pg_server \<Rightarrow> string \<Rightarrow> DataDynaEvent \<Rightarrow> string option \<Rightarrow> pg_phase \<Rightarrow> 'p pg_tables
   \<Rightarrow> pg_phase \<times> 'p pg_tables" where
  "pg_phase_step srv now e c Inserting t =
     (case insert_raw_event srv now e c t of
        (Inr row, t') \<Rightarrow> (Returned \<lparr>pr_record = toRawEventRecord row, pr_duplicate = False\<rparr>, t')
      | (Inl code, t') \<Rightarrow>
          (if isUniqueViolation code then SelectingByEventId code else Thrown (DatabaseError code), t'))"
| "pg_phase_step srv now e c (SelectingByEventId code) t =
     (case findByEventId (cor_eventId (ev_correlation e)) t of
        Some existing \<Rightarrow>
          (if \<not> recordMatchesTenantIdempotency existing e then Thrown (DatabaseError code)
           else SelectingByIdentity code, t)
      | None \<Rightarrow> (SelectingByIdentity code, t))"
| "pg_phase_step srv now e c (SelectingByIdentity code) t =
     (case findByTenantIdempotency e t of
        Some existing \<Rightarrow> (Returned \<lparr>pr_record = existing, pr_duplicate = True\<rparr>, t)
      | None \<Rightarrow> (Thrown (DatabaseError code), t))"
| "pg_phase_step srv now e c (Returned res) t = (Returned res, t)"
| "pg_phase_step srv now e c (Thrown err) t = (Thrown err, t)"

definition pg_call_step ::
  "'p pg_server \<Rightarrow> pg_call \<Rightarrow> 'p pg_tables \<Rightarrow> pg_call \<times> 'p pg_tables" where
  "pg_call_step srv call t =
     (let (phase, t') = pg_phase_step srv (pc_now call) (pc_event call) (pc_credentialId call)
                          (pc_phase call) t
      in (call\<lparr>pc_phase := phase\<rparr>, t'))"

text \<open>Run alone, three statements give the outcome of the method.\<close>

fun phase_outcome :: "pg_phase \<Rightarrow> (store_error + PersistAcceptedResult) option" where
  "phase_outcome (Returned res) = Some (Inr res)"
| "phase_outcome (Thrown err) = Some (Inl err)"
| "phase_outcome _ = None"

lemma pg_call_alone:
  "(let (p1, t1) = pg_phase_step srv now e c Inserting t;
        (p2, t2) = pg_phase_step srv now e c p1 t1;
        (p3, t3) = pg_phase_step srv now e c p2 t2
    in (phase_outcome p3, t3))
   = (case pg_persistAccepted srv now e c t of (res, t') \<Rightarrow> (Some res, t'))"
  by (auto simp: pg_persistAccepted_def Let_def split: prod.splits sum.splits option.splits)

text \<open>Any number of calls, any interleaving of their statements.\<close>

inductive pg_concurrent ::
  "'p pg_server \<Rightarrow> 'p pg_tables \<times> pg_call list \<Rightarrow> 'p pg_tables \<times> pg_call list \<Rightarrow> bool"
  for srv start where
  begin_calls: "pg_concurrent srv start start"
| statement: "pg_concurrent srv start (t, calls) \<Longrightarrow> i < length calls
    \<Longrightarrow> pg_call_step srv (calls ! i) t = (call', t')
    \<Longrightarrow> pg_concurrent srv start (t', calls[i := call'])"

fun fresh_ack :: "pg_call \<Rightarrow> RawEventRecord list" where
  "fresh_ack call = (case pc_phase call of
     Returned res \<Rightarrow> if pr_duplicate res then [] else [pr_record res] | _ \<Rightarrow> [])"

text \<open>What an answered call may rely on.\<close>

definition ack_sound :: "'p pg_tables \<Rightarrow> pg_call \<Rightarrow> bool" where
  "ack_sound t call \<longleftrightarrow>
     no_empty_tenant (pc_event call)
     \<and> (case pc_phase call of
          Returned res \<Rightarrow> pr_record res \<in> set (pg_accepted t)
            \<and> record_identity (pr_record res) = rawEventIdempotencyIdentity (pc_event call)
        | _ \<Rightarrow> True)"

lemma find_by_identity_Some:
  "pg_inv t \<Longrightarrow> no_empty_tenant e \<Longrightarrow> findByTenantIdempotency e t = Some r
   \<Longrightarrow> r \<in> set (pg_accepted t) \<and> record_identity r = rawEventIdempotencyIdentity e"
  by (auto simp: find_identity find_Some_iff pg_accepted_def)

lemma insert_cases:
  assumes "pg_inv t" "no_empty_tenant e" "insert_raw_event srv now e c t = (res, t')"
  shows "(\<exists>row. res = Inr row \<and> row = raw_event_row srv now c e \<and> pg_inv t'
        \<and> pg_accepted t' = pg_accepted t @ [toRawEventRecord row])
      \<or> (\<exists>code. res = Inl code \<and> t' = t)"
proof (cases "\<exists>row. res = Inr row")
  case True
  then obtain row where res: "res = Inr row" by blast
  with assms(3) have row: "row = raw_event_row srv now c e"
    "db_storable srv e"
    "rawEventIdempotencyIdentity e \<notin> record_identity ` set (pg_accepted t)"
    "cor_eventId (ev_correlation e) \<notin> re_eventId ` set (pg_accepted t)"
    by (auto simp: insert_raw_event_def Let_def index_stored_iff event_id_stored_iff split: if_splits)
  from insert_new [OF assms(1) row(2) assms(2) row(4,3), of now c] assms(3) res row(1)
  show ?thesis by (auto simp: pg_record_def)
next
  case False
  with assms(3) show ?thesis by (auto simp: insert_raw_event_def Let_def split: if_splits)
qed

lemma pg_call_step_effect:
  assumes "pg_inv t" "ack_sound t call" "pg_call_step srv call t = (call', t')"
  obtains more where "pg_inv t'" "pg_accepted t' = pg_accepted t @ more" "ack_sound t' call'"
    "mset (fresh_ack call') = mset (fresh_ack call) + mset more"
proof (cases "pc_phase call")
  case Inserting
  obtain res s where ins: "insert_raw_event srv (pc_now call) (pc_event call) (pc_credentialId call) t = (res, s)"
    by fastforce
  from assms(2) have e: "no_empty_tenant (pc_event call)" by (simp add: ack_sound_def)
  from insert_cases [OF assms(1) e ins] consider
      (row) row where "res = Inr row" "row = raw_event_row srv (pc_now call) (pc_credentialId call) (pc_event call)"
        "pg_inv s" "pg_accepted s = pg_accepted t @ [toRawEventRecord row]"
    | (code) code where "res = Inl code" "s = t" by blast
  then show thesis
  proof cases
    case row
    with ins assms(3) Inserting have
      "call' = call\<lparr>pc_phase := Returned \<lparr>pr_record = toRawEventRecord row, pr_duplicate = False\<rparr>\<rparr>"
      "t' = s" by (simp_all add: pg_call_step_def)
    with row e Inserting show thesis
      by (intro that [of "[toRawEventRecord row]"]) (simp_all add: ack_sound_def)
  next
    case code
    with ins assms(3) Inserting have "t' = t" "pc_event call' = pc_event call"
      "(\<exists>c. pc_phase call' = SelectingByEventId c) \<or> (\<exists>err. pc_phase call' = Thrown err)"
      by (auto simp: pg_call_step_def split: if_splits)
    with assms(1) e Inserting show thesis
      by (intro that [of "[]"]) (auto simp: ack_sound_def)
  qed
next
  case (SelectingByEventId code)
  with assms(3) have "t' = t" "pc_event call' = pc_event call"
    "(\<exists>c. pc_phase call' = SelectingByIdentity c) \<or> (\<exists>err. pc_phase call' = Thrown err)"
    by (auto simp: pg_call_step_def split: option.splits if_splits)
  with assms(1,2) SelectingByEventId show thesis
    by (intro that [of "[]"]) (auto simp: ack_sound_def)
next
  case (SelectingByIdentity code)
  from assms(2) have e: "no_empty_tenant (pc_event call)" by (simp add: ack_sound_def)
  show thesis
  proof (cases "findByTenantIdempotency (pc_event call) t")
    case None
    with SelectingByIdentity assms(3) have "t' = t" "pc_event call' = pc_event call"
      "pc_phase call' = Thrown (DatabaseError code)" by (auto simp: pg_call_step_def)
    with assms(1) e SelectingByIdentity show thesis
      by (intro that [of "[]"]) (auto simp: ack_sound_def)
  next
    case (Some r)
    with SelectingByIdentity assms(3) have "t' = t" "pc_event call' = pc_event call"
      "pc_phase call' = Returned \<lparr>pr_record = r, pr_duplicate = True\<rparr>" by (auto simp: pg_call_step_def)
    with assms(1) e SelectingByIdentity find_by_identity_Some [OF assms(1) e Some] show thesis
      by (intro that [of "[]"]) (auto simp: ack_sound_def)
  qed
next
  case (Returned res)
  with assms(3) have "call' = call" "t' = t" by (auto simp: pg_call_step_def)
  with assms show thesis by (intro that [of "[]"]) auto
next
  case (Thrown err)
  with assms(3) have "call' = call" "t' = t" by (auto simp: pg_call_step_def)
  with assms show thesis by (intro that [of "[]"]) auto
qed

lemma ack_sound_mono:
  "ack_sound t call \<Longrightarrow> set (pg_accepted t) \<subseteq> set (pg_accepted t') \<Longrightarrow> ack_sound t' call"
  by (auto simp: ack_sound_def split: pg_phase.splits)

lemma mset_concat_update:
  assumes "i < length xs" "mset (f y) = mset (f (xs ! i)) + M"
  shows "mset (concat (map f (xs[i := y]))) = mset (concat (map f xs)) + M"
  using assms by (induction xs arbitrary: i) (auto split: nat.split)

lemma pg_concurrent_sound:
  assumes "pg_concurrent srv (t, calls) (t', calls')" "pg_inv t"
    "\<forall>call \<in> set calls. no_empty_tenant (pc_event call) \<and> pc_phase call = Inserting"
  shows "pg_inv t' \<and> (\<forall>call \<in> set calls'. ack_sound t' call)
    \<and> (\<exists>more. pg_accepted t' = pg_accepted t @ more \<and> mset more = mset (concat (map fresh_ack calls')))"
  using assms(1)
proof (induction "(t', calls')" arbitrary: t' calls')
  case begin_calls
  have "concat (map fresh_ack calls) = []" using assms(3) by simp
  with assms(2,3) show ?case by (simp add: ack_sound_def)
next
  case (statement t1 calls1 i call' t')
  then obtain more where IH: "pg_inv t1" "\<forall>call \<in> set calls1. ack_sound t1 call"
    "pg_accepted t1 = pg_accepted t @ more" "mset more = mset (concat (map fresh_ack calls1))"
    by blast
  from IH(2) statement.hyps(3) have "ack_sound t1 (calls1 ! i)" by simp
  from pg_call_step_effect [OF IH(1) this statement.hyps(4)] obtain new where
    new: "pg_inv t'" "pg_accepted t' = pg_accepted t1 @ new" "ack_sound t' call'"
    "mset (fresh_ack call') = mset (fresh_ack (calls1 ! i)) + mset new" by metis
  have "ack_sound t' call" if "call \<in> set (calls1[i := call'])" for call
  proof -
    have "set (pg_accepted t1) \<subseteq> set (pg_accepted t')" using new(2) by simp
    moreover have "call = call' \<or> call \<in> set calls1"
      using that set_update_subset_insert [of calls1 i call'] by blast
    ultimately show ?thesis using IH(2) new(3) ack_sound_mono by blast
  qed
  moreover have "mset (more @ new) = mset (concat (map fresh_ack (calls1[i := call'])))"
    using mset_concat_update [of i calls1 fresh_ack call', OF statement.hyps(3) new(4)] IH(4)
    by (simp only: mset_append)
  ultimately show ?case using new(1,2) IH(3) by auto
qed

end
