(* ===== verification/PosIngestion.thy ===== *)
theory PosIngestion
  imports PosProducer EventsRoute PostgresRawEvents
begin

text \<open>
  The producer and the service together: what \<open>POST /events\<close> sends back as JSON
  (\<open>reply.code(status).send(result)\<close> in \<open>src/src/app/http/events-route.ts\<close>), and the
  transport that connects \<open>sendDataDynaEventToEvents\<close> to the route. Three things outside the
  source are parameters: the form \<open>wire\<close> an event has in transit, the JSON of the nested records,
  and the body Fastify gives an exception.
\<close>

record 'p json_forms =
  jf_record :: "RawEventRecord \<Rightarrow> json"
  jf_invalid :: "'p InvalidRawEventRecord \<Rightarrow> json"
  jf_exception :: "store_error \<Rightarrow> json option"

fun event_result_json :: "'p json_forms \<Rightarrow> 'p EventIngestionResult \<Rightarrow> json" where
  "event_result_json jf (AcceptedEvent duplicate r) = JObj
     [(''ok'', JBool True), (''status'', JNum (Finite 202)), (''duplicate'', JBool duplicate),
      (''persisted'', jf_record jf r)]"
| "event_result_json jf (InvalidEvent i) = JObj
     [(''ok'', JBool False), (''status'', JNum (Finite 400)), (''invalid'', jf_invalid jf i)]"
| "event_result_json jf (TenantPolicyRejected status code msg i) = JObj
     [(''ok'', JBool False), (''status'', JNum (Finite (of_nat status))),
      (''error'', JObj [(''code'', JStr (tenant_code_text code)), (''message'', JStr msg)]),
      (''invalid'', jf_invalid jf i)]"

fun reply_body :: "'p json_forms \<Rightarrow> 'p route_reply \<Rightarrow> json option" where
  "reply_body jf UnauthorizedReply = Some (JObj
     [(''ok'', JBool False), (''status'', JNum (Finite 401)),
      (''error'', JObj [(''code'', JStr ''UNAUTHORIZED''), (''message'', JStr ''Unauthorized'')])])"
| "reply_body jf (EventReply r) = Some (event_result_json jf r)"
| "reply_body jf (BatchReply (BatchResults ok rs)) = Some (JObj
     [(''ok'', JBool ok), (''status'', JNum (Finite 207)),
      (''results'', JArr (map (event_result_json jf) rs))])"
| "reply_body jf (BatchReply (BatchInvalid i)) = Some (event_result_json jf (InvalidEvent i))"
| "reply_body jf (RouteThrew err) = jf_exception jf err"

definition header_of :: "(string \<times> string) list \<Rightarrow> string \<Rightarrow> header" where
  "header_of hs k = (case map_of hs k of None \<Rightarrow> NoHeader | Some v \<Rightarrow> OneHeader v)"

definition route_request_of ::
  "(DataDynaEvent \<Rightarrow> 'p) \<Rightarrow> DataDynaEvent PosEventsDeliveryTransportRequest \<Rightarrow> 'p route_request" where
  "route_request_of wire rq =
     \<lparr>req_method = rq_method rq, req_authorization = header_of (rq_headers rq) ''authorization'',
      req_xRequestId = header_of (rq_headers rq) ''x-request-id'',
      req_xCorrelationId = header_of (rq_headers rq) ''x-correlation-id'',
      req_body = wire (rq_payload rq)\<rparr>"

definition events_transport ::
  "(DataDynaEvent \<Rightarrow> 'p) \<Rightarrow> 'p json_forms \<Rightarrow> ('p \<Rightarrow> string list + DataDynaEvent)
   \<Rightarrow> ('s, 'p) EventsRouteOptions \<Rightarrow> route_clock
   \<Rightarrow> DataDynaEvent PosEventsDeliveryTransportRequest \<Rightarrow> 's route_state
   \<Rightarrow> transport_outcome \<times> 's route_state" where
  "events_transport wire jf safeParse dep clk rq st =
     (let (reply, st') = post_events safeParse dep clk (route_request_of wire rq) st
      in (Response (int (reply_status reply)) (reply_body jf reply), st'))"

section \<open>How the producer reads each reply\<close>

text \<open>
  Every reply of the route is classified as what it is: the two sides agree on status codes and on
  the names of the body's fields.
\<close>

fun expected_outcome :: "'p route_reply \<Rightarrow> PosEventsDeliveryOutcome" where
  "expected_outcome UnauthorizedReply = Out_unauthorized"
| "expected_outcome (EventReply (AcceptedEvent dup r)) = (if dup then Out_duplicate else Out_sent)"
| "expected_outcome (EventReply (InvalidEvent i)) = Out_invalid_payload"
| "expected_outcome (EventReply (TenantPolicyRejected st TENANT_MISMATCH msg i)) = Out_tenant_mismatch"
| "expected_outcome (EventReply (TenantPolicyRejected st TENANT_IDENTITY_REQUIRED msg i))
     = Out_tenant_identity_required"
| "expected_outcome (BatchReply b) = Out_invalid_payload"
| "expected_outcome (RouteThrew err) = Out_transient_send_failure"

text \<open>The policy pairs the two codes with the two statuses.\<close>

fun reply_consistent :: "'p route_reply \<Rightarrow> bool" where
  "reply_consistent (EventReply (TenantPolicyRejected st code msg i)) \<longleftrightarrow>
     (st = 400 \<and> code = TENANT_IDENTITY_REQUIRED) \<or> (st = 403 \<and> code = TENANT_MISMATCH)"
| "reply_consistent _ = True"

lemma classify_reply:
  assumes "reply_consistent reply" "\<forall>b. reply \<noteq> BatchReply b"
  shows "dl_outcome (classifyEventsDeliveryResponse (int (reply_status reply)) (reply_body jf reply))
      = expected_outcome reply
    \<and> (dl_ok (classifyEventsDeliveryResponse (int (reply_status reply)) (reply_body jf reply))
        \<longleftrightarrow> reply_status reply = 202)"
proof (cases reply)
  case (EventReply r)
  then show ?thesis
    using assms(1)
    by (cases r)
      (auto simp: classifyEventsDeliveryResponse_def deliveryResult_def isDuplicateResponse_def
        errorCode_def get_prop_def)
qed (use assms in \<open>simp_all add: classifyEventsDeliveryResponse_def deliveryResult_def\<close>)

lemma audit_result:
  "audit now ops payload reason ctx mk st = (Inr a, st') \<Longrightarrow> \<exists>i. a = mk i"
  by (auto simp: audit_def split: prod.splits sum.splits)

lemma handle_consistent:
  "handlePostEvent now safeParse ops hasSink p ctx st = (Inr result, st') \<Longrightarrow>
   reply_consistent (EventReply result)"
  by (auto simp: handlePostEvent_def rejectInvalidEvent_def rejectTenantPolicy_def persistValidEvent_def
      Let_def dest!: audit_result dest: tenant_policy_failure_cases
      split: sum.splits option.splits TenantPolicyValidation.splits prod.splits)

lemma post_events_consistent:
  "post_events safeParse dep clk request st = (reply, st') \<Longrightarrow>
   reply_consistent reply \<and> (\<forall>b. reply \<noteq> BatchReply b)"
  by (auto simp: post_events_def reject_unauthorized_def Let_def dest: handle_consistent
      split: option.splits prod.splits sum.splits)

section \<open>A credential for the POS\<close>

definition pos_credential :: "IngestionCredential \<Rightarrow> PosOrderPaidFixture \<Rightarrow> bool" where
  "pos_credential cr f \<longleftrightarrow>
     cr_token cr \<noteq> [] \<and> (\<forall>c \<in> set (cr_token cr). \<not> js_space c)
     \<and> cr_merchantId cr = fx_merchantId f \<and> fx_storeId f \<in> set (cr_storeIds cr)
     \<and> cr_producerService cr = ''pos-lite-cashier'' \<and> cr_producerEnvironment cr = ''test''
     \<and> cr_source cr = ''pos''"

lemma pos_policy_ok:
  "valid_fixture dt f \<Longrightarrow> pos_credential cr f
   \<Longrightarrow> validateTenantPolicy (pos_event f) (withoutToken cr) = TenantPolicyOk"
  by (auto simp: tenant_policy_ok_iff pos_event_def withoutToken_def pos_credential_def
      valid_fixture_def nonempty_def)

lemma pos_request_authenticated:
  assumes "pos_credential cr f" "cr \<in> set (opt_credentials dep)"
    "distinct (map cr_token (opt_credentials dep))"
  shows "authenticateIngestionRequest
      (req_authorization (route_request_of wire (delivery_request (cr_token cr) tmo payload)))
      (opt_credentials dep) = Some (withoutToken cr)"
proof -
  have "extractBearerToken (OneHeader (''Bearer '' @ cr_token cr)) = Some (cr_token cr)"
    using assms(1) by (intro bearer_round_trip) (auto simp: pos_credential_def)
  then show ?thesis
    using assms find_token [OF assms(3,2)]
    by (simp add: authenticateIngestionRequest_def route_request_of_def delivery_request_def
        header_of_def pos_credential_def)
qed

text \<open>Behind an authenticated request the delivery is the handler's answer, classified.\<close>

lemma deliver_via_route:
  assumes fx: "parses_fixture dt parseFixture" "parseFixture x = Some f"
    and cr: "pos_credential cr f" "cr \<in> set (opt_credentials dep)"
      "distinct (map cr_token (opt_credentials dep))"
    and wire: "safeParse (wire (pos_event f)) = Inr (pos_event f)"
    and h: "handlePostEvent (clk_now clk) safeParse (opt_ops dep) (opt_postHogSink dep)
              (wire (pos_event f)) (Some (withoutToken cr)) (rs_ingest st) = (res, ing)"
  shows "\<exists>st'. deliverPosOrderPaidFixtureToEvents dt parseFixture (cr_token cr) tmo
            (events_transport wire jf safeParse dep clk) x st
          = (classifyEventsDeliveryResponse
               (case res of Inl err \<Rightarrow> 500 | Inr r \<Rightarrow> int (result_status r))
               (case res of Inl err \<Rightarrow> jf_exception jf err | Inr r \<Rightarrow> Some (event_result_json jf r)), st')
        \<and> rs_ingest st' = ing"
proof -
  have body: "req_body (route_request_of wire (delivery_request (cr_token cr) tmo (pos_event f)))
      = wire (pos_event f)"
    by (simp add: route_request_of_def delivery_request_def)
  show ?thesis
    using h pos_request_authenticated [OF cr, of wire tmo "pos_event f"]
    by (cases res)
      (simp_all add: deliverPosOrderPaidFixtureToEvents_def pos_mapping_total [OF fx]
        sendDataDynaEventToEvents_def events_transport_def post_events_def body Let_def)
qed

end
