(* ===== verification/Samples.thy ===== *)
theory Samples
  imports PosIngestion
begin

text \<open>
  Concrete inputs on which the properties are exercised: a paid order, the credential of its store,
  a parser that applies the declared checks, a database that stores values as they are.
\<close>

definition sample_fixture :: PosOrderPaidFixture where
  "sample_fixture = \<lparr>fx_merchantId = ''m1'', fx_storeId = ''s1'', fx_brandId = None,
     fx_orderId = ''o1'', fx_paymentId = ''p1'', fx_orderVersion = ''1'',
     fx_paidAt = ''2026-01-01T10:00:00Z'', fx_emittedAt = ''2026-01-01T10:00:01Z'',
     fx_paymentMethodType = cash, fx_currency = ''CNY'', fx_lineItemCount = 2\<rparr>"

definition sample_event :: DataDynaEvent where
  "sample_event = pos_event sample_fixture"

text \<open>The order of another merchant, and another order of the same one.\<close>

definition foreign_event :: DataDynaEvent where
  "foreign_event = pos_event (sample_fixture\<lparr>fx_merchantId := ''m2''\<rparr>)"

definition second_event :: DataDynaEvent where
  "second_event = pos_event (sample_fixture\<lparr>fx_orderId := ''o2''\<rparr>)"

definition malformed_event :: DataDynaEvent where
  "malformed_event = pos_event (sample_fixture\<lparr>fx_merchantId := []\<rparr>)"

definition sample_credential :: IngestionCredential where
  "sample_credential = \<lparr>cr_credentialId = ''c1'', cr_token = ''t1'', cr_merchantId = ''m1'',
     cr_storeIds = [''s1''], cr_producerService = ''pos-lite-cashier'',
     cr_producerEnvironment = ''test'', cr_source = ''pos''\<rparr>"

definition sample_context :: AuthenticatedIngestionContext where
  "sample_context = withoutToken sample_credential"

definition sample_parse :: "DataDynaEvent \<Rightarrow> string list + DataDynaEvent" where
  "sample_parse e = (if valid_event (\<lambda>_. True) e then Inr e else Inl [''Invalid event''])"

definition sample_server :: "DataDynaEvent pg_server" where
  "sample_server = \<lparr>db_instant = (\<lambda>t. t), db_properties = (\<lambda>p. p), db_event = (\<lambda>e. e),
     db_payload = (\<lambda>p. p), db_storable = (\<lambda>_. True), db_auditable = (\<lambda>_ _ _. True)\<rparr>"

definition sample_ops :: "(DataDynaEvent pg_tables, DataDynaEvent) store_ops" where
  "sample_ops = make_ops (pg_persistAccepted sample_server) (pg_persistInvalid sample_server)"

definition sample_start :: "DataDynaEvent pg_tables ingest_state" where
  "sample_start = \<lparr>ist_store = pg_empty, ist_postHog = []\<rparr>"

named_theorems samples \<open>definitions of the concrete inputs\<close>

declare sample_fixture_def [samples] sample_event_def [samples] foreign_event_def [samples]
  second_event_def [samples] malformed_event_def [samples] sample_credential_def [samples]
  sample_context_def [samples] sample_server_def [samples] sample_start_def [samples] sample_ops_def [samples]

lemma sample_parses: "parses_contract (\<lambda>_. True) sample_parse"
  by (simp add: parses_contract_def sample_parse_def)

lemma sample_fixture_valid: "valid_fixture (\<lambda>_. True) sample_fixture"
  by (simp add: valid_fixture_def sample_fixture_def nonempty_def upper_letter_def)

lemma sample_event_parsed: "sample_parse sample_event = Inr sample_event"
  using pos_event_valid [OF sample_fixture_valid] by (simp add: sample_parse_def sample_event_def)

lemma second_event_parsed: "sample_parse second_event = Inr second_event"
proof -
  have "valid_fixture (\<lambda>_. True) (sample_fixture\<lparr>fx_orderId := ''o2''\<rparr>)"
    using sample_fixture_valid by (simp add: valid_fixture_def nonempty_def)
  then show ?thesis by (simp add: sample_parse_def second_event_def pos_event_valid)
qed

lemma foreign_event_parsed: "sample_parse foreign_event = Inr foreign_event"
proof -
  have "valid_fixture (\<lambda>_. True) (sample_fixture\<lparr>fx_merchantId := ''m2''\<rparr>)"
    using sample_fixture_valid by (simp add: valid_fixture_def nonempty_def)
  then show ?thesis by (simp add: sample_parse_def foreign_event_def pos_event_valid)
qed

lemma malformed_event_refused: "sample_parse malformed_event = Inl [''Invalid event'']"
  by (simp add: sample_parse_def malformed_event_def pos_event_def valid_event_def valid_identity_def)

lemma sample_policy: "validateTenantPolicy sample_event sample_context = TenantPolicyOk"
  using pos_policy_ok [OF sample_fixture_valid, of sample_credential]
  by (simp add: sample_event_def sample_context_def pos_credential_def sample_credential_def
      sample_fixture_def js_space_def)

lemma second_policy: "validateTenantPolicy second_event sample_context = TenantPolicyOk"
  using sample_policy by (simp add: tenant_policy_ok_iff sample_event_def second_event_def pos_event_def)

lemma foreign_policy:
  "validateTenantPolicy foreign_event sample_context
     = TenantPolicyFailure 403 TENANT_MISMATCH ''Tenant mismatch''"
  by (simp add: validateTenantPolicy_def foreign_event_def sample_context_def sample_credential_def
      sample_fixture_def withoutToken_def pos_event_def truthy_def)

text \<open>The first post of the sample event by its credential, with an empty database.\<close>

definition sample_stored :: "DataDynaEvent pg_tables" where
  "sample_stored = \<lparr>raw_events = [raw_event_row sample_server ''t0'' (Some ''c1'') sample_event],
     invalid_raw_events = []\<rparr>"

lemma sample_first_post:
  "handlePostEvent ''t0'' sample_parse sample_ops True sample_event (Some sample_context) sample_start
   = (Inr (AcceptedEvent False (pg_record sample_server ''t0'' (Some ''c1'') sample_event)),
      \<lparr>ist_store = sample_stored, ist_postHog = [toPostHogSinkEvent sample_event]\<rparr>)"
proof -
  have "insert_raw_event sample_server ''t0'' sample_event (Some ''c1'') pg_empty
      = (Inr (raw_event_row sample_server ''t0'' (Some ''c1'') sample_event), sample_stored)"
    by (simp add: insert_raw_event_def Let_def pg_empty_def sample_stored_def sample_server_def)
  moreover have "ctx_credentialId sample_context = ''c1''"
    by (simp add: sample_context_def sample_credential_def withoutToken_def)
  ultimately show ?thesis
    by (simp add: handlePostEvent_def sample_event_parsed sample_policy persistValidEvent_def sample_ops_def
        sample_start_def pg_persistAccepted_def pg_record_def enqueueProductAnalytics_def)
qed

lemma sample_start_inv: "pg_inv (ist_store sample_start)"
  by (simp add: sample_start_def pg_empty_inv)

lemma sample_storable [simp]: "db_storable sample_server e" "db_auditable sample_server p r c"
  "db_payload sample_server p = p"
  by (simp_all add: sample_server_def)

end
