(* ===== verification/IngestionProperties.thy ===== *)
theory IngestionProperties
  imports Samples
begin

text \<open>
  What the ingestion service guarantees over the durable store. The statements are over the
  PostgreSQL repository and hold for every server; they are instances of the contract
  \<open>raw_event_store\<close>, which the repository and the in-memory store both keep.
\<close>

abbreviation pg_ops :: "'p pg_server \<Rightarrow> ('p pg_tables, 'p) store_ops" where
  "pg_ops srv \<equiv> make_ops (pg_persistAccepted srv) (pg_persistInvalid srv)"

lemma sample_ops_pg: "sample_ops = pg_ops sample_server"
  by (simp add: sample_ops_def)

lemma sample_start_empty:
  "pg_accepted (ist_store sample_start) = []" "invalid_raw_events (ist_store sample_start) = []"
  "ist_postHog sample_start = []"
  by (simp_all add: sample_start_def pg_empty_def pg_accepted_def)

section \<open>One post\<close>

text \<open>The tenant policy accepts an event exactly when it names the merchant, one of the stores,
the service, the environment and the source of the credential, none of them empty, and is
idempotent per store.\<close>

theorem tenant_policy_exact:
  "validateTenantPolicy e c = TenantPolicyOk \<longleftrightarrow>
     idt_merchantId (ev_identity e) = Some (ctx_merchantId c) \<and> ctx_merchantId c \<noteq> []
     \<and> (\<exists>sid. idt_storeId (ev_identity e) = Some sid \<and> sid \<noteq> [] \<and> sid \<in> set (ctx_storeIds c))
     \<and> (\<exists>env. prd_environment (ev_producer e) = Some env
              \<and> environment_text env = ctx_producerEnvironment c)
     \<and> prd_service (ev_producer e) = ctx_producerService c
     \<and> source_text (ev_source e) = ctx_source c
     \<and> idm_scope (ev_idempotency e) = Scope_store"
  by (rule tenant_policy_ok_iff)



text \<open>A retry of an acknowledged post, at any later time, is acknowledged as a duplicate with
the record of the first time, and changes neither the tables nor the product analytics mirror.\<close>

theorem post_retry_idempotent:
  assumes "parses_contract dt safeParse" "pg_inv (ist_store st)"
    "handlePostEvent now safeParse (pg_ops srv) hasSink p ctx st = (Inr (AcceptedEvent dup r), st')"
  shows "handlePostEvent now' safeParse (pg_ops srv) hasSink p ctx st' = (Inr (AcceptedEvent True r), st')"
  using assms by (rule pg.handle_retry)

theorem post_retry_idempotent_witness:
  "case handlePostEvent ''t0'' sample_parse sample_ops True sample_event (Some sample_context) sample_start of
     (Inr (AcceptedEvent dup r), st') \<Rightarrow> \<not> dup
       \<and> handlePostEvent ''t9'' sample_parse sample_ops True sample_event (Some sample_context) st'
         = (Inr (AcceptedEvent True r), st')
   | _ \<Rightarrow> False"
  using post_retry_idempotent [OF sample_parses sample_start_inv sample_first_post [unfolded sample_ops_pg],
      of "''t9''"]
  by (simp add: sample_first_post [unfolded sample_ops_pg] sample_ops_pg)

section \<open>Histories of the service\<close>



text \<open>A batch that answers has answered each of its elements, in order; exactly the elements
answered as new are stored, in order, and each refused element left one audit record. It is
\<open>ok\<close> exactly when no element was refused.\<close>

theorem batch_effect_exact:
  assumes "parses_contract dt safeParse" "pg_inv (ist_store st)"
    "handlePostEventsBatch now safeParse (pg_ops srv) hasSink (ArrayPayload ps) ctx st = (Inr b, st')"
  shows "\<exists>rs. b = BatchResults (list_all result_ok rs) rs \<and> length rs = length ps
    \<and> pg_accepted (ist_store st') = pg_accepted (ist_store st) @ new_records rs
    \<and> length (invalid_raw_events (ist_store st'))
       = length (invalid_raw_events (ist_store st)) + length (filter (\<lambda>a. \<not> result_ok a) rs)"
  using assms by (rule pg.batch_effect)

lemma sample_batch:
  "handlePostEventsBatch ''t0'' sample_parse sample_ops True
     (ArrayPayload [sample_event, malformed_event, sample_event]) (Some sample_context) sample_start
   = (Inr (BatchResults False
        [AcceptedEvent False (pg_record sample_server ''t0'' (Some ''c1'') sample_event),
         InvalidEvent (invalidRawEventRecord ''t0'' (PostedPayload malformed_event) ''Invalid event''
            (buildInvalidAuditContext (Some sample_context) None None)),
         AcceptedEvent True (pg_record sample_server ''t0'' (Some ''c1'') sample_event)]),
      \<lparr>ist_store = sample_stored\<lparr>invalid_raw_events :=
          [invalidRawEventRecord ''t0'' (PostedPayload malformed_event) ''Invalid event''
            (buildInvalidAuditContext (Some sample_context) None None)]\<rparr>,
       ist_postHog = [toPostHogSinkEvent sample_event]\<rparr>)"
proof -
  let ?s = "\<lparr>ist_store = sample_stored, ist_postHog = [toPostHogSinkEvent sample_event]\<rparr>"
  let ?i = "invalidRawEventRecord ''t0'' (PostedPayload malformed_event) ''Invalid event''
            (buildInvalidAuditContext (Some sample_context) None None)"
  let ?s' = "\<lparr>ist_store = sample_stored\<lparr>invalid_raw_events := [?i]\<rparr>,
      ist_postHog = [toPostHogSinkEvent sample_event]\<rparr>"
  let ?r = "pg_record sample_server ''t0'' (Some ''c1'') sample_event"
  have two: "handlePostEvent ''t0'' sample_parse sample_ops True malformed_event (Some sample_context) ?s
      = (Inr (InvalidEvent ?i), ?s')"
    by (simp add: handlePostEvent_def malformed_event_refused rejectInvalidEvent_def audit_def sample_ops_def
        pg_persistInvalid_def Let_def sample_stored_def)
  have "pg_inv (sample_stored\<lparr>invalid_raw_events := [?i]\<rparr>)"
    by (simp add: pg_inv_def sample_stored_def sample_event_def pos_event_def sample_fixture_def raw_event_row_def)
  moreover have "?r \<in> set (pg_accepted (sample_stored\<lparr>invalid_raw_events := [?i]\<rparr>))"
    by (simp add: pg_accepted_def sample_stored_def pg_record_def)
  ultimately have "pg_persistAccepted sample_server ''t0'' sample_event (Some ''c1'')
        (sample_stored\<lparr>invalid_raw_events := [?i]\<rparr>)
      = (Inr \<lparr>pr_record = ?r, pr_duplicate = True\<rparr>, sample_stored\<lparr>invalid_raw_events := [?i]\<rparr>)"
    using valid_event_no_empty_tenant [OF pos_event_valid [OF sample_fixture_valid]]
    by (intro pg.accept_duplicate) (auto simp: sample_event_def pg.fresh_identity pg_accepted_def sample_stored_def pg_record_def)
  moreover have "ctx_credentialId sample_context = ''c1''"
    by (simp add: sample_context_def sample_credential_def withoutToken_def)
  ultimately have three: "handlePostEvent ''t0'' sample_parse sample_ops True sample_event (Some sample_context) ?s'
      = (Inr (AcceptedEvent True ?r), ?s')"
    by (simp add: handlePostEvent_def sample_event_parsed sample_policy persistValidEvent_def sample_ops_def)
  show ?thesis
    by (simp add: handlePostEventsBatch_def sample_first_post two three)
qed

theorem batch_effect_exact_witness:
  "\<exists>rs st'. handlePostEventsBatch ''t0'' sample_parse sample_ops True
      (ArrayPayload [sample_event, malformed_event, sample_event]) (Some sample_context) sample_start
      = (Inr (BatchResults False rs), st')
    \<and> length rs = 3 \<and> length (new_records rs) = 1 \<and> pg_accepted (ist_store st') = new_records rs
    \<and> length (invalid_raw_events (ist_store st')) = 1"
  unfolding sample_batch
  using batch_effect_exact [OF sample_parses sample_start_inv sample_batch [unfolded sample_ops_pg]]
  by (simp add: sample_start_empty)

section \<open>The store\<close>

text \<open>Two events have the same idempotency identity exactly when they agree on the merchant
and the store (a missing one counts as empty), on the service, the environment, the source, the scope
and the key: the JSON encoding of the seven parts keeps them apart.\<close>

theorem idempotency_identity_exact:
  "rawEventIdempotencyIdentity a = rawEventIdempotencyIdentity b \<longleftrightarrow>
     or_else (idt_merchantId (ev_identity a)) [] = or_else (idt_merchantId (ev_identity b)) []
     \<and> or_else (idt_storeId (ev_identity a)) [] = or_else (idt_storeId (ev_identity b)) []
     \<and> prd_service (ev_producer a) = prd_service (ev_producer b)
     \<and> prd_environment (ev_producer a) = prd_environment (ev_producer b)
     \<and> ev_source a = ev_source b
     \<and> idm_scope (ev_idempotency a) = idm_scope (ev_idempotency b)
     \<and> idm_key (ev_idempotency a) = idm_key (ev_idempotency b)"
  by (simp add: rawEventIdempotencyIdentity_def)

text \<open>C20. Any sequence of posts to the repository is answered as the abstract store answers it, and
leaves exactly the identities and event ids the abstract store holds: new, duplicate and refused are
decided by the stored identities alone.\<close>

theorem repository_refines_spec:
  assumes "pg_inv t" "\<forall>(now, e, c) \<in> set posts. no_empty_tenant e"
    "persist_all (pg_persistAccepted srv) posts t = (as, t')"
  shows "spec_accept_all (db_storable srv) (map (\<lambda>(now, e, c). e) posts) (taken_by (pg_accepted t))
       = (as, taken_by (pg_accepted t')) \<and> pg_inv t'"
  using assms by (rule pg.persist_all_refines)

lemma sample_no_empty_tenant:
  "no_empty_tenant sample_event" "no_empty_tenant second_event" "no_empty_tenant foreign_event"
  by (simp_all add: no_empty_tenant_def sample_event_def second_event_def foreign_event_def pos_event_def
      sample_fixture_def)

theorem repository_refines_spec_witness:
  "fst (persist_all (pg_persistAccepted sample_server)
       [(''t0'', sample_event, None), (''t1'', sample_event, None), (''t2'', foreign_event, None),
        (''t3'', second_event, None)] pg_empty)
   = [AnswerNew, AnswerDuplicate, AnswerRefused, AnswerNew]"
proof -
  let ?posts = "[(''t0'', sample_event, None), (''t1'', sample_event, None), (''t2'', foreign_event, None),
        (''t3'', second_event, None)]"
  obtain as t' where run: "persist_all (pg_persistAccepted sample_server) ?posts pg_empty = (as, t')"
    by fastforce
  have "spec_accept_all (db_storable sample_server) [sample_event, sample_event, foreign_event, second_event] []
      = (as, taken_by (pg_accepted t'))"
    using repository_refines_spec [OF pg_empty_inv _ run] sample_no_empty_tenant by (simp add: taken_by_def)
  then have "as = [AnswerNew, AnswerDuplicate, AnswerRefused, AnswerNew]"
    by (simp add: spec_accept_def Let_def sample_event_def second_event_def foreign_event_def
        pos_identity_iff pos_event_id_def sample_fixture_def pos_event_def pos_idempotency_key_def)
      (simp add: rawEventIdempotencyIdentity_def)
  then show ?thesis unfolding run by simp
qed

lemma spec_accept_all_cong:
  "\<forall>e \<in> set es. P e = Q e \<Longrightarrow> spec_accept_all P es taken = spec_accept_all Q es taken"
  by (induction es arbitrary: taken) (simp_all add: spec_accept_def Let_def split: prod.split)

text \<open>The in-memory store of the tests and the repository are interchangeable: on any sequence
of posts of events the database can represent, both give the same answers and end with the same
identities and event ids in the same order.\<close>

theorem stores_agree:
  assumes "\<forall>(now, e, c) \<in> set posts. no_empty_tenant e \<and> db_storable srv e"
    "persist_all mem_persistAccepted posts mem_new = (as, s)"
    "persist_all (pg_persistAccepted srv) posts pg_empty = (bs, t)"
  shows "as = bs \<and> taken_by (mem_accepted s) = taken_by (pg_accepted t)"
proof -
  let ?es = "map (\<lambda>(now, e, c). e) posts"
  have "\<forall>(now, e, c) \<in> set posts. no_empty_tenant e" using assms(1) by auto
  from mem.persist_all_refines [OF mem_new_inv this assms(2)]
    pg.persist_all_refines [OF pg_empty_inv this assms(3)]
  have "spec_accept_all (\<lambda>_. True) ?es [] = (as, taken_by (mem_accepted s))"
    "spec_accept_all (db_storable srv) ?es [] = (bs, taken_by (pg_accepted t))"
    by (simp_all add: taken_by_def mem_new_def mem_accepted_def)
  moreover have "spec_accept_all (\<lambda>_. True) ?es [] = spec_accept_all (db_storable srv) ?es []"
    by (rule spec_accept_all_cong) (use assms(1) in auto)
  ultimately show ?thesis by simp
qed

theorem stores_agree_witness:
  "fst (persist_all mem_persistAccepted [(''t0'', sample_event, None), (''t1'', sample_event, None)] (mem_new :: DataDynaEvent mem_store))
   = fst (persist_all (pg_persistAccepted sample_server)
       [(''t0'', sample_event, None), (''t1'', sample_event, None)] pg_empty)"
proof -
  let ?posts = "[(''t0'', sample_event, None), (''t1'', sample_event, None)]"
  obtain as s where 1: "persist_all mem_persistAccepted ?posts (mem_new :: DataDynaEvent mem_store) = (as, s)" by fastforce
  obtain bs t where 2: "persist_all (pg_persistAccepted sample_server) ?posts pg_empty = (bs, t)" by fastforce
  from stores_agree [OF _ 1 2] show ?thesis unfolding 1 2 by (simp add: sample_no_empty_tenant)
qed

text \<open>C35. Calls may interleave statement by statement in any order. In every state they reach, the
unique indexes hold; the rows added are exactly those of the calls answered as new; every answered
call returned a stored row of its own event's identity. So at most one of several concurrent posts
of one event is answered as new.\<close>

theorem concurrent_posts_sound:
  assumes "pg_concurrent srv (t, calls) (t', calls')" "pg_inv t"
    "\<forall>call \<in> set calls. no_empty_tenant (pc_event call) \<and> pc_phase call = Inserting"
  shows "pg_inv t' \<and> (\<forall>call \<in> set calls'. ack_sound t' call)
    \<and> (\<exists>more. pg_accepted t' = pg_accepted t @ more \<and> mset more = mset (concat (map fresh_ack calls')))"
  using assms by (rule pg_concurrent_sound)

definition sample_call :: "string \<Rightarrow> pg_phase \<Rightarrow> pg_call" where
  "sample_call now phase = \<lparr>pc_now = now, pc_event = sample_event, pc_credentialId = Some ''c1'', pc_phase = phase\<rparr>"

text \<open>Two calls post the same event; the second inserts after the first and reads what it stored.\<close>

lemma sample_race:
  "pg_concurrent sample_server (pg_empty, [sample_call ''t0'' Inserting, sample_call ''t1'' Inserting])
     (sample_stored,
      [sample_call ''t0'' (Returned \<lparr>pr_record = pg_record sample_server ''t0'' (Some ''c1'') sample_event, pr_duplicate = False\<rparr>),
       sample_call ''t1'' (Returned \<lparr>pr_record = pg_record sample_server ''t0'' (Some ''c1'') sample_event, pr_duplicate = True\<rparr>)])"
proof -
  let ?r = "pg_record sample_server ''t0'' (Some ''c1'') sample_event"
  let ?a = "sample_call ''t0'' Inserting" and ?b = "sample_call ''t1''"
  let ?a' = "sample_call ''t0'' (Returned \<lparr>pr_record = ?r, pr_duplicate = False\<rparr>)"
  have inv: "pg_inv sample_stored"
    by (simp add: pg_inv_def sample_stored_def sample_event_def pos_event_def sample_fixture_def raw_event_row_def)
  have row: "raw_event_row sample_server ''t0'' (Some ''c1'') sample_event \<in> set (raw_events sample_stored)"
    by (simp add: sample_stored_def)
  have a: "pg_call_step sample_server ?a pg_empty = (?a', sample_stored)"
    by (simp add: pg_call_step_def sample_call_def insert_raw_event_def Let_def pg_empty_def pg_record_def
        sample_stored_def)
  have b1: "pg_call_step sample_server (?b Inserting) sample_stored
      = (?b (SelectingByEventId unique_violation), sample_stored)"
    by (simp add: pg_call_step_def sample_call_def insert_raw_event_def Let_def sample_stored_def isUniqueViolation_def)
  have b2: "pg_call_step sample_server (?b (SelectingByEventId unique_violation)) sample_stored
      = (?b (SelectingByIdentity unique_violation), sample_stored)"
    using find_by_event_id [OF inv row refl]
    by (simp add: pg_call_step_def sample_call_def record_matches_iff_identity)
  have b3: "pg_call_step sample_server (?b (SelectingByIdentity unique_violation)) sample_stored
      = (?b (Returned \<lparr>pr_record = ?r, pr_duplicate = True\<rparr>), sample_stored)"
    using find_by_identity [OF inv sample_no_empty_tenant(1) row]
    by (simp add: pg_call_step_def sample_call_def pg_record_def)
  have "pg_concurrent sample_server (pg_empty, [?a, ?b Inserting]) (pg_empty, [?a, ?b Inserting])"
    by (rule begin_calls)
  from statement [OF this, of 0 ?a' sample_stored] a
  have "pg_concurrent sample_server (pg_empty, [?a, ?b Inserting]) (sample_stored, [?a', ?b Inserting])" by simp
  from statement [OF this, of 1 "?b (SelectingByEventId unique_violation)" sample_stored] b1
  have "pg_concurrent sample_server (pg_empty, [?a, ?b Inserting])
      (sample_stored, [?a', ?b (SelectingByEventId unique_violation)])" by simp
  from statement [OF this, of 1 "?b (SelectingByIdentity unique_violation)" sample_stored] b2
  have "pg_concurrent sample_server (pg_empty, [?a, ?b Inserting])
      (sample_stored, [?a', ?b (SelectingByIdentity unique_violation)])" by simp
  from statement [OF this, of 1 "?b (Returned \<lparr>pr_record = ?r, pr_duplicate = True\<rparr>)" sample_stored] b3
  show ?thesis by simp
qed

theorem concurrent_posts_sound_witness:
  "\<exists>t' calls'. pg_concurrent sample_server (pg_empty, [sample_call ''t0'' Inserting, sample_call ''t1'' Inserting]) (t', calls')
     \<and> length (pg_accepted t') = 1 \<and> (\<forall>call \<in> set calls'. ack_sound t' call)
     \<and> mset (pg_accepted t') = mset (concat (map fresh_ack calls'))"
proof -
  have "\<forall>call \<in> set [sample_call ''t0'' Inserting, sample_call ''t1'' Inserting].
      no_empty_tenant (pc_event call) \<and> pc_phase call = Inserting"
    by (simp add: sample_call_def sample_no_empty_tenant)
  note sound = concurrent_posts_sound [OF sample_race pg_empty_inv this]
  show ?thesis
    by (rule exI, rule exI, rule conjI [OF sample_race])
      (use sound in \<open>simp add: pg_accepted_def sample_stored_def sample_call_def pg_record_def\<close>)
qed

text \<open>A call that runs alone executes at most three statements, and what they give is what the
method returns: the phases of the concurrent model are the method's own code.\<close>

theorem phases_are_the_method:
  "(let (p1, t1) = pg_phase_step srv now e c Inserting t;
        (p2, t2) = pg_phase_step srv now e c p1 t1;
        (p3, t3) = pg_phase_step srv now e c p2 t2
    in (phase_outcome p3, t3))
   = (case pg_persistAccepted srv now e c t of (res, t') \<Rightarrow> (Some res, t'))"
  by (rule pg_call_alone)

end
