(* ===== verification/RouteProperties.thy ===== *)
theory RouteProperties
  imports IngestionProperties
begin

text \<open>
  What \<open>POST /events\<close> and \<open>POST /events/batch\<close> guarantee around the handlers:
  who is let in, whose data a request can write, and what its metrics count.
\<close>

section \<open>A sample service\<close>

definition sample_options :: "(DataDynaEvent pg_tables, DataDynaEvent) EventsRouteOptions" where
  "sample_options = \<lparr>opt_ops = sample_ops, opt_postHogSink = True, opt_credentials = [sample_credential],
     opt_runtimeEnvironment = Run_test\<rparr>"

definition sample_clock :: route_clock where
  "sample_clock = \<lparr>clk_now = ''t0'', clk_started = 100, clk_ended = 107, clk_uuid = ''u1''\<rparr>"

definition sample_request :: "'b \<Rightarrow> 'b route_request" where
  "sample_request body = \<lparr>req_method = ''POST'', req_authorization = OneHeader ''Bearer t1'',
     req_xRequestId = NoHeader, req_xCorrelationId = NoHeader, req_body = body\<rparr>"

definition sample_route_start :: "DataDynaEvent pg_tables route_state" where
  "sample_route_start = \<lparr>rs_ingest = sample_start, rs_logs = Some [], rs_metrics = Some []\<rparr>"

lemma sample_bearer: "extractBearerToken (OneHeader ''Bearer t1'') = Some ''t1''"
  using bearer_round_trip [of "''t1''"] by (simp add: js_space_def)

lemma sample_authenticated:
  "authenticateIngestionRequest (req_authorization (sample_request body)) [sample_credential]
     = Some sample_context"
  by (simp add: authenticateIngestionRequest_def sample_request_def sample_bearer [simplified] sample_context_def
      sample_credential_def)

lemma sample_request_body [simp]: "req_body (sample_request body) = body"
  by (simp add: sample_request_def)

lemma sample_clock_now [simp]: "clk_now sample_clock = ''t0''"
  by (simp add: sample_clock_def)

lemma sample_options_sel [simp]:
  "opt_ops sample_options = sample_ops" "opt_postHogSink sample_options = True"
  "opt_credentials sample_options = [sample_credential]"
  by (simp_all add: sample_options_def)

lemma sample_route_inv: "pg_inv (ist_store (rs_ingest sample_route_start))"
  by (simp add: sample_route_start_def sample_start_inv)

lemma sample_post:
  "\<exists>st'. post_events sample_parse sample_options sample_clock (sample_request sample_event) sample_route_start
     = (EventReply (AcceptedEvent False (pg_record sample_server ''t0'' (Some ''c1'') sample_event)), st')"
  using sample_first_post
  by (simp add: post_events_def sample_authenticated sample_route_start_def Let_def)

section \<open>Authentication\<close>

text \<open>With a configuration that \<open>IngestionCredentialsSchema\<close> lets through, the header
\<open>Bearer\<close> and the token of a credential, for a token without white space, authenticates that
credential and no other.\<close>

theorem configured_credential_authenticates:
  assumes "parse_credentials raw = Some cs" "cr \<in> set cs" "cr_token cr \<noteq> []"
    "\<forall>c \<in> set (cr_token cr). \<not> js_space c"
  shows "authenticateIngestionRequest (OneHeader (''Bearer '' @ cr_token cr)) cs = Some (withoutToken cr)
    \<and> (\<forall>other \<in> set cs. cr_token other = cr_token cr \<longrightarrow> other = cr)"
proof -
  from parse_credentials_unique [OF assms(1)] have d: "distinct (map cr_token cs)" by simp
  have "other = cr" if "other \<in> set cs" "cr_token other = cr_token cr" for other
    using d assms(2) that by (auto simp: distinct_map dest: inj_onD)
  with find_token [OF d assms(2)] bearer_round_trip [OF assms(3,4)] assms(3) show ?thesis
    by (auto simp: authenticateIngestionRequest_def)
qed

lemma sample_credentials_parsed: "parse_credentials [sample_credential] = Some [sample_credential]"
  by (simp add: parse_credentials_def parse_credential_def trimmed_nonempty_def sample_credential_def
      trim_no_space js_space_def Let_def unique_credentials)

theorem configured_credential_authenticates_witness:
  "authenticateIngestionRequest (OneHeader ''Bearer t1'') [sample_credential] = Some sample_context"
  using configured_credential_authenticates [OF sample_credentials_parsed, of sample_credential]
  by (simp add: sample_credential_def sample_context_def js_space_def)

text \<open>A request is answered 401 exactly when no configured credential has the token its header
carries, on both routes; such a request changes neither the tables nor the product analytics sink.\<close>

theorem unauthorized_exact:
  "(fst (post_events safeParse dep clk request st) = UnauthorizedReply
      \<longleftrightarrow> (\<forall>cr \<in> set (opt_credentials dep). extractBearerToken (req_authorization request) \<noteq> Some (cr_token cr)))
   \<and> (fst (post_events_batch safeParse dep clk batch_request st) = UnauthorizedReply
      \<longleftrightarrow> (\<forall>cr \<in> set (opt_credentials dep). extractBearerToken (req_authorization batch_request) \<noteq> Some (cr_token cr)))
   \<and> (fst (post_events safeParse dep clk request st) = UnauthorizedReply
      \<longrightarrow> rs_ingest (snd (post_events safeParse dep clk request st)) = rs_ingest st)
   \<and> (fst (post_events_batch safeParse dep clk batch_request st) = UnauthorizedReply
      \<longrightarrow> rs_ingest (snd (post_events_batch safeParse dep clk batch_request st)) = rs_ingest st)"
proof -
  have none: "authenticateIngestionRequest h cs = None
      \<longleftrightarrow> (\<forall>cr \<in> set cs. extractBearerToken h \<noteq> Some (cr_token cr))" for h cs
    using extracted_no_space [of h]
    by (auto simp: authenticateIngestionRequest_def find_None_iff split: option.split)
  have one: "fst (post_events safeParse dep clk request st) = UnauthorizedReply
      \<longleftrightarrow> authenticateIngestionRequest (req_authorization request) (opt_credentials dep) = None"
    by (simp add: post_events_def reject_unauthorized_def Let_def split: option.split prod.split sum.split)
  have batch: "fst (post_events_batch safeParse dep clk batch_request st) = UnauthorizedReply
      \<longleftrightarrow> authenticateIngestionRequest (req_authorization batch_request) (opt_credentials dep) = None"
    by (simp add: post_events_batch_def reject_unauthorized_def Let_def split: option.split prod.split sum.split)
  have "authenticateIngestionRequest (req_authorization request) (opt_credentials dep) = None
      \<Longrightarrow> rs_ingest (snd (post_events safeParse dep clk request st)) = rs_ingest st"
    by (simp add: post_events_def reject_unauthorized_def Let_def)
  moreover have "authenticateIngestionRequest (req_authorization batch_request) (opt_credentials dep) = None
      \<Longrightarrow> rs_ingest (snd (post_events_batch safeParse dep clk batch_request st)) = rs_ingest st"
    by (simp add: post_events_batch_def reject_unauthorized_def Let_def)
  ultimately show ?thesis using one batch none by simp
qed

theorem unauthorized_exact_witness:
  "\<exists>st'. post_events sample_parse sample_options sample_clock
      ((sample_request sample_event)\<lparr>req_authorization := OneHeader ''Bearer t2''\<rparr>) sample_route_start
    = (UnauthorizedReply, st') \<and> rs_ingest st' = sample_start"
proof -
  let ?rq = "(sample_request sample_event)\<lparr>req_authorization := OneHeader ''Bearer t2''\<rparr>"
  have "extractBearerToken (OneHeader ''Bearer t2'') = Some ''t2''"
    using bearer_round_trip [of "''t2''"] by (simp add: js_space_def)
  then have "\<forall>cr \<in> set (opt_credentials sample_options). extractBearerToken (req_authorization ?rq) \<noteq> Some (cr_token cr)"
    by (simp add: sample_credential_def)
  with unauthorized_exact [of sample_parse sample_options sample_clock ?rq sample_route_start]
  have "fst (post_events sample_parse sample_options sample_clock ?rq sample_route_start) = UnauthorizedReply
    \<and> rs_ingest (snd (post_events sample_parse sample_options sample_clock ?rq sample_route_start)) = sample_start"
    by (simp add: sample_route_start_def)
  then show ?thesis by (cases "post_events sample_parse sample_options sample_clock ?rq sample_route_start") simp
qed

section \<open>Tenants\<close>



section \<open>What the metrics count\<close>

lemma consistent_status:
  "reply_consistent (EventReply result) \<Longrightarrow> result_status result = 401 \<Longrightarrow> False"
  "reply_consistent (EventReply result) \<Longrightarrow> 500 \<le> result_status result \<Longrightarrow> False"
  by (cases result; auto)+

text \<open>Every request, refused and failing ones included, is counted exactly once; the error
counter counts exactly the replies with a status of 500 and above; the event counter counts the
posts the handler answered; the duration is never negative.\<close>

theorem request_accounting:
  assumes "rs_metrics st \<noteq> None" "post_events safeParse dep clk request st = (reply, st')"
  shows "counted M_http_requests_total st' = counted M_http_requests_total st + 1
    \<and> counted M_runtime_errors_total st' = counted M_runtime_errors_total st
        + (if reply_status reply \<ge> 500 then 1 else 0)
    \<and> counted M_ingestion_auth_rejections_total st' = counted M_ingestion_auth_rejections_total st
        + (if reply_status reply = 401 then 1 else 0)
    \<and> counted M_ingestion_events_total st' = counted M_ingestion_events_total st
        + (case reply of EventReply r \<Rightarrow> 1 | _ \<Rightarrow> 0)
    \<and> counted M_http_request_duration_ms st' = counted M_http_request_duration_ms st
        + max 0 (clk_ended clk - clk_started clk)"
  using assms post_events_consistent [OF assms(2)]
  by (auto simp: post_events_def reject_unauthorized_def Let_def emitRequestCompleted_counted
      emitIngestionResult_counted emitAuthRejected_def buildRouteLogContext_def
      dest: consistent_status split: option.splits prod.splits sum.splits)

theorem request_accounting_witness:
  "\<exists>st'. post_events sample_parse sample_options sample_clock (sample_request sample_event) sample_route_start
      = (EventReply (AcceptedEvent False (pg_record sample_server ''t0'' (Some ''c1'') sample_event)), st')
    \<and> counted M_http_requests_total st' = 1 \<and> counted M_ingestion_events_total st' = 1
    \<and> counted M_runtime_errors_total st' = 0 \<and> counted M_http_request_duration_ms st' = 7"
proof -
  obtain st' where run: "post_events sample_parse sample_options sample_clock (sample_request sample_event) sample_route_start
      = (EventReply (AcceptedEvent False (pg_record sample_server ''t0'' (Some ''c1'') sample_event)), st')"
    using sample_post by blast
  have start: "rs_metrics sample_route_start \<noteq> None" "counted nm sample_route_start = 0" for nm
    by (simp_all add: sample_route_start_def counted_def metric_sum_def)
  from request_accounting [OF start(1) run] run start(2) show ?thesis
    by (simp add: sample_clock_def)
qed

text \<open>A batch request that is answered 207 summarises its elements without losing any: the four
counts of its log record add up to the number of elements, the accepted count is the number of
events stored, and the event counter and the batch item counter grow by the number of elements.\<close>

theorem batch_accounting:
  assumes "parses_contract dt safeParse" "pg_inv (ist_store (rs_ingest st))" "opt_ops dep = pg_ops srv"
    "rs_metrics st \<noteq> None" "req_body request = ArrayPayload ps"
    "post_events_batch safeParse dep clk request st = (BatchReply (BatchResults ok results), st')"
  shows "sum_accepted (summarizeBatchResults results) + sum_duplicate (summarizeBatchResults results)
      + sum_invalid (summarizeBatchResults results) + sum_tenantPolicyFailure (summarizeBatchResults results)
      = length ps
    \<and> length (pg_accepted (ist_store (rs_ingest st')))
      = length (pg_accepted (ist_store (rs_ingest st))) + sum_accepted (summarizeBatchResults results)
    \<and> counted M_ingestion_events_total st' = counted M_ingestion_events_total st + int (length ps)
    \<and> counted M_ingestion_batch_items_total st' = counted M_ingestion_batch_items_total st + int (length ps)
    \<and> counted M_http_requests_total st' = counted M_http_requests_total st + 1"
proof -
  from assms(6) obtain c ing lc where c:
    "handlePostEventsBatch (clk_now clk) safeParse (pg_ops srv) (opt_postHogSink dep) (ArrayPayload ps) (Some c)
       (rs_ingest st) = (Inr (BatchResults ok results), ing)"
    "st' = emitRequestCompleted dep clk lc 207 (outcomeFromBatchResult (BatchResults ok results)) None
         (credentialLogFields c @ [(''batch_size'', jnat (length ps))])
         (emitBatchIngestionResult dep clk lc (BatchResults ok results) c (ArrayPayload ps) (st\<lparr>rs_ingest := ing\<rparr>))"
    by (auto simp: post_events_batch_def reject_unauthorized_def Let_def assms(3,5)
        split: option.splits prod.splits sum.splits)
  from pg.batch_effect [OF assms(1,2) c(1)] have eff: "length results = length ps"
    "pg_accepted (ist_store ing) = pg_accepted (ist_store (rs_ingest st)) @ new_records results" by auto
  let ?zero = "\<lparr>sum_accepted = 0, sum_duplicate = 0, sum_invalid = 0, sum_tenantPolicyFailure = 0\<rparr>"
  have "sum_accepted (summarizeBatchResults results) + sum_duplicate (summarizeBatchResults results)
      + sum_invalid (summarizeBatchResults results) + sum_tenantPolicyFailure (summarizeBatchResults results)
      = length ps"
    using summarize_counts [of results ?zero] eff(1) by (simp add: summarizeBatchResults_def)
  moreover have "sum_accepted (summarizeBatchResults results) = length (new_records results)"
    using summarize_accepted [of results ?zero] by (simp add: summarizeBatchResults_def new_records_fresh)
  ultimately show ?thesis
    using assms(4) eff
    by (auto simp: c(2) emitRequestCompleted_counted emitBatchItems_counted emitBatchCompleted_def Let_def)
qed

lemma sample_batch_post:
  "\<exists>rs st'. post_events_batch sample_parse sample_options sample_clock
      (sample_request (ArrayPayload [sample_event, malformed_event, sample_event])) sample_route_start
    = (BatchReply (BatchResults False rs), st')"
  by (simp add: post_events_batch_def sample_authenticated sample_route_start_def sample_batch Let_def)

theorem batch_accounting_witness:
  "\<exists>rs st'. post_events_batch sample_parse sample_options sample_clock
      (sample_request (ArrayPayload [sample_event, malformed_event, sample_event])) sample_route_start
    = (BatchReply (BatchResults False rs), st')
    \<and> counted M_ingestion_batch_items_total st' = 3 \<and> counted M_http_requests_total st' = 1"
proof -
  obtain rs st' where run: "post_events_batch sample_parse sample_options sample_clock
      (sample_request (ArrayPayload [sample_event, malformed_event, sample_event])) sample_route_start
    = (BatchReply (BatchResults False rs), st')" using sample_batch_post by blast
  have start: "rs_metrics sample_route_start \<noteq> None" "counted nm sample_route_start = 0" for nm
    by (simp_all add: sample_route_start_def counted_def metric_sum_def)
  from batch_accounting [OF sample_parses sample_route_inv _ start(1) _ run, of sample_server] run start(2)
  show ?thesis by (simp add: sample_ops_def)
qed

text \<open>No request puts an identifier into the metrics: whatever the payload and the headers, every
label of every record in the sink has one of the allowed keys and a value of the safe pattern.\<close>

theorem metric_labels_safe:
  assumes "metrics_safe st"
  shows "metrics_safe (snd (post_events safeParse dep clk request st))
    \<and> metrics_safe (snd (post_events_batch safeParse dep clk batch_request st))"
  using assms
  by (simp add: post_events_def post_events_batch_def reject_unauthorized_def Let_def split: option.split prod.split sum.split)

theorem metric_labels_safe_witness:
  "metrics_safe (snd (post_events sample_parse sample_options sample_clock
     ((sample_request sample_event)\<lparr>req_method := ''PO ST''\<rparr>) sample_route_start))"
  by (rule metric_labels_safe [THEN conjunct1]) (simp add: sample_route_start_def metrics_safe_def)

end
