(* ===== verification/RuntimeConfig.thy ===== *)
theory RuntimeConfig
  imports EventsRoute
begin

text \<open>
  The runtime configuration, \<open>src/src/app/config/runtime-config.ts\<close>, and the application built from it,
  \<open>src/src/app/app.ts\<close> and \<open>runtime-server.ts\<close>. What the platform makes of texts is a parameter:
  \<open>Number\<close>, \<open>JSON.parse\<close>, \<open>new URL\<close>, and the shape zod reads from the JSON of the credentials.
  An error names the fields at fault, in the order of the schema; the messages beside them are zod's, and so
  is whether a text that is no URL still reaches the refinement, which would then throw an error of its own.
\<close>

section \<open>The configuration\<close>

record process_env =
  pe_runtimeEnvironment :: "string option"
  pe_httpHost :: "string option"
  pe_httpPort :: "string option"
  pe_databaseUrl :: "string option"
  pe_ingestionCredentials :: "string option"

record text_readers =
  tr_number :: "string \<Rightarrow> js_number"
  tr_json :: "string \<Rightarrow> json option"
  tr_urlProtocol :: "string \<Rightarrow> string option"
  tr_credentials :: "json \<Rightarrow> IngestionCredential list option"

record RuntimeConfig =
  rc_runtimeEnvironment :: RuntimeEnvironment
  rc_httpHost :: string
  rc_httpPort :: nat
  rc_databaseUrl :: "string option"
  rc_ingestionCredentials :: "IngestionCredential list option"

datatype config_field = Field_runtimeEnvironment | Field_httpHost | Field_httpPort | Field_databaseUrl | Field_ingestionCredentials

fun envNameByConfigField :: "config_field \<Rightarrow> string" where
  "envNameByConfigField Field_runtimeEnvironment = ''DATA_DYNA_RUNTIME_ENV''"
| "envNameByConfigField Field_httpHost = ''DATA_DYNA_HTTP_HOST''"
| "envNameByConfigField Field_httpPort = ''DATA_DYNA_HTTP_PORT''"
| "envNameByConfigField Field_databaseUrl = ''DATA_DYNA_DATABASE_URL''"
| "envNameByConfigField Field_ingestionCredentials = ''DATA_DYNA_INGESTION_CREDENTIALS_JSON''"

datatype config_error =
  Invalid_json string
| Invalid_fields "config_field list"
| Database_url_required
| Credentials_required

definition parse_environment :: "string option \<Rightarrow> RuntimeEnvironment option" where
  "parse_environment v =
     (case v of
        None \<Rightarrow> Some Run_local
      | Some s \<Rightarrow> if s = ''local'' then Some Run_local else if s = ''test'' then Some Run_test else None)"

definition parse_host :: "string option \<Rightarrow> string option" where
  "parse_host v = (case v of None \<Rightarrow> Some ''127.0.0.1'' | Some s \<Rightarrow> trimmed_nonempty s)"

definition parse_port :: "text_readers \<Rightarrow> string option \<Rightarrow> nat option" where
  "parse_port rd v =
     (case (case v of None \<Rightarrow> Finite 3000 | Some s \<Rightarrow> tr_number rd s) of
        Finite q \<Rightarrow>
          (let (n, d) = quotient_of q in if d = 1 \<and> 1 \<le> n \<and> n \<le> 65535 then Some (nat n) else None)
      | _ \<Rightarrow> None)"

text \<open>The outer option: whether the field is in order.\<close>

definition parse_database_url :: "text_readers \<Rightarrow> string option \<Rightarrow> string option option" where
  "parse_database_url rd v =
     (if v = None \<or> v = Some [] then Some None
      else (let url = js_trim (the v) in
            case tr_urlProtocol rd url of
              None \<Rightarrow> None
            | Some protocol \<Rightarrow> if protocol \<in> {''postgresql:'', ''postgres:''} then Some (Some url) else None))"

definition parse_credentials_json :: "text_readers \<Rightarrow> json option \<Rightarrow> IngestionCredential list option option" where
  "parse_credentials_json rd v =
     (case v of
        None \<Rightarrow> Some None
      | Some j \<Rightarrow>
          (case tr_credentials rd j of
             None \<Rightarrow> None
           | Some raw \<Rightarrow> map_option Some (parse_credentials raw)))"

definition parseOptionalJsonEnv :: "text_readers \<Rightarrow> string option \<Rightarrow> string \<Rightarrow> config_error + json option" where
  "parseOptionalJsonEnv rd v envName =
     (case v of
        None \<Rightarrow> Inr None
      | Some s \<Rightarrow>
          if js_trim s = [] then Inr None
          else (case tr_json rd s of None \<Rightarrow> Inl (Invalid_json envName) | Some j \<Rightarrow> Inr (Some j)))"

definition field_if :: "'a option \<Rightarrow> config_field \<Rightarrow> config_field list" where
  "field_if parsed field = (case parsed of None \<Rightarrow> [field] | Some _ \<Rightarrow> [])"

text \<open>What the schema of the configuration makes of its fields.\<close>

definition config_of ::
  "RuntimeEnvironment option \<Rightarrow> string option \<Rightarrow> nat option \<Rightarrow> string option option
   \<Rightarrow> IngestionCredential list option option \<Rightarrow> config_error + RuntimeConfig" where
  "config_of environment host port url credentials =
     (case (environment, host, port, url, credentials) of
        (Some e, Some h, Some p, Some u, Some c) \<Rightarrow>
          Inr \<lparr>rc_runtimeEnvironment = e, rc_httpHost = h, rc_httpPort = p, rc_databaseUrl = u,
               rc_ingestionCredentials = c\<rparr>
      | _ \<Rightarrow> Inl (Invalid_fields (field_if environment Field_runtimeEnvironment @ field_if host Field_httpHost
            @ field_if port Field_httpPort @ field_if url Field_databaseUrl
            @ field_if credentials Field_ingestionCredentials)))"

definition loadRuntimeConfig :: "text_readers \<Rightarrow> process_env \<Rightarrow> config_error + RuntimeConfig" where
  "loadRuntimeConfig rd env =
     and_then (parseOptionalJsonEnv rd (pe_ingestionCredentials env) (envNameByConfigField Field_ingestionCredentials)) (\<lambda>json.
     config_of (parse_environment (pe_runtimeEnvironment env)) (parse_host (pe_httpHost env)) (parse_port rd (pe_httpPort env))
       (parse_database_url rd (pe_databaseUrl env)) (parse_credentials_json rd json))"

definition requireRuntimeDatabaseUrl :: "RuntimeConfig \<Rightarrow> config_error + string" where
  "requireRuntimeDatabaseUrl config =
     (case rc_databaseUrl config of
        Some url \<Rightarrow> if url = [] then Inl Database_url_required else Inr url
      | None \<Rightarrow> Inl Database_url_required)"

definition requireIngestionCredentials :: "RuntimeConfig \<Rightarrow> config_error + IngestionCredential list" where
  "requireIngestionCredentials config =
     (case rc_ingestionCredentials config of Some cs \<Rightarrow> Inr cs | None \<Rightarrow> Inl Credentials_required)"

section \<open>The application\<close>

record ('s, 'p) data_dyna_app =
  ap_healthEnvironment :: RuntimeEnvironment
  ap_events :: "('s, 'p) EventsRouteOptions option"

definition buildDataDynaApp ::
  "RuntimeConfig \<Rightarrow> ('s, 'p) store_ops option \<Rightarrow> bool \<Rightarrow> config_error + ('s, 'p) data_dyna_app" where
  "buildDataDynaApp config rawEventStore postHogSink =
     (case rawEventStore of
        None \<Rightarrow> Inr \<lparr>ap_healthEnvironment = rc_runtimeEnvironment config, ap_events = None\<rparr>
      | Some ops \<Rightarrow>
          and_then (requireIngestionCredentials config) (\<lambda>credentials.
          Inr \<lparr>ap_healthEnvironment = rc_runtimeEnvironment config,
               ap_events = Some \<lparr>opt_ops = ops, opt_postHogSink = postHogSink, opt_credentials = credentials,
                 opt_runtimeEnvironment = rc_runtimeEnvironment config\<rparr>\<rparr>))"

text \<open>The server opens its pool for the configured database and has no product analytics; \<open>pool\<close> is what the
repository makes of the pool of a database.\<close>

definition buildDataDynaRuntimeServer ::
  "text_readers \<Rightarrow> process_env \<Rightarrow> (string \<Rightarrow> ('s, 'p) store_ops) \<Rightarrow> RuntimeConfig option
   \<Rightarrow> config_error + ('s, 'p) data_dyna_app" where
  "buildDataDynaRuntimeServer rd env pool given =
     and_then (case given of Some config \<Rightarrow> Inr config | None \<Rightarrow> loadRuntimeConfig rd env) (\<lambda>config.
     and_then (requireRuntimeDatabaseUrl config) (\<lambda>url.
     buildDataDynaApp config (Some (pool url)) False))"

section \<open>What is loaded is in order\<close>

lemma loaded_port: "parse_port rd v = Some p \<Longrightarrow> 1 \<le> p \<and> p \<le> 65535"
  by (auto simp: parse_port_def Let_def split: option.splits js_number.splits if_splits prod.splits)

lemma loaded_host: "parse_host v = Some h \<Longrightarrow> h \<noteq> []"
  by (auto simp: parse_host_def trimmed_nonempty_def Let_def split: option.splits if_splits)

lemma loaded_credentials:
  "parse_credentials_json rd v = Some (Some cs) \<Longrightarrow> distinct (map cr_token cs) \<and> distinct (map cr_credentialId cs) \<and> cs \<noteq> []"
  by (auto simp: parse_credentials_json_def dest: parse_credentials_unique split: option.splits)

lemma loaded_url:
  "parse_database_url rd v = Some (Some url) \<Longrightarrow> tr_urlProtocol rd url \<in> {Some ''postgresql:'', Some ''postgres:''}"
  by (auto simp: parse_database_url_def Let_def split: option.splits if_splits)

lemma config_of_Inr:
  "config_of e h p u cs = Inr c \<longleftrightarrow> e = Some (rc_runtimeEnvironment c) \<and> h = Some (rc_httpHost c)
     \<and> p = Some (rc_httpPort c) \<and> u = Some (rc_databaseUrl c) \<and> cs = Some (rc_ingestionCredentials c)"
  by (cases e; cases h; cases p; cases u; cases cs) (auto simp: config_of_def)

lemma config_loaded:
  assumes "loadRuntimeConfig rd env = Inr c"
  obtains j where "parse_environment (pe_runtimeEnvironment env) = Some (rc_runtimeEnvironment c)"
    "parse_host (pe_httpHost env) = Some (rc_httpHost c)" "parse_port rd (pe_httpPort env) = Some (rc_httpPort c)"
    "parse_database_url rd (pe_databaseUrl env) = Some (rc_databaseUrl c)"
    "parse_credentials_json rd j = Some (rc_ingestionCredentials c)"
  using assms by (auto simp: loadRuntimeConfig_def and_then_Inr_iff config_of_Inr)

end
