(* ===== verification/RuntimeProperties.thy ===== *)
theory RuntimeProperties
  imports RouteProperties RuntimeConfig
begin

text \<open>
  The property of a server built from the process environment: what was configured is what authenticates.
\<close>

lemma parsed_token:
  "parse_credential c = Some c' \<Longrightarrow> cr_token c' \<noteq> []"
  by (auto simp: parse_credential_def trimmed_nonempty_def Let_def split: option.splits list.splits if_splits)

lemma all_some_in: "all_some xs = Some ys \<Longrightarrow> y \<in> set ys \<Longrightarrow> Some y \<in> set xs"
  by (induction xs arbitrary: ys rule: all_some.induct) auto

lemma parsed_credentials_tokens:
  assumes "parse_credentials raw = Some cs" "c \<in> set cs"
  shows "cr_token c \<noteq> []"
proof -
  from assms(1) have "all_some (map parse_credential raw) = Some cs"
    by (auto simp: parse_credentials_def split: option.splits if_splits)
  from all_some_in [OF this assms(2)] obtain r where "parse_credential r = Some c" by auto
  then show ?thesis by (rule parsed_token)
qed

text \<open>C37. A server that starts from the environment is in order: its port is a port, its host has a name, its store is
that of the configured PostgreSQL database, and the header \<open>Bearer\<close> with the token of any configured
credential, for a token without white space, authenticates that credential.\<close>

theorem runtime_server_configured:
  assumes "buildDataDynaRuntimeServer rd env pool None = Inr app"
  shows "\<exists>config options. loadRuntimeConfig rd env = Inr config \<and> ap_events app = Some options
    \<and> ap_healthEnvironment app = rc_runtimeEnvironment config
    \<and> 1 \<le> rc_httpPort config \<and> rc_httpPort config \<le> 65535 \<and> rc_httpHost config \<noteq> []
    \<and> (\<exists>url. rc_databaseUrl config = Some url \<and> opt_ops options = pool url
        \<and> tr_urlProtocol rd url \<in> {Some ''postgresql:'', Some ''postgres:''})
    \<and> (\<forall>cr \<in> set (opt_credentials options). (\<forall>c \<in> set (cr_token cr). \<not> js_space c) \<longrightarrow>
        authenticateIngestionRequest (OneHeader (''Bearer '' @ cr_token cr)) (opt_credentials options) = Some (withoutToken cr))"
proof -
  from assms obtain config url credentials where config: "loadRuntimeConfig rd env = Inr config"
    and url: "rc_databaseUrl config = Some url" "url \<noteq> []"
    and credentials: "rc_ingestionCredentials config = Some credentials"
    and app: "app = \<lparr>ap_healthEnvironment = rc_runtimeEnvironment config,
               ap_events = Some \<lparr>opt_ops = pool url, opt_postHogSink = False, opt_credentials = credentials,
                 opt_runtimeEnvironment = rc_runtimeEnvironment config\<rparr>\<rparr>"
    by (auto simp: buildDataDynaRuntimeServer_def buildDataDynaApp_def requireRuntimeDatabaseUrl_def
        requireIngestionCredentials_def and_then_Inr_iff split: option.splits if_splits)
  from config_loaded [OF config] obtain j where parsed: "parse_host (pe_httpHost env) = Some (rc_httpHost config)"
    "parse_port rd (pe_httpPort env) = Some (rc_httpPort config)"
    "parse_database_url rd (pe_databaseUrl env) = Some (rc_databaseUrl config)"
    "parse_credentials_json rd j = Some (rc_ingestionCredentials config)" by blast
  from parsed(4) credentials obtain raw where raw: "parse_credentials raw = Some credentials"
    by (auto simp: parse_credentials_json_def split: option.splits)
  have "authenticateIngestionRequest (OneHeader (''Bearer '' @ cr_token cr)) credentials = Some (withoutToken cr)"
    if "cr \<in> set credentials" "\<forall>c \<in> set (cr_token cr). \<not> js_space c" for cr
    using configured_credential_authenticates [OF raw that(1) parsed_credentials_tokens [OF raw that(1)] that(2)] by blast
  with config app url loaded_host [OF parsed(1)] loaded_port [OF parsed(2)] loaded_url [of rd "pe_databaseUrl env" url] parsed(3)
  show ?thesis by auto
qed

definition sample_readers :: text_readers where
  "sample_readers = \<lparr>tr_number = (\<lambda>s. if s = ''8080'' then Finite 8080 else NotANumber), tr_json = (\<lambda>s. Some (JStr s)),
     tr_urlProtocol = (\<lambda>s. if starts_with ''postgres://'' s then Some ''postgres:'' else None),
     tr_credentials = (\<lambda>j. Some [sample_credential])\<rparr>"

definition sample_env :: process_env where
  "sample_env = \<lparr>pe_runtimeEnvironment = None, pe_httpHost = None, pe_httpPort = Some ''8080'',
     pe_databaseUrl = Some ''postgres://db'', pe_ingestionCredentials = Some ''[c]''\<rparr>"

definition sample_config :: RuntimeConfig where
  "sample_config = \<lparr>rc_runtimeEnvironment = Run_local, rc_httpHost = ''127.0.0.1'', rc_httpPort = 8080,
     rc_databaseUrl = Some ''postgres://db'', rc_ingestionCredentials = Some [sample_credential]\<rparr>"

lemma sample_env_loads: "loadRuntimeConfig sample_readers sample_env = Inr sample_config"
proof -
  have "parse_port sample_readers (Some ''8080'') = Some 8080"
    "parse_database_url sample_readers (Some ''postgres://db'') = Some (Some ''postgres://db'')"
    "js_trim ''[c]'' = ''[c]''" by code_simp+
  then show ?thesis
    by (simp add: loadRuntimeConfig_def sample_env_def parseOptionalJsonEnv_def sample_readers_def parse_credentials_json_def
        sample_credentials_parsed config_of_def parse_environment_def parse_host_def sample_config_def)
qed

theorem runtime_server_configured_witness:
  "\<exists>app options. buildDataDynaRuntimeServer sample_readers sample_env (\<lambda>url. sample_ops) None = Inr app
    \<and> ap_events app = Some options \<and> set (opt_credentials options) = {sample_credential}
    \<and> authenticateIngestionRequest (OneHeader ''Bearer t1'') (opt_credentials options) = Some (withoutToken sample_credential)"
proof -
  obtain app where app: "buildDataDynaRuntimeServer sample_readers sample_env (\<lambda>url. sample_ops) None = Inr app"
    "\<exists>options. ap_events app = Some options \<and> opt_credentials options = [sample_credential]"
    by (simp add: buildDataDynaRuntimeServer_def requireRuntimeDatabaseUrl_def buildDataDynaApp_def
        requireIngestionCredentials_def sample_env_loads sample_config_def)
  from runtime_server_configured [OF app(1)] app show ?thesis
    by (auto simp: sample_credential_def js_space_def)
qed

end
