(* ===== verification/Projections.thy ===== *)
theory Projections
  imports RawEventStore
begin

text \<open>
  The rebuild of the business projections: \<open>src/src/projections/business-projections.ts\<close>, with
  the member label rows of \<open>src/src/datamesh/rfm-member-labels.ts\<close>. The twelve maps the loop
  fills are one record \<open>proj_state\<close>, each \<open>project...\<close> function a function on it. Strings
  compare with \<open>localeCompare\<close> (\<open>lc\<close>) when rows are sorted, and by code units
  (the order of \<open>List_Lexorder\<close>) when dates are compared with \<open><\<close>.
\<close>

section \<open>Rows\<close>

record SessionProjection =
  se_sessionId :: string
  se_brandId :: "string option"
  se_storeId :: "string option"
  se_memberId :: "string option"
  se_firstEventAt :: string
  se_lastEventAt :: string
  se_sourceEventIds :: "string list"

datatype cart_status = Cart_updated | Cart_checkout_started

record CartProjection =
  ca_cartId :: string
  ca_brandId :: "string option"
  ca_storeId :: "string option"
  ca_memberId :: "string option"
  ca_sessionId :: "string option"
  ca_status :: cart_status
  ca_checkoutStartedAt :: "string option"
  ca_frontendAttributionEventIds :: "string list"
  ca_sourceEventIds :: "string list"

datatype order_status = Order_opened | Order_paid | Order_refunded

record OrderProjection =
  or_orderId :: string
  or_brandId :: "string option"
  or_storeId :: "string option"
  or_memberId :: "string option"
  or_status :: order_status
  or_openedAt :: "string option"
  or_paidAt :: "string option"
  or_totalAmount :: "js_number option"
  or_currency :: "string option"
  or_sourceEventIds :: "string list"
  or_frontendAttributionEventIds :: "string list"

record OrderItemProjection =
  oi_orderItemId :: string
  oi_orderId :: string
  oi_itemId :: string
  oi_itemName :: "string option"
  oi_quantity :: js_number
  oi_amount :: "js_number option"
  oi_sourceEventId :: string

record PaymentProjection =
  pm_paymentId :: string
  pm_orderId :: string
  pm_brandId :: "string option"
  pm_storeId :: "string option"
  pm_amount :: js_number
  pm_method :: "string option"
  pm_paidAt :: string
  pm_sourceEventId :: string

record RefundProjection =
  rf_refundId :: string
  rf_orderId :: string
  rf_brandId :: "string option"
  rf_storeId :: "string option"
  rf_amount :: js_number
  rf_reason :: "string option"
  rf_refundedAt :: string
  rf_sourceEventId :: string

record ItemProjection =
  it_itemId :: string
  it_brandId :: "string option"
  it_storeId :: "string option"
  it_menuId :: "string option"
  it_itemName :: "string option"
  it_category :: "string option"
  it_sourceEventIds :: "string list"

record MenuProjection =
  mn_menuId :: string
  mn_brandId :: "string option"
  mn_storeId :: "string option"
  mn_menuName :: "string option"
  mn_sourceEventIds :: "string list"

record MemberProjection =
  mb_memberId :: string
  mb_brandId :: "string option"
  mb_storeId :: "string option"
  mb_firstSeenAt :: string
  mb_lastSeenAt :: string
  mb_sourceEventIds :: "string list"

record MemberProfileProjection =
  mp_memberId :: string
  mp_brandId :: "string option"
  mp_storeId :: "string option"
  mp_latestOrderId :: "string option"
  mp_latestPayTime :: "string option"
  mp_sourceEventIds :: "string list"

record MemberRfmSnapshot =
  rs_memberId :: string
  rs_brandId :: string
  rs_storeId :: "string option"
  rs_snapshotDate :: string
  rs_sourceTable :: string
  rs_rfmTag30d :: string
  rs_rfmTag90d :: string
  rs_rfmTag180d :: string
  rs_latestPayTime :: "string option"
  rs_payCnt90d :: js_number
  rs_payAmount90d :: js_number
  rs_avgPayAmount90d :: js_number

datatype merchant_action = Action_review_viewed | Action_accepted | Action_rejected

fun action_text :: "merchant_action \<Rightarrow> string" where
  "action_text Action_review_viewed = ''review_viewed''"
| "action_text Action_accepted = ''accepted''"
| "action_text Action_rejected = ''rejected''"

record MerchantActionProjection =
  ac_actionId :: string
  ac_experimentPlanId :: string
  ac_brandId :: "string option"
  ac_storeId :: "string option"
  ac_merchantId :: "string option"
  ac_action :: merchant_action
  ac_actedAt :: string
  ac_sourceEventId :: string

record ProjectionRun =
  run_rebuiltAt :: string
  run_sourceEventCount :: nat
  run_sourceRfmRowCount :: nat

record BusinessProjections =
  bp_run :: ProjectionRun
  bp_sessions :: "SessionProjection list"
  bp_carts :: "CartProjection list"
  bp_orders :: "OrderProjection list"
  bp_orderItems :: "OrderItemProjection list"
  bp_payments :: "PaymentProjection list"
  bp_refunds :: "RefundProjection list"
  bp_items :: "ItemProjection list"
  bp_menus :: "MenuProjection list"
  bp_members :: "MemberProjection list"
  bp_memberProfiles :: "MemberProfileProjection list"
  bp_memberRfmSnapshots :: "MemberRfmSnapshot list"
  bp_merchantActions :: "MerchantActionProjection list"

text \<open>The maps of the loop.\<close>

record proj_state =
  ps_sessions :: "(string, SessionProjection) jsmap"
  ps_carts :: "(string, CartProjection) jsmap"
  ps_orders :: "(string, OrderProjection) jsmap"
  ps_orderItems :: "(string, OrderItemProjection) jsmap"
  ps_payments :: "(string, PaymentProjection) jsmap"
  ps_refunds :: "(string, RefundProjection) jsmap"
  ps_items :: "(string, ItemProjection) jsmap"
  ps_menus :: "(string, MenuProjection) jsmap"
  ps_members :: "(string, MemberProjection) jsmap"
  ps_memberProfiles :: "(string, MemberProfileProjection) jsmap"
  ps_merchantActions :: "(string, MerchantActionProjection) jsmap"
  ps_frontendOrderAttribution :: "(string, string list) jsmap"

definition proj_start :: proj_state where
  "proj_start = \<lparr>ps_sessions = [], ps_carts = [], ps_orders = [], ps_orderItems = [],
     ps_payments = [], ps_refunds = [], ps_items = [], ps_menus = [], ps_members = [],
     ps_memberProfiles = [], ps_merchantActions = [], ps_frontendOrderAttribution = []\<rparr>"

section \<open>Member labels\<close>

record DatameshMemberLabelsRow =
  dm_memberStrId :: string
  dm_brandId :: string
  dm_storeId :: "string option"
  dm_snapshotDate :: string
  dm_sourceTable :: string
  dm_rfm_tag_30d :: string
  dm_rfm_tag_90d :: string
  dm_rfm_tag_180d :: string
  dm_latest_pay_time :: "string option"
  dm_pay_cnt_90d :: js_number
  dm_pay_amount_90d :: js_number
  dm_avg_pay_amount_90d :: js_number

definition toMemberRfmSnapshotInput :: "DatameshMemberLabelsRow \<Rightarrow> MemberRfmSnapshot" where
  "toMemberRfmSnapshotInput row = \<lparr>
     rs_memberId = dm_memberStrId row,
     rs_brandId = dm_brandId row,
     rs_storeId = dm_storeId row,
     rs_snapshotDate = dm_snapshotDate row,
     rs_sourceTable = dm_sourceTable row,
     rs_rfmTag30d = dm_rfm_tag_30d row,
     rs_rfmTag90d = dm_rfm_tag_90d row,
     rs_rfmTag180d = dm_rfm_tag_180d row,
     rs_latestPayTime = dm_latest_pay_time row,
     rs_payCnt90d = dm_pay_cnt_90d row,
     rs_payAmount90d = dm_pay_amount_90d row,
     rs_avgPayAmount90d = dm_avg_pay_amount_90d row\<rparr>"

section \<open>Dates, items\<close>

definition minDate :: "string option \<Rightarrow> string \<Rightarrow> string" where
  "minDate left right = (case left of None \<Rightarrow> right | Some l \<Rightarrow> if l = [] \<or> right < l then right else l)"

definition maxDate :: "string option \<Rightarrow> string \<Rightarrow> string" where
  "maxDate left right = (case left of None \<Rightarrow> right | Some l \<Rightarrow> if l = [] \<or> right > l then right else l)"

definition maxOptionalDate :: "string option \<Rightarrow> string option \<Rightarrow> string option" where
  "maxOptionalDate left right =
     (if \<not> truthy right then left
      else if \<not> truthy left then right
      else if or_else right [] > or_else left [] then right else left)"

fun objects_of :: "json list \<Rightarrow> (string \<times> json) list list" where
  "objects_of [] = []"
| "objects_of (JObj obj # vs) = obj # objects_of vs"
| "objects_of (_ # vs) = objects_of vs"

definition prop_of :: "RawEventRecord \<Rightarrow> string \<Rightarrow> json option" where
  "prop_of r k = get_prop (re_properties r) k"

definition getItems :: "RawEventRecord \<Rightarrow> (string \<times> json) list list" where
  "getItems r = (case prop_of r ''items'' of Some (JArr vs) \<Rightarrow> objects_of vs | _ \<Rightarrow> [])"

definition re_memberId :: "RawEventRecord \<Rightarrow> string option" where
  "re_memberId r = idt_memberId (ev_identity (re_event r))"

definition re_sessionId :: "RawEventRecord \<Rightarrow> string option" where
  "re_sessionId r = cor_sessionId (ev_correlation (re_event r))"

text \<open>\<open>uniqueSorted([...(existing?.ids ?? []), eventId])\<close>.\<close>

definition add_id :: "string comparator \<Rightarrow> string list option \<Rightarrow> string \<Rightarrow> string list" where
  "add_id lc ids i = uniqueSorted lc (or_else ids [] @ [i])"

section \<open>The projection functions\<close>

definition upsertMenu ::
  "string comparator \<Rightarrow> RawEventRecord \<Rightarrow> string \<Rightarrow> string option \<Rightarrow> proj_state \<Rightarrow> proj_state" where
  "upsertMenu lc r menuId menuNameArg s =
     (let menuName = nullish menuNameArg (getString (prop_of r ''menuName''));
          existing = map_get (ps_menus s) menuId
      in s\<lparr>ps_menus := map_set menuId
             \<lparr>mn_menuId = menuId,
              mn_brandId = nullish (Option.bind existing mn_brandId) (re_brandId r),
              mn_storeId = nullish (Option.bind existing mn_storeId) (re_storeId r),
              mn_menuName = nullish (Option.bind existing mn_menuName) menuName,
              mn_sourceEventIds = add_id lc (map_option mn_sourceEventIds existing) (re_eventId r)\<rparr>
           (ps_menus s)\<rparr>)"

definition upsertItem ::
  "string comparator \<Rightarrow> RawEventRecord \<Rightarrow> string \<Rightarrow> string option \<Rightarrow> string option \<Rightarrow> string option
   \<Rightarrow> proj_state \<Rightarrow> proj_state" where
  "upsertItem lc r itemId menuId itemNameArg categoryArg s =
     (let itemName = nullish itemNameArg (getString (prop_of r ''itemName''));
          category = nullish categoryArg (getString (prop_of r ''category''));
          existing = map_get (ps_items s) itemId
      in s\<lparr>ps_items := map_set itemId
             \<lparr>it_itemId = itemId,
              it_brandId = nullish (Option.bind existing it_brandId) (re_brandId r),
              it_storeId = nullish (Option.bind existing it_storeId) (re_storeId r),
              it_menuId = nullish (Option.bind existing it_menuId) menuId,
              it_itemName = nullish (Option.bind existing it_itemName) itemName,
              it_category = nullish (Option.bind existing it_category) category,
              it_sourceEventIds = add_id lc (map_option it_sourceEventIds existing) (re_eventId r)\<rparr>
           (ps_items s)\<rparr>)"

definition projectSession :: "string comparator \<Rightarrow> RawEventRecord \<Rightarrow> proj_state \<Rightarrow> proj_state" where
  "projectSession lc r s =
     (if \<not> truthy (re_sessionId r) then s
      else (let sessionId = or_else (re_sessionId r) []; existing = map_get (ps_sessions s) sessionId
        in s\<lparr>ps_sessions := map_set sessionId
               \<lparr>se_sessionId = sessionId,
                se_brandId = nullish (Option.bind existing se_brandId) (re_brandId r),
                se_storeId = nullish (Option.bind existing se_storeId) (re_storeId r),
                se_memberId = nullish (Option.bind existing se_memberId) (re_memberId r),
                se_firstEventAt = minDate (map_option se_firstEventAt existing) (re_occurredAt r),
                se_lastEventAt = maxDate (map_option se_lastEventAt existing) (re_occurredAt r),
                se_sourceEventIds = add_id lc (map_option se_sourceEventIds existing) (re_eventId r)\<rparr>
             (ps_sessions s)\<rparr>))"

definition projectMember :: "string comparator \<Rightarrow> RawEventRecord \<Rightarrow> proj_state \<Rightarrow> proj_state" where
  "projectMember lc r s =
     (if \<not> truthy (re_memberId r) then s
      else (let memberId = or_else (re_memberId r) [];
                existingMember = map_get (ps_members s) memberId;
                existingProfile = map_get (ps_memberProfiles s) memberId
        in s\<lparr>ps_members := map_set memberId
               \<lparr>mb_memberId = memberId,
                mb_brandId = nullish (Option.bind existingMember mb_brandId) (re_brandId r),
                mb_storeId = nullish (Option.bind existingMember mb_storeId) (re_storeId r),
                mb_firstSeenAt = minDate (map_option mb_firstSeenAt existingMember) (re_occurredAt r),
                mb_lastSeenAt = maxDate (map_option mb_lastSeenAt existingMember) (re_occurredAt r),
                mb_sourceEventIds = add_id lc (map_option mb_sourceEventIds existingMember) (re_eventId r)\<rparr>
             (ps_members s),
             ps_memberProfiles := map_set memberId
               \<lparr>mp_memberId = memberId,
                mp_brandId = nullish (Option.bind existingProfile mp_brandId) (re_brandId r),
                mp_storeId = nullish (Option.bind existingProfile mp_storeId) (re_storeId r),
                mp_latestOrderId = Option.bind existingProfile mp_latestOrderId,
                mp_latestPayTime = Option.bind existingProfile mp_latestPayTime,
                mp_sourceEventIds = add_id lc (map_option mp_sourceEventIds existingProfile) (re_eventId r)\<rparr>
             (ps_memberProfiles s)\<rparr>))"

definition menu_item_of ::
  "string comparator \<Rightarrow> RawEventRecord \<Rightarrow> string option \<Rightarrow> (string \<times> json) list \<Rightarrow> proj_state \<Rightarrow> proj_state" where
  "menu_item_of lc r menuId item s =
     (let itemMenuId = nullish (getString (get_prop item ''menuId'')) menuId;
          s = (case itemMenuId of None \<Rightarrow> s
               | Some m \<Rightarrow> upsertMenu lc r m (getString (get_prop item ''menuName'')) s)
      in case getString (get_prop item ''itemId'') of
           None \<Rightarrow> s
         | Some itemId \<Rightarrow> upsertItem lc r itemId itemMenuId (getString (get_prop item ''itemName''))
                            (getString (get_prop item ''category'')) s)"

definition projectMenuItem :: "string comparator \<Rightarrow> RawEventRecord \<Rightarrow> proj_state \<Rightarrow> proj_state" where
  "projectMenuItem lc r s =
     (if re_entityType r \<noteq> Ent_menu_item \<and> re_name r \<noteq> EN_mini_program_cart_updated \<and> getItems r = []
      then s
      else (let menuId = getString (prop_of r ''menuId'');
                s = (case menuId of None \<Rightarrow> s | Some m \<Rightarrow> upsertMenu lc r m None s);
                directItemId = (if re_entityType r = Ent_menu_item then Some (re_entityId r)
                                else getString (prop_of r ''itemId''));
                s = (if truthy directItemId
                     then upsertItem lc r (or_else directItemId []) menuId None None s else s)
            in fold (menu_item_of lc r menuId) (getItems r) s))"

definition cart_item_of ::
  "string comparator \<Rightarrow> RawEventRecord \<Rightarrow> (string \<times> json) list \<Rightarrow> proj_state \<Rightarrow> proj_state" where
  "cart_item_of lc r item s =
     (case getString (get_prop item ''itemId'') of
        None \<Rightarrow> s
      | Some itemId \<Rightarrow>
          (let s = upsertItem lc r itemId (getString (get_prop item ''menuId''))
                     (getString (get_prop item ''itemName'')) (getString (get_prop item ''category'')) s
           in case getString (get_prop item ''menuId'') of
                None \<Rightarrow> s
              | Some menuId \<Rightarrow> upsertMenu lc r menuId (getString (get_prop item ''menuName'')) s))"

definition projectCart :: "string comparator \<Rightarrow> RawEventRecord \<Rightarrow> proj_state \<Rightarrow> proj_state" where
  "projectCart lc r s =
     (let cartId = (if re_entityType r = Ent_cart then Some (re_entityId r)
                    else getString (prop_of r ''cartId''))
      in if \<not> truthy cartId then s
         else (let cartId = or_else cartId []; existing = map_get (ps_carts s) cartId;
                   s = s\<lparr>ps_carts := map_set cartId
                          \<lparr>ca_cartId = cartId,
                           ca_brandId = nullish (Option.bind existing ca_brandId) (re_brandId r),
                           ca_storeId = nullish (Option.bind existing ca_storeId) (re_storeId r),
                           ca_memberId = nullish (Option.bind existing ca_memberId) (re_memberId r),
                           ca_sessionId = nullish (Option.bind existing ca_sessionId) (re_sessionId r),
                           ca_status = Cart_updated,
                           ca_checkoutStartedAt = Option.bind existing ca_checkoutStartedAt,
                           ca_frontendAttributionEventIds =
                             or_else (map_option ca_frontendAttributionEventIds existing) [],
                           ca_sourceEventIds =
                             add_id lc (map_option ca_sourceEventIds existing) (re_eventId r)\<rparr>
                        (ps_carts s)\<rparr>
               in fold (cart_item_of lc r) (getItems r) s))"

definition checkout_cart :: "string comparator \<Rightarrow> RawEventRecord \<Rightarrow> proj_state \<Rightarrow> proj_state" where
  "checkout_cart lc r s =
     (case getString (prop_of r ''cartId'') of
        None \<Rightarrow> s
      | Some cartId \<Rightarrow>
          (let existing = map_get (ps_carts s) cartId
           in s\<lparr>ps_carts := map_set cartId
                 \<lparr>ca_cartId = cartId,
                  ca_brandId = nullish (Option.bind existing ca_brandId) (re_brandId r),
                  ca_storeId = nullish (Option.bind existing ca_storeId) (re_storeId r),
                  ca_memberId = nullish (Option.bind existing ca_memberId) (re_memberId r),
                  ca_sessionId = nullish (Option.bind existing ca_sessionId) (re_sessionId r),
                  ca_status = Cart_checkout_started,
                  ca_checkoutStartedAt = Some (re_occurredAt r),
                  ca_frontendAttributionEventIds =
                    add_id lc (map_option ca_frontendAttributionEventIds existing) (re_eventId r),
                  ca_sourceEventIds =
                    add_id lc (map_option ca_sourceEventIds existing) (re_eventId r)\<rparr>
               (ps_carts s)\<rparr>))"

definition projectCheckoutAttribution ::
  "string comparator \<Rightarrow> RawEventRecord \<Rightarrow> proj_state \<Rightarrow> proj_state" where
  "projectCheckoutAttribution lc r s =
     (let s = checkout_cart lc r s
      in case nullish (getString (prop_of r ''orderId'')) (getString (prop_of r ''posOrderId'')) of
           None \<Rightarrow> s
         | Some orderId \<Rightarrow>
             s\<lparr>ps_frontendOrderAttribution := map_set orderId
                 (add_id lc (map_get (ps_frontendOrderAttribution s) orderId) (re_eventId r))
                 (ps_frontendOrderAttribution s)\<rparr>)"

definition order_item_of :: "RawEventRecord \<Rightarrow> string \<Rightarrow> (string \<times> json) list \<Rightarrow> proj_state \<Rightarrow> proj_state" where
  "order_item_of r orderId item s =
     (case getString (get_prop item ''itemId'') of
        None \<Rightarrow> s
      | Some itemId \<Rightarrow>
          (let orderItemId = or_else (getString (get_prop item ''orderItemId'')) (orderId @ '':'' @ itemId)
           in s\<lparr>ps_orderItems := map_set orderItemId
                 \<lparr>oi_orderItemId = orderItemId, oi_orderId = orderId, oi_itemId = itemId,
                  oi_itemName = getString (get_prop item ''itemName''),
                  oi_quantity = or_else (getNumber (get_prop item ''quantity'')) (Finite 1),
                  oi_amount = getNumber (get_prop item ''amount''),
                  oi_sourceEventId = re_eventId r\<rparr> (ps_orderItems s)\<rparr>))"

definition order_row ::
  "string comparator \<Rightarrow> RawEventRecord \<Rightarrow> string \<Rightarrow> OrderProjection option \<Rightarrow> OrderProjection" where
  "order_row lc r orderId existing =
     (let totalAmount = nullish (getNumber (prop_of r ''totalAmount''))
            (nullish (getNumber (prop_of r ''amount'')) (Option.bind existing or_totalAmount));
          currency = nullish (getString (prop_of r ''currency'')) (Option.bind existing or_currency);
          isPaid = (re_name r = EN_pos_order_paid)
      in \<lparr>or_orderId = orderId,
          or_brandId = nullish (Option.bind existing or_brandId) (re_brandId r),
          or_storeId = nullish (Option.bind existing or_storeId) (re_storeId r),
          or_memberId = nullish (Option.bind existing or_memberId) (re_memberId r),
          or_status = (if isPaid then Order_paid else or_else (map_option or_status existing) Order_opened),
          or_openedAt = nullish (Option.bind existing or_openedAt)
            (if re_name r = EN_pos_order_opened then Some (re_occurredAt r) else None),
          or_paidAt = (if isPaid then Some (re_occurredAt r) else Option.bind existing or_paidAt),
          or_totalAmount = totalAmount,
          or_currency = currency,
          or_sourceEventIds = add_id lc (map_option or_sourceEventIds existing) (re_eventId r),
          or_frontendAttributionEventIds =
            or_else (map_option or_frontendAttributionEventIds existing) []\<rparr>)"

definition project_payment :: "RawEventRecord \<Rightarrow> string \<Rightarrow> js_number option \<Rightarrow> proj_state \<Rightarrow> proj_state" where
  "project_payment r orderId totalAmount s =
     (case totalAmount of
        None \<Rightarrow> s
      | Some amount \<Rightarrow>
          if re_name r \<noteq> EN_pos_order_paid then s
          else (let paymentId = or_else (getString (prop_of r ''paymentId'')) (orderId @ '':payment'')
                in s\<lparr>ps_payments := map_set paymentId
                      \<lparr>pm_paymentId = paymentId, pm_orderId = orderId, pm_brandId = re_brandId r,
                       pm_storeId = re_storeId r, pm_amount = amount,
                       pm_method = getString (prop_of r ''paymentMethod''),
                       pm_paidAt = re_occurredAt r, pm_sourceEventId = re_eventId r\<rparr>
                    (ps_payments s)\<rparr>))"

definition project_paying_member ::
  "string comparator \<Rightarrow> RawEventRecord \<Rightarrow> string \<Rightarrow> proj_state \<Rightarrow> proj_state" where
  "project_paying_member lc r orderId s =
     (if \<not> truthy (re_memberId r) \<or> re_name r \<noteq> EN_pos_order_paid then s
      else (let memberId = or_else (re_memberId r) [];
                existingProfile = map_get (ps_memberProfiles s) memberId
        in s\<lparr>ps_memberProfiles := map_set memberId
               \<lparr>mp_memberId = memberId,
                mp_brandId = nullish (Option.bind existingProfile mp_brandId) (re_brandId r),
                mp_storeId = nullish (Option.bind existingProfile mp_storeId) (re_storeId r),
                mp_latestOrderId = Some orderId,
                mp_latestPayTime =
                  maxOptionalDate (Option.bind existingProfile mp_latestPayTime) (Some (re_occurredAt r)),
                mp_sourceEventIds = add_id lc (map_option mp_sourceEventIds existingProfile) (re_eventId r)\<rparr>
             (ps_memberProfiles s)\<rparr>))"

definition projectOrder :: "string comparator \<Rightarrow> RawEventRecord \<Rightarrow> proj_state \<Rightarrow> proj_state" where
  "projectOrder lc r s =
     (let orderId = (if re_entityType r = Ent_order then Some (re_entityId r)
                     else getString (prop_of r ''orderId''))
      in if \<not> truthy orderId then s
         else (let orderId = or_else orderId [];
                   row = order_row lc r orderId (map_get (ps_orders s) orderId);
                   s = s\<lparr>ps_orders := map_set orderId row (ps_orders s)\<rparr>;
                   s = fold (order_item_of r orderId) (getItems r) s;
                   s = project_payment r orderId (or_totalAmount row) s
               in project_paying_member lc r orderId s))"

definition projectRefund :: "string comparator \<Rightarrow> RawEventRecord \<Rightarrow> proj_state \<Rightarrow> proj_state" where
  "projectRefund lc r s =
     (let orderId = getString (prop_of r ''orderId'');
          refundId = (if re_entityType r = Ent_refund then Some (re_entityId r)
                      else getString (prop_of r ''refundId''))
      in case getNumber (prop_of r ''amount'') of
           None \<Rightarrow> s
         | Some amount \<Rightarrow>
             if \<not> truthy orderId \<or> \<not> truthy refundId then s
             else (let orderId = or_else orderId []; refundId = or_else refundId [];
                       s = s\<lparr>ps_refunds := map_set refundId
                              \<lparr>rf_refundId = refundId, rf_orderId = orderId,
                               rf_brandId = re_brandId r, rf_storeId = re_storeId r,
                               rf_amount = amount, rf_reason = getString (prop_of r ''reason''),
                               rf_refundedAt = re_occurredAt r, rf_sourceEventId = re_eventId r\<rparr>
                            (ps_refunds s)\<rparr>
                   in case map_get (ps_orders s) orderId of
                        None \<Rightarrow> s
                      | Some existing \<Rightarrow>
                          s\<lparr>ps_orders := map_set orderId
                              (existing\<lparr>or_status := Order_refunded,
                                 or_sourceEventIds := add_id lc (Some (or_sourceEventIds existing)) (re_eventId r)\<rparr>)
                              (ps_orders s)\<rparr>))"

definition projectMerchantAction :: "RawEventRecord \<Rightarrow> proj_state \<Rightarrow> proj_state" where
  "projectMerchantAction r s =
     (let experimentPlanId = (if re_entityType r = Ent_experiment_plan then Some (re_entityId r)
                              else getString (prop_of r ''experimentPlanId''))
      in if \<not> truthy experimentPlanId then s
         else (let planId = or_else experimentPlanId [];
                   action = (if re_name r = EN_mobile_hq_experiment_accepted then Action_accepted
                             else if re_name r = EN_mobile_hq_experiment_rejected then Action_rejected
                             else Action_review_viewed);
                   actionId = planId @ '':'' @ action_text action @ '':'' @ re_eventId r
               in s\<lparr>ps_merchantActions := map_set actionId
                     \<lparr>ac_actionId = actionId, ac_experimentPlanId = planId, ac_brandId = re_brandId r,
                      ac_storeId = re_storeId r,
                      ac_merchantId = idt_merchantId (ev_identity (re_event r)),
                      ac_action = action, ac_actedAt = re_occurredAt r,
                      ac_sourceEventId = re_eventId r\<rparr> (ps_merchantActions s)\<rparr>))"

section \<open>The rebuild\<close>

definition project_event :: "string comparator \<Rightarrow> RawEventRecord \<Rightarrow> proj_state \<Rightarrow> proj_state" where
  "project_event lc r s =
     (let s = projectMenuItem lc r (projectMember lc r (projectSession lc r s));
          s = (if re_name r = EN_mini_program_cart_updated then projectCart lc r s else s);
          s = (if re_name r = EN_mini_program_checkout_started
               then projectCheckoutAttribution lc r s else s);
          s = (if re_name r = EN_pos_order_opened \<or> re_name r = EN_pos_order_paid
               then projectOrder lc r s else s);
          s = (if re_name r = EN_pos_refund_recorded then projectRefund lc r s else s)
      in if re_name r = EN_mobile_hq_experiment_review_viewed
            \<or> re_name r = EN_mobile_hq_experiment_accepted
            \<or> re_name r = EN_mobile_hq_experiment_rejected
         then projectMerchantAction r s else s)"

definition attribute_order ::
  "string comparator \<Rightarrow> string \<times> string list \<Rightarrow> (string, OrderProjection) jsmap
   \<Rightarrow> (string, OrderProjection) jsmap" where
  "attribute_order lc attribution orders =
     (case attribution of (orderId, eventIds) \<Rightarrow>
        (case map_get orders orderId of
           None \<Rightarrow> orders
         | Some order \<Rightarrow> map_set orderId
             (order\<lparr>or_frontendAttributionEventIds :=
                uniqueSorted lc (or_frontendAttributionEventIds order @ eventIds)\<rparr>) orders))"

definition project_snapshot :: "MemberRfmSnapshot \<Rightarrow> proj_state \<Rightarrow> proj_state" where
  "project_snapshot snap s =
     (let snapshotObservedAt = rs_snapshotDate snap @ ''T00:00:00.000Z'';
          existingMember = map_get (ps_members s) (rs_memberId snap);
          existing = map_get (ps_memberProfiles s) (rs_memberId snap)
      in s\<lparr>ps_members := map_set (rs_memberId snap)
             \<lparr>mb_memberId = rs_memberId snap,
              mb_brandId = nullish (Option.bind existingMember mb_brandId) (Some (rs_brandId snap)),
              mb_storeId = nullish (Option.bind existingMember mb_storeId) (rs_storeId snap),
              mb_firstSeenAt = minDate (map_option mb_firstSeenAt existingMember) snapshotObservedAt,
              mb_lastSeenAt = maxDate (map_option mb_lastSeenAt existingMember) snapshotObservedAt,
              mb_sourceEventIds = or_else (map_option mb_sourceEventIds existingMember) []\<rparr>
           (ps_members s),
           ps_memberProfiles := map_set (rs_memberId snap)
             \<lparr>mp_memberId = rs_memberId snap,
              mp_brandId = nullish (Option.bind existing mp_brandId) (Some (rs_brandId snap)),
              mp_storeId = nullish (Option.bind existing mp_storeId) (rs_storeId snap),
              mp_latestOrderId = Option.bind existing mp_latestOrderId,
              mp_latestPayTime =
                maxOptionalDate (Option.bind existing mp_latestPayTime) (rs_latestPayTime snap),
              mp_sourceEventIds = or_else (map_option mp_sourceEventIds existing) []\<rparr>
           (ps_memberProfiles s)\<rparr>)"

definition event_sort_key :: "RawEventRecord \<Rightarrow> string" where
  "event_sort_key r = re_occurredAt r @ '':'' @ re_eventId r"

definition snapshot_sort_key :: "MemberRfmSnapshot \<Rightarrow> string" where
  "snapshot_sort_key s = rs_brandId s @ '':'' @ rs_memberId s @ '':'' @ rs_snapshotDate s"

record ProjectionRebuildInput =
  in_rawEvents :: "RawEventRecord list"
  in_rfmRows :: "DatameshMemberLabelsRow list option"
  in_rebuiltAt :: "string option"

definition epoch_iso :: string where
  "epoch_iso = ''1970-01-01T00:00:00.000Z''"

definition sorted_snapshots :: "string comparator \<Rightarrow> DatameshMemberLabelsRow list \<Rightarrow> MemberRfmSnapshot list" where
  "sorted_snapshots lc rows = sort_on lc snapshot_sort_key (map toMemberRfmSnapshotInput rows)"

definition projected_state ::
  "string comparator \<Rightarrow> RawEventRecord list \<Rightarrow> MemberRfmSnapshot list \<Rightarrow> proj_state" where
  "projected_state lc sortedEvents snapshots =
     (let s = fold (project_event lc) sortedEvents proj_start;
          s = s\<lparr>ps_orders := fold (attribute_order lc) (ps_frontendOrderAttribution s) (ps_orders s)\<rparr>
      in fold project_snapshot snapshots s)"

definition rebuildBusinessProjections ::
  "string comparator \<Rightarrow> ProjectionRebuildInput \<Rightarrow> BusinessProjections" where
  "rebuildBusinessProjections lc input =
     (let sortedEvents = sort_on lc event_sort_key (in_rawEvents input);
          snapshots = sorted_snapshots lc (or_else (in_rfmRows input) []);
          s = projected_state lc sortedEvents snapshots
      in \<lparr>bp_run = \<lparr>run_rebuiltAt = or_else (in_rebuiltAt input) epoch_iso,
                    run_sourceEventCount = length sortedEvents,
                    run_sourceRfmRowCount = length (or_else (in_rfmRows input) [])\<rparr>,
          bp_sessions = sort_on lc se_sessionId (map_values (ps_sessions s)),
          bp_carts = sort_on lc ca_cartId (map_values (ps_carts s)),
          bp_orders = sort_on lc or_orderId (map_values (ps_orders s)),
          bp_orderItems = sort_on lc oi_orderItemId (map_values (ps_orderItems s)),
          bp_payments = sort_on lc pm_paymentId (map_values (ps_payments s)),
          bp_refunds = sort_on lc rf_refundId (map_values (ps_refunds s)),
          bp_items = sort_on lc it_itemId (map_values (ps_items s)),
          bp_menus = sort_on lc mn_menuId (map_values (ps_menus s)),
          bp_members = sort_on lc mb_memberId (map_values (ps_members s)),
          bp_memberProfiles = sort_on lc mp_memberId (map_values (ps_memberProfiles s)),
          bp_memberRfmSnapshots = snapshots,
          bp_merchantActions = sort_on lc ac_actionId (map_values (ps_merchantActions s))\<rparr>)"

text \<open>\<open>InMemoryProjectionStore\<close> keeps the latest projections; the task replaces them.\<close>

type_synonym projection_store = "BusinessProjections option"

definition replaceAll :: "BusinessProjections \<Rightarrow> projection_store \<Rightarrow> projection_store" where
  "replaceAll projections store = Some projections"

definition runProjectionRebuildTask ::
  "string comparator \<Rightarrow> ProjectionRebuildInput \<Rightarrow> projection_store
   \<Rightarrow> BusinessProjections \<times> projection_store" where
  "runProjectionRebuildTask lc input store =
     (let projections = rebuildBusinessProjections lc input
      in (projections, replaceAll projections store))"

end
