(* ===== verification/ProjectionInvariants.thy ===== *)
theory ProjectionInvariants
  imports Projections
begin

text \<open>
  What holds of every map the rebuild fills: keys are distinct and are the rows' own ids, and
  every event id a row names is the id of an event that was given and is of the right kind. The
  invariant \<open>proj_ok\<close> is kept by every projection function, and a second one relates payments
  and order items to orders.
\<close>

section \<open>Rows under their own key\<close>

definition rows_ok :: "('v \<Rightarrow> string) \<Rightarrow> ('v \<Rightarrow> bool) \<Rightarrow> (string, 'v) jsmap \<Rightarrow> bool" where
  "rows_ok idf P m \<longleftrightarrow> distinct (map_keys m) \<and> (\<forall>(k, v) \<in> set m. idf v = k \<and> P v)"

lemma rows_ok_Nil [simp]: "rows_ok idf P []"
  by (simp add: rows_ok_def)

lemma set_map_set_subset: "set (map_set k v m) \<subseteq> insert (k, v) (set m)"
  by (induction m) auto

lemma rows_ok_set:
  "rows_ok idf P m \<Longrightarrow> idf v = k \<Longrightarrow> P v \<Longrightarrow> rows_ok idf P (map_set k v m)"
  using set_map_set_subset [of k v m] by (auto simp: rows_ok_def distinct_map_set)

lemma rows_ok_get: "rows_ok idf P m \<Longrightarrow> map_get m k = Some v \<Longrightarrow> idf v = k \<and> P v"
  by (auto simp: rows_ok_def dest: map_of_SomeD)

lemma rows_ok_values: "rows_ok idf P m \<Longrightarrow> v \<in> set (map_values m) \<Longrightarrow> P v"
  by (auto simp: rows_ok_def)

lemma rows_ok_ids: "rows_ok idf P m \<Longrightarrow> map idf (map_values m) = map_keys m"
  by (auto simp: rows_ok_def)

lemma rows_ok_distinct: "rows_ok idf P m \<Longrightarrow> distinct (map idf (map_values m))"
  by (simp only: rows_ok_ids) (simp add: rows_ok_def)

section \<open>Traced ids\<close>

definition traced :: "string comparator \<Rightarrow> RawEventRecord set \<Rightarrow> string list \<Rightarrow> bool" where
  "traced lc E ids \<longleftrightarrow>
     set ids \<subseteq> re_eventId ` E \<and> distinct ids \<and> Sorting_Algorithms.sorted lc ids"

lemma traced_Nil [simp]: "traced lc E []"
  by (simp add: traced_def)

lemma traced_uniqueSorted: "set ids \<subseteq> re_eventId ` E \<Longrightarrow> traced lc E (uniqueSorted lc ids)"
  by (simp add: traced_def)

lemma traced_mono: "traced lc E ids \<Longrightarrow> E \<subseteq> F \<Longrightarrow> traced lc F ids"
  unfolding traced_def by (metis image_mono subset_trans)

lemma traced_add_id:
  "traced lc E (or_else ids []) \<Longrightarrow> r \<in> E \<Longrightarrow> traced lc E (add_id lc ids (re_eventId r))"
  unfolding add_id_def by (intro traced_uniqueSorted) (auto simp: traced_def)

lemma traced_add_get:
  assumes "rows_ok idf P m" "r \<in> E" "\<And>v. P v \<Longrightarrow> traced lc E (f v)"
  shows "traced lc E (add_id lc (map_option f (map_get m k)) (re_eventId r))"
proof (intro traced_add_id)
  show "traced lc E (or_else (map_option f (map_get m k)) [])"
    using rows_ok_get [OF assms(1)] assms(3) by (cases "map_get m k") auto
qed (rule assms(2))

lemma traced_get:
  assumes "rows_ok idf P m" "\<And>v. P v \<Longrightarrow> traced lc E (f v)"
  shows "traced lc E (or_else (map_option f (map_get m k)) [])"
  using rows_ok_get [OF assms(1)] assms(2) by (cases "map_get m k") auto

section \<open>The invariant of the maps\<close>

text \<open>The events that may make or change an order.\<close>

definition sale_events :: "RawEventRecord set \<Rightarrow> RawEventRecord set" where
  "sale_events E = {r \<in> E. re_name r \<in> {EN_pos_order_opened, EN_pos_order_paid, EN_pos_refund_recorded}}"

definition checkout_events :: "RawEventRecord set \<Rightarrow> RawEventRecord set" where
  "checkout_events E = {r \<in> E. re_name r = EN_mini_program_checkout_started}"

text \<open>A payment or refund row is the event it names.\<close>

definition payment_of :: "RawEventRecord set \<Rightarrow> PaymentProjection \<Rightarrow> bool" where
  "payment_of E p \<longleftrightarrow>
     (\<exists>r \<in> E. re_name r = EN_pos_order_paid \<and> pm_sourceEventId p = re_eventId r
        \<and> pm_paidAt p = re_occurredAt r \<and> pm_brandId p = re_brandId r \<and> pm_storeId p = re_storeId r)"

definition refund_of :: "RawEventRecord set \<Rightarrow> RefundProjection \<Rightarrow> bool" where
  "refund_of E f \<longleftrightarrow>
     (\<exists>r \<in> E. re_name r = EN_pos_refund_recorded \<and> rf_sourceEventId f = re_eventId r
        \<and> rf_refundedAt f = re_occurredAt r \<and> rf_brandId f = re_brandId r \<and> rf_storeId f = re_storeId r
        \<and> getNumber (prop_of r ''amount'') = Some (rf_amount f)
        \<and> getString (prop_of r ''orderId'') = Some (rf_orderId f))"

definition item_of :: "RawEventRecord set \<Rightarrow> OrderItemProjection \<Rightarrow> bool" where
  "item_of E i \<longleftrightarrow>
     (\<exists>r \<in> E. re_name r \<in> {EN_pos_order_opened, EN_pos_order_paid} \<and> oi_sourceEventId i = re_eventId r)"

definition action_of :: "RawEventRecord set \<Rightarrow> MerchantActionProjection \<Rightarrow> bool" where
  "action_of E a \<longleftrightarrow>
     (\<exists>r \<in> E. ac_sourceEventId a = re_eventId r \<and> ac_actedAt a = re_occurredAt r
        \<and> re_name r = (case ac_action a of
             Action_accepted \<Rightarrow> EN_mobile_hq_experiment_accepted
           | Action_rejected \<Rightarrow> EN_mobile_hq_experiment_rejected
           | Action_review_viewed \<Rightarrow> EN_mobile_hq_experiment_review_viewed))"

definition proj_ok :: "string comparator \<Rightarrow> RawEventRecord set \<Rightarrow> proj_state \<Rightarrow> bool" where
  "proj_ok lc E s \<longleftrightarrow>
     rows_ok se_sessionId (\<lambda>v. traced lc E (se_sourceEventIds v)) (ps_sessions s)
     \<and> rows_ok ca_cartId (\<lambda>v. traced lc E (ca_sourceEventIds v)
         \<and> traced lc E (ca_frontendAttributionEventIds v)) (ps_carts s)
     \<and> rows_ok or_orderId (\<lambda>v. traced lc (sale_events E) (or_sourceEventIds v)
         \<and> traced lc (checkout_events E) (or_frontendAttributionEventIds v)) (ps_orders s)
     \<and> rows_ok oi_orderItemId (item_of E) (ps_orderItems s)
     \<and> rows_ok pm_paymentId (payment_of E) (ps_payments s)
     \<and> rows_ok rf_refundId (refund_of E) (ps_refunds s)
     \<and> rows_ok it_itemId (\<lambda>v. traced lc E (it_sourceEventIds v)) (ps_items s)
     \<and> rows_ok mn_menuId (\<lambda>v. traced lc E (mn_sourceEventIds v)) (ps_menus s)
     \<and> rows_ok mb_memberId (\<lambda>v. traced lc E (mb_sourceEventIds v)) (ps_members s)
     \<and> rows_ok mp_memberId (\<lambda>v. traced lc E (mp_sourceEventIds v)) (ps_memberProfiles s)
     \<and> rows_ok ac_actionId (action_of E) (ps_merchantActions s)
     \<and> distinct (map_keys (ps_frontendOrderAttribution s))
     \<and> (\<forall>(k, ids) \<in> set (ps_frontendOrderAttribution s). traced lc (checkout_events E) ids)"

lemma proj_ok_start: "proj_ok lc E proj_start"
  by (simp add: proj_ok_def proj_start_def)

named_theorems keeps_ok \<open>operations that keep \<open>proj_ok\<close>\<close>

lemma upsertMenu_ok [keeps_ok]:
  "proj_ok lc E s \<Longrightarrow> r \<in> E \<Longrightarrow> proj_ok lc E (upsertMenu lc r m n s)"
  by (auto simp: proj_ok_def upsertMenu_def Let_def intro!: rows_ok_set traced_add_get)

lemma upsertItem_ok [keeps_ok]:
  "proj_ok lc E s \<Longrightarrow> r \<in> E \<Longrightarrow> proj_ok lc E (upsertItem lc r i m n c s)"
  by (auto simp: proj_ok_def upsertItem_def Let_def intro!: rows_ok_set traced_add_get)

lemma projectSession_ok [keeps_ok]:
  "proj_ok lc E s \<Longrightarrow> r \<in> E \<Longrightarrow> proj_ok lc E (projectSession lc r s)"
  by (auto simp: proj_ok_def projectSession_def Let_def intro!: rows_ok_set traced_add_get)

lemma projectMember_ok [keeps_ok]:
  "proj_ok lc E s \<Longrightarrow> r \<in> E \<Longrightarrow> proj_ok lc E (projectMember lc r s)"
  by (auto simp: proj_ok_def projectMember_def Let_def intro!: rows_ok_set traced_add_get)

lemma fold_keeps:
  assumes "\<And>x s. x \<in> set xs \<Longrightarrow> P s \<Longrightarrow> P (f x s)" "P s"
  shows "P (fold f xs s)"
  using assms by (induction xs arbitrary: s) auto

lemma menu_item_of_ok [keeps_ok]:
  "proj_ok lc E s \<Longrightarrow> r \<in> E \<Longrightarrow> proj_ok lc E (menu_item_of lc r m item s)"
  by (auto simp: menu_item_of_def Let_def intro!: keeps_ok split: option.split)

lemma projectMenuItem_ok [keeps_ok]:
  "proj_ok lc E s \<Longrightarrow> r \<in> E \<Longrightarrow> proj_ok lc E (projectMenuItem lc r s)"
  by (auto simp: projectMenuItem_def Let_def intro!: fold_keeps [where P = "proj_ok lc E"] keeps_ok
      split: option.split)

lemma cart_item_of_ok [keeps_ok]:
  "proj_ok lc E s \<Longrightarrow> r \<in> E \<Longrightarrow> proj_ok lc E (cart_item_of lc r item s)"
  by (auto simp: cart_item_of_def Let_def intro!: keeps_ok split: option.split)

lemma carts_set_ok:
  "proj_ok lc E s \<Longrightarrow> ca_cartId v = k \<Longrightarrow> traced lc E (ca_sourceEventIds v)
   \<Longrightarrow> traced lc E (ca_frontendAttributionEventIds v)
   \<Longrightarrow> proj_ok lc E (s\<lparr>ps_carts := map_set k v (ps_carts s)\<rparr>)"
  by (auto simp: proj_ok_def intro!: rows_ok_set)

lemma carts_traced:
  assumes "proj_ok lc E s"
  shows "r \<in> E \<Longrightarrow> traced lc E (add_id lc (map_option ca_sourceEventIds (map_get (ps_carts s) k)) (re_eventId r))"
    "r \<in> E \<Longrightarrow> traced lc E (add_id lc (map_option ca_frontendAttributionEventIds (map_get (ps_carts s) k)) (re_eventId r))"
    "traced lc E (or_else (map_option ca_frontendAttributionEventIds (map_get (ps_carts s) k)) [])"
proof -
  have rows: "rows_ok ca_cartId (\<lambda>v. traced lc E (ca_sourceEventIds v)
      \<and> traced lc E (ca_frontendAttributionEventIds v)) (ps_carts s)"
    using assms by (simp add: proj_ok_def)
  show "r \<in> E \<Longrightarrow> traced lc E (add_id lc (map_option ca_sourceEventIds (map_get (ps_carts s) k)) (re_eventId r))"
    "r \<in> E \<Longrightarrow> traced lc E (add_id lc (map_option ca_frontendAttributionEventIds (map_get (ps_carts s) k)) (re_eventId r))"
    by (rule traced_add_get [OF rows]; simp)+
  show "traced lc E (or_else (map_option ca_frontendAttributionEventIds (map_get (ps_carts s) k)) [])"
    by (rule traced_get [OF rows]) simp
qed

lemma projectCart_ok [keeps_ok]:
  assumes "proj_ok lc E s" "r \<in> E"
  shows "proj_ok lc E (projectCart lc r s)"
  unfolding projectCart_def Let_def if_split
proof (intro conjI impI, goal_cases)
  case 1
  show ?case by (rule assms(1))
next
  case 2
  show ?case
    by (rule fold_keeps [where P = "proj_ok lc E"])
      (auto intro!: cart_item_of_ok carts_set_ok carts_traced assms)
qed

lemma projectCheckoutAttribution_ok [keeps_ok]:
  assumes "proj_ok lc E s" "r \<in> E" "re_name r = EN_mini_program_checkout_started"
  shows "proj_ok lc E (projectCheckoutAttribution lc r s)"
proof -
  have attr: "proj_ok lc E (t\<lparr>ps_frontendOrderAttribution := map_set k
      (add_id lc (map_get (ps_frontendOrderAttribution t) k) (re_eventId r)) (ps_frontendOrderAttribution t)\<rparr>)"
    if t: "proj_ok lc E t" for t k
  proof -
    let ?ids = "add_id lc (map_get (ps_frontendOrderAttribution t) k) (re_eventId r)"
    have "r \<in> checkout_events E" using assms(2,3) by (simp add: checkout_events_def)
    moreover have "traced lc (checkout_events E) (or_else (map_get (ps_frontendOrderAttribution t) k) [])"
      using t by (cases "map_get (ps_frontendOrderAttribution t) k")
        (auto simp: proj_ok_def dest: map_of_SomeD)
    ultimately have "traced lc (checkout_events E) ?ids" by (intro traced_add_id)
    then show ?thesis
      using t set_map_set_subset [of k ?ids "ps_frontendOrderAttribution t"]
      by (auto simp: proj_ok_def distinct_map_set)
  qed
  have "proj_ok lc E (checkout_cart lc r s)"
    by (auto simp: checkout_cart_def Let_def intro!: carts_set_ok carts_traced assms split: option.split)
  then show ?thesis
    by (auto simp: projectCheckoutAttribution_def Let_def intro: attr split: option.split)
qed

lemma order_row_simps [simp]:
  "or_orderId (order_row lc r k existing) = k"
  "or_sourceEventIds (order_row lc r k existing)
     = add_id lc (map_option or_sourceEventIds existing) (re_eventId r)"
  "or_frontendAttributionEventIds (order_row lc r k existing)
     = or_else (map_option or_frontendAttributionEventIds existing) []"
  by (simp_all add: order_row_def Let_def)

lemma orders_set_ok:
  "proj_ok lc E s \<Longrightarrow> or_orderId v = k \<Longrightarrow> traced lc (sale_events E) (or_sourceEventIds v)
   \<Longrightarrow> traced lc (checkout_events E) (or_frontendAttributionEventIds v)
   \<Longrightarrow> proj_ok lc E (s\<lparr>ps_orders := map_set k v (ps_orders s)\<rparr>)"
  by (auto simp: proj_ok_def intro!: rows_ok_set)

lemma order_row_ok:
  assumes "proj_ok lc E s" "r \<in> sale_events E"
  shows "proj_ok lc E (s\<lparr>ps_orders := map_set k (order_row lc r k (map_get (ps_orders s) k)) (ps_orders s)\<rparr>)"
proof (rule orders_set_ok [OF assms(1)])
  have rows: "rows_ok or_orderId (\<lambda>v. traced lc (sale_events E) (or_sourceEventIds v)
      \<and> traced lc (checkout_events E) (or_frontendAttributionEventIds v)) (ps_orders s)"
    using assms(1) by (simp add: proj_ok_def)
  show "traced lc (sale_events E) (or_sourceEventIds (order_row lc r k (map_get (ps_orders s) k)))"
    unfolding order_row_simps by (rule traced_add_get [OF rows assms(2)]) simp
  show "traced lc (checkout_events E)
      (or_frontendAttributionEventIds (order_row lc r k (map_get (ps_orders s) k)))"
    unfolding order_row_simps by (rule traced_get [OF rows]) simp
qed simp

lemma order_item_of_ok [keeps_ok]:
  "proj_ok lc E s \<Longrightarrow> r \<in> E \<Longrightarrow> re_name r \<in> {EN_pos_order_opened, EN_pos_order_paid}
   \<Longrightarrow> proj_ok lc E (order_item_of r k item s)"
  by (auto simp: proj_ok_def order_item_of_def Let_def item_of_def intro!: rows_ok_set
      split: option.split)

lemma project_payment_ok [keeps_ok]:
  "proj_ok lc E s \<Longrightarrow> r \<in> E \<Longrightarrow> proj_ok lc E (project_payment r k t s)"
  by (auto simp: proj_ok_def project_payment_def Let_def payment_of_def intro!: rows_ok_set
      split: option.split)

lemma project_paying_member_ok [keeps_ok]:
  "proj_ok lc E s \<Longrightarrow> r \<in> E \<Longrightarrow> proj_ok lc E (project_paying_member lc r k s)"
  by (auto simp: proj_ok_def project_paying_member_def Let_def intro!: rows_ok_set traced_add_get)

lemma projectOrder_ok [keeps_ok]:
  assumes "proj_ok lc E s" "r \<in> E" "re_name r \<in> {EN_pos_order_opened, EN_pos_order_paid}"
  shows "proj_ok lc E (projectOrder lc r s)"
proof -
  have "r \<in> sale_events E" using assms(2,3) by (auto simp: sale_events_def)
  then show ?thesis
    using assms unfolding projectOrder_def Let_def
    by (auto intro!: project_paying_member_ok project_payment_ok order_item_of_ok order_row_ok
        fold_keeps [where P = "proj_ok lc E"])
qed

lemma projectRefund_ok [keeps_ok]:
  assumes "proj_ok lc E s" "r \<in> E" "re_name r = EN_pos_refund_recorded"
  shows "proj_ok lc E (projectRefund lc r s)"
proof (cases "getNumber (prop_of r ''amount'') = None \<or> \<not> truthy (getString (prop_of r ''orderId''))
    \<or> \<not> truthy (if re_entityType r = Ent_refund then Some (re_entityId r) else getString (prop_of r ''refundId''))")
  case True
  then show ?thesis using assms(1) by (auto simp: projectRefund_def Let_def split: option.split)
next
  case False
  then obtain amount orderId refundId where args:
    "getNumber (prop_of r ''amount'') = Some amount" "getString (prop_of r ''orderId'') = Some orderId"
    "(if re_entityType r = Ent_refund then Some (re_entityId r) else getString (prop_of r ''refundId''))
       = Some refundId" "orderId \<noteq> []" "refundId \<noteq> []"
    by (auto elim!: truthyE)
  let ?s1 = "s\<lparr>ps_refunds := map_set refundId
      \<lparr>rf_refundId = refundId, rf_orderId = orderId, rf_brandId = re_brandId r, rf_storeId = re_storeId r,
       rf_amount = amount, rf_reason = getString (prop_of r ''reason''),
       rf_refundedAt = re_occurredAt r, rf_sourceEventId = re_eventId r\<rparr> (ps_refunds s)\<rparr>"
  have s1: "proj_ok lc E ?s1"
    using assms args(1,2) by (auto simp: proj_ok_def refund_of_def intro!: rows_ok_set)
  have eq: "projectRefund lc r s = (case map_get (ps_orders ?s1) orderId of None \<Rightarrow> ?s1 | Some existing \<Rightarrow>
      ?s1\<lparr>ps_orders := map_set orderId (existing\<lparr>or_status := Order_refunded,
         or_sourceEventIds := add_id lc (Some (or_sourceEventIds existing)) (re_eventId r)\<rparr>) (ps_orders ?s1)\<rparr>)"
    using args by (simp add: projectRefund_def Let_def)
  show ?thesis
  proof (cases "map_get (ps_orders ?s1) orderId")
    case None
    then show ?thesis using s1 eq by simp
  next
    case (Some existing)
    from s1 have "rows_ok or_orderId (\<lambda>v. traced lc (sale_events E) (or_sourceEventIds v)
        \<and> traced lc (checkout_events E) (or_frontendAttributionEventIds v)) (ps_orders ?s1)"
      unfolding proj_ok_def by blast
    from rows_ok_get [OF this Some] have ex: "or_orderId existing = orderId"
      "traced lc (sale_events E) (or_sourceEventIds existing)"
      "traced lc (checkout_events E) (or_frontendAttributionEventIds existing)" by simp_all
    have "r \<in> sale_events E" using assms(2,3) by (simp add: sale_events_def)
    then have "traced lc (sale_events E) (add_id lc (Some (or_sourceEventIds existing)) (re_eventId r))"
      using ex(2) by (intro traced_add_id) simp_all
    then have "proj_ok lc E (?s1\<lparr>ps_orders := map_set orderId (existing\<lparr>or_status := Order_refunded,
        or_sourceEventIds := add_id lc (Some (or_sourceEventIds existing)) (re_eventId r)\<rparr>) (ps_orders ?s1)\<rparr>)"
      using ex by (intro orders_set_ok [OF s1]) simp_all
    then show ?thesis unfolding eq Some option.case .
  qed
qed

lemma projectMerchantAction_ok [keeps_ok]:
  "proj_ok lc E s \<Longrightarrow> r \<in> E
   \<Longrightarrow> re_name r \<in> {EN_mobile_hq_experiment_review_viewed, EN_mobile_hq_experiment_accepted,
        EN_mobile_hq_experiment_rejected}
   \<Longrightarrow> proj_ok lc E (projectMerchantAction r s)"
  by (auto simp: proj_ok_def projectMerchantAction_def Let_def action_of_def intro!: rows_ok_set)

lemma project_event_ok:
  "proj_ok lc E s \<Longrightarrow> r \<in> E \<Longrightarrow> proj_ok lc E (project_event lc r s)"
  unfolding project_event_def Let_def by (auto intro!: keeps_ok)

lemma project_snapshot_ok: "proj_ok lc E s \<Longrightarrow> proj_ok lc E (project_snapshot snap s)"
  by (auto simp: proj_ok_def project_snapshot_def Let_def intro!: rows_ok_set traced_get)

lemma attribute_order_ok:
  assumes "proj_ok lc E (s\<lparr>ps_orders := m\<rparr>)" "traced lc (checkout_events E) ids"
  shows "proj_ok lc E (s\<lparr>ps_orders := attribute_order lc (k, ids) m\<rparr>)"
proof (cases "map_get m k")
  case None
  then show ?thesis using assms(1) by (simp add: attribute_order_def)
next
  case (Some order)
  have "rows_ok or_orderId (\<lambda>v. traced lc (sale_events E) (or_sourceEventIds v)
      \<and> traced lc (checkout_events E) (or_frontendAttributionEventIds v)) m"
    using assms(1) by (simp add: proj_ok_def)
  from rows_ok_get [OF this Some] have "or_orderId order = k"
    "traced lc (sale_events E) (or_sourceEventIds order)"
    "traced lc (checkout_events E) (or_frontendAttributionEventIds order)" by simp_all
  moreover from this have "traced lc (checkout_events E)
      (uniqueSorted lc (or_frontendAttributionEventIds order @ ids))"
    using assms(2) by (intro traced_uniqueSorted) (auto simp: traced_def)
  ultimately have "proj_ok lc E ((s\<lparr>ps_orders := m\<rparr>)\<lparr>ps_orders := map_set k
      (order\<lparr>or_frontendAttributionEventIds := uniqueSorted lc (or_frontendAttributionEventIds order @ ids)\<rparr>)
      (ps_orders (s\<lparr>ps_orders := m\<rparr>))\<rparr>)"
    by (intro orders_set_ok [OF assms(1)]) simp_all
  then show ?thesis using Some by (simp add: attribute_order_def)
qed

lemma projected_state_ok:
  assumes "set es \<subseteq> E"
  shows "proj_ok lc E (projected_state lc es snaps)"
proof -
  let ?s = "fold (project_event lc) es proj_start"
  have s: "proj_ok lc E ?s"
    using assms by (intro fold_keeps [where P = "proj_ok lc E"]) (auto intro: project_event_ok proj_ok_start)
  have "proj_ok lc E (?s\<lparr>ps_orders := fold (attribute_order lc) (ps_frontendOrderAttribution ?s) (ps_orders ?s)\<rparr>)"
  proof (rule fold_keeps [where P = "\<lambda>m. proj_ok lc E (?s\<lparr>ps_orders := m\<rparr>)"])
    fix x m assume x: "x \<in> set (ps_frontendOrderAttribution ?s)" "proj_ok lc E (?s\<lparr>ps_orders := m\<rparr>)"
    obtain k ids where "x = (k, ids)" by (cases x)
    moreover from this s x(1) have "traced lc (checkout_events E) ids"
      unfolding proj_ok_def by blast
    ultimately show "proj_ok lc E (?s\<lparr>ps_orders := attribute_order lc x m\<rparr>)"
      using attribute_order_ok [OF x(2)] by simp
  qed (use s in simp)
  then show ?thesis
    unfolding projected_state_def Let_def
    by (intro fold_keeps [where P = "proj_ok lc E"]) (auto intro: project_snapshot_ok)
qed

section \<open>Payments and order items belong to orders\<close>

definition sold :: "OrderProjection \<Rightarrow> bool" where
  "sold o' \<longleftrightarrow> or_status o' \<noteq> Order_opened \<and> or_paidAt o' \<noteq> None"

definition sales_ok :: "proj_state \<Rightarrow> bool" where
  "sales_ok s \<longleftrightarrow>
     (\<forall>p \<in> set (map_values (ps_payments s)). \<exists>o'. map_get (ps_orders s) (pm_orderId p) = Some o' \<and> sold o')
     \<and> (\<forall>i \<in> set (map_values (ps_orderItems s)). map_get (ps_orders s) (oi_orderId i) \<noteq> None)"

text \<open>Orders are never dropped, and a sold order stays sold.\<close>

definition orders_grow :: "(string, OrderProjection) jsmap \<Rightarrow> (string, OrderProjection) jsmap \<Rightarrow> bool" where
  "orders_grow m m' \<longleftrightarrow>
     (\<forall>k o'. map_get m k = Some o' \<longrightarrow> (\<exists>p. map_get m' k = Some p \<and> (sold o' \<longrightarrow> sold p)))"

lemma orders_grow_refl [simp]: "orders_grow m m"
  by (auto simp: orders_grow_def)

lemma orders_grow_set:
  "(\<And>o'. map_get m k = Some o' \<Longrightarrow> sold o' \<Longrightarrow> sold p) \<Longrightarrow> orders_grow m (map_set k p m)"
  by (auto simp: orders_grow_def map_get_set)

lemma orders_grow_trans: "orders_grow a b \<Longrightarrow> orders_grow b c \<Longrightarrow> orders_grow a c"
  by (fastforce simp: orders_grow_def)

lemma sales_ok_grow:
  "sales_ok s \<Longrightarrow> orders_grow (ps_orders s) (ps_orders s') \<Longrightarrow> ps_payments s' = ps_payments s
   \<Longrightarrow> ps_orderItems s' = ps_orderItems s \<Longrightarrow> sales_ok s'"
  by (fastforce simp: sales_ok_def orders_grow_def)

text \<open>The functions that leave the three maps alone.\<close>

definition same_sales :: "proj_state \<Rightarrow> proj_state \<Rightarrow> bool" where
  "same_sales s t \<longleftrightarrow> ps_orders t = ps_orders s \<and> ps_payments t = ps_payments s
     \<and> ps_orderItems t = ps_orderItems s"

lemma same_sales_refl [simp]: "same_sales s s"
  by (simp add: same_sales_def)

lemma same_sales_trans: "same_sales a b \<Longrightarrow> same_sales b c \<Longrightarrow> same_sales a c"
  by (simp add: same_sales_def)

named_theorems sales_kept \<open>functions that do not touch orders, payments and order items\<close>

lemma upsert_same [sales_kept]:
  "same_sales s (upsertMenu lc r m n s)" "same_sales s (upsertItem lc r i mo n c s)"
  by (simp_all add: upsertMenu_def upsertItem_def same_sales_def Let_def)

lemma fold_same_sales: "(\<And>x s. same_sales s (f x s)) \<Longrightarrow> same_sales s (fold f xs s)"
  by (induction xs arbitrary: s) (auto intro: same_sales_trans)

lemma menu_item_of_same [sales_kept]: "same_sales s (menu_item_of lc r m item s)"
  by (auto simp: menu_item_of_def Let_def intro: upsert_same same_sales_trans split: option.split)

lemma cart_item_of_same [sales_kept]: "same_sales s (cart_item_of lc r item s)"
  by (auto simp: cart_item_of_def Let_def intro: upsert_same same_sales_trans split: option.split)

lemma project_simple_same [sales_kept]:
  "same_sales s (projectSession lc r s)" "same_sales s (projectMember lc r s)"
  "same_sales s (projectMerchantAction r s)" "same_sales s (project_snapshot snap s)"
  "same_sales s (checkout_cart lc r s)" "same_sales s (project_paying_member lc r k s)"
  by (auto simp: projectSession_def projectMember_def projectMerchantAction_def project_snapshot_def
      checkout_cart_def project_paying_member_def same_sales_def Let_def split: option.split)

lemma projectMenuItem_same [sales_kept]: "same_sales s (projectMenuItem lc r s)"
  unfolding projectMenuItem_def Let_def
  by (auto intro!: fold_same_sales menu_item_of_same split: option.split
      intro: same_sales_trans [OF _ fold_same_sales] same_sales_trans [OF _ upsert_same(2)] upsert_same menu_item_of_same)

lemma projectCart_same [sales_kept]: "same_sales s (projectCart lc r s)"
proof -
  have "same_sales s (s\<lparr>ps_carts := m\<rparr>)" for m by (simp add: same_sales_def)
  then show ?thesis
    unfolding projectCart_def Let_def
    by (auto intro!: same_sales_trans [OF _ fold_same_sales] cart_item_of_same)
qed

lemma projectCheckoutAttribution_same [sales_kept]: "same_sales s (projectCheckoutAttribution lc r s)"
  using project_simple_same(5) [of s lc r]
  by (auto simp: projectCheckoutAttribution_def same_sales_def Let_def split: option.split)

lemma same_sales_ok: "same_sales s t \<Longrightarrow> sales_ok s \<Longrightarrow> sales_ok t"
  by (rule sales_ok_grow) (simp_all add: same_sales_def)

text \<open>The order functions.\<close>

lemma values_map_set: "v \<in> snd ` set (map_set k x m) \<Longrightarrow> v = x \<or> v \<in> snd ` set m"
  using set_map_set_subset [of k x m] by auto

lemma order_item_of_sales:
  assumes "sales_ok s" "map_get (ps_orders s) k \<noteq> None"
  shows "sales_ok (order_item_of r k item s) \<and> ps_orders (order_item_of r k item s) = ps_orders s"
proof (cases "getString (get_prop item ''itemId'')")
  case (Some itemId)
  have "oi_orderId i = k \<or> i \<in> set (map_values (ps_orderItems s))"
    if "i \<in> set (map_values (ps_orderItems (order_item_of r k item s)))" for i
    using that Some values_map_set [of i] by (fastforce simp: order_item_of_def Let_def)
  then show ?thesis
    using assms Some by (fastforce simp: sales_ok_def order_item_of_def Let_def)
qed (use assms in \<open>simp add: order_item_of_def\<close>)

lemma project_payment_sales:
  assumes "sales_ok s" "re_name r = EN_pos_order_paid \<Longrightarrow> \<exists>o'. map_get (ps_orders s) k = Some o' \<and> sold o'"
  shows "sales_ok (project_payment r k amt s)"
proof (cases "amt = None \<or> re_name r \<noteq> EN_pos_order_paid")
  case False
  then obtain amount where t: "amt = Some amount" "re_name r = EN_pos_order_paid" by auto
  have "pm_orderId p = k \<or> p \<in> set (map_values (ps_payments s))"
    if "p \<in> set (map_values (ps_payments (project_payment r k amt s)))" for p
    using that t values_map_set [of p] by (fastforce simp: project_payment_def Let_def)
  then show ?thesis
    using assms t by (fastforce simp: sales_ok_def project_payment_def Let_def)
qed (use assms in \<open>auto simp: project_payment_def split: option.split\<close>)

lemma projectOrder_sales:
  assumes "sales_ok s"
  shows "sales_ok (projectOrder lc r s)"
proof -
  let ?oid = "if re_entityType r = Ent_order then Some (re_entityId r) else getString (prop_of r ''orderId'')"
  show ?thesis
  proof (cases "truthy ?oid")
    case False
    then show ?thesis using assms by (simp add: projectOrder_def Let_def)
  next
    case True
    define k where "k = or_else ?oid []"
    define row where "row = order_row lc r k (map_get (ps_orders s) k)"
    define s1 where "s1 = s\<lparr>ps_orders := map_set k row (ps_orders s)\<rparr>"
    define s2 where "s2 = fold (order_item_of r k) (getItems r) s1"
    have "sold row" if "map_get (ps_orders s) k = Some o'" "sold o'" for o'
      using that by (simp add: row_def order_row_def Let_def sold_def)
    then have 1: "sales_ok s1"
      unfolding s1_def by (intro sales_ok_grow [OF assms]) (simp_all add: orders_grow_set)
    have "sales_ok s2 \<and> ps_orders s2 = ps_orders s1"
      unfolding s2_def
      by (rule fold_keeps [where P = "\<lambda>t. sales_ok t \<and> ps_orders t = ps_orders s1"])
        (use order_item_of_sales 1 in \<open>auto simp: s1_def\<close>)
    moreover have "sold row" if "re_name r = EN_pos_order_paid"
      using that by (simp add: row_def order_row_def Let_def sold_def)
    ultimately have "sales_ok (project_payment r k (or_totalAmount row) s2)"
      by (intro project_payment_sales) (auto simp: s1_def)
    moreover have "projectOrder lc r s
        = project_paying_member lc r k (project_payment r k (or_totalAmount row) s2)"
      using True by (simp only: projectOrder_def Let_def k_def row_def s1_def s2_def if_True not_True_eq_False if_False)
    ultimately show ?thesis using same_sales_ok [OF project_simple_same(6)] by simp
  qed
qed

lemma projectRefund_sales:
  assumes "sales_ok s"
  shows "sales_ok (projectRefund lc r s)"
proof (rule sales_ok_grow [OF assms])
  show "orders_grow (ps_orders s) (ps_orders (projectRefund lc r s))"
    by (auto simp: projectRefund_def Let_def sold_def intro!: orders_grow_set split: option.split)
qed (auto simp: projectRefund_def Let_def split: option.split)

lemma project_event_sales: "sales_ok s \<Longrightarrow> sales_ok (project_event lc r s)"
  unfolding project_event_def Let_def
  by (auto intro!: projectRefund_sales projectOrder_sales
      intro: same_sales_ok [OF projectMenuItem_same] same_sales_ok [OF project_simple_same(1)]
        same_sales_ok [OF project_simple_same(2)] same_sales_ok [OF project_simple_same(3)]
        same_sales_ok [OF projectCart_same] same_sales_ok [OF projectCheckoutAttribution_same])

lemma attribute_order_grow: "orders_grow m (attribute_order lc a m)"
  by (auto simp: attribute_order_def sold_def intro!: orders_grow_set split: prod.split option.split)

lemma fold_attribute_grow: "orders_grow m (fold (attribute_order lc) as m)"
  by (induction as arbitrary: m) (auto intro: orders_grow_trans [OF attribute_order_grow])

lemma projected_state_sales: "sales_ok (projected_state lc es snaps)"
proof -
  have "sales_ok (fold (project_event lc) es proj_start)"
  proof (rule fold_keeps [where P = sales_ok])
    show "sales_ok proj_start" by (simp add: sales_ok_def proj_start_def)
  qed (rule project_event_sales)
  then show ?thesis
    unfolding projected_state_def Let_def
    by (intro fold_keeps [where P = sales_ok] same_sales_ok [OF project_simple_same(4)])
      (auto elim!: sales_ok_grow intro: fold_attribute_grow)
qed

section \<open>Order independence\<close>

text \<open>
  The rebuild sorts its inputs, so it does not depend on the order in which they are read, as long
  as the comparison tells their sort keys apart.
\<close>

definition distinguishable_inputs ::
  "string comparator \<Rightarrow> RawEventRecord list \<Rightarrow> DatameshMemberLabelsRow list \<Rightarrow> bool" where
  "distinguishable_inputs lc events rows \<longleftrightarrow>
     inj_on event_sort_key (set events) \<and> tells_apart lc (event_sort_key ` set events)
     \<and> inj_on snapshot_sort_key (toMemberRfmSnapshotInput ` set rows)
     \<and> tells_apart lc (snapshot_sort_key ` toMemberRfmSnapshotInput ` set rows)"

lemma rebuild_order_independent:
  assumes "distinguishable_inputs lc (in_rawEvents a) (or_else (in_rfmRows a) [])"
    "mset (in_rawEvents a) = mset (in_rawEvents b)"
    "mset (or_else (in_rfmRows a) []) = mset (or_else (in_rfmRows b) [])"
    "in_rebuiltAt a = in_rebuiltAt b"
  shows "rebuildBusinessProjections lc a = rebuildBusinessProjections lc b"
proof -
  have "sort_on lc event_sort_key (in_rawEvents a) = sort_on lc event_sort_key (in_rawEvents b)"
    using assms(1,2) by (intro sort_on_cong) (simp_all add: distinguishable_inputs_def)
  moreover have "sorted_snapshots lc (or_else (in_rfmRows a) []) = sorted_snapshots lc (or_else (in_rfmRows b) [])"
    unfolding sorted_snapshots_def
    using assms(1,3) by (intro sort_on_cong) (simp_all add: distinguishable_inputs_def)
  moreover have "length (or_else (in_rfmRows a) []) = length (or_else (in_rfmRows b) [])"
    using assms(3) by (metis size_mset)
  ultimately show ?thesis
    using assms(4) by (simp only: rebuildBusinessProjections_def Let_def)
qed

section \<open>Sessions are groups of events\<close>

text \<open>
  What a session row should be, stated over the whole list of its events rather than step by step:
  first value wins for the tenant fields, the least and the greatest timestamp, all the ids.
\<close>

fun first_some :: "'a option list \<Rightarrow> 'a option" where
  "first_some [] = None"
| "first_some (x # xs) = nullish x (first_some xs)"

definition session_spec :: "string comparator \<Rightarrow> string \<Rightarrow> RawEventRecord list \<Rightarrow> SessionProjection option" where
  "session_spec lc sid es =
     (let g = filter (\<lambda>r. re_sessionId r = Some sid) es
      in if g = [] then None
         else Some \<lparr>se_sessionId = sid,
           se_brandId = first_some (map re_brandId g), se_storeId = first_some (map re_storeId g),
           se_memberId = first_some (map re_memberId g),
           se_firstEventAt = Min (re_occurredAt ` set g), se_lastEventAt = Max (re_occurredAt ` set g),
           se_sourceEventIds = uniqueSorted lc (map re_eventId g)\<rparr>)"

lemma first_some_snoc: "first_some (xs @ [x]) = nullish (first_some xs) x"
  by (induction xs) (simp_all add: nullish_assoc)

lemma ps_sessions_project_event: "ps_sessions (project_event lc r s) = ps_sessions (projectSession lc r s)"
proof -
  have up: "ps_sessions (upsertMenu lc r m n t) = ps_sessions t"
    "ps_sessions (upsertItem lc r i mo n c t) = ps_sessions t" for m mo n i c t
    by (simp_all add: upsertMenu_def upsertItem_def Let_def)
  have fold_sess: "ps_sessions (fold f xs t) = ps_sessions t"
    if "\<And>x u. ps_sessions (f x u) = ps_sessions u" for f :: "'a \<Rightarrow> proj_state \<Rightarrow> proj_state" and xs t
    using that by (induction xs arbitrary: t) auto
  have "ps_sessions (menu_item_of lc r m item t) = ps_sessions t" for m item t
    by (simp add: menu_item_of_def Let_def up split: option.split)
  then have menu: "ps_sessions (projectMenuItem lc r t) = ps_sessions t" for t
    by (simp add: projectMenuItem_def Let_def up fold_sess split: option.split)
  have "ps_sessions (cart_item_of lc r item t) = ps_sessions t" for item t
    by (simp add: cart_item_of_def Let_def up split: option.split)
  then have cart: "ps_sessions (projectCart lc r t) = ps_sessions t" for t
    by (simp add: projectCart_def Let_def fold_sess)
  have "ps_sessions (order_item_of r k item t) = ps_sessions t" for k item t
    by (simp add: order_item_of_def Let_def split: option.split)
  then have order: "ps_sessions (projectOrder lc r t) = ps_sessions t" for t
    by (simp add: projectOrder_def project_paying_member_def project_payment_def Let_def fold_sess
        split: option.split)
  have rest: "ps_sessions (projectMember lc r t) = ps_sessions t"
    "ps_sessions (projectCheckoutAttribution lc r t) = ps_sessions t"
    "ps_sessions (projectRefund lc r t) = ps_sessions t"
    "ps_sessions (projectMerchantAction r t) = ps_sessions t" for t
    by (simp_all add: projectMember_def projectCheckoutAttribution_def checkout_cart_def projectRefund_def
        projectMerchantAction_def Let_def split: option.split)
  show ?thesis
    unfolding project_event_def Let_def by (simp add: menu cart order rest)
qed

lemma ps_sessions_rest:
  "ps_sessions (projected_state lc es snaps) = ps_sessions (fold (project_event lc) es proj_start)"
proof -
  have "ps_sessions (fold project_snapshot snaps t) = ps_sessions t" for t
    by (induction snaps arbitrary: t) (simp_all add: project_snapshot_def Let_def)
  then show ?thesis by (simp add: projected_state_def Let_def)
qed

lemma uniqueSorted_snoc:
  "tells_apart lc (set xs \<union> {x}) \<Longrightarrow> uniqueSorted lc (uniqueSorted lc xs @ [x]) = uniqueSorted lc (xs @ [x])"
  by (rule uniqueSorted_cong) auto

lemma minDate_Min:
  assumes "finite S" "S \<noteq> {}" "\<forall>s \<in> S. s \<noteq> []"
  shows "minDate (Some (Min S)) x = Min (insert x S)" "maxDate (Some (Max S)) x = Max (insert x S)"
proof -
  have "Min S \<noteq> []" "Max S \<noteq> []" using assms Min_in Max_in by metis+
  then show "minDate (Some (Min S)) x = Min (insert x S)" "maxDate (Some (Max S)) x = Max (insert x S)"
    unfolding Min_insert [OF assms(1,2)] Max_insert [OF assms(1,2)]
    by (auto simp: minDate_def maxDate_def min_def max_def dest: less_imp_le)
qed

lemma sessions_are_groups:
  assumes "\<forall>r \<in> set es. re_occurredAt r \<noteq> [] \<and> re_sessionId r \<noteq> Some []"
    "tells_apart lc (re_eventId ` set es)"
  shows "map_get (ps_sessions (fold (project_event lc) es proj_start)) sid = session_spec lc sid es"
  using assms
proof (induction es rule: rev_induct)
  case Nil
  then show ?case by (simp add: proj_start_def session_spec_def Let_def)
next
  case (snoc r es)
  let ?s = "fold (project_event lc) es proj_start"
  have IH: "map_get (ps_sessions ?s) sid = session_spec lc sid es"
    using snoc by (auto intro: tells_apart_subset)
  show ?case
  proof (cases "re_sessionId r = Some sid")
    case False
    have "map_get (ps_sessions (projectSession lc r ?s)) sid = map_get (ps_sessions ?s) sid"
      using False by (cases "re_sessionId r") (auto simp: projectSession_def Let_def)
    with False IH show ?thesis
      by (simp add: ps_sessions_project_event session_spec_def Let_def)
  next
    case True
    with snoc.prems(1) have sid: "sid \<noteq> []" by auto
    let ?g = "filter (\<lambda>r. re_sessionId r = Some sid) es"
    have ids: "uniqueSorted lc (uniqueSorted lc (map re_eventId ?g) @ [re_eventId r])
        = uniqueSorted lc (map re_eventId ?g @ [re_eventId r])"
      using snoc.prems(2) by (intro uniqueSorted_snoc tells_apart_subset [OF snoc.prems(2)]) auto
    have run: "map_get (ps_sessions (projectSession lc r ?s)) sid = Some
        \<lparr>se_sessionId = sid,
         se_brandId = nullish (Option.bind (session_spec lc sid es) se_brandId) (re_brandId r),
         se_storeId = nullish (Option.bind (session_spec lc sid es) se_storeId) (re_storeId r),
         se_memberId = nullish (Option.bind (session_spec lc sid es) se_memberId) (re_memberId r),
         se_firstEventAt = minDate (map_option se_firstEventAt (session_spec lc sid es)) (re_occurredAt r),
         se_lastEventAt = maxDate (map_option se_lastEventAt (session_spec lc sid es)) (re_occurredAt r),
         se_sourceEventIds = add_id lc (map_option se_sourceEventIds (session_spec lc sid es)) (re_eventId r)\<rparr>"
      using True sid IH by (simp add: projectSession_def Let_def)
    show ?thesis
    proof (cases "?g = []")
      case True
      with run \<open>re_sessionId r = Some sid\<close> show ?thesis
        by (simp add: ps_sessions_project_event session_spec_def Let_def minDate_def maxDate_def add_id_def)
    next
      case False
      have "\<forall>x \<in> re_occurredAt ` set ?g. x \<noteq> []" using snoc.prems(1) by auto
      moreover have "finite (re_occurredAt ` set ?g)" by simp
      moreover have "re_occurredAt ` set ?g \<noteq> {}" using False by (metis image_is_empty set_empty)
      ultimately have dates: "minDate (Some (Min (re_occurredAt ` set ?g))) (re_occurredAt r)
          = Min (insert (re_occurredAt r) (re_occurredAt ` set ?g))"
        "maxDate (Some (Max (re_occurredAt ` set ?g))) (re_occurredAt r)
          = Max (insert (re_occurredAt r) (re_occurredAt ` set ?g))"
        using minDate_Min by blast+
      have g: "filter (\<lambda>r. re_sessionId r = Some sid) (es @ [r]) = ?g @ [r]"
        using \<open>re_sessionId r = Some sid\<close> by simp
      show ?thesis
        unfolding fold_append fold_simps comp_def ps_sessions_project_event run
        unfolding session_spec_def Let_def g
        using False ids by (simp only: dates add_id_def first_some_snoc map_append list.map set_append
            set_simps image_Un image_insert image_empty Un_insert_right Un_empty_right option.map
            Option.bind.bind_lunit or_else.simps if_False append_is_Nil_conv SessionProjection.simps simp_thms
            list.distinct)
    qed
  qed
qed

end
