(* ===== verification/ProjectionProperties.thy ===== *)
theory ProjectionProperties
  imports ProjectionInvariants Samples
begin

text \<open>
  What the rebuilt projections guarantee to their readers: they are a function of the set of events,
  every table is keyed and sorted, every row names the events it comes from, and payments, order
  items and orders agree.
\<close>

section \<open>A sample history\<close>

definition sample_sale :: "string \<Rightarrow> string \<Rightarrow> EventName \<Rightarrow> (string \<times> json) list \<Rightarrow> RawEventRecord" where
  "sample_sale eventId occurredAt nm props = rawEventRecord ''t0'' None
     (sample_event\<lparr>ev_name := nm, ev_occurredAt := occurredAt, ev_properties := props,
        ev_correlation := (ev_correlation sample_event)\<lparr>cor_eventId := eventId, cor_sessionId := Some ''s''\<rparr>\<rparr>)"

definition sample_sales :: "RawEventRecord list" where
  "sample_sales =
     [sample_sale ''e3'' ''2026-01-01T12:00:00Z'' EN_pos_refund_recorded
        [(''orderId'', JStr ''o1''), (''refundId'', JStr ''r1''), (''amount'', JNum (Finite 10))],
      sample_sale ''e1'' ''2026-01-01T10:00:00Z'' EN_mini_program_checkout_started
        [(''orderId'', JStr ''o1''), (''cartId'', JStr ''k1'')],
      sample_sale ''e2'' ''2026-01-01T11:00:00Z'' EN_pos_order_paid
        [(''totalAmount'', JNum (Finite 10)), (''items'', JArr [JObj [(''itemId'', JStr ''latte'')]])]]"

definition sample_rebuild :: BusinessProjections where
  "sample_rebuild = rebuildBusinessProjections default
     \<lparr>in_rawEvents = sample_sales, in_rfmRows = None, in_rebuiltAt = None\<rparr>"

text \<open>Evaluated: one order, paid and then refunded, credited to the checkout that led to it.\<close>

lemma sample_rebuild_value:
  "map or_orderId (bp_orders sample_rebuild) = [''o1'']"
  "map or_status (bp_orders sample_rebuild) = [Order_refunded]"
  "map or_frontendAttributionEventIds (bp_orders sample_rebuild) = [[''e1'']]"
  "map or_sourceEventIds (bp_orders sample_rebuild) = [[''e2'', ''e3'']]"
  "map pm_orderId (bp_payments sample_rebuild) = [''o1'']"
  "map rf_refundId (bp_refunds sample_rebuild) = [''r1'']"
  by code_simp+

section \<open>Rebuilding\<close>

lemma distinct_sort_on: "distinct (map f (sort_on lc g xs)) = distinct (map f xs)"
  by (metis mset_eq_imp_distinct_iff mset_map mset_sort)



text \<open>In every table of the projections the ids of the rows are distinct and the rows are in the
order of their ids; the run counts what was read.\<close>

theorem rebuild_tables_keyed:
  assumes "bp = rebuildBusinessProjections lc inp"
  shows "distinct (map se_sessionId (bp_sessions bp)) \<and> js_sorted lc se_sessionId (bp_sessions bp)
    \<and> distinct (map ca_cartId (bp_carts bp)) \<and> js_sorted lc ca_cartId (bp_carts bp)
    \<and> distinct (map or_orderId (bp_orders bp)) \<and> js_sorted lc or_orderId (bp_orders bp)
    \<and> distinct (map oi_orderItemId (bp_orderItems bp)) \<and> js_sorted lc oi_orderItemId (bp_orderItems bp)
    \<and> distinct (map pm_paymentId (bp_payments bp)) \<and> js_sorted lc pm_paymentId (bp_payments bp)
    \<and> distinct (map rf_refundId (bp_refunds bp)) \<and> js_sorted lc rf_refundId (bp_refunds bp)
    \<and> distinct (map it_itemId (bp_items bp)) \<and> js_sorted lc it_itemId (bp_items bp)
    \<and> distinct (map mn_menuId (bp_menus bp)) \<and> js_sorted lc mn_menuId (bp_menus bp)
    \<and> distinct (map mb_memberId (bp_members bp)) \<and> js_sorted lc mb_memberId (bp_members bp)
    \<and> distinct (map mp_memberId (bp_memberProfiles bp)) \<and> js_sorted lc mp_memberId (bp_memberProfiles bp)
    \<and> distinct (map ac_actionId (bp_merchantActions bp)) \<and> js_sorted lc ac_actionId (bp_merchantActions bp)
    \<and> run_sourceEventCount (bp_run bp) = length (in_rawEvents inp)
    \<and> run_sourceRfmRowCount (bp_run bp) = length (or_else (in_rfmRows inp) [])"
proof -
  let ?es = "sort_on lc event_sort_key (in_rawEvents inp)"
  let ?s = "projected_state lc ?es (sorted_snapshots lc (or_else (in_rfmRows inp) []))"
  have "proj_ok lc (set ?es) ?s" by (rule projected_state_ok) simp
  then have "distinct (map se_sessionId (map_values (ps_sessions ?s)))"
    "distinct (map ca_cartId (map_values (ps_carts ?s)))" "distinct (map or_orderId (map_values (ps_orders ?s)))"
    "distinct (map oi_orderItemId (map_values (ps_orderItems ?s)))"
    "distinct (map pm_paymentId (map_values (ps_payments ?s)))" "distinct (map rf_refundId (map_values (ps_refunds ?s)))"
    "distinct (map it_itemId (map_values (ps_items ?s)))" "distinct (map mn_menuId (map_values (ps_menus ?s)))"
    "distinct (map mb_memberId (map_values (ps_members ?s)))"
    "distinct (map mp_memberId (map_values (ps_memberProfiles ?s)))"
    "distinct (map ac_actionId (map_values (ps_merchantActions ?s)))"
    unfolding proj_ok_def by - (elim conjE, rule rows_ok_distinct, assumption)+
  moreover have "length (sort_on lc event_sort_key (in_rawEvents inp)) = length (in_rawEvents inp)"
    by (metis mset_sort size_mset)
  ultimately show ?thesis
    by (simp only: assms rebuildBusinessProjections_def Let_def BusinessProjections.simps ProjectionRun.simps
        distinct_sort_on sorted_sort simp_thms)
qed

theorem rebuild_tables_keyed_witness:
  "distinct (map or_orderId (bp_orders sample_rebuild)) \<and> bp_orders sample_rebuild \<noteq> []
   \<and> run_sourceEventCount (bp_run sample_rebuild) = 3"
proof -
  have "bp_orders sample_rebuild \<noteq> []" using sample_rebuild_value(1) by auto
  with rebuild_tables_keyed [OF sample_rebuild_def] show ?thesis
    by (simp add: sample_sales_def)
qed

lemma rebuild_rows:
  assumes "bp = rebuildBusinessProjections lc inp"
  obtains s where "proj_ok lc (set (in_rawEvents inp)) s" "sales_ok s"
    "set (bp_sessions bp) = set (map_values (ps_sessions s))"
    "set (bp_orders bp) = set (map_values (ps_orders s))"
    "set (bp_orderItems bp) = set (map_values (ps_orderItems s))"
    "set (bp_payments bp) = set (map_values (ps_payments s))"
    "set (bp_refunds bp) = set (map_values (ps_refunds s))"
    "set (bp_merchantActions bp) = set (map_values (ps_merchantActions s))"
proof -
  let ?es = "sort_on lc event_sort_key (in_rawEvents inp)"
  let ?s = "projected_state lc ?es (sorted_snapshots lc (or_else (in_rfmRows inp) []))"
  have "proj_ok lc (set (in_rawEvents inp)) ?s" by (rule projected_state_ok) simp
  then show thesis
    by (rule that [OF _ projected_state_sales]) (simp_all add: assms rebuildBusinessProjections_def Let_def)
qed

text \<open>Orders, order items, payments and refunds are made by \<open>pos.\<close> events only: the ids an
order names are those of sale events and, for its attribution, of checkouts; a payment is a
\<open>pos.order_paid\<close> event with its time, brand and store; a refund is a \<open>pos.refund_recorded\<close>
event with its amount and its order; a merchant action is the event of its kind.\<close>

theorem rebuild_provenance:
  assumes "bp = rebuildBusinessProjections lc inp"
  shows "(\<forall>ord \<in> set (bp_orders bp).
        set (or_sourceEventIds ord) \<subseteq> re_eventId ` sale_events (set (in_rawEvents inp))
        \<and> set (or_frontendAttributionEventIds ord) \<subseteq> re_eventId ` checkout_events (set (in_rawEvents inp)))
    \<and> (\<forall>i \<in> set (bp_orderItems bp). item_of (set (in_rawEvents inp)) i)
    \<and> (\<forall>p \<in> set (bp_payments bp). payment_of (set (in_rawEvents inp)) p)
    \<and> (\<forall>f \<in> set (bp_refunds bp). refund_of (set (in_rawEvents inp)) f)
    \<and> (\<forall>a \<in> set (bp_merchantActions bp). action_of (set (in_rawEvents inp)) a)"
proof -
  obtain s where s: "proj_ok lc (set (in_rawEvents inp)) s"
    "set (bp_orders bp) = set (map_values (ps_orders s))"
    "set (bp_orderItems bp) = set (map_values (ps_orderItems s))"
    "set (bp_payments bp) = set (map_values (ps_payments s))"
    "set (bp_refunds bp) = set (map_values (ps_refunds s))"
    "set (bp_merchantActions bp) = set (map_values (ps_merchantActions s))"
    by (rule rebuild_rows [OF assms])
  let ?E = "set (in_rawEvents inp)"
  from s(1) have ok: "rows_ok or_orderId (\<lambda>v. traced lc (sale_events ?E) (or_sourceEventIds v)
        \<and> traced lc (checkout_events ?E) (or_frontendAttributionEventIds v)) (ps_orders s)"
    "rows_ok oi_orderItemId (item_of ?E) (ps_orderItems s)" "rows_ok pm_paymentId (payment_of ?E) (ps_payments s)"
    "rows_ok rf_refundId (refund_of ?E) (ps_refunds s)" "rows_ok ac_actionId (action_of ?E) (ps_merchantActions s)"
    unfolding proj_ok_def by simp_all
  have "set (or_sourceEventIds ord) \<subseteq> re_eventId ` sale_events ?E
      \<and> set (or_frontendAttributionEventIds ord) \<subseteq> re_eventId ` checkout_events ?E"
    if "ord \<in> set (map_values (ps_orders s))" for ord
    using rows_ok_values [OF ok(1) that] by (simp only: traced_def simp_thms)
  then show ?thesis
    unfolding s(2-6) using rows_ok_values [OF ok(2)] rows_ok_values [OF ok(3)] rows_ok_values [OF ok(4)]
      rows_ok_values [OF ok(5)] by simp
qed

theorem rebuild_provenance_witness:
  "\<exists>p \<in> set (bp_payments sample_rebuild). payment_of (set sample_sales) p"
  using rebuild_provenance [OF sample_rebuild_def] sample_rebuild_value(5)
  by (cases "bp_payments sample_rebuild") simp_all

text \<open>C29. The tables agree with each other: the order a payment names is in the orders table and has
a payment time and a status other than opened; the order an order item names is in the orders
table.\<close>

theorem rebuild_referential_integrity:
  assumes "bp = rebuildBusinessProjections lc inp"
  shows "(\<forall>p \<in> set (bp_payments bp). \<exists>ord \<in> set (bp_orders bp).
        or_orderId ord = pm_orderId p \<and> or_status ord \<noteq> Order_opened \<and> or_paidAt ord \<noteq> None)
    \<and> (\<forall>i \<in> set (bp_orderItems bp). \<exists>ord \<in> set (bp_orders bp). or_orderId ord = oi_orderId i)"
proof -
  obtain s where s: "proj_ok lc (set (in_rawEvents inp)) s" "sales_ok s"
    "set (bp_orders bp) = set (map_values (ps_orders s))"
    "set (bp_orderItems bp) = set (map_values (ps_orderItems s))"
    "set (bp_payments bp) = set (map_values (ps_payments s))"
    by (rule rebuild_rows [OF assms])
  let ?E = "set (in_rawEvents inp)"
  from s(1) have ok: "rows_ok or_orderId (\<lambda>v. traced lc (sale_events ?E) (or_sourceEventIds v)
        \<and> traced lc (checkout_events ?E) (or_frontendAttributionEventIds v)) (ps_orders s)"
    unfolding proj_ok_def by blast
  then have keys: "distinct (map_keys (ps_orders s))" by (simp add: rows_ok_def)
  have found: "ord \<in> set (bp_orders bp) \<and> or_orderId ord = k" if "map_get (ps_orders s) k = Some ord" for k ord
    using rows_ok_get [OF ok that] map_values_get [OF keys, of ord] that unfolding s(3) by blast
  have "\<exists>ord \<in> set (bp_orders bp). or_orderId ord = pm_orderId p \<and> or_status ord \<noteq> Order_opened \<and> or_paidAt ord \<noteq> None"
    if "p \<in> set (bp_payments bp)" for p
    using s(2) that found unfolding s(5) sales_ok_def sold_def by blast
  moreover have "\<exists>ord \<in> set (bp_orders bp). or_orderId ord = oi_orderId i" if i: "i \<in> set (bp_orderItems bp)" for i
  proof -
    obtain ord where "map_get (ps_orders s) (oi_orderId i) = Some ord"
      using s(2) i unfolding s(4) sales_ok_def by blast
    from found [OF this] show ?thesis by blast
  qed
  ultimately show ?thesis by blast
qed

theorem rebuild_referential_integrity_witness:
  "\<exists>p \<in> set (bp_payments sample_rebuild). \<exists>ord \<in> set (bp_orders sample_rebuild).
     or_orderId ord = pm_orderId p \<and> or_paidAt ord \<noteq> None"
  using rebuild_referential_integrity [OF sample_rebuild_def] sample_rebuild_value(5)
  by (cases "bp_payments sample_rebuild") auto

text \<open>A session row is the group of its events: the first brand, store and member among them, the
least and the greatest of their timestamps, all their ids; and no other session exists.\<close>

theorem sessions_are_event_groups:
  assumes "\<forall>r \<in> set (in_rawEvents inp). re_occurredAt r \<noteq> [] \<and> re_sessionId r \<noteq> Some []"
    "tells_apart lc (re_eventId ` set (in_rawEvents inp))"
  shows "row \<in> set (bp_sessions (rebuildBusinessProjections lc inp))
    \<longleftrightarrow> session_spec lc (se_sessionId row) (sort_on lc event_sort_key (in_rawEvents inp)) = Some row"
proof -
  let ?es = "sort_on lc event_sort_key (in_rawEvents inp)"
  let ?s = "projected_state lc ?es (sorted_snapshots lc (or_else (in_rfmRows inp) []))"
  have get: "map_get (ps_sessions ?s) sid = session_spec lc sid ?es" for sid
    unfolding ps_sessions_rest using assms by (intro sessions_are_groups) simp_all
  have "proj_ok lc (set ?es) ?s" by (rule projected_state_ok) simp
  then have ok: "rows_ok se_sessionId (\<lambda>v. traced lc (set ?es) (se_sourceEventIds v)) (ps_sessions ?s)"
    unfolding proj_ok_def by blast
  have "row \<in> set (map_values (ps_sessions ?s)) \<longleftrightarrow> map_get (ps_sessions ?s) (se_sessionId row) = Some row"
    using ok rows_ok_get [OF ok] map_values_get [of "ps_sessions ?s" row] unfolding rows_ok_def by blast
  then show ?thesis unfolding get by (simp add: rebuildBusinessProjections_def Let_def)
qed

theorem sessions_are_event_groups_witness:
  "\<exists>row \<in> set (bp_sessions sample_rebuild). se_sessionId row = ''s''
     \<and> se_firstEventAt row = ''2026-01-01T10:00:00Z'' \<and> se_lastEventAt row = ''2026-01-01T12:00:00Z''"
proof -
  let ?inp = "\<lparr>in_rawEvents = sample_sales, in_rfmRows = None, in_rebuiltAt = None\<rparr>"
  have "map_option (\<lambda>r. (se_sessionId r, se_firstEventAt r, se_lastEventAt r))
      (session_spec default ''s'' (sort_on default event_sort_key sample_sales))
      = Some (''s'', ''2026-01-01T10:00:00Z'', ''2026-01-01T12:00:00Z'')"
    by code_simp
  then obtain row where row: "session_spec default (se_sessionId row) (sort_on default event_sort_key sample_sales) = Some row"
    "se_sessionId row = ''s''" "se_firstEventAt row = ''2026-01-01T10:00:00Z''"
    "se_lastEventAt row = ''2026-01-01T12:00:00Z''" by auto
  have "\<forall>r \<in> set (in_rawEvents ?inp). re_occurredAt r \<noteq> [] \<and> re_sessionId r \<noteq> Some []"
    by (simp add: sample_sales_def sample_sale_def rawEventRecord_def re_sessionId_def)
  from sessions_are_event_groups [OF this, of default row] row show ?thesis
    by (auto simp: sample_rebuild_def)
qed

definition merchant_sale :: "string \<Rightarrow> string \<Rightarrow> RawEventRecord" where
  "merchant_sale merchant eventId =
     (let e = pos_event (sample_fixture\<lparr>fx_merchantId := merchant, fx_storeId := merchant\<rparr>)
      in rawEventRecord ''t0'' None (e\<lparr>ev_correlation := (ev_correlation e)\<lparr>cor_eventId := eventId\<rparr>\<rparr>))"

text \<open>Orders are keyed by their bare id: the paid orders of two merchants that use the same order
id, in different stores, become one row, with the ids of both events and the tenant of the first.\<close>

theorem orders_of_two_merchants_merge:
  "map (\<lambda>ord. (or_orderId ord, or_storeId ord, or_sourceEventIds ord))
     (bp_orders (rebuildBusinessProjections default
        \<lparr>in_rawEvents = [merchant_sale ''m1'' ''e1'', merchant_sale ''m2'' ''e2''], in_rfmRows = None,
         in_rebuiltAt = None\<rparr>))
   = [(''o1'', Some ''m1'', [''e1'', ''e2''])]"
  by code_simp

end
