(* ===== verification/Snapshots.thy ===== *)
theory Snapshots
  imports Projections JsText
begin

text \<open>
  The snapshots of one store, \<open>src/src/snapshots/independent-cafe-snapshots.ts\<close>: its profile, its
  four metrics, its segment candidate and the merchant's confirmations, all read off the business
  projections. Metric numbers are exact rationals (the rounding of doubles is not modelled); amounts
  are read with \<open>finite_value\<close>, and \<open>rebuilt_amounts_finite\<close> in \<open>CafeLemmas\<close> says that every
  amount of rebuilt projections is finite. Fields of literal type have one value and are left out.
\<close>

section \<open>Metrics\<close>

datatype SnapshotMetricId =
  Metric_repurchase_90d_rate | Metric_avg_order_value | Metric_refund_rate | Metric_checkout_started_cart_rate

fun metric_text :: "SnapshotMetricId \<Rightarrow> string" where
  "metric_text Metric_repurchase_90d_rate = ''repurchase_90d_rate''"
| "metric_text Metric_avg_order_value = ''avg_order_value''"
| "metric_text Metric_refund_rate = ''refund_rate''"
| "metric_text Metric_checkout_started_cart_rate = ''checkout_started_cart_rate''"

lemma metric_text_inject [simp]: "metric_text a = metric_text b \<longleftrightarrow> a = b"
  by (cases a; cases b) simp_all

lemma metric_text_ne_Nil [simp]: "metric_text m \<noteq> []"
  by (cases m) simp_all

datatype GuardrailRelation = Rel_growth_metric | Rel_negative_guardrail | Rel_funnel_metric

datatype ConfirmationStatus = Conf_unconfirmed | Conf_confirmed | Conf_rejected

datatype metric_window = Window_snapshot | Window_90d

fun window_text :: "metric_window \<Rightarrow> string" where
  "window_text Window_snapshot = ''snapshot''"
| "window_text Window_90d = ''90d''"

record MetricDefinition =
  md_metricId :: SnapshotMetricId
  md_label :: string
  md_numerator :: string
  md_denominator :: string
  md_window :: metric_window
  md_source :: "string list"
  md_projectionInputRefs :: "string list"
  md_guardrailRelation :: GuardrailRelation

record MetricSnapshot =
  ms_metricSnapshotId :: string
  ms_brandId :: string
  ms_storeId :: string
  ms_snapshotDate :: string
  ms_definition :: MetricDefinition
  ms_numeratorValue :: rat
  ms_denominatorValue :: rat
  ms_value :: "rat option"
  ms_evidenceRefs :: "string list"

record StoreProfileSnapshot =
  sp_storeProfileSnapshotId :: string
  sp_brandId :: string
  sp_storeId :: string
  sp_snapshotDate :: string
  sp_menuCount :: nat
  sp_itemCount :: nat
  sp_paidOrderCount :: nat
  sp_memberRfmSnapshotCount :: nat
  sp_evidenceRefs :: "string list"

record MerchantConfirmation =
  mc_confirmationId :: string
  mc_brandId :: string
  mc_storeId :: string
  mc_targetId :: string
  mc_status :: ConfirmationStatus
  mc_confirmedAt :: string
  mc_evidenceRefs :: "string list"

record RestaurantSegmentCandidate =
  sg_segmentCandidateId :: string
  sg_brandId :: string
  sg_storeId :: string
  sg_snapshotDate :: string
  sg_label :: string
  sg_confidence :: rat
  sg_evidenceRefs :: "string list"
  sg_confirmationStatus :: ConfirmationStatus
  sg_confirmationId :: "string option"

record IndependentCafeSnapshots =
  cs_storeProfileSnapshots :: "StoreProfileSnapshot list"
  cs_metricDefinitions :: "MetricDefinition list"
  cs_metricSnapshots :: "MetricSnapshot list"
  cs_restaurantSegments :: "RestaurantSegmentCandidate list"
  cs_merchantConfirmations :: "MerchantConfirmation list"

record IndependentCafeSnapshotInput =
  si_projections :: BusinessProjections
  si_brandId :: string
  si_storeId :: string
  si_snapshotDate :: string
  si_merchantConfirmations :: "MerchantConfirmation list option"

section \<open>Helpers\<close>

text \<open>\<open>Math.round(value * 10000) / 10000\<close>: to four digits, halves up.\<close>

definition roundMetric :: "rat \<Rightarrow> rat" where
  "roundMetric value = of_int \<lfloor>value * 10000 + 1 / 2\<rfloor> / 10000"

fun finite_value :: "js_number \<Rightarrow> rat" where
  "finite_value (Finite r) = r"
| "finite_value _ = 0"

definition belongsToStore :: "string option \<Rightarrow> string option \<Rightarrow> string \<Rightarrow> string \<Rightarrow> bool" where
  "belongsToStore rowBrand rowStore brandId storeId \<longleftrightarrow> rowBrand = Some brandId \<and> rowStore = Some storeId"

definition sourceRefs :: "string comparator \<Rightarrow> 'r list \<Rightarrow> string \<Rightarrow> ('r \<Rightarrow> string) \<Rightarrow> string list" where
  "sourceRefs lc rows table idOf = uniqueSorted lc (map (\<lambda>row. table @ '':'' @ idOf row) rows)"

text \<open>The pattern's two Chinese words have code units beyond the model's characters.\<close>

definition cafe_words :: "string list" where
  "cafe_words = [''coffee'', ''cafe'', ''latte'', ''americano'', ''espresso'']"

definition containsCafeSignal :: "string option \<Rightarrow> bool" where
  "containsCafeSignal value \<longleftrightarrow>
     truthy value \<and> (\<exists>w \<in> set cafe_words. text_includes (js_lower (or_else value [])) w)"

section \<open>The rows of a store\<close>

definition store_menus :: "BusinessProjections \<Rightarrow> string \<Rightarrow> string \<Rightarrow> MenuProjection list" where
  "store_menus p b s = filter (\<lambda>r. belongsToStore (mn_brandId r) (mn_storeId r) b s) (bp_menus p)"

definition store_items :: "BusinessProjections \<Rightarrow> string \<Rightarrow> string \<Rightarrow> ItemProjection list" where
  "store_items p b s = filter (\<lambda>r. belongsToStore (it_brandId r) (it_storeId r) b s) (bp_items p)"

definition paid_orders :: "BusinessProjections \<Rightarrow> string \<Rightarrow> string \<Rightarrow> OrderProjection list" where
  "paid_orders p b s = filter (\<lambda>r. belongsToStore (or_brandId r) (or_storeId r) b s
      \<and> truthy (or_paidAt r) \<and> or_totalAmount r \<noteq> None) (bp_orders p)"

definition store_refunds :: "BusinessProjections \<Rightarrow> string \<Rightarrow> string \<Rightarrow> RefundProjection list" where
  "store_refunds p b s = filter (\<lambda>r. belongsToStore (rf_brandId r) (rf_storeId r) b s) (bp_refunds p)"

definition store_carts :: "BusinessProjections \<Rightarrow> string \<Rightarrow> string \<Rightarrow> CartProjection list" where
  "store_carts p b s = filter (\<lambda>r. belongsToStore (ca_brandId r) (ca_storeId r) b s) (bp_carts p)"

definition store_rfm :: "BusinessProjections \<Rightarrow> string \<Rightarrow> string \<Rightarrow> MemberRfmSnapshot list" where
  "store_rfm p b s = filter (\<lambda>r. belongsToStore (Some (rs_brandId r)) (rs_storeId r) b s) (bp_memberRfmSnapshots p)"

definition rfm_ref :: "MemberRfmSnapshot \<Rightarrow> string" where
  "rfm_ref r = rs_brandId r @ '':'' @ rs_memberId r @ '':'' @ rs_snapshotDate r"

definition independentCafeConfidence :: "BusinessProjections \<Rightarrow> string \<Rightarrow> string \<Rightarrow> rat" where
  "independentCafeConfidence p brandId storeId =
     (let coffeeEvidence = list_ex (\<lambda>i. containsCafeSignal (it_category i) \<or> containsCafeSignal (it_itemName i))
            (store_items p brandId storeId);
          menuEvidence = list_ex (\<lambda>m. containsCafeSignal (mn_menuName m)) (store_menus p brandId storeId)
      in if coffeeEvidence \<and> menuEvidence then 9 / 10
         else if coffeeEvidence then 8 / 10
         else if menuEvidence then 7 / 10
         else 55 / 100)"

section \<open>Metric snapshots\<close>

fun metricDefinition :: "SnapshotMetricId \<Rightarrow> MetricDefinition" where
  "metricDefinition Metric_repurchase_90d_rate = \<lparr>
     md_metricId = Metric_repurchase_90d_rate,
     md_label = ''90-day repurchase rate'',
     md_numerator = ''Members in member_rfm_snapshots with payCnt90d >= 2'',
     md_denominator = ''Members in member_rfm_snapshots with payCnt90d >= 1'',
     md_window = Window_90d,
     md_source = [''member_rfm_snapshots''],
     md_projectionInputRefs = [''BusinessProjections.memberRfmSnapshots''],
     md_guardrailRelation = Rel_growth_metric\<rparr>"
| "metricDefinition Metric_avg_order_value = \<lparr>
     md_metricId = Metric_avg_order_value,
     md_label = ''Average paid order value'',
     md_numerator = ''Sum of POS-paid order totalAmount'',
     md_denominator = ''Count of POS-paid orders'',
     md_window = Window_snapshot,
     md_source = [''orders''],
     md_projectionInputRefs = [''BusinessProjections.orders''],
     md_guardrailRelation = Rel_growth_metric\<rparr>"
| "metricDefinition Metric_refund_rate = \<lparr>
     md_metricId = Metric_refund_rate,
     md_label = ''Refund rate'',
     md_numerator = ''Count of POS refund records'',
     md_denominator = ''Count of POS-paid orders'',
     md_window = Window_snapshot,
     md_source = [''refunds'', ''orders''],
     md_projectionInputRefs = [''BusinessProjections.refunds'', ''BusinessProjections.orders''],
     md_guardrailRelation = Rel_negative_guardrail\<rparr>"
| "metricDefinition Metric_checkout_started_cart_rate = \<lparr>
     md_metricId = Metric_checkout_started_cart_rate,
     md_label = ''Checkout-started cart rate'',
     md_numerator = ''Carts with status checkout_started'',
     md_denominator = ''All observed carts'',
     md_window = Window_snapshot,
     md_source = [''carts''],
     md_projectionInputRefs = [''BusinessProjections.carts''],
     md_guardrailRelation = Rel_funnel_metric\<rparr>"

definition metricSnapshot ::
  "IndependentCafeSnapshotInput \<Rightarrow> SnapshotMetricId \<Rightarrow> rat \<Rightarrow> rat \<Rightarrow> string list \<Rightarrow> MetricSnapshot" where
  "metricSnapshot input metricId numeratorValue denominatorValue evidenceRefs = \<lparr>
     ms_metricSnapshotId = ''metric:'' @ si_brandId input @ '':'' @ si_storeId input @ '':''
        @ si_snapshotDate input @ '':'' @ metric_text metricId,
     ms_brandId = si_brandId input,
     ms_storeId = si_storeId input,
     ms_snapshotDate = si_snapshotDate input,
     ms_definition = metricDefinition metricId,
     ms_numeratorValue = numeratorValue,
     ms_denominatorValue = denominatorValue,
     ms_value = (if denominatorValue = 0 then None else Some (roundMetric (numeratorValue / denominatorValue))),
     ms_evidenceRefs = evidenceRefs\<rparr>"

fun buildMetricSnapshot ::
  "string comparator \<Rightarrow> SnapshotMetricId \<Rightarrow> IndependentCafeSnapshotInput \<Rightarrow> MetricSnapshot" where
  "buildMetricSnapshot lc Metric_repurchase_90d_rate input =
     (let rows = store_rfm (si_projections input) (si_brandId input) (si_storeId input);
          paying = filter (\<lambda>r. 1 \<le> finite_value (rs_payCnt90d r)) rows;
          repeats = filter (\<lambda>r. 2 \<le> finite_value (rs_payCnt90d r)) rows
      in metricSnapshot input Metric_repurchase_90d_rate (of_nat (length repeats)) (of_nat (length paying))
           (sourceRefs lc rows ''member_rfm_snapshots'' rfm_ref))"
| "buildMetricSnapshot lc Metric_avg_order_value input =
     (let orders = paid_orders (si_projections input) (si_brandId input) (si_storeId input)
      in metricSnapshot input Metric_avg_order_value
           (foldl (\<lambda>total ord. total + (case or_totalAmount ord of None \<Rightarrow> 0 | Some a \<Rightarrow> finite_value a)) 0 orders)
           (of_nat (length orders)) (sourceRefs lc orders ''orders'' or_orderId))"
| "buildMetricSnapshot lc Metric_refund_rate input =
     (let orders = paid_orders (si_projections input) (si_brandId input) (si_storeId input);
          refunds = store_refunds (si_projections input) (si_brandId input) (si_storeId input)
      in metricSnapshot input Metric_refund_rate (of_nat (length refunds)) (of_nat (length orders))
           (uniqueSorted lc (sourceRefs lc refunds ''refunds'' rf_refundId @ sourceRefs lc orders ''orders'' or_orderId)))"
| "buildMetricSnapshot lc Metric_checkout_started_cart_rate input =
     (let carts = store_carts (si_projections input) (si_brandId input) (si_storeId input)
      in metricSnapshot input Metric_checkout_started_cart_rate
           (of_nat (length (filter (\<lambda>c. ca_status c = Cart_checkout_started) carts)))
           (of_nat (length carts)) (sourceRefs lc carts ''carts'' ca_cartId))"

definition INDEPENDENT_CAFE_METRIC_IDS :: "SnapshotMetricId list" where
  "INDEPENDENT_CAFE_METRIC_IDS = [Metric_repurchase_90d_rate, Metric_avg_order_value, Metric_refund_rate,
     Metric_checkout_started_cart_rate]"

section \<open>The rebuild\<close>

definition storeRef :: "IndependentCafeSnapshotInput \<Rightarrow> string" where
  "storeRef input = si_brandId input @ '':'' @ si_storeId input @ '':'' @ si_snapshotDate input"

definition store_profile :: "string comparator \<Rightarrow> IndependentCafeSnapshotInput \<Rightarrow> StoreProfileSnapshot" where
  "store_profile lc input =
     (let p = si_projections input; b = si_brandId input; s = si_storeId input;
          menuRefs = sourceRefs lc (store_menus p b s) ''menus'' mn_menuId;
          itemRefs = sourceRefs lc (store_items p b s) ''items'' it_itemId;
          paidOrders = paid_orders p b s;
          paidOrderRefs = sourceRefs lc paidOrders ''orders'' or_orderId;
          rfmSnapshots = store_rfm p b s;
          rfmRefs = sourceRefs lc rfmSnapshots ''member_rfm_snapshots'' rfm_ref
      in \<lparr>sp_storeProfileSnapshotId = ''store_profile:'' @ storeRef input,
          sp_brandId = b, sp_storeId = s, sp_snapshotDate = si_snapshotDate input,
          sp_menuCount = length menuRefs, sp_itemCount = length itemRefs,
          sp_paidOrderCount = length paidOrders, sp_memberRfmSnapshotCount = length rfmSnapshots,
          sp_evidenceRefs = uniqueSorted lc (menuRefs @ itemRefs @ paidOrderRefs @ rfmRefs)\<rparr>)"

definition segment_candidate_id :: "IndependentCafeSnapshotInput \<Rightarrow> string" where
  "segment_candidate_id input = ''restaurant_segment:'' @ storeRef input @ '':independent_cafe_core''"

definition store_confirmations ::
  "string comparator \<Rightarrow> IndependentCafeSnapshotInput \<Rightarrow> MerchantConfirmation list" where
  "store_confirmations lc input = sort_on lc mc_confirmationId
     (filter (\<lambda>c. mc_brandId c = si_brandId input \<and> mc_storeId c = si_storeId input)
        (or_else (si_merchantConfirmations input) []))"

definition segment_candidate ::
  "string comparator \<Rightarrow> IndependentCafeSnapshotInput \<Rightarrow> RestaurantSegmentCandidate" where
  "segment_candidate lc input =
     (let candidateId = segment_candidate_id input;
          segmentConfirmation = find (\<lambda>c. mc_targetId c = candidateId) (store_confirmations lc input)
      in \<lparr>sg_segmentCandidateId = candidateId,
          sg_brandId = si_brandId input, sg_storeId = si_storeId input, sg_snapshotDate = si_snapshotDate input,
          sg_label = ''independent_cafe_core'',
          sg_confidence = independentCafeConfidence (si_projections input) (si_brandId input) (si_storeId input),
          sg_evidenceRefs = sp_evidenceRefs (store_profile lc input),
          sg_confirmationStatus = or_else (map_option mc_status segmentConfirmation) Conf_unconfirmed,
          sg_confirmationId = map_option mc_confirmationId segmentConfirmation\<rparr>)"

definition rebuildIndependentCafeSnapshots ::
  "string comparator \<Rightarrow> IndependentCafeSnapshotInput \<Rightarrow> IndependentCafeSnapshots" where
  "rebuildIndependentCafeSnapshots lc input =
     (let metricSnapshots = map (\<lambda>metricId. buildMetricSnapshot lc metricId input) INDEPENDENT_CAFE_METRIC_IDS
      in \<lparr>cs_storeProfileSnapshots = [store_profile lc input],
          cs_metricDefinitions = map ms_definition metricSnapshots,
          cs_metricSnapshots = metricSnapshots,
          cs_restaurantSegments = [segment_candidate lc input],
          cs_merchantConfirmations = store_confirmations lc input\<rparr>)"

end
