(* ===== verification/Benchmarks.thy ===== *)
theory Benchmarks
  imports Snapshots
begin

text \<open>
  Peer benchmarks and opportunity gaps, \<open>src/src/benchmarks/opportunity-gaps.ts\<close>: what the metrics of
  one store are compared with, the gap to the peers, and the ranking of the gaps.
\<close>

datatype PeerSampleStatus = Peer_sufficient | Peer_weak_sample | Peer_insufficient_sample

datatype GapDirection = Gap_higher_is_better | Gap_lower_is_better

datatype GapComparisonBasis = Basis_peer_p75 | Basis_peer_median

datatype BenchmarkInterpretation = Interp_directional_non_causal_gap | Interp_insufficient_sample_not_ranked

record PeerGroup =
  pg_peerGroupId :: string
  pg_snapshotDate :: string
  pg_segmentLabel :: string
  pg_metricId :: SnapshotMetricId
  pg_metricWindow :: metric_window
  pg_minPeerStoreCount :: int
  pg_peerStoreCount :: nat
  pg_sampleStatus :: PeerSampleStatus
  pg_evidenceRefs :: "string list"

record PeerBenchmark =
  pb_peerBenchmarkId :: string
  pb_peerGroupId :: string
  pb_snapshotDate :: string
  pb_segmentLabel :: string
  pb_metricId :: SnapshotMetricId
  pb_metricWindow :: metric_window
  pb_guardrailRelation :: GuardrailRelation
  pb_peerStoreCount :: nat
  pb_minPeerStoreCount :: int
  pb_sampleStatus :: PeerSampleStatus
  pb_medianValue :: "rat option"
  pb_p75Value :: "rat option"
  pb_confidence :: rat
  pb_evidenceRefs :: "string list"

record OpportunityGap =
  og_opportunityGapId :: string
  og_brandId :: string
  og_storeId :: string
  og_snapshotDate :: string
  og_segmentCandidateId :: string
  og_segmentLabel :: string
  og_metricId :: SnapshotMetricId
  og_metricWindow :: metric_window
  og_guardrailRelation :: GuardrailRelation
  og_targetValue :: rat
  og_peerMedianValue :: "rat option"
  og_peerP75Value :: "rat option"
  og_comparisonBasis :: GapComparisonBasis
  og_direction :: GapDirection
  og_gapValue :: rat
  og_gapRatio :: "rat option"
  og_rank :: "nat option"
  og_confidence :: rat
  og_sampleStatus :: PeerSampleStatus
  og_interpretation :: BenchmarkInterpretation
  og_evidenceRefs :: "string list"

record PeerBenchmarkOpportunityGaps =
  bg_peerGroups :: "PeerGroup list"
  bg_peerBenchmarks :: "PeerBenchmark list"
  bg_opportunityGaps :: "OpportunityGap list"

record PeerBenchmarkInput =
  bi_targetMetricSnapshots :: "MetricSnapshot list"
  bi_targetRestaurantSegments :: "RestaurantSegmentCandidate list"
  bi_peerMetricSnapshots :: "MetricSnapshot list"
  bi_peerRestaurantSegments :: "RestaurantSegmentCandidate list"
  bi_snapshotDate :: string
  bi_minPeerStoreCount :: "int option"

definition DEFAULT_MIN_PEER_STORE_COUNT :: int where
  "DEFAULT_MIN_PEER_STORE_COUNT = 3"

definition SEGMENT_LABEL :: string where
  "SEGMENT_LABEL = ''independent_cafe_core''"

section \<open>Helpers\<close>

fun gapDirectionFor :: "GuardrailRelation \<Rightarrow> GapDirection" where
  "gapDirectionFor relation = (if relation = Rel_negative_guardrail then Gap_lower_is_better else Gap_higher_is_better)"

definition peerSampleStatusFor :: "nat \<Rightarrow> int \<Rightarrow> PeerSampleStatus" where
  "peerSampleStatusFor peerStoreCount minPeerStoreCount =
     (if int peerStoreCount \<ge> minPeerStoreCount then Peer_sufficient
      else if peerStoreCount > 0 then Peer_weak_sample
      else Peer_insufficient_sample)"

fun benchmarkConfidence :: "PeerSampleStatus \<Rightarrow> nat \<Rightarrow> int \<Rightarrow> rat" where
  "benchmarkConfidence Peer_sufficient peerStoreCount minPeerStoreCount =
     roundMetric (min (95 / 100) (7 / 10 + of_int (int peerStoreCount - minPeerStoreCount) * (5 / 100)))"
| "benchmarkConfidence Peer_weak_sample peerStoreCount minPeerStoreCount = 35 / 100"
| "benchmarkConfidence Peer_insufficient_sample peerStoreCount minPeerStoreCount = 1 / 10"

text \<open>The values are sorted; the index is in range since the quantile is at most one.\<close>

definition percentile :: "rat list \<Rightarrow> rat \<Rightarrow> rat option" where
  "percentile values quantile =
     (if values = [] then None
      else if quantile = 1 / 2 \<and> even (length values)
      then (let upper = length values div 2
            in Some (roundMetric ((values ! (upper - 1) + values ! upper) / 2)))
      else (let index = nat (max 0 (\<lceil>of_nat (length values) * quantile\<rceil> - 1))
            in Some (roundMetric (values ! index))))"

definition aggregateEvidenceRef :: "string \<Rightarrow> string \<Rightarrow> SnapshotMetricId \<Rightarrow> metric_window \<Rightarrow> nat \<Rightarrow> string" where
  "aggregateEvidenceRef snapshotDate segmentLabel metricId metricWindow peerStoreCount =
     ''peer_metric_aggregate:'' @ snapshotDate @ '':'' @ segmentLabel @ '':'' @ metric_text metricId @ '':''
     @ window_text metricWindow @ '':count-'' @ nat_text peerStoreCount"

definition storeKey :: "string \<Rightarrow> string \<Rightarrow> string" where
  "storeKey brandId storeId = brandId @ '':'' @ storeId"

section \<open>Gaps\<close>

definition baseOpportunityGap ::
  "string comparator \<Rightarrow> MetricSnapshot \<Rightarrow> rat \<Rightarrow> RestaurantSegmentCandidate \<Rightarrow> PeerGroup \<Rightarrow> PeerBenchmark
   \<Rightarrow> GapComparisonBasis \<Rightarrow> GapDirection \<Rightarrow> rat \<Rightarrow> rat option \<Rightarrow> OpportunityGap" where
  "baseOpportunityGap lc targetMetric targetValue targetSegment peerGroup peerBenchmark comparisonBasis direction
     gapValue gapRatio = \<lparr>
     og_opportunityGapId = ''opportunity_gap:'' @ ms_brandId targetMetric @ '':'' @ ms_storeId targetMetric @ '':''
        @ ms_snapshotDate targetMetric @ '':'' @ metric_text (md_metricId (ms_definition targetMetric)),
     og_brandId = ms_brandId targetMetric,
     og_storeId = ms_storeId targetMetric,
     og_snapshotDate = ms_snapshotDate targetMetric,
     og_segmentCandidateId = sg_segmentCandidateId targetSegment,
     og_segmentLabel = sg_label targetSegment,
     og_metricId = md_metricId (ms_definition targetMetric),
     og_metricWindow = md_window (ms_definition targetMetric),
     og_guardrailRelation = md_guardrailRelation (ms_definition targetMetric),
     og_targetValue = targetValue,
     og_peerMedianValue = pb_medianValue peerBenchmark,
     og_peerP75Value = pb_p75Value peerBenchmark,
     og_comparisonBasis = comparisonBasis,
     og_direction = direction,
     og_gapValue = gapValue,
     og_gapRatio = gapRatio,
     og_rank = None,
     og_confidence = (if pb_sampleStatus peerBenchmark = Peer_sufficient then pb_confidence peerBenchmark else 2 / 10),
     og_sampleStatus = pb_sampleStatus peerBenchmark,
     og_interpretation = (if pb_sampleStatus peerBenchmark = Peer_sufficient then Interp_directional_non_causal_gap
        else Interp_insufficient_sample_not_ranked),
     og_evidenceRefs = uniqueSorted lc [sg_segmentCandidateId targetSegment, ms_metricSnapshotId targetMetric,
        pg_peerGroupId peerGroup, pb_peerBenchmarkId peerBenchmark]\<rparr>"

definition buildOpportunityGap ::
  "string comparator \<Rightarrow> MetricSnapshot \<Rightarrow> RestaurantSegmentCandidate \<Rightarrow> PeerGroup \<Rightarrow> PeerBenchmark
   \<Rightarrow> OpportunityGap option" where
  "buildOpportunityGap lc targetMetric targetSegment peerGroup peerBenchmark =
     (case ms_value targetMetric of
        None \<Rightarrow> None
      | Some targetValue \<Rightarrow>
          (let direction = gapDirectionFor (pb_guardrailRelation peerBenchmark);
               comparisonBasis = (if direction = Gap_lower_is_better then Basis_peer_median else Basis_peer_p75);
               gap = baseOpportunityGap lc targetMetric targetValue targetSegment peerGroup peerBenchmark
                       comparisonBasis direction
           in case (if comparisonBasis = Basis_peer_median then pb_medianValue peerBenchmark
                    else pb_p75Value peerBenchmark) of
                None \<Rightarrow> Some (gap 0 None)
              | Some referenceValue \<Rightarrow>
                  (let rawGap = (if direction = Gap_higher_is_better then referenceValue - targetValue
                                 else targetValue - referenceValue);
                       gapValue = roundMetric (max 0 rawGap);
                       gapRatio = (if referenceValue = 0 then None else Some (roundMetric (gapValue / \<bar>referenceValue\<bar>)))
                   in Some (gap gapValue gapRatio))))"

text \<open>
  Two stable sorts, the second by the primary key, are the sort by both keys. The map of ranks keeps
  the last entry of an id, as \<open>new Map(entries)\<close> does.
\<close>

definition sufficient_gaps :: "string comparator \<Rightarrow> OpportunityGap list \<Rightarrow> OpportunityGap list" where
  "sufficient_gaps lc gaps =
     sort_on default (\<lambda>g. - or_else (og_gapRatio g) (- 1))
       (sort_on lc og_opportunityGapId
          (filter (\<lambda>g. og_sampleStatus g = Peer_sufficient \<and> 0 < og_gapValue g) gaps))"

definition rank_of :: "OpportunityGap list \<Rightarrow> string \<Rightarrow> nat option" where
  "rank_of sufficientGaps gapId =
     map_of (rev (zip (map og_opportunityGapId sufficientGaps) [1..<Suc (length sufficientGaps)])) gapId"

definition rankOpportunityGaps :: "string comparator \<Rightarrow> OpportunityGap list \<Rightarrow> OpportunityGap list" where
  "rankOpportunityGaps lc gaps =
     (let sufficientGaps = sufficient_gaps lc gaps;
          ranked = map (\<lambda>g. g\<lparr>og_rank := rank_of sufficientGaps (og_opportunityGapId g)\<rparr>) gaps
      in sort_on default (\<lambda>g. or_else (og_rank g) 0) (filter (\<lambda>g. og_rank g \<noteq> None) ranked)
         @ sort_on lc og_opportunityGapId (filter (\<lambda>g. og_rank g = None) ranked))"

section \<open>The rebuild\<close>

definition target_segment :: "string comparator \<Rightarrow> PeerBenchmarkInput \<Rightarrow> RestaurantSegmentCandidate option" where
  "target_segment lc input =
     (case sort_on lc sg_segmentCandidateId
             (filter (\<lambda>s. sg_snapshotDate s = bi_snapshotDate input \<and> sg_label s = SEGMENT_LABEL)
                (bi_targetRestaurantSegments input)) of
        [] \<Rightarrow> None
      | s # ss \<Rightarrow> Some s)"

definition peer_store_keys :: "PeerBenchmarkInput \<Rightarrow> string list" where
  "peer_store_keys input =
     map (\<lambda>s. storeKey (sg_brandId s) (sg_storeId s))
       (filter (\<lambda>s. sg_snapshotDate s = bi_snapshotDate input \<and> sg_label s = SEGMENT_LABEL)
          (bi_peerRestaurantSegments input))"

definition target_metrics :: "string comparator \<Rightarrow> PeerBenchmarkInput \<Rightarrow> MetricSnapshot list" where
  "target_metrics lc input =
     sort_on lc (\<lambda>m. metric_text (md_metricId (ms_definition m)))
       (filter (\<lambda>m. ms_snapshotDate m = bi_snapshotDate input \<and> ms_value m \<noteq> None) (bi_targetMetricSnapshots input))"

definition peer_metrics :: "string comparator \<Rightarrow> PeerBenchmarkInput \<Rightarrow> MetricSnapshot \<Rightarrow> MetricSnapshot list" where
  "peer_metrics lc input targetMetric =
     sort_on lc ms_metricSnapshotId
       (filter (\<lambda>m. ms_snapshotDate m = bi_snapshotDate input
            \<and> md_metricId (ms_definition m) = md_metricId (ms_definition targetMetric)
            \<and> md_window (ms_definition m) = md_window (ms_definition targetMetric)
            \<and> ms_value m \<noteq> None
            \<and> storeKey (ms_brandId m) (ms_storeId m) \<in> set (peer_store_keys input))
          (bi_peerMetricSnapshots input))"

definition min_peer_store_count :: "PeerBenchmarkInput \<Rightarrow> int" where
  "min_peer_store_count input =
     max (or_else (bi_minPeerStoreCount input) DEFAULT_MIN_PEER_STORE_COUNT) DEFAULT_MIN_PEER_STORE_COUNT"

definition peer_group_and_benchmark ::
  "PeerBenchmarkInput \<Rightarrow> MetricSnapshot \<Rightarrow> nat \<Rightarrow> rat list \<Rightarrow> PeerGroup \<times> PeerBenchmark" where
  "peer_group_and_benchmark input targetMetric peerStoreCount values =
     (let metricId = md_metricId (ms_definition targetMetric);
          window = md_window (ms_definition targetMetric);
          sampleStatus = peerSampleStatusFor peerStoreCount (min_peer_store_count input);
          aggregateRef = aggregateEvidenceRef (bi_snapshotDate input) SEGMENT_LABEL metricId window peerStoreCount;
          suffix = bi_snapshotDate input @ '':'' @ SEGMENT_LABEL @ '':'' @ metric_text metricId @ '':'' @ window_text window;
          peerGroupId = ''peer_group:'' @ suffix;
          peerBenchmarkId = ''peer_benchmark:'' @ suffix
      in (\<lparr>pg_peerGroupId = peerGroupId, pg_snapshotDate = bi_snapshotDate input, pg_segmentLabel = SEGMENT_LABEL,
           pg_metricId = metricId, pg_metricWindow = window, pg_minPeerStoreCount = min_peer_store_count input,
           pg_peerStoreCount = peerStoreCount, pg_sampleStatus = sampleStatus, pg_evidenceRefs = [aggregateRef]\<rparr>,
          \<lparr>pb_peerBenchmarkId = peerBenchmarkId, pb_peerGroupId = peerGroupId, pb_snapshotDate = bi_snapshotDate input,
           pb_segmentLabel = SEGMENT_LABEL, pb_metricId = metricId, pb_metricWindow = window,
           pb_guardrailRelation = md_guardrailRelation (ms_definition targetMetric),
           pb_peerStoreCount = peerStoreCount, pb_minPeerStoreCount = min_peer_store_count input,
           pb_sampleStatus = sampleStatus, pb_medianValue = percentile values (1 / 2),
           pb_p75Value = percentile values (3 / 4),
           pb_confidence = benchmarkConfidence sampleStatus peerStoreCount (min_peer_store_count input),
           pb_evidenceRefs = [peerGroupId, aggregateRef]\<rparr>))"

definition benchmark_metric ::
  "string comparator \<Rightarrow> PeerBenchmarkInput \<Rightarrow> MetricSnapshot \<Rightarrow> PeerGroup \<times> PeerBenchmark" where
  "benchmark_metric lc input targetMetric =
     (let peerMetricValues = peer_metrics lc input targetMetric;
          peerStoreCount = length (js_unique (map (\<lambda>m. storeKey (ms_brandId m) (ms_storeId m)) peerMetricValues));
          values = sort_on default (\<lambda>v. v) (map (\<lambda>m. or_else (ms_value m) 0) peerMetricValues)
      in peer_group_and_benchmark input targetMetric peerStoreCount values)"

definition rebuildPeerBenchmarkOpportunityGaps ::
  "string comparator \<Rightarrow> PeerBenchmarkInput \<Rightarrow> PeerBenchmarkOpportunityGaps" where
  "rebuildPeerBenchmarkOpportunityGaps lc input =
     (case target_segment lc input of
        None \<Rightarrow> \<lparr>bg_peerGroups = [], bg_peerBenchmarks = [], bg_opportunityGaps = []\<rparr>
      | Some targetSegment \<Rightarrow>
          (let targetMetrics = target_metrics lc input;
               peers = map (benchmark_metric lc input) targetMetrics;
               gaps = List.map_filter (\<lambda>(m, group, benchmark). buildOpportunityGap lc m targetSegment group benchmark)
                        (zip targetMetrics peers)
           in \<lparr>bg_peerGroups = map fst peers,
               bg_peerBenchmarks = map snd peers,
               bg_opportunityGaps = rankOpportunityGaps lc gaps\<rparr>))"

end
