(* ===== verification/CafeLemmas.thy ===== *)
theory CafeLemmas
  imports Benchmarks ProjectionInvariants
begin

text \<open>
  Facts about the snapshots and benchmarks that the properties share: rounding, the rows of a store,
  the amounts of rebuilt projections, percentiles, and the ranking of gaps.
\<close>

section \<open>Rounding\<close>

lemma roundMetric_mono: "a \<le> b \<Longrightarrow> roundMetric a \<le> roundMetric b"
  by (simp add: roundMetric_def floor_mono divide_right_mono)

lemma roundMetric_int [simp]: "roundMetric (of_int i) = of_int i"
proof -
  have "\<lfloor>(of_int i :: rat) * 10000 + 1 / 2\<rfloor> = i * 10000" by linarith
  then show ?thesis by (simp add: roundMetric_def)
qed

lemma roundMetric_0_1 [simp]: "roundMetric 0 = 0" "roundMetric 1 = 1"
  using roundMetric_int [of 0] roundMetric_int [of 1] by simp_all

lemma roundMetric_nonneg [simp]: "0 \<le> v \<Longrightarrow> 0 \<le> roundMetric v"
  using roundMetric_mono [of 0 v] by simp

lemma roundMetric_le_1: "v \<le> 1 \<Longrightarrow> roundMetric v \<le> 1"
  using roundMetric_mono [of v 1] by simp

lemma roundMetric_close: "\<bar>roundMetric v - v\<bar> \<le> 1 / 20000"
proof -
  have "of_int \<lfloor>v * 10000 + 1 / 2\<rfloor> \<le> v * 10000 + 1 / 2" "v * 10000 + 1 / 2 < of_int \<lfloor>v * 10000 + 1 / 2\<rfloor> + 1"
    by linarith+
  then show ?thesis unfolding roundMetric_def by linarith
qed

lemma roundMetric_idem [simp]: "roundMetric (roundMetric v) = roundMetric v"
proof -
  have "\<lfloor>(of_int i :: rat) / 10000 * 10000 + 1 / 2\<rfloor> = i" for i by simp linarith
  then show ?thesis by (simp add: roundMetric_def)
qed

section \<open>The rows of a store\<close>

text \<open>The projections with the rows of one store only.\<close>

definition restrict_to_store :: "BusinessProjections \<Rightarrow> string \<Rightarrow> string \<Rightarrow> BusinessProjections" where
  "restrict_to_store p b s = p\<lparr>
     bp_menus := store_menus p b s,
     bp_items := store_items p b s,
     bp_orders := filter (\<lambda>r. belongsToStore (or_brandId r) (or_storeId r) b s) (bp_orders p),
     bp_refunds := store_refunds p b s,
     bp_carts := store_carts p b s,
     bp_memberRfmSnapshots := store_rfm p b s\<rparr>"

named_theorems store_rows

lemma restricted_rows [store_rows]:
  "store_menus (restrict_to_store p b s) b s = store_menus p b s"
  "store_items (restrict_to_store p b s) b s = store_items p b s"
  "paid_orders (restrict_to_store p b s) b s = paid_orders p b s"
  "store_refunds (restrict_to_store p b s) b s = store_refunds p b s"
  "store_carts (restrict_to_store p b s) b s = store_carts p b s"
  "store_rfm (restrict_to_store p b s) b s = store_rfm p b s"
  by (simp_all add: restrict_to_store_def store_menus_def store_items_def paid_orders_def store_refunds_def
      store_carts_def store_rfm_def conj_ac cong: conj_cong)

lemma metric_snapshot_sel [simp]:
  "ms_brandId (metricSnapshot inp m n d refs) = si_brandId inp"
  "ms_storeId (metricSnapshot inp m n d refs) = si_storeId inp"
  "ms_snapshotDate (metricSnapshot inp m n d refs) = si_snapshotDate inp"
  "ms_definition (metricSnapshot inp m n d refs) = metricDefinition m"
  "ms_numeratorValue (metricSnapshot inp m n d refs) = n"
  "ms_denominatorValue (metricSnapshot inp m n d refs) = d"
  "ms_value (metricSnapshot inp m n d refs) = (if d = 0 then None else Some (roundMetric (n / d)))"
  "ms_evidenceRefs (metricSnapshot inp m n d refs) = refs"
  by (simp_all add: metricSnapshot_def)

lemma md_metricId_definition [simp]: "md_metricId (metricDefinition m) = m"
  by (cases m) simp_all

lemma built_snapshot_sel [simp]:
  "ms_brandId (buildMetricSnapshot lc m inp) = si_brandId inp"
  "ms_storeId (buildMetricSnapshot lc m inp) = si_storeId inp"
  "ms_snapshotDate (buildMetricSnapshot lc m inp) = si_snapshotDate inp"
  "ms_definition (buildMetricSnapshot lc m inp) = metricDefinition m"
  by (cases m; simp add: Let_def)+

lemma built_snapshot_id:
  "ms_metricSnapshotId (buildMetricSnapshot lc m inp) =
     ''metric:'' @ si_brandId inp @ '':'' @ si_storeId inp @ '':'' @ si_snapshotDate inp @ '':'' @ metric_text m"
  by (cases m) (simp_all add: Let_def metricSnapshot_def)

text \<open>The value is the rounded quotient, and there is none exactly when nothing was counted.\<close>

lemma built_snapshot_value:
  "ms_value (buildMetricSnapshot lc m inp) =
     (if ms_denominatorValue (buildMetricSnapshot lc m inp) = 0 then None
      else Some (roundMetric (ms_numeratorValue (buildMetricSnapshot lc m inp)
        / ms_denominatorValue (buildMetricSnapshot lc m inp))))"
  by (cases m) (simp_all add: Let_def)

lemma built_denominator_nonneg: "0 \<le> ms_denominatorValue (buildMetricSnapshot lc m inp)"
  by (cases m) (simp_all add: Let_def)

lemma filter_mono_length: "(\<And>x. x \<in> set xs \<Longrightarrow> P x \<Longrightarrow> Q x) \<Longrightarrow> length (filter P xs) \<le> length (filter Q xs)"
  by (induction xs) (auto simp: le_Suc_eq)

lemma built_rate_le_1:
  assumes "m \<in> {Metric_repurchase_90d_rate, Metric_checkout_started_cart_rate}"
  shows "0 \<le> ms_numeratorValue (buildMetricSnapshot lc m inp)"
    and "ms_numeratorValue (buildMetricSnapshot lc m inp) \<le> ms_denominatorValue (buildMetricSnapshot lc m inp)"
  using assms by (auto simp: Let_def intro!: filter_mono_length)

section \<open>The amounts of rebuilt projections are finite\<close>

definition amounts_finite :: "proj_state \<Rightarrow> bool" where
  "amounts_finite s \<longleftrightarrow> (\<forall>v \<in> set (map_values (ps_orders s)). \<forall>a. or_totalAmount v = Some a \<longrightarrow> isFinite a)"

lemma amounts_finite_set:
  assumes "amounts_finite s" "\<And>a. or_totalAmount v = Some a \<Longrightarrow> isFinite a" "ps_orders t = map_set k v (ps_orders s)"
  shows "amounts_finite t"
proof -
  have "w = v \<or> w \<in> set (map_values (ps_orders s))" if "w \<in> set (map_values (ps_orders t))" for w
    using that unfolding assms(3) by (simp only: set_map values_map_set)
  then show ?thesis using assms(1,2) unfolding amounts_finite_def by blast
qed

lemma map_get_value: "map_get m k = Some v \<Longrightarrow> v \<in> set (map_values m)"
  by (force dest: map_of_SomeD)

lemma amounts_finite_get:
  "amounts_finite s \<Longrightarrow> map_get (ps_orders s) k = Some v \<Longrightarrow> or_totalAmount v = Some a \<Longrightarrow> isFinite a"
  unfolding amounts_finite_def by (blast dest: map_get_value)

lemma amounts_finite_cong: "ps_orders t = ps_orders s \<Longrightarrow> amounts_finite s \<Longrightarrow> amounts_finite t"
  by (simp add: amounts_finite_def)

lemma same_sales_finite: "same_sales s t \<Longrightarrow> amounts_finite s \<Longrightarrow> amounts_finite t"
  by (rule amounts_finite_cong) (simp add: same_sales_def)

lemma order_row_amount:
  assumes "\<And>v b. existing = Some v \<Longrightarrow> or_totalAmount v = Some b \<Longrightarrow> isFinite b"
    "or_totalAmount (order_row lc r k existing) = Some a"
  shows "isFinite a"
  using assms
  by (cases "getNumber (prop_of r ''totalAmount'')"; cases "getNumber (prop_of r ''amount'')"; cases existing)
    (auto simp: order_row_def Let_def dest: getNumber_finite)

lemma order_row_finite:
  assumes "amounts_finite s" "or_totalAmount (order_row lc r k (map_get (ps_orders s) k')) = Some a"
  shows "isFinite a"
  by (rule order_row_amount [OF _ assms(2)]) (rule amounts_finite_get [OF assms(1)])

lemma fold_order_items: "ps_orders (fold (order_item_of r k) items s) = ps_orders s"
  by (rule fold_keeps [where P = "\<lambda>t. ps_orders t = ps_orders s"])
    (auto simp: order_item_of_def Let_def split: option.split)

lemma project_payment_orders: "ps_orders (project_payment r k amt s) = ps_orders s"
  by (auto simp: project_payment_def Let_def split: option.split)

lemma projectOrder_finite:
  assumes "amounts_finite s"
  shows "amounts_finite (projectOrder lc r s)"
proof -
  have "ps_orders (project_paying_member lc r k t) = ps_orders t" for k t
    using project_simple_same(6) [of t lc r k] by (simp add: same_sales_def)
  then show ?thesis
    using assms
    by (auto simp: projectOrder_def Let_def fold_order_items project_payment_orders
        intro!: amounts_finite_set [OF assms] intro: order_row_finite [OF assms])
qed

lemma projectRefund_finite:
  assumes "amounts_finite s"
  shows "amounts_finite (projectRefund lc r s)"
proof -
  have "ps_orders (projectRefund lc r s) = ps_orders s
    \<or> (\<exists>k v w. map_get (ps_orders s) k = Some w \<and> or_totalAmount v = or_totalAmount w
        \<and> ps_orders (projectRefund lc r s) = map_set k v (ps_orders s))"
    by (cases "getNumber (prop_of r ''amount'')"; cases "map_get (ps_orders s) (or_else (getString (prop_of r ''orderId'')) [])")
      (simp_all add: projectRefund_def Let_def, metis OrderProjection.ext_inject OrderProjection.surjective OrderProjection.update_convs(5,10))
  then show ?thesis
    using assms amounts_finite_get [OF assms] by (metis amounts_finite_cong amounts_finite_set)
qed

lemma project_event_finite: "amounts_finite s \<Longrightarrow> amounts_finite (project_event lc r s)"
  unfolding project_event_def Let_def
  by (auto intro!: projectRefund_finite projectOrder_finite
      intro: same_sales_finite [OF projectMenuItem_same] same_sales_finite [OF project_simple_same(1)]
        same_sales_finite [OF project_simple_same(2)] same_sales_finite [OF project_simple_same(3)]
        same_sales_finite [OF projectCart_same] same_sales_finite [OF projectCheckoutAttribution_same])

lemma attribute_order_finite:
  assumes "amounts_finite s"
  shows "amounts_finite (s\<lparr>ps_orders := fold (attribute_order lc) attrs (ps_orders s)\<rparr>)"
  using assms
proof (induction attrs arbitrary: s)
  case (Cons attr attrs)
  obtain k ids where attr: "attr = (k, ids)" by fastforce
  have "amounts_finite (s\<lparr>ps_orders := attribute_order lc attr (ps_orders s)\<rparr>)"
  proof (cases "map_get (ps_orders s) k")
    case (Some v)
    then show ?thesis
      by (intro amounts_finite_set [OF Cons.prems, where k = k
            and v = "v\<lparr>or_frontendAttributionEventIds := uniqueSorted lc (or_frontendAttributionEventIds v @ ids)\<rparr>"])
        (auto simp: attribute_order_def attr dest: amounts_finite_get [OF Cons.prems])
  qed (use Cons.prems in \<open>simp add: attribute_order_def attr\<close>)
  from Cons.IH [OF this] show ?case by simp
qed simp

text \<open>So every amount the metrics add up is a number, not \<open>NaN\<close> or an infinity.\<close>

lemma rebuilt_amounts_finite:
  assumes "bp = rebuildBusinessProjections lc inp" "v \<in> set (bp_orders bp)" "or_totalAmount v = Some a"
  shows "isFinite a"
proof -
  let ?events = "sort_on lc event_sort_key (in_rawEvents inp)"
  have "amounts_finite (fold (project_event lc) ?events proj_start)"
  proof (rule fold_keeps [where P = amounts_finite])
    show "amounts_finite proj_start" by (simp add: amounts_finite_def proj_start_def)
  qed (rule project_event_finite)
  from attribute_order_finite [OF this] have "amounts_finite (projected_state lc ?events snaps)" for snaps
    unfolding projected_state_def Let_def
    by (rule fold_keeps [where P = amounts_finite, rotated]) (rule same_sales_finite [OF project_simple_same(4)])
  then show ?thesis
    using assms(2,3) unfolding assms(1) rebuildBusinessProjections_def amounts_finite_def by (auto simp: Let_def)
qed

section \<open>Peers are anonymous\<close>

lemma length_js_unique: "length (js_unique xs) = card (set xs)"
  using distinct_card [OF distinct_js_unique, of xs] by simp

text \<open>Sorting numbers forgets where they came from.\<close>

lemma sort_numbers_cong:
  "mset xs = mset ys \<Longrightarrow> sort_on (default :: 'a::linorder comparator) (\<lambda>v. v) xs = sort_on default (\<lambda>v. v) ys"
  by (rule sort_eq_if_mset_eq) (auto dest!: tells_apartD [OF tells_apart_default, rotated 2])

text \<open>Peers under other names: the stores, the ids and the evidence of the peers are replaced.\<close>

definition rename_metric :: "(string \<times> string \<Rightarrow> string \<times> string) \<Rightarrow> (MetricSnapshot \<Rightarrow> string) \<Rightarrow> MetricSnapshot \<Rightarrow> MetricSnapshot" where
  "rename_metric store newId m = m\<lparr>ms_brandId := fst (store (ms_brandId m, ms_storeId m)),
     ms_storeId := snd (store (ms_brandId m, ms_storeId m)), ms_metricSnapshotId := newId m, ms_evidenceRefs := []\<rparr>"

definition rename_segment :: "(string \<times> string \<Rightarrow> string \<times> string) \<Rightarrow> RestaurantSegmentCandidate \<Rightarrow> RestaurantSegmentCandidate" where
  "rename_segment store s = s\<lparr>sg_brandId := fst (store (sg_brandId s, sg_storeId s)),
     sg_storeId := snd (store (sg_brandId s, sg_storeId s)), sg_segmentCandidateId := [], sg_evidenceRefs := []\<rparr>"

definition rename_peers ::
  "(string \<times> string \<Rightarrow> string \<times> string) \<Rightarrow> (MetricSnapshot \<Rightarrow> string) \<Rightarrow> PeerBenchmarkInput \<Rightarrow> PeerBenchmarkInput" where
  "rename_peers store newId inp = inp\<lparr>
     bi_peerMetricSnapshots := map (rename_metric store newId) (bi_peerMetricSnapshots inp),
     bi_peerRestaurantSegments := map (rename_segment store) (bi_peerRestaurantSegments inp)\<rparr>"

definition peer_stores :: "PeerBenchmarkInput \<Rightarrow> (string \<times> string) set" where
  "peer_stores inp = (\<lambda>m. (ms_brandId m, ms_storeId m)) ` set (bi_peerMetricSnapshots inp)
     \<union> (\<lambda>s. (sg_brandId s, sg_storeId s)) ` set (bi_peerRestaurantSegments inp)"

definition pair_key :: "string \<times> string \<Rightarrow> string" where
  "pair_key p = storeKey (fst p) (snd p)"

lemma rename_metric_sel [simp]:
  "ms_snapshotDate (rename_metric f g m) = ms_snapshotDate m" "ms_definition (rename_metric f g m) = ms_definition m"
  "ms_value (rename_metric f g m) = ms_value m"
  "storeKey (ms_brandId (rename_metric f g m)) (ms_storeId (rename_metric f g m)) = pair_key (f (ms_brandId m, ms_storeId m))"
  by (simp_all add: rename_metric_def pair_key_def)

lemma rename_segment_sel [simp]:
  "sg_snapshotDate (rename_segment f s) = sg_snapshotDate s" "sg_label (rename_segment f s) = sg_label s"
  "storeKey (sg_brandId (rename_segment f s)) (sg_storeId (rename_segment f s)) = pair_key (f (sg_brandId s, sg_storeId s))"
  by (simp_all add: rename_segment_def pair_key_def)

lemma rename_peers_sel [simp]:
  "bi_targetMetricSnapshots (rename_peers f g inp) = bi_targetMetricSnapshots inp"
  "bi_targetRestaurantSegments (rename_peers f g inp) = bi_targetRestaurantSegments inp"
  "bi_peerMetricSnapshots (rename_peers f g inp) = map (rename_metric f g) (bi_peerMetricSnapshots inp)"
  "bi_peerRestaurantSegments (rename_peers f g inp) = map (rename_segment f) (bi_peerRestaurantSegments inp)"
  "bi_snapshotDate (rename_peers f g inp) = bi_snapshotDate inp"
  "bi_minPeerStoreCount (rename_peers f g inp) = bi_minPeerStoreCount inp"
  by (simp_all add: rename_peers_def)

lemma peer_key_in:
  assumes keys: "\<And>p q. p \<in> peer_stores inp \<Longrightarrow> q \<in> peer_stores inp \<Longrightarrow> pair_key (f p) = pair_key (f q) \<longleftrightarrow> pair_key p = pair_key q"
    and p: "p \<in> peer_stores inp"
  shows "pair_key (f p) \<in> set (peer_store_keys (rename_peers f g inp)) \<longleftrightarrow> pair_key p \<in> set (peer_store_keys inp)"
proof -
  have "(sg_brandId s, sg_storeId s) \<in> peer_stores inp" if "s \<in> set (bi_peerRestaurantSegments inp)" for s
    using that by (auto simp: peer_stores_def)
  then have same: "pair_key (f p) = pair_key (f (sg_brandId s, sg_storeId s)) \<longleftrightarrow> pair_key p = pair_key (sg_brandId s, sg_storeId s)"
    if "s \<in> set (bi_peerRestaurantSegments inp)" for s
    using keys [OF p] that by blast
  have "set (peer_store_keys (rename_peers f g inp)) = (\<lambda>s. pair_key (f (sg_brandId s, sg_storeId s)))
      ` {s \<in> set (bi_peerRestaurantSegments inp). sg_snapshotDate s = bi_snapshotDate inp \<and> sg_label s = SEGMENT_LABEL}"
    "set (peer_store_keys inp) = (\<lambda>s. pair_key (sg_brandId s, sg_storeId s))
      ` {s \<in> set (bi_peerRestaurantSegments inp). sg_snapshotDate s = bi_snapshotDate inp \<and> sg_label s = SEGMENT_LABEL}"
    by (simp_all add: peer_store_keys_def filter_map image_image comp_def) (simp_all add: pair_key_def)
  then show ?thesis using same by auto
qed

lemma card_image_same_kernel:
  assumes "\<And>x y. x \<in> S \<Longrightarrow> y \<in> S \<Longrightarrow> a x = a y \<longleftrightarrow> b x = b y"
  shows "card (a ` S) = card (b ` S)"
proof -
  have "bij_betw (\<lambda>k. b (inv_into S a k)) (a ` S) (b ` S)"
  proof (rule bij_betw_imageI)
    show "inj_on (\<lambda>k. b (inv_into S a k)) (a ` S)"
      by (rule inj_onI) (metis assms f_inv_into_f inv_into_into)
    have "b (inv_into S a (a x)) = b x" if "x \<in> S" for x
      using assms [OF inv_into_into that, of "a x" a] that by (simp add: f_inv_into_f)
    then show "(\<lambda>k. b (inv_into S a k)) ` a ` S = b ` S" by (force simp: image_image)
  qed
  then show ?thesis by (rule bij_betw_same_card)
qed

lemma benchmark_metric_renamed:
  assumes keys: "\<And>p q. p \<in> peer_stores inp \<Longrightarrow> q \<in> peer_stores inp \<Longrightarrow> pair_key (f p) = pair_key (f q) \<longleftrightarrow> pair_key p = pair_key q"
  shows "benchmark_metric lc (rename_peers f g inp) m = benchmark_metric lc inp m"
proof -
  let ?store = "\<lambda>m. (ms_brandId m, ms_storeId m)"
  let ?P = "\<lambda>inp x. ms_snapshotDate x = bi_snapshotDate inp \<and> md_metricId (ms_definition x) = md_metricId (ms_definition m)
      \<and> md_window (ms_definition x) = md_window (ms_definition m) \<and> ms_value x \<noteq> None
      \<and> storeKey (ms_brandId x) (ms_storeId x) \<in> set (peer_store_keys inp)"
  let ?xs = "filter (?P inp) (bi_peerMetricSnapshots inp)"
  have store: "?store x \<in> peer_stores inp" if "x \<in> set (bi_peerMetricSnapshots inp)" for x
    using that by (auto simp: peer_stores_def)
  have "filter (?P (rename_peers f g inp)) (map (rename_metric f g) (bi_peerMetricSnapshots inp)) = map (rename_metric f g) ?xs"
    using peer_key_in [OF keys store] by (auto simp: filter_map pair_key_def cong: filter_cong)
  then have ys: "mset (peer_metrics lc (rename_peers f g inp) m) = image_mset (rename_metric f g) (mset (peer_metrics lc inp m))"
    by (simp add: peer_metrics_def)
  have mem: "x \<in> set (bi_peerMetricSnapshots inp)" if "x \<in> set (peer_metrics lc inp m)" for x
    using that by (simp add: peer_metrics_def)
  have vals: "sort_on default (\<lambda>v. v) (map (\<lambda>x. or_else (ms_value x) 0) (peer_metrics lc (rename_peers f g inp) m))
      = sort_on default (\<lambda>v. v) (map (\<lambda>x. or_else (ms_value x) 0) (peer_metrics lc inp m))"
    by (rule sort_numbers_cong) (simp add: ys multiset.map_comp comp_def)
  have "(\<lambda>x. storeKey (ms_brandId x) (ms_storeId x)) ` set (peer_metrics lc (rename_peers f g inp) m)
      = (\<lambda>x. pair_key (f (?store x))) ` set (peer_metrics lc inp m)"
    using arg_cong [OF ys, of set_mset] by (simp add: image_image)
  moreover have "card ((\<lambda>x. pair_key (f (?store x))) ` set (peer_metrics lc inp m))
      = card ((\<lambda>x. pair_key (?store x)) ` set (peer_metrics lc inp m))"
    by (rule card_image_same_kernel) (rule keys [OF store [OF mem] store [OF mem]])
  ultimately have "card ((\<lambda>x. storeKey (ms_brandId x) (ms_storeId x)) ` set (peer_metrics lc (rename_peers f g inp) m))
      = card ((\<lambda>x. storeKey (ms_brandId x) (ms_storeId x)) ` set (peer_metrics lc inp m))"
    by (simp add: pair_key_def)
  with vals show ?thesis
    by (simp add: benchmark_metric_def Let_def length_js_unique peer_group_and_benchmark_def min_peer_store_count_def)
qed

section \<open>Ranks\<close>

lemma sorted_default_iff: "js_sorted (default :: 'a::linorder comparator) f xs \<longleftrightarrow> sorted_wrt (\<le>) (map f xs)"
proof (induction xs rule: induct_list012)
  case (3 x y zs)
  then show ?case by (auto simp: not_less intro: order_trans)
qed simp_all

abbreviation rankable :: "OpportunityGap \<Rightarrow> bool" where
  "rankable g \<equiv> og_sampleStatus g = Peer_sufficient \<and> 0 < og_gapValue g"

lemma sufficient_gaps_mset: "mset (sufficient_gaps lc gs) = mset (filter rankable gs)"
  by (simp add: sufficient_gaps_def)

lemma sufficient_gaps_set: "set (sufficient_gaps lc gs) = {g \<in> set gs. rankable g}"
  using arg_cong [OF sufficient_gaps_mset, of set_mset] by simp

lemma sufficient_gaps_sorted:
  "sorted_wrt (\<ge>) (map (\<lambda>g. or_else (og_gapRatio g) (- 1)) (sufficient_gaps lc gs))"
proof -
  have "js_sorted default (\<lambda>g. - or_else (og_gapRatio g) (- 1)) (sufficient_gaps lc gs)"
    by (simp add: sufficient_gaps_def)
  then show ?thesis by (simp add: sorted_default_iff sorted_wrt_map)
qed

lemma rank_of_nth:
  assumes "distinct (map og_opportunityGapId suff)"
  shows "rank_of suff k = Some r \<longleftrightarrow> (\<exists>i < length suff. k = og_opportunityGapId (suff ! i) \<and> r = Suc i)"
proof -
  have "distinct (map fst (rev (zip (map og_opportunityGapId suff) [1..<Suc (length suff)])))"
    using assms by (simp del: upt_Suc add: rev_map [symmetric])
  then show ?thesis
    unfolding rank_of_def
  proof (subst map_of_eq_Some_iff)
    have "(og_opportunityGapId (suff ! i), Suc i) \<in> set (zip (map og_opportunityGapId suff) [1..<Suc (length suff)])"
      if "i < length suff" for i
      using that by (auto simp: set_zip simp del: upt_Suc intro!: exI [of _ i])
    then show "(k, r) \<in> set (rev (zip (map og_opportunityGapId suff) [1..<Suc (length suff)])) \<longleftrightarrow>
        (\<exists>i<length suff. k = og_opportunityGapId (suff ! i) \<and> r = Suc i)"
      by (auto simp: set_zip simp del: upt_Suc)
  qed
qed

lemma rank_of_None:
  "distinct (map og_opportunityGapId suff) \<Longrightarrow> rank_of suff k = None \<longleftrightarrow> k \<notin> og_opportunityGapId ` set suff"
proof -
  assume d: "distinct (map og_opportunityGapId suff)"
  have "rank_of suff k = None \<longleftrightarrow> \<not> (\<exists>r. rank_of suff k = Some r)" by simp
  also have "\<dots> \<longleftrightarrow> k \<notin> og_opportunityGapId ` set suff"
    by (simp only: rank_of_nth [OF d]) (fastforce simp: in_set_conv_nth)
  finally show ?thesis .
qed

text \<open>
  What the ranking computes when the ids of the gaps are distinct: the gaps with a sufficient sample
  and a gap, by descending ratio, numbered from one, and then the others by id, without rank.
\<close>

lemma rankOpportunityGaps_eq:
  assumes ids: "distinct (map og_opportunityGapId gs)"
  shows "rankOpportunityGaps lc gs =
     map (\<lambda>(g, r). g\<lparr>og_rank := Some r\<rparr>) (zip (sufficient_gaps lc gs) [1..<Suc (length (sufficient_gaps lc gs))])
     @ sort_on lc og_opportunityGapId (map (\<lambda>g. g\<lparr>og_rank := None\<rparr>) (filter (\<lambda>g. \<not> rankable g) gs))"
proof -
  let ?suff = "sufficient_gaps lc gs"
  let ?h = "\<lambda>g. g\<lparr>og_rank := rank_of ?suff (og_opportunityGapId g)\<rparr>"
  let ?R = "map (\<lambda>(g, r). g\<lparr>og_rank := Some r\<rparr>) (zip ?suff [1..<Suc (length ?suff)])"
  have "mset (map og_opportunityGapId ?suff) = mset (map og_opportunityGapId (filter rankable gs))"
    by (simp add: sufficient_gaps_mset)
  with ids have sids: "distinct (map og_opportunityGapId ?suff)"
    using distinct_map_filter mset_eq_imp_distinct_iff by blast
  have some: "rank_of ?suff (og_opportunityGapId g) \<noteq> None \<longleftrightarrow> rankable g" if "g \<in> set gs" for g
    using that ids by (auto simp: rank_of_None [OF sids] sufficient_gaps_set image_iff distinct_map dest: inj_onD)
  then have none: "rank_of ?suff (og_opportunityGapId g) = None \<longleftrightarrow> \<not> rankable g" if "g \<in> set gs" for g
    using that by blast
  have nth: "rank_of ?suff (og_opportunityGapId (?suff ! i)) = Some (Suc i)" if "i < length ?suff" for i
    using that by (auto simp: rank_of_nth [OF sids])
  then have R: "?R = map ?h ?suff" by (auto intro!: nth_equalityI simp del: upt_Suc)
  have "mset ?R = mset (filter (\<lambda>g. og_rank g \<noteq> None) (map ?h gs))"
  proof -
    have "filter (\<lambda>g. og_rank g \<noteq> None) (map ?h gs) = map ?h (filter rankable gs)"
      unfolding filter_map comp_def using some by (intro arg_cong [where f = "map ?h"] filter_cong) simp_all
    then show ?thesis unfolding R by (simp add: sufficient_gaps_mset)
  qed
  moreover have "js_sorted default (\<lambda>g. or_else (og_rank g) 0) ?R"
    unfolding sorted_default_iff by (auto simp: sorted_wrt_iff_nth_less simp del: upt_Suc)
  ultimately have ranked: "sort_on default (\<lambda>g. or_else (og_rank g) 0) (filter (\<lambda>g. og_rank g \<noteq> None) (map ?h gs)) = ?R"
  proof -
    assume m: "mset ?R = mset (filter (\<lambda>g. og_rank g \<noteq> None) (map ?h gs))"
      and s: "js_sorted default (\<lambda>g. or_else (og_rank g) 0) ?R"
    have "x = y" if xy: "x \<in> set ?R" "y \<in> set ?R" "or_else (og_rank x) 0 = or_else (og_rank y) 0" for x y
      using xy by (auto simp: set_zip simp del: upt_Suc)
    then have "Sorting_Algorithms.sort (key (\<lambda>g. or_else (og_rank g) 0) default) ?R
        = sort_on default (\<lambda>g. or_else (og_rank g) 0) (filter (\<lambda>g. og_rank g \<noteq> None) (map ?h gs))"
      by (intro sort_eq_if_mset_eq [OF m]) simp
    with sort_sorted [OF s] show ?thesis by simp
  qed
  have "filter (\<lambda>g. og_rank g = None) (map ?h gs) = map (\<lambda>g. g\<lparr>og_rank := None\<rparr>) (filter (\<lambda>g. \<not> rankable g) gs)"
    using none by (auto simp: filter_map comp_def intro!: map_cong filter_cong)
  with ranked show ?thesis by (simp add: rankOpportunityGaps_def Let_def)
qed

end
