(* ===== verification/ContextBundle.thy ===== *)
theory ContextBundle
  imports Benchmarks
begin

text \<open>
  The context an agent run is given, \<open>src/src/agent/context-bundle.ts\<close>: one opportunity gap with its
  evidence, the operations the agent may draft and the targets it must not touch. A zod schema is a
  test of the fields (\<open>_shape\<close>) and the messages of its refinement (\<open>_issues\<close>); \<open>checked\<close> puts them
  together as \<open>parse\<close> does, with the error as a value. A value whose fields are bad is
  \<open>SchemaInvalid\<close>: the texts zod writes about a field are its own, and are not modelled.
\<close>

section \<open>Schemas\<close>

datatype schema_error = SchemaInvalid | Refused "string list"

definition checked :: "bool \<Rightarrow> string list \<Rightarrow> 'a \<Rightarrow> schema_error + 'a" where
  "checked shape issues value =
     (if \<not> shape then Inl SchemaInvalid else if issues \<noteq> [] then Inl (Refused issues) else Inr value)"

lemma checked_Inr_iff [simp]: "checked shape issues value = Inr v \<longleftrightarrow> shape \<and> issues = [] \<and> v = value"
  by (auto simp: checked_def)

lemma checked_Inl_iff: "checked shape issues value = Inl err \<longleftrightarrow>
    (\<not> shape \<and> err = SchemaInvalid) \<or> (shape \<and> issues \<noteq> [] \<and> err = Refused issues)"
  by (auto simp: checked_def)

text \<open>One message for each refinement that fails, in the order of the source.\<close>

definition issue_if :: "bool \<Rightarrow> string \<Rightarrow> string list" where
  "issue_if failed message = (if failed then [message] else [])"

lemma issue_if_Nil [simp]: "issue_if b m = [] \<longleftrightarrow> \<not> b"
  by (simp add: issue_if_def)

definition nonempty_refs :: "string list \<Rightarrow> bool" where
  "nonempty_refs refs \<longleftrightarrow> refs \<noteq> [] \<and> list_all nonempty refs"

section \<open>Enumerations\<close>

datatype AgentAllowedDraftOperation =
  Op_inspect_store_context | Op_inspect_peer_benchmark | Op_inspect_opportunity_gap
| Op_draft_intervention_hypothesis | Op_draft_experiment_plan | Op_request_merchant_review_gate

datatype DisallowedAgentMutationTarget =
  Target_orders | Target_metrics | Target_benchmarks | Target_evidence_facts | Target_business_configs
| Target_menu | Target_price | Target_coupon | Target_customer_message_execution

fun target_text :: "DisallowedAgentMutationTarget \<Rightarrow> string" where
  "target_text Target_orders = ''orders''"
| "target_text Target_metrics = ''metrics''"
| "target_text Target_benchmarks = ''benchmarks''"
| "target_text Target_evidence_facts = ''evidence_facts''"
| "target_text Target_business_configs = ''business_configs''"
| "target_text Target_menu = ''menu''"
| "target_text Target_price = ''price''"
| "target_text Target_coupon = ''coupon''"
| "target_text Target_customer_message_execution = ''customer_message_execution''"

definition CORE_WRITE_DISALLOWED_TARGETS :: "DisallowedAgentMutationTarget list" where
  "CORE_WRITE_DISALLOWED_TARGETS = [Target_orders, Target_metrics, Target_benchmarks, Target_evidence_facts,
     Target_business_configs]"

definition BUSINESS_MUTATION_DISALLOWED_TARGETS :: "DisallowedAgentMutationTarget list" where
  "BUSINESS_MUTATION_DISALLOWED_TARGETS = [Target_menu, Target_price, Target_coupon, Target_customer_message_execution]"

definition DEFAULT_ALLOWED_DRAFT_OPERATIONS :: "AgentAllowedDraftOperation list" where
  "DEFAULT_ALLOWED_DRAFT_OPERATIONS = [Op_inspect_store_context, Op_inspect_peer_benchmark, Op_inspect_opportunity_gap,
     Op_draft_intervention_hypothesis, Op_draft_experiment_plan, Op_request_merchant_review_gate]"

section \<open>The bundle\<close>

text \<open>The gap fact has the fields of an \<open>OpportunityGap\<close>; its schema bounds them.\<close>

definition gap_fact_shape :: "OpportunityGap \<Rightarrow> bool" where
  "gap_fact_shape g \<longleftrightarrow>
     nonempty (og_opportunityGapId g) \<and> nonempty (og_brandId g) \<and> nonempty (og_storeId g)
     \<and> nonempty (og_snapshotDate g) \<and> nonempty (og_segmentCandidateId g)
     \<and> og_segmentLabel g = ''independent_cafe_core''
     \<and> 0 \<le> og_gapValue g
     \<and> (case og_gapRatio g of None \<Rightarrow> True | Some r \<Rightarrow> 0 \<le> r)
     \<and> (case og_rank g of None \<Rightarrow> True | Some r \<Rightarrow> 0 < r)
     \<and> 0 \<le> og_confidence g \<and> og_confidence g \<le> 1
     \<and> nonempty_refs (og_evidenceRefs g)"

record AgentContextBundle =
  cb_agentRunId :: string
  cb_sessionId :: string
  cb_brandId :: string
  cb_storeId :: string
  cb_opportunityGapId :: string
  cb_createdAt :: string
  cb_opportunityGap :: OpportunityGap
  cb_factEvidenceRefs :: "string list"
  cb_assumptions :: "string list"
  cb_allowedDraftOperations :: "AgentAllowedDraftOperation list"
  cb_disallowedMutationTargets :: "DisallowedAgentMutationTarget list"
  cb_evidenceRefs :: "string list"

definition sameStrings :: "string list \<Rightarrow> string list \<Rightarrow> bool" where
  "sameStrings left right \<longleftrightarrow> length left = length right \<and> list_all (\<lambda>(a, b). a = b) (zip left right)"

lemma sameStrings_eq [simp]: "sameStrings left right \<longleftrightarrow> left = right"
  by (auto simp: sameStrings_def list_all_length intro: nth_equalityI)

definition bundle_shape :: "AgentContextBundle \<Rightarrow> bool" where
  "bundle_shape b \<longleftrightarrow>
     nonempty (cb_agentRunId b) \<and> nonempty (cb_sessionId b) \<and> nonempty (cb_brandId b) \<and> nonempty (cb_storeId b)
     \<and> nonempty (cb_opportunityGapId b) \<and> nonempty (cb_createdAt b)
     \<and> gap_fact_shape (cb_opportunityGap b) \<and> nonempty_refs (cb_factEvidenceRefs b)
     \<and> list_all nonempty (cb_assumptions b)
     \<and> cb_allowedDraftOperations b \<noteq> [] \<and> cb_disallowedMutationTargets b \<noteq> []
     \<and> nonempty_refs (cb_evidenceRefs b)"

definition bundle_issues :: "string comparator \<Rightarrow> AgentContextBundle \<Rightarrow> string list" where
  "bundle_issues lc b =
     (let gap = cb_opportunityGap b;
          factEvidenceRefs = uniqueSorted lc (og_evidenceRefs gap);
          bundleEvidenceRefs = uniqueSorted lc (cb_evidenceRefs b);
          nestedEvidenceRefs = uniqueSorted lc (cb_factEvidenceRefs b)
      in issue_if (cb_brandId b \<noteq> og_brandId gap) ''brandId must match facts.opportunityGap.brandId''
         @ issue_if (cb_storeId b \<noteq> og_storeId gap) ''storeId must match facts.opportunityGap.storeId''
         @ issue_if (cb_opportunityGapId b \<noteq> og_opportunityGapId gap)
             ''opportunityGapId must match facts.opportunityGap.opportunityGapId''
         @ concat (map (\<lambda>target. issue_if (target \<notin> set (cb_disallowedMutationTargets b))
               (''missing required disallowed mutation target: '' @ target_text target))
             (CORE_WRITE_DISALLOWED_TARGETS @ BUSINESS_MUTATION_DISALLOWED_TARGETS))
         @ issue_if (\<not> sameStrings bundleEvidenceRefs factEvidenceRefs \<or> \<not> sameStrings nestedEvidenceRefs factEvidenceRefs)
             ''bundle evidenceRefs must match opportunity gap evidenceRefs'')"

definition parse_bundle :: "string comparator \<Rightarrow> AgentContextBundle \<Rightarrow> schema_error + AgentContextBundle" where
  "parse_bundle lc b = checked (bundle_shape b) (bundle_issues lc b) b"

record ContextBundleInput =
  ci_agentRunId :: string
  ci_sessionId :: string
  ci_opportunityGap :: OpportunityGap
  ci_createdAt :: string
  ci_assumptions :: "string list option"
  ci_allowedDraftOperations :: "AgentAllowedDraftOperation list option"
  ci_disallowedMutationTargets :: "DisallowedAgentMutationTarget list option"

definition buildAgentContextBundle ::
  "string comparator \<Rightarrow> ContextBundleInput \<Rightarrow> schema_error + AgentContextBundle" where
  "buildAgentContextBundle lc input =
     (let disallowedMutationTargets = sort_on lc target_text (js_unique
            (or_else (ci_disallowedMutationTargets input) []
             @ CORE_WRITE_DISALLOWED_TARGETS @ BUSINESS_MUTATION_DISALLOWED_TARGETS));
          gap = ci_opportunityGap input;
          evidenceRefs = uniqueSorted lc (og_evidenceRefs gap)
      in parse_bundle lc \<lparr>
           cb_agentRunId = ci_agentRunId input,
           cb_sessionId = ci_sessionId input,
           cb_brandId = og_brandId gap,
           cb_storeId = og_storeId gap,
           cb_opportunityGapId = og_opportunityGapId gap,
           cb_createdAt = ci_createdAt input,
           cb_opportunityGap = gap,
           cb_factEvidenceRefs = evidenceRefs,
           cb_assumptions = or_else (ci_assumptions input) [''Peer benchmark comparison is directional and non-causal.''],
           cb_allowedDraftOperations = or_else (ci_allowedDraftOperations input) DEFAULT_ALLOWED_DRAFT_OPERATIONS,
           cb_disallowedMutationTargets = disallowedMutationTargets,
           cb_evidenceRefs = evidenceRefs\<rparr>)"

section \<open>When a bundle is built\<close>

lemma nonempty_refs_uniqueSorted [simp]: "nonempty_refs (uniqueSorted lc refs) \<longleftrightarrow> nonempty_refs refs"
  by (simp add: nonempty_refs_def list_all_iff)

text \<open>
  Building fails only for what the caller passes in: the identity, brand and targets of the bundle are
  taken from the gap, so its refinement never complains.
\<close>

lemma buildAgentContextBundle_iff:
  "(\<exists>b. buildAgentContextBundle lc input = Inr b) \<longleftrightarrow>
     nonempty (ci_agentRunId input) \<and> nonempty (ci_sessionId input) \<and> nonempty (ci_createdAt input)
     \<and> gap_fact_shape (ci_opportunityGap input)
     \<and> list_all nonempty (or_else (ci_assumptions input) [])
     \<and> ci_allowedDraftOperations input \<noteq> Some []"
proof -
  have "list_all nonempty (or_else (ci_assumptions input) [''Peer benchmark comparison is directional and non-causal.''])
      = list_all nonempty (or_else (ci_assumptions input) [])"
    by (cases "ci_assumptions input") (simp_all add: nonempty_def)
  moreover have "or_else (ci_allowedDraftOperations input) DEFAULT_ALLOWED_DRAFT_OPERATIONS \<noteq> []
      \<longleftrightarrow> ci_allowedDraftOperations input \<noteq> Some []"
    by (cases "ci_allowedDraftOperations input") (simp_all add: DEFAULT_ALLOWED_DRAFT_OPERATIONS_def)
  moreover have "sort_on lc target_text (js_unique (xs @ CORE_WRITE_DISALLOWED_TARGETS @ BUSINESS_MUTATION_DISALLOWED_TARGETS)) \<noteq> []" for xs
    by (metis (no_types, lifting) CORE_WRITE_DISALLOWED_TARGETS_def append_is_Nil_conv list.distinct(1) set_empty set_js_unique set_sort)
  ultimately show ?thesis
    by (auto simp: buildAgentContextBundle_def parse_bundle_def bundle_shape_def bundle_issues_def Let_def gap_fact_shape_def)
qed

end
