(* ===== verification/CafeProperties.thy ===== *)
theory CafeProperties
  imports CafeLemmas ContextBundle
begin

text \<open>
  The properties of the snapshots of a store, of the benchmark against its peers, and of the way from
  a rebuilt store to the context an agent is given.
\<close>

section \<open>Concrete inputs\<close>

definition sample_order_row :: "string \<Rightarrow> string \<Rightarrow> OrderProjection" where
  "sample_order_row storeId orderId = \<lparr>or_orderId = orderId, or_brandId = Some ''b1'', or_storeId = Some storeId,
     or_memberId = None, or_status = Order_paid, or_openedAt = None, or_paidAt = Some ''t1'',
     or_totalAmount = Some (Finite 30), or_currency = None, or_sourceEventIds = [''e1''],
     or_frontendAttributionEventIds = []\<rparr>"

definition sample_projections :: "OrderProjection list \<Rightarrow> BusinessProjections" where
  "sample_projections orders = \<lparr>bp_run = \<lparr>run_rebuiltAt = ''t9'', run_sourceEventCount = 0, run_sourceRfmRowCount = 0\<rparr>,
     bp_sessions = [], bp_carts = [], bp_orders = orders, bp_orderItems = [], bp_payments = [], bp_refunds = [],
     bp_items = [], bp_menus = [], bp_members = [], bp_memberProfiles = [], bp_memberRfmSnapshots = [],
     bp_merchantActions = []\<rparr>"

definition sample_snapshot_input :: "OrderProjection list \<Rightarrow> IndependentCafeSnapshotInput" where
  "sample_snapshot_input orders = \<lparr>si_projections = sample_projections orders, si_brandId = ''b1'', si_storeId = ''s1'',
     si_snapshotDate = ''d1'', si_merchantConfirmations = None\<rparr>"

definition sample_peer :: "string \<Rightarrow> string \<Rightarrow> rat \<Rightarrow> MetricSnapshot" where
  "sample_peer brandId storeId v = \<lparr>ms_metricSnapshotId = brandId @ ''/'' @ storeId, ms_brandId = brandId,
     ms_storeId = storeId, ms_snapshotDate = ''d1'', ms_definition = metricDefinition Metric_avg_order_value,
     ms_numeratorValue = v * 10, ms_denominatorValue = 10, ms_value = Some v, ms_evidenceRefs = []\<rparr>"

definition sample_peer_segment :: "string \<Rightarrow> string \<Rightarrow> RestaurantSegmentCandidate" where
  "sample_peer_segment brandId storeId = \<lparr>sg_segmentCandidateId = brandId @ ''/'' @ storeId, sg_brandId = brandId,
     sg_storeId = storeId, sg_snapshotDate = ''d1'', sg_label = ''independent_cafe_core'', sg_confidence = 1 / 2,
     sg_evidenceRefs = [], sg_confirmationStatus = Conf_unconfirmed, sg_confirmationId = None\<rparr>"

definition sample_benchmark_input :: "(string \<times> string \<times> rat) list \<Rightarrow> PeerBenchmarkInput" where
  "sample_benchmark_input peers =
     (let own = rebuildIndependentCafeSnapshots default (sample_snapshot_input [sample_order_row ''s1'' ''o1''])
      in \<lparr>bi_targetMetricSnapshots = cs_metricSnapshots own, bi_targetRestaurantSegments = cs_restaurantSegments own,
          bi_peerMetricSnapshots = map (\<lambda>(b, s, v). sample_peer b s v) peers,
          bi_peerRestaurantSegments = map (\<lambda>(b, s, v). sample_peer_segment b s) peers,
          bi_snapshotDate = ''d1'', bi_minPeerStoreCount = None\<rparr>)"

definition three_peers :: "(string \<times> string \<times> rat) list" where
  "three_peers = [(''p1'', ''s1'', 40), (''p2'', ''s1'', 50), (''p3'', ''s1'', 60)]"

section \<open>Snapshots\<close>

text \<open>The snapshots of a store are a function of the rows of that store and of its own merchant's
confirmations: any two projections that agree on the menus, items, orders, refunds, carts and member
rows of the store, whatever else they hold of other stores and brands, give the same snapshots.\<close>

theorem snapshots_store_isolated:
  assumes "si_brandId inp' = si_brandId inp" "si_storeId inp' = si_storeId inp" "si_snapshotDate inp' = si_snapshotDate inp"
    and "restrict_to_store (si_projections inp') (si_brandId inp) (si_storeId inp)
       = (restrict_to_store (si_projections inp) (si_brandId inp) (si_storeId inp))
         \<lparr>bp_run := r, bp_sessions := se, bp_orderItems := oi, bp_payments := pa, bp_members := mb,
          bp_memberProfiles := mp, bp_merchantActions := ma\<rparr>"
    and "filter (\<lambda>c. mc_brandId c = si_brandId inp \<and> mc_storeId c = si_storeId inp) (or_else (si_merchantConfirmations inp') [])
       = filter (\<lambda>c. mc_brandId c = si_brandId inp \<and> mc_storeId c = si_storeId inp) (or_else (si_merchantConfirmations inp) [])"
  shows "rebuildIndependentCafeSnapshots lc inp' = rebuildIndependentCafeSnapshots lc inp"
proof -
  let ?p = "si_projections inp" and ?q = "si_projections inp'" and ?b = "si_brandId inp" and ?s = "si_storeId inp"
  let ?r = "restrict_to_store ?p ?b ?s"
  have rows: "store_menus ?q ?b ?s = store_menus ?p ?b ?s" "store_items ?q ?b ?s = store_items ?p ?b ?s"
    "paid_orders ?q ?b ?s = paid_orders ?p ?b ?s" "store_refunds ?q ?b ?s = store_refunds ?p ?b ?s"
    "store_carts ?q ?b ?s = store_carts ?p ?b ?s" "store_rfm ?q ?b ?s = store_rfm ?p ?b ?s"
    using restricted_rows [of ?q ?b ?s] restricted_rows [of ?p ?b ?s]
    unfolding assms(4)
    by (simp_all add: store_menus_def store_items_def paid_orders_def store_refunds_def store_carts_def store_rfm_def)
  have metrics: "buildMetricSnapshot lc m inp' = buildMetricSnapshot lc m inp" for m
    by (cases m) (simp_all add: Let_def rows assms(1-3) metricSnapshot_def)
  have profile: "store_profile lc inp' = store_profile lc inp"
    by (simp add: store_profile_def Let_def rows assms(1-3) storeRef_def)
  have conf: "store_confirmations lc inp' = store_confirmations lc inp"
    by (simp add: store_confirmations_def assms(1,2,5))
  have "independentCafeConfidence ?q ?b ?s = independentCafeConfidence ?p ?b ?s"
    by (simp add: independentCafeConfidence_def Let_def rows)
  then have "segment_candidate lc inp' = segment_candidate lc inp"
    by (simp add: segment_candidate_def Let_def segment_candidate_id_def conf profile assms(1-3) storeRef_def)
  with metrics profile conf show ?thesis by (simp add: rebuildIndependentCafeSnapshots_def Let_def)
qed

theorem snapshots_store_isolated_witness:
  "rebuildIndependentCafeSnapshots default
     (sample_snapshot_input [sample_order_row ''s2'' ''o2'', sample_order_row ''s1'' ''o1''])
   = rebuildIndependentCafeSnapshots default (sample_snapshot_input [sample_order_row ''s1'' ''o1''])"
proof -
  let ?p = "sample_projections [sample_order_row ''s1'' ''o1'']"
  show ?thesis
    by (rule snapshots_store_isolated [where r = "bp_run ?p" and se = "[]" and oi = "[]" and pa = "[]" and mb = "[]"
          and mp = "[]" and ma = "[]"])
      (simp_all add: sample_snapshot_input_def sample_projections_def restrict_to_store_def belongsToStore_def
        sample_order_row_def store_menus_def store_items_def store_refunds_def store_carts_def store_rfm_def)
qed



text \<open>A segment is confirmed or rejected only by the merchant of that store: the status of the
candidate is other than unconfirmed only if a confirmation of the same brand and store names exactly
this candidate, and then the candidate carries that confirmation's id and status.\<close>

theorem segment_confirmed_by_merchant:
  assumes "seg \<in> set (cs_restaurantSegments (rebuildIndependentCafeSnapshots lc inp))"
  shows "case sg_confirmationId seg of
      None \<Rightarrow> sg_confirmationStatus seg = Conf_unconfirmed
        \<and> (\<forall>c \<in> set (or_else (si_merchantConfirmations inp) []).
             \<not> (mc_brandId c = sg_brandId seg \<and> mc_storeId c = sg_storeId seg \<and> mc_targetId c = sg_segmentCandidateId seg))
    | Some cid \<Rightarrow> (\<exists>c \<in> set (or_else (si_merchantConfirmations inp) []).
          mc_confirmationId c = cid \<and> mc_status c = sg_confirmationStatus seg
          \<and> mc_brandId c = sg_brandId seg \<and> mc_storeId c = sg_storeId seg \<and> mc_targetId c = sg_segmentCandidateId seg)"
proof -
  let ?P = "\<lambda>c. mc_targetId c = segment_candidate_id inp"
  from assms have seg: "seg = segment_candidate lc inp"
    by (simp add: rebuildIndependentCafeSnapshots_def Let_def)
  have conf: "set (store_confirmations lc inp) = {c \<in> set (or_else (si_merchantConfirmations inp) []).
      mc_brandId c = si_brandId inp \<and> mc_storeId c = si_storeId inp}"
    by (simp add: store_confirmations_def)
  have "sg_brandId seg = si_brandId inp" "sg_storeId seg = si_storeId inp" "sg_segmentCandidateId seg = segment_candidate_id inp"
    "sg_confirmationId seg = map_option mc_confirmationId (find ?P (store_confirmations lc inp))"
    "sg_confirmationStatus seg = or_else (map_option mc_status (find ?P (store_confirmations lc inp))) Conf_unconfirmed"
    by (simp_all add: seg segment_candidate_def Let_def)
  then show ?thesis
    using conf find_in_list [of ?P "store_confirmations lc inp"]
    by (cases "find ?P (store_confirmations lc inp)") (auto simp: find_None_iff)
qed

theorem segment_confirmed_by_merchant_witness:
  "sg_confirmationStatus (segment_candidate default ((sample_snapshot_input [])
     \<lparr>si_merchantConfirmations := Some [\<lparr>mc_confirmationId = ''c1'', mc_brandId = ''b1'', mc_storeId = ''s2'',
        mc_targetId = ''restaurant_segment:b1:s1:d1:independent_cafe_core'', mc_status = Conf_confirmed,
        mc_confirmedAt = ''t1'', mc_evidenceRefs = []\<rparr>]\<rparr>)) = Conf_unconfirmed"
proof -
  let ?inp = "(sample_snapshot_input [])
     \<lparr>si_merchantConfirmations := Some [\<lparr>mc_confirmationId = ''c1'', mc_brandId = ''b1'', mc_storeId = ''s2'',
        mc_targetId = ''restaurant_segment:b1:s1:d1:independent_cafe_core'', mc_status = Conf_confirmed,
        mc_confirmedAt = ''t1'', mc_evidenceRefs = []\<rparr>]\<rparr>"
  let ?seg = "segment_candidate default ?inp"
  have "?seg \<in> set (cs_restaurantSegments (rebuildIndependentCafeSnapshots default ?inp))"
    by (simp add: rebuildIndependentCafeSnapshots_def Let_def)
  moreover have "sg_storeId ?seg = ''s1''"
    by (simp add: segment_candidate_def Let_def sample_snapshot_input_def)
  ultimately show ?thesis
    using segment_confirmed_by_merchant [of ?seg default ?inp] by (cases "sg_confirmationId ?seg") simp_all
qed

section \<open>Benchmarks\<close>

text \<open>C33. Peers are anonymous: give every peer store another name (and its snapshots and segments other
ids and other evidence), so that stores that were told apart still are, and the whole output, groups,
benchmarks and gaps with their evidence, is the same.\<close>

theorem peer_identity_hidden:
  assumes "\<And>p q. p \<in> peer_stores inp \<Longrightarrow> q \<in> peer_stores inp \<Longrightarrow>
      pair_key (rename p) = pair_key (rename q) \<longleftrightarrow> pair_key p = pair_key q"
  shows "rebuildPeerBenchmarkOpportunityGaps lc (rename_peers rename newId inp) = rebuildPeerBenchmarkOpportunityGaps lc inp"
proof -
  have "benchmark_metric lc (rename_peers rename newId inp) = benchmark_metric lc inp"
    by (rule ext) (rule benchmark_metric_renamed [OF assms])
  moreover have "target_segment lc (rename_peers rename newId inp) = target_segment lc inp"
    "target_metrics lc (rename_peers rename newId inp) = target_metrics lc inp"
    by (simp_all add: target_segment_def target_metrics_def)
  ultimately show ?thesis unfolding rebuildPeerBenchmarkOpportunityGaps_def by (simp only:)
qed

theorem peer_identity_hidden_witness:
  "rebuildPeerBenchmarkOpportunityGaps default
     (rename_peers (\<lambda>(b, s). (''x'' @ b, s)) (\<lambda>m. ''hidden'') (sample_benchmark_input three_peers))
   = rebuildPeerBenchmarkOpportunityGaps default (sample_benchmark_input three_peers)"
  by (rule peer_identity_hidden) (auto simp: pair_key_def storeKey_def)

text \<open>The ranking is a permutation of the gaps. Exactly the gaps with a sufficient peer sample and a
positive value get a rank; these come first, numbered one, two, and so on, by descending ratio (a gap
without a ratio counts as minus one), and the others follow.\<close>

theorem gap_ranking_exact:
  assumes "distinct (map og_opportunityGapId gs)"
  shows "image_mset (\<lambda>g. g\<lparr>og_rank := None\<rparr>) (mset (rankOpportunityGaps lc gs)) = image_mset (\<lambda>g. g\<lparr>og_rank := None\<rparr>) (mset gs)
    \<and> map og_rank (rankOpportunityGaps lc gs)
      = map Some [1..<Suc (length (filter rankable gs))] @ replicate (length (filter (\<lambda>g. \<not> rankable g) gs)) None
    \<and> (\<forall>g \<in> set (rankOpportunityGaps lc gs). og_rank g \<noteq> None \<longleftrightarrow> rankable g)
    \<and> sorted_wrt (\<ge>) (map (\<lambda>g. or_else (og_gapRatio g) (- 1)) (take (length (filter rankable gs)) (rankOpportunityGaps lc gs)))"
proof -
  let ?suff = "sufficient_gaps lc gs" and ?clear = "\<lambda>g. g\<lparr>og_rank := None\<rparr>"
  let ?k = "length (filter rankable gs)" and ?rest = "filter (\<lambda>g. \<not> rankable g) gs"
  define R where "R = map (\<lambda>(g, r). g\<lparr>og_rank := Some r\<rparr>) (zip ?suff [1..<Suc (length ?suff)])"
  define N where "N = sort_on lc og_opportunityGapId (map ?clear ?rest)"
  have eq: "rankOpportunityGaps lc gs = R @ N" by (simp only: rankOpportunityGaps_eq [OF assms] R_def N_def)
  have len: "length ?suff = ?k" by (rule mset_eq_length) (rule sufficient_gaps_mset)
  have R: "map ?clear R = map ?clear ?suff" "map og_rank R = map Some [1..<Suc ?k]"
    "map (\<lambda>g. or_else (og_gapRatio g) (- 1)) R = map (\<lambda>g. or_else (og_gapRatio g) (- 1)) ?suff" "length R = ?k"
    unfolding R_def len [symmetric] by (auto intro!: nth_equalityI simp del: upt_Suc)
  have Rset: "og_rank g \<noteq> None \<and> rankable g" if "g \<in> set R" for g
  proof -
    from that obtain h r where "g = h\<lparr>og_rank := Some r\<rparr>" "h \<in> set ?suff"
      by (auto simp: R_def dest: set_zip_leftD simp del: upt_Suc)
    then show ?thesis using sufficient_gaps_set [of lc gs] by simp
  qed
  have N: "mset N = image_mset ?clear (mset ?rest)" by (simp add: N_def)
  have lenN: "length N = length ?rest" using mset_eq_length [of N "map ?clear ?rest"] N by simp
  have Nset: "og_rank g = None \<and> \<not> rankable g" if "g \<in> set N" for g using that by (auto simp: N_def)
  have "image_mset ?clear (mset R) = image_mset ?clear (mset (filter rankable gs))"
    using arg_cong [OF R(1), of mset] by (simp only: mset_map sufficient_gaps_mset)
  moreover have "image_mset ?clear (mset N) = image_mset ?clear (mset ?rest)"
    by (simp add: N multiset.map_comp comp_def)
  moreover have "mset gs = mset (filter rankable gs) + mset ?rest"
    using multiset_partition [of "mset gs" rankable] by simp
  ultimately have perm: "image_mset ?clear (mset (R @ N)) = image_mset ?clear (mset gs)"
    by (simp only: mset_append image_mset_union)
  have "map og_rank N = map (\<lambda>_. None) N" by (rule map_cong [OF refl], rule conjunct1, rule Nset)
  then have ranks: "map og_rank (R @ N) = map Some [1..<Suc ?k] @ replicate (length ?rest) None"
    by (simp only: map_append R(2) map_replicate_const lenN)
  have "\<forall>g \<in> set (R @ N). og_rank g \<noteq> None \<longleftrightarrow> rankable g" using Rset Nset by fastforce
  moreover have "sorted_wrt (\<ge>) (map (\<lambda>g. or_else (og_gapRatio g) (- 1)) (take ?k (R @ N)))"
    using sufficient_gaps_sorted [of lc gs] by (simp add: R(3,4))
  ultimately show ?thesis unfolding eq using perm ranks by (intro conjI)
qed

theorem gap_ranking_exact_witness:
  "let gaps = bg_opportunityGaps (rebuildPeerBenchmarkOpportunityGaps default (sample_benchmark_input three_peers))
   in map og_rank (rankOpportunityGaps default gaps) = [Some 1, None]"
proof -
  let ?gaps = "bg_opportunityGaps (rebuildPeerBenchmarkOpportunityGaps default (sample_benchmark_input three_peers))"
  have ids: "distinct (map og_opportunityGapId ?gaps)" and r: "map rankable ?gaps = [True, False]" by code_simp+
  obtain g h where gaps: "?gaps = [g, h]" and "rankable g" "\<not> rankable h" using r by auto
  with gap_ranking_exact [OF ids, of default] show ?thesis by (simp add: Let_def)
qed

section \<open>From a gap to an agent's context\<close>

lemma rank_of_pos: "rank_of suff k = Some r \<Longrightarrow> 0 < r"
  by (auto simp: rank_of_def simp del: upt_Suc dest!: map_of_SomeD set_zip_rightD)

lemma benchmarkConfidence_range: "0 \<le> benchmarkConfidence s n k \<and> benchmarkConfidence s n k \<le> 1"
  if "s = peerSampleStatusFor n k"
proof (cases s)
  case Peer_sufficient
  with that have "0 \<le> rat_of_int (int n - k)" by (simp add: peerSampleStatusFor_def split: if_splits)
  then have "0 \<le> min (95 / 100) (7 / 10 + rat_of_int (int n - k) * (5 / 100))" by simp
  with Peer_sufficient show ?thesis by (simp add: roundMetric_le_1 min.coboundedI1)
qed simp_all

text \<open>Every gap comes from one metric of the target and its benchmark, and gets at most a rank.\<close>

lemma gap_origin:
  assumes "g \<in> set (bg_opportunityGaps (rebuildPeerBenchmarkOpportunityGaps lc inp))"
  obtains m seg g0 r where "target_segment lc inp = Some seg" "m \<in> set (target_metrics lc inp)"
    "buildOpportunityGap lc m seg (fst (benchmark_metric lc inp m)) (snd (benchmark_metric lc inp m)) = Some g0"
    "g = g0\<lparr>og_rank := r\<rparr>" "r \<noteq> Some 0"
proof (cases "target_segment lc inp")
  case None
  with assms show thesis by (simp add: rebuildPeerBenchmarkOpportunityGaps_def)
next
  case (Some seg)
  let ?ms = "target_metrics lc inp"
  let ?gs = "List.map_filter (\<lambda>(m, group, benchmark). buildOpportunityGap lc m seg group benchmark)
      (zip ?ms (map (benchmark_metric lc inp) ?ms))"
  have "g \<in> set (rankOpportunityGaps lc ?gs)"
    using assms Some by (simp add: rebuildPeerBenchmarkOpportunityGaps_def Let_def)
  then obtain g0 where g0: "g0 \<in> set ?gs" "g = g0\<lparr>og_rank := rank_of (sufficient_gaps lc ?gs) (og_opportunityGapId g0)\<rparr>"
    by (auto simp: rankOpportunityGaps_def Let_def)
  from g0(1) obtain m where "m \<in> set ?ms"
    "buildOpportunityGap lc m seg (fst (benchmark_metric lc inp m)) (snd (benchmark_metric lc inp m)) = Some g0"
    by (auto simp: List.map_filter_def zip_map2 zip_same_conv_map split: prod.splits) (metis fst_conv snd_conv)
  with Some g0(2) rank_of_pos show thesis by (intro that) auto
qed

lemma target_segment_in:
  assumes "target_segment lc inp = Some seg"
  shows "seg \<in> set (bi_targetRestaurantSegments inp) \<and> sg_label seg = SEGMENT_LABEL"
proof -
  let ?segs = "filter (\<lambda>s. sg_snapshotDate s = bi_snapshotDate inp \<and> sg_label s = SEGMENT_LABEL) (bi_targetRestaurantSegments inp)"
  obtain ss where "sort_on lc sg_segmentCandidateId ?segs = seg # ss"
    using assms by (auto simp: target_segment_def split: list.splits)
  from arg_cong [OF this, of set] show ?thesis by auto
qed

lemma benchmark_metric_sel:
  "pg_peerGroupId (fst (benchmark_metric lc inp m)) \<noteq> []"
  "pb_peerBenchmarkId (snd (benchmark_metric lc inp m)) \<noteq> []"
  "0 \<le> pb_confidence (snd (benchmark_metric lc inp m)) \<and> pb_confidence (snd (benchmark_metric lc inp m)) \<le> 1"
  by (simp_all add: benchmark_metric_def peer_group_and_benchmark_def Let_def benchmarkConfidence_range)

lemma built_gap_form:
  assumes "buildOpportunityGap lc m seg grp ben = Some g"
  obtains v basis dir and gv :: rat and gr :: "rat option" where "g = baseOpportunityGap lc m v seg grp ben basis dir gv gr"
    "0 \<le> gv" "gr \<noteq> None \<Longrightarrow> 0 \<le> or_else gr 0"
proof -
  obtain v where v: "ms_value m = Some v" using assms by (auto simp: buildOpportunityGap_def split: option.splits)
  define dir where "dir = gapDirectionFor (pb_guardrailRelation ben)"
  define basis where "basis = (if dir = Gap_lower_is_better then Basis_peer_median else Basis_peer_p75)"
  show thesis
  proof (cases "if basis = Basis_peer_median then pb_medianValue ben else pb_p75Value ben")
    case None
    then have "g = baseOpportunityGap lc m v seg grp ben basis dir 0 None"
      using assms v by (simp add: buildOpportunityGap_def Let_def dir_def [symmetric] basis_def [symmetric] del: gapDirectionFor.simps)
    then show thesis by (rule that) simp_all
  next
    case (Some q)
    define gv where "gv = roundMetric (max 0 (if dir = Gap_higher_is_better then q - v else v - q))"
    have "g = baseOpportunityGap lc m v seg grp ben basis dir gv (if q = 0 then None else Some (roundMetric (gv / \<bar>q\<bar>)))"
      using assms v Some
      by (simp add: buildOpportunityGap_def Let_def dir_def [symmetric] basis_def [symmetric] del: gapDirectionFor.simps)
        (auto simp: gv_def)
    then show thesis by (rule that) (simp_all add: gv_def split: if_splits)
  qed
qed

lemma built_gap_sel:
  assumes "buildOpportunityGap lc m seg grp ben = Some g"
  shows "og_brandId g = ms_brandId m" "og_storeId g = ms_storeId m" "og_snapshotDate g = ms_snapshotDate m"
    "og_opportunityGapId g \<noteq> []" "og_segmentCandidateId g = sg_segmentCandidateId seg" "og_segmentLabel g = sg_label seg"
    "0 \<le> og_gapValue g" "og_gapRatio g \<noteq> None \<Longrightarrow> 0 \<le> or_else (og_gapRatio g) 0"
    "og_confidence g = (if pb_sampleStatus ben = Peer_sufficient then pb_confidence ben else 2 / 10)"
    "set (og_evidenceRefs g) = {sg_segmentCandidateId seg, ms_metricSnapshotId m, pg_peerGroupId grp, pb_peerBenchmarkId ben}"
  by (rule built_gap_form [OF assms]; simp add: baseOpportunityGap_def)+

lemma built_gap_shape:
  assumes "buildOpportunityGap lc m seg (fst (benchmark_metric lc inp t)) (snd (benchmark_metric lc inp t)) = Some g"
    and "ms_brandId m \<noteq> []" "ms_storeId m \<noteq> []" "ms_snapshotDate m \<noteq> []" "ms_metricSnapshotId m \<noteq> []"
    and "sg_segmentCandidateId seg \<noteq> []" "sg_label seg = SEGMENT_LABEL" and "r \<noteq> Some 0"
  shows "gap_fact_shape (g\<lparr>og_rank := r\<rparr>)"
proof -
  note sel = built_gap_sel [OF assms(1)]
  have "og_evidenceRefs g \<noteq> []" using sel(10) by auto
  then have "nonempty_refs (og_evidenceRefs g)"
    using assms(5,6) benchmark_metric_sel [of lc inp t] sel(10) by (auto simp: nonempty_refs_def list_all_iff nonempty_def)
  with sel(1-9) assms(2-8) benchmark_metric_sel(3) [of lc inp t] show ?thesis
    by (cases r; cases "og_gapRatio g") (auto simp: gap_fact_shape_def nonempty_def SEGMENT_LABEL_def)
qed


definition sample_gap :: OpportunityGap where
  "sample_gap = hd (bg_opportunityGaps (rebuildPeerBenchmarkOpportunityGaps default (sample_benchmark_input three_peers)))"

definition sample_context_input :: ContextBundleInput where
  "sample_context_input = \<lparr>ci_agentRunId = ''r1'', ci_sessionId = ''x1'', ci_opportunityGap = sample_gap,
     ci_createdAt = ''t5'', ci_assumptions = None, ci_allowedDraftOperations = None, ci_disallowedMutationTargets = None\<rparr>"


text \<open>The key of a peer store joins brand and store with an unescaped colon: of three peers, two whose
names join to the same key are counted as one store, so the sample is reported weak and nothing is ranked.\<close>

theorem peer_stores_collapse:
  "let benchmark = (\<lambda>peers. snd (benchmark_metric default (sample_benchmark_input peers) (sample_peer ''b1'' ''s1'' 30)))
   in (pb_peerStoreCount (benchmark three_peers), pb_sampleStatus (benchmark three_peers)) = (3, Peer_sufficient)
    \<and> (let renamed = [(''p1'', ''s1'', 40), (''p2:a'', ''s1'', 50), (''p2'', ''a:s1'', 60)]
       in (pb_peerStoreCount (benchmark renamed), pb_sampleStatus (benchmark renamed)) = (2, Peer_weak_sample))"
  by code_simp

end
