(* ===== verification/ExperimentPlans.thy ===== *)
theory ExperimentPlans
  imports ContextBundle
begin

text \<open>
  Hypotheses and experiment plans, \<open>src/src/agent/experiment-plan.ts\<close>, and their deterministic
  validation, \<open>experiment-validator.ts\<close>. What an agent hands in already has the JSON types of the
  records here; the literals, bounds and lengths the schemas ask for are \<open>hypothesis_shape\<close> and
  \<open>plan_shape\<close>, so a draft that claims to be truth or asks for writes is a value the model has.
\<close>

section \<open>Plans\<close>

datatype UncertaintyLevel = Level_low | Level_medium | Level_high

datatype ChangeKind = Change_operational_experiment | Change_customer_experience_experiment

datatype guardrail_relation = Must_not_degrade | Monitor_only

record ExperimentUncertainty =
  un_level :: UncertaintyLevel
  un_confidence :: rat
  un_assumptions :: "string list"

record InterventionHypothesis =
  hy_contractVersion :: string
  hy_hypothesisId :: string
  hy_agentRunId :: string
  hy_brandId :: string
  hy_storeId :: string
  hy_opportunityGapId :: string
  hy_truthStatus :: string
  hy_statement :: string
  hy_rationale :: string
  hy_expectedMetricId :: SnapshotMetricId
  hy_evidenceRefs :: "string list"
  hy_uncertainty :: ExperimentUncertainty
  hy_requestedCoreWrites :: "json list"

record ExperimentGuardrail =
  gr_metricId :: SnapshotMetricId
  gr_relation :: guardrail_relation
  gr_evidenceRefs :: "string list"

record ProposedIntervention =
  pi_changeKind :: ChangeKind
  pi_summary :: string
  pi_merchantEditable :: bool

record PlanMeasurement =
  me_primaryMetricId :: SnapshotMetricId
  me_metricWindow :: metric_window
  me_guardrails :: "ExperimentGuardrail list"
  me_minimumSampleStatusForLaunch :: PeerSampleStatus

record PlanSafety =
  sf_merchantConfirmationRequired :: bool
  sf_rollbackSupported :: bool
  sf_stopCriteria :: "string list"

record ExperimentPlan =
  ep_contractVersion :: string
  ep_experimentPlanId :: string
  ep_hypothesisId :: string
  ep_agentRunId :: string
  ep_brandId :: string
  ep_storeId :: string
  ep_opportunityGapId :: string
  ep_status :: string
  ep_truthStatus :: string
  ep_title :: string
  ep_objective :: string
  ep_proposedIntervention :: ProposedIntervention
  ep_measurement :: PlanMeasurement
  ep_safety :: PlanSafety
  ep_evidenceRefs :: "string list"
  ep_uncertainty :: ExperimentUncertainty
  ep_requestedCoreWrites :: "json list"

definition agent_draft_not_core_truth :: string where
  "agent_draft_not_core_truth = ''agent_draft_not_core_truth''"

definition uncertainty_shape :: "ExperimentUncertainty \<Rightarrow> bool" where
  "uncertainty_shape u \<longleftrightarrow> 0 \<le> un_confidence u \<and> un_confidence u \<le> 1 \<and> nonempty_refs (un_assumptions u)"

definition hypothesis_shape :: "InterventionHypothesis \<Rightarrow> bool" where
  "hypothesis_shape h \<longleftrightarrow>
     hy_contractVersion h = ''intervention-hypothesis.v1''
     \<and> nonempty (hy_hypothesisId h) \<and> nonempty (hy_agentRunId h) \<and> nonempty (hy_brandId h)
     \<and> nonempty (hy_storeId h) \<and> nonempty (hy_opportunityGapId h)
     \<and> hy_truthStatus h = agent_draft_not_core_truth
     \<and> nonempty (hy_statement h) \<and> nonempty (hy_rationale h)
     \<and> nonempty_refs (hy_evidenceRefs h) \<and> uncertainty_shape (hy_uncertainty h)
     \<and> hy_requestedCoreWrites h = []"

definition guardrail_shape :: "ExperimentGuardrail \<Rightarrow> bool" where
  "guardrail_shape g \<longleftrightarrow> nonempty_refs (gr_evidenceRefs g)"

definition plan_shape :: "ExperimentPlan \<Rightarrow> bool" where
  "plan_shape p \<longleftrightarrow>
     ep_contractVersion p = ''experiment-plan.v1''
     \<and> nonempty (ep_experimentPlanId p) \<and> nonempty (ep_hypothesisId p) \<and> nonempty (ep_agentRunId p)
     \<and> nonempty (ep_brandId p) \<and> nonempty (ep_storeId p) \<and> nonempty (ep_opportunityGapId p)
     \<and> ep_status p = ''draft_for_validation'' \<and> ep_truthStatus p = agent_draft_not_core_truth
     \<and> nonempty (ep_title p) \<and> nonempty (ep_objective p)
     \<and> nonempty (pi_summary (ep_proposedIntervention p)) \<and> pi_merchantEditable (ep_proposedIntervention p)
     \<and> list_all guardrail_shape (me_guardrails (ep_measurement p))
     \<and> me_minimumSampleStatusForLaunch (ep_measurement p) = Peer_sufficient
     \<and> nonempty_refs (sf_stopCriteria (ep_safety p))
     \<and> nonempty_refs (ep_evidenceRefs p) \<and> uncertainty_shape (ep_uncertainty p)
     \<and> ep_requestedCoreWrites p = []"

definition parse_plan :: "ExperimentPlan \<Rightarrow> schema_error + ExperimentPlan" where
  "parse_plan p = checked (plan_shape p) [] p"

section \<open>Validation\<close>

datatype ValidationDecision = Decision_accept | Decision_block | Decision_needs_more_data

datatype ValidationReasonCode =
  Reason_schema_invalid | Reason_identity_mismatch | Reason_missing_evidence_refs
| Reason_evidence_refs_not_from_context | Reason_missing_uncertainty_or_confidence
| Reason_merchant_confirmation_required | Reason_rollback_required | Reason_guardrail_required
| Reason_weak_or_insufficient_sample | Reason_agent_draft_not_truth | Reason_core_write_requested

record ExperimentValidationResult =
  vr_decision :: ValidationDecision
  vr_reasonCodes :: "ValidationReasonCode list"
  vr_messages :: "string list"
  vr_evidenceRefs :: "string list"

text \<open>Each check pushes a code and a message; a finding is such a pair.\<close>

type_synonym reason_finding = "ValidationReasonCode \<times> string"

definition finding_if :: "bool \<Rightarrow> ValidationReasonCode \<Rightarrow> string \<Rightarrow> reason_finding list" where
  "finding_if failed code message = (if failed then [(code, message)] else [])"

lemma finding_if_Nil [simp]: "finding_if b c m = [] \<longleftrightarrow> \<not> b"
  by (simp add: finding_if_def)

definition checkIdentity :: "AgentContextBundle \<Rightarrow> InterventionHypothesis \<Rightarrow> ExperimentPlan \<Rightarrow> reason_finding list" where
  "checkIdentity c h p =
     concat (map (\<lambda>(field, inContext, inHypothesis, inPlan).
         finding_if (inHypothesis \<noteq> inContext \<or> inPlan \<noteq> inContext) Reason_identity_mismatch
           (field @ '' must match the AgentContextBundle.''))
       [(''agentRunId'', cb_agentRunId c, hy_agentRunId h, ep_agentRunId p),
        (''brandId'', cb_brandId c, hy_brandId h, ep_brandId p),
        (''storeId'', cb_storeId c, hy_storeId h, ep_storeId p),
        (''opportunityGapId'', cb_opportunityGapId c, hy_opportunityGapId h, ep_opportunityGapId p)])
     @ finding_if (ep_hypothesisId p \<noteq> hy_hypothesisId h) Reason_identity_mismatch
         ''experimentPlan.hypothesisId must match hypothesis.hypothesisId.''"

definition checkTruthBoundary :: "InterventionHypothesis \<Rightarrow> ExperimentPlan \<Rightarrow> reason_finding list" where
  "checkTruthBoundary h p =
     finding_if (hy_truthStatus h \<noteq> agent_draft_not_core_truth \<or> ep_truthStatus p \<noteq> agent_draft_not_core_truth)
       Reason_agent_draft_not_truth ''Agent output must remain a draft and not Core truth.''
     @ finding_if (hy_requestedCoreWrites h \<noteq> [] \<or> ep_requestedCoreWrites p \<noteq> [])
         Reason_core_write_requested ''Experiment drafts must not request deterministic Core writes.''"

definition checkEvidenceRefs :: "AgentContextBundle \<Rightarrow> InterventionHypothesis \<Rightarrow> ExperimentPlan \<Rightarrow> reason_finding list" where
  "checkEvidenceRefs c h p =
     (if hy_evidenceRefs h = [] \<or> ep_evidenceRefs p = []
      then [(Reason_missing_evidence_refs, ''Hypothesis and experiment plan must include evidenceRefs.'')]
      else (let allRefs = hy_evidenceRefs h @ ep_evidenceRefs p
                  @ concat (map gr_evidenceRefs (me_guardrails (ep_measurement p)));
                unknownRefs = filter (\<lambda>ref. ref \<notin> set (cb_evidenceRefs c)) allRefs
            in finding_if (unknownRefs \<noteq> []) Reason_evidence_refs_not_from_context
                 ''Evidence refs must come from the deterministic AgentContextBundle.''))"

definition checkUncertainty :: "InterventionHypothesis \<Rightarrow> ExperimentPlan \<Rightarrow> reason_finding list" where
  "checkUncertainty h p =
     finding_if (un_confidence (hy_uncertainty h) \<le> 0 \<or> un_confidence (ep_uncertainty p) \<le> 0)
       Reason_missing_uncertainty_or_confidence
       ''Hypothesis and plan must include positive confidence in uncertainty fields.''"

definition checkSafety :: "ExperimentPlan \<Rightarrow> reason_finding list" where
  "checkSafety p =
     finding_if (\<not> sf_merchantConfirmationRequired (ep_safety p)) Reason_merchant_confirmation_required
       ''Merchant confirmation is required before any business action.''
     @ finding_if (\<not> sf_rollbackSupported (ep_safety p)) Reason_rollback_required
         ''Rollback support is required for this validator boundary.''
     @ finding_if (me_guardrails (ep_measurement p) = []) Reason_guardrail_required
         ''At least one guardrail is required.''"

definition hasBlockingReason :: "ValidationReasonCode list \<Rightarrow> bool" where
  "hasBlockingReason reasonCodes \<longleftrightarrow> list_ex (\<lambda>code. code \<noteq> Reason_weak_or_insufficient_sample) reasonCodes"

definition validation_result_shape :: "ExperimentValidationResult \<Rightarrow> bool" where
  "validation_result_shape v \<longleftrightarrow> list_all nonempty (vr_messages v) \<and> list_all nonempty (vr_evidenceRefs v)"

definition validation_result ::
  "ValidationDecision \<Rightarrow> ValidationReasonCode list \<Rightarrow> string list \<Rightarrow> string list
   \<Rightarrow> schema_error + ExperimentValidationResult" where
  "validation_result decision reasonCodes messages evidenceRefs =
     (let result = \<lparr>vr_decision = decision, vr_reasonCodes = js_unique reasonCodes, vr_messages = messages,
        vr_evidenceRefs = evidenceRefs\<rparr>
      in checked (validation_result_shape result) [] result)"

definition validation_findings :: "AgentContextBundle \<Rightarrow> InterventionHypothesis \<Rightarrow> ExperimentPlan \<Rightarrow> reason_finding list" where
  "validation_findings c h p =
     checkIdentity c h p @ checkTruthBoundary h p @ checkEvidenceRefs c h p @ checkUncertainty h p @ checkSafety p"

definition validateExperimentPlan ::
  "string comparator \<Rightarrow> AgentContextBundle \<Rightarrow> InterventionHypothesis \<Rightarrow> ExperimentPlan
   \<Rightarrow> schema_error + ExperimentValidationResult" where
  "validateExperimentPlan lc context hypothesis plan =
     (let contextOk = (parse_bundle lc context = Inr context) in
      if \<not> contextOk \<or> \<not> hypothesis_shape hypothesis \<or> \<not> plan_shape plan
      then validation_result Decision_block [Reason_schema_invalid]
             [''Context, hypothesis, and experiment plan must satisfy deterministic schemas.'']
             (if contextOk then cb_evidenceRefs context else [])
      else (let findings = validation_findings context hypothesis plan;
                reasonCodes = map fst findings; messages = map snd findings
            in if hasBlockingReason reasonCodes
               then validation_result Decision_block reasonCodes messages (ep_evidenceRefs plan)
               else if og_sampleStatus (cb_opportunityGap context) \<noteq> Peer_sufficient
               then validation_result Decision_needs_more_data (reasonCodes @ [Reason_weak_or_insufficient_sample])
                      (messages @ [''Opportunity gap peer sample is not sufficient for a validated launch decision.''])
                      (ep_evidenceRefs plan)
               else validation_result Decision_accept reasonCodes
                      [''Experiment plan passed deterministic validation.''] (ep_evidenceRefs plan)))"

end
