(* ===== verification/MerchantReview.thy ===== *)
theory MerchantReview
  imports ExperimentPlans
begin

text \<open>
  The merchant's review of an experiment plan, \<open>src/src/merchant-review/experiment-review.ts\<close>:
  submission, view, decision, the lifecycle of the action and the preference a rejection suggests.
  Every record is parsed by its schema before it is returned, so each operation is a \<open>checked\<close>
  value; \<open>dt\<close> is zod's date-time test, as in the event contract. Fields that are literals of the
  schema are kept where the code writes them.
\<close>

section \<open>Enumerations\<close>

datatype MerchantReviewActorType = Reviewer_merchant | Reviewer_employee | Reviewer_system

datatype MerchantReviewEventName =
  Review_submitted | Review_viewed | Review_accepted | Review_modified | Review_rejected
| Applied_recorded | Reverted_recorded | Preference_confirmed

fun review_event_name :: "MerchantReviewEventName \<Rightarrow> EventName" where
  "review_event_name Review_submitted = EN_mobile_hq_experiment_review_submitted"
| "review_event_name Review_viewed = EN_mobile_hq_experiment_review_viewed"
| "review_event_name Review_accepted = EN_mobile_hq_experiment_accepted"
| "review_event_name Review_modified = EN_mobile_hq_experiment_modified"
| "review_event_name Review_rejected = EN_mobile_hq_experiment_rejected"
| "review_event_name Applied_recorded = EN_mobile_hq_experiment_applied_recorded"
| "review_event_name Reverted_recorded = EN_mobile_hq_experiment_reverted_recorded"
| "review_event_name Preference_confirmed = EN_mobile_hq_merchant_preference_confirmed"

datatype ActionLifecycleState =
  Suggested | Drafted | Accepted | Rejected | Applied | Measured | Kept | Reverted | Extended | Retest_needed

fun state_text :: "ActionLifecycleState \<Rightarrow> string" where
  "state_text Suggested = ''suggested''"
| "state_text Drafted = ''drafted''"
| "state_text Accepted = ''accepted''"
| "state_text Rejected = ''rejected''"
| "state_text Applied = ''applied''"
| "state_text Measured = ''measured''"
| "state_text Kept = ''kept''"
| "state_text Reverted = ''reverted''"
| "state_text Extended = ''extended''"
| "state_text Retest_needed = ''retest_needed''"

datatype RejectionReasonCode =
  Not_relevant | Too_risky | Insufficient_evidence | Wrong_timing | Merchant_constraint | Other_reason

datatype review_decision = Decided_accepted | Decided_rejected | Decided_modified

section \<open>Records and their schemas\<close>

record MerchantReviewActor =
  ma_actorType :: MerchantReviewActorType
  ma_actorId :: string
  ma_displayName :: "string option"

definition actor_shape :: "MerchantReviewActor \<Rightarrow> bool" where
  "actor_shape a \<longleftrightarrow> nonempty (ma_actorId a) \<and> optional_nonempty (ma_displayName a)"

record MerchantReviewSubmission =
  sb_contractVersion :: string
  sb_reviewId :: string
  sb_experimentPlanId :: string
  sb_hypothesisId :: string
  sb_agentRunId :: string
  sb_brandId :: string
  sb_storeId :: string
  sb_opportunityGapId :: string
  sb_reviewStatus :: string
  sb_lifecycleState :: ActionLifecycleState
  sb_submittedAt :: string
  sb_submittedBy :: MerchantReviewActor
  sb_experimentPlan :: ExperimentPlan
  sb_validationResult :: ExperimentValidationResult
  sb_evidenceRefs :: "string list"

definition merchant_review_v1 :: string where
  "merchant_review_v1 = ''merchant-review.v1''"

definition submission_shape :: "(string \<Rightarrow> bool) \<Rightarrow> MerchantReviewSubmission \<Rightarrow> bool" where
  "submission_shape dt s \<longleftrightarrow>
     sb_contractVersion s = merchant_review_v1 \<and> nonempty (sb_reviewId s) \<and> nonempty (sb_experimentPlanId s)
     \<and> nonempty (sb_hypothesisId s) \<and> nonempty (sb_agentRunId s) \<and> nonempty (sb_brandId s)
     \<and> nonempty (sb_storeId s) \<and> nonempty (sb_opportunityGapId s)
     \<and> sb_reviewStatus s = ''submitted_for_review'' \<and> sb_lifecycleState s = Drafted
     \<and> dt (sb_submittedAt s) \<and> actor_shape (sb_submittedBy s) \<and> plan_shape (sb_experimentPlan s)
     \<and> validation_result_shape (sb_validationResult s) \<and> nonempty_refs (sb_evidenceRefs s)"

definition checkPlanIdentity :: "MerchantReviewSubmission \<Rightarrow> string list" where
  "checkPlanIdentity s =
     (let plan = sb_experimentPlan s in
      concat (map (\<lambda>(field, inPlan, expected).
          issue_if (inPlan \<noteq> expected) (field @ '' must match the submitted experiment plan.''))
        [(''experimentPlanId'', ep_experimentPlanId plan, sb_experimentPlanId s),
         (''hypothesisId'', ep_hypothesisId plan, sb_hypothesisId s),
         (''agentRunId'', ep_agentRunId plan, sb_agentRunId s),
         (''brandId'', ep_brandId plan, sb_brandId s),
         (''storeId'', ep_storeId plan, sb_storeId s),
         (''opportunityGapId'', ep_opportunityGapId plan, sb_opportunityGapId s)]))"

definition submission_issues :: "MerchantReviewSubmission \<Rightarrow> string list" where
  "submission_issues s =
     checkPlanIdentity s
     @ issue_if (vr_decision (sb_validationResult s) \<noteq> Decision_accept)
         ''Only accepted validator results can be submitted for merchant review.''
     @ concat (map (\<lambda>ref. issue_if (ref \<notin> set (ep_evidenceRefs (sb_experimentPlan s)))
         (''Unknown review evidence ref: '' @ ref)) (sb_evidenceRefs s))"

record MerchantReviewViewed =
  rv_contractVersion :: string
  rv_reviewViewId :: string
  rv_reviewId :: string
  rv_experimentPlanId :: string
  rv_brandId :: string
  rv_storeId :: string
  rv_eventName :: MerchantReviewEventName
  rv_viewedAt :: string
  rv_actor :: MerchantReviewActor
  rv_evidenceRefs :: "string list"

definition viewed_shape :: "(string \<Rightarrow> bool) \<Rightarrow> MerchantReviewViewed \<Rightarrow> bool" where
  "viewed_shape dt v \<longleftrightarrow>
     rv_contractVersion v = merchant_review_v1 \<and> nonempty (rv_reviewViewId v) \<and> nonempty (rv_reviewId v)
     \<and> nonempty (rv_experimentPlanId v) \<and> nonempty (rv_brandId v) \<and> nonempty (rv_storeId v)
     \<and> rv_eventName v = Review_viewed \<and> dt (rv_viewedAt v) \<and> actor_shape (rv_actor v)
     \<and> nonempty_refs (rv_evidenceRefs v)"

text \<open>A decision extends the base schema.\<close>

record MerchantReviewDecisionBase =
  db_contractVersion :: string
  db_decisionId :: string
  db_reviewId :: string
  db_experimentPlanId :: string
  db_brandId :: string
  db_storeId :: string
  db_decidedAt :: string
  db_actor :: MerchantReviewActor
  db_evidenceRefs :: "string list"

definition decision_base_shape :: "(string \<Rightarrow> bool) \<Rightarrow> 'a MerchantReviewDecisionBase_scheme \<Rightarrow> bool" where
  "decision_base_shape dt d \<longleftrightarrow>
     db_contractVersion d = merchant_review_v1 \<and> nonempty (db_decisionId d) \<and> nonempty (db_reviewId d)
     \<and> nonempty (db_experimentPlanId d) \<and> nonempty (db_brandId d) \<and> nonempty (db_storeId d)
     \<and> dt (db_decidedAt d) \<and> actor_shape (db_actor d) \<and> nonempty_refs (db_evidenceRefs d)"

record MerchantReviewAcceptance = MerchantReviewDecisionBase +
  da_decision :: review_decision
  da_eventName :: MerchantReviewEventName
  da_from :: ActionLifecycleState
  da_to :: ActionLifecycleState
  da_acceptanceNotes :: "string option"

definition acceptance_shape :: "(string \<Rightarrow> bool) \<Rightarrow> MerchantReviewAcceptance \<Rightarrow> bool" where
  "acceptance_shape dt d \<longleftrightarrow>
     decision_base_shape dt d \<and> da_decision d = Decided_accepted \<and> da_eventName d = Review_accepted
     \<and> da_from d = Drafted \<and> da_to d = Accepted \<and> optional_nonempty (da_acceptanceNotes d)"

record MerchantReviewRejection = MerchantReviewDecisionBase +
  dr_decision :: review_decision
  dr_eventName :: MerchantReviewEventName
  dr_from :: ActionLifecycleState
  dr_to :: ActionLifecycleState
  dr_reasonCode :: RejectionReasonCode
  dr_reasonText :: string
  dr_createsPreferenceCandidate :: bool

definition rejection_shape :: "(string \<Rightarrow> bool) \<Rightarrow> MerchantReviewRejection \<Rightarrow> bool" where
  "rejection_shape dt d \<longleftrightarrow>
     decision_base_shape dt d \<and> dr_decision d = Decided_rejected \<and> dr_eventName d = Review_rejected
     \<and> dr_from d = Drafted \<and> dr_to d = Rejected \<and> nonempty (dr_reasonText d) \<and> dr_createsPreferenceCandidate d"

record MerchantReviewModification = MerchantReviewDecisionBase +
  dm_decision :: review_decision
  dm_eventName :: MerchantReviewEventName
  dm_lifecycleState :: ActionLifecycleState
  dm_modificationSummary :: string

definition modification_shape :: "(string \<Rightarrow> bool) \<Rightarrow> MerchantReviewModification \<Rightarrow> bool" where
  "modification_shape dt d \<longleftrightarrow>
     decision_base_shape dt d \<and> dm_decision d = Decided_modified \<and> dm_eventName d = Review_modified
     \<and> dm_lifecycleState d = Drafted \<and> nonempty (dm_modificationSummary d)"

section \<open>The action lifecycle\<close>

fun allowed_next :: "ActionLifecycleState \<Rightarrow> ActionLifecycleState list" where
  "allowed_next Suggested = [Drafted]"
| "allowed_next Drafted = [Accepted, Rejected]"
| "allowed_next Accepted = [Applied]"
| "allowed_next Rejected = []"
| "allowed_next Applied = [Measured]"
| "allowed_next Measured = [Kept, Reverted, Extended, Retest_needed]"
| "allowed_next Kept = []"
| "allowed_next Reverted = []"
| "allowed_next Extended = []"
| "allowed_next Retest_needed = []"

definition canTransitionActionLifecycle :: "ActionLifecycleState \<Rightarrow> ActionLifecycleState \<Rightarrow> bool" where
  "canTransitionActionLifecycle fromState toState \<longleftrightarrow> toState \<in> set (allowed_next fromState)"

text \<open>The caller passes every field but the contract version and the mutation flag.\<close>

record ActionLifecycleInput =
  lr_lifecycleRecordId :: string
  lr_reviewId :: string
  lr_experimentPlanId :: string
  lr_brandId :: string
  lr_storeId :: string
  lr_eventName :: "MerchantReviewEventName option"
  lr_occurredAt :: string
  lr_actor :: MerchantReviewActor
  lr_fromState :: ActionLifecycleState
  lr_toState :: ActionLifecycleState
  lr_acceptanceDecisionId :: "string option"
  lr_rollbackRef :: "string option"
  lr_evidenceRefs :: "string list"

record ActionLifecycleRecord = ActionLifecycleInput +
  lr_contractVersion :: string
  lr_businessMutationCalled :: bool

definition lifecycle_shape :: "(string \<Rightarrow> bool) \<Rightarrow> ActionLifecycleRecord \<Rightarrow> bool" where
  "lifecycle_shape dt r \<longleftrightarrow>
     lr_contractVersion r = merchant_review_v1 \<and> nonempty (lr_lifecycleRecordId r) \<and> nonempty (lr_reviewId r)
     \<and> nonempty (lr_experimentPlanId r) \<and> nonempty (lr_brandId r) \<and> nonempty (lr_storeId r)
     \<and> dt (lr_occurredAt r) \<and> actor_shape (lr_actor r)
     \<and> optional_nonempty (lr_acceptanceDecisionId r) \<and> optional_nonempty (lr_rollbackRef r)
     \<and> nonempty_refs (lr_evidenceRefs r) \<and> \<not> lr_businessMutationCalled r"

definition transition_issues :: "ActionLifecycleState \<Rightarrow> ActionLifecycleState \<Rightarrow> string list" where
  "transition_issues fromState toState =
     issue_if (\<not> canTransitionActionLifecycle fromState toState)
       (''Invalid action lifecycle transition: '' @ state_text fromState @ '' -> '' @ state_text toState)"

definition lifecycle_issues :: "ActionLifecycleRecord \<Rightarrow> string list" where
  "lifecycle_issues r =
     transition_issues (lr_fromState r) (lr_toState r)
     @ issue_if (lr_toState r = Applied \<and> \<not> truthy (lr_acceptanceDecisionId r))
         ''Apply records require an explicit merchant acceptance decision.''
     @ issue_if ((lr_toState r = Applied \<or> lr_toState r = Reverted) \<and> \<not> truthy (lr_rollbackRef r))
         ''Apply/revert records require rollback contract reference.''
     @ issue_if (lr_toState r = Applied \<and> lr_eventName r \<noteq> Some Applied_recorded)
         ''Applied records must use the bounded mobile_hq applied event name.''
     @ issue_if (lr_toState r = Reverted \<and> lr_eventName r \<noteq> Some Reverted_recorded)
         ''Reverted records must use the bounded mobile_hq reverted event name.''"

definition recordActionLifecycleTransition ::
  "(string \<Rightarrow> bool) \<Rightarrow> ActionLifecycleInput \<Rightarrow> schema_error + ActionLifecycleRecord" where
  "recordActionLifecycleTransition dt input =
     (let r = ActionLifecycleInput.extend input
            (ActionLifecycleRecord.fields merchant_review_v1 False)
      in checked (lifecycle_shape dt r) (lifecycle_issues r) r)"

section \<open>Submission, view and decisions\<close>

definition submitExperimentPlanForMerchantReview ::
  "(string \<Rightarrow> bool) \<Rightarrow> string \<Rightarrow> ExperimentPlan \<Rightarrow> ExperimentValidationResult \<Rightarrow> string
   \<Rightarrow> MerchantReviewActor option \<Rightarrow> schema_error + MerchantReviewSubmission" where
  "submitExperimentPlanForMerchantReview dt reviewId plan validationResult submittedAt submittedBy =
     (let s = \<lparr>sb_contractVersion = merchant_review_v1, sb_reviewId = reviewId,
               sb_experimentPlanId = ep_experimentPlanId plan, sb_hypothesisId = ep_hypothesisId plan,
               sb_agentRunId = ep_agentRunId plan, sb_brandId = ep_brandId plan, sb_storeId = ep_storeId plan,
               sb_opportunityGapId = ep_opportunityGapId plan, sb_reviewStatus = ''submitted_for_review'',
               sb_lifecycleState = Drafted, sb_submittedAt = submittedAt,
               sb_submittedBy = or_else submittedBy
                 \<lparr>ma_actorType = Reviewer_system, ma_actorId = ''data-dyna-agent'', ma_displayName = None\<rparr>,
               sb_experimentPlan = plan, sb_validationResult = validationResult,
               sb_evidenceRefs = ep_evidenceRefs plan\<rparr>
      in checked (submission_shape dt s) (submission_issues s) s)"

definition recordExperimentReviewViewed ::
  "(string \<Rightarrow> bool) \<Rightarrow> MerchantReviewSubmission \<Rightarrow> string \<Rightarrow> string \<Rightarrow> MerchantReviewActor
   \<Rightarrow> schema_error + MerchantReviewViewed" where
  "recordExperimentReviewViewed dt submission reviewViewId viewedAt actor =
     (let v = \<lparr>rv_contractVersion = merchant_review_v1, rv_reviewViewId = reviewViewId,
               rv_reviewId = sb_reviewId submission, rv_experimentPlanId = sb_experimentPlanId submission,
               rv_brandId = sb_brandId submission, rv_storeId = sb_storeId submission,
               rv_eventName = Review_viewed, rv_viewedAt = viewedAt, rv_actor = actor,
               rv_evidenceRefs = sb_evidenceRefs submission\<rparr>
      in checked (viewed_shape dt v) [] v)"

record DecisionInput =
  di_submission :: MerchantReviewSubmission
  di_decisionId :: string
  di_decidedAt :: string
  di_actor :: MerchantReviewActor

definition decisionBase :: "DecisionInput \<Rightarrow> MerchantReviewDecisionBase" where
  "decisionBase input =
     \<lparr>db_contractVersion = merchant_review_v1, db_decisionId = di_decisionId input,
      db_reviewId = sb_reviewId (di_submission input),
      db_experimentPlanId = sb_experimentPlanId (di_submission input),
      db_brandId = sb_brandId (di_submission input), db_storeId = sb_storeId (di_submission input),
      db_decidedAt = di_decidedAt input, db_actor = di_actor input,
      db_evidenceRefs = sb_evidenceRefs (di_submission input)\<rparr>"

definition acceptExperimentReview ::
  "(string \<Rightarrow> bool) \<Rightarrow> DecisionInput \<Rightarrow> string option \<Rightarrow> schema_error + MerchantReviewAcceptance" where
  "acceptExperimentReview dt input acceptanceNotes =
     (let d = MerchantReviewDecisionBase.extend (decisionBase input)
            (MerchantReviewAcceptance.fields Decided_accepted Review_accepted Drafted Accepted acceptanceNotes)
      in checked (acceptance_shape dt d) [] d)"

definition rejectExperimentReview ::
  "(string \<Rightarrow> bool) \<Rightarrow> DecisionInput \<Rightarrow> RejectionReasonCode \<Rightarrow> string \<Rightarrow> schema_error + MerchantReviewRejection" where
  "rejectExperimentReview dt input reasonCode reasonText =
     (let d = MerchantReviewDecisionBase.extend (decisionBase input)
            (MerchantReviewRejection.fields Decided_rejected Review_rejected Drafted Rejected reasonCode reasonText True)
      in checked (rejection_shape dt d) [] d)"

definition recordExperimentReviewModification ::
  "(string \<Rightarrow> bool) \<Rightarrow> DecisionInput \<Rightarrow> string \<Rightarrow> schema_error + MerchantReviewModification" where
  "recordExperimentReviewModification dt input modificationSummary =
     (let d = MerchantReviewDecisionBase.extend (decisionBase input)
            (MerchantReviewModification.fields Decided_modified Review_modified Drafted modificationSummary)
      in checked (modification_shape dt d) [] d)"

section \<open>Preferences\<close>

record PreferenceCandidateFromRejection =
  pc_contractVersion :: string
  pc_preferenceCandidateId :: string
  pc_reviewId :: string
  pc_experimentPlanId :: string
  pc_brandId :: string
  pc_storeId :: string
  pc_rejectionDecisionId :: string
  pc_status :: string
  pc_candidateKey :: string
  pc_candidateValue :: string
  pc_reasonText :: string
  pc_createdAt :: string
  pc_evidenceRefs :: "string list"

definition candidate_shape :: "(string \<Rightarrow> bool) \<Rightarrow> PreferenceCandidateFromRejection \<Rightarrow> bool" where
  "candidate_shape dt c \<longleftrightarrow>
     pc_contractVersion c = merchant_review_v1 \<and> nonempty (pc_preferenceCandidateId c) \<and> nonempty (pc_reviewId c)
     \<and> nonempty (pc_experimentPlanId c) \<and> nonempty (pc_brandId c) \<and> nonempty (pc_storeId c)
     \<and> nonempty (pc_rejectionDecisionId c) \<and> pc_status c = ''candidate_pending_confirmation''
     \<and> nonempty (pc_candidateKey c) \<and> nonempty (pc_candidateValue c) \<and> nonempty (pc_reasonText c)
     \<and> dt (pc_createdAt c) \<and> nonempty_refs (pc_evidenceRefs c)"

definition createPreferenceCandidateFromRejection ::
  "(string \<Rightarrow> bool) \<Rightarrow> MerchantReviewRejection \<Rightarrow> string \<Rightarrow> string \<Rightarrow> string \<Rightarrow> string
   \<Rightarrow> schema_error + PreferenceCandidateFromRejection" where
  "createPreferenceCandidateFromRejection dt rejection preferenceCandidateId candidateKey candidateValue createdAt =
     (let c = \<lparr>pc_contractVersion = merchant_review_v1, pc_preferenceCandidateId = preferenceCandidateId,
               pc_reviewId = db_reviewId rejection, pc_experimentPlanId = db_experimentPlanId rejection,
               pc_brandId = db_brandId rejection, pc_storeId = db_storeId rejection,
               pc_rejectionDecisionId = db_decisionId rejection,
               pc_status = ''candidate_pending_confirmation'', pc_candidateKey = candidateKey,
               pc_candidateValue = candidateValue, pc_reasonText = dr_reasonText rejection,
               pc_createdAt = createdAt, pc_evidenceRefs = db_evidenceRefs rejection\<rparr>
      in checked (candidate_shape dt c) [] c)"

record MerchantPreferenceConfirmation =
  pf_contractVersion :: string
  pf_preferenceId :: string
  pf_preferenceCandidateId :: string
  pf_brandId :: string
  pf_storeId :: string
  pf_eventName :: MerchantReviewEventName
  pf_status :: string
  pf_preferenceKey :: string
  pf_preferenceValue :: string
  pf_confirmedAt :: string
  pf_confirmedBy :: MerchantReviewActor
  pf_evidenceRefs :: "string list"

definition confirmation_shape :: "(string \<Rightarrow> bool) \<Rightarrow> MerchantPreferenceConfirmation \<Rightarrow> bool" where
  "confirmation_shape dt c \<longleftrightarrow>
     pf_contractVersion c = merchant_review_v1 \<and> nonempty (pf_preferenceId c)
     \<and> nonempty (pf_preferenceCandidateId c) \<and> nonempty (pf_brandId c) \<and> nonempty (pf_storeId c)
     \<and> pf_eventName c = Preference_confirmed \<and> pf_status c = ''confirmed'' \<and> nonempty (pf_preferenceKey c)
     \<and> nonempty (pf_preferenceValue c) \<and> dt (pf_confirmedAt c) \<and> actor_shape (pf_confirmedBy c)
     \<and> nonempty_refs (pf_evidenceRefs c)"

definition confirmMerchantPreference ::
  "(string \<Rightarrow> bool) \<Rightarrow> PreferenceCandidateFromRejection \<Rightarrow> string \<Rightarrow> string \<Rightarrow> MerchantReviewActor
   \<Rightarrow> schema_error + MerchantPreferenceConfirmation" where
  "confirmMerchantPreference dt candidate preferenceId confirmedAt confirmedBy =
     (let c = \<lparr>pf_contractVersion = merchant_review_v1, pf_preferenceId = preferenceId,
               pf_preferenceCandidateId = pc_preferenceCandidateId candidate,
               pf_brandId = pc_brandId candidate, pf_storeId = pc_storeId candidate,
               pf_eventName = Preference_confirmed, pf_status = ''confirmed'',
               pf_preferenceKey = pc_candidateKey candidate, pf_preferenceValue = pc_candidateValue candidate,
               pf_confirmedAt = confirmedAt, pf_confirmedBy = confirmedBy,
               pf_evidenceRefs = pc_evidenceRefs candidate\<rparr>
      in checked (confirmation_shape dt c) [] c)"

section \<open>Events of the review\<close>

record MerchantActionEventInput =
  ai_name :: MerchantReviewEventName
  ai_eventId :: string
  ai_occurredAt :: string
  ai_producerService :: string
  ai_brandId :: string
  ai_storeId :: string
  ai_actorId :: string
  ai_experimentPlanId :: string
  ai_reviewId :: "string option"
  ai_preferenceId :: "string option"
  ai_properties :: "(string \<times> json) list option"

definition merchantReviewEventEntity :: "MerchantActionEventInput \<Rightarrow> Entity" where
  "merchantReviewEventEntity input =
     (if ai_name input = Review_submitted \<or> ai_name input = Review_viewed
      then \<lparr>ent_type = Ent_experiment_review, ent_id = or_else (ai_reviewId input) (ai_experimentPlanId input),
            ent_version = None\<rparr>
      else if ai_name input = Preference_confirmed
      then \<lparr>ent_type = Ent_merchant_preference, ent_id = or_else (ai_preferenceId input) (ai_experimentPlanId input),
            ent_version = None\<rparr>
      else \<lparr>ent_type = Ent_experiment_plan, ent_id = ai_experimentPlanId input, ent_version = None\<rparr>)"

definition merchant_action_event :: "MerchantActionEventInput \<Rightarrow> DataDynaEvent" where
  "merchant_action_event input =
     \<lparr>ev_version = V_event_contract_v1, ev_source = Src_mobile_hq, ev_domain = Dom_merchant_action,
      ev_name = review_event_name (ai_name input), ev_occurredAt = ai_occurredAt input,
      ev_producer = \<lparr>prd_service = ai_producerService input, prd_app = Some ''mobile-hq'',
        prd_environment = Some Env_test, prd_emittedAt = ai_occurredAt input,
        prd_schemaRef = Some ''data-dyna.event-contract.v1''\<rparr>,
      ev_identity = \<lparr>idt_brandId = Some (ai_brandId input), idt_storeId = Some (ai_storeId input),
        idt_merchantId = Some (ai_actorId input), idt_memberId = None, idt_customerId = None,
        idt_deviceId = None, idt_actorType = Some Act_merchant\<rparr>,
      ev_correlation = \<lparr>cor_eventId = ai_eventId input, cor_traceId = None, cor_sessionId = None,
        cor_requestId = None, cor_causationId = None, cor_correlationId = Some (ai_experimentPlanId input)\<rparr>,
      ev_entity = merchantReviewEventEntity input,
      ev_properties = or_else (ai_properties input) [],
      ev_idempotency = \<lparr>idm_key = ''mobile-hq:'' @ ai_eventId input, idm_scope = Scope_producer\<rparr>\<rparr>"

definition buildMobileHqMerchantActionEvent ::
  "(string \<Rightarrow> bool) \<Rightarrow> MerchantActionEventInput \<Rightarrow> DataDynaEvent option" where
  "buildMobileHqMerchantActionEvent dt input = parseDataDynaEvent dt (merchant_action_event input)"

end
