(* ===== verification/Evidence.thy ===== *)
theory Evidence
  imports MerchantReview
begin

text \<open>
  The evidence about an applied experiment, \<open>src/src/evidence/evidence-store.ts\<close>: the effect on the
  primary metric, the result of each guardrail, the trajectory that ties them to the merchant's
  acceptance, and the record of it all. A failed schema and a thrown \<open>Error\<close> are the two kinds of
  \<open>evidence_error\<close>. Metric numbers are exact rationals, as in the snapshots.
\<close>

section \<open>Enumerations\<close>

datatype EvidenceSampleStatus = Sample_sufficient | Sample_weak | Sample_needs_more_data

datatype EvidenceConfidenceLabel = Confidence_medium | Confidence_low | Confidence_needs_more_data

datatype MetricDirection = Higher_is_better | Lower_is_better

datatype MetricEffectOutcome = Effect_improved | Effect_unchanged | Effect_degraded | Effect_needs_more_data

datatype GuardrailOutcome = Guard_passed | Guard_degraded | Guard_observed | Guard_needs_more_data

datatype EvidenceVerdict =
  Verdict_clean_success | Verdict_mixed_guardrail_degraded | Verdict_no_clear_lift | Verdict_needs_more_data

fun verdict_text :: "EvidenceVerdict \<Rightarrow> string" where
  "verdict_text Verdict_clean_success = ''clean_success''"
| "verdict_text Verdict_mixed_guardrail_degraded = ''mixed_guardrail_degraded''"
| "verdict_text Verdict_no_clear_lift = ''no_clear_lift''"
| "verdict_text Verdict_needs_more_data = ''needs_more_data''"

datatype EvidenceInterpretation = Interp_directional_before_after | Interp_missing_or_weak_sample

datatype evidence_error = Unparsable schema_error | Thrown string

fun parsed :: "schema_error + 'a \<Rightarrow> evidence_error + 'a" where
  "parsed (Inl e) = Inl (Unparsable e)"
| "parsed (Inr v) = Inr v"

lemma parsed_Inr_iff [simp]: "parsed x = Inr v \<longleftrightarrow> x = Inr v"
  by (cases x) simp_all

lemma parsed_Inl_iff: "parsed x = Inl e \<longleftrightarrow> (\<exists>s. x = Inl s \<and> e = Unparsable s)"
  by (cases x) auto

section \<open>Schemas\<close>

definition evidence_store_v1 :: string where
  "evidence_store_v1 = ''evidence-store.v1''"

record ActionEffect =
  ae_contractVersion :: string
  ae_actionEffectId :: string
  ae_experimentPlanId :: string
  ae_brandId :: string
  ae_storeId :: string
  ae_metricId :: SnapshotMetricId
  ae_beforeMetricSnapshotId :: string
  ae_afterMetricSnapshotId :: string
  ae_beforeValue :: "rat option"
  ae_afterValue :: "rat option"
  ae_deltaValue :: "rat option"
  ae_deltaRatio :: "rat option"
  ae_direction :: MetricDirection
  ae_sampleStatus :: EvidenceSampleStatus
  ae_confidenceLabel :: EvidenceConfidenceLabel
  ae_outcome :: MetricEffectOutcome
  ae_interpretation :: EvidenceInterpretation
  ae_evidenceRefs :: "string list"

definition effect_shape :: "ActionEffect \<Rightarrow> bool" where
  "effect_shape e \<longleftrightarrow>
     ae_contractVersion e = evidence_store_v1 \<and> nonempty (ae_actionEffectId e) \<and> nonempty (ae_experimentPlanId e)
     \<and> nonempty (ae_brandId e) \<and> nonempty (ae_storeId e) \<and> nonempty (ae_beforeMetricSnapshotId e)
     \<and> nonempty (ae_afterMetricSnapshotId e) \<and> nonempty_refs (ae_evidenceRefs e)"

definition effect_issues :: "ActionEffect \<Rightarrow> string list" where
  "effect_issues e =
     issue_if (ae_sampleStatus e = Sample_needs_more_data \<and> ae_outcome e \<noteq> Effect_needs_more_data)
       ''needs_more_data samples must not produce a metric outcome.''
     @ issue_if (ae_sampleStatus e \<noteq> Sample_needs_more_data \<and> ae_deltaValue e = None)
         ''measurable effects require deterministic value deltas; deltaRatio may be null when baseline is zero.''"

record GuardrailResult =
  gd_contractVersion :: string
  gd_guardrailResultId :: string
  gd_experimentPlanId :: string
  gd_brandId :: string
  gd_storeId :: string
  gd_metricId :: SnapshotMetricId
  gd_relation :: guardrail_relation
  gd_beforeMetricSnapshotId :: string
  gd_afterMetricSnapshotId :: string
  gd_beforeValue :: "rat option"
  gd_afterValue :: "rat option"
  gd_deltaValue :: "rat option"
  gd_direction :: MetricDirection
  gd_sampleStatus :: EvidenceSampleStatus
  gd_confidenceLabel :: EvidenceConfidenceLabel
  gd_outcome :: GuardrailOutcome
  gd_interpretation :: EvidenceInterpretation
  gd_evidenceRefs :: "string list"

definition guardrail_result_shape :: "GuardrailResult \<Rightarrow> bool" where
  "guardrail_result_shape g \<longleftrightarrow>
     gd_contractVersion g = evidence_store_v1 \<and> nonempty (gd_guardrailResultId g) \<and> nonempty (gd_experimentPlanId g)
     \<and> nonempty (gd_brandId g) \<and> nonempty (gd_storeId g) \<and> nonempty (gd_beforeMetricSnapshotId g)
     \<and> nonempty (gd_afterMetricSnapshotId g) \<and> nonempty_refs (gd_evidenceRefs g)"

record InterventionTrajectory =
  tr_contractVersion :: string
  tr_interventionTrajectoryId :: string
  tr_experimentPlanId :: string
  tr_reviewId :: string
  tr_acceptanceDecisionId :: string
  tr_appliedLifecycleRecordId :: string
  tr_brandId :: string
  tr_storeId :: string
  tr_primaryActionEffectId :: string
  tr_guardrailResultIds :: "string list"
  tr_adoptionRefs :: "string list"
  tr_overallVerdict :: EvidenceVerdict
  tr_interpretation :: EvidenceInterpretation
  tr_evidenceRefs :: "string list"

definition trajectory_shape :: "InterventionTrajectory \<Rightarrow> bool" where
  "trajectory_shape t \<longleftrightarrow>
     tr_contractVersion t = evidence_store_v1 \<and> nonempty (tr_interventionTrajectoryId t)
     \<and> nonempty (tr_experimentPlanId t) \<and> nonempty (tr_reviewId t) \<and> nonempty (tr_acceptanceDecisionId t)
     \<and> nonempty (tr_appliedLifecycleRecordId t) \<and> nonempty (tr_brandId t) \<and> nonempty (tr_storeId t)
     \<and> nonempty (tr_primaryActionEffectId t) \<and> list_all nonempty (tr_guardrailResultIds t)
     \<and> nonempty_refs (tr_adoptionRefs t) \<and> nonempty_refs (tr_evidenceRefs t)"

definition trajectory_issues :: "InterventionTrajectory \<Rightarrow> string list" where
  "trajectory_issues t =
     issue_if (tr_appliedLifecycleRecordId t \<notin> set (tr_adoptionRefs t))
       ''Evidence trajectories must include merchant adoption refs.''"

record EvidenceRecord =
  er_contractVersion :: string
  er_evidenceRecordId :: string
  er_interventionTrajectoryId :: string
  er_segmentRef :: string
  er_opportunityGapId :: string
  er_experimentPlanId :: string
  er_outcomeRef :: string
  er_guardrailRefs :: "string list"
  er_adoptionRefs :: "string list"
  er_verdict :: EvidenceVerdict
  er_interpretation :: EvidenceInterpretation
  er_evidenceRefs :: "string list"
  er_reproducibleInputRefs :: "string list"
  er_llmGeneratedClaims :: "json list"

definition evidence_record_shape :: "EvidenceRecord \<Rightarrow> bool" where
  "evidence_record_shape r \<longleftrightarrow>
     er_contractVersion r = evidence_store_v1 \<and> nonempty (er_evidenceRecordId r)
     \<and> nonempty (er_interventionTrajectoryId r) \<and> nonempty (er_segmentRef r) \<and> nonempty (er_opportunityGapId r)
     \<and> nonempty (er_experimentPlanId r) \<and> nonempty (er_outcomeRef r) \<and> list_all nonempty (er_guardrailRefs r)
     \<and> nonempty_refs (er_adoptionRefs r) \<and> nonempty_refs (er_evidenceRefs r)
     \<and> nonempty_refs (er_reproducibleInputRefs r) \<and> er_llmGeneratedClaims r = []"

section \<open>Reading a pair of snapshots\<close>

definition assertMetricPair ::
  "ExperimentPlan \<Rightarrow> SnapshotMetricId \<Rightarrow> MetricSnapshot \<Rightarrow> MetricSnapshot \<Rightarrow> evidence_error + unit" where
  "assertMetricPair plan metricId b a =
     (if ms_brandId b \<noteq> ep_brandId plan \<or> ms_brandId a \<noteq> ep_brandId plan
         \<or> ms_storeId b \<noteq> ep_storeId plan \<or> ms_storeId a \<noteq> ep_storeId plan
      then Inl (Thrown ''Metric snapshots must belong to the experiment plan store.'')
      else if md_metricId (ms_definition b) \<noteq> metricId \<or> md_metricId (ms_definition a) \<noteq> metricId
      then Inl (Thrown ''Metric snapshots must match the requested experiment metric.'')
      else Inr ())"

definition directionFor :: "GuardrailRelation \<Rightarrow> MetricDirection" where
  "directionFor relation = (if relation = Rel_negative_guardrail then Lower_is_better else Higher_is_better)"

definition sampleStatusFor :: "MetricSnapshot \<Rightarrow> MetricSnapshot \<Rightarrow> rat option \<Rightarrow> EvidenceSampleStatus" where
  "sampleStatusFor b a minDenominator =
     (if ms_value b = None \<or> ms_value a = None \<or> ms_denominatorValue b = 0 \<or> ms_denominatorValue a = 0
      then Sample_needs_more_data
      else if ms_denominatorValue b < or_else minDenominator 10 \<or> ms_denominatorValue a < or_else minDenominator 10
      then Sample_weak else Sample_sufficient)"

definition measurable :: "EvidenceSampleStatus \<Rightarrow> MetricSnapshot \<Rightarrow> MetricSnapshot \<Rightarrow> bool" where
  "measurable sampleStatus b a \<longleftrightarrow>
     sampleStatus \<noteq> Sample_needs_more_data \<and> ms_value b \<noteq> None \<and> ms_value a \<noteq> None"

fun confidenceLabelFor :: "EvidenceSampleStatus \<Rightarrow> EvidenceConfidenceLabel" where
  "confidenceLabelFor Sample_sufficient = Confidence_medium"
| "confidenceLabelFor Sample_weak = Confidence_low"
| "confidenceLabelFor Sample_needs_more_data = Confidence_needs_more_data"

definition interpretationFor :: "EvidenceSampleStatus \<Rightarrow> EvidenceInterpretation" where
  "interpretationFor sampleStatus =
     (if sampleStatus = Sample_sufficient then Interp_directional_before_after else Interp_missing_or_weak_sample)"

definition outcomeFor :: "rat option \<Rightarrow> MetricDirection \<Rightarrow> EvidenceSampleStatus \<Rightarrow> MetricEffectOutcome" where
  "outcomeFor deltaValue direction sampleStatus =
     (case deltaValue of
        None \<Rightarrow> Effect_needs_more_data
      | Some d \<Rightarrow>
          if sampleStatus = Sample_needs_more_data then Effect_needs_more_data
          else if d = 0 then Effect_unchanged
          else if (if direction = Higher_is_better then 0 < d else d < 0) then Effect_improved
          else Effect_degraded)"

definition delta_value :: "EvidenceSampleStatus \<Rightarrow> MetricSnapshot \<Rightarrow> MetricSnapshot \<Rightarrow> rat option" where
  "delta_value sampleStatus b a =
     (if measurable sampleStatus b a
      then Some (roundMetric (or_else (ms_value a) 0 - or_else (ms_value b) 0)) else None)"

definition delta_ratio :: "rat option \<Rightarrow> rat option \<Rightarrow> rat option" where
  "delta_ratio deltaValue beforeValue =
     (case (deltaValue, beforeValue) of
        (Some d, Some v) \<Rightarrow> if v = 0 then None else Some (roundMetric (d / \<bar>v\<bar>))
      | _ \<Rightarrow> None)"

section \<open>Effects and guardrail results\<close>

definition reviewActionEffect ::
  "string comparator \<Rightarrow> string \<Rightarrow> ExperimentPlan \<Rightarrow> MetricSnapshot \<Rightarrow> MetricSnapshot \<Rightarrow> rat option
   \<Rightarrow> evidence_error + ActionEffect" where
  "reviewActionEffect lc actionEffectId experimentPlan b a minDenominator =
     and_then (parsed (parse_plan experimentPlan)) (\<lambda>plan.
     and_then (assertMetricPair plan (me_primaryMetricId (ep_measurement plan)) b a) (\<lambda>_.
     let direction = directionFor (md_guardrailRelation (ms_definition b));
         sampleStatus = sampleStatusFor b a minDenominator;
         deltaValue = delta_value sampleStatus b a;
         e = \<lparr>ae_contractVersion = evidence_store_v1, ae_actionEffectId = actionEffectId,
              ae_experimentPlanId = ep_experimentPlanId plan, ae_brandId = ep_brandId plan,
              ae_storeId = ep_storeId plan, ae_metricId = me_primaryMetricId (ep_measurement plan),
              ae_beforeMetricSnapshotId = ms_metricSnapshotId b, ae_afterMetricSnapshotId = ms_metricSnapshotId a,
              ae_beforeValue = ms_value b, ae_afterValue = ms_value a, ae_deltaValue = deltaValue,
              ae_deltaRatio = delta_ratio deltaValue (ms_value b), ae_direction = direction,
              ae_sampleStatus = sampleStatus, ae_confidenceLabel = confidenceLabelFor sampleStatus,
              ae_outcome = outcomeFor deltaValue direction sampleStatus,
              ae_interpretation = interpretationFor sampleStatus,
              ae_evidenceRefs = uniqueSorted lc ([ms_metricSnapshotId b, ms_metricSnapshotId a]
                @ ms_evidenceRefs b @ ms_evidenceRefs a @ ep_evidenceRefs plan)\<rparr>
     in parsed (checked (effect_shape e) (effect_issues e) e)))"

definition guardrail_outcome ::
  "guardrail_relation \<Rightarrow> rat option \<Rightarrow> MetricDirection \<Rightarrow> EvidenceSampleStatus \<Rightarrow> GuardrailOutcome" where
  "guardrail_outcome relation deltaValue direction sampleStatus =
     (let degradation = deltaValue \<noteq> None \<and> outcomeFor deltaValue direction sampleStatus = Effect_degraded
      in if sampleStatus = Sample_needs_more_data then Guard_needs_more_data
         else if relation = Monitor_only then Guard_observed
         else if degradation then Guard_degraded else Guard_passed)"

definition missing_guardrail_result ::
  "string comparator \<Rightarrow> string \<Rightarrow> ExperimentPlan \<Rightarrow> ExperimentGuardrail \<Rightarrow> GuardrailResult" where
  "missing_guardrail_result lc guardrailResultId plan guardrail =
     \<lparr>gd_contractVersion = evidence_store_v1, gd_guardrailResultId = guardrailResultId,
      gd_experimentPlanId = ep_experimentPlanId plan, gd_brandId = ep_brandId plan, gd_storeId = ep_storeId plan,
      gd_metricId = gr_metricId guardrail, gd_relation = gr_relation guardrail,
      gd_beforeMetricSnapshotId = ''missing_before:'' @ metric_text (gr_metricId guardrail),
      gd_afterMetricSnapshotId = ''missing_after:'' @ metric_text (gr_metricId guardrail),
      gd_beforeValue = None, gd_afterValue = None, gd_deltaValue = None, gd_direction = Higher_is_better,
      gd_sampleStatus = Sample_needs_more_data, gd_confidenceLabel = Confidence_needs_more_data,
      gd_outcome = Guard_needs_more_data, gd_interpretation = Interp_missing_or_weak_sample,
      gd_evidenceRefs = uniqueSorted lc (gr_evidenceRefs guardrail @ ep_evidenceRefs plan)\<rparr>"

definition measured_guardrail_result ::
  "string comparator \<Rightarrow> string \<Rightarrow> ExperimentPlan \<Rightarrow> ExperimentGuardrail \<Rightarrow> MetricSnapshot \<Rightarrow> MetricSnapshot
   \<Rightarrow> rat option \<Rightarrow> GuardrailResult" where
  "measured_guardrail_result lc guardrailResultId plan guardrail b a minDenominator =
     (let direction = directionFor (md_guardrailRelation (ms_definition b));
          sampleStatus = sampleStatusFor b a minDenominator;
          deltaValue = delta_value sampleStatus b a
      in \<lparr>gd_contractVersion = evidence_store_v1, gd_guardrailResultId = guardrailResultId,
          gd_experimentPlanId = ep_experimentPlanId plan, gd_brandId = ep_brandId plan, gd_storeId = ep_storeId plan,
          gd_metricId = gr_metricId guardrail, gd_relation = gr_relation guardrail,
          gd_beforeMetricSnapshotId = ms_metricSnapshotId b, gd_afterMetricSnapshotId = ms_metricSnapshotId a,
          gd_beforeValue = ms_value b, gd_afterValue = ms_value a, gd_deltaValue = deltaValue,
          gd_direction = direction, gd_sampleStatus = sampleStatus,
          gd_confidenceLabel = confidenceLabelFor sampleStatus,
          gd_outcome = guardrail_outcome (gr_relation guardrail) deltaValue direction sampleStatus,
          gd_interpretation = interpretationFor sampleStatus,
          gd_evidenceRefs = uniqueSorted lc ([ms_metricSnapshotId b, ms_metricSnapshotId a]
            @ ms_evidenceRefs b @ ms_evidenceRefs a @ gr_evidenceRefs guardrail @ ep_evidenceRefs plan)\<rparr>)"

definition parse_guardrail_result :: "GuardrailResult \<Rightarrow> evidence_error + GuardrailResult" where
  "parse_guardrail_result g = parsed (checked (guardrail_result_shape g) [] g)"

definition reviewGuardrailResult ::
  "string comparator \<Rightarrow> string \<Rightarrow> ExperimentPlan \<Rightarrow> ExperimentGuardrail \<Rightarrow> MetricSnapshot option
   \<Rightarrow> MetricSnapshot option \<Rightarrow> rat option \<Rightarrow> evidence_error + GuardrailResult" where
  "reviewGuardrailResult lc guardrailResultId experimentPlan guardrail beforeSnapshot afterSnapshot minDenominator =
     and_then (parsed (parse_plan experimentPlan)) (\<lambda>plan.
     case (beforeSnapshot, afterSnapshot) of
       (Some b, Some a) \<Rightarrow>
         and_then (assertMetricPair plan (gr_metricId guardrail) b a) (\<lambda>_.
           parse_guardrail_result (measured_guardrail_result lc guardrailResultId plan guardrail b a minDenominator))
     | _ \<Rightarrow> parse_guardrail_result (missing_guardrail_result lc guardrailResultId plan guardrail))"

section \<open>The trajectory\<close>

definition verdictFor :: "ActionEffect \<Rightarrow> GuardrailResult list \<Rightarrow> EvidenceVerdict" where
  "verdictFor actionEffect guardrailResults =
     (if ae_outcome actionEffect = Effect_needs_more_data
         \<or> list_ex (\<lambda>g. gd_outcome g = Guard_needs_more_data) guardrailResults then Verdict_needs_more_data
      else if list_ex (\<lambda>g. gd_outcome g = Guard_degraded) guardrailResults then Verdict_mixed_guardrail_degraded
      else if ae_outcome actionEffect = Effect_improved then Verdict_clean_success
      else Verdict_no_clear_lift)"

record TrajectoryInput =
  ti_interventionTrajectoryId :: string
  ti_experimentPlan :: ExperimentPlan
  ti_acceptance :: MerchantReviewAcceptance
  ti_appliedLifecycleRecord :: ActionLifecycleRecord
  ti_actionEffect :: ActionEffect
  ti_guardrailResults :: "GuardrailResult list"

definition other_store_result :: "string \<Rightarrow> string \<Rightarrow> string \<Rightarrow> GuardrailResult \<Rightarrow> bool" where
  "other_store_result planId brandId storeId g \<longleftrightarrow>
     gd_experimentPlanId g \<noteq> planId \<or> gd_brandId g \<noteq> brandId \<or> gd_storeId g \<noteq> storeId"

definition trajectory_throws :: "ExperimentPlan \<Rightarrow> TrajectoryInput \<Rightarrow> evidence_error + unit" where
  "trajectory_throws plan input =
     and_then (throw_if (db_experimentPlanId (ti_acceptance input) \<noteq> ep_experimentPlanId plan
         \<or> lr_experimentPlanId (ti_appliedLifecycleRecord input) \<noteq> ep_experimentPlanId plan)
       (Thrown ''Trajectory inputs must reference the same experiment plan.'')) (\<lambda>_.
     and_then (throw_if (lr_toState (ti_appliedLifecycleRecord input) \<noteq> Applied)
       (Thrown ''Intervention trajectory requires an applied merchant lifecycle record.'')) (\<lambda>_.
     and_then (throw_if (ae_experimentPlanId (ti_actionEffect input) \<noteq> ep_experimentPlanId plan
         \<or> ae_brandId (ti_actionEffect input) \<noteq> ep_brandId plan \<or> ae_storeId (ti_actionEffect input) \<noteq> ep_storeId plan)
       (Thrown ''Action effect must reference the same experiment plan and store as the trajectory.'')) (\<lambda>_.
     and_then (throw_if (ae_metricId (ti_actionEffect input) \<noteq> me_primaryMetricId (ep_measurement plan))
       (Thrown ''Action effect must measure the experiment primary metric.'')) (\<lambda>_.
     throw_if (list_ex (other_store_result (ep_experimentPlanId plan) (ep_brandId plan) (ep_storeId plan))
         (ti_guardrailResults input))
       (Thrown ''Guardrail results must reference the same experiment plan and store as the trajectory.'')))))"

definition assembleInterventionTrajectory ::
  "string comparator \<Rightarrow> TrajectoryInput \<Rightarrow> evidence_error + InterventionTrajectory" where
  "assembleInterventionTrajectory lc input =
     and_then (parsed (parse_plan (ti_experimentPlan input))) (\<lambda>plan.
     and_then (trajectory_throws plan input) (\<lambda>_.
     let acceptance = ti_acceptance input; applied = ti_appliedLifecycleRecord input;
         effect = ti_actionEffect input; results = ti_guardrailResults input;
         overallVerdict = verdictFor effect results;
         t = \<lparr>tr_contractVersion = evidence_store_v1,
              tr_interventionTrajectoryId = ti_interventionTrajectoryId input,
              tr_experimentPlanId = ep_experimentPlanId plan, tr_reviewId = db_reviewId acceptance,
              tr_acceptanceDecisionId = db_decisionId acceptance,
              tr_appliedLifecycleRecordId = lr_lifecycleRecordId applied,
              tr_brandId = ep_brandId plan, tr_storeId = ep_storeId plan,
              tr_primaryActionEffectId = ae_actionEffectId effect,
              tr_guardrailResultIds = sort_on lc (\<lambda>v. v) (map gd_guardrailResultId results),
              tr_adoptionRefs = sort_on lc (\<lambda>v. v) [db_decisionId acceptance, lr_lifecycleRecordId applied],
              tr_overallVerdict = overallVerdict,
              tr_interpretation = (if overallVerdict = Verdict_needs_more_data
                then Interp_missing_or_weak_sample else Interp_directional_before_after),
              tr_evidenceRefs = uniqueSorted lc ([ep_experimentPlanId plan, db_decisionId acceptance,
                  lr_lifecycleRecordId applied, ae_actionEffectId effect] @ ae_evidenceRefs effect
                @ concat (map (\<lambda>g. gd_guardrailResultId g # gd_evidenceRefs g) results)
                @ lr_evidenceRefs applied)\<rparr>
     in parsed (checked (trajectory_shape t) (trajectory_issues t) t)))"

section \<open>The evidence record\<close>

record EvidenceRecordInput =
  ei_evidenceRecordId :: string
  ei_trajectory :: InterventionTrajectory
  ei_opportunityGap :: OpportunityGap
  ei_actionEffect :: ActionEffect
  ei_guardrailResults :: "GuardrailResult list"

definition assertEvidenceRecordInputs :: "string comparator \<Rightarrow> EvidenceRecordInput \<Rightarrow> evidence_error + unit" where
  "assertEvidenceRecordInputs lc input =
     (let t = ei_trajectory input; gap = ei_opportunityGap input; effect = ei_actionEffect input in
     and_then (throw_if (tr_experimentPlanId t \<noteq> ae_experimentPlanId effect
         \<or> tr_primaryActionEffectId t \<noteq> ae_actionEffectId effect)
       (Thrown ''Evidence record action effect must match the intervention trajectory primary effect.'')) (\<lambda>_.
     and_then (throw_if (og_brandId gap \<noteq> ae_brandId effect \<or> og_storeId gap \<noteq> ae_storeId effect)
       (Thrown ''Evidence record opportunity gap must belong to the measured store.'')) (\<lambda>_.
     let trajectoryGuardrailIds = uniqueSorted lc (tr_guardrailResultIds t);
         inputGuardrailIds = uniqueSorted lc (map gd_guardrailResultId (ei_guardrailResults input)) in
     and_then (throw_if (join [CHR 0x0A] trajectoryGuardrailIds \<noteq> join [CHR 0x0A] inputGuardrailIds)
       (Thrown ''Evidence record guardrail results must match the intervention trajectory guardrails.'')) (\<lambda>_.
     throw_if (list_ex (other_store_result (tr_experimentPlanId t) (ae_brandId effect) (ae_storeId effect))
         (ei_guardrailResults input))
       (Thrown ''Evidence record guardrail results must belong to the same experiment plan and store.'')))))"

definition buildEvidenceRecord ::
  "string comparator \<Rightarrow> EvidenceRecordInput \<Rightarrow> evidence_error + EvidenceRecord" where
  "buildEvidenceRecord lc input =
     and_then (assertEvidenceRecordInputs lc input) (\<lambda>_.
     let t = ei_trajectory input; gap = ei_opportunityGap input;
         effectId = ae_actionEffectId (ei_actionEffect input);
         resultIds = map gd_guardrailResultId (ei_guardrailResults input);
         reproducibleInputRefs = uniqueSorted lc ([og_segmentCandidateId gap, og_opportunityGapId gap,
             tr_experimentPlanId t, effectId] @ resultIds @ tr_adoptionRefs t);
         r = \<lparr>er_contractVersion = evidence_store_v1, er_evidenceRecordId = ei_evidenceRecordId input,
              er_interventionTrajectoryId = tr_interventionTrajectoryId t,
              er_segmentRef = og_segmentCandidateId gap, er_opportunityGapId = og_opportunityGapId gap,
              er_experimentPlanId = tr_experimentPlanId t, er_outcomeRef = effectId,
              er_guardrailRefs = sort_on lc (\<lambda>v. v) resultIds, er_adoptionRefs = tr_adoptionRefs t,
              er_verdict = tr_overallVerdict t, er_interpretation = tr_interpretation t,
              er_evidenceRefs = uniqueSorted lc (tr_interventionTrajectoryId t # tr_evidenceRefs t
                @ og_opportunityGapId gap # og_evidenceRefs gap @ reproducibleInputRefs),
              er_reproducibleInputRefs = reproducibleInputRefs, er_llmGeneratedClaims = []\<rparr>
     in parsed (checked (evidence_record_shape r) [] r))"

end
