(* ===== verification/ReviewProperties.thy ===== *)
theory ReviewProperties
  imports CafeProperties Evidence Samples
begin

text \<open>
  The properties of the validation of a plan, of the merchant's review and of the lifecycle of an
  action, and what the ingestion service and the projections make of the review's events.
\<close>

section \<open>Validation\<close>

text \<open>What an accepted plan is: well-formed, of the context's run, store and gap, backed by evidence of
the context only, with positive confidence, confirmation, rollback and a guardrail.\<close>

definition grounded_plan :: "string comparator \<Rightarrow> AgentContextBundle \<Rightarrow> InterventionHypothesis \<Rightarrow> ExperimentPlan \<Rightarrow> bool" where
  "grounded_plan lc c h p \<longleftrightarrow>
     parse_bundle lc c = Inr c \<and> hypothesis_shape h \<and> plan_shape p
     \<and> hy_agentRunId h = cb_agentRunId c \<and> ep_agentRunId p = cb_agentRunId c
     \<and> hy_brandId h = cb_brandId c \<and> ep_brandId p = cb_brandId c
     \<and> hy_storeId h = cb_storeId c \<and> ep_storeId p = cb_storeId c
     \<and> hy_opportunityGapId h = cb_opportunityGapId c \<and> ep_opportunityGapId p = cb_opportunityGapId c
     \<and> ep_hypothesisId p = hy_hypothesisId h
     \<and> set (hy_evidenceRefs h) \<subseteq> set (cb_evidenceRefs c) \<and> set (ep_evidenceRefs p) \<subseteq> set (cb_evidenceRefs c)
     \<and> (\<forall>g \<in> set (me_guardrails (ep_measurement p)). set (gr_evidenceRefs g) \<subseteq> set (cb_evidenceRefs c))
     \<and> 0 < un_confidence (hy_uncertainty h) \<and> 0 < un_confidence (ep_uncertainty p)
     \<and> sf_merchantConfirmationRequired (ep_safety p) \<and> sf_rollbackSupported (ep_safety p)
     \<and> me_guardrails (ep_measurement p) \<noteq> []"

lemma in_finding_if [simp]: "f \<in> set (finding_if failed code message) \<longleftrightarrow> failed \<and> f = (code, message)"
  by (auto simp: finding_if_def)

lemma findings_Nil_iff:
  assumes "hypothesis_shape h" "plan_shape p" "parse_bundle lc c = Inr c"
  shows "validation_findings c h p = [] \<longleftrightarrow> grounded_plan lc c h p"
proof -
  have refs: "hy_evidenceRefs h \<noteq> []" "ep_evidenceRefs p \<noteq> []"
    and truth: "checkTruthBoundary h p = []"
    using assms(1,2) by (auto simp: hypothesis_shape_def plan_shape_def nonempty_refs_def checkTruthBoundary_def)
  have "checkEvidenceRefs c h p = [] \<longleftrightarrow> set (hy_evidenceRefs h) \<subseteq> set (cb_evidenceRefs c)
      \<and> set (ep_evidenceRefs p) \<subseteq> set (cb_evidenceRefs c)
      \<and> (\<forall>g \<in> set (me_guardrails (ep_measurement p)). set (gr_evidenceRefs g) \<subseteq> set (cb_evidenceRefs c))"
    using refs by (auto simp: checkEvidenceRefs_def filter_empty_conv)
  moreover have "checkIdentity c h p = [] \<longleftrightarrow> hy_agentRunId h = cb_agentRunId c \<and> ep_agentRunId p = cb_agentRunId c
     \<and> hy_brandId h = cb_brandId c \<and> ep_brandId p = cb_brandId c
     \<and> hy_storeId h = cb_storeId c \<and> ep_storeId p = cb_storeId c
     \<and> hy_opportunityGapId h = cb_opportunityGapId c \<and> ep_opportunityGapId p = cb_opportunityGapId c
     \<and> ep_hypothesisId p = hy_hypothesisId h"
    by (auto simp: checkIdentity_def)
  ultimately show ?thesis
    using assms truth by (simp add: validation_findings_def grounded_plan_def checkUncertainty_def checkSafety_def not_le)
qed

lemma finding_good:
  assumes "f \<in> set (validation_findings c h p)"
  shows "fst f \<noteq> Reason_weak_or_insufficient_sample \<and> snd f \<noteq> []"
proof -
  consider "f \<in> set (checkIdentity c h p)" | "f \<in> set (checkTruthBoundary h p)" | "f \<in> set (checkEvidenceRefs c h p)"
    | "f \<in> set (checkUncertainty h p)" | "f \<in> set (checkSafety p)"
    using assms by (auto simp: validation_findings_def)
  then show ?thesis
  proof cases
    case 1 then show ?thesis by (auto simp: checkIdentity_def)
  next
    case 2 then show ?thesis by (auto simp: checkTruthBoundary_def)
  next
    case 3 then show ?thesis by (auto simp: checkEvidenceRefs_def split: if_splits)
  next
    case 4 then show ?thesis by (auto simp: checkUncertainty_def)
  next
    case 5 then show ?thesis by (auto simp: checkSafety_def)
  qed
qed

lemma finding_messages: "list_all nonempty (map snd (validation_findings c h p))"
  using finding_good by (auto simp: list_all_iff nonempty_def)

lemma no_blocking_iff: "hasBlockingReason (map fst (validation_findings c h p)) \<longleftrightarrow> validation_findings c h p \<noteq> []"
proof -
  have "list_ex (\<lambda>code. code \<noteq> Reason_weak_or_insufficient_sample) (map fst fs) \<longleftrightarrow> fs \<noteq> []"
    if "\<And>f. f \<in> set fs \<Longrightarrow> fst f \<noteq> Reason_weak_or_insufficient_sample" for fs :: "reason_finding list"
    using that by (cases fs) auto
  then show ?thesis using finding_good by (simp add: hasBlockingReason_def)
qed

lemma validation_total:
  "\<exists>v. validateExperimentPlan lc c h p = Inr v
    \<and> vr_decision v = (if grounded_plan lc c h p
         then (if og_sampleStatus (cb_opportunityGap c) = Peer_sufficient then Decision_accept else Decision_needs_more_data)
         else Decision_block)
    \<and> validation_result_shape v"
proof (cases "parse_bundle lc c = Inr c \<and> hypothesis_shape h \<and> plan_shape p")
  case False
  moreover have "list_all nonempty (cb_evidenceRefs c)" if "parse_bundle lc c = Inr c"
    using that by (simp add: parse_bundle_def bundle_shape_def nonempty_refs_def)
  ultimately show ?thesis
    by (auto simp: validateExperimentPlan_def Let_def validation_result_def validation_result_shape_def
        checked_def grounded_plan_def nonempty_def)
next
  case True
  let ?fs = "validation_findings c h p"
  from True have refs: "list_all nonempty (ep_evidenceRefs p)" by (simp add: plan_shape_def nonempty_refs_def)
  from True findings_Nil_iff [of h p lc c] have iff: "?fs = [] \<longleftrightarrow> grounded_plan lc c h p" by simp
  show ?thesis
    using True refs finding_messages [of c h p] iff
    by (simp add: validateExperimentPlan_def Let_def no_blocking_iff validation_result_def validation_result_shape_def
        checked_def nonempty_def)
qed

text \<open>C15. Validation is total and its decision is exact: it accepts the grounded plans whose gap has a
sufficient peer sample, asks for more data for the other grounded plans, and blocks everything else.\<close>

theorem validation_decision_exact:
  "\<exists>v. validateExperimentPlan lc c h p = Inr v
    \<and> vr_decision v = (if grounded_plan lc c h p
         then (if og_sampleStatus (cb_opportunityGap c) = Peer_sufficient then Decision_accept else Decision_needs_more_data)
         else Decision_block)
    \<and> validation_result_shape v"
  by (rule validation_total)

section \<open>Submission\<close>

text \<open>What a submission needs beside an accepted result: its identity, evidence and status are the plan's.\<close>

lemma submission_ok_iff:
  "(\<exists>s. submitExperimentPlanForMerchantReview dt reviewId p v submittedAt submittedBy = Inr s) \<longleftrightarrow>
     reviewId \<noteq> [] \<and> dt submittedAt \<and> (case submittedBy of None \<Rightarrow> True | Some a \<Rightarrow> actor_shape a)
     \<and> plan_shape p \<and> validation_result_shape v \<and> vr_decision v = Decision_accept"
  by (cases submittedBy)
    (auto simp: submitExperimentPlanForMerchantReview_def Let_def submission_shape_def submission_issues_def
      checkPlanIdentity_def plan_shape_def nonempty_def actor_shape_def)

lemma submission_sel:
  assumes "submitExperimentPlanForMerchantReview dt reviewId p v submittedAt submittedBy = Inr s"
  shows "sb_reviewId s = reviewId" "sb_experimentPlanId s = ep_experimentPlanId p" "sb_brandId s = ep_brandId p"
    "sb_storeId s = ep_storeId p" "sb_evidenceRefs s = ep_evidenceRefs p" "sb_lifecycleState s = Drafted"
    "sb_experimentPlan s = p" "sb_validationResult s = v" "submission_shape dt s"
  using assms by (auto simp: submitExperimentPlanForMerchantReview_def Let_def)

text \<open>A validated plan reaches the merchant exactly when the validator accepted it: for a review id
and a time, submission succeeds for the decision accept, and fails for block and needs_more_data; the
plan it then holds is grounded in the context and its gap has a sufficient sample.\<close>

theorem submitted_iff_accepted:
  assumes "validateExperimentPlan lc c h p = Inr v" "reviewId \<noteq> []" "dt submittedAt"
  shows "((\<exists>s. submitExperimentPlanForMerchantReview dt reviewId p v submittedAt None = Inr s)
      \<longleftrightarrow> vr_decision v = Decision_accept)
    \<and> (vr_decision v = Decision_accept \<longleftrightarrow>
        grounded_plan lc c h p \<and> og_sampleStatus (cb_opportunityGap c) = Peer_sufficient)"
  using validation_total [of lc c h p] assms
  by (auto simp: submission_ok_iff grounded_plan_def split: if_splits)

definition plain_gap :: OpportunityGap where
  "plain_gap = \<lparr>og_opportunityGapId = ''g1'', og_brandId = ''b1'', og_storeId = ''s1'', og_snapshotDate = ''d1'',
     og_segmentCandidateId = ''sc1'', og_segmentLabel = ''independent_cafe_core'', og_metricId = Metric_avg_order_value,
     og_metricWindow = Window_snapshot, og_guardrailRelation = Rel_growth_metric, og_targetValue = 30,
     og_peerMedianValue = Some 50, og_peerP75Value = Some 60, og_comparisonBasis = Basis_peer_p75,
     og_direction = Gap_higher_is_better, og_gapValue = 30, og_gapRatio = Some (1 / 2), og_rank = Some 1,
     og_confidence = 7 / 10, og_sampleStatus = Peer_sufficient, og_interpretation = Interp_directional_non_causal_gap,
     og_evidenceRefs = [''ev1'']\<rparr>"

definition plain_context :: AgentContextBundle where
  "plain_context = \<lparr>cb_agentRunId = ''r1'', cb_sessionId = ''x1'', cb_brandId = ''b1'', cb_storeId = ''s1'',
     cb_opportunityGapId = ''g1'', cb_createdAt = ''t1'', cb_opportunityGap = plain_gap, cb_factEvidenceRefs = [''ev1''],
     cb_assumptions = [], cb_allowedDraftOperations = DEFAULT_ALLOWED_DRAFT_OPERATIONS,
     cb_disallowedMutationTargets = CORE_WRITE_DISALLOWED_TARGETS @ BUSINESS_MUTATION_DISALLOWED_TARGETS,
     cb_evidenceRefs = [''ev1'']\<rparr>"

definition plain_uncertainty :: ExperimentUncertainty where
  "plain_uncertainty = \<lparr>un_level = Level_medium, un_confidence = 1 / 2, un_assumptions = [''few orders'']\<rparr>"

definition plain_hypothesis :: InterventionHypothesis where
  "plain_hypothesis = \<lparr>hy_contractVersion = ''intervention-hypothesis.v1'', hy_hypothesisId = ''h1'', hy_agentRunId = ''r1'',
     hy_brandId = ''b1'', hy_storeId = ''s1'', hy_opportunityGapId = ''g1'', hy_truthStatus = agent_draft_not_core_truth,
     hy_statement = ''bundles'', hy_rationale = ''peers do'', hy_expectedMetricId = Metric_avg_order_value,
     hy_evidenceRefs = [''ev1''], hy_uncertainty = plain_uncertainty, hy_requestedCoreWrites = []\<rparr>"

definition plain_guardrail :: ExperimentGuardrail where
  "plain_guardrail = \<lparr>gr_metricId = Metric_refund_rate, gr_relation = Must_not_degrade, gr_evidenceRefs = [''ev1'']\<rparr>"

definition plain_plan :: ExperimentPlan where
  "plain_plan = \<lparr>ep_contractVersion = ''experiment-plan.v1'', ep_experimentPlanId = ''p1'', ep_hypothesisId = ''h1'',
     ep_agentRunId = ''r1'', ep_brandId = ''b1'', ep_storeId = ''s1'', ep_opportunityGapId = ''g1'',
     ep_status = ''draft_for_validation'', ep_truthStatus = agent_draft_not_core_truth, ep_title = ''t'', ep_objective = ''o'',
     ep_proposedIntervention = \<lparr>pi_changeKind = Change_operational_experiment, pi_summary = ''s'', pi_merchantEditable = True\<rparr>,
     ep_measurement = \<lparr>me_primaryMetricId = Metric_avg_order_value, me_metricWindow = Window_snapshot,
       me_guardrails = [plain_guardrail], me_minimumSampleStatusForLaunch = Peer_sufficient\<rparr>,
     ep_safety = \<lparr>sf_merchantConfirmationRequired = True, sf_rollbackSupported = True, sf_stopCriteria = [''refunds'']\<rparr>,
     ep_evidenceRefs = [''ev1''], ep_uncertainty = plain_uncertainty, ep_requestedCoreWrites = []\<rparr>"

definition plain_result :: ExperimentValidationResult where
  "plain_result = \<lparr>vr_decision = Decision_accept, vr_reasonCodes = [],
     vr_messages = [''Experiment plan passed deterministic validation.''], vr_evidenceRefs = [''ev1'']\<rparr>"

lemma plain_plan_shape: "plan_shape plain_plan"
  by (simp add: plan_shape_def plain_plan_def plain_guardrail_def guardrail_shape_def nonempty_refs_def nonempty_def
      uncertainty_shape_def plain_uncertainty_def)

lemma plain_validated: "validateExperimentPlan default plain_context plain_hypothesis plain_plan = Inr plain_result"
  by code_simp

theorem submitted_iff_accepted_witness:
  "\<exists>s. submitExperimentPlanForMerchantReview (\<lambda>_. True) ''rv1'' plain_plan plain_result ''t2'' None = Inr s
     \<and> grounded_plan default plain_context plain_hypothesis plain_plan"
  using submitted_iff_accepted [OF plain_validated, of "''rv1''" "\<lambda>_. True" "''t2''"] by (simp add: plain_result_def)

section \<open>From a rejection to a preference\<close>

text \<open>A rejection of a submitted plan becomes a candidate, and the candidate a confirmed preference,
whenever each step is given ids, texts, times and an actor; the preference is of the plan's brand and
store, with the plan's evidence and the key and value of the candidate, and nothing is confirmed before
that: the candidate is pending.\<close>

theorem rejection_becomes_preference:
  assumes submitted: "submitExperimentPlanForMerchantReview dt reviewId p v submittedAt submittedBy = Inr s"
    and given: "decisionId \<noteq> []" "reason \<noteq> []" "candidateId \<noteq> []" "prefKey \<noteq> []" "prefValue \<noteq> []" "preferenceId \<noteq> []"
      "dt decidedAt" "dt createdAt" "dt confirmedAt" "actor_shape actor"
  shows "\<exists>d cand pref.
      rejectExperimentReview dt \<lparr>di_submission = s, di_decisionId = decisionId, di_decidedAt = decidedAt, di_actor = actor\<rparr> code reason = Inr d
    \<and> createPreferenceCandidateFromRejection dt d candidateId prefKey prefValue createdAt = Inr cand
    \<and> pc_status cand = ''candidate_pending_confirmation'' \<and> pc_reasonText cand = reason \<and> pc_rejectionDecisionId cand = decisionId
    \<and> confirmMerchantPreference dt cand preferenceId confirmedAt actor = Inr pref
    \<and> pf_brandId pref = ep_brandId p \<and> pf_storeId pref = ep_storeId p \<and> pf_evidenceRefs pref = ep_evidenceRefs p
    \<and> pf_preferenceKey pref = prefKey \<and> pf_preferenceValue pref = prefValue"
proof -
  note sel = submission_sel [OF submitted]
  then have s: "sb_reviewId s \<noteq> []" "ep_experimentPlanId p \<noteq> []" "ep_brandId p \<noteq> []" "ep_storeId p \<noteq> []"
    "nonempty_refs (ep_evidenceRefs p)"
    by (auto simp: submission_shape_def nonempty_def)
  then show ?thesis
    using given sel
    by (simp add: rejectExperimentReview_def createPreferenceCandidateFromRejection_def confirmMerchantPreference_def
        Let_def checked_def rejection_shape_def decision_base_shape_def candidate_shape_def confirmation_shape_def
        decisionBase_def MerchantReviewDecisionBase.defs MerchantReviewRejection.defs nonempty_def)
qed

definition plain_actor :: MerchantReviewActor where
  "plain_actor = \<lparr>ma_actorType = Reviewer_merchant, ma_actorId = ''m1'', ma_displayName = None\<rparr>"

lemma plain_submitted:
  "\<exists>s. submitExperimentPlanForMerchantReview (\<lambda>_. True) ''rv1'' plain_plan plain_result ''t2'' None = Inr s"
  using plain_plan_shape
  by (simp add: submission_ok_iff plain_result_def validation_result_shape_def nonempty_def)

theorem rejection_becomes_preference_witness:
  "\<exists>cand pref. confirmMerchantPreference (\<lambda>_. True) cand ''f1'' ''t5'' plain_actor = Inr pref
     \<and> pc_reasonText cand = ''too busy'' \<and> pf_storeId pref = ''s1'' \<and> pf_preferenceValue pref = ''never''"
proof -
  obtain s where s: "submitExperimentPlanForMerchantReview (\<lambda>_. True) ''rv1'' plain_plan plain_result ''t2'' None = Inr s"
    using plain_submitted by blast
  have actor: "actor_shape plain_actor" by (simp add: actor_shape_def plain_actor_def nonempty_def)
  show ?thesis
    using rejection_becomes_preference [OF s, where decisionId = "''dec1''" and reason = "''too busy''"
        and candidateId = "''c1''" and prefKey = "''mornings''" and prefValue = "''never''" and preferenceId = "''f1''"
        and decidedAt = "''t3''" and createdAt = "''t4''" and confirmedAt = "''t5''" and actor = plain_actor and code = Wrong_timing] actor
    by (auto simp: plain_plan_def)
qed

section \<open>The lifecycle of an action\<close>

text \<open>A history is a list of records, each accepted by the schema and starting where the one before ended.\<close>

inductive lifecycle_history :: "(string \<Rightarrow> bool) \<Rightarrow> ActionLifecycleState \<Rightarrow> ActionLifecycleRecord list \<Rightarrow> bool"
  for dt :: "string \<Rightarrow> bool" where
  start: "lifecycle_history dt Suggested []"
| step: "lifecycle_history dt st rs \<Longrightarrow> recordActionLifecycleTransition dt input = Inr r \<Longrightarrow> lr_fromState r = st
    \<Longrightarrow> lifecycle_history dt (lr_toState r) (rs @ [r])"

inductive_cases historyE: "lifecycle_history dt st rs"

text \<open>The only way to each state.\<close>

fun lifecycle_path :: "ActionLifecycleState \<Rightarrow> ActionLifecycleState list" where
  "lifecycle_path Suggested = []"
| "lifecycle_path Drafted = [Drafted]"
| "lifecycle_path Accepted = [Drafted, Accepted]"
| "lifecycle_path Rejected = [Drafted, Rejected]"
| "lifecycle_path Applied = [Drafted, Accepted, Applied]"
| "lifecycle_path Measured = [Drafted, Accepted, Applied, Measured]"
| "lifecycle_path Kept = [Drafted, Accepted, Applied, Measured, Kept]"
| "lifecycle_path Reverted = [Drafted, Accepted, Applied, Measured, Reverted]"
| "lifecycle_path Extended = [Drafted, Accepted, Applied, Measured, Extended]"
| "lifecycle_path Retest_needed = [Drafted, Accepted, Applied, Measured, Retest_needed]"

lemma path_step: "canTransitionActionLifecycle a b \<Longrightarrow> lifecycle_path b = lifecycle_path a @ [b]"
  by (cases a) (auto simp: canTransitionActionLifecycle_def)

lemma recorded_facts:
  assumes "recordActionLifecycleTransition dt input = Inr r"
  shows "canTransitionActionLifecycle (lr_fromState r) (lr_toState r)" "\<not> lr_businessMutationCalled r"
    "lr_toState r = Applied \<Longrightarrow> truthy (lr_acceptanceDecisionId r) \<and> lr_eventName r = Some Applied_recorded"
    "lr_toState r = Reverted \<Longrightarrow> lr_eventName r = Some Reverted_recorded"
    "lr_toState r \<in> {Applied, Reverted} \<Longrightarrow> truthy (lr_rollbackRef r)"
  using assms by (auto simp: recordActionLifecycleTransition_def Let_def lifecycle_issues_def transition_issues_def lifecycle_shape_def)

text \<open>C30. The history of an action determines, and is determined by, its state: the states it went
through are exactly the path to it, so nothing is applied that was not accepted, nothing is kept or
reverted that was not measured, and a history has at most five records. No record claims a business
mutation; an applied record names the acceptance and a rollback, a reverted one a rollback; and a
rejected, kept, reverted, extended or to-be-retested action has no further record.\<close>

theorem lifecycle_sound:
  assumes "lifecycle_history dt st rs"
  shows "map lr_toState rs = lifecycle_path st
    \<and> (\<forall>r \<in> set rs. \<not> lr_businessMutationCalled r
        \<and> (lr_toState r = Applied \<longrightarrow> truthy (lr_acceptanceDecisionId r) \<and> truthy (lr_rollbackRef r)
             \<and> lr_eventName r = Some Applied_recorded)
        \<and> (lr_toState r = Reverted \<longrightarrow> truthy (lr_rollbackRef r) \<and> lr_eventName r = Some Reverted_recorded))
    \<and> (st \<in> {Rejected, Kept, Reverted, Extended, Retest_needed} \<longrightarrow>
        (\<forall>input r. recordActionLifecycleTransition dt input = Inr r \<longrightarrow> lr_fromState r \<noteq> st))"
proof (intro conjI)
  show "map lr_toState rs = lifecycle_path st"
    using assms
  proof induction
    case (step st rs input r)
    with recorded_facts(1) [OF step(2)] show ?case by (simp add: path_step)
  qed simp
  show "\<forall>r \<in> set rs. \<not> lr_businessMutationCalled r
        \<and> (lr_toState r = Applied \<longrightarrow> truthy (lr_acceptanceDecisionId r) \<and> truthy (lr_rollbackRef r)
             \<and> lr_eventName r = Some Applied_recorded)
        \<and> (lr_toState r = Reverted \<longrightarrow> truthy (lr_rollbackRef r) \<and> lr_eventName r = Some Reverted_recorded)"
    using assms
  proof induction
    case (step st rs input r)
    with recorded_facts [OF step(2)] show ?case by auto
  qed simp
  show "st \<in> {Rejected, Kept, Reverted, Extended, Retest_needed} \<longrightarrow>
      (\<forall>input r. recordActionLifecycleTransition dt input = Inr r \<longrightarrow> lr_fromState r \<noteq> st)"
    using recorded_facts(1) by (fastforce simp: canTransitionActionLifecycle_def)
qed

definition plain_step :: "ActionLifecycleState \<Rightarrow> ActionLifecycleState \<Rightarrow> MerchantReviewEventName option \<Rightarrow> string option
    \<Rightarrow> ActionLifecycleInput" where
  "plain_step fromState toState eventName ref = \<lparr>lr_lifecycleRecordId = ''l1'', lr_reviewId = ''rv1'', lr_experimentPlanId = ''p1'',
     lr_brandId = ''b1'', lr_storeId = ''s1'', lr_eventName = eventName, lr_occurredAt = ''t3'', lr_actor = plain_actor,
     lr_fromState = fromState, lr_toState = toState, lr_acceptanceDecisionId = ref, lr_rollbackRef = ref,
     lr_evidenceRefs = [''ev1'']\<rparr>"

definition plain_record :: "ActionLifecycleInput \<Rightarrow> ActionLifecycleRecord" where
  "plain_record i = ActionLifecycleInput.extend i (ActionLifecycleRecord.fields merchant_review_v1 False)"

lemma plain_steps_recorded:
  "recordActionLifecycleTransition (\<lambda>_. True) (plain_step Suggested Drafted None None) = Inr (plain_record (plain_step Suggested Drafted None None))"
  "recordActionLifecycleTransition (\<lambda>_. True) (plain_step Drafted Accepted None None) = Inr (plain_record (plain_step Drafted Accepted None None))"
  "recordActionLifecycleTransition (\<lambda>_. True) (plain_step Accepted Applied (Some Applied_recorded) (Some ''dec1''))
     = Inr (plain_record (plain_step Accepted Applied (Some Applied_recorded) (Some ''dec1'')))"
  by (simp_all add: recordActionLifecycleTransition_def Let_def plain_record_def plain_step_def ActionLifecycleInput.defs
      ActionLifecycleRecord.defs lifecycle_shape_def lifecycle_issues_def transition_issues_def nonempty_def nonempty_refs_def actor_shape_def
      plain_actor_def canTransitionActionLifecycle_def)

lemma plain_record_sel [simp]:
  "lr_fromState (plain_record (plain_step a b n r)) = a" "lr_toState (plain_record (plain_step a b n r)) = b"
  by (simp_all add: plain_record_def plain_step_def ActionLifecycleInput.defs ActionLifecycleRecord.defs)

theorem lifecycle_sound_witness:
  "\<exists>rs. lifecycle_history (\<lambda>_. True) Applied rs \<and> map lr_toState rs = [Drafted, Accepted, Applied]"
proof -
  note 1 = lifecycle_history.step [OF lifecycle_history.start plain_steps_recorded(1), simplified]
  note 2 = lifecycle_history.step [OF 1 plain_steps_recorded(2), simplified]
  note 3 = lifecycle_history.step [OF 2 plain_steps_recorded(3), simplified]
  from lifecycle_sound [OF 3] 3 show ?thesis by auto
qed

section \<open>The events of a review\<close>

text \<open>Every event the review builds is refused by the ingestion service, whatever the credential: its
idempotency scope is the producer, and the tenant policy asks for the store. The handler audits it as
TENANT_IDENTITY_REQUIRED and stores nothing else.\<close>

theorem merchant_events_refused:
  assumes "buildMobileHqMerchantActionEvent dt input = Some e" "safeParse payload = Inr e"
  shows "handlePostEvent now safeParse ops hasSink payload (Some c) st
    = rejectTenantPolicy now ops e 400 TENANT_IDENTITY_REQUIRED ''Tenant identity required'' c st"
proof -
  from assms(1) have "idm_scope (ev_idempotency e) = Scope_producer"
    by (auto simp: buildMobileHqMerchantActionEvent_def parseDataDynaEvent_def merchant_action_event_def split: if_splits)
  then have "validateTenantPolicy e c = TenantPolicyFailure 400 TENANT_IDENTITY_REQUIRED ''Tenant identity required''"
    by (simp add: validateTenantPolicy_def)
  with assms(2) show ?thesis by (simp add: handlePostEvent_def)
qed

definition plain_event_input :: "MerchantReviewEventName \<Rightarrow> MerchantActionEventInput" where
  "plain_event_input nm = \<lparr>ai_name = nm, ai_eventId = ''e7'', ai_occurredAt = ''t3'', ai_producerService = ''hq'',
     ai_brandId = ''b1'', ai_storeId = ''s1'', ai_actorId = ''m1'', ai_experimentPlanId = ''p1'', ai_reviewId = Some ''rv1'',
     ai_preferenceId = None, ai_properties = None\<rparr>"

lemma plain_event_built:
  "buildMobileHqMerchantActionEvent (\<lambda>_. True) (plain_event_input nm) = Some (merchant_action_event (plain_event_input nm))"
  by (simp add: buildMobileHqMerchantActionEvent_def parseDataDynaEvent_def valid_event_def merchant_action_event_def
      plain_event_input_def valid_producer_def valid_identity_def valid_correlation_def valid_entity_def
      valid_idempotency_def merchantReviewEventEntity_def nonempty_def)

theorem merchant_events_refused_witness:
  "\<exists>i st'. handlePostEvent ''t9'' (\<lambda>e. Inr e) sample_ops False (merchant_action_event (plain_event_input Review_accepted))
     (Some sample_context) sample_start
   = (Inr (TenantPolicyRejected 400 TENANT_IDENTITY_REQUIRED ''Tenant identity required'' i), st')"
  by (simp add: merchant_events_refused [OF plain_event_built, of "\<lambda>e. Inr e" "merchant_action_event (plain_event_input Review_accepted)"] rejectTenantPolicy_def audit_def sample_ops_def
      make_ops_def pg_persistInvalid_def sample_server_def Let_def)

text \<open>The events of a viewed review are about the review, and the projection looks for a plan: the
merchant action of an accepted or rejected plan gets its row, that of a viewed review never does.\<close>

theorem review_view_not_projected:
  "projectMerchantAction (rawEventRecord now cred (merchant_action_event (plain_event_input Review_viewed))) s = s
   \<and> (\<forall>input. ai_name input = Review_viewed \<and> get_prop (or_else (ai_properties input) []) ''experimentPlanId'' = None \<longrightarrow>
        projectMerchantAction (rawEventRecord now cred (merchant_action_event input)) s = s)
   \<and> (\<forall>input. ai_name input \<in> {Review_accepted, Review_rejected} \<and> ai_experimentPlanId input \<noteq> [] \<longrightarrow>
        (\<exists>row. map_get (ps_merchantActions (projectMerchantAction (rawEventRecord now cred (merchant_action_event input)) s))
             (ai_experimentPlanId input @ '':'' @ (if ai_name input = Review_accepted then ''accepted'' else ''rejected'')
               @ '':'' @ ai_eventId input) = Some row
           \<and> ac_experimentPlanId row = ai_experimentPlanId input \<and> ac_merchantId row = Some (ai_actorId input)))"
  by (auto simp: projectMerchantAction_def Let_def rawEventRecord_def merchant_action_event_def merchantReviewEventEntity_def
      plain_event_input_def prop_of_def get_prop_def)

end
