(* ===== verification/WorkerJobs.thy ===== *)
theory WorkerJobs
  imports JsValue "HOL-Library.Product_Lexorder"
begin

text \<open>
  The durable job queue of \<open>src/src/app/workers/durable-worker-job-repository.ts\<close> over the
  tables of \<open>src/migrations/0009_worker_jobs.sql\<close>. Each method is one SQL statement (two for
  \<open>complete\<close>), modelled as a function on the four tables; an error is what the method throws,
  with the tables as the statement left them. A point in time is its milliseconds. Row and record
  differ in names only, so one HOL record stands for both. Job ids are \<open>worker_job:\<close> and hex
  digits, which every collation orders alike, so \<open>ORDER BY job_id\<close> is the order of code units.
  The two hash functions are parameters.
\<close>

section \<open>Values\<close>

datatype WorkerKind = Kind_projection | Kind_snapshot | Kind_benchmark | Kind_evidence

fun kind_text :: "WorkerKind \<Rightarrow> string" where
  "kind_text Kind_projection = ''projection''"
| "kind_text Kind_snapshot = ''snapshot''"
| "kind_text Kind_benchmark = ''benchmark''"
| "kind_text Kind_evidence = ''evidence''"

datatype WorkerJobStatus =
  St_queued | St_claimed | St_running | St_succeeded | St_retry_scheduled | St_dead_lettered
| St_cancelled_by_operator

datatype WorkerFailureClass =
  Fail_transient_storage | Fail_transient_runtime | Fail_contract_violation | Fail_tenant_policy
| Fail_idempotency_conflict | Fail_unexpected

datatype WorkerAttemptStatus =
  At_started | At_checkpointed | At_succeeded | At_retryable_failed | At_terminal_failed
| At_dead_lettered

type_synonym json_object = "(string \<times> json) list"

text \<open>
  An optional field of a scope: not there, \<open>undefined\<close>, \<open>null\<close> or a string. The
  columns do not tell the first three apart; the job id does.
\<close>

datatype scope_field = Absent | Undefined | Null | Text string

fun column :: "scope_field \<Rightarrow> string option" where
  "column (Text s) = Some s"
| "column _ = None"

record WorkerTenantScope =
  ts_brandId :: scope_field
  ts_merchantId :: scope_field
  ts_storeId :: scope_field

record WorkerSourceScope =
  ss_source :: string
  ss_producerService :: scope_field
  ss_producerEnvironment :: scope_field

record WorkerJob =
  j_jobId :: string
  j_workerKind :: WorkerKind
  j_status :: WorkerJobStatus
  j_brandId :: "string option"
  j_merchantId :: "string option"
  j_storeId :: "string option"
  j_source :: string
  j_producerService :: "string option"
  j_producerEnvironment :: "string option"
  j_inputWatermark :: json_object
  j_idempotencyIdentity :: string
  j_correlationId :: string
  j_attemptCount :: int
  j_maxAttempts :: int
  j_lockedBy :: "string option"
  j_lockedUntil :: "int option"
  j_heartbeatAt :: "int option"
  j_nextRunAt :: int
  j_startedAt :: "int option"
  j_completedAt :: "int option"
  j_lastErrorClass :: "WorkerFailureClass option"
  j_lastErrorReason :: "string option"
  j_createdAt :: int
  j_updatedAt :: int

record WorkerJobAttempt =
  at_attemptId :: nat
  at_jobId :: string
  at_attemptNumber :: int
  at_workerKind :: WorkerKind
  at_claimedBy :: string
  at_status :: WorkerAttemptStatus
  at_inputWatermark :: json_object
  at_outputWatermark :: "json_object option"
  at_failureClass :: "WorkerFailureClass option"
  at_safeDiagnostic :: json_object
  at_startedAt :: int
  at_heartbeatAt :: "int option"
  at_finishedAt :: "int option"

record WorkerFreshness =
  fr_checkpointId :: string
  fr_workerKind :: WorkerKind
  fr_brandId :: "string option"
  fr_merchantId :: "string option"
  fr_storeId :: "string option"
  fr_source :: string
  fr_producerService :: "string option"
  fr_producerEnvironment :: "string option"
  fr_committedWatermark :: json_object
  fr_committedJobId :: string
  fr_committedAttemptId :: nat
  fr_outputSummary :: json_object
  fr_committedAt :: int
  fr_updatedAt :: int

record WorkerDeadLetter =
  dl_jobId :: string
  dl_attemptId :: nat
  dl_job :: WorkerJob
  dl_attemptCount :: int
  dl_failureClass :: WorkerFailureClass
  dl_reasonCode :: string
  dl_safeDiagnostic :: json_object
  dl_nextOperatorAction :: string
  dl_createdAt :: int

record EnqueueWorkerJobInput =
  eq_workerKind :: WorkerKind
  eq_tenantScope :: WorkerTenantScope
  eq_sourceScope :: WorkerSourceScope
  eq_inputWatermark :: json_object
  eq_idempotencyIdentity :: string
  eq_correlationId :: string
  eq_maxAttempts :: "int option"
  eq_now :: int

record ClaimedWorkerJob =
  cl_job :: WorkerJob
  cl_attempt :: WorkerJobAttempt

record worker_db =
  db_jobs :: "WorkerJob list"
  db_attempts :: "WorkerJobAttempt list"
  db_nextAttemptId :: nat
  db_checkpoints :: "WorkerFreshness list"
  db_deadLetters :: "WorkerDeadLetter list"

definition worker_db_empty :: worker_db where
  "worker_db_empty = \<lparr>db_jobs = [], db_attempts = [], db_nextAttemptId = 1, db_checkpoints = [],
     db_deadLetters = []\<rparr>"

datatype worker_error = SqlUniqueViolation | SqlCheckViolation | NoRowReturned string

definition update_where :: "('r \<Rightarrow> bool) \<Rightarrow> ('r \<Rightarrow> 'r) \<Rightarrow> 'r list \<Rightarrow> 'r list" where
  "update_where P f rows = map (\<lambda>r. if P r then f r else r) rows"

section \<open>Job ids\<close>

datatype stable_value = SUndefined | SNull | SString string | SObject "(string \<times> stable_value) list"

fun stableStringify :: "string comparator \<Rightarrow> stable_value \<Rightarrow> string" where
  "stableStringify lc SUndefined = ''undefined''"
| "stableStringify lc SNull = ''null''"
| "stableStringify lc (SString s) = json_quote s"
| "stableStringify lc (SObject entries) =
     ''{'' @ join '','' (map (\<lambda>(key, nested). json_quote key @ '':'' @ nested)
        (sort_on lc fst (map (\<lambda>(key, nested). (key, stableStringify lc nested)) entries))) @ ''}''"

fun field_entry :: "string \<Rightarrow> scope_field \<Rightarrow> (string \<times> stable_value) list" where
  "field_entry k Absent = []"
| "field_entry k Undefined = [(k, SUndefined)]"
| "field_entry k Null = [(k, SNull)]"
| "field_entry k (Text s) = [(k, SString s)]"

definition job_identity_value :: "EnqueueWorkerJobInput \<Rightarrow> stable_value" where
  "job_identity_value inp =
     SObject [(''idempotencyIdentity'', SString (eq_idempotencyIdentity inp)),
       (''sourceScope'', SObject
          ([(''source'', SString (ss_source (eq_sourceScope inp)))]
           @ field_entry ''producerService'' (ss_producerService (eq_sourceScope inp))
           @ field_entry ''producerEnvironment'' (ss_producerEnvironment (eq_sourceScope inp)))),
       (''tenantScope'', SObject
          (field_entry ''brandId'' (ts_brandId (eq_tenantScope inp))
           @ field_entry ''merchantId'' (ts_merchantId (eq_tenantScope inp))
           @ field_entry ''storeId'' (ts_storeId (eq_tenantScope inp)))),
       (''workerKind'', SString (kind_text (eq_workerKind inp)))]"

text \<open>\<open>sha\<close> is the SHA-256 digest in hex, cut to 32 digits.\<close>

definition stableWorkerJobId ::
  "string comparator \<Rightarrow> (string \<Rightarrow> string) \<Rightarrow> EnqueueWorkerJobInput \<Rightarrow> string" where
  "stableWorkerJobId lc sha inp = ''worker_job:'' @ sha (stableStringify lc (job_identity_value inp))"

section \<open>enqueue\<close>

definition enqueued_row :: "string \<Rightarrow> EnqueueWorkerJobInput \<Rightarrow> WorkerJob" where
  "enqueued_row jobId inp = \<lparr>
     j_jobId = jobId,
     j_workerKind = eq_workerKind inp,
     j_status = St_queued,
     j_brandId = column (ts_brandId (eq_tenantScope inp)),
     j_merchantId = column (ts_merchantId (eq_tenantScope inp)),
     j_storeId = column (ts_storeId (eq_tenantScope inp)),
     j_source = ss_source (eq_sourceScope inp),
     j_producerService = column (ss_producerService (eq_sourceScope inp)),
     j_producerEnvironment = column (ss_producerEnvironment (eq_sourceScope inp)),
     j_inputWatermark = eq_inputWatermark inp,
     j_idempotencyIdentity = eq_idempotencyIdentity inp,
     j_correlationId = eq_correlationId inp,
     j_attemptCount = 0,
     j_maxAttempts = or_else (eq_maxAttempts inp) 3,
     j_lockedBy = None,
     j_lockedUntil = None,
     j_heartbeatAt = None,
     j_nextRunAt = eq_now inp,
     j_startedAt = None,
     j_completedAt = None,
     j_lastErrorClass = None,
     j_lastErrorReason = None,
     j_createdAt = eq_now inp,
     j_updatedAt = eq_now inp\<rparr>"

text \<open>The key of \<open>worker_jobs_idempotency_identity_unique_idx\<close>: no brand, and \<open>NULL\<close> as empty.\<close>

definition idempotency_index ::
  "WorkerJob \<Rightarrow> WorkerKind \<times> string \<times> string \<times> string \<times> string \<times> string \<times> string" where
  "idempotency_index j =
     (j_workerKind j, or_else (j_merchantId j) [], or_else (j_storeId j) [], j_source j,
      or_else (j_producerService j) [], or_else (j_producerEnvironment j) [], j_idempotencyIdentity j)"

definition find_job :: "worker_db \<Rightarrow> string \<Rightarrow> WorkerJob option" where
  "find_job db jobId = find (\<lambda>j. j_jobId j = jobId) (db_jobs db)"

definition enqueue ::
  "string comparator \<Rightarrow> (string \<Rightarrow> string) \<Rightarrow> EnqueueWorkerJobInput \<Rightarrow> worker_db
   \<Rightarrow> (worker_error + WorkerJob \<times> bool) \<times> worker_db" where
  "enqueue lc sha inp db =
     (let jobId = stableWorkerJobId lc sha inp; row = enqueued_row jobId inp
      in if \<not> 0 < j_maxAttempts row then (Inl SqlCheckViolation, db)
         else case find_job db jobId of
           Some existing \<Rightarrow> (Inr (existing, True), db)
         | None \<Rightarrow>
             if idempotency_index row \<in> idempotency_index ` set (db_jobs db)
             then (Inl SqlUniqueViolation, db)
             else (Inr (row, False), db\<lparr>db_jobs := db_jobs db @ [row]\<rparr>))"

section \<open>claim, heartbeat\<close>

definition claimable :: "WorkerKind \<Rightarrow> int \<Rightarrow> WorkerJob \<Rightarrow> bool" where
  "claimable kind now j \<longleftrightarrow>
     j_workerKind j = kind
     \<and> j_status j \<in> {St_queued, St_retry_scheduled}
     \<and> j_nextRunAt j \<le> now
     \<and> (case j_lockedUntil j of None \<Rightarrow> True | Some t \<Rightarrow> t \<le> now)
     \<and> j_attemptCount j < j_maxAttempts j"

definition claim_order :: "WorkerJob \<Rightarrow> int \<times> int \<times> string" where
  "claim_order j = (j_nextRunAt j, j_createdAt j, j_jobId j)"

definition claimed_row :: "string \<Rightarrow> int \<Rightarrow> int \<Rightarrow> WorkerJob \<Rightarrow> WorkerJob" where
  "claimed_row workerId now lockedUntil j = j\<lparr>
     j_status := St_running,
     j_lockedBy := Some workerId,
     j_lockedUntil := Some lockedUntil,
     j_heartbeatAt := Some now,
     j_startedAt := nullish (j_startedAt j) (Some now),
     j_attemptCount := j_attemptCount j + 1,
     j_updatedAt := now\<rparr>"

definition started_attempt :: "nat \<Rightarrow> string \<Rightarrow> int \<Rightarrow> WorkerJob \<Rightarrow> WorkerJobAttempt" where
  "started_attempt attemptId workerId now updated = \<lparr>
     at_attemptId = attemptId,
     at_jobId = j_jobId updated,
     at_attemptNumber = j_attemptCount updated,
     at_workerKind = j_workerKind updated,
     at_claimedBy = workerId,
     at_status = At_started,
     at_inputWatermark = j_inputWatermark updated,
     at_outputWatermark = None,
     at_failureClass = None,
     at_safeDiagnostic = [],
     at_startedAt = now,
     at_heartbeatAt = Some now,
     at_finishedAt = None\<rparr>"

definition selected_job :: "WorkerKind \<Rightarrow> int \<Rightarrow> worker_db \<Rightarrow> WorkerJob option" where
  "selected_job kind now db =
     (case sort_key claim_order (filter (claimable kind now) (db_jobs db)) of
        [] \<Rightarrow> None
      | j # js \<Rightarrow> Some j)"

definition claim ::
  "WorkerKind \<Rightarrow> string \<Rightarrow> int \<Rightarrow> int \<Rightarrow> worker_db \<Rightarrow> ClaimedWorkerJob option \<times> worker_db" where
  "claim kind workerId now leaseSeconds db =
     (let lockedUntil = now + leaseSeconds * 1000
      in case selected_job kind now db of
           None \<Rightarrow> (None, db)
         | Some selected \<Rightarrow>
             (let updated = claimed_row workerId now lockedUntil selected;
                  attempt = started_attempt (db_nextAttemptId db) workerId now updated
              in (Some \<lparr>cl_job = updated, cl_attempt = attempt\<rparr>,
                  db\<lparr>db_jobs := update_where (\<lambda>j. j_jobId j = j_jobId selected)
                                  (claimed_row workerId now lockedUntil) (db_jobs db),
                     db_attempts := db_attempts db @ [attempt],
                     db_nextAttemptId := Suc (db_nextAttemptId db)\<rparr>)))"

text \<open>The condition \<open>attempt_id = $2 AND job_id = $1\<close> of every later statement.\<close>

definition is_attempt :: "string \<Rightarrow> nat \<Rightarrow> WorkerJobAttempt \<Rightarrow> bool" where
  "is_attempt jobId attemptId a \<longleftrightarrow> at_attemptId a = attemptId \<and> at_jobId a = jobId"

definition find_attempt :: "worker_db \<Rightarrow> string \<Rightarrow> nat \<Rightarrow> WorkerJobAttempt option" where
  "find_attempt db jobId attemptId = find (is_attempt jobId attemptId) (db_attempts db)"

definition update_attempt ::
  "string \<Rightarrow> nat \<Rightarrow> (WorkerJobAttempt \<Rightarrow> WorkerJobAttempt) \<Rightarrow> worker_db \<Rightarrow> worker_db" where
  "update_attempt jobId attemptId f db =
     db\<lparr>db_attempts := update_where (is_attempt jobId attemptId) f (db_attempts db)\<rparr>"

definition update_job :: "string \<Rightarrow> (WorkerJob \<Rightarrow> WorkerJob) \<Rightarrow> worker_db \<Rightarrow> worker_db" where
  "update_job jobId f db = db\<lparr>db_jobs := update_where (\<lambda>j. j_jobId j = jobId) f (db_jobs db)\<rparr>"

definition beat_job :: "int \<Rightarrow> WorkerJob \<Rightarrow> WorkerJob" where
  "beat_job now j =
     (if j_status j = St_running then j\<lparr>j_heartbeatAt := Some now, j_updatedAt := now\<rparr> else j)"

definition heartbeat ::
  "string \<Rightarrow> nat \<Rightarrow> int \<Rightarrow> worker_db \<Rightarrow> ClaimedWorkerJob option \<times> worker_db" where
  "heartbeat jobId attemptId now db =
     (let db' = update_attempt jobId attemptId (at_heartbeatAt_update (\<lambda>_. Some now))
                  (update_job jobId (beat_job now) db)
      in (case (find_job db' jobId, find_attempt db' jobId attemptId) of
            (Some j, Some a) \<Rightarrow>
              if j_status j = St_running then Some \<lparr>cl_job = j, cl_attempt = a\<rparr> else None
          | _ \<Rightarrow> None, db'))"

section \<open>checkpoint, complete\<close>

definition checkpoint_id :: "(string \<Rightarrow> string) \<Rightarrow> WorkerJob \<Rightarrow> string" where
  "checkpoint_id md5 j = ''worker_checkpoint:'' @ md5 (join ''|''
     [kind_text (j_workerKind j), or_else (j_merchantId j) [], or_else (j_storeId j) [], j_source j,
      or_else (j_producerService j) [], or_else (j_producerEnvironment j) []])"

definition checkpoint_row ::
  "(string \<Rightarrow> string) \<Rightarrow> WorkerJob \<Rightarrow> nat \<Rightarrow> json_object \<Rightarrow> json_object \<Rightarrow> int \<Rightarrow> WorkerFreshness" where
  "checkpoint_row md5 j attemptId outputWatermark outputSummary now = \<lparr>
     fr_checkpointId = checkpoint_id md5 j,
     fr_workerKind = j_workerKind j,
     fr_brandId = j_brandId j,
     fr_merchantId = j_merchantId j,
     fr_storeId = j_storeId j,
     fr_source = j_source j,
     fr_producerService = j_producerService j,
     fr_producerEnvironment = j_producerEnvironment j,
     fr_committedWatermark = outputWatermark,
     fr_committedJobId = j_jobId j,
     fr_committedAttemptId = attemptId,
     fr_outputSummary = outputSummary,
     fr_committedAt = now,
     fr_updatedAt = now\<rparr>"

text \<open>\<open>ON CONFLICT (checkpoint_id) DO UPDATE\<close>: the scope columns of the old row stay.\<close>

definition recommitted :: "WorkerFreshness \<Rightarrow> WorkerFreshness \<Rightarrow> WorkerFreshness" where
  "recommitted excluded old = old\<lparr>
     fr_committedWatermark := fr_committedWatermark excluded,
     fr_committedJobId := fr_committedJobId excluded,
     fr_committedAttemptId := fr_committedAttemptId excluded,
     fr_outputSummary := fr_outputSummary excluded,
     fr_committedAt := fr_committedAt excluded,
     fr_updatedAt := fr_updatedAt excluded\<rparr>"

definition upsert_checkpoint ::
  "WorkerFreshness \<Rightarrow> WorkerFreshness list \<Rightarrow> WorkerFreshness \<times> WorkerFreshness list" where
  "upsert_checkpoint row rows =
     (case find (\<lambda>c. fr_checkpointId c = fr_checkpointId row) rows of
        None \<Rightarrow> (row, rows @ [row])
      | Some old \<Rightarrow> (recommitted row old,
          update_where (\<lambda>c. fr_checkpointId c = fr_checkpointId row) (recommitted row) rows))"

definition checkpoint ::
  "(string \<Rightarrow> string) \<Rightarrow> string \<Rightarrow> nat \<Rightarrow> json_object \<Rightarrow> json_object \<Rightarrow> int \<Rightarrow> worker_db
   \<Rightarrow> (worker_error + WorkerFreshness) \<times> worker_db" where
  "checkpoint md5 jobId attemptId outputWatermark outputSummary now db =
     (let db' = update_attempt jobId attemptId
            (\<lambda>a. a\<lparr>at_status := At_checkpointed, at_outputWatermark := Some outputWatermark,
                   at_heartbeatAt := Some now\<rparr>) db
      in case (find_job db jobId, find_attempt db jobId attemptId) of
           (Some j, Some a) \<Rightarrow>
             (let (row, rows) = upsert_checkpoint
                    (checkpoint_row md5 j (at_attemptId a) outputWatermark outputSummary now)
                    (db_checkpoints db')
              in (Inr row, db'\<lparr>db_checkpoints := rows\<rparr>))
         | _ \<Rightarrow> (Inl (NoRowReturned ''Worker checkpoint did not return a row.''), db'))"

definition completed_row :: "int \<Rightarrow> WorkerJob \<Rightarrow> WorkerJob" where
  "completed_row now j = j\<lparr>j_status := St_succeeded, j_lockedBy := None, j_lockedUntil := None,
     j_completedAt := Some now, j_updatedAt := now\<rparr>"

definition complete_statement ::
  "string \<Rightarrow> nat \<Rightarrow> json_object \<Rightarrow> int \<Rightarrow> worker_db \<Rightarrow> (worker_error + WorkerJob) \<times> worker_db" where
  "complete_statement jobId attemptId finalWatermark now db =
     (case find_attempt db jobId attemptId of
        None \<Rightarrow> (Inl (NoRowReturned ''Worker completion did not return a row.''), db)
      | Some a \<Rightarrow>
          (let db' = update_job jobId (completed_row now)
                 (update_attempt jobId attemptId
                    (\<lambda>a. a\<lparr>at_status := At_succeeded, at_outputWatermark := Some finalWatermark,
                           at_finishedAt := Some now\<rparr>) db)
           in case find_job db' jobId of
                None \<Rightarrow> (Inl (NoRowReturned ''Worker completion did not return a row.''), db')
              | Some j \<Rightarrow> (Inr j, db')))"

definition complete ::
  "(string \<Rightarrow> string) \<Rightarrow> string \<Rightarrow> nat \<Rightarrow> json_object \<Rightarrow> json_object \<Rightarrow> int \<Rightarrow> worker_db
   \<Rightarrow> (worker_error + WorkerJob) \<times> worker_db" where
  "complete md5 jobId attemptId finalWatermark outputSummary now db =
     (case checkpoint md5 jobId attemptId finalWatermark outputSummary now db of
        (Inl err, db') \<Rightarrow> (Inl err, db')
      | (Inr row, db') \<Rightarrow> complete_statement jobId attemptId finalWatermark now db')"

section \<open>retry, deadLetter\<close>

fun safeReason :: "json_object \<Rightarrow> string option" where
  "safeReason diagnostic =
     (case get_prop diagnostic ''reasonCode'' of Some (JStr reasonCode) \<Rightarrow> Some reasonCode | _ \<Rightarrow> None)"

definition retried_row ::
  "WorkerFailureClass \<Rightarrow> int \<Rightarrow> json_object \<Rightarrow> int \<Rightarrow> WorkerJob \<Rightarrow> WorkerJob" where
  "retried_row failureClass nextRunAt safeDiagnostic now j = j\<lparr>
     j_status := St_retry_scheduled, j_lockedBy := None, j_lockedUntil := None,
     j_nextRunAt := nextRunAt, j_lastErrorClass := Some failureClass,
     j_lastErrorReason := safeReason safeDiagnostic, j_updatedAt := now\<rparr>"

definition retry ::
  "string \<Rightarrow> nat \<Rightarrow> WorkerFailureClass \<Rightarrow> int \<Rightarrow> json_object \<Rightarrow> int \<Rightarrow> worker_db
   \<Rightarrow> (worker_error + WorkerJob) \<times> worker_db" where
  "retry jobId attemptId failureClass nextRunAt safeDiagnostic now db =
     (let err = Inl (NoRowReturned ''Worker retry was not persisted; max attempts may already be reached.'')
      in case (find_job db jobId, find_attempt db jobId attemptId) of
           (Some j, Some a) \<Rightarrow>
             if j_attemptCount j < j_maxAttempts j then
               (let db' = update_job jobId (retried_row failureClass nextRunAt safeDiagnostic now)
                      (update_attempt jobId attemptId
                         (\<lambda>a. a\<lparr>at_status := At_retryable_failed, at_failureClass := Some failureClass,
                                at_safeDiagnostic := safeDiagnostic, at_finishedAt := Some now\<rparr>) db)
                in (Inr (retried_row failureClass nextRunAt safeDiagnostic now j), db'))
             else (err, db)
         | _ \<Rightarrow> (err, db))"

definition dead_lettered_row :: "WorkerFailureClass \<Rightarrow> string \<Rightarrow> int \<Rightarrow> WorkerJob \<Rightarrow> WorkerJob" where
  "dead_lettered_row failureClass reasonCode now j = j\<lparr>
     j_status := St_dead_lettered, j_lockedBy := None, j_lockedUntil := None,
     j_completedAt := Some now, j_lastErrorClass := Some failureClass,
     j_lastErrorReason := Some reasonCode, j_updatedAt := now\<rparr>"

definition upsert_dead_letter :: "WorkerDeadLetter \<Rightarrow> WorkerDeadLetter list \<Rightarrow> WorkerDeadLetter list" where
  "upsert_dead_letter row rows =
     (if dl_jobId row \<in> dl_jobId ` set rows
      then update_where (\<lambda>d. dl_jobId d = dl_jobId row)
        (\<lambda>old. old\<lparr>dl_attemptId := dl_attemptId row, dl_attemptCount := dl_attemptCount row,
                   dl_failureClass := dl_failureClass row, dl_reasonCode := dl_reasonCode row,
                   dl_safeDiagnostic := dl_safeDiagnostic row,
                   dl_nextOperatorAction := dl_nextOperatorAction row,
                   dl_createdAt := dl_createdAt row\<rparr>) rows
      else rows @ [row])"

definition deadLetter ::
  "string \<Rightarrow> nat \<Rightarrow> WorkerFailureClass \<Rightarrow> string \<Rightarrow> json_object \<Rightarrow> string \<Rightarrow> int \<Rightarrow> worker_db
   \<Rightarrow> (worker_error + WorkerJob) \<times> worker_db" where
  "deadLetter jobId attemptId failureClass reasonCode safeDiagnostic nextOperatorAction now db =
     (case (find_job db jobId, find_attempt db jobId attemptId) of
        (Some j, Some a) \<Rightarrow>
          (let job = dead_lettered_row failureClass reasonCode now j
           in if \<not> 0 < j_attemptCount job then (Inl SqlCheckViolation, db)
              else (Inr job,
                (update_job jobId (dead_lettered_row failureClass reasonCode now)
                   (update_attempt jobId attemptId
                      (\<lambda>a. a\<lparr>at_status := At_dead_lettered, at_failureClass := Some failureClass,
                             at_safeDiagnostic := safeDiagnostic, at_finishedAt := Some now\<rparr>) db))
                \<lparr>db_deadLetters := upsert_dead_letter
                   \<lparr>dl_jobId = jobId, dl_attemptId = attemptId, dl_job = job,
                    dl_attemptCount = j_attemptCount job, dl_failureClass = failureClass,
                    dl_reasonCode = reasonCode, dl_safeDiagnostic = safeDiagnostic,
                    dl_nextOperatorAction = nextOperatorAction, dl_createdAt = now\<rparr>
                   (db_deadLetters db)\<rparr>))
      | _ \<Rightarrow> (Inl (NoRowReturned ''Worker dead-letter did not return a row.''), db))"

section \<open>readFreshness\<close>

definition readFreshness ::
  "WorkerKind \<Rightarrow> WorkerTenantScope \<Rightarrow> WorkerSourceScope \<Rightarrow> worker_db \<Rightarrow> WorkerFreshness option" where
  "readFreshness kind tenantScope sourceScope db =
     find (\<lambda>c. fr_workerKind c = kind
         \<and> fr_merchantId c = column (ts_merchantId tenantScope)
         \<and> fr_storeId c = column (ts_storeId tenantScope)
         \<and> fr_source c = ss_source sourceScope
         \<and> fr_producerService c = column (ss_producerService sourceScope)
         \<and> fr_producerEnvironment c = column (ss_producerEnvironment sourceScope)) (db_checkpoints db)"

end
