(* ===== verification/WorkerInvariants.thy ===== *)
theory WorkerInvariants
  imports WorkerJobs
begin

text \<open>
  Every reachable state of the job tables: \<open>worker_reachable\<close> is the transition system of the
  repository's operations with any arguments, \<open>worker_inv\<close> its invariant. The invariant implies
  that the constraints of the schema (attempt numbers, dead letters, references) never refuse a
  statement, that a job is attempted at most \<open>max_attempts\<close> times, and that exactly the running
  jobs are locked.
\<close>

section \<open>Update statements\<close>

lemma map_update_where: "(\<And>r. P r \<Longrightarrow> g (f r) = g r) \<Longrightarrow> map g (update_where P f rows) = map g rows"
  by (simp add: update_where_def)

lemma update_where_nothing: "(\<And>r. r \<in> set rows \<Longrightarrow> \<not> P r) \<Longrightarrow> update_where P f rows = rows"
  by (simp add: update_where_def map_idI)

lemma set_update_where: "set (update_where P f rows) = f ` {r \<in> set rows. P r} \<union> {r \<in> set rows. \<not> P r}"
  by (auto simp: update_where_def)

lemma find_update_where:
  assumes "\<And>r. g (f r) = g r"
  shows "find (\<lambda>r. g r = k) (update_where (\<lambda>r. g r = k') f rows)
    = (if k = k' then map_option f (find (\<lambda>r. g r = k) rows) else find (\<lambda>r. g r = k) rows)"
  by (induction rows) (auto simp: update_where_def assms)

section \<open>The steps\<close>

inductive worker_step ::
  "string comparator \<Rightarrow> (string \<Rightarrow> string) \<Rightarrow> (string \<Rightarrow> string) \<Rightarrow> worker_db \<Rightarrow> worker_db \<Rightarrow> bool"
  for lc sha md5 where
  step_enqueue: "enqueue lc sha inp db = (r1, db') \<Longrightarrow> worker_step lc sha md5 db db'"
| step_claim: "claim kind w now lease db = (r2, db') \<Longrightarrow> worker_step lc sha md5 db db'"
| step_heartbeat: "heartbeat jid aid now db = (r3, db') \<Longrightarrow> worker_step lc sha md5 db db'"
| step_checkpoint: "checkpoint md5 jid aid wm summ now db = (r4, db') \<Longrightarrow> worker_step lc sha md5 db db'"
| step_complete: "complete md5 jid aid wm summ now db = (r5, db') \<Longrightarrow> worker_step lc sha md5 db db'"
| step_retry: "retry jid aid fc next diag now db = (r6, db') \<Longrightarrow> worker_step lc sha md5 db db'"
| step_deadLetter: "deadLetter jid aid fc reason diag act now db = (r7, db') \<Longrightarrow> worker_step lc sha md5 db db'"

inductive worker_reachable ::
  "string comparator \<Rightarrow> (string \<Rightarrow> string) \<Rightarrow> (string \<Rightarrow> string) \<Rightarrow> worker_db \<Rightarrow> bool"
  for lc sha md5 where
  reach_empty: "worker_reachable lc sha md5 worker_db_empty"
| reach_step: "worker_reachable lc sha md5 db \<Longrightarrow> worker_step lc sha md5 db db'
    \<Longrightarrow> worker_reachable lc sha md5 db'"

section \<open>Counting attempts\<close>

definition job_keys :: "worker_db \<Rightarrow> (string \<times> int \<times> int) list" where
  "job_keys db = map (\<lambda>j. (j_jobId j, j_attemptCount j, j_maxAttempts j)) (db_jobs db)"

definition attempt_keys :: "worker_db \<Rightarrow> (nat \<times> string \<times> int) list" where
  "attempt_keys db = map (\<lambda>a. (at_attemptId a, at_jobId a, at_attemptNumber a)) (db_attempts db)"

definition queue_ok :: "(string \<times> int \<times> int) list \<Rightarrow> (nat \<times> string \<times> int) list \<Rightarrow> nat \<Rightarrow> bool" where
  "queue_ok jk ak n \<longleftrightarrow>
     distinct (map fst jk) \<and> distinct (map fst ak) \<and> distinct (map snd ak)
     \<and> (\<forall>i jid num. (i, jid, num) \<in> set ak \<longrightarrow>
          i < n \<and> (\<exists>c m. (jid, c, m) \<in> set jk \<and> 1 \<le> num \<and> num \<le> c))
     \<and> (\<forall>jid c m. (jid, c, m) \<in> set jk \<longrightarrow> 0 \<le> c \<and> c \<le> m
          \<and> int (length (filter (\<lambda>a. fst (snd a) = jid) ak)) = c)"

lemma queue_okI:
  assumes "distinct (map fst jk)" "distinct (map fst ak)" "distinct (map snd ak)"
    "\<And>i jid num. (i, jid, num) \<in> set ak \<Longrightarrow> i < n"
    "\<And>i jid num. (i, jid, num) \<in> set ak \<Longrightarrow> \<exists>c m. (jid, c, m) \<in> set jk \<and> 1 \<le> num \<and> num \<le> c"
    "\<And>jid c m. (jid, c, m) \<in> set jk \<Longrightarrow> 0 \<le> c \<and> c \<le> m
       \<and> int (length (filter (\<lambda>a. fst (snd a) = jid) ak)) = c"
  shows "queue_ok jk ak n"
  using assms unfolding queue_ok_def by blast

lemma queue_okD:
  assumes "queue_ok jk ak n"
  shows "distinct (map fst jk)" "distinct (map fst ak)" "distinct (map snd ak)"
    "(i, jid, num) \<in> set ak \<Longrightarrow> i < n"
    "(i, jid, num) \<in> set ak \<Longrightarrow> \<exists>c m. (jid, c, m) \<in> set jk \<and> 1 \<le> num \<and> num \<le> c"
    "(jid, c, m) \<in> set jk \<Longrightarrow> 0 \<le> c \<and> c \<le> m"
    "(jid, c, m) \<in> set jk \<Longrightarrow> int (length (filter (\<lambda>a. fst (snd a) = jid) ak)) = c"
  using assms unfolding queue_ok_def by blast+

lemma queue_ok_enqueue:
  assumes "queue_ok jk ak n" "jid \<notin> fst ` set jk" "0 < m"
  shows "queue_ok (jk @ [(jid, 0, m)]) ak n"
proof (rule queue_okI)
  note ok = queue_okD [OF assms(1)]
  have none: "filter (\<lambda>a. fst (snd a) = jid) ak = []"
  proof (rule filter_False, rule ballI, rule notI)
    fix a assume "a \<in> set ak" "fst (snd a) = jid"
    then obtain i num where "(i, jid, num) \<in> set ak" by (metis prod.collapse)
    from ok(5) [OF this] assms(2) show False by force
  qed
  show "distinct (map fst (jk @ [(jid, 0, m)]))" using ok(1) assms(2) by simp
  show "distinct (map fst ak)" "distinct (map snd ak)" by (rule ok)+
  show "i < n" if "(i, j, num) \<in> set ak" for i j num using ok(4) [OF that] .
  show "\<exists>c m'. (j, c, m') \<in> set (jk @ [(jid, 0, m)]) \<and> 1 \<le> num \<and> num \<le> c"
    if "(i, j, num) \<in> set ak" for i j num
    using ok(5) [OF that] by auto
  show "0 \<le> c \<and> c \<le> m' \<and> int (length (filter (\<lambda>a. fst (snd a) = j) ak)) = c"
    if "(j, c, m') \<in> set (jk @ [(jid, 0, m)])" for j c m'
    using that ok(6,7) [of j c m'] none assms(3) by auto
qed

definition bump :: "string \<Rightarrow> string \<times> int \<times> int \<Rightarrow> string \<times> int \<times> int" where
  "bump jid k = (if fst k = jid then (jid, fst (snd k) + 1, snd (snd k)) else k)"

lemma queue_ok_claim:
  assumes "queue_ok jk ak n" "(jid, c, m) \<in> set jk" "c < m"
  shows "queue_ok (map (bump jid) jk) (ak @ [(n, jid, c + 1)]) (Suc n)"
proof (rule queue_okI)
  note ok = queue_okD [OF assms(1)]
  have only: "c' = c \<and> m' = m" if "(jid, c', m') \<in> set jk" for c' m'
    using eq_key_imp_eq_value [OF ok(1) assms(2) that] by simp
  have "map fst (map (bump jid) jk) = map fst jk" by (simp add: bump_def)
  with ok(1) show "distinct (map fst (map (bump jid) jk))" by (simp only:)
  show "distinct (map fst (ak @ [(n, jid, c + 1)]))"
    using ok(2,4) by (force simp: image_iff)
  have "(jid, c + 1) \<notin> snd ` set ak"
  proof
    assume "(jid, c + 1) \<in> snd ` set ak"
    then obtain i where "(i, jid, c + 1) \<in> set ak" by (metis imageE prod.collapse)
    from ok(5) [OF this] only show False by fastforce
  qed
  with ok(3) show "distinct (map snd (ak @ [(n, jid, c + 1)]))" by simp
  show "i < Suc n" if "(i, j, num) \<in> set (ak @ [(n, jid, c + 1)])" for i j num
    using that ok(4) by (auto intro: less_SucI)
  show "\<exists>c' m'. (j, c', m') \<in> set (map (bump jid) jk) \<and> 1 \<le> num \<and> num \<le> c'"
    if a: "(i, j, num) \<in> set (ak @ [(n, jid, c + 1)])" for i j num
  proof (cases "(i, j, num) \<in> set ak")
    case True
    then obtain c' m' where k: "(j, c', m') \<in> set jk" "1 \<le> num" "num \<le> c'" using ok(5) by blast
    then have "bump jid (j, c', m') \<in> set (map (bump jid) jk)" by simp
    with k(2,3) show ?thesis by (fastforce simp: bump_def split: if_splits)
  next
    case False
    with a have "j = jid" "num = c + 1" by auto
    moreover have "bump jid (jid, c, m) \<in> set (map (bump jid) jk)" using assms(2) by simp
    ultimately show ?thesis using ok(6) [OF assms(2)] by (fastforce simp: bump_def)
  qed
  show "0 \<le> c' \<and> c' \<le> m' \<and> int (length (filter (\<lambda>a. fst (snd a) = j) (ak @ [(n, jid, c + 1)]))) = c'"
    if k: "(j, c', m') \<in> set (map (bump jid) jk)" for j c' m'
  proof (cases "j = jid")
    case True
    with k only have "c' = c + 1" "m' = m" by (fastforce simp: bump_def split: if_splits)+
    with True assms(3) ok(6,7) [OF assms(2)] show ?thesis by simp
  next
    case False
    with k have "(j, c', m') \<in> set jk" by (auto simp: bump_def split: if_splits)
    with False ok(6,7) show ?thesis by simp
  qed
qed

section \<open>States and links\<close>

definition job_state_ok :: "WorkerJob \<Rightarrow> bool" where
  "job_state_ok j \<longleftrightarrow>
     j_status j \<in> {St_queued, St_running, St_succeeded, St_retry_scheduled, St_dead_lettered}
     \<and> (j_status j = St_running \<longleftrightarrow> j_lockedBy j \<noteq> None)
     \<and> (j_lockedBy j = None \<longleftrightarrow> j_lockedUntil j = None)
     \<and> (j_status j = St_queued \<longrightarrow> j_attemptCount j = 0)
     \<and> (j_status j \<noteq> St_queued \<longrightarrow> 0 < j_attemptCount j)
     \<and> 0 < j_maxAttempts j"

definition links_ok :: "(string \<times> WorkerJobStatus) set \<Rightarrow> (nat \<times> string) set \<Rightarrow> worker_db \<Rightarrow> bool" where
  "links_ok js as db \<longleftrightarrow>
     distinct (map fr_checkpointId (db_checkpoints db))
     \<and> (\<forall>c \<in> set (db_checkpoints db). (fr_committedAttemptId c, fr_committedJobId c) \<in> as)
     \<and> distinct (map dl_jobId (db_deadLetters db))
     \<and> (\<forall>d \<in> set (db_deadLetters db). (dl_attemptId d, dl_jobId d) \<in> as)
     \<and> (\<forall>jid. (jid, St_dead_lettered) \<in> js \<longrightarrow> jid \<in> dl_jobId ` set (db_deadLetters db))"

definition job_statuses :: "worker_db \<Rightarrow> (string \<times> WorkerJobStatus) set" where
  "job_statuses db = (\<lambda>j. (j_jobId j, j_status j)) ` set (db_jobs db)"

definition attempt_refs :: "worker_db \<Rightarrow> (nat \<times> string) set" where
  "attempt_refs db = (\<lambda>a. (at_attemptId a, at_jobId a)) ` set (db_attempts db)"

definition worker_inv :: "worker_db \<Rightarrow> bool" where
  "worker_inv db \<longleftrightarrow>
     queue_ok (job_keys db) (attempt_keys db) (db_nextAttemptId db)
     \<and> (\<forall>j \<in> set (db_jobs db). job_state_ok j)
     \<and> links_ok (job_statuses db) (attempt_refs db) db"

lemma worker_inv_empty: "worker_inv worker_db_empty"
  by (simp add: worker_inv_def worker_db_empty_def queue_ok_def links_ok_def job_keys_def
      attempt_keys_def job_statuses_def attempt_refs_def)

lemma find_job_in: "find_job db jid = Some j \<Longrightarrow> j \<in> set (db_jobs db) \<and> j_jobId j = jid"
  by (auto simp: find_job_def dest: find_in_list)

lemma find_attempt_in:
  "find_attempt db jid aid = Some a \<Longrightarrow>
     a \<in> set (db_attempts db) \<and> at_attemptId a = aid \<and> at_jobId a = jid"
  by (auto simp: find_attempt_def is_attempt_def dest: find_in_list)

lemma find_attempt_ref: "find_attempt db jid aid = Some a \<Longrightarrow> (aid, jid) \<in> attempt_refs db"
  by (force simp: attempt_refs_def dest: find_attempt_in)

text \<open>A statement on one attempt and one job that keeps ids, numbers and counts.\<close>

definition keeps_attempt :: "(WorkerJobAttempt \<Rightarrow> WorkerJobAttempt) \<Rightarrow> bool" where
  "keeps_attempt f \<longleftrightarrow> (\<forall>a. at_attemptId (f a) = at_attemptId a \<and> at_jobId (f a) = at_jobId a
     \<and> at_attemptNumber (f a) = at_attemptNumber a)"

definition keeps_job :: "(WorkerJob \<Rightarrow> WorkerJob) \<Rightarrow> bool" where
  "keeps_job f \<longleftrightarrow> (\<forall>j. j_jobId (f j) = j_jobId j \<and> j_attemptCount (f j) = j_attemptCount j
     \<and> j_maxAttempts (f j) = j_maxAttempts j)"

lemma update_attempt_keys [simp]:
  assumes "keeps_attempt f"
  shows "attempt_keys (update_attempt jid aid f db) = attempt_keys db"
    "attempt_refs (update_attempt jid aid f db) = attempt_refs db"
proof -
  show "attempt_keys (update_attempt jid aid f db) = attempt_keys db"
    using assms by (simp add: attempt_keys_def update_attempt_def map_update_where keeps_attempt_def)
  have "map (\<lambda>a. (at_attemptId a, at_jobId a)) (update_where (is_attempt jid aid) f (db_attempts db))
      = map (\<lambda>a. (at_attemptId a, at_jobId a)) (db_attempts db)"
    using assms by (intro map_update_where) (simp add: keeps_attempt_def)
  from arg_cong [OF this, of set] show "attempt_refs (update_attempt jid aid f db) = attempt_refs db"
    by (simp add: attempt_refs_def update_attempt_def)
qed

lemma update_attempt_sel [simp]:
  "db_jobs (update_attempt jid aid f db) = db_jobs db"
  "db_nextAttemptId (update_attempt jid aid f db) = db_nextAttemptId db"
  "db_checkpoints (update_attempt jid aid f db) = db_checkpoints db"
  "db_deadLetters (update_attempt jid aid f db) = db_deadLetters db"
  "job_keys (update_attempt jid aid f db) = job_keys db"
  "job_statuses (update_attempt jid aid f db) = job_statuses db"
  "find_job (update_attempt jid aid f db) k = find_job db k"
  by (simp_all add: update_attempt_def job_keys_def job_statuses_def find_job_def)

lemma update_job_sel [simp]:
  "db_attempts (update_job jid f db) = db_attempts db"
  "db_nextAttemptId (update_job jid f db) = db_nextAttemptId db"
  "db_checkpoints (update_job jid f db) = db_checkpoints db"
  "db_deadLetters (update_job jid f db) = db_deadLetters db"
  "attempt_keys (update_job jid f db) = attempt_keys db"
  "attempt_refs (update_job jid f db) = attempt_refs db"
  "find_attempt (update_job jid f db) k a = find_attempt db k a"
  by (simp_all add: update_job_def attempt_keys_def attempt_refs_def find_attempt_def)

lemma update_job_keys [simp]: "keeps_job f \<Longrightarrow> job_keys (update_job jid f db) = job_keys db"
  by (simp add: job_keys_def update_job_def map_update_where keeps_job_def)

lemma find_job_update [simp]:
  "keeps_job f \<Longrightarrow> find_job (update_job jid f db) k
     = (if k = jid then map_option f (find_job db k) else find_job db k)"
  by (simp add: find_job_def update_job_def find_update_where keeps_job_def)

lemma find_attempt_update [simp]:
  assumes "keeps_attempt f"
  shows "find_attempt (update_attempt jid aid f db) jid aid = map_option f (find_attempt db jid aid)"
proof -
  have "find (is_attempt jid aid) (update_where (is_attempt jid aid) f rows)
      = map_option f (find (is_attempt jid aid) rows)" for rows
    using assms by (induction rows) (auto simp: update_where_def is_attempt_def keeps_attempt_def)
  then show ?thesis by (simp add: find_attempt_def update_attempt_def)
qed

lemma update_job_states:
  "(\<And>j. j \<in> set (db_jobs db) \<Longrightarrow> j_jobId j = jid \<Longrightarrow> job_state_ok (f j))
   \<Longrightarrow> \<forall>j \<in> set (db_jobs db). job_state_ok j
   \<Longrightarrow> \<forall>j \<in> set (db_jobs (update_job jid f db)). job_state_ok j"
  by (auto simp: update_job_def set_update_where)

lemma update_job_statuses:
  "keeps_job f
   \<Longrightarrow> (\<And>j. j \<in> set (db_jobs db) \<Longrightarrow> j_jobId j = jid \<Longrightarrow> j_status (f j) = St_dead_lettered
        \<Longrightarrow> (jid, St_dead_lettered) \<in> js)
   \<Longrightarrow> (k, St_dead_lettered) \<in> job_statuses (update_job jid f db)
   \<Longrightarrow> (k, St_dead_lettered) \<in> job_statuses db \<union> js"
  by (force simp: job_statuses_def update_job_def set_update_where keeps_job_def)

lemma attempt_has_job:
  assumes "worker_inv db" "find_attempt db jid aid = Some a"
  obtains j where "find_job db jid = Some j" "0 < j_attemptCount j"
proof -
  have "(at_attemptId a, jid, at_attemptNumber a) \<in> set (attempt_keys db)"
    using find_attempt_in [OF assms(2)] by (force simp: attempt_keys_def)
  moreover have "queue_ok (job_keys db) (attempt_keys db) (db_nextAttemptId db)"
    using assms(1) by (simp add: worker_inv_def)
  ultimately obtain c m where cm: "(jid, c, m) \<in> set (job_keys db)" "1 \<le> c"
    using queue_okD(5) by fastforce
  then obtain j where j: "j \<in> set (db_jobs db)" "j_jobId j = jid" "j_attemptCount j = c"
    by (auto simp: job_keys_def)
  have "distinct (map j_jobId (db_jobs db))"
    using assms(1) by (simp add: worker_inv_def queue_ok_def job_keys_def comp_def)
  with j have "find_job db jid = Some j"
    unfolding find_job_def by (intro find_the_row) simp_all
  with j cm that show thesis by auto
qed

section \<open>Every operation keeps the invariant\<close>

lemma jobs_distinct: "worker_inv db \<Longrightarrow> distinct (map j_jobId (db_jobs db))"
  by (simp add: worker_inv_def queue_ok_def job_keys_def comp_def)

lemma find_job_iff:
  "worker_inv db \<Longrightarrow> j \<in> set (db_jobs db) \<Longrightarrow> find_job db (j_jobId j) = Some j"
  unfolding find_job_def by (intro find_the_row jobs_distinct) simp_all

text \<open>Statements that change one attempt and one job, keep keys, and leave the other tables alone.\<close>

lemma worker_inv_update:
  assumes inv: "worker_inv db" and f: "keeps_attempt f" and g: "keeps_job g"
    and ok: "\<And>j. job_state_ok j \<Longrightarrow> j_jobId j = jid \<Longrightarrow> 0 < j_attemptCount j \<Longrightarrow> job_state_ok (g j)"
    and attempt: "find_attempt db jid aid = Some a"
    and dead: "\<And>j. j \<in> set (db_jobs db) \<Longrightarrow> j_jobId j = jid \<Longrightarrow> j_status (g j) = St_dead_lettered
      \<Longrightarrow> jid \<in> dl_jobId ` set dls"
    and dls: "distinct (map dl_jobId dls)" "dl_jobId ` set (db_deadLetters db) \<subseteq> dl_jobId ` set dls"
      "\<forall>d \<in> set dls. (dl_attemptId d, dl_jobId d) \<in> attempt_refs db"
    and cps: "distinct (map fr_checkpointId cps)"
      "\<forall>c \<in> set cps. (fr_committedAttemptId c, fr_committedJobId c) \<in> attempt_refs db"
  shows "worker_inv ((update_job jid g (update_attempt jid aid f db))
    \<lparr>db_deadLetters := dls, db_checkpoints := cps\<rparr>)"
proof -
  let ?db = "update_job jid g (update_attempt jid aid f db)"
  have states: "\<forall>j \<in> set (db_jobs ?db). job_state_ok j"
  proof (rule update_job_states)
    show "\<forall>j \<in> set (db_jobs (update_attempt jid aid f db)). job_state_ok j"
      using inv by (simp add: worker_inv_def)
    fix j assume "j \<in> set (db_jobs (update_attempt jid aid f db))" "j_jobId j = jid"
    then have j: "j \<in> set (db_jobs db)" "find_job db jid = Some j"
      using find_job_iff [OF inv] by auto
    have "0 < j_attemptCount j" using attempt_has_job [OF inv attempt] j(2) by auto
    moreover have "job_state_ok j" using inv j(1) by (simp add: worker_inv_def)
    ultimately show "job_state_ok (g j)" using ok \<open>j_jobId j = jid\<close> by blast
  qed
  have "k \<in> dl_jobId ` set dls" if "(k, St_dead_lettered) \<in> job_statuses ?db" for k
  proof -
    have "(k, St_dead_lettered) \<in> job_statuses (update_attempt jid aid f db)
        \<union> {(jid, St_dead_lettered) |_. jid \<in> dl_jobId ` set dls}"
      using that dead by (intro update_job_statuses [OF g]) auto
    then show ?thesis using inv dls(2) by (auto simp: worker_inv_def links_ok_def)
  qed
  then have "links_ok (job_statuses ?db) (attempt_refs db) (?db\<lparr>db_deadLetters := dls, db_checkpoints := cps\<rparr>)"
    using dls cps by (simp add: links_ok_def)
  moreover have "job_keys ?db = job_keys db" "attempt_keys ?db = attempt_keys db"
    "attempt_refs ?db = attempt_refs db"
    using f g by simp_all
  ultimately show ?thesis
    using inv states
    by (simp add: worker_inv_def job_keys_def attempt_keys_def job_statuses_def attempt_refs_def)
qed

lemma worker_inv_jobs_same:
  assumes "worker_inv db" "keeps_attempt f" "keeps_job g"
    "\<And>j. job_state_ok j \<Longrightarrow> job_state_ok (g j)" "\<And>j. j_status (g j) = j_status j"
  shows "worker_inv (update_attempt jid aid f (update_job jid g db))"
proof -
  have "job_statuses (update_job jid g db) = job_statuses db"
  proof -
    have "map (\<lambda>j. (j_jobId j, j_status j)) (update_where (\<lambda>j. j_jobId j = jid) g (db_jobs db))
        = map (\<lambda>j. (j_jobId j, j_status j)) (db_jobs db)"
      using assms(3,5) by (intro map_update_where) (simp add: keeps_job_def)
    from arg_cong [OF this, of set] show ?thesis by (simp add: job_statuses_def update_job_def)
  qed
  moreover have "\<forall>j \<in> set (db_jobs (update_job jid g db)). job_state_ok j"
    using assms(1,4) by (intro update_job_states) (auto simp: worker_inv_def)
  ultimately show ?thesis
    using assms by (simp add: worker_inv_def links_ok_def)
qed

lemma enqueue_inv:
  assumes "worker_inv db" "enqueue lc sha inp db = (res, db')"
  shows "worker_inv db'"
proof (cases "db' = db")
  case False
  let ?row = "enqueued_row (stableWorkerJobId lc sha inp) inp"
  from False assms(2) have new: "0 < j_maxAttempts ?row" "find_job db (j_jobId ?row) = None"
    "db' = db\<lparr>db_jobs := db_jobs db @ [?row]\<rparr>"
    by (auto simp: enqueue_def Let_def enqueued_row_def split: if_splits option.splits)
  have "job_state_ok ?row" using new(1) by (simp add: job_state_ok_def enqueued_row_def)
  moreover have "queue_ok (job_keys db @ [(j_jobId ?row, 0, j_maxAttempts ?row)]) (attempt_keys db) (db_nextAttemptId db)"
  proof (rule queue_ok_enqueue)
    show "j_jobId ?row \<notin> fst ` set (job_keys db)"
      using new(2) by (auto simp: find_job_def find_None_iff job_keys_def)
  qed (use assms(1) new(1) in \<open>simp_all add: worker_inv_def\<close>)
  moreover have "j_attemptCount ?row = 0" "j_status ?row = St_queued" by (simp_all add: enqueued_row_def)
  ultimately show ?thesis
    using assms(1) unfolding new(3)
    by (auto simp: worker_inv_def job_keys_def attempt_keys_def links_ok_def job_statuses_def attempt_refs_def)
qed (use assms(1) in simp)

lemma selected_job_in:
  assumes "selected_job kind now db = Some j"
  shows "j \<in> set (db_jobs db) \<and> claimable kind now j"
proof -
  from assms obtain js where "sort_key claim_order (filter (claimable kind now) (db_jobs db)) = j # js"
    by (auto simp: selected_job_def split: list.splits)
  then have "j \<in> set (sort_key claim_order (filter (claimable kind now) (db_jobs db)))" by simp
  then show ?thesis by simp
qed

lemma claim_inv:
  assumes inv: "worker_inv db" and c: "claim kind w now lease db = (res, db')"
  shows "worker_inv db'"
proof (cases "selected_job kind now db")
  case None
  with c inv show ?thesis by (simp add: claim_def Let_def)
next
  case (Some j)
  let ?f = "claimed_row w now (now + lease * 1000)"
  let ?a = "started_attempt (db_nextAttemptId db) w now (?f j)"
  have db': "db' = db\<lparr>db_jobs := update_where (\<lambda>k. j_jobId k = j_jobId j) ?f (db_jobs db),
      db_attempts := db_attempts db @ [?a], db_nextAttemptId := Suc (db_nextAttemptId db)\<rparr>"
    using c Some by (simp add: claim_def Let_def)
  from selected_job_in [OF Some] have j: "j \<in> set (db_jobs db)" "claimable kind now j" by simp_all
  have "(j_jobId j, j_attemptCount j, j_maxAttempts j) \<in> set (job_keys db)"
    using j(1) by (force simp: job_keys_def)
  moreover have "j_attemptCount j < j_maxAttempts j" using j(2) by (simp add: claimable_def)
  ultimately have "queue_ok (map (bump (j_jobId j)) (job_keys db))
      (attempt_keys db @ [(db_nextAttemptId db, j_jobId j, j_attemptCount j + 1)]) (Suc (db_nextAttemptId db))"
    using inv by (intro queue_ok_claim) (simp_all add: worker_inv_def)
  moreover have "job_keys db' = map (bump (j_jobId j)) (job_keys db)"
    by (simp add: db' job_keys_def update_where_def bump_def claimed_row_def)
  moreover have "attempt_keys db' = attempt_keys db @ [(db_nextAttemptId db, j_jobId j, j_attemptCount j + 1)]"
    by (simp add: db' attempt_keys_def started_attempt_def claimed_row_def)
  moreover have "\<forall>k \<in> set (db_jobs db'). job_state_ok k"
  proof -
    have "job_state_ok (?f k)" if "job_state_ok k" "k \<in> set (db_jobs db)" for k
    proof -
      have "(j_jobId k, j_attemptCount k, j_maxAttempts k) \<in> set (job_keys db)"
        using that(2) by (force simp: job_keys_def)
      then have "0 \<le> j_attemptCount k" using inv queue_okD(6) unfolding worker_inv_def by blast
      with that(1) show ?thesis by (simp add: job_state_ok_def claimed_row_def)
    qed
    then show ?thesis using inv by (auto simp: db' set_update_where worker_inv_def)
  qed
  moreover have "links_ok (job_statuses db') (attempt_refs db') db'"
  proof -
    have "attempt_refs db \<subseteq> attempt_refs db'" by (auto simp: db' attempt_refs_def)
    moreover have "(k, St_dead_lettered) \<in> job_statuses db" if "(k, St_dead_lettered) \<in> job_statuses db'" for k
      using that by (force simp: db' job_statuses_def set_update_where claimed_row_def)
    ultimately show ?thesis using inv by (auto simp: worker_inv_def links_ok_def db')
  qed
  ultimately show ?thesis by (simp add: worker_inv_def db')
qed

lemma heartbeat_inv:
  assumes "worker_inv db" "heartbeat jid aid now db = (res, db')"
  shows "worker_inv db'"
proof -
  have "worker_inv (update_attempt jid aid (at_heartbeatAt_update (\<lambda>_. Some now)) (update_job jid (beat_job now) db))"
    using assms(1)
    by (intro worker_inv_jobs_same) (auto simp: keeps_attempt_def keeps_job_def beat_job_def job_state_ok_def)
  then show ?thesis using assms(2) by (simp add: heartbeat_def Let_def)
qed

lemma upsert_checkpoint_spec:
  assumes "distinct (map fr_checkpointId rows)" "\<forall>c \<in> set rows. P (fr_committedAttemptId c) (fr_committedJobId c)"
    "P (fr_committedAttemptId row) (fr_committedJobId row)" "upsert_checkpoint row rows = (r, rows')"
  shows "distinct (map fr_checkpointId rows')
    \<and> (\<forall>c \<in> set rows'. P (fr_committedAttemptId c) (fr_committedJobId c))"
proof (cases "find (\<lambda>c. fr_checkpointId c = fr_checkpointId row) rows")
  case None
  then have "fr_checkpointId row \<notin> fr_checkpointId ` set rows" by (auto simp: find_None_iff)
  with None assms show ?thesis by (auto simp: upsert_checkpoint_def)
next
  case (Some old)
  have "map fr_checkpointId (update_where Q (recommitted row) rows) = map fr_checkpointId rows" for Q
    by (rule map_update_where) (simp add: recommitted_def)
  with Some assms show ?thesis
    by (auto simp: upsert_checkpoint_def set_update_where recommitted_def)
qed

lemma checkpoint_effect:
  assumes "worker_inv db" "checkpoint md5 jid aid wm summ now db = (res, db')"
  shows "worker_inv db' \<and> (find_attempt db jid aid = None \<longrightarrow> db' = db \<and> (\<exists>e. res = Inl e))
    \<and> (\<forall>a. find_attempt db jid aid = Some a \<longrightarrow> (\<exists>r. res = Inr r) \<and> find_attempt db' jid aid \<noteq> None)
    \<and> db_jobs db' = db_jobs db"
proof (cases "find_attempt db jid aid")
  case None
  then have "is_attempt jid aid a = False" if "a \<in> set (db_attempts db)" for a
    using that by (auto simp: find_attempt_def find_None_iff)
  then have "update_attempt jid aid f db = db" for f
    by (simp add: update_attempt_def update_where_nothing)
  with None assms show ?thesis by (auto simp: checkpoint_def Let_def split: option.splits)
next
  case (Some a)
  let ?f = "\<lambda>a. a\<lparr>at_status := At_checkpointed, at_outputWatermark := Some wm, at_heartbeatAt := Some now\<rparr>"
  from attempt_has_job [OF assms(1) Some] obtain j where j: "find_job db jid = Some j" by metis
  obtain row rows where up: "upsert_checkpoint (checkpoint_row md5 j (at_attemptId a) wm summ now)
      (db_checkpoints db) = (row, rows)" by fastforce
  have id: "at_attemptId a = aid" "j_jobId j = jid" using find_attempt_in [OF Some] find_job_in [OF j] by simp_all
  have f: "keeps_attempt ?f" by (simp add: keeps_attempt_def)
  have links: "links_ok (job_statuses db) (attempt_refs db) db" using assms(1) by (simp add: worker_inv_def)
  have rows: "distinct (map fr_checkpointId rows)
      \<and> (\<forall>c \<in> set rows. (fr_committedAttemptId c, fr_committedJobId c) \<in> attempt_refs db)"
    by (rule upsert_checkpoint_spec [where P = "\<lambda>x y. (x, y) \<in> attempt_refs db", OF _ _ _ up])
      (use links find_attempt_ref [OF Some] id in \<open>auto simp: links_ok_def checkpoint_row_def\<close>)
  have db': "db' = (update_attempt jid aid ?f db)\<lparr>db_checkpoints := rows\<rparr>" "res = Inr row"
    using assms(2) Some j up by (auto simp: checkpoint_def Let_def)
  have jobs: "update_job jid (\<lambda>j. j) (update_attempt jid aid ?f db) = update_attempt jid aid ?f db"
    by (simp add: update_job_def update_where_def)
  have "worker_inv ((update_job jid (\<lambda>j. j) (update_attempt jid aid ?f db))
      \<lparr>db_deadLetters := db_deadLetters db, db_checkpoints := rows\<rparr>)"
  proof (rule worker_inv_update [OF assms(1) f _ _ Some])
    fix j assume "j \<in> set (db_jobs db)" "j_jobId j = jid" "j_status j = St_dead_lettered"
    then have "(jid, St_dead_lettered) \<in> job_statuses db" by (force simp: job_statuses_def)
    with links show "jid \<in> dl_jobId ` set (db_deadLetters db)" by (simp add: links_ok_def)
  qed (use links rows in \<open>auto simp: keeps_job_def links_ok_def\<close>)
  then have "worker_inv db'" unfolding jobs db'(1) by (simp add: update_attempt_def)
  moreover have "find_attempt db' jid aid = map_option ?f (Some a)"
    using find_attempt_update [OF f, of jid aid db] Some by (simp add: db' find_attempt_def)
  ultimately show ?thesis using Some db' by simp
qed

lemma complete_statement_inv:
  assumes "worker_inv db" "complete_statement jid aid wm now db = (res, db')"
  shows "worker_inv db'"
proof (cases "find_attempt db jid aid")
  case None
  with assms show ?thesis by (simp add: complete_statement_def)
next
  case (Some a)
  let ?f = "\<lambda>a. a\<lparr>at_status := At_succeeded, at_outputWatermark := Some wm, at_finishedAt := Some now\<rparr>"
  have links: "links_ok (job_statuses db) (attempt_refs db) db" using assms(1) by (simp add: worker_inv_def)
  have "worker_inv ((update_job jid (completed_row now) (update_attempt jid aid ?f db))
      \<lparr>db_deadLetters := db_deadLetters db, db_checkpoints := db_checkpoints db\<rparr>)"
    by (rule worker_inv_update [OF assms(1) _ _ _ Some])
      (use links in \<open>auto simp: keeps_job_def keeps_attempt_def completed_row_def job_state_ok_def links_ok_def\<close>)
  moreover have "db' = update_job jid (completed_row now) (update_attempt jid aid ?f db)"
    using assms(2) Some by (auto simp: complete_statement_def Let_def split: option.splits)
  ultimately show ?thesis by (simp add: update_job_def update_attempt_def)
qed

lemma complete_inv:
  assumes "worker_inv db" "complete md5 jid aid wm summ now db = (res, db')"
  shows "worker_inv db'"
proof -
  obtain r d where cp: "checkpoint md5 jid aid wm summ now db = (r, d)" by fastforce
  with checkpoint_effect [OF assms(1) this] assms(2) show ?thesis
    by (cases r) (auto simp: complete_def intro: complete_statement_inv)
qed

lemma retry_inv:
  assumes "worker_inv db" "retry jid aid fc next diag now db = (res, db')"
  shows "worker_inv db'"
proof (cases "db' = db")
  case False
  then obtain a where a: "find_attempt db jid aid = Some a"
    using assms(2) by (auto simp: retry_def Let_def split: option.splits if_splits)
  let ?f = "\<lambda>a. a\<lparr>at_status := At_retryable_failed, at_failureClass := Some fc,
      at_safeDiagnostic := diag, at_finishedAt := Some now\<rparr>"
  have links: "links_ok (job_statuses db) (attempt_refs db) db" using assms(1) by (simp add: worker_inv_def)
  have "worker_inv ((update_job jid (retried_row fc next diag now) (update_attempt jid aid ?f db))
      \<lparr>db_deadLetters := db_deadLetters db, db_checkpoints := db_checkpoints db\<rparr>)"
    by (rule worker_inv_update [OF assms(1) _ _ _ a])
      (use links in \<open>auto simp: keeps_job_def keeps_attempt_def retried_row_def job_state_ok_def links_ok_def\<close>)
  moreover have "db' = update_job jid (retried_row fc next diag now) (update_attempt jid aid ?f db)"
    using assms(2) False by (auto simp: retry_def Let_def split: option.splits if_splits)
  ultimately show ?thesis by (simp add: update_job_def update_attempt_def)
qed (use assms(1) in simp)

lemma upsert_dead_letter_spec:
  assumes "distinct (map dl_jobId rows)" "\<forall>d \<in> set rows. P (dl_attemptId d) (dl_jobId d)"
    "P (dl_attemptId row) (dl_jobId row)"
  shows "distinct (map dl_jobId (upsert_dead_letter row rows))
    \<and> (\<forall>d \<in> set (upsert_dead_letter row rows). P (dl_attemptId d) (dl_jobId d))
    \<and> dl_jobId ` set (upsert_dead_letter row rows) = insert (dl_jobId row) (dl_jobId ` set rows)"
proof (cases "dl_jobId row \<in> dl_jobId ` set rows")
  case False
  with assms show ?thesis by (auto simp: upsert_dead_letter_def)
next
  case True
  let ?f = "\<lambda>old. old\<lparr>dl_attemptId := dl_attemptId row, dl_attemptCount := dl_attemptCount row,
      dl_failureClass := dl_failureClass row, dl_reasonCode := dl_reasonCode row,
      dl_safeDiagnostic := dl_safeDiagnostic row, dl_nextOperatorAction := dl_nextOperatorAction row,
      dl_createdAt := dl_createdAt row\<rparr>"
  have eq: "upsert_dead_letter row rows = update_where (\<lambda>d. dl_jobId d = dl_jobId row) ?f rows"
    using True by (simp add: upsert_dead_letter_def)
  have ids: "map dl_jobId (upsert_dead_letter row rows) = map dl_jobId rows"
    unfolding eq by (rule map_update_where) simp
  from arg_cong [OF this, of set] have "dl_jobId ` set (upsert_dead_letter row rows) = dl_jobId ` set rows"
    by simp
  moreover have "\<forall>d \<in> set (upsert_dead_letter row rows). P (dl_attemptId d) (dl_jobId d)"
    using assms(2,3) by (auto simp: eq set_update_where)
  ultimately show ?thesis using ids assms(1) True by (simp add: insert_absorb)
qed

lemma deadLetter_inv:
  assumes "worker_inv db" "deadLetter jid aid fc reason diag act now db = (res, db')"
  shows "worker_inv db'"
proof (cases "db' = db")
  case False
  then obtain a j where a: "find_attempt db jid aid = Some a" "find_job db jid = Some j"
    using assms(2) by (auto simp: deadLetter_def Let_def split: option.splits if_splits)
  let ?f = "\<lambda>a. a\<lparr>at_status := At_dead_lettered, at_failureClass := Some fc,
      at_safeDiagnostic := diag, at_finishedAt := Some now\<rparr>"
  let ?g = "dead_lettered_row fc reason now"
  let ?row = "\<lparr>dl_jobId = jid, dl_attemptId = aid, dl_job = ?g j, dl_attemptCount = j_attemptCount (?g j),
      dl_failureClass = fc, dl_reasonCode = reason, dl_safeDiagnostic = diag,
      dl_nextOperatorAction = act, dl_createdAt = now\<rparr>"
  let ?dls = "upsert_dead_letter ?row (db_deadLetters db)"
  have links: "links_ok (job_statuses db) (attempt_refs db) db" using assms(1) by (simp add: worker_inv_def)
  have dls: "distinct (map dl_jobId ?dls) \<and> (\<forall>d \<in> set ?dls. (dl_attemptId d, dl_jobId d) \<in> attempt_refs db)
      \<and> dl_jobId ` set ?dls = insert (dl_jobId ?row) (dl_jobId ` set (db_deadLetters db))"
    by (rule upsert_dead_letter_spec [where P = "\<lambda>x y. (x, y) \<in> attempt_refs db"])
      (use links find_attempt_ref [OF a(1)] in \<open>auto simp: links_ok_def\<close>)
  have "worker_inv ((update_job jid ?g (update_attempt jid aid ?f db))
      \<lparr>db_deadLetters := ?dls, db_checkpoints := db_checkpoints db\<rparr>)"
    by (rule worker_inv_update [OF assms(1) _ _ _ a(1)])
      (use links dls in \<open>auto simp: keeps_job_def keeps_attempt_def dead_lettered_row_def job_state_ok_def links_ok_def\<close>)
  moreover have "db' = (update_job jid ?g (update_attempt jid aid ?f db))\<lparr>db_deadLetters := ?dls\<rparr>"
    using assms(2) False a by (auto simp: deadLetter_def Let_def split: if_splits)
  ultimately show ?thesis by (simp add: update_job_def update_attempt_def)
qed (use assms(1) in simp)

lemma worker_step_inv: "worker_step lc sha md5 db db' \<Longrightarrow> worker_inv db \<Longrightarrow> worker_inv db'"
proof (induction rule: worker_step.induct)
  case (step_checkpoint jid aid wm summ now db r4 db')
  then show ?case using checkpoint_effect by blast
qed (blast intro: enqueue_inv claim_inv heartbeat_inv complete_inv retry_inv deadLetter_inv)+

lemma worker_reachable_inv: "worker_reachable lc sha md5 db \<Longrightarrow> worker_inv db"
  by (induction rule: worker_reachable.induct) (blast intro: worker_inv_empty worker_step_inv)+

end
