(* ===== verification/FailurePolicy.thy ===== *)
theory FailurePolicy
  imports WorkerInvariants JsText
begin

text \<open>
  What becomes of a failed job: \<open>src/src/app/workers/worker-failure-policy.ts\<close>. An error is
  classified, the classification is retried with exponential backoff while attempts remain, or the
  job is dead-lettered; the diagnostic that is stored is sanitised first. Delays are whole seconds;
  a power of two times a whole number is exact in a double, and where it overflows to infinity the
  minimum with the maximal delay is the same as here.
\<close>

section \<open>Errors, policy, decisions\<close>

datatype WorkerFailureReasonCode =
  Rc_storage_unavailable | Rc_runtime_exception | Rc_contract_violation | Rc_tenant_policy_rejected
| Rc_idempotency_conflict | Rc_unexpected_worker_failure

fun reason_text :: "WorkerFailureReasonCode \<Rightarrow> string" where
  "reason_text Rc_storage_unavailable = ''storage_unavailable''"
| "reason_text Rc_runtime_exception = ''runtime_exception''"
| "reason_text Rc_contract_violation = ''contract_violation''"
| "reason_text Rc_tenant_policy_rejected = ''tenant_policy_rejected''"
| "reason_text Rc_idempotency_conflict = ''idempotency_conflict''"
| "reason_text Rc_unexpected_worker_failure = ''unexpected_worker_failure''"

fun class_text :: "WorkerFailureClass \<Rightarrow> string" where
  "class_text Fail_transient_storage = ''transient_storage''"
| "class_text Fail_transient_runtime = ''transient_runtime''"
| "class_text Fail_contract_violation = ''contract_violation''"
| "class_text Fail_tenant_policy = ''tenant_policy''"
| "class_text Fail_idempotency_conflict = ''idempotency_conflict''"
| "class_text Fail_unexpected = ''unexpected''"

text \<open>
  What can be thrown: a \<open>WorkerExecutionError\<close> (its message, class, reason code,
  retryability and diagnostic), or anything else, of which the name and the message are read.
\<close>

datatype worker_exn =
  WorkerExecutionError string WorkerFailureClass WorkerFailureReasonCode bool json_object
| OtherError string string

fun defaultRetryable :: "WorkerFailureClass \<Rightarrow> bool" where
  "defaultRetryable Fail_transient_storage = True"
| "defaultRetryable Fail_transient_runtime = True"
| "defaultRetryable Fail_unexpected = True"
| "defaultRetryable _ = False"

text \<open>The constructor with its defaults.\<close>

definition new_execution_error ::
  "string \<Rightarrow> WorkerFailureClass \<Rightarrow> WorkerFailureReasonCode \<Rightarrow> bool option \<Rightarrow> json_object option \<Rightarrow> worker_exn" where
  "new_execution_error message failureClass reasonCode retryable safeDiagnostic =
     WorkerExecutionError message failureClass reasonCode
       (or_else retryable (defaultRetryable failureClass)) (or_else safeDiagnostic [])"

record WorkerFailurePolicyInput =
  fp_retryBaseDelaySeconds :: "int option"
  fp_retryMaxDelaySeconds :: "int option"
  fp_nextOperatorAction :: "string option"

definition no_policy :: WorkerFailurePolicyInput where
  "no_policy = \<lparr>fp_retryBaseDelaySeconds = None, fp_retryMaxDelaySeconds = None,
     fp_nextOperatorAction = None\<rparr>"

datatype failure_action = Act_retry | Act_dead_letter

fun action_name :: "failure_action \<Rightarrow> string" where
  "action_name Act_retry = ''retry''"
| "action_name Act_dead_letter = ''dead_letter''"

record WorkerFailureDecision =
  dc_action :: failure_action
  dc_failureClass :: WorkerFailureClass
  dc_reasonCode :: WorkerFailureReasonCode
  dc_safeDiagnostic :: json_object
  dc_nextRunAt :: "int option"
  dc_nextOperatorAction :: "string option"

record failure_metadata =
  md_failureClass :: WorkerFailureClass
  md_reasonCode :: WorkerFailureReasonCode
  md_retryable :: bool
  md_errorName :: string
  md_errorMessage :: string

fun workerFailureMetadata :: "worker_exn \<Rightarrow> failure_metadata" where
  "workerFailureMetadata (WorkerExecutionError message failureClass reasonCode retryable diag) =
     \<lparr>md_failureClass = failureClass, md_reasonCode = reasonCode, md_retryable = retryable,
      md_errorName = ''WorkerExecutionError'', md_errorMessage = message\<rparr>"
| "workerFailureMetadata (OtherError errorName errorMessage) =
     \<lparr>md_failureClass = Fail_unexpected, md_reasonCode = Rc_unexpected_worker_failure,
      md_retryable = defaultRetryable Fail_unexpected, md_errorName = errorName,
      md_errorMessage = errorMessage\<rparr>"

section \<open>Sanitised diagnostics\<close>

definition forbidden_words :: "string list" where
  "forbidden_words =
     [''authorization'', ''bearer'', ''token'', ''secret'', ''password'', ''credential'',
      ''idempotency'', ''payment'', ''card'', ''customer'', ''phone'', ''email'', ''address'',
      ''payload'', ''raw'', ''body'', ''merchantnote'', ''merchantsecret'']"

definition forbiddenDiagnosticKey :: "string \<Rightarrow> bool" where
  "forbiddenDiagnosticKey k = list_ex (text_includes (js_lower k)) forbidden_words"

text \<open>
  Recursion carries the depth. Assigning the key \<open>__proto__\<close> of an object literal sets its
  prototype instead of a property, so that key does not survive.
\<close>

function sanitizeDiagnostic :: "json \<Rightarrow> nat \<Rightarrow> json" where
  "sanitizeDiagnostic v depth =
     (if depth > 4 then JStr ''[redacted-depth]''
      else case v of
        JNull \<Rightarrow> JNull
      | JBool b \<Rightarrow> JBool b
      | JNum n \<Rightarrow> JNum n
      | JStr s \<Rightarrow> JStr (safeText s)
      | JArr vs \<Rightarrow> JArr (map (\<lambda>entry. sanitizeDiagnostic entry (depth + 1)) (take 10 vs))
      | JObj entries \<Rightarrow> JObj
          (map (\<lambda>(key, nested). (key, if forbiddenDiagnosticKey key then JStr ''[redacted]''
                                        else sanitizeDiagnostic nested (depth + 1)))
             (filter (\<lambda>(key, nested). key \<noteq> ''__proto__'') entries)))"
  by auto
termination by (relation "measure (\<lambda>(v, depth). 5 - depth)") auto

declare sanitizeDiagnostic.simps [simp del]

definition buildSafeDiagnostic ::
  "ClaimedWorkerJob \<Rightarrow> worker_exn \<Rightarrow> failure_metadata \<Rightarrow> failure_action \<Rightarrow> json_object" where
  "buildSafeDiagnostic claimed err metadata action =
     (let unsafeDiagnostic = (case err of WorkerExecutionError m c r b diag \<Rightarrow> diag | OtherError n m \<Rightarrow> [])
      in [(''workerKind'', JStr (kind_text (j_workerKind (cl_job claimed)))),
          (''jobId'', JStr (j_jobId (cl_job claimed))),
          (''attemptId'', JNum (Finite (of_nat (at_attemptId (cl_attempt claimed))))),
          (''attemptCount'', JNum (Finite (of_int (j_attemptCount (cl_job claimed))))),
          (''maxAttempts'', JNum (Finite (of_int (j_maxAttempts (cl_job claimed))))),
          (''action'', JStr (action_name action)),
          (''failureClass'', JStr (class_text (md_failureClass metadata))),
          (''reasonCode'', JStr (reason_text (md_reasonCode metadata))),
          (''errorName'', JStr (safeText (md_errorName metadata))),
          (''errorMessage'', JStr (safeText (md_errorMessage metadata))),
          (''detail'', sanitizeDiagnostic (JObj unsafeDiagnostic) 0)])"

section \<open>The decision\<close>

definition retryBackoffAt :: "ClaimedWorkerJob \<Rightarrow> int \<Rightarrow> WorkerFailurePolicyInput \<Rightarrow> int" where
  "retryBackoffAt claimed now policy =
     (let baseSeconds = max 1 (or_else (fp_retryBaseDelaySeconds policy) 30);
          maxSeconds = max baseSeconds (or_else (fp_retryMaxDelaySeconds policy) 300);
          exponent = nat (max 0 (j_attemptCount (cl_job claimed) - 1));
          delaySeconds = min maxSeconds (baseSeconds * 2 ^ exponent)
      in now + delaySeconds * 1000)"

definition default_operator_action :: string where
  "default_operator_action = ''inspect_safe_diagnostic_and_replay_after_fix''"

definition classifyWorkerFailure ::
  "ClaimedWorkerJob \<Rightarrow> worker_exn \<Rightarrow> int \<Rightarrow> WorkerFailurePolicyInput \<Rightarrow> WorkerFailureDecision" where
  "classifyWorkerFailure claimed err now policy =
     (let metadata = workerFailureMetadata err;
          retryable = (md_retryable metadata
            \<and> j_attemptCount (cl_job claimed) < j_maxAttempts (cl_job claimed));
          safeDiagnostic = buildSafeDiagnostic claimed err metadata
            (if retryable then Act_retry else Act_dead_letter)
      in if retryable then
           \<lparr>dc_action = Act_retry, dc_failureClass = md_failureClass metadata,
            dc_reasonCode = md_reasonCode metadata, dc_safeDiagnostic = safeDiagnostic,
            dc_nextRunAt = Some (retryBackoffAt claimed now policy), dc_nextOperatorAction = None\<rparr>
         else
           \<lparr>dc_action = Act_dead_letter, dc_failureClass = md_failureClass metadata,
            dc_reasonCode = md_reasonCode metadata, dc_safeDiagnostic = safeDiagnostic,
            dc_nextRunAt = None,
            dc_nextOperatorAction = nullish (fp_nextOperatorAction policy) (Some default_operator_action)\<rparr>)"

section \<open>Lemmas\<close>

text \<open>No entry under a forbidden key keeps its value, at any depth, and no \<open>__proto__\<close> is left.\<close>

inductive redacted :: "json \<Rightarrow> bool" where
  "redacted JNull"
| "redacted (JBool b)"
| "redacted (JNum n)"
| "length s \<le> 240 \<Longrightarrow> redacted (JStr s)"
| "length vs \<le> 10 \<Longrightarrow> (\<And>v. v \<in> set vs \<Longrightarrow> redacted v) \<Longrightarrow> redacted (JArr vs)"
| "(\<And>k v. (k, v) \<in> set es \<Longrightarrow>
       redacted v \<and> k \<noteq> ''__proto__'' \<and> (forbiddenDiagnosticKey k \<longrightarrow> v = JStr ''[redacted]''))
   \<Longrightarrow> redacted (JObj es)"

inductive_cases redacted_JObjE: "redacted (JObj es)"

lemma sanitize_redacted: "redacted (sanitizeDiagnostic v depth)"
proof (induction v depth rule: sanitizeDiagnostic.induct)
  case (1 v depth)
  show ?case
  proof (cases "depth > 4")
    case True
    then show ?thesis by (subst sanitizeDiagnostic.simps) (auto intro: redacted.intros)
  next
    case depth: False
    show ?thesis
    proof (cases v)
      case (JArr vs)
      have "redacted (sanitizeDiagnostic entry (depth + 1))" if "entry \<in> set (take 10 vs)" for entry
        using 1(1) [OF depth JArr that] .
      then show ?thesis
        using depth JArr by (subst sanitizeDiagnostic.simps) (auto intro!: redacted.intros)
    next
      case (JObj es)
      have "redacted (sanitizeDiagnostic nested (depth + 1))"
        if "(key, nested) \<in> set es" "key \<noteq> ''__proto__''" "\<not> forbiddenDiagnosticKey key" for key nested
        using 1(2) [OF depth JObj, of "(key, nested)" key nested] that by simp
      moreover have "redacted (JStr ''[redacted]'')" by (rule redacted.intros) simp
      ultimately show ?thesis
        using depth JObj
        by (subst sanitizeDiagnostic.simps) (auto intro!: redacted.intros(6))
    qed (use depth in \<open>subst sanitizeDiagnostic.simps, auto intro!: redacted.intros length_safeText\<close>)+
  qed
qed

text \<open>How deep a value nests: nothing below the fifth level is kept.\<close>

fun json_depth :: "json \<Rightarrow> nat" where
  "json_depth (JArr vs) = Suc (fold max (map json_depth vs) 0)"
| "json_depth (JObj es) = Suc (fold max (map (\<lambda>(k, v). json_depth v) es) 0)"
| "json_depth _ = 0"

lemma fold_max_le: "fold max xs (m :: nat) \<le> n \<longleftrightarrow> m \<le> n \<and> (\<forall>x \<in> set xs. x \<le> n)"
  by (induction xs arbitrary: m) auto

lemma sanitize_depth: "depth \<le> 5 \<Longrightarrow> json_depth (sanitizeDiagnostic v depth) + depth \<le> 5"
proof (induction v depth rule: sanitizeDiagnostic.induct)
  case (1 v depth)
  show ?case
  proof (cases "depth > 4")
    case True
    with 1(3) show ?thesis by (subst sanitizeDiagnostic.simps) simp
  next
    case depth: False
    show ?thesis
    proof (cases v)
      case (JArr vs)
      have "json_depth (sanitizeDiagnostic entry (depth + 1)) \<le> 4 - depth" if "entry \<in> set (take 10 vs)" for entry
        using 1(1) [OF depth JArr that] depth by simp
      then have "fold max (map (json_depth \<circ> (\<lambda>entry. sanitizeDiagnostic entry (depth + 1))) (take 10 vs)) 0 \<le> 4 - depth"
        by (auto simp: fold_max_le)
      then show ?thesis using depth JArr by (subst sanitizeDiagnostic.simps) simp
    next
      case (JObj es)
      let ?es = "filter (\<lambda>(key, nested). key \<noteq> ''__proto__'') es"
      let ?f = "\<lambda>(key, nested). (key, if forbiddenDiagnosticKey key then JStr ''[redacted]''
          else sanitizeDiagnostic nested (depth + 1))"
      have "json_depth (snd (?f e)) \<le> 4 - depth" if "e \<in> set ?es" for e
        using 1(2) [OF depth JObj that, of "fst e" "snd e"] depth by (cases e) auto
      then have "fold max (map (\<lambda>(k, v). json_depth v) (map ?f ?es)) 0 \<le> 4 - depth"
        by (auto simp: fold_max_le case_prod_beta)
      then show ?thesis using depth JObj by (subst sanitizeDiagnostic.simps) simp
    qed (use depth in \<open>subst sanitizeDiagnostic.simps, simp\<close>)+
  qed
qed

lemma backoff_bounds:
  "now + 1000 \<le> retryBackoffAt claimed now policy"
  "retryBackoffAt claimed now policy
     \<le> now + 1000 * max (max 1 (or_else (fp_retryBaseDelaySeconds policy) 30))
                        (or_else (fp_retryMaxDelaySeconds policy) 300)"
proof -
  define b where "b = max (1 :: int) (or_else (fp_retryBaseDelaySeconds policy) 30)"
  have "1 \<le> b" by (simp add: b_def)
  then have "1 \<le> b * 2 ^ n" for n
    by (metis mult_mono' one_le_power one_le_numeral mult_1 zero_le_one)
  then show "now + 1000 \<le> retryBackoffAt claimed now policy"
    using \<open>1 \<le> b\<close> by (simp add: retryBackoffAt_def Let_def flip: b_def)
  show "retryBackoffAt claimed now policy
     \<le> now + 1000 * max (max 1 (or_else (fp_retryBaseDelaySeconds policy) 30))
                        (or_else (fp_retryMaxDelaySeconds policy) 300)"
    by (simp add: retryBackoffAt_def Let_def)
qed

lemma backoff_mono:
  assumes "j_attemptCount (cl_job a) \<le> j_attemptCount (cl_job b)"
  shows "retryBackoffAt a now policy \<le> retryBackoffAt b now policy"
proof -
  define s where "s = max (1 :: int) (or_else (fp_retryBaseDelaySeconds policy) 30)"
  have "(2 :: int) ^ nat (max 0 (j_attemptCount (cl_job a) - 1)) \<le> 2 ^ nat (max 0 (j_attemptCount (cl_job b) - 1))"
    using assms by (intro power_increasing) auto
  then have "s * 2 ^ nat (max 0 (j_attemptCount (cl_job a) - 1)) \<le> s * 2 ^ nat (max 0 (j_attemptCount (cl_job b) - 1))"
    by (intro mult_left_mono) (simp_all add: s_def)
  then show ?thesis by (simp add: retryBackoffAt_def Let_def min.coboundedI2 flip: s_def)
qed

lemma classify_action:
  "dc_action (classifyWorkerFailure claimed err now policy) = Act_retry \<longleftrightarrow>
     md_retryable (workerFailureMetadata err)
     \<and> j_attemptCount (cl_job claimed) < j_maxAttempts (cl_job claimed)"
  by (simp add: classifyWorkerFailure_def Let_def)

end
