(* ===== verification/BoundedRunner.thy ===== *)
theory BoundedRunner
  imports FailurePolicy Observability
begin

text \<open>
  The bounded runner of \<open>src/src/app/workers/bounded-worker-runner.ts\<close> with the persistence of
  failures (\<open>persistWorkerFailure\<close> in \<open>worker-failure-policy.ts\<close>) and the logs and metrics of
  \<open>src/src/app/workers/worker-observability.ts\<close>. The repository is a record of the operations
  the runner calls; what it relies on is the locale \<open>worker_repository\<close>, in which the runner is
  proved correct, and which the queue of \<open>WorkerJobs\<close> interprets. Building and writing the output
  are what each worker passes in: functions that may throw.
\<close>

section \<open>The repository as the runner sees it\<close>

record 's repo_ops =
  rp_claim :: "WorkerKind \<Rightarrow> string \<Rightarrow> int \<Rightarrow> int \<Rightarrow> 's \<Rightarrow> ClaimedWorkerJob option \<times> 's"
  rp_checkpoint :: "string \<Rightarrow> nat \<Rightarrow> json_object \<Rightarrow> json_object \<Rightarrow> int \<Rightarrow> 's
    \<Rightarrow> (worker_error + WorkerFreshness) \<times> 's"
  rp_complete :: "string \<Rightarrow> nat \<Rightarrow> json_object \<Rightarrow> json_object \<Rightarrow> int \<Rightarrow> 's
    \<Rightarrow> (worker_error + WorkerJob) \<times> 's"
  rp_retry :: "string \<Rightarrow> nat \<Rightarrow> WorkerFailureClass \<Rightarrow> int \<Rightarrow> json_object \<Rightarrow> int \<Rightarrow> 's
    \<Rightarrow> (worker_error + WorkerJob) \<times> 's"
  rp_deadLetter :: "string \<Rightarrow> nat \<Rightarrow> WorkerFailureClass \<Rightarrow> string \<Rightarrow> json_object \<Rightarrow> string \<Rightarrow> int \<Rightarrow> 's
    \<Rightarrow> (worker_error + WorkerJob) \<times> 's"
  rp_readFreshness :: "WorkerKind \<Rightarrow> WorkerTenantScope \<Rightarrow> WorkerSourceScope \<Rightarrow> 's \<Rightarrow> WorkerFreshness option"

text \<open>A repository error reaches the runner as an \<open>Error\<close> with a message.\<close>

fun repo_error_message :: "worker_error \<Rightarrow> string" where
  "repo_error_message (NoRowReturned msg) = msg"
| "repo_error_message SqlUniqueViolation = ''duplicate key value violates unique constraint''"
| "repo_error_message SqlCheckViolation = ''new row violates check constraint''"

definition repo_exn :: "worker_error \<Rightarrow> worker_exn" where
  "repo_exn e = OtherError ''Error'' (repo_error_message e)"

section \<open>Logs and metrics\<close>

record worker_obs =
  wo_logs :: "RuntimeLogRecord list option"
  wo_metrics :: "RuntimeMetricRecord list option"

record worker_clock =
  wc_now :: string
  wc_started :: int
  wc_ended :: int

definition workerMetricLabels ::
  "ClaimedWorkerJob \<Rightarrow> RuntimeLogOutcome \<Rightarrow> WorkerFailureDecision option \<Rightarrow> (string \<times> string option) list" where
  "workerMetricLabels claimed outc decision =
     [(''outcome'', Some (outcome_text outc)),
      (''source'', Some (j_source (cl_job claimed))),
      (''producer_service'', j_producerService (cl_job claimed)),
      (''producer_environment'', j_producerEnvironment (cl_job claimed)),
      (''worker_kind'', Some (kind_text (j_workerKind (cl_job claimed)))),
      (''failure_class'', map_option (\<lambda>d. class_text (dc_failureClass d)) decision),
      (''reason_code'', map_option (\<lambda>d. reason_text (dc_reasonCode d)) decision)]"

definition emitWorkerLog ::
  "worker_clock \<Rightarrow> RuntimeEnvironment \<Rightarrow> ClaimedWorkerJob \<Rightarrow> RuntimeLogEvent \<Rightarrow> RuntimeLogOutcome
   \<Rightarrow> (string \<times> json option) list \<Rightarrow> worker_obs \<Rightarrow> worker_obs" where
  "emitWorkerLog clk env claimed event outc extra obs =
     obs\<lparr>wo_logs := emitRuntimeLog (wc_now clk) env
       \<lparr>li_level = (if event = Ev_worker_job_failed \<or> event = Ev_worker_job_dead_lettered
                    then Log_warn else Log_info),
        li_event = event,
        li_fields = defined_fields
          ([(''outcome'', Some (JStr (outcome_text outc))),
            (''correlation_id'', Some (JStr (j_correlationId (cl_job claimed)))),
            (''merchant_id'', jstr (j_merchantId (cl_job claimed))),
            (''store_id'', jstr (j_storeId (cl_job claimed))),
            (''source'', Some (JStr (j_source (cl_job claimed)))),
            (''producer_service'', jstr (j_producerService (cl_job claimed))),
            (''producer_environment'', jstr (j_producerEnvironment (cl_job claimed))),
            (''worker_kind'', Some (JStr (kind_text (j_workerKind (cl_job claimed))))),
            (''job_id'', Some (JStr (j_jobId (cl_job claimed)))),
            (''attempt_id'', jnat (at_attemptId (cl_attempt claimed))),
            (''attempt_count'', jint (j_attemptCount (cl_job claimed))),
            (''max_attempts'', jint (j_maxAttempts (cl_job claimed)))] @ extra)\<rparr> (wo_logs obs)\<rparr>"

definition worker_counter ::
  "worker_clock \<Rightarrow> RuntimeEnvironment \<Rightarrow> RuntimeMetricName \<Rightarrow> (string \<times> string option) list
   \<Rightarrow> worker_obs \<Rightarrow> worker_obs" where
  "worker_counter clk env nm labels obs =
     obs\<lparr>wo_metrics := incrementRuntimeCounter (wc_now clk) env nm (defined_fields labels) (wo_metrics obs)\<rparr>"

definition worker_duration ::
  "worker_clock \<Rightarrow> RuntimeEnvironment \<Rightarrow> RuntimeMetricName \<Rightarrow> int \<Rightarrow> (string \<times> string option) list
   \<Rightarrow> worker_obs \<Rightarrow> worker_obs" where
  "worker_duration clk env nm v labels obs =
     obs\<lparr>wo_metrics := observeRuntimeDuration (wc_now clk) env nm v (defined_fields labels) (wo_metrics obs)\<rparr>"

definition workerLagMs :: "ClaimedWorkerJob \<Rightarrow> int \<Rightarrow> int" where
  "workerLagMs claimed now = max 0 (now - j_nextRunAt (cl_job claimed))"

definition failureLogFields :: "WorkerFailureDecision \<Rightarrow> (string \<times> json option) list" where
  "failureLogFields d =
     [(''failure_class'', Some (JStr (class_text (dc_failureClass d)))),
      (''reason_code'', Some (JStr (reason_text (dc_reasonCode d)))),
      (''next_action'', Some (JStr (case dc_action d of
         Act_retry \<Rightarrow> ''retry_after_backoff''
       | Act_dead_letter \<Rightarrow> or_else (dc_nextOperatorAction d) default_operator_action)))]"

definition recordWorkerJobStarted ::
  "worker_clock \<Rightarrow> RuntimeEnvironment \<Rightarrow> ClaimedWorkerJob \<Rightarrow> string \<Rightarrow> int \<Rightarrow> worker_obs \<Rightarrow> worker_obs" where
  "recordWorkerJobStarted clk env claimed workerId now obs =
     (let lagMs = workerLagMs claimed now;
          obs = emitWorkerLog clk env claimed Ev_worker_job_started Outc_started
            [(''worker_id'', Some (JStr workerId)), (''lag_ms'', jint lagMs)] obs;
          obs = worker_counter clk env M_worker_jobs_total (workerMetricLabels claimed Outc_started None) obs
      in worker_duration clk env M_worker_lag_ms lagMs (workerMetricLabels claimed Outc_started None) obs)"

definition recordWorkerJobCheckpointed ::
  "worker_clock \<Rightarrow> RuntimeEnvironment \<Rightarrow> ClaimedWorkerJob \<Rightarrow> worker_obs \<Rightarrow> worker_obs" where
  "recordWorkerJobCheckpointed clk env claimed obs =
     worker_counter clk env M_worker_checkpoints_total (workerMetricLabels claimed Outc_checkpointed None)
       (emitWorkerLog clk env claimed Ev_worker_job_checkpointed Outc_checkpointed [] obs)"

definition recordWorkerJobCompleted ::
  "worker_clock \<Rightarrow> RuntimeEnvironment \<Rightarrow> ClaimedWorkerJob \<Rightarrow> int \<Rightarrow> worker_obs \<Rightarrow> worker_obs" where
  "recordWorkerJobCompleted clk env claimed durationMs obs =
     (let obs = emitWorkerLog clk env claimed Ev_worker_job_completed Outc_completed [] obs;
          obs = worker_counter clk env M_worker_jobs_total (workerMetricLabels claimed Outc_completed None) obs
      in worker_duration clk env M_worker_duration_ms durationMs
           (workerMetricLabels claimed Outc_completed None) obs)"

definition recordWorkerJobFailed ::
  "worker_clock \<Rightarrow> RuntimeEnvironment \<Rightarrow> ClaimedWorkerJob \<Rightarrow> WorkerFailureDecision \<Rightarrow> int
   \<Rightarrow> worker_obs \<Rightarrow> worker_obs" where
  "recordWorkerJobFailed clk env claimed decision durationMs obs =
     (let obs = emitWorkerLog clk env claimed Ev_worker_job_failed Outc_failed (failureLogFields decision) obs;
          obs = worker_counter clk env M_worker_jobs_total (workerMetricLabels claimed Outc_failed (Some decision)) obs;
          obs = worker_duration clk env M_worker_duration_ms durationMs
            (workerMetricLabels claimed Outc_failed (Some decision)) obs;
          event = (case dc_action decision of Act_retry \<Rightarrow> Ev_worker_job_retry_scheduled
                   | Act_dead_letter \<Rightarrow> Ev_worker_job_dead_lettered);
          outc = (case dc_action decision of Act_retry \<Rightarrow> Outc_retry_scheduled
                  | Act_dead_letter \<Rightarrow> Outc_dead_lettered);
          obs = emitWorkerLog clk env claimed event outc (failureLogFields decision) obs
      in worker_counter clk env M_worker_jobs_total (workerMetricLabels claimed outc (Some decision)) obs)"

section \<open>The runner\<close>

record ('s, 'o) run_state =
  rn_repo :: 's
  rn_output :: 'o
  rn_obs :: worker_obs

record 'out built_output =
  bo_output :: 'out
  bo_outputWatermark :: json_object
  bo_outputSummary :: json_object

datatype 'out BoundedWorkerRunResult =
  RunIdle WorkerKind
| RunCompleted WorkerKind ClaimedWorkerJob "'out built_output" WorkerFreshness WorkerJob
| RunFailed WorkerKind ClaimedWorkerJob WorkerFailureDecision WorkerJob

record ('s, 'o, 'out) RunClaimedWorkerJobInput =
  ri_workerKind :: WorkerKind
  ri_jobRepository :: "'s repo_ops"
  ri_workerId :: string
  ri_leaseSeconds :: "int option"
  ri_now :: int
  ri_buildOutput :: "ClaimedWorkerJob \<Rightarrow> worker_exn + 'out built_output"
  ri_writeOutput :: "'out \<Rightarrow> 'o \<Rightarrow> (worker_exn + unit) \<times> 'o"
  ri_failurePolicy :: "WorkerFailurePolicyInput option"
  ri_environment :: RuntimeEnvironment

definition persistWorkerFailure ::
  "'s repo_ops \<Rightarrow> ClaimedWorkerJob \<Rightarrow> worker_exn \<Rightarrow> int \<Rightarrow> WorkerFailurePolicyInput option \<Rightarrow> 's
   \<Rightarrow> (worker_error + WorkerFailureDecision \<times> WorkerJob) \<times> 's" where
  "persistWorkerFailure repo claimed err now policy s =
     (let decision = classifyWorkerFailure claimed err now (or_else policy no_policy);
          jobId = j_jobId (cl_job claimed); attemptId = at_attemptId (cl_attempt claimed);
          (res, s') =
            (case dc_action decision of
               Act_retry \<Rightarrow> rp_retry repo jobId attemptId (dc_failureClass decision)
                 (or_else (dc_nextRunAt decision) now) (dc_safeDiagnostic decision) now s
             | Act_dead_letter \<Rightarrow> rp_deadLetter repo jobId attemptId (dc_failureClass decision)
                 (reason_text (dc_reasonCode decision)) (dc_safeDiagnostic decision)
                 (or_else (dc_nextOperatorAction decision) default_operator_action) now s)
      in case res of Inl e \<Rightarrow> (Inl e, s') | Inr failedJob \<Rightarrow> (Inr (decision, failedJob), s'))"

text \<open>The body of the \<open>try\<close>: build, write, checkpoint, complete, in this order.\<close>

definition run_body ::
  "('s, 'o, 'out) RunClaimedWorkerJobInput \<Rightarrow> worker_clock \<Rightarrow> ClaimedWorkerJob \<Rightarrow> ('s, 'o) run_state
   \<Rightarrow> (worker_exn + 'out BoundedWorkerRunResult) \<times> ('s, 'o) run_state" where
  "run_body inp clk claimed st =
     (let jobId = j_jobId (cl_job claimed); attemptId = at_attemptId (cl_attempt claimed)
      in case ri_buildOutput inp claimed of
           Inl err \<Rightarrow> (Inl err, st)
         | Inr built \<Rightarrow>
             (case ri_writeOutput inp (bo_output built) (rn_output st) of
                (Inl err, out') \<Rightarrow> (Inl err, st\<lparr>rn_output := out'\<rparr>)
              | (Inr u, out') \<Rightarrow>
                  (let st = st\<lparr>rn_output := out'\<rparr>
                   in case rp_checkpoint (ri_jobRepository inp) jobId attemptId (bo_outputWatermark built)
                             (bo_outputSummary built) (ri_now inp) (rn_repo st) of
                        (Inl e, s') \<Rightarrow> (Inl (repo_exn e), st\<lparr>rn_repo := s'\<rparr>)
                      | (Inr freshness, s') \<Rightarrow>
                          (let st = st\<lparr>rn_repo := s', rn_obs :=
                                 recordWorkerJobCheckpointed clk (ri_environment inp) claimed (rn_obs st)\<rparr>
                           in case rp_complete (ri_jobRepository inp) jobId attemptId (bo_outputWatermark built)
                                     (bo_outputSummary built) (ri_now inp) (rn_repo st) of
                                (Inl e, s'') \<Rightarrow> (Inl (repo_exn e), st\<lparr>rn_repo := s''\<rparr>)
                              | (Inr completedJob, s'') \<Rightarrow>
                                  (Inr (RunCompleted (ri_workerKind inp) claimed built freshness completedJob),
                                   st\<lparr>rn_repo := s'', rn_obs := recordWorkerJobCompleted clk (ri_environment inp)
                                        claimed (wc_ended clk - wc_started clk) (rn_obs st)\<rparr>)))))"

definition runClaimedWorkerJob ::
  "('s, 'o, 'out) RunClaimedWorkerJobInput \<Rightarrow> worker_clock \<Rightarrow> ('s, 'o) run_state
   \<Rightarrow> (worker_exn + 'out BoundedWorkerRunResult) \<times> ('s, 'o) run_state" where
  "runClaimedWorkerJob inp clk st =
     (case rp_claim (ri_jobRepository inp) (ri_workerKind inp) (ri_workerId inp) (ri_now inp)
             (or_else (ri_leaseSeconds inp) 60) (rn_repo st) of
        (None, s') \<Rightarrow> (Inr (RunIdle (ri_workerKind inp)), st\<lparr>rn_repo := s'\<rparr>)
      | (Some claimed, s') \<Rightarrow>
          (let st = st\<lparr>rn_repo := s', rn_obs := recordWorkerJobStarted clk (ri_environment inp) claimed
                        (ri_workerId inp) (ri_now inp) (rn_obs st)\<rparr>
           in case run_body inp clk claimed st of
                (Inr result, st') \<Rightarrow> (Inr result, st')
              | (Inl err, st') \<Rightarrow>
                  (case ri_failurePolicy inp of
                     None \<Rightarrow> (Inl err, st')
                   | Some policy \<Rightarrow>
                       (case persistWorkerFailure (ri_jobRepository inp) claimed err (ri_now inp)
                               (Some policy) (rn_repo st') of
                          (Inl e, s'') \<Rightarrow> (Inl (repo_exn e), st'\<lparr>rn_repo := s''\<rparr>)
                        | (Inr (decision, failedJob), s'') \<Rightarrow>
                            (Inr (RunFailed (ri_workerKind inp) claimed decision failedJob),
                             st'\<lparr>rn_repo := s'', rn_obs := recordWorkerJobFailed clk (ri_environment inp)
                                  claimed decision (wc_ended clk - wc_started clk) (rn_obs st')\<rparr>)))))"

definition readWorkerResumeWatermark ::
  "'s repo_ops \<Rightarrow> WorkerKind \<Rightarrow> WorkerTenantScope \<Rightarrow> WorkerSourceScope \<Rightarrow> json_object \<Rightarrow> 's \<Rightarrow> json_object" where
  "readWorkerResumeWatermark repo kind tenantScope sourceScope fallbackWatermark s =
     or_else (map_option fr_committedWatermark (rp_readFreshness repo kind tenantScope sourceScope s))
       fallbackWatermark"

section \<open>What the runner relies on\<close>

text \<open>
  \<open>job s\<close> looks a job up, \<open>attempted s\<close> says which attempt is of which job,
  \<open>freshness s\<close> is the table of checkpoints.
\<close>

definition only_job_changed :: "(string \<Rightarrow> WorkerJob option) \<Rightarrow> (string \<Rightarrow> WorkerJob option) \<Rightarrow> string \<Rightarrow> bool" where
  "only_job_changed m m' jid \<longleftrightarrow> (\<forall>k. k \<noteq> jid \<longrightarrow> m' k = m k)"

locale worker_repository =
  fixes ops :: "'s repo_ops"
    and job :: "'s \<Rightarrow> string \<Rightarrow> WorkerJob option"
    and attempted :: "'s \<Rightarrow> (nat \<times> string) set"
    and freshness :: "'s \<Rightarrow> WorkerFreshness list"
    and inv :: "'s \<Rightarrow> bool"
  assumes claim_none: "inv s \<Longrightarrow> rp_claim ops kind w now lease s = (None, s') \<Longrightarrow> s' = s"
    and claim_some: "inv s \<Longrightarrow> rp_claim ops kind w now lease s = (Some c, s') \<Longrightarrow>
        inv s' \<and> job s' (j_jobId (cl_job c)) = Some (cl_job c) \<and> j_status (cl_job c) = St_running
        \<and> j_workerKind (cl_job c) = kind \<and> j_attemptCount (cl_job c) \<le> j_maxAttempts (cl_job c)
        \<and> (at_attemptId (cl_attempt c), j_jobId (cl_job c)) \<in> attempted s'
        \<and> only_job_changed (job s) (job s') (j_jobId (cl_job c)) \<and> freshness s' = freshness s"
    and checkpoint_ok: "inv s \<Longrightarrow> (aid, jid) \<in> attempted s \<Longrightarrow>
        \<exists>row s'. rp_checkpoint ops jid aid wm summ now s = (Inr row, s') \<and> inv s'
          \<and> job s' = job s \<and> attempted s' = attempted s
          \<and> fr_committedWatermark row = wm \<and> fr_committedJobId row = jid \<and> fr_committedAttemptId row = aid
          \<and> row \<in> set (freshness s')"
    and complete_ok: "inv s \<Longrightarrow> (aid, jid) \<in> attempted s \<Longrightarrow>
        \<exists>j s'. rp_complete ops jid aid wm summ now s = (Inr j, s') \<and> inv s'
          \<and> job s' jid = Some j \<and> j_status j = St_succeeded \<and> only_job_changed (job s) (job s') jid
          \<and> (\<exists>row \<in> set (freshness s'). fr_committedWatermark row = wm \<and> fr_committedJobId row = jid
               \<and> fr_committedAttemptId row = aid)"
    and retry_ok: "inv s \<Longrightarrow> (aid, jid) \<in> attempted s \<Longrightarrow> job s jid = Some j
        \<Longrightarrow> j_attemptCount j < j_maxAttempts j \<Longrightarrow>
        \<exists>j' s'. rp_retry ops jid aid fc next diag now s = (Inr j', s') \<and> inv s'
          \<and> job s' jid = Some j' \<and> j_status j' = St_retry_scheduled \<and> j_nextRunAt j' = next
          \<and> j_attemptCount j' = j_attemptCount j
          \<and> only_job_changed (job s) (job s') jid \<and> freshness s' = freshness s"
    and deadLetter_ok: "inv s \<Longrightarrow> (aid, jid) \<in> attempted s \<Longrightarrow>
        \<exists>j' s'. rp_deadLetter ops jid aid fc reason diag act now s = (Inr j', s') \<and> inv s'
          \<and> job s' jid = Some j' \<and> j_status j' = St_dead_lettered
          \<and> only_job_changed (job s) (job s') jid \<and> freshness s' = freshness s"
begin

text \<open>The body either completes the job or throws what building or writing threw.\<close>

lemma run_body_cases [consumes 4, case_names completed failed]:
  assumes inv: "inv (rn_repo st)"
    and att: "(at_attemptId (cl_attempt c), j_jobId (cl_job c)) \<in> attempted (rn_repo st)"
    and run: "run_body inp clk c st = (res, st')"
    and repo: "ri_jobRepository inp = ops"
  obtains (completed) built row j out' where
      "ri_buildOutput inp c = Inr built" "ri_writeOutput inp (bo_output built) (rn_output st) = (Inr (), out')"
      "res = Inr (RunCompleted (ri_workerKind inp) c built row j)" "rn_output st' = out'" "inv (rn_repo st')"
      "job (rn_repo st') (j_jobId (cl_job c)) = Some j" "j_status j = St_succeeded"
      "only_job_changed (job (rn_repo st)) (job (rn_repo st')) (j_jobId (cl_job c))"
      "fr_committedWatermark row = bo_outputWatermark built"
      "fr_committedJobId row = j_jobId (cl_job c)"
      "\<exists>f \<in> set (freshness (rn_repo st')). fr_committedWatermark f = bo_outputWatermark built
         \<and> fr_committedJobId f = j_jobId (cl_job c) \<and> fr_committedAttemptId f = at_attemptId (cl_attempt c)"
    | (failed) err where
      "ri_buildOutput inp c = Inl err \<or>
         (\<exists>built out'. ri_buildOutput inp c = Inr built
            \<and> ri_writeOutput inp (bo_output built) (rn_output st) = (Inl err, out'))"
      "res = Inl err" "rn_repo st' = rn_repo st" "rn_obs st' = rn_obs st"
proof (cases "ri_buildOutput inp c")
  case (Inl err)
  then show thesis using run that(2) [of err] by (simp add: run_body_def Let_def)
next
  case (Inr built)
  obtain w out' where wr: "ri_writeOutput inp (bo_output built) (rn_output st) = (w, out')" by fastforce
  show thesis
  proof (cases w)
    case (Inl err)
    then show thesis using run Inr wr that(2) [of err] by (auto simp: run_body_def Let_def)
  next
    case w: (Inr u)
    let ?jid = "j_jobId (cl_job c)" and ?aid = "at_attemptId (cl_attempt c)"
    from checkpoint_ok [OF inv att, of "bo_outputWatermark built" "bo_outputSummary built" "ri_now inp"]
    obtain row s1 where cp: "rp_checkpoint ops ?jid ?aid (bo_outputWatermark built) (bo_outputSummary built)
        (ri_now inp) (rn_repo st) = (Inr row, s1)" "inv s1" "job s1 = job (rn_repo st)"
      "attempted s1 = attempted (rn_repo st)" "fr_committedWatermark row = bo_outputWatermark built"
      "fr_committedJobId row = ?jid" by blast
    have "(?aid, ?jid) \<in> attempted s1" using att cp(4) by simp
    from complete_ok [OF cp(2) this, of "bo_outputWatermark built" "bo_outputSummary built" "ri_now inp"]
    obtain j s2 where co: "rp_complete ops ?jid ?aid (bo_outputWatermark built) (bo_outputSummary built)
        (ri_now inp) s1 = (Inr j, s2)" "inv s2" "job s2 ?jid = Some j" "j_status j = St_succeeded"
      "only_job_changed (job s1) (job s2) ?jid"
      "\<exists>f \<in> set (freshness s2). fr_committedWatermark f = bo_outputWatermark built
         \<and> fr_committedJobId f = ?jid \<and> fr_committedAttemptId f = ?aid" by blast
    from run Inr wr w cp(1) co(1) repo have
      "res = Inr (RunCompleted (ri_workerKind inp) c built row j)" "rn_repo st' = s2" "rn_output st' = out'"
      by (auto simp: run_body_def Let_def)
    then show thesis using Inr wr w cp co by (intro that(1) [of built out' row j]) simp_all
  qed
qed

text \<open>
  With a failure policy a run never throws and never leaves the job it claimed running: the job
  ends succeeded, scheduled again, or dead-lettered; every other job is untouched; and the
  checkpoints change only after the output was written.
\<close>

lemma run_cases [consumes 4, case_names idle completed failed]:
  assumes inv: "inv (rn_repo st)"
    and run: "runClaimedWorkerJob inp clk st = (res, st')"
    and repo: "ri_jobRepository inp = ops" and policy: "ri_failurePolicy inp = Some pol"
  obtains (idle) "res = Inr (RunIdle (ri_workerKind inp))" "rn_repo st' = rn_repo st"
      "rn_output st' = rn_output st"
    | (completed) c built row j where
      "res = Inr (RunCompleted (ri_workerKind inp) c built row j)" "inv (rn_repo st')"
      "j_workerKind (cl_job c) = ri_workerKind inp"
      "ri_buildOutput inp c = Inr built"
      "ri_writeOutput inp (bo_output built) (rn_output st) = (Inr (), rn_output st')"
      "job (rn_repo st') (j_jobId (cl_job c)) = Some j" "j_status j = St_succeeded"
      "only_job_changed (job (rn_repo st)) (job (rn_repo st')) (j_jobId (cl_job c))"
      "fr_committedWatermark row = bo_outputWatermark built"
      "\<exists>f \<in> set (freshness (rn_repo st')). fr_committedWatermark f = bo_outputWatermark built
         \<and> fr_committedJobId f = j_jobId (cl_job c) \<and> fr_committedAttemptId f = at_attemptId (cl_attempt c)"
    | (failed) c err d j where
      "res = Inr (RunFailed (ri_workerKind inp) c d j)" "inv (rn_repo st')"
      "j_workerKind (cl_job c) = ri_workerKind inp"
      "ri_buildOutput inp c = Inl err \<or>
         (\<exists>built out'. ri_buildOutput inp c = Inr built
            \<and> ri_writeOutput inp (bo_output built) (rn_output st) = (Inl err, out'))"
      "d = classifyWorkerFailure c err (ri_now inp) pol"
      "job (rn_repo st') (j_jobId (cl_job c)) = Some j"
      "j_status j = (case dc_action d of Act_retry \<Rightarrow> St_retry_scheduled | Act_dead_letter \<Rightarrow> St_dead_lettered)"
      "dc_action d = Act_retry \<Longrightarrow> j_attemptCount j < j_maxAttempts (cl_job c)
         \<and> j_nextRunAt j = retryBackoffAt c (ri_now inp) pol"
      "only_job_changed (job (rn_repo st)) (job (rn_repo st')) (j_jobId (cl_job c))"
      "freshness (rn_repo st') = freshness (rn_repo st)"
proof -
  obtain cl s1 where claim: "rp_claim ops (ri_workerKind inp) (ri_workerId inp) (ri_now inp)
      (or_else (ri_leaseSeconds inp) 60) (rn_repo st) = (cl, s1)" by fastforce
  show thesis
  proof (cases cl)
    case None
    with claim claim_none [OF inv] run repo show thesis
      by (intro idle) (auto simp: runClaimedWorkerJob_def)
  next
    case (Some c)
    let ?jid = "j_jobId (cl_job c)" and ?aid = "at_attemptId (cl_attempt c)"
    define st1 where "st1 = st\<lparr>rn_repo := s1, rn_obs := recordWorkerJobStarted clk (ri_environment inp) c
        (ri_workerId inp) (ri_now inp) (rn_obs st)\<rparr>"
    from claim_some [OF inv claim [unfolded Some]] have cs: "inv (rn_repo st1)" "job s1 ?jid = Some (cl_job c)"
      "j_workerKind (cl_job c) = ri_workerKind inp" "(?aid, ?jid) \<in> attempted (rn_repo st1)"
      "only_job_changed (job (rn_repo st)) (job s1) ?jid" "freshness s1 = freshness (rn_repo st)"
      by (simp_all add: st1_def)
    obtain rb st2 where body: "run_body inp clk c st1 = (rb, st2)" by fastforce
    have out: "rn_output st1 = rn_output st" by (simp add: st1_def)
    have r1: "rn_repo st1 = s1" by (simp add: st1_def)
    from cs(1,4) body repo show thesis
    proof (cases rule: run_body_cases)
      case (completed built row j out')
      have "res = Inr (RunCompleted (ri_workerKind inp) c built row j)" "st' = st2"
        using run claim Some body completed(3) repo by (simp_all add: runClaimedWorkerJob_def Let_def st1_def)
      then show thesis
        using completed cs(3,5) out r1 by (intro that(2) [of c built row j]) (auto simp: only_job_changed_def)
    next
      case (failed err)
      let ?d = "classifyWorkerFailure c err (ri_now inp) pol"
      obtain j s3 where fail: "persistWorkerFailure ops c err (ri_now inp) (Some pol) s1 = (Inr (?d, j), s3)"
        "inv s3" "job s3 ?jid = Some j"
        "j_status j = (case dc_action ?d of Act_retry \<Rightarrow> St_retry_scheduled | Act_dead_letter \<Rightarrow> St_dead_lettered)"
        "dc_action ?d = Act_retry \<Longrightarrow> j_attemptCount j < j_maxAttempts (cl_job c)
           \<and> j_nextRunAt j = retryBackoffAt c (ri_now inp) pol"
        "only_job_changed (job s1) (job s3) ?jid" "freshness s3 = freshness s1"
      proof (cases "dc_action ?d")
        case Act_retry
        then have count: "j_attemptCount (cl_job c) < j_maxAttempts (cl_job c)"
          and next': "dc_nextRunAt ?d = Some (retryBackoffAt c (ri_now inp) pol)"
          by (auto simp: classifyWorkerFailure_def Let_def split: if_splits)
        from retry_ok [OF cs(1) cs(4), unfolded r1, OF cs(2) count] obtain j s3 where
          "rp_retry ops ?jid ?aid (dc_failureClass ?d) (retryBackoffAt c (ri_now inp) pol)
             (dc_safeDiagnostic ?d) (ri_now inp) s1 = (Inr j, s3)" "inv s3" "job s3 ?jid = Some j"
          "j_status j = St_retry_scheduled" "j_nextRunAt j = retryBackoffAt c (ri_now inp) pol"
          "j_attemptCount j = j_attemptCount (cl_job c)"
          "only_job_changed (job s1) (job s3) ?jid" "freshness s3 = freshness s1" by metis
        then show thesis
          using Act_retry next' count
          by (intro that [of j s3]) (simp_all add: persistWorkerFailure_def Let_def)
      next
        case Act_dead_letter
        from deadLetter_ok [OF cs(1) cs(4), unfolded r1] obtain j s3 where
          "rp_deadLetter ops ?jid ?aid (dc_failureClass ?d) (reason_text (dc_reasonCode ?d))
             (dc_safeDiagnostic ?d) (or_else (dc_nextOperatorAction ?d) default_operator_action)
             (ri_now inp) s1 = (Inr j, s3)" "inv s3" "job s3 ?jid = Some j"
          "j_status j = St_dead_lettered"
          "only_job_changed (job s1) (job s3) ?jid" "freshness s3 = freshness s1" by metis
        then show thesis
          using Act_dead_letter by (intro that [of j s3]) (simp_all add: persistWorkerFailure_def Let_def)
      qed
      have "res = Inr (RunFailed (ri_workerKind inp) c ?d j)" "rn_repo st' = s3"
        using run claim Some body failed repo policy fail(1)
        by (simp_all add: runClaimedWorkerJob_def Let_def st1_def) auto
      then show thesis
        using failed fail cs(3,5,6) out
        by (intro that(3) [of c ?d j err]) (auto simp: only_job_changed_def)
    qed
  qed
qed

end

end
