(* ===== verification/ScheduledWorkers.thy ===== *)
theory ScheduledWorkers
  imports BoundedRunner CafeLemmas Evidence
begin

text \<open>
  The four bounded workers of \<open>src/src/app/workers\<close>, each a build of its output from the inputs the
  caller passes, run by \<open>runClaimedWorkerJob\<close>: projections from raw events, snapshots from
  projections, benchmarks from snapshots, evidence from an applied experiment. The output store is
  the caller's: a function on its state that may throw. \<open>toISOString\<close> is \<open>Date\<close>'s, a parameter.
\<close>

section \<open>What the workers share\<close>

record 's WorkerExecutionInput =
  wi_jobRepository :: "'s repo_ops"
  wi_workerId :: string
  wi_now :: int
  wi_leaseSeconds :: "int option"
  wi_failurePolicy :: "WorkerFailurePolicyInput option"
  wi_environment :: RuntimeEnvironment

type_synonym ('out, 'o) output_store = "'out \<Rightarrow> 'o \<Rightarrow> (worker_exn + unit) \<times> 'o"

definition claimed_run ::
  "WorkerKind \<Rightarrow> ('s, 'a) WorkerExecutionInput_scheme \<Rightarrow> (ClaimedWorkerJob \<Rightarrow> worker_exn + 'out built_output)
   \<Rightarrow> ('out, 'o) output_store \<Rightarrow> ('s, 'o, 'out) RunClaimedWorkerJobInput" where
  "claimed_run kind input build store =
     \<lparr>ri_workerKind = kind, ri_jobRepository = wi_jobRepository input, ri_workerId = wi_workerId input,
      ri_leaseSeconds = wi_leaseSeconds input, ri_now = wi_now input, ri_buildOutput = build,
      ri_writeOutput = store, ri_failurePolicy = wi_failurePolicy input, ri_environment = wi_environment input\<rparr>"

text \<open>\<open>{ ...watermark, field: value, ... }\<close>.\<close>

definition with_fields :: "json_object \<Rightarrow> (string \<times> json) list \<Rightarrow> json_object" where
  "with_fields obj entries = fold (\<lambda>(k, v). map_set k v) entries obj"

lemma get_with_fields:
  "distinct (map fst entries) \<Longrightarrow> get_prop (with_fields obj entries) k =
     (case map_of entries k of Some v \<Rightarrow> Some v | None \<Rightarrow> get_prop obj k)"
proof (induction entries arbitrary: obj)
  case Nil
  then show ?case by (simp add: with_fields_def)
next
  case (Cons e entries)
  obtain a v where e: "e = (a, v)" by fastforce
  have "map_of entries a = None" using Cons.prems by (auto simp: e map_of_eq_None_iff)
  then show ?case
    using Cons.IH [of "map_set a v obj"] Cons.prems by (auto simp: with_fields_def e split: option.splits)
qed

abbreviation JNat :: "nat \<Rightarrow> json" where
  "JNat n \<equiv> JNum (Finite (of_nat n))"

fun json_or_null :: "string option \<Rightarrow> json" where
  "json_or_null None = JNull"
| "json_or_null (Some s) = JStr s"

text \<open>The in-memory stores keep the last output.\<close>

definition latest_replaceAll :: "('out, 'out option) output_store" where
  "latest_replaceAll output latest = (Inr (), Some output)"

section \<open>Projections\<close>

record ('s, 'o) ProjectionWorkerExecutionInput = "'s WorkerExecutionInput" +
  pw_rawEvents :: "RawEventRecord list"
  pw_rfmRows :: "DatameshMemberLabelsRow list option"
  pw_rebuiltAt :: "string option"
  pw_outputStore :: "(BusinessProjections, 'o) output_store"

text \<open>
  The events in the order of their receipt, ties by event id (two stable sorts, the main key last);
  the last one is the watermark.
\<close>

definition projectionOutputWatermark ::
  "string comparator \<Rightarrow> (int \<Rightarrow> string) \<Rightarrow> json_object \<Rightarrow> RawEventRecord list \<Rightarrow> int \<Rightarrow> json_object" where
  "projectionOutputWatermark lc toISOString inputWatermark rawEvents now =
     (let sortedEvents = sort_on lc re_receivedAt (sort_on lc re_eventId rawEvents);
          lastEvent = (if sortedEvents = [] then None else Some (last sortedEvents))
      in with_fields inputWatermark
           [(''processedEventCount'', JNat (length rawEvents)),
            (''lastReceivedAt'', json_or_null (map_option re_receivedAt lastEvent)),
            (''lastEventId'', json_or_null (map_option re_eventId lastEvent)),
            (''outputCommittedAt'', JStr (toISOString now))])"

definition projectionOutputSummary :: "BusinessProjections \<Rightarrow> json_object" where
  "projectionOutputSummary output =
     [(''sessions'', JNat (length (bp_sessions output))),
      (''carts'', JNat (length (bp_carts output))),
      (''orders'', JNat (length (bp_orders output))),
      (''payments'', JNat (length (bp_payments output))),
      (''refunds'', JNat (length (bp_refunds output))),
      (''items'', JNat (length (bp_items output))),
      (''menus'', JNat (length (bp_menus output))),
      (''members'', JNat (length (bp_members output))),
      (''memberRfmSnapshots'', JNat (length (bp_memberRfmSnapshots output))),
      (''merchantActions'', JNat (length (bp_merchantActions output)))]"

definition projection_build ::
  "string comparator \<Rightarrow> (int \<Rightarrow> string) \<Rightarrow> ('s, 'o) ProjectionWorkerExecutionInput \<Rightarrow> ClaimedWorkerJob
   \<Rightarrow> worker_exn + BusinessProjections built_output" where
  "projection_build lc toISOString input claimed =
     (let output = rebuildBusinessProjections lc
            \<lparr>in_rawEvents = pw_rawEvents input, in_rfmRows = pw_rfmRows input,
             in_rebuiltAt = Some (or_else (pw_rebuiltAt input) (toISOString (wi_now input)))\<rparr>
      in Inr \<lparr>bo_output = output,
              bo_outputWatermark = projectionOutputWatermark lc toISOString (j_inputWatermark (cl_job claimed))
                (pw_rawEvents input) (wi_now input),
              bo_outputSummary = projectionOutputSummary output\<rparr>)"

definition runProjectionWorker ::
  "string comparator \<Rightarrow> (int \<Rightarrow> string) \<Rightarrow> ('s, 'o) ProjectionWorkerExecutionInput \<Rightarrow> worker_clock
   \<Rightarrow> ('s, 'o) run_state \<Rightarrow> (worker_exn + BusinessProjections BoundedWorkerRunResult) \<times> ('s, 'o) run_state" where
  "runProjectionWorker lc toISOString input =
     runClaimedWorkerJob (claimed_run Kind_projection input (projection_build lc toISOString input) (pw_outputStore input))"

section \<open>Snapshots\<close>

record ('s, 'o) SnapshotWorkerExecutionInput = "'s WorkerExecutionInput" +
  sw_projections :: BusinessProjections
  sw_brandId :: string
  sw_storeId :: string
  sw_snapshotDate :: string
  sw_merchantConfirmations :: "MerchantConfirmation list option"
  sw_outputStore :: "(IndependentCafeSnapshots, 'o) output_store"

definition snapshotOutputWatermark ::
  "(int \<Rightarrow> string) \<Rightarrow> json_object \<Rightarrow> ('s, 'o) SnapshotWorkerExecutionInput \<Rightarrow> IndependentCafeSnapshots
   \<Rightarrow> json_object" where
  "snapshotOutputWatermark toISOString inputWatermark input output =
     with_fields inputWatermark
       [(''brandId'', JStr (sw_brandId input)),
        (''storeId'', JStr (sw_storeId input)),
        (''snapshotDate'', JStr (sw_snapshotDate input)),
        (''metricSnapshotCount'', JNat (length (cs_metricSnapshots output))),
        (''segmentCandidateCount'', JNat (length (cs_restaurantSegments output))),
        (''outputCommittedAt'', JStr (toISOString (wi_now input)))]"

definition snapshotOutputSummary :: "IndependentCafeSnapshots \<Rightarrow> json_object" where
  "snapshotOutputSummary output =
     [(''storeProfileSnapshots'', JNat (length (cs_storeProfileSnapshots output))),
      (''metricDefinitions'', JNat (length (cs_metricDefinitions output))),
      (''metricSnapshots'', JNat (length (cs_metricSnapshots output))),
      (''restaurantSegments'', JNat (length (cs_restaurantSegments output))),
      (''merchantConfirmations'', JNat (length (cs_merchantConfirmations output)))]"

definition snapshot_build ::
  "string comparator \<Rightarrow> (int \<Rightarrow> string) \<Rightarrow> ('s, 'o) SnapshotWorkerExecutionInput \<Rightarrow> ClaimedWorkerJob
   \<Rightarrow> worker_exn + IndependentCafeSnapshots built_output" where
  "snapshot_build lc toISOString input claimed =
     (let output = rebuildIndependentCafeSnapshots lc
            \<lparr>si_projections = sw_projections input, si_brandId = sw_brandId input, si_storeId = sw_storeId input,
             si_snapshotDate = sw_snapshotDate input, si_merchantConfirmations = sw_merchantConfirmations input\<rparr>
      in Inr \<lparr>bo_output = output,
              bo_outputWatermark = snapshotOutputWatermark toISOString (j_inputWatermark (cl_job claimed)) input output,
              bo_outputSummary = snapshotOutputSummary output\<rparr>)"

definition runSnapshotWorker ::
  "string comparator \<Rightarrow> (int \<Rightarrow> string) \<Rightarrow> ('s, 'o) SnapshotWorkerExecutionInput \<Rightarrow> worker_clock
   \<Rightarrow> ('s, 'o) run_state \<Rightarrow> (worker_exn + IndependentCafeSnapshots BoundedWorkerRunResult) \<times> ('s, 'o) run_state" where
  "runSnapshotWorker lc toISOString input =
     runClaimedWorkerJob (claimed_run Kind_snapshot input (snapshot_build lc toISOString input) (sw_outputStore input))"

section \<open>Benchmarks\<close>

record ('s, 'o) BenchmarkWorkerExecutionInput = "'s WorkerExecutionInput" +
  bw_targetMetricSnapshots :: "MetricSnapshot list"
  bw_targetRestaurantSegments :: "RestaurantSegmentCandidate list"
  bw_peerMetricSnapshots :: "MetricSnapshot list"
  bw_peerRestaurantSegments :: "RestaurantSegmentCandidate list"
  bw_snapshotDate :: string
  bw_minPeerStoreCount :: "int option"
  bw_outputStore :: "(PeerBenchmarkOpportunityGaps, 'o) output_store"

definition benchmarkOutputWatermark ::
  "(int \<Rightarrow> string) \<Rightarrow> json_object \<Rightarrow> ('s, 'o) BenchmarkWorkerExecutionInput \<Rightarrow> PeerBenchmarkOpportunityGaps
   \<Rightarrow> json_object" where
  "benchmarkOutputWatermark toISOString inputWatermark input output =
     with_fields inputWatermark
       [(''snapshotDate'', JStr (bw_snapshotDate input)),
        (''targetMetricCount'', JNat (length (bw_targetMetricSnapshots input))),
        (''peerMetricCount'', JNat (length (bw_peerMetricSnapshots input))),
        (''opportunityGapCount'', JNat (length (bg_opportunityGaps output))),
        (''outputCommittedAt'', JStr (toISOString (wi_now input)))]"

definition benchmarkOutputSummary :: "PeerBenchmarkOpportunityGaps \<Rightarrow> json_object" where
  "benchmarkOutputSummary output =
     [(''peerGroups'', JNat (length (bg_peerGroups output))),
      (''peerBenchmarks'', JNat (length (bg_peerBenchmarks output))),
      (''opportunityGaps'', JNat (length (bg_opportunityGaps output)))]"

definition benchmark_build ::
  "string comparator \<Rightarrow> (int \<Rightarrow> string) \<Rightarrow> ('s, 'o) BenchmarkWorkerExecutionInput \<Rightarrow> ClaimedWorkerJob
   \<Rightarrow> worker_exn + PeerBenchmarkOpportunityGaps built_output" where
  "benchmark_build lc toISOString input claimed =
     (let output = rebuildPeerBenchmarkOpportunityGaps lc
            \<lparr>bi_targetMetricSnapshots = bw_targetMetricSnapshots input,
             bi_targetRestaurantSegments = bw_targetRestaurantSegments input,
             bi_peerMetricSnapshots = bw_peerMetricSnapshots input,
             bi_peerRestaurantSegments = bw_peerRestaurantSegments input,
             bi_snapshotDate = bw_snapshotDate input, bi_minPeerStoreCount = bw_minPeerStoreCount input\<rparr>
      in Inr \<lparr>bo_output = output,
              bo_outputWatermark = benchmarkOutputWatermark toISOString (j_inputWatermark (cl_job claimed)) input output,
              bo_outputSummary = benchmarkOutputSummary output\<rparr>)"

definition runBenchmarkWorker ::
  "string comparator \<Rightarrow> (int \<Rightarrow> string) \<Rightarrow> ('s, 'o) BenchmarkWorkerExecutionInput \<Rightarrow> worker_clock
   \<Rightarrow> ('s, 'o) run_state
   \<Rightarrow> (worker_exn + PeerBenchmarkOpportunityGaps BoundedWorkerRunResult) \<times> ('s, 'o) run_state" where
  "runBenchmarkWorker lc toISOString input =
     runClaimedWorkerJob (claimed_run Kind_benchmark input (benchmark_build lc toISOString input) (bw_outputStore input))"

section \<open>Evidence\<close>

record EvidenceWorkerOutput =
  eo_actionEffect :: ActionEffect
  eo_guardrailResults :: "GuardrailResult list"
  eo_trajectory :: InterventionTrajectory
  eo_evidenceRecord :: EvidenceRecord

record ('s, 'o) EvidenceWorkerExecutionInput = "'s WorkerExecutionInput" +
  ew_experimentPlan :: ExperimentPlan
  ew_acceptance :: MerchantReviewAcceptance
  ew_appliedLifecycleRecord :: ActionLifecycleRecord
  ew_opportunityGap :: OpportunityGap
  ew_beforeMetricSnapshot :: MetricSnapshot
  ew_afterMetricSnapshot :: MetricSnapshot
  ew_guardrails :: "ExperimentGuardrail list"
  ew_beforeGuardrailMetricSnapshots :: "(string, MetricSnapshot) jsmap option"
  ew_afterGuardrailMetricSnapshots :: "(string, MetricSnapshot) jsmap option"
  ew_outputStore :: "(EvidenceWorkerOutput, 'o) output_store"

text \<open>\<open>xs.map(f)\<close> for an \<open>f\<close> that may throw: the first error ends it.\<close>

fun map_throwing :: "('a \<Rightarrow> 'e + 'b) \<Rightarrow> 'a list \<Rightarrow> 'e + 'b list" where
  "map_throwing f [] = Inr []"
| "map_throwing f (x # xs) = and_then (f x) (\<lambda>y. and_then (map_throwing f xs) (\<lambda>ys. Inr (y # ys)))"

lemma map_throwing_Inr_iff:
  "map_throwing f xs = Inr ys \<longleftrightarrow> list_all2 (\<lambda>x y. f x = Inr y) xs ys"
  by (induction xs arbitrary: ys) (auto simp: and_then_Inr_iff list_all2_Cons1)

definition review_guardrail ::
  "string comparator \<Rightarrow> ('s, 'o) EvidenceWorkerExecutionInput \<Rightarrow> ExperimentGuardrail
   \<Rightarrow> evidence_error + GuardrailResult" where
  "review_guardrail lc input guardrail =
     (let metricId = metric_text (gr_metricId guardrail)
      in reviewGuardrailResult lc
           (''guardrail_result:'' @ ep_experimentPlanId (ew_experimentPlan input) @ '':'' @ metricId)
           (ew_experimentPlan input) guardrail
           (map_get (or_else (ew_beforeGuardrailMetricSnapshots input) []) metricId)
           (map_get (or_else (ew_afterGuardrailMetricSnapshots input) []) metricId) None)"

definition evidence_output ::
  "string comparator \<Rightarrow> ('s, 'o) EvidenceWorkerExecutionInput \<Rightarrow> evidence_error + EvidenceWorkerOutput" where
  "evidence_output lc input =
     (let planId = ep_experimentPlanId (ew_experimentPlan input) in
     and_then (reviewActionEffect lc
         (''action_effect:'' @ planId @ '':'' @ ms_snapshotDate (ew_beforeMetricSnapshot input) @ '':''
           @ ms_snapshotDate (ew_afterMetricSnapshot input))
         (ew_experimentPlan input) (ew_beforeMetricSnapshot input) (ew_afterMetricSnapshot input) None)
       (\<lambda>actionEffect.
     and_then (map_throwing (review_guardrail lc input) (ew_guardrails input)) (\<lambda>guardrailResults.
     and_then (assembleInterventionTrajectory lc
         \<lparr>ti_interventionTrajectoryId = ''intervention_trajectory:'' @ planId,
          ti_experimentPlan = ew_experimentPlan input, ti_acceptance = ew_acceptance input,
          ti_appliedLifecycleRecord = ew_appliedLifecycleRecord input, ti_actionEffect = actionEffect,
          ti_guardrailResults = guardrailResults\<rparr>) (\<lambda>trajectory.
     and_then (buildEvidenceRecord lc
         \<lparr>ei_evidenceRecordId = ''evidence_record:'' @ planId @ '':''
            @ og_opportunityGapId (ew_opportunityGap input),
          ei_trajectory = trajectory, ei_opportunityGap = ew_opportunityGap input,
          ei_actionEffect = actionEffect, ei_guardrailResults = guardrailResults\<rparr>) (\<lambda>evidenceRecord.
     Inr \<lparr>eo_actionEffect = actionEffect, eo_guardrailResults = guardrailResults,
          eo_trajectory = trajectory, eo_evidenceRecord = evidenceRecord\<rparr>)))))"

definition evidenceOutputWatermark ::
  "(int \<Rightarrow> string) \<Rightarrow> json_object \<Rightarrow> ('s, 'o) EvidenceWorkerExecutionInput \<Rightarrow> EvidenceWorkerOutput
   \<Rightarrow> json_object" where
  "evidenceOutputWatermark toISOString inputWatermark input output =
     with_fields inputWatermark
       [(''experimentPlanId'', JStr (ep_experimentPlanId (ew_experimentPlan input))),
        (''opportunityGapId'', JStr (og_opportunityGapId (ew_opportunityGap input))),
        (''evidenceRecordId'', JStr (er_evidenceRecordId (eo_evidenceRecord output))),
        (''outputCommittedAt'', JStr (toISOString (wi_now input)))]"

definition evidenceOutputSummary :: "EvidenceWorkerOutput \<Rightarrow> json_object" where
  "evidenceOutputSummary output =
     [(''actionEffects'', JNat 1),
      (''guardrailResults'', JNat (length (eo_guardrailResults output))),
      (''trajectories'', JNat 1),
      (''evidenceRecords'', JNat 1),
      (''verdict'', JStr (verdict_text (er_verdict (eo_evidenceRecord output)))),
      (''llmGeneratedClaims'', JNat (length (er_llmGeneratedClaims (eo_evidenceRecord output))))]"

text \<open>A thrown \<open>Error\<close> has its message; what a \<open>ZodError\<close> looks like is zod's own, \<open>zod\<close>.\<close>

fun evidence_exn :: "(schema_error \<Rightarrow> worker_exn) \<Rightarrow> evidence_error \<Rightarrow> worker_exn" where
  "evidence_exn zod (Unparsable e) = zod e"
| "evidence_exn zod (Thrown message) = OtherError ''Error'' message"

definition evidence_build ::
  "string comparator \<Rightarrow> (int \<Rightarrow> string) \<Rightarrow> (schema_error \<Rightarrow> worker_exn)
   \<Rightarrow> ('s, 'o) EvidenceWorkerExecutionInput \<Rightarrow> ClaimedWorkerJob
   \<Rightarrow> worker_exn + EvidenceWorkerOutput built_output" where
  "evidence_build lc toISOString zod input claimed =
     (case evidence_output lc input of
        Inl e \<Rightarrow> Inl (evidence_exn zod e)
      | Inr output \<Rightarrow>
          Inr \<lparr>bo_output = output,
               bo_outputWatermark = evidenceOutputWatermark toISOString (j_inputWatermark (cl_job claimed)) input output,
               bo_outputSummary = evidenceOutputSummary output\<rparr>)"

definition runEvidenceWorker ::
  "string comparator \<Rightarrow> (int \<Rightarrow> string) \<Rightarrow> (schema_error \<Rightarrow> worker_exn)
   \<Rightarrow> ('s, 'o) EvidenceWorkerExecutionInput \<Rightarrow> worker_clock \<Rightarrow> ('s, 'o) run_state
   \<Rightarrow> (worker_exn + EvidenceWorkerOutput BoundedWorkerRunResult) \<times> ('s, 'o) run_state" where
  "runEvidenceWorker lc toISOString zod input =
     runClaimedWorkerJob (claimed_run Kind_evidence input (evidence_build lc toISOString zod input)
       (ew_outputStore input))"

end
