(* ===== verification/WorkerQueue.thy ===== *)
theory WorkerQueue
  imports BoundedRunner
begin

text \<open>
  The queue of \<open>WorkerJobs\<close> keeps the contract of \<open>BoundedRunner\<close> on every state with the
  invariant, and what each of its operations does: which job is claimed, what enqueueing twice
  returns, what a checkpoint commits.
\<close>

definition worker_ops :: "(string \<Rightarrow> string) \<Rightarrow> worker_db repo_ops" where
  "worker_ops md5 = \<lparr>rp_claim = claim, rp_checkpoint = checkpoint md5, rp_complete = complete md5,
     rp_retry = retry, rp_deadLetter = deadLetter, rp_readFreshness = readFreshness\<rparr>"

lemma worker_ops_sel [simp]:
  "rp_claim (worker_ops md5) = claim" "rp_checkpoint (worker_ops md5) = checkpoint md5"
  "rp_complete (worker_ops md5) = complete md5" "rp_retry (worker_ops md5) = retry"
  "rp_deadLetter (worker_ops md5) = deadLetter" "rp_readFreshness (worker_ops md5) = readFreshness"
  by (simp_all add: worker_ops_def)

section \<open>claim\<close>

text \<open>The claimed job is the first of the claimable ones in the order of the query.\<close>

lemma selected_job_least:
  assumes "selected_job kind now db = Some j" "k \<in> set (db_jobs db)" "claimable kind now k"
  shows "claim_order j \<le> claim_order k"
proof -
  let ?cs = "sort_key claim_order (filter (claimable kind now) (db_jobs db))"
  from assms(1) obtain js where cs: "?cs = j # js" by (auto simp: selected_job_def split: list.splits)
  have "k \<in> set ?cs" using assms(2,3) by simp
  then have "k = j \<or> k \<in> set js" by (simp add: cs)
  moreover have "linorder_class.sorted (map claim_order ?cs)" by (rule sorted_sort_key)
  then have "\<forall>x \<in> set js. claim_order j \<le> claim_order x" by (simp add: cs)
  ultimately show ?thesis by auto
qed

lemma selected_job_None:
  "selected_job kind now db = None \<longleftrightarrow> (\<forall>j \<in> set (db_jobs db). \<not> claimable kind now j)"
proof -
  have "set (sort_key f xs) = {} \<longleftrightarrow> set xs = {}" for f :: "WorkerJob \<Rightarrow> int \<times> int \<times> string" and xs
    by (simp only: linorder_class.set_sort)
  then have "sort_key f xs = [] \<longleftrightarrow> xs = []" for f :: "WorkerJob \<Rightarrow> int \<times> int \<times> string" and xs
    by (simp only: set_empty)
  then have "selected_job kind now db = None \<longleftrightarrow> filter (claimable kind now) (db_jobs db) = []"
    by (auto simp: selected_job_def split: list.split)
  then show ?thesis by (simp add: filter_empty_conv)
qed

lemma claim_Some:
  assumes "worker_inv db" "claim kind w now lease db = (Some c, db')"
  obtains j where "selected_job kind now db = Some j" "find_job db (j_jobId j) = Some j" "claimable kind now j"
    "cl_job c = claimed_row w now (now + lease * 1000) j"
    "cl_attempt c = started_attempt (db_nextAttemptId db) w now (cl_job c)"
    "db' = (update_job (j_jobId j) (claimed_row w now (now + lease * 1000)) db)
       \<lparr>db_attempts := db_attempts db @ [cl_attempt c], db_nextAttemptId := Suc (db_nextAttemptId db)\<rparr>"
proof (cases "selected_job kind now db")
  case None
  with assms(2) show thesis by (simp add: claim_def Let_def)
next
  case (Some j)
  let ?job = "claimed_row w now (now + lease * 1000) j"
  let ?attempt = "started_attempt (db_nextAttemptId db) w now ?job"
  let ?db = "(update_job (j_jobId j) (claimed_row w now (now + lease * 1000)) db)
      \<lparr>db_attempts := db_attempts db @ [?attempt], db_nextAttemptId := Suc (db_nextAttemptId db)\<rparr>"
  have "claim kind w now lease db = (Some \<lparr>cl_job = ?job, cl_attempt = ?attempt\<rparr>, ?db)"
    by (simp add: claim_def Let_def Some update_job_def)
  then have "(Some c, db') = (Some \<lparr>cl_job = ?job, cl_attempt = ?attempt\<rparr>, ?db)"
    by (rule trans [OF assms(2) [symmetric]])
  then have "c = \<lparr>cl_job = ?job, cl_attempt = ?attempt\<rparr>" "db' = ?db" by (simp_all only: prod.inject option.inject)
  then have eqs: "cl_job c = ?job" "cl_attempt c = started_attempt (db_nextAttemptId db) w now (cl_job c)"
      "db' = (update_job (j_jobId j) (claimed_row w now (now + lease * 1000)) db)
       \<lparr>db_attempts := db_attempts db @ [cl_attempt c], db_nextAttemptId := Suc (db_nextAttemptId db)\<rparr>"
    by simp_all
  have "j \<in> set (db_jobs db)" "claimable kind now j" using selected_job_in [OF Some] by auto
  with find_job_iff [OF assms(1)] have "find_job db (j_jobId j) = Some j" by auto
  show thesis by (rule that [OF Some \<open>find_job db (j_jobId j) = Some j\<close> \<open>claimable kind now j\<close> eqs])
qed

lemma keeps_claimed [simp]: "j_jobId (claimed_row w now t j) = j_jobId j"
  by (simp add: claimed_row_def)

lemma find_job_update_id:
  "(\<And>j. j_jobId (f j) = j_jobId j) \<Longrightarrow>
   find_job (update_job jid f db) k = (if k = jid then map_option f (find_job db k) else find_job db k)"
  by (simp add: find_job_def update_job_def find_update_where)

lemma find_job_cong: "db_jobs a = db_jobs b \<Longrightarrow> find_job a = find_job b"
  by (auto simp: find_job_def fun_eq_iff)

lemma claim_contract:
  assumes inv: "worker_inv db" and c: "claim kind w now lease db = (Some c, db')"
  shows "worker_inv db' \<and> find_job db' (j_jobId (cl_job c)) = Some (cl_job c)
    \<and> j_status (cl_job c) = St_running \<and> j_workerKind (cl_job c) = kind
    \<and> j_attemptCount (cl_job c) \<le> j_maxAttempts (cl_job c)
    \<and> (at_attemptId (cl_attempt c), j_jobId (cl_job c)) \<in> attempt_refs db'
    \<and> only_job_changed (find_job db) (find_job db') (j_jobId (cl_job c))
    \<and> db_checkpoints db' = db_checkpoints db"
proof -
  from claim_Some [OF inv c] obtain j where j: "find_job db (j_jobId j) = Some j" "claimable kind now j"
    "cl_job c = claimed_row w now (now + lease * 1000) j"
    "cl_attempt c = started_attempt (db_nextAttemptId db) w now (cl_job c)"
    "db' = (update_job (j_jobId j) (claimed_row w now (now + lease * 1000)) db)
       \<lparr>db_attempts := db_attempts db @ [cl_attempt c], db_nextAttemptId := Suc (db_nextAttemptId db)\<rparr>" .
  have jobs: "find_job db' = find_job (update_job (j_jobId j) (claimed_row w now (now + lease * 1000)) db)"
    by (rule find_job_cong) (simp add: j(5))
  have id: "j_jobId (cl_job c) = j_jobId j" by (simp add: j(3))
  have "find_job db' (j_jobId j) = Some (cl_job c)"
    by (simp add: jobs find_job_update_id j(1,3))
  moreover have "only_job_changed (find_job db) (find_job db') (j_jobId j)"
    by (simp add: only_job_changed_def jobs find_job_update_id)
  moreover have "(at_attemptId (cl_attempt c), j_jobId j) \<in> attempt_refs db'"
    using id by (simp add: j(5) attempt_refs_def) (simp add: j(4) started_attempt_def)
  moreover have "j_status (cl_job c) = St_running \<and> j_workerKind (cl_job c) = kind
      \<and> j_attemptCount (cl_job c) \<le> j_maxAttempts (cl_job c)"
    using j(2) by (simp add: j(3) claimed_row_def claimable_def)
  moreover have "db_checkpoints db' = db_checkpoints db" by (simp add: j(5))
  ultimately show ?thesis using claim_inv [OF inv c] id by simp
qed

section \<open>checkpoint, complete, retry, deadLetter\<close>

lemma find_attempt_iff:
  assumes "worker_inv db" "(aid, jid) \<in> attempt_refs db"
  obtains a where "find_attempt db jid aid = Some a"
proof (cases "find_attempt db jid aid")
  case None
  with assms(2) show thesis
    by (auto simp: find_attempt_def find_None_iff attempt_refs_def is_attempt_def)
qed (rule that)

lemma upsert_checkpoint_row:
  "upsert_checkpoint row rows = (r, rows') \<Longrightarrow> r \<in> set rows'
     \<and> fr_committedWatermark r = fr_committedWatermark row \<and> fr_committedJobId r = fr_committedJobId row
     \<and> fr_committedAttemptId r = fr_committedAttemptId row \<and> fr_outputSummary r = fr_outputSummary row
     \<and> fr_checkpointId r = fr_checkpointId row"
  by (auto simp: upsert_checkpoint_def recommitted_def set_update_where image_iff
      dest!: find_in_list split: option.splits)

lemma checkpoint_contract:
  assumes inv: "worker_inv db" and ref: "(aid, jid) \<in> attempt_refs db"
  obtains row db' where "checkpoint md5 jid aid wm summ now db = (Inr row, db')" "worker_inv db'"
    "db_jobs db' = db_jobs db" "attempt_refs db' = attempt_refs db" "row \<in> set (db_checkpoints db')"
    "fr_committedWatermark row = wm" "fr_committedJobId row = jid" "fr_committedAttemptId row = aid"
    "fr_outputSummary row = summ" "\<exists>a. find_attempt db' jid aid = Some a"
proof -
  from find_attempt_iff [OF assms] obtain a where a: "find_attempt db jid aid = Some a" .
  from attempt_has_job [OF inv a] obtain j where j: "find_job db jid = Some j" by metis
  let ?row = "checkpoint_row md5 j (at_attemptId a) wm summ now"
  obtain row rows where up: "upsert_checkpoint ?row (db_checkpoints db) = (row, rows)" by fastforce
  let ?f = "\<lambda>a. a\<lparr>at_status := At_checkpointed, at_outputWatermark := Some wm, at_heartbeatAt := Some now\<rparr>"
  have run: "checkpoint md5 jid aid wm summ now db
      = (Inr row, (update_attempt jid aid ?f db)\<lparr>db_checkpoints := rows\<rparr>)"
    using a j up by (simp add: checkpoint_def Let_def)
  have f: "keeps_attempt ?f" by (simp add: keeps_attempt_def)
  have refs: "attempt_refs ((update_attempt jid aid ?f db)\<lparr>db_checkpoints := rows\<rparr>) = attempt_refs db"
    using update_attempt_keys(2) [OF f] by (simp add: attempt_refs_def)
  from upsert_checkpoint_row [OF up] checkpoint_effect [OF inv run] run refs find_attempt_in [OF a] find_job_in [OF j] a
  show thesis by (intro that [OF run]) (auto simp: checkpoint_row_def)
qed

lemma complete_contract:
  assumes inv: "worker_inv db" and ref: "(aid, jid) \<in> attempt_refs db"
  obtains j db' where "complete md5 jid aid wm summ now db = (Inr j, db')" "worker_inv db'"
    "find_job db' jid = Some j" "j_status j = St_succeeded"
    "only_job_changed (find_job db) (find_job db') jid"
    "\<exists>row \<in> set (db_checkpoints db'). fr_committedWatermark row = wm \<and> fr_committedJobId row = jid
       \<and> fr_committedAttemptId row = aid \<and> fr_outputSummary row = summ"
proof -
  obtain row db1 where cp: "checkpoint md5 jid aid wm summ now db = (Inr row, db1)" "worker_inv db1"
    "db_jobs db1 = db_jobs db" "row \<in> set (db_checkpoints db1)"
    "fr_committedWatermark row = wm" "fr_committedJobId row = jid" "fr_committedAttemptId row = aid"
    "fr_outputSummary row = summ" "\<exists>a. find_attempt db1 jid aid = Some a"
    by (rule checkpoint_contract [OF assms, of md5 wm summ now])
  then obtain a where a: "find_attempt db1 jid aid = Some a" by blast
  from attempt_has_job [OF cp(2) a] obtain j where j: "find_job db1 jid = Some j" by metis
  let ?f = "\<lambda>a. a\<lparr>at_status := At_succeeded, at_outputWatermark := Some wm, at_finishedAt := Some now\<rparr>"
  let ?db' = "update_job jid (completed_row now) (update_attempt jid aid ?f db1)"
  have id: "j_jobId (completed_row now k) = j_jobId k" for k by (simp add: completed_row_def)
  have found: "find_job ?db' k = (if k = jid then map_option (completed_row now) (find_job db1 k) else find_job db1 k)" for k
    by (simp add: find_job_update_id id)
  have run: "complete md5 jid aid wm summ now db = (Inr (completed_row now j), ?db')"
    using cp(1) a j by (simp add: complete_def complete_statement_def Let_def found)
  have "find_job db1 = find_job db" by (rule find_job_cong) (rule cp(3))
  then have "only_job_changed (find_job db) (find_job ?db') jid"
    by (simp add: only_job_changed_def found)
  moreover have "\<exists>row \<in> set (db_checkpoints ?db'). fr_committedWatermark row = wm \<and> fr_committedJobId row = jid
       \<and> fr_committedAttemptId row = aid \<and> fr_outputSummary row = summ"
    using cp by auto
  ultimately show thesis
    using complete_inv [OF inv run] j by (intro that [OF run]) (simp_all add: found completed_row_def)
qed

lemma retry_contract:
  assumes inv: "worker_inv db" and ref: "(aid, jid) \<in> attempt_refs db" and j: "find_job db jid = Some j"
    and count: "j_attemptCount j < j_maxAttempts j"
  obtains db' where "retry jid aid fc next diag now db = (Inr (retried_row fc next diag now j), db')" "worker_inv db'"
    "find_job db' jid = Some (retried_row fc next diag now j)"
    "only_job_changed (find_job db) (find_job db') jid" "db_checkpoints db' = db_checkpoints db"
proof -
  from find_attempt_iff [OF inv ref] obtain a where a: "find_attempt db jid aid = Some a" .
  let ?f = "\<lambda>a. a\<lparr>at_status := At_retryable_failed, at_failureClass := Some fc,
      at_safeDiagnostic := diag, at_finishedAt := Some now\<rparr>"
  let ?db' = "update_job jid (retried_row fc next diag now) (update_attempt jid aid ?f db)"
  have run: "retry jid aid fc next diag now db = (Inr (retried_row fc next diag now j), ?db')"
    using a j count by (simp add: retry_def Let_def)
  have "j_jobId (retried_row fc next diag now k) = j_jobId k" for k by (simp add: retried_row_def)
  then show thesis
    using retry_inv [OF inv run] j by (intro that [OF run]) (simp_all add: find_job_update_id only_job_changed_def)
qed

lemma upsert_dead_letter_row:
  "\<exists>d \<in> set (upsert_dead_letter row rows). dl_jobId d = dl_jobId row
     \<and> dl_reasonCode d = dl_reasonCode row \<and> dl_attemptId d = dl_attemptId row"
proof (cases "dl_jobId row \<in> dl_jobId ` set rows")
  case True
  then obtain old where old: "old \<in> set rows" "dl_jobId old = dl_jobId row" by auto
  show ?thesis
    by (rule bexI [of _ "old\<lparr>dl_attemptId := dl_attemptId row, dl_attemptCount := dl_attemptCount row,
          dl_failureClass := dl_failureClass row, dl_reasonCode := dl_reasonCode row,
          dl_safeDiagnostic := dl_safeDiagnostic row,
          dl_nextOperatorAction := dl_nextOperatorAction row, dl_createdAt := dl_createdAt row\<rparr>"])
      (use True old in \<open>simp_all add: upsert_dead_letter_def set_update_where image_def, blast\<close>)
next
  case False
  then show ?thesis by (simp add: upsert_dead_letter_def)
qed

lemma deadLetter_contract:
  assumes inv: "worker_inv db" and ref: "(aid, jid) \<in> attempt_refs db"
  obtains j db' where "find_job db jid = Some j"
    "deadLetter jid aid fc reason diag act now db = (Inr (dead_lettered_row fc reason now j), db')" "worker_inv db'"
    "find_job db' jid = Some (dead_lettered_row fc reason now j)"
    "only_job_changed (find_job db) (find_job db') jid" "db_checkpoints db' = db_checkpoints db"
    "\<exists>d \<in> set (db_deadLetters db'). dl_jobId d = jid \<and> dl_reasonCode d = reason \<and> dl_attemptId d = aid"
proof -
  from find_attempt_iff [OF inv ref] obtain a where a: "find_attempt db jid aid = Some a" .
  from attempt_has_job [OF inv a] obtain j where j: "find_job db jid = Some j" "0 < j_attemptCount j" .
  let ?f = "\<lambda>a. a\<lparr>at_status := At_dead_lettered, at_failureClass := Some fc,
      at_safeDiagnostic := diag, at_finishedAt := Some now\<rparr>"
  let ?g = "dead_lettered_row fc reason now"
  let ?row = "\<lparr>dl_jobId = jid, dl_attemptId = aid, dl_job = ?g j, dl_attemptCount = j_attemptCount (?g j),
      dl_failureClass = fc, dl_reasonCode = reason, dl_safeDiagnostic = diag,
      dl_nextOperatorAction = act, dl_createdAt = now\<rparr>"
  let ?db' = "(update_job jid ?g (update_attempt jid aid ?f db))\<lparr>db_deadLetters := upsert_dead_letter ?row (db_deadLetters db)\<rparr>"
  have run: "deadLetter jid aid fc reason diag act now db = (Inr (?g j), ?db')"
    using a j by (simp add: deadLetter_def Let_def dead_lettered_row_def)
  have "find_job ?db' = find_job (update_job jid ?g (update_attempt jid aid ?f db))"
    by (rule find_job_cong) simp
  moreover have "j_jobId (?g k) = j_jobId k" for k by (simp add: dead_lettered_row_def)
  moreover have "\<exists>d \<in> set (upsert_dead_letter ?row (db_deadLetters db)).
      dl_jobId d = jid \<and> dl_reasonCode d = reason \<and> dl_attemptId d = aid"
    using upsert_dead_letter_row [of ?row "db_deadLetters db"] by simp
  ultimately show thesis
    using deadLetter_inv [OF inv run] j by (intro that [OF j(1) run]) (simp_all add: find_job_update_id only_job_changed_def)
qed

interpretation queue: worker_repository "worker_ops md5" find_job attempt_refs db_checkpoints worker_inv
  for md5
proof (unfold_locales, goal_cases)
  case (1 s kind w now lease s')
  then show ?case by (auto simp: claim_def Let_def split: option.splits)
next
  case (2 s kind w now lease c s')
  then show ?case using claim_contract by simp
next
  case (3 s aid jid wm summ now)
  obtain row db' where "checkpoint md5 jid aid wm summ now s = (Inr row, db')" "worker_inv db'"
    "db_jobs db' = db_jobs s" "attempt_refs db' = attempt_refs s" "row \<in> set (db_checkpoints db')"
    "fr_committedWatermark row = wm" "fr_committedJobId row = jid" "fr_committedAttemptId row = aid"
    by (rule checkpoint_contract [OF 3, of md5 wm summ now])
  moreover from this(3) have "find_job db' = find_job s" by (rule find_job_cong)
  ultimately show ?case by auto
next
  case (4 s aid jid wm summ now)
  show ?case by (rule complete_contract [OF 4, of md5 wm summ now]) auto
next
  case (5 s aid jid j fc "next" diag now)
  show ?case
    by (rule retry_contract [OF 5, of fc "next" diag now]) (auto simp: retried_row_def)
next
  case (6 s aid jid fc reason diag act now)
  show ?case
    by (rule deadLetter_contract [OF 6, of fc reason diag act now]) (auto simp: dead_lettered_row_def)
qed

end
