(* ===== verification/WorkerProperties.thy ===== *)
theory WorkerProperties
  imports WorkerQueue
begin

text \<open>
  What the job queue and the bounded runner guarantee: attempts never exceed their budget, a job is
  claimed by one worker at a time and in order, output is written before it is acknowledged, and no
  run with a failure policy leaves a job behind. The last section has the cases in which the queue
  does less than its callers may expect.
\<close>

section \<open>A sample queue\<close>

definition sample_input :: EnqueueWorkerJobInput where
  "sample_input = \<lparr>eq_workerKind = Kind_projection,
     eq_tenantScope = \<lparr>ts_brandId = Absent, ts_merchantId = Text ''m1'', ts_storeId = Text ''s1''\<rparr>,
     eq_sourceScope = \<lparr>ss_source = ''pos'', ss_producerService = Absent, ss_producerEnvironment = Absent\<rparr>,
     eq_inputWatermark = [], eq_idempotencyIdentity = ''day-1'', eq_correlationId = ''corr'',
     eq_maxAttempts = Some 2, eq_now = 1000\<rparr>"

definition sample_job :: WorkerJob where
  "sample_job = enqueued_row (stableWorkerJobId default (\<lambda>s. s) sample_input) sample_input"

definition sample_queue :: worker_db where
  "sample_queue = worker_db_empty\<lparr>db_jobs := [sample_job]\<rparr>"

definition sample_claimed :: ClaimedWorkerJob where
  "sample_claimed = \<lparr>cl_job = claimed_row ''w1'' 2000 62000 sample_job,
     cl_attempt = started_attempt 1 ''w1'' 2000 (claimed_row ''w1'' 2000 62000 sample_job)\<rparr>"

definition sample_running :: worker_db where
  "sample_running = sample_queue\<lparr>db_jobs := [cl_job sample_claimed], db_attempts := [cl_attempt sample_claimed],
     db_nextAttemptId := 2\<rparr>"

lemma sample_job_sel [simp]:
  "j_workerKind sample_job = Kind_projection" "j_status sample_job = St_queued" "j_nextRunAt sample_job = 1000"
  "j_lockedUntil sample_job = None" "j_attemptCount sample_job = 0" "j_maxAttempts sample_job = 2"
  by (simp_all add: sample_job_def enqueued_row_def sample_input_def)

lemma sample_enqueue:
  "enqueue default (\<lambda>s. s) sample_input worker_db_empty = (Inr (sample_job, False), sample_queue)"
  using sample_job_sel(6)
  by (simp add: enqueue_def Let_def find_job_def worker_db_empty_def sample_queue_def sample_job_def)

lemma sample_claim:
  "claim Kind_projection ''w1'' 2000 60 sample_queue = (Some sample_claimed, sample_running)"
  by (simp add: claim_def Let_def selected_job_def sample_queue_def claimable_def worker_db_empty_def
      sample_claimed_def sample_running_def update_where_def)

lemma sample_reachable:
  "worker_reachable default (\<lambda>s. s) (\<lambda>s. s) sample_queue"
  "worker_reachable default (\<lambda>s. s) (\<lambda>s. s) sample_running"
proof -
  show q: "worker_reachable default (\<lambda>s. s) (\<lambda>s. s) sample_queue"
    by (rule reach_step [OF reach_empty step_enqueue [OF sample_enqueue]])
  show "worker_reachable default (\<lambda>s. s) (\<lambda>s. s) sample_running"
    by (rule reach_step [OF q step_claim [OF sample_claim]])
qed

section \<open>The queue\<close>

text \<open>C9. In every state the queue can reach: job ids are distinct; a job has exactly as many attempts
as its count says, and no more than its maximum; every attempt belongs to a job and attempt numbers
do not repeat; a job is locked exactly while it runs; every checkpoint names an attempt that was
made; every dead-lettered job has its dead letter.\<close>

theorem queue_invariant:
  assumes "worker_reachable lc sha md5 db"
  shows "distinct (map j_jobId (db_jobs db)) \<and> distinct (map at_attemptId (db_attempts db))
    \<and> distinct (map (\<lambda>a. (at_jobId a, at_attemptNumber a)) (db_attempts db))
    \<and> (\<forall>j \<in> set (db_jobs db).
         int (length (filter (\<lambda>a. at_jobId a = j_jobId j) (db_attempts db))) = j_attemptCount j
         \<and> j_attemptCount j \<le> j_maxAttempts j
         \<and> (j_status j = St_running \<longleftrightarrow> j_lockedBy j \<noteq> None)
         \<and> (j_status j = St_dead_lettered \<longrightarrow> j_jobId j \<in> dl_jobId ` set (db_deadLetters db)))
    \<and> (\<forall>a \<in> set (db_attempts db). at_jobId a \<in> j_jobId ` set (db_jobs db))
    \<and> (\<forall>c \<in> set (db_checkpoints db). (fr_committedAttemptId c, fr_committedJobId c) \<in> attempt_refs db)"
proof -
  from worker_reachable_inv [OF assms] have inv: "worker_inv db" .
  then have q: "queue_ok (job_keys db) (attempt_keys db) (db_nextAttemptId db)"
    and states: "\<And>j. j \<in> set (db_jobs db) \<Longrightarrow> job_state_ok j"
    and links: "links_ok (job_statuses db) (attempt_refs db) db"
    unfolding worker_inv_def by auto
  note ok = queue_okD [OF q]
  have "distinct (map at_attemptId (db_attempts db))"
    "distinct (map (\<lambda>a. (at_jobId a, at_attemptNumber a)) (db_attempts db))"
    using ok(2,3) by (simp_all add: attempt_keys_def comp_def)
  moreover have "int (length (filter (\<lambda>a. at_jobId a = j_jobId j) (db_attempts db))) = j_attemptCount j
      \<and> j_attemptCount j \<le> j_maxAttempts j" if "j \<in> set (db_jobs db)" for j
  proof -
    have k: "(j_jobId j, j_attemptCount j, j_maxAttempts j) \<in> set (job_keys db)"
      using that by (simp add: job_keys_def)
    show ?thesis using ok(6,7) [OF k] by (simp add: attempt_keys_def filter_map comp_def)
  qed
  moreover have "at_jobId a \<in> j_jobId ` set (db_jobs db)" if "a \<in> set (db_attempts db)" for a
  proof -
    have "(at_attemptId a, at_jobId a, at_attemptNumber a) \<in> set (attempt_keys db)"
      using that by (simp add: attempt_keys_def)
    from ok(5) [OF this] show ?thesis by (auto simp: job_keys_def)
  qed
  moreover have "j_jobId j \<in> dl_jobId ` set (db_deadLetters db)"
    if "j \<in> set (db_jobs db)" "j_status j = St_dead_lettered" for j
    using links that unfolding links_ok_def job_statuses_def by (metis (mono_tags, lifting) imageI)
  ultimately show ?thesis
    using jobs_distinct [OF inv] states links unfolding job_state_ok_def links_ok_def by blast
qed

theorem queue_invariant_witness:
  "\<exists>j \<in> set (db_jobs sample_running). j_status j = St_running \<and> j_lockedBy j \<noteq> None \<and> j_attemptCount j = 1
     \<and> length (filter (\<lambda>a. at_jobId a = j_jobId j) (db_attempts sample_running)) = 1"
proof -
  have j: "cl_job sample_claimed \<in> set (db_jobs sample_running)" by (simp add: sample_running_def)
  with queue_invariant [OF sample_reachable(2)]
  have "int (length (filter (\<lambda>a. at_jobId a = j_jobId (cl_job sample_claimed)) (db_attempts sample_running)))
      = j_attemptCount (cl_job sample_claimed)
    \<and> (j_status (cl_job sample_claimed) = St_running \<longleftrightarrow> j_lockedBy (cl_job sample_claimed) \<noteq> None)" by blast
  with j show ?thesis by (intro bexI [OF _ j]) (simp add: sample_claimed_def claimed_row_def)
qed

text \<open>A claim takes a job of the kind that is queued or scheduled for retry, is due, is not locked
beyond now and has attempts left, and of these the first by next run time, creation time and id; it
answers nothing only when there is no such job, and then changes nothing. The claimed job is running,
locked for the lease and has one attempt more.\<close>

theorem claim_takes_first_due:
  assumes "worker_reachable lc sha md5 db" "claim kind w now lease db = (res, db')"
  shows "case res of
     None \<Rightarrow> db' = db \<and> (\<forall>j \<in> set (db_jobs db). \<not> claimable kind now j)
   | Some c \<Rightarrow> \<exists>j \<in> set (db_jobs db). claimable kind now j
       \<and> (\<forall>k \<in> set (db_jobs db). claimable kind now k \<longrightarrow> 
           (j_nextRunAt j, j_createdAt j, j_jobId j) \<le> (j_nextRunAt k, j_createdAt k, j_jobId k))
       \<and> cl_job c = claimed_row w now (now + lease * 1000) j
       \<and> find_job db' (j_jobId j) = Some (cl_job c) \<and> j_status (cl_job c) = St_running
       \<and> j_attemptCount (cl_job c) = j_attemptCount j + 1"
proof (cases res)
  case None
  with assms(2) have "selected_job kind now db = None" by (auto simp: claim_def Let_def split: option.splits)
  with None assms(2) show ?thesis by (auto simp: claim_def Let_def selected_job_None)
next
  case (Some c)
  from worker_reachable_inv [OF assms(1)] have inv: "worker_inv db" .
  obtain j where j: "selected_job kind now db = Some j" "claimable kind now j"
    "cl_job c = claimed_row w now (now + lease * 1000) j"
    by (rule claim_Some [OF inv assms(2) [unfolded Some]])
  have "j_jobId (cl_job c) = j_jobId j" by (simp add: j(3))
  with claim_contract [OF inv assms(2) [unfolded Some]]
  have "find_job db' (j_jobId j) = Some (cl_job c)" "j_status (cl_job c) = St_running" by simp_all
  moreover have "j \<in> set (db_jobs db)" using selected_job_in [OF j(1)] by simp
  moreover have "j_attemptCount (cl_job c) = j_attemptCount j + 1" by (simp add: j(3) claimed_row_def)
  ultimately show ?thesis
    using j(2,3) selected_job_least [OF j(1), unfolded claim_order_def] by (simp only: Some option.case) blast
qed

theorem claim_takes_first_due_witness:
  "\<exists>c db'. claim Kind_projection ''w1'' 2000 60 sample_queue = (Some c, db')
     \<and> (\<exists>j \<in> set (db_jobs sample_queue). claimable Kind_projection 2000 j
          \<and> find_job db' (j_jobId j) = Some (cl_job c))"
  using claim_takes_first_due [OF sample_reachable(1) sample_claim] sample_claim by auto

text \<open>A job that is being worked on, or is finished, is never handed out: whatever the worker and
the time, what a claim returns was queued or scheduled for retry, and after a claim no other claim
returns the same job until it is scheduled again.\<close>

theorem claim_exclusive:
  assumes "worker_reachable lc sha md5 db" "claim kind w now lease db = (Some c, db1)"
    "claim kind2 w2 now2 lease2 db1 = (Some c2, db2)"
  shows "j_jobId (cl_job c2) \<noteq> j_jobId (cl_job c)"
proof
  assume same: "j_jobId (cl_job c2) = j_jobId (cl_job c)"
  have r1: "worker_reachable lc sha md5 db1" by (rule reach_step [OF assms(1) step_claim [OF assms(2)]])
  have inv: "worker_inv db" "worker_inv db1" using worker_reachable_inv assms(1) r1 by blast+
  obtain j where j: "find_job db1 (j_jobId j) = Some j" "claimable kind2 now2 j"
    "cl_job c2 = claimed_row w2 now2 (now2 + lease2 * 1000) j"
    by (rule claim_Some [OF inv(2) assms(3)])
  from claim_contract [OF inv(1) assms(2)] have
    "find_job db1 (j_jobId (cl_job c)) = Some (cl_job c)" "j_status (cl_job c) = St_running" by simp_all
  moreover have "j_jobId j = j_jobId (cl_job c)" using same unfolding j(3) by simp
  ultimately have "j = cl_job c" using j(1) by (metis option.inject)
  with j(2) \<open>j_status (cl_job c) = St_running\<close> show False by (simp add: claimable_def)
qed

text \<open>Two jobs, and a worker that takes one after the other.\<close>

definition second_input :: EnqueueWorkerJobInput where
  "second_input = sample_input\<lparr>eq_idempotencyIdentity := ''day-2'', eq_now := 1500\<rparr>"

definition second_job :: WorkerJob where
  "second_job = enqueued_row (stableWorkerJobId default (\<lambda>s. s) second_input) second_input"

definition two_jobs :: worker_db where
  "two_jobs = sample_queue\<lparr>db_jobs := [sample_job, second_job]\<rparr>"

lemma second_job_sel [simp]:
  "j_workerKind second_job = Kind_projection" "j_status second_job = St_queued" "j_nextRunAt second_job = 1500"
  "j_lockedUntil second_job = None" "j_attemptCount second_job = 0" "j_maxAttempts second_job = 2"
  by (simp_all add: second_job_def enqueued_row_def second_input_def sample_input_def)

lemma sample_ids_differ: "j_jobId second_job \<noteq> j_jobId sample_job"
  unfolding second_job_def sample_job_def by code_simp

lemma second_enqueue:
  "enqueue default (\<lambda>s. s) second_input sample_queue = (Inr (second_job, False), two_jobs)"
proof -
  have "idempotency_index second_job \<noteq> idempotency_index sample_job" unfolding second_job_def sample_job_def by code_simp
  moreover have "j_jobId second_job = stableWorkerJobId default (\<lambda>s. s) second_input"
    by (simp add: second_job_def enqueued_row_def)
  ultimately show ?thesis
    using sample_ids_differ second_job_sel(6)
    by (simp add: enqueue_def Let_def find_job_def sample_queue_def worker_db_empty_def two_jobs_def flip: second_job_def)
qed

lemma two_jobs_reachable: "worker_reachable default (\<lambda>s. s) (\<lambda>s. s) two_jobs"
  by (rule reach_step [OF sample_reachable(1) step_enqueue [OF second_enqueue]])

lemma two_claims:
  "\<exists>c db1 c2 db2. claim Kind_projection ''w1'' 2000 60 two_jobs = (Some c, db1)
     \<and> claim Kind_projection ''w2'' 2000 60 db1 = (Some c2, db2)"
proof -
  have "selected_job Kind_projection 2000 two_jobs = Some sample_job"
    by (simp add: selected_job_def two_jobs_def sample_queue_def claimable_def claim_order_def)
  then obtain c db1 where c: "claim Kind_projection ''w1'' 2000 60 two_jobs = (Some c, db1)"
    "db_jobs db1 = [claimed_row ''w1'' 2000 62000 sample_job, second_job]"
    using sample_ids_differ
    by (simp add: claim_def Let_def two_jobs_def sample_queue_def update_where_def)
  then have "selected_job Kind_projection 2000 db1 = Some second_job"
    by (simp add: selected_job_def claimable_def claimed_row_def)
  then show ?thesis using c(1) by (simp add: claim_def Let_def)
qed

theorem claim_exclusive_witness:
  "\<exists>c db1 c2 db2. claim Kind_projection ''w1'' 2000 60 two_jobs = (Some c, db1)
     \<and> claim Kind_projection ''w2'' 2000 60 db1 = (Some c2, db2) \<and> j_jobId (cl_job c2) \<noteq> j_jobId (cl_job c)"
proof -
  obtain c db1 c2 db2 where cs: "claim Kind_projection ''w1'' 2000 60 two_jobs = (Some c, db1)"
    "claim Kind_projection ''w2'' 2000 60 db1 = (Some c2, db2)" using two_claims by blast
  from claim_exclusive [OF two_jobs_reachable this] cs show ?thesis by blast
qed

text \<open>Enqueueing is idempotent in the identity of a job: a second request with the same kind, scopes
and idempotency identity, whatever its watermark, correlation id and time, is answered with the job
of the first, marked as a duplicate, and changes nothing; and no request changes a stored job.\<close>

theorem enqueue_idempotent:
  assumes "enqueue lc sha inp db = (Inr (j, dup), db1)"
    "job_identity_value again = job_identity_value inp" "0 < or_else (eq_maxAttempts again) 3"
  shows "enqueue lc sha again db1 = (Inr (j, True), db1) \<and> (dup \<longrightarrow> db1 = db)
    \<and> (\<forall>k old. find_job db k = Some old \<longrightarrow> find_job db1 k = Some old)"
proof -
  let ?id = "stableWorkerJobId lc sha inp"
  have id: "stableWorkerJobId lc sha again = ?id" by (simp add: stableWorkerJobId_def assms(2))
  have found: "find_job db1 ?id = Some j \<and> (dup \<longrightarrow> db1 = db)
      \<and> (\<forall>k old. find_job db k = Some old \<longrightarrow> find_job db1 k = Some old)"
  proof (cases "find_job db ?id")
    case (Some existing)
    then show ?thesis using assms(1) by (auto simp: enqueue_def Let_def split: if_splits)
  next
    case None
    with assms(1) have new: "j = enqueued_row ?id inp" "db1 = db\<lparr>db_jobs := db_jobs db @ [j]\<rparr>" "\<not> dup"
      by (auto simp: enqueue_def Let_def split: if_splits)
    have "j_jobId j = ?id" by (simp add: new(1) enqueued_row_def)
    with None show ?thesis
      using new(3) by (auto simp: new(2) find_job_def find_append split: option.splits)
  qed
  have "0 < j_maxAttempts (enqueued_row ?id again)" using assms(3) by (simp add: enqueued_row_def)
  with found show ?thesis by (simp add: enqueue_def Let_def id)
qed

theorem enqueue_idempotent_witness:
  "enqueue default (\<lambda>s. s) (sample_input\<lparr>eq_now := 9000, eq_correlationId := ''other''\<rparr>) sample_queue
     = (Inr (sample_job, True), sample_queue)"
  using enqueue_idempotent [OF sample_enqueue, of "sample_input\<lparr>eq_now := 9000, eq_correlationId := ''other''\<rparr>"]
  by (simp add: job_identity_value_def sample_input_def)

text \<open>A retry is scheduled only while attempts remain: then the job waits unlocked for its next run
time with its count unchanged, and no other job and no checkpoint changes; at the maximum it is
refused and nothing changes at all.\<close>

theorem retry_within_budget:
  assumes "worker_reachable lc sha md5 db" "find_attempt db jid aid = Some a" "find_job db jid = Some j"
    "retry jid aid fc nextRun diag now db = (res, db')"
  shows "if j_attemptCount j < j_maxAttempts j
    then res = Inr (retried_row fc nextRun diag now j) \<and> find_job db' jid = Some (retried_row fc nextRun diag now j)
      \<and> only_job_changed (find_job db) (find_job db') jid \<and> db_checkpoints db' = db_checkpoints db
    else (\<exists>err. res = Inl err) \<and> db' = db"
proof (cases "j_attemptCount j < j_maxAttempts j")
  case True
  obtain db2 where "retry jid aid fc nextRun diag now db = (Inr (retried_row fc nextRun diag now j), db2)"
    "find_job db2 jid = Some (retried_row fc nextRun diag now j)"
    "only_job_changed (find_job db) (find_job db2) jid" "db_checkpoints db2 = db_checkpoints db"
    by (rule retry_contract [OF worker_reachable_inv [OF assms(1)] find_attempt_ref [OF assms(2)] assms(3) True])
  with True assms(4) show ?thesis by simp
next
  case False
  with assms(2-4) show ?thesis by (auto simp: retry_def Let_def)
qed

lemma sample_running_found:
  "find_job sample_running (j_jobId sample_job) = Some (cl_job sample_claimed)"
  "find_attempt sample_running (j_jobId sample_job) 1 = Some (cl_attempt sample_claimed)"
  by (simp_all add: find_job_def find_attempt_def is_attempt_def sample_running_def sample_claimed_def
      claimed_row_def started_attempt_def)

theorem retry_within_budget_witness:
  "\<exists>j db'. retry (j_jobId sample_job) 1 Fail_transient_runtime 5000 [] 2500 sample_running = (Inr j, db')
     \<and> j_status j = St_retry_scheduled \<and> find_job db' (j_jobId sample_job) = Some j"
proof -
  obtain res db' where run:
    "retry (j_jobId sample_job) 1 Fail_transient_runtime 5000 [] 2500 sample_running = (res, db')" by fastforce
  from retry_within_budget [OF sample_reachable(2) sample_running_found(2,1) run] run show ?thesis
    by (simp add: sample_claimed_def claimed_row_def retried_row_def)
qed

definition same_scope :: "WorkerJob \<Rightarrow> WorkerFreshness \<Rightarrow> bool" where
  "same_scope j c \<longleftrightarrow> fr_workerKind c = j_workerKind j \<and> fr_merchantId c = j_merchantId j
     \<and> fr_storeId c = j_storeId j \<and> fr_source c = j_source j
     \<and> fr_producerService c = j_producerService j \<and> fr_producerEnvironment c = j_producerEnvironment j"

lemma find_recommitted:
  assumes "\<forall>c \<in> set rows. fr_checkpointId c = fr_checkpointId row \<longleftrightarrow> P c"
    "\<And>old. P old \<Longrightarrow> P (recommitted row old)"
  shows "find P (update_where (\<lambda>c. fr_checkpointId c = fr_checkpointId row) (recommitted row) rows)
    = map_option (recommitted row) (find P rows)"
  using assms by (induction rows) (auto simp: update_where_def)

lemma upsert_checkpoint_found:
  assumes "\<forall>c \<in> set rows. fr_checkpointId c = fr_checkpointId row \<longleftrightarrow> P c" "P row"
    "\<And>old. P old \<Longrightarrow> P (recommitted row old)" "upsert_checkpoint row rows = (r, rows')"
  shows "map_option fr_committedWatermark (find P rows') = Some (fr_committedWatermark row)"
proof -
  have same: "find (\<lambda>c. fr_checkpointId c = fr_checkpointId row) rows = find P rows"
    by (rule find_cong) (use assms(1) in auto)
  show ?thesis
  proof (cases "find P rows")
    case None
    with assms(2,4) show ?thesis by (simp add: upsert_checkpoint_def same) (auto simp: find_append)
  next
    case (Some old)
    then have "rows' = update_where (\<lambda>c. fr_checkpointId c = fr_checkpointId row) (recommitted row) rows"
      using assms(4) by (simp add: upsert_checkpoint_def same)
    then show ?thesis using Some by (simp add: find_recommitted [OF assms(1,3)]) (simp add: recommitted_def)
  qed
qed

text \<open>C36. What was committed last is where the next run resumes: after a job is completed, the
freshness of its scope is the watermark it completed with, whatever the fallback, provided the hash
tells the scope of the job from those of the other stored checkpoints.\<close>

theorem complete_then_resume:
  assumes "worker_reachable lc sha md5 db" "find_job db jid = Some j"
    "complete md5 jid aid wm summ now db = (Inr fin, db')"
    "\<forall>c \<in> set (db_checkpoints db). fr_checkpointId c = checkpoint_id md5 j \<longleftrightarrow> same_scope j c"
    "column (ts_merchantId tenantScope) = j_merchantId j" "column (ts_storeId tenantScope) = j_storeId j"
    "ss_source sourceScope = j_source j" "column (ss_producerService sourceScope) = j_producerService j"
    "column (ss_producerEnvironment sourceScope) = j_producerEnvironment j"
  shows "readWorkerResumeWatermark (worker_ops md5) (j_workerKind j) tenantScope sourceScope fallback db' = wm
    \<and> j_status fin = St_succeeded \<and> find_job db' jid = Some fin"
proof -
  from worker_reachable_inv [OF assms(1)] have inv: "worker_inv db" .
  from assms(2,3) obtain a where a: "find_attempt db jid aid = Some a"
    by (auto simp: complete_def checkpoint_def Let_def split: option.splits)
  obtain j2 db2 where run: "complete md5 jid aid wm summ now db = (Inr j2, db2)"
    "find_job db2 jid = Some j2" "j_status j2 = St_succeeded"
    by (rule complete_contract [OF inv find_attempt_ref [OF a], of md5 wm summ now])
  let ?row = "checkpoint_row md5 j (at_attemptId a) wm summ now"
  obtain row rows where up: "upsert_checkpoint ?row (db_checkpoints db) = (row, rows)" by fastforce
  have rows: "db_checkpoints db' = rows"
    using assms(3) a up
    by (auto simp: complete_def checkpoint_def complete_statement_def Let_def assms(2) split: option.splits)
  have "map_option fr_committedWatermark (find (same_scope j) rows) = Some (fr_committedWatermark ?row)"
    by (rule upsert_checkpoint_found [OF _ _ _ up])
      (use assms(4) in \<open>auto simp: checkpoint_row_def same_scope_def recommitted_def\<close>)
  moreover have "readFreshness (j_workerKind j) tenantScope sourceScope db' = find (same_scope j) rows"
    unfolding readFreshness_def rows assms(5-9) same_scope_def ..
  moreover have "fr_committedWatermark ?row = wm" by (simp add: checkpoint_row_def)
  ultimately show ?thesis
    using run assms(3) by (auto simp: readWorkerResumeWatermark_def)
qed

theorem complete_then_resume_witness:
  "\<exists>fin db'. complete (\<lambda>s. s) (j_jobId sample_job) 1 [(''lastEventId'', JStr ''e9'')] [] 3000 sample_running = (Inr fin, db')
     \<and> readWorkerResumeWatermark (worker_ops (\<lambda>s. s)) Kind_projection (eq_tenantScope sample_input)
         (eq_sourceScope sample_input) [] db' = [(''lastEventId'', JStr ''e9'')]"
proof -
  obtain fin db' where run: "complete (\<lambda>s. s) (j_jobId sample_job) 1 [(''lastEventId'', JStr ''e9'')] [] 3000 sample_running
      = (Inr fin, db')"
    by (rule complete_contract [OF worker_reachable_inv [OF sample_reachable(2)]
        find_attempt_ref [OF sample_running_found(2)]])
  from complete_then_resume [OF sample_reachable(2) sample_running_found(1) run,
      of "eq_tenantScope sample_input" "eq_sourceScope sample_input" "[]"] run
  show ?thesis
    by (simp add: sample_claimed_def claimed_row_def sample_running_def sample_queue_def worker_db_empty_def
        sample_job_def enqueued_row_def sample_input_def)
qed

section \<open>Failures\<close>

text \<open>The delay before a retry is at least a second, at most the larger of the base delay and the
maximal delay, and never gets shorter as attempts accumulate.\<close>

theorem retry_backoff_bounded:
  "now + 1000 \<le> retryBackoffAt a now policy
   \<and> retryBackoffAt a now policy
      \<le> now + 1000 * max (max 1 (or_else (fp_retryBaseDelaySeconds policy) 30))
                         (or_else (fp_retryMaxDelaySeconds policy) 300)
   \<and> (j_attemptCount (cl_job a) \<le> j_attemptCount (cl_job b)
      \<longrightarrow> retryBackoffAt a now policy \<le> retryBackoffAt b now policy)"
  using backoff_bounds backoff_mono by blast

theorem retry_backoff_bounded_witness:
  "retryBackoffAt sample_claimed 0 no_policy \<le> retryBackoffAt (sample_claimed\<lparr>cl_job := (cl_job sample_claimed)\<lparr>j_attemptCount := 9\<rparr>\<rparr>) 0 no_policy
   \<and> retryBackoffAt sample_claimed 0 no_policy = 30000
   \<and> retryBackoffAt (sample_claimed\<lparr>cl_job := (cl_job sample_claimed)\<lparr>j_attemptCount := 9\<rparr>\<rparr>) 0 no_policy = 300000"
  using retry_backoff_bounded [of 0 sample_claimed no_policy "sample_claimed\<lparr>cl_job := (cl_job sample_claimed)\<lparr>j_attemptCount := 9\<rparr>\<rparr>"]
  by (simp add: retryBackoffAt_def Let_def no_policy_def sample_claimed_def claimed_row_def)

text \<open>A diagnostic that is stored has no value under a key that names a secret or personal data, at
any depth, no text longer than 240 characters, no array longer than 10, and nests at most five deep;
so has the detail of every failure decision, whose message is bounded too.\<close>

theorem diagnostics_redacted:
  "redacted (sanitizeDiagnostic v 0) \<and> json_depth (sanitizeDiagnostic v 0) \<le> 5
   \<and> get_prop (dc_safeDiagnostic (classifyWorkerFailure claimed (WorkerExecutionError msg fc rc r diag) now policy)) ''detail''
      = Some (sanitizeDiagnostic (JObj diag) 0)
   \<and> (\<exists>text. get_prop (dc_safeDiagnostic (classifyWorkerFailure claimed err now policy)) ''errorMessage'' = Some (JStr text)
        \<and> length text \<le> 240)"
  using sanitize_redacted sanitize_depth [of 0 v] length_safeText
  by (simp add: classifyWorkerFailure_def Let_def buildSafeDiagnostic_def get_prop_def)

section \<open>The runner\<close>


definition sample_run :: "(worker_exn + nat built_output) \<Rightarrow> (worker_db, nat list, nat) RunClaimedWorkerJobInput" where
  "sample_run built = \<lparr>ri_workerKind = Kind_projection, ri_jobRepository = worker_ops (\<lambda>s. s), ri_workerId = ''w1'',
     ri_leaseSeconds = None, ri_now = 2000, ri_buildOutput = (\<lambda>c. built),
     ri_writeOutput = (\<lambda>x out. (Inr (), out @ [x])), ri_failurePolicy = Some no_policy,
     ri_environment = Run_test\<rparr>"

definition sample_run_start :: "(worker_db, nat list) run_state" where
  "sample_run_start = \<lparr>rn_repo = sample_queue, rn_output = [], rn_obs = \<lparr>wo_logs = None, wo_metrics = None\<rparr>\<rparr>"

definition sample_worker_clock :: worker_clock where
  "sample_worker_clock = \<lparr>wc_now = ''t0'', wc_started = 0, wc_ended = 5\<rparr>"

lemma sample_failing_run:
  "\<exists>c d j st'. runClaimedWorkerJob (sample_run (Inl (OtherError ''Error'' ''boom''))) sample_worker_clock sample_run_start
     = (Inr (RunFailed Kind_projection c d j), st')"
proof -
  let ?run = "runClaimedWorkerJob (sample_run (Inl (OtherError ''Error'' ''boom''))) sample_worker_clock sample_run_start"
  have "(case fst ?run of Inr (RunFailed Kind_projection c d j) \<Rightarrow> True | _ \<Rightarrow> False)" by code_simp
  then show ?thesis
    by (cases ?run) (auto split: sum.splits BoundedWorkerRunResult.splits WorkerKind.splits)
qed


section \<open>Where the queue does less than its callers may expect\<close>

text \<open>A running job is never handed out again, however long its lease has expired: a claim looks at
queued and scheduled jobs only, so when every job of a kind is running or finished no claim answers.
The job of a worker that died stays running for good.\<close>

theorem expired_lease_not_reclaimed:
  assumes "\<forall>j \<in> set (db_jobs db). j_workerKind j = kind \<longrightarrow> j_status j \<notin> {St_queued, St_retry_scheduled}"
  shows "claim kind w now lease db = (None, db)"
proof -
  have "selected_job kind now db = None" using assms by (auto simp: selected_job_None claimable_def)
  then show ?thesis by (simp add: claim_def Let_def)
qed

theorem expired_lease_not_reclaimed_witness:
  "j_lockedUntil (cl_job sample_claimed) = Some 62000
   \<and> claim Kind_projection ''w2'' 999999999 60 sample_running = (None, sample_running)"
proof
  show "j_lockedUntil (cl_job sample_claimed) = Some 62000" by (simp add: sample_claimed_def claimed_row_def)
  show "claim Kind_projection ''w2'' 999999999 60 sample_running = (None, sample_running)"
    by (rule expired_lease_not_reclaimed) (simp add: sample_running_def sample_claimed_def claimed_row_def)
qed

text \<open>The job id covers the brand, the unique index does not: a request that differs from a stored
job in its id only, and agrees with it in the columns of the index, is not answered as a duplicate but
fails with a unique violation.\<close>

theorem enqueue_other_brand_fails:
  assumes "old \<in> set (db_jobs db)" "find_job db (stableWorkerJobId lc sha inp) = None"
    "idempotency_index old = idempotency_index (enqueued_row (stableWorkerJobId lc sha inp) inp)"
    "0 < or_else (eq_maxAttempts inp) 3"
  shows "enqueue lc sha inp db = (Inl SqlUniqueViolation, db)"
proof -
  have "0 < j_maxAttempts (enqueued_row (stableWorkerJobId lc sha inp) inp)"
    using assms(4) by (simp add: enqueued_row_def)
  with assms(1-3) show ?thesis by (auto simp: enqueue_def Let_def) (metis imageI)
qed

definition other_brand :: EnqueueWorkerJobInput where
  "other_brand = sample_input\<lparr>eq_tenantScope := (eq_tenantScope sample_input)\<lparr>ts_brandId := Text ''b1''\<rparr>\<rparr>"

theorem enqueue_other_brand_fails_witness:
  "enqueue default (\<lambda>s. s) other_brand sample_queue = (Inl SqlUniqueViolation, sample_queue)"
proof (rule enqueue_other_brand_fails)
  show "sample_job \<in> set (db_jobs sample_queue)" by (simp add: sample_queue_def)
  have "stableWorkerJobId default (\<lambda>s. s) other_brand \<noteq> j_jobId sample_job" unfolding sample_job_def by code_simp
  then show "find_job sample_queue (stableWorkerJobId default (\<lambda>s. s) other_brand) = None"
    by (simp add: find_job_def sample_queue_def)
  show "idempotency_index sample_job
      = idempotency_index (enqueued_row (stableWorkerJobId default (\<lambda>s. s) other_brand) other_brand)"
    by (simp add: sample_job_def idempotency_index_def enqueued_row_def other_brand_def sample_input_def)
  show "0 < or_else (eq_maxAttempts other_brand) 3" by (simp add: other_brand_def sample_input_def)
qed

text \<open>The id of a checkpoint joins the parts of its scope with an unescaped bar: whatever the hash,
two merchants whose ids and stores split differently at a bar share one checkpoint row, so each
resumes from what the other committed.\<close>

theorem checkpoint_ids_collide:
  "checkpoint_id md5 (j\<lparr>j_merchantId := Some (a @ ''|'' @ b), j_storeId := Some c\<rparr>)
   = checkpoint_id md5 (j\<lparr>j_merchantId := Some a, j_storeId := Some (b @ ''|'' @ c)\<rparr>)"
  by (simp add: checkpoint_id_def)

text \<open>No statement looks at the status of the job it finishes: a retry recorded by a late worker
puts a succeeded job back into the queue, and the next claim runs it again.\<close>

theorem finished_job_resurrected:
  "\<exists>db1 db2 j c db3.
     complete (\<lambda>s. s) (j_jobId sample_job) 1 [] [] 3000 sample_running = (Inr j, db1) \<and> j_status j = St_succeeded
     \<and> (\<exists>r. retry (j_jobId sample_job) 1 Fail_transient_runtime 4000 [] 3500 db1 = (Inr r, db2)
            \<and> j_status r = St_retry_scheduled)
     \<and> claim Kind_projection ''w2'' 5000 60 db2 = (Some c, db3) \<and> j_jobId (cl_job c) = j_jobId sample_job"
proof -
  let ?job = "claimed_row ''w1'' 2000 62000 sample_job"
  have sel: "find_job sample_running (j_jobId sample_job) = Some ?job"
    "find_attempt sample_running (j_jobId sample_job) 1 = Some (started_attempt 1 ''w1'' 2000 ?job)"
    using sample_running_found by (simp_all add: sample_claimed_def)
  obtain j db1 where c: "complete (\<lambda>s. s) (j_jobId sample_job) 1 [] [] 3000 sample_running = (Inr j, db1)"
    and j: "j = completed_row 3000 ?job" "db_jobs db1 = [completed_row 3000 ?job]"
    "find_attempt db1 (j_jobId sample_job) 1 \<noteq> None"
    using sel
    by (simp add: complete_def checkpoint_def complete_statement_def Let_def upsert_checkpoint_def
        sample_running_def sample_queue_def worker_db_empty_def update_attempt_def update_job_def update_where_def
        find_job_def find_attempt_def is_attempt_def sample_claimed_def completed_row_def claimed_row_def
        started_attempt_def)
  let ?row = "retried_row Fail_transient_runtime 4000 [] 3500 (completed_row 3000 ?job)"
  from j(3) obtain a where a: "find_attempt db1 (j_jobId sample_job) 1 = Some a" by blast
  have job1: "find_job db1 (j_jobId sample_job) = Some (completed_row 3000 ?job)"
    by (simp add: find_job_def j(2) completed_row_def claimed_row_def)
  have budget: "j_attemptCount (completed_row 3000 ?job) < j_maxAttempts (completed_row 3000 ?job)"
    by (simp add: completed_row_def claimed_row_def)
  obtain db2 where r: "retry (j_jobId sample_job) 1 Fail_transient_runtime 4000 [] 3500 db1 = (Inr ?row, db2)"
    and jobs2: "db_jobs db2 = [?row]"
    using job1 a budget
    by (auto simp: retry_def Let_def update_job_def update_where_def j(2) completed_row_def claimed_row_def)
  have "selected_job Kind_projection 5000 db2 = Some ?row"
    by (simp add: selected_job_def jobs2 claimable_def retried_row_def completed_row_def claimed_row_def)
  then obtain cl db3 where "claim Kind_projection ''w2'' 5000 60 db2 = (Some cl, db3)"
    "j_jobId (cl_job cl) = j_jobId sample_job"
    by (simp add: claim_def Let_def retried_row_def completed_row_def claimed_row_def)
  moreover have "j_status j = St_succeeded" "j_status ?row = St_retry_scheduled"
    by (simp_all add: j(1) completed_row_def retried_row_def)
  ultimately show ?thesis using c r by blast
qed

end
