(* ===== verification/EvidenceProperties.thy ===== *)
theory EvidenceProperties
  imports ReviewProperties ScheduledWorkers WorkerProperties
begin

text \<open>
  The properties of the evidence about an applied experiment, and of the workers that rebuild it, the
  projections, the snapshots and the benchmarks.
\<close>

section \<open>Effects\<close>

lemma roundMetric_diff: "roundMetric (roundMetric x - roundMetric y) = roundMetric x - roundMetric y"
proof -
  have "roundMetric x - roundMetric y = of_int (\<lfloor>x * 10000 + 1 / 2\<rfloor> - \<lfloor>y * 10000 + 1 / 2\<rfloor>) / 10000"
    by (simp add: roundMetric_def diff_divide_distrib)
  moreover have "roundMetric (of_int k / 10000) = of_int k / 10000" for k
    by (simp add: roundMetric_def) linarith
  ultimately show ?thesis by metis
qed

lemma snapshot_origin:
  assumes "m \<in> set (cs_metricSnapshots (rebuildIndependentCafeSnapshots lc inp))"
  obtains i where "m = buildMetricSnapshot lc i inp"
  using assms by (auto simp: rebuildIndependentCafeSnapshots_def Let_def)

lemma effect_sel:
  assumes "reviewActionEffect lc aid p b a k = Inr e"
  shows "assertMetricPair p (me_primaryMetricId (ep_measurement p)) b a = Inr ()" "plan_shape p"
    "ae_actionEffectId e = aid" "ae_experimentPlanId e = ep_experimentPlanId p" "ae_brandId e = ep_brandId p"
    "ae_storeId e = ep_storeId p" "ae_metricId e = me_primaryMetricId (ep_measurement p)"
    "ae_deltaValue e = delta_value (sampleStatusFor b a k) b a" "ae_sampleStatus e = sampleStatusFor b a k"
    "ae_confidenceLabel e = confidenceLabelFor (sampleStatusFor b a k)"
    "ae_outcome e = outcomeFor (delta_value (sampleStatusFor b a k) b a)
       (directionFor (md_guardrailRelation (ms_definition b))) (sampleStatusFor b a k)"
  using assms by (auto simp: reviewActionEffect_def and_then_Inr_iff Let_def parse_plan_def)

lemma assertMetricPair_Inr_iff:
  "assertMetricPair p m b a = Inr u \<longleftrightarrow> ms_brandId b = ep_brandId p \<and> ms_brandId a = ep_brandId p
     \<and> ms_storeId b = ep_storeId p \<and> ms_storeId a = ep_storeId p
     \<and> md_metricId (ms_definition b) = m \<and> md_metricId (ms_definition a) = m"
  by (auto simp: assertMetricPair_def)

lemma guardrail_relation_of: "md_guardrailRelation (metricDefinition m) = Rel_negative_guardrail \<longleftrightarrow> m = Metric_refund_rate"
  by (cases m) simp_all

text \<open>The effect of an experiment on rebuilt snapshots is exact: it compares two snapshots of the plan's
own store and primary metric; there is no outcome exactly when one of them counted nothing; otherwise the
difference is that of the two values, and the outcome is improved when the metric strictly rose (for the
refund rate: fell), degraded when it strictly fell (rose), and unchanged when it is the same. The
confidence is medium exactly when both snapshots counted at least ten.\<close>

theorem action_effect_exact:
  assumes "reviewActionEffect lc aid p b a None = Inr e"
    and "b \<in> set (cs_metricSnapshots (rebuildIndependentCafeSnapshots lc inp))"
    and "a \<in> set (cs_metricSnapshots (rebuildIndependentCafeSnapshots lc inp'))"
  shows "ms_brandId b = ep_brandId p \<and> ms_brandId a = ep_brandId p \<and> ms_storeId b = ep_storeId p \<and> ms_storeId a = ep_storeId p
    \<and> md_metricId (ms_definition b) = ae_metricId e \<and> md_metricId (ms_definition a) = ae_metricId e
    \<and> (case (ms_value b, ms_value a) of
         (Some vb, Some va) \<Rightarrow> ae_deltaValue e = Some (va - vb)
           \<and> ae_outcome e = (if va = vb then Effect_unchanged
               else if (if ae_metricId e = Metric_refund_rate then va < vb else vb < va) then Effect_improved
               else Effect_degraded)
           \<and> (ae_confidenceLabel e = Confidence_medium \<longleftrightarrow> 10 \<le> ms_denominatorValue b \<and> 10 \<le> ms_denominatorValue a)
       | _ \<Rightarrow> ae_deltaValue e = None \<and> ae_outcome e = Effect_needs_more_data
           \<and> ae_confidenceLabel e = Confidence_needs_more_data)"
proof -
  from snapshot_origin [OF assms(2)] obtain i where b: "b = buildMetricSnapshot lc i inp" by metis
  from snapshot_origin [OF assms(3)] obtain j where a: "a = buildMetricSnapshot lc j inp'" by metis
  note sel = effect_sel [OF assms(1)]
  from sel(1) have pair: "ms_brandId b = ep_brandId p" "ms_brandId a = ep_brandId p" "ms_storeId b = ep_storeId p"
    "ms_storeId a = ep_storeId p" "i = ae_metricId e" "j = ae_metricId e"
    by (auto simp: assertMetricPair_Inr_iff a b sel(7) simp del: buildMetricSnapshot.simps)
  have dir: "directionFor (md_guardrailRelation (ms_definition b)) =
      (if ae_metricId e = Metric_refund_rate then Lower_is_better else Higher_is_better)"
    by (simp add: b directionFor_def guardrail_relation_of pair(5) del: buildMetricSnapshot.simps)
  have val: "(ms_value b = None \<longleftrightarrow> ms_denominatorValue b = 0)" "(ms_value a = None \<longleftrightarrow> ms_denominatorValue a = 0)"
    unfolding a b built_snapshot_value by simp_all
  have defs: "md_metricId (ms_definition b) = ae_metricId e" "md_metricId (ms_definition a) = ae_metricId e"
    using pair(5,6) by (simp_all add: a b del: buildMetricSnapshot.simps)
  have main: "case (ms_value b, ms_value a) of
         (Some vb, Some va) \<Rightarrow> ae_deltaValue e = Some (va - vb)
           \<and> ae_outcome e = (if va = vb then Effect_unchanged
               else if (if ae_metricId e = Metric_refund_rate then va < vb else vb < va) then Effect_improved
               else Effect_degraded)
           \<and> (ae_confidenceLabel e = Confidence_medium \<longleftrightarrow> 10 \<le> ms_denominatorValue b \<and> 10 \<le> ms_denominatorValue a)
       | _ \<Rightarrow> ae_deltaValue e = None \<and> ae_outcome e = Effect_needs_more_data
           \<and> ae_confidenceLabel e = Confidence_needs_more_data"
  proof (cases "ms_value b = None \<or> ms_value a = None")
    case True
    then have "sampleStatusFor b a None = Sample_needs_more_data" by (auto simp: sampleStatusFor_def)
    with True show ?thesis by (auto simp: sel(8-11) delta_value_def measurable_def outcomeFor_def split: option.splits)
  next
    case False
    then obtain vb va where v: "ms_value b = Some vb" "ms_value a = Some va" by auto
    then have "vb = roundMetric (ms_numeratorValue b / ms_denominatorValue b)"
      "va = roundMetric (ms_numeratorValue a / ms_denominatorValue a)"
      unfolding a b built_snapshot_value by (simp_all split: if_splits)
    then have diff: "roundMetric (va - vb) = va - vb" by (simp only: roundMetric_diff)
    have st: "sampleStatusFor b a None = (if 10 \<le> ms_denominatorValue b \<and> 10 \<le> ms_denominatorValue a
        then Sample_sufficient else Sample_weak)"
      using v val by (auto simp: sampleStatusFor_def)
    have dv: "delta_value (sampleStatusFor b a None) b a = Some (va - vb)"
      by (simp add: st delta_value_def measurable_def v diff)
    have ne: "sampleStatusFor b a None \<noteq> Sample_needs_more_data" by (simp add: st)
    have "ae_outcome e = (if va = vb then Effect_unchanged
        else if (if ae_metricId e = Metric_refund_rate then va < vb else vb < va) then Effect_improved else Effect_degraded)"
      unfolding sel(11) dv dir by (simp add: outcomeFor_def ne)
    moreover have "ae_confidenceLabel e = Confidence_medium \<longleftrightarrow> 10 \<le> ms_denominatorValue b \<and> 10 \<le> ms_denominatorValue a"
      by (simp add: sel(10) st)
    ultimately show ?thesis by (simp add: v sel(8) dv)
  qed
  show ?thesis using pair(1-4) defs main by blast
qed

section \<open>The evidence record\<close>

text \<open>What a guardrail shows when it was measured.\<close>

definition guardrail_holds ::
  "('s, 'o) EvidenceWorkerExecutionInput \<Rightarrow> ExperimentGuardrail \<Rightarrow> bool" where
  "guardrail_holds input g \<longleftrightarrow>
     (case (map_get (or_else (ew_beforeGuardrailMetricSnapshots input) []) (metric_text (gr_metricId g)),
            map_get (or_else (ew_afterGuardrailMetricSnapshots input) []) (metric_text (gr_metricId g))) of
        (Some b, Some a) \<Rightarrow>
          sampleStatusFor b a None \<noteq> Sample_needs_more_data
          \<and> \<not> (gr_relation g = Must_not_degrade
               \<and> outcomeFor (delta_value (sampleStatusFor b a None) b a)
                   (directionFor (md_guardrailRelation (ms_definition b))) (sampleStatusFor b a None) = Effect_degraded)
      | _ \<Rightarrow> False)"

lemma reviewed_guardrail_form:
  assumes "reviewGuardrailResult lc gid p g mb ma k = Inr r"
  shows "r = (case (mb, ma) of (Some b, Some a) \<Rightarrow> measured_guardrail_result lc gid p g b a k
    | _ \<Rightarrow> missing_guardrail_result lc gid p g)"
  using assms
  by (cases mb; cases ma) (auto simp: reviewGuardrailResult_def and_then_Inr_iff parse_plan_def parse_guardrail_result_def)

lemma guardrail_outcome_good_iff:
  "guardrail_outcome relation d dir st \<notin> {Guard_needs_more_data, Guard_degraded} \<longleftrightarrow>
     st \<noteq> Sample_needs_more_data \<and> \<not> (relation = Must_not_degrade \<and> outcomeFor d dir st = Effect_degraded)"
  by (cases d; cases relation) (auto simp: guardrail_outcome_def outcomeFor_def)

lemma guardrail_result_sel:
  "gd_metricId (measured_guardrail_result lc gid p g b a k) = gr_metricId g"
  "gd_experimentPlanId (measured_guardrail_result lc gid p g b a k) = ep_experimentPlanId p"
  "gd_outcome (measured_guardrail_result lc gid p g b a k) = guardrail_outcome (gr_relation g)
     (delta_value (sampleStatusFor b a k) b a) (directionFor (md_guardrailRelation (ms_definition b))) (sampleStatusFor b a k)"
  "gd_metricId (missing_guardrail_result lc gid p g) = gr_metricId g"
  "gd_experimentPlanId (missing_guardrail_result lc gid p g) = ep_experimentPlanId p"
  "gd_outcome (missing_guardrail_result lc gid p g) = Guard_needs_more_data"
  by (simp_all add: measured_guardrail_result_def missing_guardrail_result_def Let_def)

lemma guardrail_reviewed:
  assumes "review_guardrail lc input g = Inr r"
  shows "gd_metricId r = gr_metricId g" "gd_experimentPlanId r = ep_experimentPlanId (ew_experimentPlan input)"
    "gd_outcome r \<notin> {Guard_needs_more_data, Guard_degraded} \<longleftrightarrow> guardrail_holds input g"
proof -
  note form = reviewed_guardrail_form [OF assms [unfolded review_guardrail_def Let_def]]
  show "gd_metricId r = gr_metricId g" "gd_experimentPlanId r = ep_experimentPlanId (ew_experimentPlan input)"
    unfolding form by (simp_all add: guardrail_result_sel split: option.split)
  show "gd_outcome r \<notin> {Guard_needs_more_data, Guard_degraded} \<longleftrightarrow> guardrail_holds input g"
    unfolding form guardrail_holds_def
    by (simp add: guardrail_result_sel guardrail_outcome_good_iff [simplified] split: option.split)
qed

lemma verdict_clean_iff:
  "verdictFor e rs = Verdict_clean_success \<longleftrightarrow>
     ae_outcome e = Effect_improved \<and> (\<forall>r \<in> set rs. gd_outcome r \<notin> {Guard_needs_more_data, Guard_degraded})"
  by (auto simp: verdictFor_def list_ex_iff)

lemma evidence_outputE:
  assumes "evidence_output lc input = Inr out"
  obtains aid where
    "reviewActionEffect lc aid (ew_experimentPlan input) (ew_beforeMetricSnapshot input) (ew_afterMetricSnapshot input) None
       = Inr (eo_actionEffect out)"
    "list_all2 (\<lambda>g r. review_guardrail lc input g = Inr r) (ew_guardrails input) (eo_guardrailResults out)"
    "assembleInterventionTrajectory lc
         \<lparr>ti_interventionTrajectoryId = ''intervention_trajectory:'' @ ep_experimentPlanId (ew_experimentPlan input),
          ti_experimentPlan = ew_experimentPlan input, ti_acceptance = ew_acceptance input,
          ti_appliedLifecycleRecord = ew_appliedLifecycleRecord input, ti_actionEffect = eo_actionEffect out,
          ti_guardrailResults = eo_guardrailResults out\<rparr> = Inr (eo_trajectory out)"
    "buildEvidenceRecord lc
         \<lparr>ei_evidenceRecordId = ''evidence_record:'' @ ep_experimentPlanId (ew_experimentPlan input) @ '':''
            @ og_opportunityGapId (ew_opportunityGap input),
          ei_trajectory = eo_trajectory out, ei_opportunityGap = ew_opportunityGap input,
          ei_actionEffect = eo_actionEffect out, ei_guardrailResults = eo_guardrailResults out\<rparr>
       = Inr (eo_evidenceRecord out)"
  using assms by (auto simp: evidence_output_def Let_def and_then_Inr_iff map_throwing_Inr_iff)

lemma trajectory_sel:
  assumes "assembleInterventionTrajectory lc inp = Inr t"
  shows "tr_experimentPlanId t = ep_experimentPlanId (ti_experimentPlan inp)"
    "tr_overallVerdict t = verdictFor (ti_actionEffect inp) (ti_guardrailResults inp)"
    "tr_interpretation t = (if tr_overallVerdict t = Verdict_needs_more_data
       then Interp_missing_or_weak_sample else Interp_directional_before_after)"
    "set (tr_adoptionRefs t) = {db_decisionId (ti_acceptance inp), lr_lifecycleRecordId (ti_appliedLifecycleRecord inp)}"
    "db_experimentPlanId (ti_acceptance inp) = ep_experimentPlanId (ti_experimentPlan inp)"
    "lr_experimentPlanId (ti_appliedLifecycleRecord inp) = ep_experimentPlanId (ti_experimentPlan inp)"
    "lr_toState (ti_appliedLifecycleRecord inp) = Applied"
  using assms by (auto simp: assembleInterventionTrajectory_def trajectory_throws_def and_then_Inr_iff Let_def parse_plan_def)

lemma record_sel:
  assumes "buildEvidenceRecord lc inp = Inr r"
  shows "er_verdict r = tr_overallVerdict (ei_trajectory inp)" "er_interpretation r = tr_interpretation (ei_trajectory inp)"
    "er_llmGeneratedClaims r = []" "er_adoptionRefs r = tr_adoptionRefs (ei_trajectory inp)"
    "set (tr_adoptionRefs (ei_trajectory inp)) \<subseteq> set (er_evidenceRefs r)"
    "og_opportunityGapId (ei_opportunityGap inp) \<in> set (er_evidenceRefs r)"
    "er_experimentPlanId r = tr_experimentPlanId (ei_trajectory inp)"
    "og_brandId (ei_opportunityGap inp) = ae_brandId (ei_actionEffect inp)"
    "og_storeId (ei_opportunityGap inp) = ae_storeId (ei_actionEffect inp)"
  using assms
  by (auto simp: buildEvidenceRecord_def assertEvidenceRecordInputs_def and_then_Inr_iff Let_def)

text \<open>C14. Evidence exists only for an applied, accepted experiment of one store, and its verdict is exact:
the acceptance and the applied record are of the plan, the gap is of its store, the record carries both of
them and no generated claim; and it says clean success exactly when the effect improved and every
guardrail that was passed in was measured and, where it must not degrade, did not.\<close>

theorem evidence_verdict_exact:
  assumes "evidence_output lc input = Inr out"
  shows "lr_toState (ew_appliedLifecycleRecord input) = Applied
    \<and> db_experimentPlanId (ew_acceptance input) = ep_experimentPlanId (ew_experimentPlan input)
    \<and> lr_experimentPlanId (ew_appliedLifecycleRecord input) = ep_experimentPlanId (ew_experimentPlan input)
    \<and> og_brandId (ew_opportunityGap input) = ep_brandId (ew_experimentPlan input)
    \<and> og_storeId (ew_opportunityGap input) = ep_storeId (ew_experimentPlan input)
    \<and> er_experimentPlanId (eo_evidenceRecord out) = ep_experimentPlanId (ew_experimentPlan input)
    \<and> {db_decisionId (ew_acceptance input), lr_lifecycleRecordId (ew_appliedLifecycleRecord input),
         og_opportunityGapId (ew_opportunityGap input)} \<subseteq> set (er_evidenceRefs (eo_evidenceRecord out))
    \<and> er_llmGeneratedClaims (eo_evidenceRecord out) = []
    \<and> (er_verdict (eo_evidenceRecord out) = Verdict_clean_success \<longleftrightarrow>
         ae_outcome (eo_actionEffect out) = Effect_improved \<and> (\<forall>g \<in> set (ew_guardrails input). guardrail_holds input g))"
proof -
  from evidence_outputE [OF assms] obtain aid where
    effect: "reviewActionEffect lc aid (ew_experimentPlan input) (ew_beforeMetricSnapshot input) (ew_afterMetricSnapshot input) None
       = Inr (eo_actionEffect out)" and
    results: "list_all2 (\<lambda>g r. review_guardrail lc input g = Inr r) (ew_guardrails input) (eo_guardrailResults out)" and
    traj: "assembleInterventionTrajectory lc
         \<lparr>ti_interventionTrajectoryId = ''intervention_trajectory:'' @ ep_experimentPlanId (ew_experimentPlan input),
          ti_experimentPlan = ew_experimentPlan input, ti_acceptance = ew_acceptance input,
          ti_appliedLifecycleRecord = ew_appliedLifecycleRecord input, ti_actionEffect = eo_actionEffect out,
          ti_guardrailResults = eo_guardrailResults out\<rparr> = Inr (eo_trajectory out)" and
    rec: "buildEvidenceRecord lc
         \<lparr>ei_evidenceRecordId = ''evidence_record:'' @ ep_experimentPlanId (ew_experimentPlan input) @ '':''
            @ og_opportunityGapId (ew_opportunityGap input),
          ei_trajectory = eo_trajectory out, ei_opportunityGap = ew_opportunityGap input,
          ei_actionEffect = eo_actionEffect out, ei_guardrailResults = eo_guardrailResults out\<rparr>
       = Inr (eo_evidenceRecord out)" .
  have "(\<forall>r \<in> set rs. gd_outcome r \<notin> {Guard_needs_more_data, Guard_degraded}) \<longleftrightarrow> (\<forall>g \<in> set gs. guardrail_holds input g)"
    if "list_all2 (\<lambda>g r. review_guardrail lc input g = Inr r) gs rs" for gs rs
    using that by induction (simp_all add: guardrail_reviewed(3) [symmetric])
  from this [OF results] trajectory_sel [OF traj] record_sel [OF rec] effect_sel(5,6) [OF effect]
  show ?thesis by (simp add: verdict_clean_iff)
qed

section \<open>The workers\<close>

text \<open>A build that throws leaves the output store alone.\<close>

lemma failed_build_keeps_output:
  assumes "\<And>c. ri_buildOutput inp c = Inl err" "runClaimedWorkerJob inp clk st = (res, st')"
  shows "rn_output st' = rn_output st"
  using assms
  by (auto simp: runClaimedWorkerJob_def run_body_def Let_def split: option.splits prod.splits sum.splits)

lemma claimed_run_sel [simp]:
  "ri_workerKind (claimed_run k i b s) = k" "ri_jobRepository (claimed_run k i b s) = wi_jobRepository i"
  "ri_buildOutput (claimed_run k i b s) = b" "ri_writeOutput (claimed_run k i b s) = s"
  "ri_failurePolicy (claimed_run k i b s) = wi_failurePolicy i"
  by (simp_all add: claimed_run_def)


text \<open>The last of the sorted events was received last.\<close>

lemma sorted_last: "Sorting_Algorithms.sorted cmp xs \<Longrightarrow> x \<in> set xs \<Longrightarrow> compare cmp x (last xs) \<noteq> Greater"
proof (induction xs rule: sorted_induct)
  case (Cons y ys)
  show ?case
  proof (cases "ys = []")
    case True
    with Cons.prems show ?thesis by simp
  next
    case False
    with Cons show ?thesis by (cases "x = y") auto
  qed
qed simp

text \<open>A run of the projection worker never fails: when it finds a job it replaces the stored
projections by the rebuild of exactly the events and rows it was given, completes the job, and commits a
watermark with the number of events and the id and time of an event that no other was received after.\<close>

theorem projection_worker_run:
  assumes "worker_reachable clc sha md5 (rn_repo st)" "wi_jobRepository input = worker_ops md5"
    "wi_failurePolicy input = Some pol" "pw_outputStore input = latest_replaceAll"
    "runProjectionWorker lc toISOString input clk st = (res, st')"
  shows "case res of
     Inr (RunIdle k) \<Rightarrow> rn_repo st' = rn_repo st \<and> rn_output st' = rn_output st
   | Inr (RunCompleted k c built row j) \<Rightarrow>
       rn_output st' = Some (rebuildBusinessProjections lc \<lparr>in_rawEvents = pw_rawEvents input, in_rfmRows = pw_rfmRows input,
           in_rebuiltAt = Some (or_else (pw_rebuiltAt input) (toISOString (wi_now input)))\<rparr>)
       \<and> find_job (rn_repo st') (j_jobId (cl_job c)) = Some j \<and> j_status j = St_succeeded
       \<and> get_prop (fr_committedWatermark row) ''processedEventCount'' = Some (JNat (length (pw_rawEvents input)))
       \<and> (if pw_rawEvents input = [] then get_prop (fr_committedWatermark row) ''lastEventId'' = Some JNull
          else \<exists>e \<in> set (pw_rawEvents input).
             get_prop (fr_committedWatermark row) ''lastEventId'' = Some (JStr (re_eventId e))
             \<and> get_prop (fr_committedWatermark row) ''lastReceivedAt'' = Some (JStr (re_receivedAt e))
             \<and> (\<forall>other \<in> set (pw_rawEvents input). compare lc (re_receivedAt other) (re_receivedAt e) \<noteq> Greater))
   | _ \<Rightarrow> False"
proof -
  let ?inp = "claimed_run Kind_projection input (projection_build lc toISOString input) (pw_outputStore input)"
  have run: "runClaimedWorkerJob ?inp clk st = (res, st')" using assms(5) by (simp add: runProjectionWorker_def)
  have repo: "ri_jobRepository ?inp = worker_ops md5" "ri_failurePolicy ?inp = Some pol" using assms(2,3) by simp_all
  show ?thesis
    using worker_reachable_inv [OF assms(1)] run repo
  proof (cases rule: queue.run_cases)
    case (completed c built row j)
    let ?es = "sort_on lc re_receivedAt (sort_on lc re_eventId (pw_rawEvents input))"
    have es: "set ?es = set (pw_rawEvents input)" by simp
    then have empty: "?es = [] \<longleftrightarrow> pw_rawEvents input = []" by (metis set_empty)
    have last: "last ?es \<in> set (pw_rawEvents input)" if "pw_rawEvents input \<noteq> []"
      using last_in_set [of ?es] that empty es by metis
    have "compare (key re_receivedAt lc) other (last ?es) \<noteq> Greater" if "other \<in> set (pw_rawEvents input)" for other
      by (rule sorted_last) (use that in simp_all)
    then have latest: "compare lc (re_receivedAt other) (re_receivedAt (last ?es)) \<noteq> Greater"
      if "other \<in> set (pw_rawEvents input)" for other using that by simp
    from completed(4,9) have wm: "fr_committedWatermark row = projectionOutputWatermark lc toISOString
        (j_inputWatermark (cl_job c)) (pw_rawEvents input) (wi_now input)"
      by (auto simp: projection_build_def Let_def)
    have out: "rn_output st' = Some (bo_output built)" using completed(5) assms(4) by (simp add: latest_replaceAll_def)
    show ?thesis
      using completed(1,4,6,7) out empty last latest
      by (auto simp: wm projectionOutputWatermark_def Let_def get_with_fields projection_build_def intro!: bexI [of _ "last ?es"])
  next
    case (failed c err d j)
    then show ?thesis using assms(4) by (simp add: projection_build_def latest_replaceAll_def Let_def)
  qed simp
qed

section \<open>Concrete runs\<close>

definition plain_orders :: "rat \<Rightarrow> OrderProjection list" where
  "plain_orders amount = [(sample_order_row ''s1'' ''o1'')\<lparr>or_totalAmount := Some (Finite amount)\<rparr>]"

definition plain_snapshot :: "rat \<Rightarrow> MetricSnapshot" where
  "plain_snapshot amount = buildMetricSnapshot default Metric_avg_order_value (sample_snapshot_input (plain_orders amount))"

lemma plain_snapshot_rebuilt:
  "plain_snapshot amount \<in> set (cs_metricSnapshots (rebuildIndependentCafeSnapshots default (sample_snapshot_input (plain_orders amount))))"
  by (simp add: plain_snapshot_def rebuildIndependentCafeSnapshots_def Let_def INDEPENDENT_CAFE_METRIC_IDS_def
      del: buildMetricSnapshot.simps)

definition plain_acceptance :: MerchantReviewAcceptance where
  "plain_acceptance = \<lparr>db_contractVersion = merchant_review_v1, db_decisionId = ''dec1'', db_reviewId = ''rv1'',
     db_experimentPlanId = ''p1'', db_brandId = ''b1'', db_storeId = ''s1'', db_decidedAt = ''t3'', db_actor = plain_actor,
     db_evidenceRefs = [''ev1''], da_decision = Decided_accepted, da_eventName = Review_accepted, da_from = Drafted,
     da_to = Accepted, da_acceptanceNotes = None\<rparr>"

definition plain_applied :: ActionLifecycleRecord where
  "plain_applied = plain_record (plain_step Accepted Applied (Some Applied_recorded) (Some ''another decision''))"

definition kind_input :: "WorkerKind \<Rightarrow> EnqueueWorkerJobInput" where
  "kind_input kind = sample_input\<lparr>eq_workerKind := kind\<rparr>"

definition kind_queue :: "WorkerKind \<Rightarrow> worker_db" where
  "kind_queue kind = worker_db_empty\<lparr>db_jobs := [enqueued_row (stableWorkerJobId default (\<lambda>s. s) (kind_input kind)) (kind_input kind)]\<rparr>"

definition kind_start :: "WorkerKind \<Rightarrow> (worker_db, 'out option) run_state" where
  "kind_start kind = \<lparr>rn_repo = kind_queue kind, rn_output = None, rn_obs = \<lparr>wo_logs = None, wo_metrics = None\<rparr>\<rparr>"

lemma kind_reachable: "worker_reachable default (\<lambda>s. s) (\<lambda>s. s) (rn_repo (kind_start kind))"
proof -
  have "enqueue default (\<lambda>s. s) (kind_input kind) worker_db_empty
      = (Inr (enqueued_row (stableWorkerJobId default (\<lambda>s. s) (kind_input kind)) (kind_input kind), False), kind_queue kind)"
    by (simp add: enqueue_def Let_def find_job_def worker_db_empty_def kind_queue_def enqueued_row_def kind_input_def sample_input_def)
  then have "worker_reachable default (\<lambda>s. s) (\<lambda>s. s) (kind_queue kind)"
    by (rule reach_step [OF reach_empty step_enqueue])
  then show ?thesis by (simp add: kind_start_def)
qed

definition plain_evidence_input :: "ExperimentGuardrail list \<Rightarrow> (worker_db, EvidenceWorkerOutput option) EvidenceWorkerExecutionInput" where
  "plain_evidence_input guardrails = \<lparr>wi_jobRepository = worker_ops (\<lambda>s. s), wi_workerId = ''w1'', wi_now = 2000,
     wi_leaseSeconds = None, wi_failurePolicy = Some no_policy, wi_environment = Run_test,
     ew_experimentPlan = plain_plan, ew_acceptance = plain_acceptance, ew_appliedLifecycleRecord = plain_applied,
     ew_opportunityGap = plain_gap, ew_beforeMetricSnapshot = plain_snapshot 30, ew_afterMetricSnapshot = plain_snapshot 40,
     ew_guardrails = guardrails, ew_beforeGuardrailMetricSnapshots = None, ew_afterGuardrailMetricSnapshots = None,
     ew_outputStore = latest_replaceAll\<rparr>"

lemma plain_effect_reviewed:
  "\<exists>e. reviewActionEffect default ''a1'' plain_plan (plain_snapshot 30) (plain_snapshot 40) None = Inr e"
proof -
  have "(case reviewActionEffect default ''a1'' plain_plan (plain_snapshot 30) (plain_snapshot 40) None of Inr e \<Rightarrow> True | Inl e \<Rightarrow> False)"
    by code_simp
  then show ?thesis by (auto split: sum.splits)
qed

lemma plain_evidence_summary:
  "(case evidence_output default (plain_evidence_input []) of Inl e \<Rightarrow> None
    | Inr out \<Rightarrow> Some (er_verdict (eo_evidenceRecord out), er_interpretation (eo_evidenceRecord out),
        ae_interpretation (eo_actionEffect out))) = Some (Verdict_clean_success, Interp_directional_before_after, Interp_missing_or_weak_sample)"
  by code_simp

lemma plain_evidence_run:
  "(case fst (runEvidenceWorker default (\<lambda>n. ''t9'') (\<lambda>e. OtherError ''ZodError'' []) (plain_evidence_input [])
      sample_worker_clock (kind_start Kind_evidence)) of Inr (RunCompleted k c built row j) \<Rightarrow> True | _ \<Rightarrow> False)"
  by code_simp

theorem action_effect_exact_witness:
  "\<exists>e. reviewActionEffect default ''a1'' plain_plan (plain_snapshot 30) (plain_snapshot 40) None = Inr e
     \<and> ae_metricId e = Metric_avg_order_value"
proof -
  obtain e where e: "reviewActionEffect default ''a1'' plain_plan (plain_snapshot 30) (plain_snapshot 40) None = Inr e"
    using plain_effect_reviewed by blast
  have "md_metricId (ms_definition (plain_snapshot 30)) = Metric_avg_order_value"
    by (simp add: plain_snapshot_def del: buildMetricSnapshot.simps)
  with action_effect_exact [OF e plain_snapshot_rebuilt plain_snapshot_rebuilt] e show ?thesis by simp
qed

theorem evidence_verdict_exact_witness:
  "\<exists>out. evidence_output default (plain_evidence_input []) = Inr out
     \<and> er_llmGeneratedClaims (eo_evidenceRecord out) = [] \<and> ae_outcome (eo_actionEffect out) = Effect_improved"
proof -
  from plain_evidence_summary obtain out where out: "evidence_output default (plain_evidence_input []) = Inr out"
    "er_verdict (eo_evidenceRecord out) = Verdict_clean_success" by (auto split: sum.splits)
  from evidence_verdict_exact [OF out(1)] out show ?thesis by simp
qed


definition plain_projection_input :: "(worker_db, BusinessProjections option) ProjectionWorkerExecutionInput" where
  "plain_projection_input = \<lparr>wi_jobRepository = worker_ops (\<lambda>s. s), wi_workerId = ''w1'', wi_now = 2000,
     wi_leaseSeconds = None, wi_failurePolicy = Some no_policy, wi_environment = Run_test,
     pw_rawEvents = [rawEventRecord ''t0'' None sample_event], pw_rfmRows = None, pw_rebuiltAt = None,
     pw_outputStore = latest_replaceAll\<rparr>"

lemma plain_projection_run:
  "(case fst (runProjectionWorker default (\<lambda>n. ''t9'') plain_projection_input sample_worker_clock (kind_start Kind_projection))
    of Inr (RunCompleted k c built row j) \<Rightarrow> True | _ \<Rightarrow> False)"
  by code_simp

theorem projection_worker_run_witness:
  "\<exists>st' res. runProjectionWorker default (\<lambda>n. ''t9'') plain_projection_input sample_worker_clock (kind_start Kind_projection)
       = (res, st') \<and> rn_output st' \<noteq> None"
proof -
  obtain res st' where run: "runProjectionWorker default (\<lambda>n. ''t9'') plain_projection_input sample_worker_clock
      (kind_start Kind_projection) = (res, st')" by fastforce
  with plain_projection_run obtain k c built row j where res: "res = Inr (RunCompleted k c built row j)"
    by (auto split: sum.splits BoundedWorkerRunResult.splits)
  show ?thesis
    using projection_worker_run [OF kind_reachable _ _ _ run, of no_policy] run by (auto simp: res plain_projection_input_def)
qed

section \<open>Where the evidence says more than it knows\<close>

text \<open>The trajectory does not ask for the guardrails of the plan, nor for the decision the applied record
names, nor for the strength of the sample: an experiment whose plan has a guardrail, evaluated without any
guardrail result, applied under another decision than the acceptance passed in, on one order before and one
after, is recorded as a clean success with a directional interpretation, although its effect is marked as
missing or weak.\<close>

theorem weak_unguarded_success:
  "me_guardrails (ep_measurement plain_plan) \<noteq> []
   \<and> lr_acceptanceDecisionId plain_applied \<noteq> Some (db_decisionId plain_acceptance)
   \<and> (case evidence_output default (plain_evidence_input []) of Inl e \<Rightarrow> None
      | Inr out \<Rightarrow> Some (er_verdict (eo_evidenceRecord out), er_interpretation (eo_evidenceRecord out),
          ae_interpretation (eo_actionEffect out)))
     = Some (Verdict_clean_success, Interp_directional_before_after, Interp_missing_or_weak_sample)"
  unfolding plain_evidence_summary
  by (simp add: plain_plan_def plain_applied_def plain_record_def plain_step_def plain_acceptance_def
      ActionLifecycleInput.defs ActionLifecycleRecord.defs)

end
