(* ===== verification/JsonText.thy ===== *)
theory JsonText
  imports JsText
begin

text \<open>
  \<open>JSON.stringify\<close> of any JSON value, the bytes of its UTF-8 encoding, and the canonical form the
  prepared attempts hash and compare (\<open>sortForJson\<close>, \<open>stableStringify\<close>, \<open>byteLength\<close> of
  \<open>src/src/agent/prepared-attempt.ts\<close>). The text of a number that is not a small integer
  depends on the double format: it is the parameter \<open>nt\<close>. Also here: tests of a regular expression
  against a text and what a global replacement leaves behind.
\<close>

section \<open>Numbers and bytes\<close>

definition int_text :: "int \<Rightarrow> string" where
  "int_text i = (if i < 0 then ''-'' @ nat_text (nat (- i)) else nat_text (nat i))"

definition number_text :: "(rat \<Rightarrow> string) \<Rightarrow> js_number \<Rightarrow> string" where
  "number_text nt n =
     (case n of
        Finite q \<Rightarrow> (let (a, b) = quotient_of q
                     in if b = 1 \<and> \<bar>a\<bar> < 10 ^ 21 then int_text a else nt q)
      | _ \<Rightarrow> ''null'')"

text \<open>\<open>Buffer.byteLength(text, "utf8")\<close>: a code unit from 128 to 255 takes two bytes.\<close>

definition utf8_bytes :: "string \<Rightarrow> nat" where
  "utf8_bytes s = sum_list (map (\<lambda>c. if of_char c < (128 :: nat) then 1 else 2) s)"

lemma utf8_bytes_append [simp]: "utf8_bytes (s @ t) = utf8_bytes s + utf8_bytes t"
  by (simp add: utf8_bytes_def)

lemma utf8_bytes_Nil [simp]: "utf8_bytes [] = 0"
  by (simp add: utf8_bytes_def)

lemma utf8_bytes_ge_length: "length s \<le> utf8_bytes s"
  by (induction s) (auto simp: utf8_bytes_def)

section \<open>JSON.stringify\<close>

definition json_member :: "string \<times> string \<Rightarrow> string" where
  "json_member kt = json_quote (fst kt) @ '':'' @ snd kt"

fun json_text :: "(rat \<Rightarrow> string) \<Rightarrow> json \<Rightarrow> string" where
  "json_text nt JNull = ''null''"
| "json_text nt (JBool b) = (if b then ''true'' else ''false'')"
| "json_text nt (JNum n) = number_text nt n"
| "json_text nt (JStr s) = json_quote s"
| "json_text nt (JArr vs) = ''['' @ join '','' (map (json_text nt) vs) @ '']''"
| "json_text nt (JObj entries) =
     ''{'' @ join '','' (map json_member (map (\<lambda>(k, v). (k, json_text nt v)) entries)) @ ''}''"

section \<open>The canonical form\<close>

text \<open>
  \<open>Object.fromEntries\<close> keeps the order of its entries except that keys which are array indices come
  first, in ascending order.
\<close>

definition index_value :: "string \<Rightarrow> nat" where
  "index_value s = foldl (\<lambda>n c. 10 * n + (of_char c - 48)) 0 s"

definition index_key :: "string \<Rightarrow> bool" where
  "index_key s \<longleftrightarrow> s \<noteq> [] \<and> list_all js_digit s \<and> (s = ''0'' \<or> hd s \<noteq> CHR ''0'')
     \<and> index_value s < 4294967295"

definition from_entries :: "(string \<times> 'v) list \<Rightarrow> (string \<times> 'v) list" where
  "from_entries es = sort_on default (\<lambda>(k, v). index_value k) (filter (\<lambda>(k, v). index_key k) es)
     @ filter (\<lambda>(k, v). \<not> index_key k) es"

fun sortForJson :: "string comparator \<Rightarrow> json \<Rightarrow> json" where
  "sortForJson lc (JArr vs) = JArr (map (sortForJson lc) vs)"
| "sortForJson lc (JObj entries) =
     JObj (from_entries (sort_on lc fst (map (\<lambda>(k, v). (k, sortForJson lc v)) entries)))"
| "sortForJson lc v = v"

definition canonical_text :: "(rat \<Rightarrow> string) \<Rightarrow> string comparator \<Rightarrow> json \<Rightarrow> string" where
  "canonical_text nt lc v = json_text nt (sortForJson lc v)"

definition canonical_bytes :: "(rat \<Rightarrow> string) \<Rightarrow> string comparator \<Rightarrow> json \<Rightarrow> nat" where
  "canonical_bytes nt lc v = utf8_bytes (canonical_text nt lc v)"

text \<open>Sorting moves entries only, so the canonical form is as long as the value's own text.\<close>

lemma utf8_bytes_join: "utf8_bytes (join '','' ts) = sum_list (map utf8_bytes ts) + (length ts - 1)"
  by (induction "'',''" ts rule: join.induct) (auto simp: utf8_bytes_def)

lemma mset_from_entries [simp]: "mset (from_entries es) = mset es"
  by (simp add: from_entries_def)

lemma length_from_entries [simp]: "length (from_entries es) = length es"
  by (metis mset_from_entries size_mset)

lemma bytes_of_entries_mset:
  assumes "mset es = mset fs"
  shows "utf8_bytes (join '','' (map f es)) = utf8_bytes (join '','' (map f fs))"
proof -
  have "mset (map utf8_bytes (map f es)) = mset (map utf8_bytes (map f fs))"
    using assms by simp
  then have "sum_list (map utf8_bytes (map f es)) = sum_list (map utf8_bytes (map f fs))"
    by (metis sum_mset_sum_list)
  moreover have "length es = length fs" using assms by (metis size_mset)
  ultimately show ?thesis by (simp add: utf8_bytes_join)
qed

lemma utf8_bytes_Cons: "utf8_bytes (c # s) = utf8_bytes [c] + utf8_bytes s"
  by (simp add: utf8_bytes_def)

lemma bytes_of_array: "utf8_bytes (''['' @ t @ '']'') = 2 + utf8_bytes t"
  and bytes_of_object: "utf8_bytes (''{'' @ t @ ''}'') = 2 + utf8_bytes t"
  by (simp_all add: utf8_bytes_def)

lemma canonical_bytes_eq: "canonical_bytes nt lc v = utf8_bytes (json_text nt v)"
  unfolding canonical_bytes_def canonical_text_def
proof (induction lc v rule: sortForJson.induct)
  case (1 lc vs)
  then have "map utf8_bytes (map (json_text nt) (map (sortForJson lc) vs)) = map utf8_bytes (map (json_text nt) vs)"
    by simp
  then show ?case
    unfolding sortForJson.simps json_text.simps bytes_of_array utf8_bytes_join by (metis length_map)
next
  case (2 lc entries)
  let ?sorted = "map (\<lambda>(k, v). (k, sortForJson lc v)) entries"
  let ?texts = "\<lambda>es. map json_member (map (\<lambda>(k, v). (k, json_text nt v)) es)"
  have "mset (from_entries (sort_on lc fst ?sorted)) = mset ?sorted" by simp
  from bytes_of_entries_mset [OF this, of "json_member \<circ> (\<lambda>(k, v). (k, json_text nt v))"]
  have "utf8_bytes (join '','' (?texts (from_entries (sort_on lc fst ?sorted)))) = utf8_bytes (join '','' (?texts ?sorted))"
    unfolding map_map o_assoc .
  also have "map utf8_bytes (?texts ?sorted) = map utf8_bytes (?texts entries)"
    using 2 by (auto simp: json_member_def utf8_bytes_Cons [of "CHR '':''" "json_text nt v" for v])
  then have "utf8_bytes (join '','' (?texts ?sorted)) = utf8_bytes (join '','' (?texts entries))"
    unfolding utf8_bytes_join by (metis length_map)
  finally show ?case unfolding sortForJson.simps json_text.simps bytes_of_object by simp
qed simp_all

section \<open>Texts of objects of strings\<close>

text \<open>The text of an object whose values are strings determines its entries.\<close>

abbreviation string_object :: "(string \<times> string) list \<Rightarrow> json" where
  "string_object es \<equiv> JObj (map (\<lambda>(k, s). (k, JStr s)) es)"

definition string_members :: "(string \<times> string) list \<Rightarrow> string" where
  "string_members es = join '','' (map (\<lambda>(k, s). json_quote k @ '':'' @ json_quote s) es) @ ''}''"

lemma string_members_simps:
  "string_members [] = ''}''"
  "string_members ((k, s) # es) = json_quote k @ '':'' @ json_quote s @ (if es = [] then ''}'' else '','' @ string_members es)"
  by (simp add: string_members_def) (cases es, auto simp: string_members_def)

lemma string_members_ne [simp]: "string_members (e # es) \<noteq> ''}''" "''}'' \<noteq> string_members (e # es)"
  by (cases e, simp add: string_members_simps json_quote_def quote_mark_def)+

lemma string_members_inject: "string_members es = string_members fs \<Longrightarrow> es = fs"
proof (induction es arbitrary: fs)
  case Nil
  then show ?case by (cases fs) (auto simp: string_members_simps(1))
next
  case (Cons e es)
  obtain k s where e: "e = (k, s)" by force
  from Cons.prems obtain l t fs' where fs: "fs = (l, t) # fs'"
    by (cases fs) (auto simp: string_members_simps(1))
  from Cons.prems have "k = l" "s = t" "(if es = [] then ''}'' else '','' @ string_members es)
      = (if fs' = [] then ''}'' else '','' @ string_members fs')"
    by (auto simp: e fs string_members_simps(2) json_quote_append_inject simp del: append_Cons)
  with Cons.IH [of fs'] show ?case by (auto simp: e fs split: if_splits)
qed

lemma json_text_string_object: "json_text nt (string_object es) = ''{'' @ string_members es"
proof -
  have "map json_member (map (\<lambda>(k, v). (k, json_text nt v)) (map (\<lambda>(k, s). (k, JStr s)) es))
      = map (\<lambda>(k, s). json_quote k @ '':'' @ json_quote s) es"
    by (induction es) (auto simp: json_member_def)
  then show ?thesis unfolding json_text.simps string_members_def by presburger
qed

lemma json_text_string_object_inject:
  "json_text nt (string_object es) = json_text nt (string_object fs) \<longleftrightarrow> es = fs"
  unfolding json_text_string_object by (auto dest: string_members_inject)

section \<open>Tests and replacements\<close>

text \<open>\<open>expression.test(text)\<close>: the expression matches somewhere.\<close>

fun re_test :: "(string \<Rightarrow> bool) \<Rightarrow> string \<Rightarrow> bool" where
  "re_test m [] \<longleftrightarrow> m []"
| "re_test m (c # cs) \<longleftrightarrow> m (c # cs) \<or> re_test m cs"

lemma re_test_iff: "re_test m s \<longleftrightarrow> (\<exists>p t. s = p @ t \<and> m t)"
proof (induction s)
  case (Cons c cs)
  then show ?case by (auto simp: Cons_eq_append_conv)
qed simp

lemma re_test_append: "re_test m t \<Longrightarrow> re_test m (s @ t)"
  by (induction s) (cases t, auto)

text \<open>A word without regard to case, at the head of the text.\<close>

definition ci_starts :: "string \<Rightarrow> string \<Rightarrow> bool" where
  "ci_starts word s \<longleftrightarrow> starts_with word (js_lower (take (length word) s))"

text \<open>A replacement text that does not begin with \<open>y\<close> cannot supply the \<open>y\<close> of an output.\<close>

lemma replace_from_head:
  assumes "replace_from m prev s = y # ys" and "\<And>p t n r. m p t = Some (Suc n, r) \<Longrightarrow> r \<noteq> [] \<and> hd r \<noteq> y"
  shows "\<exists>cs prev'. s = y # cs \<and> ys = replace_from m prev' cs"
  using assms by (cases s) (auto split: option.splits nat.splits prod.splits simp: neq_Nil_conv Cons_eq_append_conv, fastforce+)

end
