(* ===== verification/AgentTools.thy ===== *)
theory AgentTools
  imports WorkerJobs ContextBundle JsonText
begin

text \<open>
  The tools an agent may be given, \<open>src/src/agent/agent-tools.ts\<close>, and what the agent part shares: its
  errors and what of the platform it depends on. The policy keeps a list of names; \<open>looksLikeDirectMutation\<close>
  is a second line behind it.
\<close>

section \<open>Errors and the platform\<close>

text \<open>
  A thrown \<open>Error\<close> carries its text; a schema that refuses a value, and a library function that is
  given a value of the wrong type, throw errors whose texts are their own (\<open>env_message\<close>).
\<close>

datatype agent_schema =
  Schema_freshness_ref | Schema_context_seed | Schema_prepared_attempt | Schema_prompt | Schema_policy
| Schema_runtime | Schema_usage | Schema_transcript | Schema_draft | Schema_run | Schema_event
| Schema_tool_input | Schema_bundle | Schema_hypothesis | Schema_plan | Schema_validation | Schema_submission

datatype agent_error = Parse_error agent_schema | Type_error | Plain_error string

definition parse_as :: "agent_schema \<Rightarrow> bool \<Rightarrow> 'a \<Rightarrow> agent_error + 'a" where
  "parse_as schema ok value = (if ok then Inr value else Inl (Parse_error schema))"

lemma parse_as_Inr_iff [simp]: "parse_as schema ok value = Inr v \<longleftrightarrow> ok \<and> v = value"
  by (auto simp: parse_as_def)

lemma parse_as_Inl_iff [simp]: "parse_as schema ok value = Inl e \<longleftrightarrow> \<not> ok \<and> e = Parse_error schema"
  by (auto simp: parse_as_def)

definition throw_plain :: "bool \<Rightarrow> string \<Rightarrow> agent_error + unit" where
  "throw_plain b message = throw_if b (Plain_error message)"

lemma throw_plain_iff [simp]:
  "throw_plain b m = Inr u \<longleftrightarrow> \<not> b" "throw_plain b m = Inl e \<longleftrightarrow> b \<and> e = Plain_error m"
  by (auto simp: throw_plain_def)

text \<open>
  The platform: \<open>localeCompare\<close>, texts of doubles, SHA-256, the messages of library errors and
  \<open>Date.parse\<close>, whose reading of texts outside the ISO format is implementation defined.
\<close>

record platform =
  env_lc :: "string comparator"
  env_numberText :: "rat \<Rightarrow> string"
  env_sha256 :: "string \<Rightarrow> string"
  env_message :: "agent_error \<Rightarrow> string"
  env_dateParse :: "string \<Rightarrow> int option"

fun error_message :: "platform \<Rightarrow> agent_error \<Rightarrow> string" where
  "error_message env (Plain_error message) = message"
| "error_message env err = env_message env err"

section \<open>The allow-list\<close>

datatype AgentToolName =
  Tool_worker_freshness | Tool_projection_summary | Tool_snapshot_summary
| Tool_benchmark_opportunity_gaps | Tool_evidence_records | Tool_dead_letter_diagnosis

fun tool_text :: "AgentToolName \<Rightarrow> string" where
  "tool_text Tool_worker_freshness = ''read_worker_freshness''"
| "tool_text Tool_projection_summary = ''read_projection_summary''"
| "tool_text Tool_snapshot_summary = ''read_snapshot_summary''"
| "tool_text Tool_benchmark_opportunity_gaps = ''read_benchmark_opportunity_gaps''"
| "tool_text Tool_evidence_records = ''read_evidence_records''"
| "tool_text Tool_dead_letter_diagnosis = ''read_dead_letter_diagnosis''"

lemma tool_text_inject [simp]: "tool_text a = tool_text b \<longleftrightarrow> a = b"
  by (cases a; cases b) simp_all

definition no_core_or_business_mutation :: string where
  "no_core_or_business_mutation = ''no_core_or_business_mutation''"

definition SAFE_AGENT_TOOL_NAMES :: "AgentToolName list" where
  "SAFE_AGENT_TOOL_NAMES = [Tool_worker_freshness, Tool_projection_summary, Tool_snapshot_summary,
     Tool_benchmark_opportunity_gaps, Tool_evidence_records, Tool_dead_letter_diagnosis]"

text \<open>The policy reads the name and the mutation policy of a tool; a description has more.\<close>

record AgentTool =
  tl_name :: string
  tl_mutationPolicy :: "string option"

record AgentToolDescriptor = AgentTool +
  tl_capability :: string
  tl_description :: string

definition descriptor :: "AgentToolName \<Rightarrow> string \<Rightarrow> AgentToolDescriptor" where
  "descriptor tool description = \<lparr>tl_name = tool_text tool, tl_mutationPolicy = Some no_core_or_business_mutation,
     tl_capability = ''read_context'', tl_description = description\<rparr>"

definition DEFAULT_AGENT_TOOL_DESCRIPTORS :: "AgentToolDescriptor list" where
  "DEFAULT_AGENT_TOOL_DESCRIPTORS =
     [descriptor Tool_worker_freshness ''Read committed worker freshness refs for one prepared Agent attempt.'',
      descriptor Tool_projection_summary ''Read bounded projection aggregate summaries from a prepared freshness ref.'',
      descriptor Tool_snapshot_summary ''Read bounded snapshot aggregate summaries from a prepared freshness ref.'',
      descriptor Tool_benchmark_opportunity_gaps
        ''Read aggregate-only benchmark opportunity gaps from a prepared freshness ref.'',
      descriptor Tool_evidence_records ''Read deterministic evidence summaries without promoting LLM-authored facts.'',
      descriptor Tool_dead_letter_diagnosis ''Read redacted dead-letter diagnosis for a blocked prepared attempt.'']"

definition DIRECT_MUTATION_VERBS :: "string list" where
  "DIRECT_MUTATION_VERBS = [''write'', ''update'', ''mutate'', ''execute'', ''apply'', ''send'', ''set'']"

definition DIRECT_MUTATION_TARGETS :: "string list" where
  "DIRECT_MUTATION_TARGETS = [''menu'', ''price'', ''coupon'', ''customer_message'', ''message'', ''order'',
     ''metric'', ''benchmark'', ''evidence'', ''config'']"

definition looksLikeDirectMutation :: "string \<Rightarrow> bool" where
  "looksLikeDirectMutation name \<longleftrightarrow> list_ex (text_includes name) DIRECT_MUTATION_VERBS
     \<and> list_ex (text_includes name) DIRECT_MUTATION_TARGETS"

record AgentToolPolicyResult =
  tp_allowed :: bool
  tp_deniedToolNames :: "string list"
  tp_reasons :: "string list"

text \<open>The first reason to deny a tool.\<close>

definition deny_reason :: "'a AgentTool_scheme \<Rightarrow> string option" where
  "deny_reason tool =
     (if tl_name tool \<notin> set (map tool_text SAFE_AGENT_TOOL_NAMES)
      then Some (''tool is not in the safe high-level allowlist: '' @ tl_name tool)
      else if tl_mutationPolicy tool \<noteq> Some no_core_or_business_mutation
      then Some (''tool must declare no_core_or_business_mutation policy: '' @ tl_name tool)
      else if looksLikeDirectMutation (js_lower (tl_name tool))
      then Some (''tool name looks like a direct business/Core mutation: '' @ tl_name tool)
      else None)"

fun policy_loop :: "'a AgentTool_scheme list \<Rightarrow> string list \<times> string list" where
  "policy_loop [] = ([], [])"
| "policy_loop (tool # tools) =
     (let (names, reasons) = policy_loop tools
      in case deny_reason tool of None \<Rightarrow> (names, reasons) | Some r \<Rightarrow> (tl_name tool # names, r # reasons))"

definition evaluateAgentToolPolicy :: "'a AgentTool_scheme list \<Rightarrow> AgentToolPolicyResult" where
  "evaluateAgentToolPolicy tools =
     (let (names, reasons) = policy_loop tools
      in \<lparr>tp_allowed = (names = []), tp_deniedToolNames = names, tp_reasons = reasons\<rparr>)"

definition assertAgentToolPolicy :: "'a AgentTool_scheme list \<Rightarrow> agent_error + unit" where
  "assertAgentToolPolicy tools =
     (let result = evaluateAgentToolPolicy tools
      in throw_plain (\<not> tp_allowed result) (join ''; '' (tp_reasons result)))"

section \<open>What the policy allows\<close>

lemma safe_names_do_not_mutate:
  "list_all (\<lambda>t. \<not> looksLikeDirectMutation (js_lower (tool_text t))) SAFE_AGENT_TOOL_NAMES"
  by code_simp

lemma all_tools_safe [simp]: "t \<in> set SAFE_AGENT_TOOL_NAMES"
  by (cases t) (simp_all add: SAFE_AGENT_TOOL_NAMES_def)

lemma deny_reason_None_iff:
  "deny_reason tool = None \<longleftrightarrow> (\<exists>t. tl_name tool = tool_text t) \<and> tl_mutationPolicy tool = Some no_core_or_business_mutation"
proof -
  have "\<not> looksLikeDirectMutation (js_lower (tool_text t))" for t
    using safe_names_do_not_mutate all_tools_safe [of t] by (auto simp: list_all_iff simp del: all_tools_safe)
  then show ?thesis by (auto simp: deny_reason_def)
qed

lemma policy_loop_names: "fst (policy_loop tools) = map tl_name (filter (\<lambda>t. deny_reason t \<noteq> None) tools)"
  by (induction tools) (auto simp: Let_def split: prod.splits option.splits)

lemma policy_loop_reasons: "snd (policy_loop tools) = List.map_filter deny_reason tools"
  by (induction tools) (auto simp: Let_def List.map_filter_simps split: prod.splits option.splits)

end
