(* ===== verification/PreparedAttempt.thy ===== *)
theory PreparedAttempt
  imports AgentTools
begin

text \<open>
  What is prepared before an agent runs, \<open>src/src/agent/prepared-attempt.ts\<close>: from the freshness the
  workers committed, either a seed the agent may start from, or the reason it may not; and the read-only
  tools over a prepared attempt. Times of the attempt are texts and compared as such.
\<close>

section \<open>Freshness\<close>

text \<open>A row of the queue as the repository returns it: \<open>toISO\<close> is \<open>toISOString\<close>.\<close>

record WorkerFreshnessRecord =
  wf_workerKind :: WorkerKind
  wf_tenantScope :: WorkerTenantScope
  wf_sourceScope :: WorkerSourceScope
  wf_committedWatermark :: json_object
  wf_committedJobId :: string
  wf_committedAttemptId :: nat
  wf_outputSummary :: json_object
  wf_committedAt :: string

fun of_column :: "string option \<Rightarrow> scope_field" where
  "of_column None = Null"
| "of_column (Some s) = Text s"

lemma column_of_column [simp]: "column (of_column c) = c"
  by (cases c) simp_all

definition toWorkerFreshnessRecord :: "(int \<Rightarrow> string) \<Rightarrow> WorkerFreshness \<Rightarrow> WorkerFreshnessRecord" where
  "toWorkerFreshnessRecord toISO row =
     \<lparr>wf_workerKind = fr_workerKind row,
      wf_tenantScope = \<lparr>ts_brandId = of_column (fr_brandId row), ts_merchantId = of_column (fr_merchantId row),
        ts_storeId = of_column (fr_storeId row)\<rparr>,
      wf_sourceScope = \<lparr>ss_source = fr_source row, ss_producerService = of_column (fr_producerService row),
        ss_producerEnvironment = of_column (fr_producerEnvironment row)\<rparr>,
      wf_committedWatermark = fr_committedWatermark row,
      wf_committedJobId = fr_committedJobId row,
      wf_committedAttemptId = fr_committedAttemptId row,
      wf_outputSummary = fr_outputSummary row,
      wf_committedAt = toISO (fr_committedAt row)\<rparr>"

record TenantRef =
  tn_brandId :: "string option"
  tn_merchantId :: "string option"
  tn_storeId :: "string option"

record SourceRef =
  sr_source :: string
  sr_producerService :: "string option"
  sr_producerEnvironment :: "string option"

record WorkerFreshnessRef =
  wr_workerKind :: WorkerKind
  wr_tenantScope :: TenantRef
  wr_sourceScope :: SourceRef
  wr_committedJobId :: string
  wr_committedAttemptId :: nat
  wr_committedWatermark :: json_object
  wr_committedAt :: string
  wr_outputSummary :: json_object

definition max_safe_integer :: int where
  "max_safe_integer = 9007199254740991"

fun json_numbers_finite :: "json \<Rightarrow> bool" where
  "json_numbers_finite (JNum n) = isFinite n"
| "json_numbers_finite (JArr vs) = list_all json_numbers_finite vs"
| "json_numbers_finite (JObj entries) = list_all (\<lambda>(k, v). json_numbers_finite v) entries"
| "json_numbers_finite _ = True"

definition freshness_ref_shape :: "WorkerFreshnessRef \<Rightarrow> bool" where
  "freshness_ref_shape r \<longleftrightarrow>
     optional_nonempty (tn_brandId (wr_tenantScope r)) \<and> optional_nonempty (tn_merchantId (wr_tenantScope r))
     \<and> optional_nonempty (tn_storeId (wr_tenantScope r))
     \<and> nonempty (sr_source (wr_sourceScope r)) \<and> optional_nonempty (sr_producerService (wr_sourceScope r))
     \<and> optional_nonempty (sr_producerEnvironment (wr_sourceScope r))
     \<and> nonempty (wr_committedJobId r) \<and> int (wr_committedAttemptId r) \<le> max_safe_integer
     \<and> json_numbers_finite (JObj (wr_committedWatermark r)) \<and> nonempty (wr_committedAt r)
     \<and> json_numbers_finite (JObj (wr_outputSummary r))"

text \<open>\<open>stripNullish\<close> drops what is \<open>undefined\<close> or \<open>null\<close>, as \<^const>\<open>column\<close> does.\<close>

definition freshness_ref_of :: "WorkerFreshnessRecord \<Rightarrow> WorkerFreshnessRef" where
  "freshness_ref_of r =
     \<lparr>wr_workerKind = wf_workerKind r,
      wr_tenantScope = \<lparr>tn_brandId = column (ts_brandId (wf_tenantScope r)),
        tn_merchantId = column (ts_merchantId (wf_tenantScope r)), tn_storeId = column (ts_storeId (wf_tenantScope r))\<rparr>,
      wr_sourceScope = \<lparr>sr_source = ss_source (wf_sourceScope r),
        sr_producerService = column (ss_producerService (wf_sourceScope r)),
        sr_producerEnvironment = column (ss_producerEnvironment (wf_sourceScope r))\<rparr>,
      wr_committedJobId = wf_committedJobId r,
      wr_committedAttemptId = wf_committedAttemptId r,
      wr_committedWatermark = wf_committedWatermark r,
      wr_committedAt = wf_committedAt r,
      wr_outputSummary = wf_outputSummary r\<rparr>"

definition toWorkerFreshnessRef :: "WorkerFreshnessRecord \<Rightarrow> agent_error + WorkerFreshnessRef" where
  "toWorkerFreshnessRef r = (let ref = freshness_ref_of r in parse_as Schema_freshness_ref (freshness_ref_shape ref) ref)"

fun toWorkerFreshnessRefs :: "WorkerFreshnessRecord list \<Rightarrow> agent_error + WorkerFreshnessRef list" where
  "toWorkerFreshnessRefs [] = Inr []"
| "toWorkerFreshnessRefs (r # rs) =
     and_then (toWorkerFreshnessRef r) (\<lambda>ref. and_then (toWorkerFreshnessRefs rs) (\<lambda>refs. Inr (ref # refs)))"

section \<open>Data an agent must not see\<close>

definition forbiddenKey :: "string \<Rightarrow> bool" where
  "forbiddenKey k \<longleftrightarrow> filter (\<lambda>c. c \<noteq> CHR ''_'' \<and> c \<noteq> CHR ''-'') (js_lower k) \<in> set
     [''raw'', ''rawpayload'', ''payload'', ''properties'', ''secret'', ''token'', ''bearer'', ''authorization'',
      ''password'', ''credential'', ''credentials'', ''pan'', ''cardnumber'', ''customerid'', ''memberid'',
      ''deviceid'', ''sql'', ''query'']"

text \<open>\<open>/bearer\s+|authorization:|password=|secret=|database_url|BEGIN RSA PRIVATE KEY/i\<close>.\<close>

definition bearer_at :: "string \<Rightarrow> bool" where
  "bearer_at s \<longleftrightarrow> ci_starts ''bearer'' s \<and> 0 < span js_space (drop 6 s)"

definition forbidden_at :: "string \<Rightarrow> bool" where
  "forbidden_at s \<longleftrightarrow> bearer_at s \<or> list_ex (\<lambda>word. ci_starts word s)
     [''authorization:'', ''password='', ''secret='', ''database_url'', ''begin rsa private key'']"

fun hasForbiddenRawData :: "json \<Rightarrow> bool" where
  "hasForbiddenRawData (JArr vs) = list_ex hasForbiddenRawData vs"
| "hasForbiddenRawData (JObj entries) = list_ex (\<lambda>(k, child). forbiddenKey k \<or> hasForbiddenRawData child) entries"
| "hasForbiddenRawData (JStr s) = re_test forbidden_at s"
| "hasForbiddenRawData _ = False"

definition safeFreshnessRefs :: "WorkerFreshnessRef list \<Rightarrow> WorkerFreshnessRef list" where
  "safeFreshnessRefs refs = filter (\<lambda>ref. \<not> hasForbiddenRawData (JObj (wr_outputSummary ref))) refs"

section \<open>The attempt\<close>

datatype PreparedAttemptStatus =
  Prepared | Blocked_missing_freshness | Blocked_stale_freshness | Blocked_dead_letter
| Blocked_tenant_mismatch | Blocked_policy

fun attempt_status_text :: "PreparedAttemptStatus \<Rightarrow> string" where
  "attempt_status_text Prepared = ''prepared''"
| "attempt_status_text Blocked_missing_freshness = ''blocked_missing_freshness''"
| "attempt_status_text Blocked_stale_freshness = ''blocked_stale_freshness''"
| "attempt_status_text Blocked_dead_letter = ''blocked_dead_letter''"
| "attempt_status_text Blocked_tenant_mismatch = ''blocked_tenant_mismatch''"
| "attempt_status_text Blocked_policy = ''blocked_policy''"

datatype failure_code =
  Code_missing_freshness | Code_stale_freshness | Code_dead_lettered_worker | Code_tenant_or_source_mismatch
| Code_context_budget_exceeded | Code_forbidden_raw_data | Code_free_form_identity_scope | Code_unsafe_tool_catalog

fun failure_code_text :: "failure_code \<Rightarrow> string" where
  "failure_code_text Code_missing_freshness = ''missing_freshness''"
| "failure_code_text Code_stale_freshness = ''stale_freshness''"
| "failure_code_text Code_dead_lettered_worker = ''dead_lettered_worker''"
| "failure_code_text Code_tenant_or_source_mismatch = ''tenant_or_source_mismatch''"
| "failure_code_text Code_context_budget_exceeded = ''context_budget_exceeded''"
| "failure_code_text Code_forbidden_raw_data = ''forbidden_raw_data''"
| "failure_code_text Code_free_form_identity_scope = ''free_form_identity_scope''"
| "failure_code_text Code_unsafe_tool_catalog = ''unsafe_tool_catalog''"

record PreparedAttemptFailureReason =
  pf_code :: failure_code
  pf_message :: string

record PreparedAttemptContextBudget =
  bu_maxSeedBytes :: int
  bu_maxToolResultBytes :: int

type_synonym AgentReadOnlyToolName = AgentToolName

record AgentReadOnlyToolDescriptor =
  td_name :: AgentReadOnlyToolName
  td_capability :: string
  td_mutationPolicy :: string
  td_requiresFreshnessRef :: bool
  td_inputBoundary :: string
  td_outputBoundary :: string

definition read_only_tool :: "AgentReadOnlyToolName \<Rightarrow> bool \<Rightarrow> string \<Rightarrow> string \<Rightarrow> AgentReadOnlyToolDescriptor" where
  "read_only_tool tool requiresFreshnessRef inputBoundary outputBoundary =
     \<lparr>td_name = tool, td_capability = ''read_context'', td_mutationPolicy = no_core_or_business_mutation,
      td_requiresFreshnessRef = requiresFreshnessRef, td_inputBoundary = inputBoundary,
      td_outputBoundary = outputBoundary\<rparr>"

definition DEFAULT_AGENT_READ_ONLY_TOOL_DESCRIPTORS :: "AgentReadOnlyToolDescriptor list" where
  "DEFAULT_AGENT_READ_ONLY_TOOL_DESCRIPTORS =
     [read_only_tool Tool_worker_freshness True ''worker kind plus prepared attempt tenant/source scope''
        ''committed freshness ref and count-only summary metadata'',
      read_only_tool Tool_projection_summary True ''prepared projection freshness ref''
        ''bounded projection aggregate summary; no raw event payloads or arbitrary SQL'',
      read_only_tool Tool_snapshot_summary True ''prepared snapshot freshness ref''
        ''bounded snapshot aggregate summary; merchant confirmations only when deterministic'',
      read_only_tool Tool_benchmark_opportunity_gaps True ''prepared benchmark freshness ref''
        ''aggregate-only benchmark gap summary; no peer-store identity'',
      read_only_tool Tool_evidence_records True ''prepared evidence freshness ref and evidence refs''
        ''deterministic evidence summaries only; no LLM evidence promotion'',
      read_only_tool Tool_dead_letter_diagnosis False ''blocked prepared attempt or bounded worker/job id''
        ''redacted failure class, reason code, and operator action only'']"

definition REQUIRED_WORKER_KINDS_FOR_PREPARED_ATTEMPT :: "WorkerKind list" where
  "REQUIRED_WORKER_KINDS_FOR_PREPARED_ATTEMPT = [Kind_projection, Kind_snapshot, Kind_benchmark, Kind_evidence]"

definition FORBIDDEN_AGENT_CAPABILITIES :: "string list" where
  "FORBIDDEN_AGENT_CAPABILITIES = [''arbitrary_sql'', ''raw_payload_read'', ''secret_read'', ''worker_mutation'',
     ''core_write'', ''business_mutation'', ''evidence_promotion'', ''merchant_decision_authority'',
     ''runtime_fallback_authority'']"

record freshness_entry =
  fi_workerKind :: WorkerKind
  fi_toolName :: AgentReadOnlyToolName
  fi_committedJobId :: string
  fi_committedAttemptId :: nat
  fi_committedAt :: string

record AgentContextSeed =
  cs_brandId :: string
  cs_storeId :: string
  cs_opportunityGapId :: string
  cs_evidenceRefs :: "string list"
  cs_assumptions :: "string list"
  cs_freshnessIndex :: "freshness_entry list"

definition context_seed_shape :: "AgentContextSeed \<Rightarrow> bool" where
  "context_seed_shape s \<longleftrightarrow>
     nonempty (cs_brandId s) \<and> nonempty (cs_storeId s) \<and> nonempty (cs_opportunityGapId s)
     \<and> list_all nonempty (cs_evidenceRefs s) \<and> list_all nonempty (cs_assumptions s)
     \<and> list_all (\<lambda>f. nonempty (fi_committedJobId f) \<and> int (fi_committedAttemptId f) \<le> max_safe_integer
         \<and> nonempty (fi_committedAt f)) (cs_freshnessIndex s)"

definition freshness_entry_json :: "freshness_entry \<Rightarrow> json" where
  "freshness_entry_json f = JObj
     [(''workerKind'', JStr (kind_text (fi_workerKind f))), (''toolName'', JStr (tool_text (fi_toolName f))),
      (''committedJobId'', JStr (fi_committedJobId f)),
      (''committedAttemptId'', JNum (Finite (of_nat (fi_committedAttemptId f)))),
      (''committedAt'', JStr (fi_committedAt f))]"

definition context_seed_json :: "AgentContextSeed \<Rightarrow> json" where
  "context_seed_json s = JObj
     [(''seedVersion'', JStr ''agent-context-seed.v1''), (''brandId'', JStr (cs_brandId s)),
      (''storeId'', JStr (cs_storeId s)), (''opportunityGapId'', JStr (cs_opportunityGapId s)),
      (''contextBundleVersion'', JStr ''agent-context-bundle.v1''),
      (''evidenceRefs'', JArr (map JStr (cs_evidenceRefs s))),
      (''assumptions'', JArr (map JStr (cs_assumptions s))),
      (''freshnessIndex'', JArr (map freshness_entry_json (cs_freshnessIndex s)))]"

record PreparedAgentAttempt =
  pa_attemptId :: string
  pa_agentRunId :: string
  pa_sessionId :: string
  pa_brandId :: string
  pa_storeId :: string
  pa_opportunityGapId :: string
  pa_requestedBy :: string
  pa_createdAt :: string
  pa_status :: PreparedAttemptStatus
  pa_contextBundleVersion :: string
  pa_toolCatalogVersion :: string
  pa_contextBudget :: PreparedAttemptContextBudget
  pa_allowedReadCapabilities :: "AgentReadOnlyToolName list"
  pa_forbiddenCapabilities :: "string list"
  pa_workerFreshnessRefs :: "WorkerFreshnessRef list"
  pa_contextSeed :: "AgentContextSeed option"
  pa_contextSeedHash :: "string option"
  pa_failureReason :: "PreparedAttemptFailureReason option"

definition budget_shape :: "PreparedAttemptContextBudget \<Rightarrow> bool" where
  "budget_shape b \<longleftrightarrow> 0 < bu_maxSeedBytes b \<and> bu_maxSeedBytes b \<le> max_safe_integer
     \<and> 0 < bu_maxToolResultBytes b \<and> bu_maxToolResultBytes b \<le> max_safe_integer"

definition prepared_attempt_shape :: "PreparedAgentAttempt \<Rightarrow> bool" where
  "prepared_attempt_shape a \<longleftrightarrow>
     nonempty (pa_attemptId a) \<and> nonempty (pa_agentRunId a) \<and> nonempty (pa_sessionId a) \<and> nonempty (pa_brandId a)
     \<and> nonempty (pa_storeId a) \<and> nonempty (pa_opportunityGapId a) \<and> nonempty (pa_requestedBy a)
     \<and> nonempty (pa_createdAt a) \<and> pa_contextBundleVersion a = ''agent-context-bundle.v1''
     \<and> pa_toolCatalogVersion a = ''agent-read-tools.v1'' \<and> budget_shape (pa_contextBudget a)
     \<and> list_all nonempty (pa_forbiddenCapabilities a) \<and> list_all freshness_ref_shape (pa_workerFreshnessRefs a)
     \<and> (case pa_contextSeed a of None \<Rightarrow> True | Some s \<Rightarrow> context_seed_shape s)
     \<and> optional_nonempty (pa_contextSeedHash a)
     \<and> (case pa_failureReason a of None \<Rightarrow> True | Some r \<Rightarrow> nonempty (pf_message r))"

definition parse_attempt :: "PreparedAgentAttempt \<Rightarrow> agent_error + PreparedAgentAttempt" where
  "parse_attempt a = parse_as Schema_prepared_attempt (prepared_attempt_shape a) a"

text \<open>\<open>InMemoryPreparedAgentAttemptRepository\<close>.\<close>

definition save_attempt :: "PreparedAgentAttempt \<Rightarrow> (string, PreparedAgentAttempt) jsmap
    \<Rightarrow> agent_error + (string, PreparedAgentAttempt) jsmap" where
  "save_attempt a attempts = and_then (parse_attempt a) (\<lambda>parsed. Inr (map_set (pa_attemptId a) parsed attempts))"

definition get_attempt :: "string \<Rightarrow> (string, PreparedAgentAttempt) jsmap \<Rightarrow> PreparedAgentAttempt option" where
  "get_attempt attemptId attempts = map_get attempts attemptId"

section \<open>The policy\<close>

datatype identity_source = Deterministic_tenant_scope | Free_form_agent_input

record PreparedAttemptDeadLetterDiagnosis =
  dd_workerKind :: WorkerKind
  dd_jobId :: string
  dd_failureClass :: string
  dd_reasonCode :: string
  dd_nextOperatorAction :: string

record PrepareAgentAttemptInput =
  pi_attemptId :: string
  pi_agentRunId :: string
  pi_sessionId :: string
  pi_brandId :: string
  pi_storeId :: string
  pi_opportunityGapId :: string
  pi_requestedBy :: string
  pi_createdAt :: string
  pi_identitySource :: identity_source
  pi_freshnessRecords :: "WorkerFreshnessRecord list"
  pi_contextBudget :: PreparedAttemptContextBudget
  pi_evidenceRefs :: "string list option"
  pi_assumptions :: "string list option"
  pi_minimumCommittedAt :: "string option"
  pi_requiredWorkerKinds :: "WorkerKind list option"
  pi_toolCatalog :: "AgentReadOnlyToolDescriptor list option"
  pi_deadLetterDiagnoses :: "PreparedAttemptDeadLetterDiagnosis list option"

definition find_ref :: "WorkerFreshnessRef list \<Rightarrow> WorkerKind \<Rightarrow> WorkerFreshnessRef option" where
  "find_ref refs kind = find (\<lambda>candidate. wr_workerKind candidate = kind) refs"

definition requireFreshnessRef :: "WorkerFreshnessRef list \<Rightarrow> WorkerKind \<Rightarrow> agent_error + WorkerFreshnessRef" where
  "requireFreshnessRef refs kind =
     (case find_ref refs kind of
        None \<Rightarrow> Inl (Plain_error (''Prepared attempt does not include freshness ref for '' @ kind_text kind @ ''.''))
      | Some ref \<Rightarrow> Inr ref)"

definition tenantMatches :: "PrepareAgentAttemptInput \<Rightarrow> WorkerFreshnessRef \<Rightarrow> bool" where
  "tenantMatches inp ref \<longleftrightarrow> tn_brandId (wr_tenantScope ref) = Some (pi_brandId inp)
     \<and> tn_storeId (wr_tenantScope ref) = Some (pi_storeId inp)"

definition source_entries :: "SourceRef \<Rightarrow> (string \<times> string) list" where
  "source_entries s = (''source'', sr_source s)
     # (case sr_producerService s of None \<Rightarrow> [] | Some v \<Rightarrow> [(''producerService'', v)])
     @ (case sr_producerEnvironment s of None \<Rightarrow> [] | Some v \<Rightarrow> [(''producerEnvironment'', v)])"

definition sourceMatchesRequiredRefs ::
  "platform \<Rightarrow> WorkerFreshnessRef list \<Rightarrow> WorkerKind list \<Rightarrow> WorkerFreshnessRef \<Rightarrow> bool" where
  "sourceMatchesRequiredRefs env refs requiredWorkerKinds ref =
     (case find (\<lambda>candidate. wr_workerKind candidate \<in> set requiredWorkerKinds) refs of
        None \<Rightarrow> False
      | Some expected \<Rightarrow>
          canonical_text (env_numberText env) (env_lc env) (string_object (source_entries (wr_sourceScope ref)))
          = canonical_text (env_numberText env) (env_lc env) (string_object (source_entries (wr_sourceScope expected))))"

type_synonym policy_failure = "PreparedAttemptStatus \<times> PreparedAttemptFailureReason"

definition blocked :: "PreparedAttemptStatus \<Rightarrow> failure_code \<Rightarrow> string \<Rightarrow> policy_failure" where
  "blocked status code message = (status, \<lparr>pf_code = code, pf_message = message\<rparr>)"

definition kind_failure ::
  "platform \<Rightarrow> PrepareAgentAttemptInput \<Rightarrow> WorkerKind list \<Rightarrow> WorkerFreshnessRef list \<Rightarrow> WorkerKind
   \<Rightarrow> policy_failure option" where
  "kind_failure env inp required refs kind =
     (case find_ref refs kind of
        None \<Rightarrow> Some (blocked Blocked_missing_freshness Code_missing_freshness
          (''Missing committed worker freshness for '' @ kind_text kind @ ''.''))
      | Some ref \<Rightarrow>
          if \<not> tenantMatches inp ref \<or> \<not> sourceMatchesRequiredRefs env refs required ref
          then Some (blocked Blocked_tenant_mismatch Code_tenant_or_source_mismatch
            (''Worker freshness for '' @ kind_text kind @ '' does not match prepared attempt tenant/source scope.''))
          else if (case pi_minimumCommittedAt inp of None \<Rightarrow> False | Some m \<Rightarrow> m \<noteq> [] \<and> wr_committedAt ref < m)
          then Some (blocked Blocked_stale_freshness Code_stale_freshness
            (''Worker freshness for '' @ kind_text kind @ '' is older than the required freshness watermark.''))
          else if hasForbiddenRawData (JObj (wr_outputSummary ref))
          then Some (blocked Blocked_policy Code_forbidden_raw_data
            (''Worker freshness summary for '' @ kind_text kind
             @ '' contains raw, secret, SQL, or identifier-shaped data.''))
          else None)"

fun kinds_failure ::
  "platform \<Rightarrow> PrepareAgentAttemptInput \<Rightarrow> WorkerKind list \<Rightarrow> WorkerFreshnessRef list \<Rightarrow> WorkerKind list
   \<Rightarrow> policy_failure option" where
  "kinds_failure env inp required refs [] = None"
| "kinds_failure env inp required refs (kind # kinds) =
     (case kind_failure env inp required refs kind of
        Some failure \<Rightarrow> Some failure
      | None \<Rightarrow> kinds_failure env inp required refs kinds)"

definition evaluatePreparedAttemptPolicy ::
  "platform \<Rightarrow> PrepareAgentAttemptInput \<Rightarrow> WorkerKind list \<Rightarrow> WorkerFreshnessRef list
   \<Rightarrow> AgentReadOnlyToolDescriptor list \<Rightarrow> policy_failure option" where
  "evaluatePreparedAttemptPolicy env inp required refs catalog =
     (if pi_identitySource inp \<noteq> Deterministic_tenant_scope
      then Some (blocked Blocked_policy Code_free_form_identity_scope
        ''Prepared attempt identity must come from deterministic tenant scope, not free-form Agent input.'')
      else case find (\<lambda>tool. td_mutationPolicy tool \<noteq> no_core_or_business_mutation
              \<or> td_capability tool \<noteq> ''read_context'') catalog of
        Some tool \<Rightarrow> Some (blocked Blocked_policy Code_unsafe_tool_catalog
          (''Prepared attempt tool catalog contains an unsafe tool: '' @ tool_text (td_name tool) @ ''.''))
      | None \<Rightarrow>
          (case find (\<lambda>d. dd_workerKind d \<in> set required) (or_else (pi_deadLetterDiagnoses inp) []) of
             Some d \<Rightarrow> Some (blocked Blocked_dead_letter Code_dead_lettered_worker
               (''Worker '' @ kind_text (dd_workerKind d) @ '' has dead-letter diagnosis '' @ dd_reasonCode d
                @ ''; next action: '' @ dd_nextOperatorAction d @ ''.''))
           | None \<Rightarrow> kinds_failure env inp required refs required))"

section \<open>prepareAgentAttempt\<close>

fun toolNameForWorkerKind :: "WorkerKind \<Rightarrow> AgentReadOnlyToolName" where
  "toolNameForWorkerKind Kind_projection = Tool_projection_summary"
| "toolNameForWorkerKind Kind_snapshot = Tool_snapshot_summary"
| "toolNameForWorkerKind Kind_benchmark = Tool_benchmark_opportunity_gaps"
| "toolNameForWorkerKind Kind_evidence = Tool_evidence_records"

fun freshness_index :: "WorkerFreshnessRef list \<Rightarrow> WorkerKind list \<Rightarrow> agent_error + freshness_entry list" where
  "freshness_index refs [] = Inr []"
| "freshness_index refs (kind # kinds) =
     and_then (requireFreshnessRef refs kind) (\<lambda>ref.
     and_then (freshness_index refs kinds) (\<lambda>entries.
       Inr (\<lparr>fi_workerKind = kind, fi_toolName = toolNameForWorkerKind kind,
             fi_committedJobId = wr_committedJobId ref, fi_committedAttemptId = wr_committedAttemptId ref,
             fi_committedAt = wr_committedAt ref\<rparr> # entries)))"

definition stableHash :: "platform \<Rightarrow> json \<Rightarrow> string" where
  "stableHash env v = ''sha256:'' @ env_sha256 env (canonical_text (env_numberText env) (env_lc env) v)"

definition byteLength :: "platform \<Rightarrow> json \<Rightarrow> nat" where
  "byteLength env v = canonical_bytes (env_numberText env) (env_lc env) v"

text \<open>\<open>baseAttempt\<close> with the fields every branch sets.\<close>

definition baseAttempt ::
  "PrepareAgentAttemptInput \<Rightarrow> PreparedAttemptStatus \<Rightarrow> WorkerFreshnessRef list \<Rightarrow> AgentReadOnlyToolDescriptor list
   \<Rightarrow> PreparedAgentAttempt" where
  "baseAttempt inp status refs catalog =
     \<lparr>pa_attemptId = pi_attemptId inp, pa_agentRunId = pi_agentRunId inp, pa_sessionId = pi_sessionId inp,
      pa_brandId = pi_brandId inp, pa_storeId = pi_storeId inp, pa_opportunityGapId = pi_opportunityGapId inp,
      pa_requestedBy = pi_requestedBy inp, pa_createdAt = pi_createdAt inp, pa_status = status,
      pa_contextBundleVersion = ''agent-context-bundle.v1'', pa_toolCatalogVersion = ''agent-read-tools.v1'',
      pa_contextBudget = pi_contextBudget inp, pa_allowedReadCapabilities = map td_name catalog,
      pa_forbiddenCapabilities = FORBIDDEN_AGENT_CAPABILITIES, pa_workerFreshnessRefs = refs,
      pa_contextSeed = None, pa_contextSeedHash = None, pa_failureReason = None\<rparr>"

definition context_seed_of ::
  "platform \<Rightarrow> PrepareAgentAttemptInput \<Rightarrow> freshness_entry list \<Rightarrow> AgentContextSeed" where
  "context_seed_of env inp entries =
     \<lparr>cs_brandId = pi_brandId inp, cs_storeId = pi_storeId inp, cs_opportunityGapId = pi_opportunityGapId inp,
      cs_evidenceRefs = uniqueSorted (env_lc env) (or_else (pi_evidenceRefs inp) []),
      cs_assumptions = or_else (pi_assumptions inp) [''Peer benchmark comparison is directional and non-causal.''],
      cs_freshnessIndex = entries\<rparr>"

definition required_kinds :: "PrepareAgentAttemptInput \<Rightarrow> WorkerKind list" where
  "required_kinds inp = or_else (pi_requiredWorkerKinds inp) REQUIRED_WORKER_KINDS_FOR_PREPARED_ATTEMPT"

definition tool_catalog :: "PrepareAgentAttemptInput \<Rightarrow> AgentReadOnlyToolDescriptor list" where
  "tool_catalog inp = or_else (pi_toolCatalog inp) DEFAULT_AGENT_READ_ONLY_TOOL_DESCRIPTORS"

definition prepareAgentAttempt :: "platform \<Rightarrow> PrepareAgentAttemptInput \<Rightarrow> agent_error + PreparedAgentAttempt" where
  "prepareAgentAttempt env inp =
     (let required = required_kinds inp; catalog = tool_catalog inp in
      and_then (toWorkerFreshnessRefs (pi_freshnessRecords inp)) (\<lambda>refs.
      case evaluatePreparedAttemptPolicy env inp required refs catalog of
        Some (status, reason) \<Rightarrow>
          parse_attempt ((baseAttempt inp status (safeFreshnessRefs refs) catalog)\<lparr>pa_failureReason := Some reason\<rparr>)
      | None \<Rightarrow>
          and_then (freshness_index refs required) (\<lambda>entries.
          and_then (let seed = context_seed_of env inp entries in parse_as Schema_context_seed (context_seed_shape seed) seed)
          (\<lambda>seed.
          and_then (parse_attempt ((baseAttempt inp Prepared refs catalog)
              \<lparr>pa_contextSeed := Some seed, pa_contextSeedHash := Some (stableHash env (context_seed_json seed))\<rparr>))
          (\<lambda>preparedAttempt.
          if bu_maxSeedBytes (pi_contextBudget inp) < int (byteLength env (context_seed_json seed))
          then parse_attempt ((baseAttempt inp Blocked_policy refs catalog)\<lparr>pa_failureReason := Some
            \<lparr>pf_code = Code_context_budget_exceeded,
             pf_message = ''Prepared attempt context seed exceeds the configured context budget.''\<rparr>\<rparr>)
          else Inr preparedAttempt)))))"

section \<open>The read-only tools\<close>

datatype tool_call =
  Call_worker_freshness WorkerKind
| Call_projection_summary string
| Call_snapshot_summary string
| Call_benchmark_opportunity_gaps string
| Call_evidence_records string
| Call_dead_letter_diagnosis

datatype tool_result =
  Freshness_result WorkerFreshnessRef
| Summary_result WorkerFreshnessRef json_object
| Diagnosis_result "PreparedAttemptFailureReason option"

definition assertPreparedForSummaryTool :: "PreparedAgentAttempt \<Rightarrow> agent_error + unit" where
  "assertPreparedForSummaryTool a =
     throw_plain (pa_status a \<noteq> Prepared) ''Prepared attempt summary tools require a prepared attempt.''"

definition assertWithinToolBudget :: "platform \<Rightarrow> PreparedAgentAttempt \<Rightarrow> json_object \<Rightarrow> agent_error + unit" where
  "assertWithinToolBudget env a summary =
     throw_plain (bu_maxToolResultBytes (pa_contextBudget a) < int (byteLength env (JObj summary)))
       ''Read-only tool result exceeds the prepared attempt tool-result budget.''"

definition assertNoForbiddenRawData :: "json \<Rightarrow> agent_error + unit" where
  "assertNoForbiddenRawData v = throw_plain (hasForbiddenRawData v)
     ''Read-only tool result contains forbidden raw, secret, SQL, or identifier-shaped data.''"

definition readSummary :: "platform \<Rightarrow> PreparedAgentAttempt \<Rightarrow> WorkerKind \<Rightarrow> string \<Rightarrow> agent_error + tool_result" where
  "readSummary env a kind committedJobId =
     and_then (assertPreparedForSummaryTool a) (\<lambda>_.
     and_then (requireFreshnessRef (pa_workerFreshnessRefs a) kind) (\<lambda>ref.
     and_then (throw_plain (wr_committedJobId ref \<noteq> committedJobId)
       (''Tool call is not scoped to the prepared '' @ kind_text kind @ '' freshness ref.'')) (\<lambda>_.
     and_then (assertWithinToolBudget env a (wr_outputSummary ref)) (\<lambda>_.
     and_then (assertNoForbiddenRawData (JObj (wr_outputSummary ref))) (\<lambda>_.
       Inr (Summary_result ref (wr_outputSummary ref)))))))"

definition readPreparedAttemptDeadLetterDiagnosis ::
  "PreparedAgentAttempt \<Rightarrow> agent_error + PreparedAttemptFailureReason option" where
  "readPreparedAttemptDeadLetterDiagnosis a =
     and_then (parse_attempt a) (\<lambda>parsed.
       Inr (if pa_status parsed = Blocked_dead_letter then pa_failureReason parsed else None))"

fun prepared_tool :: "platform \<Rightarrow> PreparedAgentAttempt \<Rightarrow> tool_call \<Rightarrow> agent_error + tool_result" where
  "prepared_tool env a (Call_worker_freshness kind) =
     and_then (assertPreparedForSummaryTool a) (\<lambda>_.
     and_then (requireFreshnessRef (pa_workerFreshnessRefs a) kind) (\<lambda>ref. Inr (Freshness_result ref)))"
| "prepared_tool env a (Call_projection_summary jobId) = readSummary env a Kind_projection jobId"
| "prepared_tool env a (Call_snapshot_summary jobId) = readSummary env a Kind_snapshot jobId"
| "prepared_tool env a (Call_benchmark_opportunity_gaps jobId) = readSummary env a Kind_benchmark jobId"
| "prepared_tool env a (Call_evidence_records jobId) = readSummary env a Kind_evidence jobId"
| "prepared_tool env a Call_dead_letter_diagnosis =
     and_then (readPreparedAttemptDeadLetterDiagnosis a) (\<lambda>r. Inr (Diagnosis_result r))"

definition createPreparedAttemptReadOnlyTools ::
  "platform \<Rightarrow> PreparedAgentAttempt \<Rightarrow> agent_error + (tool_call \<Rightarrow> agent_error + tool_result)" where
  "createPreparedAttemptReadOnlyTools env a =
     and_then (parse_attempt a) (\<lambda>parsed.
     and_then (throw_plain (pa_status parsed \<noteq> Prepared \<and> pa_status parsed \<noteq> Blocked_dead_letter)
       ''Read-only Agent tools require a prepared or blocked dead-letter attempt.'') (\<lambda>_.
       Inr (prepared_tool env parsed)))"

end
