(* ===== verification/AgentRedaction.thy ===== *)
theory AgentRedaction
  imports JsonText
begin

text \<open>
  The text guards of the agent's sidecar, \<open>containsSensitiveText\<close>, \<open>redactText\<close> and
  \<open>sanitizeJsonValue\<close> of \<open>src/src/agent/agent-sidecar.ts\<close>, with their regular expressions as
  matchers, and what a redacted text can no longer contain.
\<close>

section \<open>The expressions\<close>

definition not_space :: "char \<Rightarrow> bool" where
  "not_space c \<longleftrightarrow> \<not> js_space c"

definition key_char :: "char \<Rightarrow> bool" where
  "key_char c \<longleftrightarrow> js_word c \<or> c = CHR ''-''"

text \<open>\<open>/bearer\s+\S+/gi\<close>.\<close>

definition match_bearer_token :: matcher where
  "match_bearer_token prev s =
     (let spaces = span js_space (drop 6 s); vals = span not_space (drop (6 + spaces) s)
      in if ci_starts ''bearer'' s \<and> 0 < spaces \<and> 0 < vals
         then Some (6 + spaces + vals, ''bearer [redacted]'') else None)"

text \<open>\<open>/(...)=\S+/gi\<close> with a list of names, replaced by \<open>$1=[redacted]\<close>.\<close>

fun match_assignment :: "string list \<Rightarrow> matcher" where
  "match_assignment [] prev s = None"
| "match_assignment (name # names) prev s =
     (let n = length name; vals = span not_space (drop (n + 1) s)
      in if ci_starts name s \<and> starts_with ''='' (drop n s) \<and> 0 < vals
         then Some (n + 1 + vals, take n s @ ''=[redacted]'')
         else match_assignment names prev s)"

definition secret_assignment_names :: "string list" where
  "secret_assignment_names = [''authorization'', ''password'', ''secret'', ''token'', ''credential'', ''database_url'',
     ''auth'', ''key'']"

definition personal_assignment_names :: "string list" where
  "personal_assignment_names = [''paymentid'', ''customerphone'', ''customerid'', ''memberid'', ''card'', ''pan'']"

text \<open>The length of \<open>raw[-_ ]?payload\<close> at the head of a text.\<close>

definition raw_payload_length :: "string \<Rightarrow> nat option" where
  "raw_payload_length s =
     (let sep = (case drop 3 s of c # cs \<Rightarrow> if c \<in> {CHR ''-'', CHR ''_'', CHR '' ''} then 1 else 0 | [] \<Rightarrow> 0)
      in if ci_starts ''raw'' s \<and> ci_starts ''payload'' (drop (3 + sep) s) then Some (10 + sep) else None)"

definition match_raw_payload :: matcher where
  "match_raw_payload prev s =
     (case raw_payload_length s of
        None \<Rightarrow> None
      | Some n \<Rightarrow> Some (n + span not_space (drop n s), ''raw_payload=[redacted]''))"

text \<open>\<open>/sk-[A-Za-z0-9_-]+/g\<close>.\<close>

definition api_key_at :: "string \<Rightarrow> bool" where
  "api_key_at s \<longleftrightarrow> starts_with ''sk-'' s \<and> 0 < span key_char (drop 3 s)"

definition match_api_key :: matcher where
  "match_api_key prev s = (if api_key_at s then Some (3 + span key_char (drop 3 s), ''[redacted-key]'') else None)"

definition redactText :: "string \<Rightarrow> string" where
  "redactText value = replace_all match_api_key (replace_all match_raw_payload
     (replace_all (match_assignment personal_assignment_names) (replace_all (match_assignment secret_assignment_names)
        (replace_all match_bearer_token value))))"

text \<open>The expression of \<open>containsSensitiveText\<close>, all of it without regard to case.\<close>

definition sensitive_at :: "string \<Rightarrow> bool" where
  "sensitive_at s \<longleftrightarrow>
     (ci_starts ''bearer'' s \<and> 0 < span js_space (drop 6 s))
     \<or> list_ex (\<lambda>word. ci_starts word s)
         [''authorization:'', ''password='', ''secret='', ''token='', ''credential='', ''database_url'',
          ''begin rsa private key'', ''paymentid='', ''customerphone='', ''customerid='', ''memberid='', ''card='', ''pan='']
     \<or> (ci_starts ''sk-'' s \<and> 0 < span key_char (drop 3 s))
     \<or> raw_payload_length s \<noteq> None"

definition containsSensitiveText :: "string \<Rightarrow> bool" where
  "containsSensitiveText value = re_test sensitive_at value"

fun sanitizeJsonValue :: "json \<Rightarrow> json" where
  "sanitizeJsonValue (JStr s) = JStr (redactText s)"
| "sanitizeJsonValue (JArr vs) = JArr (map sanitizeJsonValue vs)"
| "sanitizeJsonValue (JObj entries) = JObj (map (\<lambda>(k, child). (k, sanitizeJsonValue child)) entries)"
| "sanitizeJsonValue v = v"

section \<open>No API key is left\<close>

text \<open>What an expression removed does not come back: an output that starts like a key was an input that does.\<close>

lemma match_api_key_hd: "match_api_key p t = Some (Suc n, r) \<Longrightarrow> r \<noteq> [] \<and> hd r = CHR ''[''"
  by (auto simp: match_api_key_def split: if_splits)

lemma replace_keys_head:
  assumes "replace_from match_api_key prev s = y # ys" "y \<noteq> CHR ''[''"
  obtains cs prev' where "s = y # cs" "ys = replace_from match_api_key prev' cs"
proof -
  have "\<exists>cs prev'. s = y # cs \<and> ys = replace_from match_api_key prev' cs"
    by (rule replace_from_head [OF assms(1)]) (use assms(2) match_api_key_hd in blast)
  then show ?thesis using that by blast
qed

lemma key_char_not_bracket: "key_char c \<Longrightarrow> c \<noteq> CHR ''[''"
  by (auto simp: key_char_def js_word_def)

lemma span_pos_iff: "0 < span P s \<longleftrightarrow> (\<exists>c cs. s = c # cs \<and> P c)"
  by (cases s) (auto simp: span_def)

lemma api_key_at_iff: "api_key_at s \<longleftrightarrow> (\<exists>c cs. s = CHR ''s'' # CHR ''k'' # CHR ''-'' # c # cs \<and> key_char c)"
proof
  assume "api_key_at s"
  then show "\<exists>c cs. s = CHR ''s'' # CHR ''k'' # CHR ''-'' # c # cs \<and> key_char c"
    unfolding api_key_at_def
    by (cases s; cases "tl s"; cases "tl (tl s)") (auto simp: span_pos_iff)
qed (auto simp: api_key_at_def span_pos_iff)

lemma api_key_of_output:
  assumes "api_key_at (replace_from match_api_key prev s)"
  shows "api_key_at s"
proof -
  from assms obtain c cs where out: "replace_from match_api_key prev s = CHR ''s'' # CHR ''k'' # CHR ''-'' # c # cs"
    and c: "key_char c" by (auto simp: api_key_at_iff)
  from out obtain s1 p1 where 1: "s = CHR ''s'' # s1" "CHR ''k'' # CHR ''-'' # c # cs = replace_from match_api_key p1 s1"
    by (rule replace_keys_head) auto
  from 1(2) [symmetric] obtain s2 p2 where 2: "s1 = CHR ''k'' # s2" "CHR ''-'' # c # cs = replace_from match_api_key p2 s2"
    by (rule replace_keys_head) auto
  from 2(2) [symmetric] obtain s3 p3 where 3: "s2 = CHR ''-'' # s3" "c # cs = replace_from match_api_key p3 s3"
    by (rule replace_keys_head) auto
  from 3(2) [symmetric] key_char_not_bracket [OF c] obtain s4 where "s3 = c # s4"
    by (rule replace_keys_head) auto
  with 1(1) 2(1) 3(1) c show ?thesis by (auto simp: api_key_at_iff)
qed

lemma no_api_key_left: "\<not> re_test api_key_at (replace_from match_api_key prev s)"
proof (induction match_api_key prev s rule: replace_from.induct)
  case (2 prev c cs)
  show ?case
  proof (cases "api_key_at (c # cs)")
    case True
    then obtain n where n: "match_api_key prev (c # cs) = Some (Suc n, ''[redacted-key]'')"
      by (auto simp: match_api_key_def)
    from 2 n have rest: "\<not> re_test api_key_at (replace_from match_api_key (Some (last (take (Suc n) (c # cs)))) (drop n cs))"
      by simp
    let ?rest = "replace_from match_api_key (Some (last (take (Suc n) (c # cs)))) (drop n cs)"
    have "\<not> re_test api_key_at (''[redacted-key]'' @ ?rest)"
      using rest by (simp add: api_key_at_iff)
    then show ?thesis unfolding replace_from_matched [of match_api_key, OF n] .
  next
    case False
    then have none: "match_api_key prev (c # cs) = None" by (simp add: match_api_key_def)
    have "\<not> api_key_at (replace_from match_api_key prev (c # cs))"
      using False api_key_of_output by blast
    moreover have "\<not> re_test api_key_at (replace_from match_api_key (Some c) cs)"
      using 2 none by simp
    ultimately show ?thesis unfolding replace_from_unmatched [of match_api_key, OF none] by simp
  qed
qed (simp add: api_key_at_iff)

lemma redactText_no_api_key: "\<not> re_test api_key_at (redactText s)"
  by (simp add: redactText_def replace_all_def no_api_key_left)

text \<open>The texts in a JSON value; its keys are not among them.\<close>

fun json_strings :: "json \<Rightarrow> string list" where
  "json_strings (JStr s) = [s]"
| "json_strings (JArr vs) = concat (map json_strings vs)"
| "json_strings (JObj entries) = concat (map (\<lambda>(k, v). json_strings v) entries)"
| "json_strings v = []"

lemma sanitized_no_api_key: "s \<in> set (json_strings (sanitizeJsonValue v)) \<Longrightarrow> \<not> re_test api_key_at s"
  by (induction v rule: sanitizeJsonValue.induct) (auto simp: redactText_no_api_key)

lemma sanitized_strings: "json_strings (sanitizeJsonValue v) = map redactText (json_strings v)"
  by (induction v rule: sanitizeJsonValue.induct) (auto simp: map_concat o_def intro!: arg_cong [of _ _ concat])

end
