(* ===== verification/AgentSidecar.thy ===== *)
theory AgentSidecar
  imports PreparedAttempt AgentRedaction
begin

text \<open>
  The agent's sidecar, \<open>src/src/agent/agent-sidecar.ts\<close>: one run of an agent over a prepared attempt,
  with its audit events, and the boundary every tool call goes through. The harness (the adapter of the
  model provider) is not under \<open>src\<close>: it is a tree of tool calls, each with a continuation over what the
  boundary answers. The store, the callbacks and the clock are the caller's. A step is a function on the
  run's state that returns or throws; what it did to the state before it threw stays done.
\<close>

section \<open>Records\<close>

datatype AgentRunStatus = Run_started | Run_draft_captured | Run_failed

datatype AgentRunEventType =
  Ev_run_started | Ev_attempt_loaded | Ev_policy_evaluated | Ev_runtime_selected | Ev_harness_invoked
| Ev_tool_call_attempt | Ev_tool_call_denied | Ev_tool_result_sanitized | Ev_harness_transcript_event
| Ev_draft_captured | Ev_draft_validation_evaluated | Ev_merchant_review_requested | Ev_run_failed

fun event_type_text :: "AgentRunEventType \<Rightarrow> string" where
  "event_type_text Ev_run_started = ''run_started''"
| "event_type_text Ev_attempt_loaded = ''attempt_loaded''"
| "event_type_text Ev_policy_evaluated = ''policy_evaluated''"
| "event_type_text Ev_runtime_selected = ''runtime_selected''"
| "event_type_text Ev_harness_invoked = ''harness_invoked''"
| "event_type_text Ev_tool_call_attempt = ''tool_call_attempt''"
| "event_type_text Ev_tool_call_denied = ''tool_call_denied''"
| "event_type_text Ev_tool_result_sanitized = ''tool_result_sanitized''"
| "event_type_text Ev_harness_transcript_event = ''harness_transcript_event''"
| "event_type_text Ev_draft_captured = ''draft_captured''"
| "event_type_text Ev_draft_validation_evaluated = ''draft_validation_evaluated''"
| "event_type_text Ev_merchant_review_requested = ''merchant_review_requested''"
| "event_type_text Ev_run_failed = ''run_failed''"

datatype AgentRuntimeMode = Mode_pi_sdk_adapter | Mode_unselected

fun runtime_mode_text :: "AgentRuntimeMode \<Rightarrow> string" where
  "runtime_mode_text Mode_pi_sdk_adapter = ''pi_sdk_adapter''"
| "runtime_mode_text Mode_unselected = ''unselected''"

record AgentRuntimeUsage =
  us_inputTokens :: "int option"
  us_outputTokens :: "int option"
  us_totalTokens :: "int option"
  us_estimatedCostMicros :: "int option"
  us_currency :: "string option"

definition count_shape :: "int option \<Rightarrow> bool" where
  "count_shape n \<longleftrightarrow> (case n of None \<Rightarrow> True | Some i \<Rightarrow> 0 \<le> i \<and> i \<le> max_safe_integer)"

definition usage_shape :: "AgentRuntimeUsage \<Rightarrow> bool" where
  "usage_shape u \<longleftrightarrow> count_shape (us_inputTokens u) \<and> count_shape (us_outputTokens u)
     \<and> count_shape (us_totalTokens u) \<and> count_shape (us_estimatedCostMicros u)
     \<and> (case us_currency u of None \<Rightarrow> True | Some c \<Rightarrow> nonempty c \<and> length c \<le> 16)"

record DraftExperimentPlan =
  dp_objective :: string
  dp_measurementMetricId :: string
  dp_guardrailMetricIds :: "string list"
  dp_merchantReviewRequired :: bool

record AgentDraftOutput =
  dx_outputKind :: string
  dx_truthStatus :: string
  dx_hypothesis :: string
  dx_reasoningSummary :: string
  dx_draftExperimentPlan :: DraftExperimentPlan
  dx_evidenceRefs :: "string list"
  dx_allowedDraftOperationsUsed :: "string list"
  dx_requestedCoreWrites :: "json list"
  dx_disallowedMutationTargetsAcknowledged :: "string list"

definition draft_shape :: "AgentDraftOutput \<Rightarrow> bool" where
  "draft_shape d \<longleftrightarrow>
     dx_outputKind d = ''intervention_hypothesis_draft'' \<and> dx_truthStatus d = ''agent_draft_not_core_truth''
     \<and> nonempty (dx_hypothesis d) \<and> nonempty (dx_reasoningSummary d)
     \<and> nonempty (dp_objective (dx_draftExperimentPlan d)) \<and> nonempty (dp_measurementMetricId (dx_draftExperimentPlan d))
     \<and> list_all nonempty (dp_guardrailMetricIds (dx_draftExperimentPlan d))
     \<and> dp_merchantReviewRequired (dx_draftExperimentPlan d)
     \<and> list_all nonempty (dx_evidenceRefs d) \<and> list_all nonempty (dx_allowedDraftOperationsUsed d)
     \<and> dx_requestedCoreWrites d = [] \<and> dx_disallowedMutationTargetsAcknowledged d \<noteq> []
     \<and> list_all nonempty (dx_disallowedMutationTargetsAcknowledged d)"

record AgentRun =
  ar_agentRunId :: string
  ar_sessionId :: string
  ar_attemptId :: string
  ar_brandId :: string
  ar_storeId :: string
  ar_opportunityGapId :: string
  ar_status :: AgentRunStatus
  ar_startedAt :: string
  ar_completedAt :: "string option"
  ar_provider :: string
  ar_model :: string
  ar_profile :: string
  ar_runtimeMode :: AgentRuntimeMode
  ar_authRef :: string
  ar_promptRef :: string
  ar_contextBundleVersion :: string
  ar_contextSeedHash :: string
  ar_toolCatalogVersion :: string
  ar_toolPolicyVersion :: string
  ar_runtimeUsage :: "AgentRuntimeUsage option"
  ar_draft :: "AgentDraftOutput option"
  ar_errorMessage :: "string option"
  ar_evidenceRefs :: "string list"

definition run_shape :: "AgentRun \<Rightarrow> bool" where
  "run_shape r \<longleftrightarrow>
     nonempty (ar_agentRunId r) \<and> nonempty (ar_sessionId r) \<and> nonempty (ar_attemptId r) \<and> nonempty (ar_brandId r)
     \<and> nonempty (ar_storeId r) \<and> nonempty (ar_opportunityGapId r) \<and> nonempty (ar_startedAt r)
     \<and> optional_nonempty (ar_completedAt r) \<and> nonempty (ar_provider r) \<and> nonempty (ar_model r)
     \<and> nonempty (ar_profile r) \<and> nonempty (ar_authRef r) \<and> nonempty (ar_promptRef r)
     \<and> ar_contextBundleVersion r = ''agent-context-bundle.v1'' \<and> nonempty (ar_contextSeedHash r)
     \<and> ar_toolCatalogVersion r = ''agent-read-tools.v1'' \<and> ar_toolPolicyVersion r = ''agent-runtime-policy.v1''
     \<and> (case ar_runtimeUsage r of None \<Rightarrow> True | Some u \<Rightarrow> usage_shape u)
     \<and> (case ar_draft r of None \<Rightarrow> True | Some d \<Rightarrow> draft_shape d)
     \<and> optional_nonempty (ar_errorMessage r) \<and> list_all nonempty (ar_evidenceRefs r)"

definition parse_run :: "AgentRun \<Rightarrow> agent_error + AgentRun" where
  "parse_run r = parse_as Schema_run (run_shape r) r"

record AgentRunEvent =
  av_agentRunEventId :: string
  av_agentRunId :: string
  av_sessionId :: string
  av_storeId :: string
  av_opportunityGapId :: string
  av_eventType :: AgentRunEventType
  av_occurredAt :: string
  av_metadata :: json_object

definition run_event_shape :: "AgentRunEvent \<Rightarrow> bool" where
  "run_event_shape e \<longleftrightarrow>
     nonempty (av_agentRunEventId e) \<and> nonempty (av_agentRunId e) \<and> nonempty (av_sessionId e)
     \<and> nonempty (av_storeId e) \<and> nonempty (av_opportunityGapId e) \<and> nonempty (av_occurredAt e)
     \<and> json_numbers_finite (JObj (av_metadata e))"

definition parse_run_event :: "AgentRunEvent \<Rightarrow> agent_error + AgentRunEvent" where
  "parse_run_event e = parse_as Schema_event (run_event_shape e) e"

record AgentAttemptPrompt =
  pm_promptRef :: string
  pm_systemInstructions :: string

definition prompt_shape :: "AgentAttemptPrompt \<Rightarrow> bool" where
  "prompt_shape p \<longleftrightarrow> nonempty (pm_promptRef p) \<and> nonempty (pm_systemInstructions p)"

record AgentRuntimePolicy =
  po_policyVersion :: string
  po_toolCatalogVersion :: string
  po_mutationPolicy :: string
  po_accepted :: bool
  po_allowedToolNames :: "AgentReadOnlyToolName list"

definition policy_shape :: "AgentRuntimePolicy \<Rightarrow> bool" where
  "policy_shape p \<longleftrightarrow> po_policyVersion p = ''agent-runtime-policy.v1''
     \<and> po_toolCatalogVersion p = ''agent-read-tools.v1'' \<and> po_mutationPolicy p = no_core_or_business_mutation
     \<and> po_accepted p \<and> po_allowedToolNames p \<noteq> []"

record SelectedAgentRuntimeConfig =
  rt_provider :: string
  rt_model :: string
  rt_profile :: string
  rt_runtimeMode :: AgentRuntimeMode
  rt_authRef :: string

definition runtime_shape :: "SelectedAgentRuntimeConfig \<Rightarrow> bool" where
  "runtime_shape c \<longleftrightarrow> nonempty (rt_provider c) \<and> nonempty (rt_model c) \<and> nonempty (rt_profile c)
     \<and> rt_runtimeMode c = Mode_pi_sdk_adapter \<and> nonempty (rt_authRef c)"

datatype transcript_type = Tr_tool_call | Tr_tool_result | Tr_reasoning_summary | Tr_draft_emitted

fun transcript_type_text :: "transcript_type \<Rightarrow> string" where
  "transcript_type_text Tr_tool_call = ''tool_call''"
| "transcript_type_text Tr_tool_result = ''tool_result''"
| "transcript_type_text Tr_reasoning_summary = ''reasoning_summary''"
| "transcript_type_text Tr_draft_emitted = ''draft_emitted''"

record AgentHarnessTranscriptEvent =
  te_type :: transcript_type
  te_toolName :: "AgentReadOnlyToolName option"
  te_summary :: string

record AgentHarnessTurnResult =
  tu_draft :: AgentDraftOutput
  tu_transcript :: "AgentHarnessTranscriptEvent list"
  tu_runtimeUsage :: "AgentRuntimeUsage option"

section \<open>What the caller supplies\<close>

text \<open>
  The harness of one turn: it finishes, throws, or calls a tool with an input (\<open>None\<close> for
  \<open>undefined\<close>) and goes on with the answer. A turn that never ends is not a value of this type.
\<close>

datatype harness =
  Finish AgentHarnessTurnResult
| Fail agent_error
| Call_tool AgentReadOnlyToolName "json option" "agent_error + json option \<Rightarrow> harness"

text \<open>\<open>runTurn\<close> sees the attempt, the prompt, the policy and the configuration.\<close>

record SelectedAgentRuntime =
  ru_config :: SelectedAgentRuntimeConfig
  ru_runTurn :: "(PreparedAgentAttempt \<Rightarrow> AgentAttemptPrompt \<Rightarrow> AgentRuntimePolicy \<Rightarrow> SelectedAgentRuntimeConfig
                   \<Rightarrow> harness) option"

text \<open>
  The tools: the names of their own function entries, whether a name is a function, and what a call
  answers; an answer is a JSON value or \<open>undefined\<close>.
\<close>

record tool_surface =
  su_ownFunctions :: "string list"
  su_hasFunction :: "AgentReadOnlyToolName \<Rightarrow> bool"
  su_call :: "tool_call \<Rightarrow> agent_error + json option"

text \<open>A callback answers \<open>Some\<close> error when it throws; every event has its own id, every transcript
event its own place, so an answer may depend on all that went before.\<close>

record AgentHarnessCallbacks =
  cb_onAuditEvent :: "AgentRunEvent \<Rightarrow> agent_error option"
  cb_onTranscriptEvent :: "nat \<Rightarrow> AgentHarnessTranscriptEvent \<Rightarrow> agent_error option"

record 's AgentRunAuditStore =
  as_appendRun :: "AgentRun \<Rightarrow> 's \<Rightarrow> (agent_error + unit) \<times> 's"
  as_appendEvent :: "AgentRunEvent \<Rightarrow> 's \<Rightarrow> (agent_error + unit) \<times> 's"
  as_replaceRun :: "AgentRun \<Rightarrow> 's \<Rightarrow> (agent_error + unit) \<times> 's"

text \<open>\<open>InMemoryAgentRunAuditStore\<close>.\<close>

record mem_audit =
  mu_runs :: "(string, AgentRun) jsmap"
  mu_events :: "AgentRunEvent list"

definition mem_put_run :: "AgentRun \<Rightarrow> mem_audit \<Rightarrow> (agent_error + unit) \<times> mem_audit" where
  "mem_put_run r st = (case parse_run r of
       Inl e \<Rightarrow> (Inl e, st)
     | Inr run \<Rightarrow> (Inr (), st\<lparr>mu_runs := map_set (ar_agentRunId r) run (mu_runs st)\<rparr>))"

definition mem_append_event :: "AgentRunEvent \<Rightarrow> mem_audit \<Rightarrow> (agent_error + unit) \<times> mem_audit" where
  "mem_append_event e st = (case parse_run_event e of
       Inl err \<Rightarrow> (Inl err, st)
     | Inr ev \<Rightarrow> (Inr (), st\<lparr>mu_events := mu_events st @ [ev]\<rparr>))"

definition mem_audit_ops :: "mem_audit AgentRunAuditStore" where
  "mem_audit_ops = \<lparr>as_appendRun = mem_put_run, as_appendEvent = mem_append_event, as_replaceRun = mem_put_run\<rparr>"

record 's RunAgentAttemptInput =
  ra_preparedAttempt :: PreparedAgentAttempt
  ra_prompt :: AgentAttemptPrompt
  ra_tools :: "tool_surface option"
  ra_policy :: AgentRuntimePolicy
  ra_runtime :: SelectedAgentRuntime
  ra_auditStore :: "'s AgentRunAuditStore"
  ra_callbacks :: "AgentHarnessCallbacks option"
  ra_now :: "nat \<Rightarrow> string"

section \<open>Steps\<close>

text \<open>The state: the array \<open>events\<close>, the store, and how often the clock was read.\<close>

record 's agent_state =
  ag_events :: "AgentRunEvent list"
  ag_store :: 's
  ag_ticks :: nat

type_synonym ('s, 'a) step = "'s agent_state \<Rightarrow> (agent_error + 'a) \<times> 's agent_state"

definition return_step :: "'a \<Rightarrow> ('s, 'a) step" where
  "return_step a st = (Inr a, st)"

definition lift_step :: "agent_error + 'a \<Rightarrow> ('s, 'a) step" where
  "lift_step r st = (r, st)"

definition bind_step :: "('s, 'a) step \<Rightarrow> ('a \<Rightarrow> ('s, 'b) step) \<Rightarrow> ('s, 'b) step" where
  "bind_step m f st = (case m st of (Inl e, st') \<Rightarrow> (Inl e, st') | (Inr a, st') \<Rightarrow> f a st')"

definition read_clock :: "(nat \<Rightarrow> string) \<Rightarrow> ('s, string) step" where
  "read_clock now st = (Inr (now (ag_ticks st)), st\<lparr>ag_ticks := ag_ticks st + 1\<rparr>)"

definition store_step :: "('s \<Rightarrow> (agent_error + unit) \<times> 's) \<Rightarrow> ('s, unit) step" where
  "store_step f st = (case f (ag_store st) of (r, store) \<Rightarrow> (r, st\<lparr>ag_store := store\<rparr>))"

definition toJsonMetadata :: "(string \<times> json option) list \<Rightarrow> json_object" where
  "toJsonMetadata entries = List.map_filter (\<lambda>(k, v). map_option (Pair k) v) entries"

definition nat_json :: "nat \<Rightarrow> json option" where
  "nat_json n = Some (JNum (Finite (of_nat n)))"

definition run_event ::
  "PreparedAgentAttempt \<Rightarrow> nat \<Rightarrow> AgentRunEventType \<Rightarrow> string \<Rightarrow> (string \<times> json option) list \<Rightarrow> AgentRunEvent" where
  "run_event a n eventType occurredAt metadata =
     \<lparr>av_agentRunEventId = ''agent_run_event:'' @ pa_agentRunId a @ '':'' @ nat_text n,
      av_agentRunId = pa_agentRunId a, av_sessionId = pa_sessionId a, av_storeId = pa_storeId a,
      av_opportunityGapId = pa_opportunityGapId a, av_eventType = eventType, av_occurredAt = occurredAt,
      av_metadata = toJsonMetadata metadata\<rparr>"

definition push_event :: "AgentRunEvent \<Rightarrow> ('s, unit) step" where
  "push_event e st = (Inr (), st\<lparr>ag_events := ag_events st @ [e]\<rparr>)"

definition call_back :: "agent_error option \<Rightarrow> ('s, unit) step" where
  "call_back answer = lift_step (case answer of None \<Rightarrow> Inr () | Some e \<Rightarrow> Inl e)"

definition appendEvent ::
  "'s RunAgentAttemptInput \<Rightarrow> AgentHarnessCallbacks option \<Rightarrow> AgentRunEventType \<Rightarrow> string
   \<Rightarrow> (string \<times> json option) list \<Rightarrow> ('s, unit) step" where
  "appendEvent inp callbacks eventType occurredAt metadata st =
     (let e = run_event (ra_preparedAttempt inp) (length (ag_events st) + 1) eventType occurredAt metadata in
      bind_step (lift_step (parse_run_event e)) (\<lambda>event.
      bind_step (push_event event) (\<lambda>_.
      bind_step (store_step (as_appendEvent (ra_auditStore inp) event)) (\<lambda>_.
        case callbacks of None \<Rightarrow> return_step () | Some cbs \<Rightarrow> call_back (cb_onAuditEvent cbs event)))) st)"

text \<open>The time of an event is read where the event is appended.\<close>

definition appendEventNow ::
  "'s RunAgentAttemptInput \<Rightarrow> AgentHarnessCallbacks \<Rightarrow> AgentRunEventType \<Rightarrow> (string \<times> json option) list
   \<Rightarrow> ('s, unit) step" where
  "appendEventNow inp callbacks eventType metadata =
     bind_step (read_clock (ra_now inp)) (\<lambda>occurredAt. appendEvent inp (Some callbacks) eventType occurredAt metadata)"

section \<open>The tool boundary\<close>

definition worker_kind_of :: "string \<Rightarrow> WorkerKind option" where
  "worker_kind_of s = find (\<lambda>k. kind_text k = s) [Kind_projection, Kind_snapshot, Kind_benchmark, Kind_evidence]"

definition job_id_input :: "(string \<Rightarrow> tool_call) \<Rightarrow> json option \<Rightarrow> agent_error + tool_call" where
  "job_id_input call toolInput =
     (case toolInput of
        Some (JObj entries) \<Rightarrow>
          (case get_prop entries ''committedJobId'' of
             Some (JStr s) \<Rightarrow> parse_as Schema_tool_input (nonempty s) (call s)
           | _ \<Rightarrow> Inl (Parse_error Schema_tool_input))
      | _ \<Rightarrow> Inl (Parse_error Schema_tool_input))"

fun parse_tool_call :: "AgentReadOnlyToolName \<Rightarrow> json option \<Rightarrow> agent_error + tool_call" where
  "parse_tool_call Tool_worker_freshness toolInput =
     (case toolInput of
        Some (JObj entries) \<Rightarrow>
          (case get_prop entries ''workerKind'' of
             Some (JStr s) \<Rightarrow>
               (case worker_kind_of s of
                  Some k \<Rightarrow> Inr (Call_worker_freshness k)
                | None \<Rightarrow> Inl (Parse_error Schema_tool_input))
           | _ \<Rightarrow> Inl (Parse_error Schema_tool_input))
      | _ \<Rightarrow> Inl (Parse_error Schema_tool_input))"
| "parse_tool_call Tool_projection_summary toolInput = job_id_input Call_projection_summary toolInput"
| "parse_tool_call Tool_snapshot_summary toolInput = job_id_input Call_snapshot_summary toolInput"
| "parse_tool_call Tool_benchmark_opportunity_gaps toolInput = job_id_input Call_benchmark_opportunity_gaps toolInput"
| "parse_tool_call Tool_evidence_records toolInput = job_id_input Call_evidence_records toolInput"
| "parse_tool_call Tool_dead_letter_diagnosis toolInput = Inr Call_dead_letter_diagnosis"

definition callPreparedTool ::
  "tool_surface \<Rightarrow> AgentReadOnlyToolName \<Rightarrow> json option \<Rightarrow> agent_error + json option" where
  "callPreparedTool tools toolName toolInput = and_then (parse_tool_call toolName toolInput) (su_call tools)"

text \<open>\<open>Buffer.byteLength(JSON.stringify(value))\<close>: the text of \<open>undefined\<close> is \<open>undefined\<close>, which
\<open>byteLength\<close> does not take.\<close>

definition resultByteLength :: "platform \<Rightarrow> json option \<Rightarrow> agent_error + nat" where
  "resultByteLength env v =
     (case v of None \<Rightarrow> Inl Type_error | Some j \<Rightarrow> Inr (utf8_bytes (json_text (env_numberText env) j)))"

definition tool_metadata :: "AgentRuntimePolicy \<Rightarrow> AgentReadOnlyToolName \<Rightarrow> (string \<times> json option) list" where
  "tool_metadata policy toolName =
     [(''toolName'', Some (JStr (tool_text toolName))), (''policyVersion'', Some (JStr (po_policyVersion policy))),
      (''mutationPolicy'', Some (JStr (po_mutationPolicy policy)))]"

definition guardedToolCall ::
  "platform \<Rightarrow> 's RunAgentAttemptInput \<Rightarrow> AgentHarnessCallbacks \<Rightarrow> AgentRuntimePolicy \<Rightarrow> tool_surface
   \<Rightarrow> AgentReadOnlyToolName \<Rightarrow> json option \<Rightarrow> ('s, json option) step" where
  "guardedToolCall env inp callbacks policy tools toolName toolInput =
     (if toolName \<notin> set (po_allowedToolNames policy)
      then bind_step (appendEventNow inp callbacks Ev_tool_call_denied
             [(''toolName'', Some (JStr (tool_text toolName))),
              (''reason'', Some (JStr ''tool_not_allowed_by_runtime_policy'')),
              (''policyVersion'', Some (JStr (po_policyVersion policy))),
              (''mutationPolicy'', Some (JStr (po_mutationPolicy policy)))])
           (\<lambda>_. lift_step (Inl (Plain_error
              (''Agent runtime policy denied tool call before execution: '' @ tool_text toolName @ ''.''))))
      else
        bind_step (appendEventNow inp callbacks Ev_tool_call_attempt (tool_metadata policy toolName)) (\<lambda>_.
        bind_step (lift_step (callPreparedTool tools toolName toolInput)) (\<lambda>rawResult.
        let sanitizedResult = map_option sanitizeJsonValue rawResult;
            maxBytes = bu_maxToolResultBytes (pa_contextBudget (ra_preparedAttempt inp)) in
        bind_step (lift_step (resultByteLength env sanitizedResult)) (\<lambda>resultBytes.
        if maxBytes < int resultBytes
        then bind_step (appendEventNow inp callbacks Ev_tool_call_denied
               [(''toolName'', Some (JStr (tool_text toolName))),
                (''reason'', Some (JStr ''sanitized_tool_result_exceeds_budget'')),
                (''resultBytes'', nat_json resultBytes),
                (''maxToolResultBytes'', Some (JNum (Finite (of_int maxBytes)))),
                (''policyVersion'', Some (JStr (po_policyVersion policy)))])
             (\<lambda>_. lift_step (Inl (Plain_error
                (''Agent runtime tool result exceeded sanitized result budget: '' @ tool_text toolName @ ''.''))))
        else bind_step (appendEventNow inp callbacks Ev_tool_result_sanitized
               [(''toolName'', Some (JStr (tool_text toolName))), (''resultBytes'', nat_json resultBytes),
                (''policyVersion'', Some (JStr (po_policyVersion policy))),
                (''mutationPolicy'', Some (JStr (po_mutationPolicy policy)))])
             (\<lambda>_. return_step sanitizedResult)))))"

text \<open>The turn: the harness sees the tools through the boundary only.\<close>

primrec run_harness ::
  "(AgentReadOnlyToolName \<Rightarrow> json option \<Rightarrow> ('s, json option) step) \<Rightarrow> harness \<Rightarrow> ('s, AgentHarnessTurnResult) step" where
  "run_harness boundary (Finish r) = return_step r"
| "run_harness boundary (Fail e) = lift_step (Inl e)"
| "run_harness boundary (Call_tool toolName toolInput k) =
     (\<lambda>st. case boundary toolName toolInput st of (answer, st') \<Rightarrow> run_harness boundary (k answer) st')"

section \<open>The checks before a turn\<close>

definition assertNoCoreWrites :: "AgentDraftOutput \<Rightarrow> agent_error + unit" where
  "assertNoCoreWrites d =
     and_then (throw_plain (dx_truthStatus d \<noteq> ''agent_draft_not_core_truth'')
       ''Agent draft must not be promoted to Core truth.'') (\<lambda>_.
     throw_plain (dx_requestedCoreWrites d \<noteq> []) ''Agent draft requested deterministic Core writes.'')"

definition assertPreparedAttemptConsumable :: "PreparedAgentAttempt \<Rightarrow> agent_error + unit" where
  "assertPreparedAttemptConsumable a =
     and_then (throw_plain (pa_status a \<noteq> Prepared)
       (''Prepared attempt is not consumable by Agent runtime: '' @ attempt_status_text (pa_status a) @ ''.'')) (\<lambda>_.
     throw_plain (pa_contextSeed a = None \<or> \<not> truthy (pa_contextSeedHash a))
       ''Prepared attempt is missing context seed or context seed hash.'')"

definition parsePrompt :: "AgentAttemptPrompt \<Rightarrow> agent_error + AgentAttemptPrompt" where
  "parsePrompt p =
     and_then (parse_as Schema_prompt (prompt_shape p) p) (\<lambda>prompt.
     and_then (throw_plain (containsSensitiveText (pm_promptRef prompt) \<or> containsSensitiveText (pm_systemInstructions prompt))
       ''Agent prompt contains sensitive token-like content and cannot be sent to runtime.'') (\<lambda>_. Inr prompt))"

definition parseAndCheckPolicy :: "AgentRuntimePolicy \<Rightarrow> PreparedAgentAttempt \<Rightarrow> agent_error + AgentRuntimePolicy" where
  "parseAndCheckPolicy p a =
     and_then (parse_as Schema_policy (policy_shape p) p) (\<lambda>policy.
     and_then (throw_plain (po_toolCatalogVersion policy \<noteq> pa_toolCatalogVersion a)
       ''Agent runtime policy tool catalog version does not match prepared attempt catalog version.'') (\<lambda>_.
     case find (\<lambda>t. t \<notin> set (pa_allowedReadCapabilities a)) (po_allowedToolNames policy) of
       Some t \<Rightarrow> Inl (Plain_error (''Agent runtime policy allows a tool outside prepared attempt scope: '' @ tool_text t @ ''.''))
     | None \<Rightarrow> Inr policy))"

definition parseRuntime :: "SelectedAgentRuntime \<Rightarrow> agent_error + SelectedAgentRuntimeConfig" where
  "parseRuntime r =
     and_then (parse_as Schema_runtime (runtime_shape (ru_config r)) (ru_config r)) (\<lambda>runtime.
     and_then (throw_plain (containsSensitiveText (rt_authRef runtime) \<or> containsSensitiveText (rt_provider runtime)
         \<or> containsSensitiveText (rt_model runtime))
       ''Agent runtime selection contains sensitive auth/provider/model text.'') (\<lambda>_. Inr runtime))"

definition assertToolSurface :: "tool_surface option \<Rightarrow> AgentRuntimePolicy \<Rightarrow> agent_error + tool_surface" where
  "assertToolSurface tools policy =
     (case tools of
        None \<Rightarrow> Inl (Plain_error ''Agent runtime requires a read-only tool surface.'')
      | Some su \<Rightarrow>
          (let unregistered = find (\<lambda>name. name \<notin> set (map tool_text SAFE_AGENT_TOOL_NAMES)) (su_ownFunctions su) in
           if truthy unregistered
           then Inl (Plain_error (''Agent runtime tool surface contains unregistered tool: '' @ the unregistered @ ''.''))
           else (case find (\<lambda>t. \<not> su_hasFunction su t) (po_allowedToolNames policy) of
                   Some t \<Rightarrow> Inl (Plain_error (''Agent runtime policy references unavailable tool: '' @ tool_text t @ ''.''))
                 | None \<Rightarrow> Inr su)))"

definition baseAuditRun :: "'s RunAgentAttemptInput \<Rightarrow> PreparedAgentAttempt \<Rightarrow> string \<Rightarrow> agent_error + AgentRun" where
  "baseAuditRun inp a startedAt =
     (let config = ru_config (ra_runtime inp); ok = runtime_shape config in
      parse_run
        \<lparr>ar_agentRunId = pa_agentRunId a, ar_sessionId = pa_sessionId a, ar_attemptId = pa_attemptId a,
         ar_brandId = pa_brandId a, ar_storeId = pa_storeId a, ar_opportunityGapId = pa_opportunityGapId a,
         ar_status = Run_started, ar_startedAt = startedAt, ar_completedAt = None,
         ar_provider = (if ok then rt_provider config else ''unselected''),
         ar_model = (if ok then rt_model config else ''unselected''),
         ar_profile = (if ok then rt_profile config else ''unselected''),
         ar_runtimeMode = (if ok then rt_runtimeMode config else Mode_unselected),
         ar_authRef = (if ok then rt_authRef config else ''unselected''),
         ar_promptRef = (if prompt_shape (ra_prompt inp) then pm_promptRef (ra_prompt inp) else ''unselected''),
         ar_contextBundleVersion = pa_contextBundleVersion a,
         ar_contextSeedHash = or_else (pa_contextSeedHash a) ''missing_context_seed_hash'',
         ar_toolCatalogVersion = pa_toolCatalogVersion a,
         ar_toolPolicyVersion = (if policy_shape (ra_policy inp) then po_policyVersion (ra_policy inp)
                                 else ''agent-runtime-policy.v1''),
         ar_runtimeUsage = None, ar_draft = None, ar_errorMessage = None,
         ar_evidenceRefs = (case pa_contextSeed a of None \<Rightarrow> [] | Some s \<Rightarrow> cs_evidenceRefs s)\<rparr>)"

section \<open>runAgentAttempt\<close>

definition elapsedMs :: "platform \<Rightarrow> string \<Rightarrow> string \<Rightarrow> int" where
  "elapsedMs env startedAt completedAt =
     (case (env_dateParse env startedAt, env_dateParse env completedAt) of
        (Some started, Some completed) \<Rightarrow> if completed < started then 0 else completed - started
      | _ \<Rightarrow> 0)"

definition int_json :: "int \<Rightarrow> json" where
  "int_json i = JNum (Finite (of_int i))"

definition runtimeUsageMetadata :: "AgentRuntimeUsage \<Rightarrow> json" where
  "runtimeUsageMetadata u = JObj (toJsonMetadata
     [(''inputTokens'', map_option int_json (us_inputTokens u)), (''outputTokens'', map_option int_json (us_outputTokens u)),
      (''totalTokens'', map_option int_json (us_totalTokens u)),
      (''estimatedCostMicros'', map_option int_json (us_estimatedCostMicros u)),
      (''currency'', map_option JStr (us_currency u))])"

fun append_transcript ::
  "'s RunAgentAttemptInput \<Rightarrow> AgentHarnessCallbacks \<Rightarrow> nat \<Rightarrow> AgentHarnessTranscriptEvent list \<Rightarrow> ('s, unit) step" where
  "append_transcript inp callbacks n [] = return_step ()"
| "append_transcript inp callbacks n (t # ts) =
     bind_step (call_back (cb_onTranscriptEvent callbacks n t)) (\<lambda>_.
     bind_step (appendEventNow inp callbacks Ev_harness_transcript_event
       [(''type'', Some (JStr (transcript_type_text (te_type t)))),
        (''toolName'', Some (JStr (case te_toolName t of None \<Rightarrow> ''none'' | Some name \<Rightarrow> tool_text name))),
        (''summary'', Some (JStr (redactText (te_summary t))))]) (\<lambda>_.
     append_transcript inp callbacks (n + 1) ts))"

text \<open>The \<open>try\<close> block up to the harness: the parsed inputs of the turn.\<close>

definition load_attempt ::
  "'s RunAgentAttemptInput \<Rightarrow> AgentHarnessCallbacks \<Rightarrow> string
   \<Rightarrow> ('s, AgentAttemptPrompt \<times> AgentRuntimePolicy \<times> tool_surface) step" where
  "load_attempt inp callbacks startedAt =
     (let a = ra_preparedAttempt inp in
      bind_step (appendEvent inp (Some callbacks) Ev_run_started startedAt
        [(''attemptId'', Some (JStr (pa_attemptId a))), (''status'', Some (JStr (attempt_status_text (pa_status a))))]) (\<lambda>_.
      bind_step (lift_step (assertPreparedAttemptConsumable a)) (\<lambda>_.
      bind_step (appendEventNow inp callbacks Ev_attempt_loaded
        [(''contextSeedHash'', Some (JStr (or_else (pa_contextSeedHash a) ''missing''))),
         (''freshnessRefCount'', nat_json (length (pa_workerFreshnessRefs a)))]) (\<lambda>_.
      bind_step (lift_step (parsePrompt (ra_prompt inp))) (\<lambda>prompt.
      bind_step (lift_step (parseAndCheckPolicy (ra_policy inp) a)) (\<lambda>policy.
      bind_step (lift_step (assertToolSurface (ra_tools inp) policy)) (\<lambda>tools.
      bind_step (appendEventNow inp callbacks Ev_policy_evaluated
        [(''policyVersion'', Some (JStr (po_policyVersion policy))),
         (''toolCatalogVersion'', Some (JStr (po_toolCatalogVersion policy))),
         (''mutationPolicy'', Some (JStr (po_mutationPolicy policy))),
         (''allowedToolNames'', Some (JArr (map (JStr \<circ> tool_text) (po_allowedToolNames policy)))),
         (''deniedCapabilities'', Some (JArr (map JStr (pa_forbiddenCapabilities a))))]) (\<lambda>_.
      return_step (prompt, policy, tools)))))))))"

definition select_runtime ::
  "'s RunAgentAttemptInput \<Rightarrow> AgentHarnessCallbacks \<Rightarrow> AgentAttemptPrompt \<Rightarrow> AgentRuntimePolicy \<Rightarrow> ('s, harness) step" where
  "select_runtime inp callbacks prompt policy =
     bind_step (lift_step (parseRuntime (ra_runtime inp))) (\<lambda>runtime.
     bind_step (lift_step (case ru_runTurn (ra_runtime inp) of
         None \<Rightarrow> Inl (Plain_error ''Agent runtime selection is missing the harness turn callback.'')
       | Some runTurn \<Rightarrow> Inr runTurn)) (\<lambda>runTurn.
     bind_step (appendEventNow inp callbacks Ev_runtime_selected
       [(''provider'', Some (JStr (rt_provider runtime))), (''model'', Some (JStr (rt_model runtime))),
        (''profile'', Some (JStr (rt_profile runtime))),
        (''runtimeMode'', Some (JStr (runtime_mode_text (rt_runtimeMode runtime)))),
        (''authRef'', Some (JStr (rt_authRef runtime)))]) (\<lambda>_.
     bind_step (appendEventNow inp callbacks Ev_harness_invoked
       [(''runtimeMode'', Some (JStr (runtime_mode_text (rt_runtimeMode runtime)))),
        (''toolCount'', nat_json (length (po_allowedToolNames policy))),
        (''toolPolicyVersion'', Some (JStr (po_policyVersion policy))),
        (''mutationPolicy'', Some (JStr (po_mutationPolicy policy)))]) (\<lambda>_.
     return_step (runTurn (ra_preparedAttempt inp) prompt policy runtime)))))"

definition capture_draft ::
  "platform \<Rightarrow> 's RunAgentAttemptInput \<Rightarrow> AgentHarnessCallbacks \<Rightarrow> AgentRun \<Rightarrow> AgentHarnessTurnResult
   \<Rightarrow> ('s, AgentRun) step" where
  "capture_draft env inp callbacks baseRun turn =
     (let usage = tu_runtimeUsage turn; transcript = tu_transcript turn; d = tu_draft turn in
      bind_step (lift_step (parse_as Schema_usage (case usage of None \<Rightarrow> True | Some u \<Rightarrow> usage_shape u) usage)) (\<lambda>runtimeUsage.
      bind_step (lift_step (parse_as Schema_transcript (list_all (\<lambda>t. nonempty (te_summary t)) transcript) transcript)) (\<lambda>_.
      bind_step (append_transcript inp callbacks 0 transcript) (\<lambda>_.
      bind_step (lift_step (parse_as Schema_draft (draft_shape d) d)) (\<lambda>draft.
      bind_step (lift_step (assertNoCoreWrites draft)) (\<lambda>_.
      bind_step (read_clock (ra_now inp)) (\<lambda>completedAt.
      bind_step (lift_step (parse_run (baseRun\<lparr>ar_status := Run_draft_captured, ar_completedAt := Some completedAt,
          ar_runtimeUsage := runtimeUsage, ar_draft := Some draft\<rparr>))) (\<lambda>run.
      bind_step (appendEvent inp (Some callbacks) Ev_draft_captured completedAt
        [(''truthStatus'', Some (JStr (dx_truthStatus draft))),
         (''requestedCoreWriteCount'', nat_json (length (dx_requestedCoreWrites draft))),
         (''evidenceRefCount'', nat_json (length (dx_evidenceRefs draft))),
         (''latencyMs'', Some (int_json (elapsedMs env (ar_startedAt baseRun) completedAt))),
         (''runtimeUsage'', map_option runtimeUsageMetadata runtimeUsage)]) (\<lambda>_.
      bind_step (store_step (as_replaceRun (ra_auditStore inp) run)) (\<lambda>_.
      return_step run))))))))))"

definition try_run ::
  "platform \<Rightarrow> 's RunAgentAttemptInput \<Rightarrow> AgentHarnessCallbacks \<Rightarrow> AgentRun \<Rightarrow> ('s, AgentRun) step" where
  "try_run env inp callbacks baseRun =
     bind_step (load_attempt inp callbacks (ar_startedAt baseRun)) (\<lambda>(prompt, policy, tools).
     bind_step (select_runtime inp callbacks prompt policy) (\<lambda>turn.
     bind_step (run_harness (guardedToolCall env inp callbacks policy tools) turn) (\<lambda>result.
       capture_draft env inp callbacks baseRun result)))"

definition record_failure ::
  "platform \<Rightarrow> 's RunAgentAttemptInput \<Rightarrow> AgentHarnessCallbacks option \<Rightarrow> AgentRun \<Rightarrow> agent_error
   \<Rightarrow> ('s, AgentRun) step" where
  "record_failure env inp callbacksForFailure baseRun err =
     bind_step (read_clock (ra_now inp)) (\<lambda>failedAt.
     bind_step (lift_step (parse_run (baseRun\<lparr>ar_status := Run_failed, ar_completedAt := Some failedAt,
         ar_errorMessage := Some (redactText (error_message env err))\<rparr>))) (\<lambda>run.
     bind_step (appendEvent inp callbacksForFailure Ev_run_failed failedAt
       [(''errorMessage'', Some (JStr (or_else (ar_errorMessage run) ''unknown''))),
        (''latencyMs'', Some (int_json (elapsedMs env (ar_startedAt baseRun) failedAt)))]) (\<lambda>_.
     bind_step (store_step (as_replaceRun (ra_auditStore inp) run)) (\<lambda>_.
     return_step run))))"

text \<open>\<open>try\<close> with its \<open>catch\<close>; without callbacks the \<open>try\<close> block throws at once.\<close>

definition run_from_base :: "platform \<Rightarrow> 's RunAgentAttemptInput \<Rightarrow> AgentRun \<Rightarrow> ('s, AgentRun) step" where
  "run_from_base env inp baseRun st =
     (case ra_callbacks inp of
        None \<Rightarrow> record_failure env inp None baseRun
          (Plain_error ''Agent runtime requires audit and transcript callbacks.'') st
      | Some callbacks \<Rightarrow>
          (case try_run env inp callbacks baseRun st of
             (Inr run, st') \<Rightarrow> (Inr run, st')
           | (Inl err, st') \<Rightarrow> record_failure env inp (Some callbacks) baseRun err st'))"

definition runAgentAttempt ::
  "platform \<Rightarrow> 's RunAgentAttemptInput \<Rightarrow> 's \<Rightarrow> (agent_error + AgentRun \<times> AgentRunEvent list) \<times> 's" where
  "runAgentAttempt env inp store =
     (let (r, st) = bind_step (lift_step (parse_attempt (ra_preparedAttempt inp))) (\<lambda>a.
            bind_step (read_clock (ra_now inp)) (\<lambda>startedAt.
            bind_step (lift_step (baseAuditRun inp a startedAt)) (\<lambda>baseRun.
            bind_step (store_step (as_appendRun (ra_auditStore inp) baseRun)) (\<lambda>_.
              run_from_base env inp baseRun))))
            \<lparr>ag_events = [], ag_store = store, ag_ticks = 0\<rparr>
      in (case r of Inl e \<Rightarrow> Inl e | Inr run \<Rightarrow> Inr (run, ag_events st), ag_store st))"

section \<open>The tools of a prepared attempt\<close>

definition optional_entry :: "string \<Rightarrow> string option \<Rightarrow> (string \<times> json option)" where
  "optional_entry k v = (k, map_option JStr v)"

definition freshness_ref_json :: "WorkerFreshnessRef \<Rightarrow> json" where
  "freshness_ref_json r = JObj
     [(''workerKind'', JStr (kind_text (wr_workerKind r))),
      (''tenantScope'', JObj (toJsonMetadata [optional_entry ''brandId'' (tn_brandId (wr_tenantScope r)),
        optional_entry ''merchantId'' (tn_merchantId (wr_tenantScope r)),
        optional_entry ''storeId'' (tn_storeId (wr_tenantScope r))])),
      (''sourceScope'', JObj (toJsonMetadata [(''source'', Some (JStr (sr_source (wr_sourceScope r)))),
        optional_entry ''producerService'' (sr_producerService (wr_sourceScope r)),
        optional_entry ''producerEnvironment'' (sr_producerEnvironment (wr_sourceScope r))])),
      (''committedJobId'', JStr (wr_committedJobId r)),
      (''committedAttemptId'', JNum (Finite (of_nat (wr_committedAttemptId r)))),
      (''committedWatermark'', JObj (wr_committedWatermark r)),
      (''committedAt'', JStr (wr_committedAt r)),
      (''outputSummary'', JObj (wr_outputSummary r))]"

fun tool_result_json :: "tool_result \<Rightarrow> json option" where
  "tool_result_json (Freshness_result ref) = Some (freshness_ref_json ref)"
| "tool_result_json (Summary_result ref summary) =
     Some (JObj [(''freshnessRef'', freshness_ref_json ref), (''summary'', JObj summary)])"
| "tool_result_json (Diagnosis_result None) = None"
| "tool_result_json (Diagnosis_result (Some reason)) =
     Some (JObj [(''code'', JStr (failure_code_text (pf_code reason))), (''message'', JStr (pf_message reason))])"

definition prepared_surface :: "platform \<Rightarrow> PreparedAgentAttempt \<Rightarrow> tool_surface" where
  "prepared_surface env a =
     \<lparr>su_ownFunctions = map tool_text SAFE_AGENT_TOOL_NAMES, su_hasFunction = (\<lambda>_. True),
      su_call = (\<lambda>call. and_then (prepared_tool env a call) (\<lambda>r. Inr (tool_result_json r)))\<rparr>"

end
