(* ===== verification/ResultBoundary.thy ===== *)
theory ResultBoundary
  imports AgentSidecar MerchantReview
begin

text \<open>
  From a captured draft to the merchant, \<open>src/src/agent/result-boundary.ts\<close>: the draft of a run becomes a
  hypothesis and a plan, the deterministic validator decides, and an accepted plan is submitted for review.
  Both operations append one event to the audit store. The clock is read once by each: \<open>now 0\<close> and
  \<open>now 1\<close> are its readings; \<open>dt\<close> is zod's date-time test.
\<close>

section \<open>Texts of enumerations\<close>

fun decision_text :: "ValidationDecision \<Rightarrow> string" where
  "decision_text Decision_accept = ''accept''"
| "decision_text Decision_block = ''block''"
| "decision_text Decision_needs_more_data = ''needs_more_data''"

fun reason_text :: "ValidationReasonCode \<Rightarrow> string" where
  "reason_text Reason_schema_invalid = ''schema_invalid''"
| "reason_text Reason_identity_mismatch = ''identity_mismatch''"
| "reason_text Reason_missing_evidence_refs = ''missing_evidence_refs''"
| "reason_text Reason_evidence_refs_not_from_context = ''evidence_refs_not_from_context''"
| "reason_text Reason_missing_uncertainty_or_confidence = ''missing_uncertainty_or_confidence''"
| "reason_text Reason_merchant_confirmation_required = ''merchant_confirmation_required''"
| "reason_text Reason_rollback_required = ''rollback_required''"
| "reason_text Reason_guardrail_required = ''guardrail_required''"
| "reason_text Reason_weak_or_insufficient_sample = ''weak_or_insufficient_sample''"
| "reason_text Reason_agent_draft_not_truth = ''agent_draft_not_truth''"
| "reason_text Reason_core_write_requested = ''core_write_requested''"

text \<open>The enumeration of metrics as zod reads it.\<close>

definition metric_of_text :: "string \<Rightarrow> SnapshotMetricId option" where
  "metric_of_text s = find (\<lambda>m. metric_text m = s)
     [Metric_repurchase_90d_rate, Metric_avg_order_value, Metric_refund_rate, Metric_checkout_started_cart_rate]"

section \<open>Artifacts\<close>

record AgentDraftArtifacts =
  af_hypothesis :: InterventionHypothesis
  af_experimentPlan :: ExperimentPlan

datatype AgentResultBoundaryStatus = Validated_for_review_request | Gate_blocked | Gate_needs_more_data

record AgentDraftResultGate =
  rg_status :: AgentResultBoundaryStatus
  rg_validationResult :: ExperimentValidationResult
  rg_artifacts :: "AgentDraftArtifacts option"

record AgentMerchantReviewRequest =
  rr_gate :: AgentDraftResultGate
  rr_submission :: MerchantReviewSubmission

text \<open>The draft of a captured run.\<close>

definition assertCapturedDraft :: "AgentRun \<Rightarrow> agent_error + AgentDraftOutput" where
  "assertCapturedDraft run =
     (case ar_draft run of
        Some draft \<Rightarrow>
          and_then (throw_plain (ar_status run \<noteq> Run_draft_captured)
            ''Merchant-review result gates require a captured Agent draft.'') (\<lambda>_.
          and_then (throw_plain (dx_truthStatus draft \<noteq> ''agent_draft_not_core_truth'')
            ''Agent result gate received a draft promoted beyond draft truth status.'') (\<lambda>_.
          and_then (throw_plain (dx_requestedCoreWrites draft \<noteq> [])
            ''Agent result gate received a draft with requested Core writes.'') (\<lambda>_. Inr draft)))
      | None \<Rightarrow> Inl (Plain_error ''Merchant-review result gates require a captured Agent draft.''))"

definition parse_context :: "platform \<Rightarrow> AgentContextBundle \<Rightarrow> agent_error + AgentContextBundle" where
  "parse_context env c = parse_as Schema_bundle (parse_bundle (env_lc env) c = Inr c) c"

definition draft_uncertainty :: "AgentContextBundle \<Rightarrow> AgentDraftOutput \<Rightarrow> ExperimentUncertainty" where
  "draft_uncertainty c d =
     (let gap = cb_opportunityGap c in
      \<lparr>un_level = (if 13 / 20 \<le> og_confidence gap \<and> og_sampleStatus gap = Peer_sufficient then Level_medium else Level_high),
       un_confidence = min (og_confidence gap) (4 / 5),
       un_assumptions = dx_reasoningSummary d # cb_assumptions c\<rparr>)"

definition draft_hypothesis ::
  "platform \<Rightarrow> AgentRun \<Rightarrow> AgentContextBundle \<Rightarrow> AgentDraftOutput \<Rightarrow> agent_error + InterventionHypothesis" where
  "draft_hypothesis env run c d =
     (case metric_of_text (dp_measurementMetricId (dx_draftExperimentPlan d)) of
        None \<Rightarrow> Inl (Parse_error Schema_hypothesis)
      | Some metric \<Rightarrow>
          (let h = \<lparr>hy_contractVersion = ''intervention-hypothesis.v1'',
                 hy_hypothesisId = ''intervention_hypothesis:'' @ ar_agentRunId run,
                 hy_agentRunId = ar_agentRunId run, hy_brandId = ar_brandId run, hy_storeId = ar_storeId run,
                 hy_opportunityGapId = ar_opportunityGapId run, hy_truthStatus = agent_draft_not_core_truth,
                 hy_statement = dx_hypothesis d, hy_rationale = dx_reasoningSummary d, hy_expectedMetricId = metric,
                 hy_evidenceRefs = uniqueSorted (env_lc env) (dx_evidenceRefs d),
                 hy_uncertainty = draft_uncertainty c d, hy_requestedCoreWrites = []\<rparr>
           in parse_as Schema_hypothesis (hypothesis_shape h) h))"

definition draft_plan ::
  "platform \<Rightarrow> AgentRun \<Rightarrow> AgentContextBundle \<Rightarrow> AgentDraftOutput \<Rightarrow> agent_error + ExperimentPlan" where
  "draft_plan env run c d =
     (let plan = dx_draftExperimentPlan d; evidenceRefs = uniqueSorted (env_lc env) (dx_evidenceRefs d) in
      case (metric_of_text (dp_measurementMetricId plan), those (map metric_of_text (dp_guardrailMetricIds plan))) of
        (Some metric, Some guardrailMetrics) \<Rightarrow>
          (let p = \<lparr>ep_contractVersion = ''experiment-plan.v1'',
                 ep_experimentPlanId = ''experiment_plan:'' @ ar_agentRunId run,
                 ep_hypothesisId = ''intervention_hypothesis:'' @ ar_agentRunId run,
                 ep_agentRunId = ar_agentRunId run, ep_brandId = ar_brandId run, ep_storeId = ar_storeId run,
                 ep_opportunityGapId = ar_opportunityGapId run, ep_status = ''draft_for_validation'',
                 ep_truthStatus = agent_draft_not_core_truth,
                 ep_title = ''Merchant-reviewed '' @ dp_measurementMetricId plan @ '' experiment'',
                 ep_objective = dp_objective plan,
                 ep_proposedIntervention = \<lparr>pi_changeKind = Change_operational_experiment,
                   pi_summary = dx_hypothesis d, pi_merchantEditable = True\<rparr>,
                 ep_measurement = \<lparr>me_primaryMetricId = metric,
                   me_metricWindow = og_metricWindow (cb_opportunityGap c),
                   me_guardrails = map (\<lambda>m. \<lparr>gr_metricId = m, gr_relation = Must_not_degrade,
                     gr_evidenceRefs = evidenceRefs\<rparr>) guardrailMetrics,
                   me_minimumSampleStatusForLaunch = Peer_sufficient\<rparr>,
                 ep_safety = \<lparr>sf_merchantConfirmationRequired = dp_merchantReviewRequired plan,
                   sf_rollbackSupported = True,
                   sf_stopCriteria = [''Stop if guardrails degrade or the merchant rejects the draft experiment.'']\<rparr>,
                 ep_evidenceRefs = evidenceRefs, ep_uncertainty = draft_uncertainty c d, ep_requestedCoreWrites = []\<rparr>
           in parse_as Schema_plan (plan_shape p) p)
      | _ \<Rightarrow> Inl (Parse_error Schema_plan))"

definition buildAgentDraftArtifacts ::
  "platform \<Rightarrow> AgentRun \<Rightarrow> AgentContextBundle \<Rightarrow> agent_error + AgentDraftArtifacts" where
  "buildAgentDraftArtifacts env runInput contextInput =
     and_then (parse_run runInput) (\<lambda>run.
     and_then (parse_context env contextInput) (\<lambda>context.
     and_then (assertCapturedDraft run) (\<lambda>draft.
     and_then (throw_plain (ar_agentRunId run \<noteq> cb_agentRunId context \<or> ar_brandId run \<noteq> cb_brandId context
         \<or> ar_storeId run \<noteq> cb_storeId context \<or> ar_opportunityGapId run \<noteq> cb_opportunityGapId context)
       ''Agent run and context bundle identity must match before result validation.'') (\<lambda>_.
     and_then (draft_hypothesis env run context draft) (\<lambda>hypothesis.
     and_then (draft_plan env run context draft) (\<lambda>experimentPlan.
     Inr \<lparr>af_hypothesis = hypothesis, af_experimentPlan = experimentPlan\<rparr>))))))"

section \<open>The gate\<close>

definition statusForValidation :: "ExperimentValidationResult \<Rightarrow> AgentResultBoundaryStatus" where
  "statusForValidation v =
     (if vr_decision v = Decision_accept then Validated_for_review_request
      else if vr_decision v = Decision_needs_more_data then Gate_needs_more_data else Gate_blocked)"

definition result_event :: "AgentRun \<Rightarrow> AgentRunEventType \<Rightarrow> string \<Rightarrow> json_object \<Rightarrow> AgentRunEvent" where
  "result_event run eventType occurredAt metadata =
     \<lparr>av_agentRunEventId = ''agent_run_event:'' @ ar_agentRunId run @ '':'' @ event_type_text eventType @ '':'' @ occurredAt,
      av_agentRunId = ar_agentRunId run, av_sessionId = ar_sessionId run, av_storeId = ar_storeId run,
      av_opportunityGapId = ar_opportunityGapId run, av_eventType = eventType, av_occurredAt = occurredAt,
      av_metadata = metadata\<rparr>"

definition appendResultEvent ::
  "'s AgentRunAuditStore \<Rightarrow> AgentRun \<Rightarrow> AgentRunEventType \<Rightarrow> string \<Rightarrow> json_object \<Rightarrow> 's
   \<Rightarrow> (agent_error + unit) \<times> 's" where
  "appendResultEvent ops runInput eventType occurredAt metadata store =
     (case and_then (parse_run runInput) (\<lambda>run. parse_run_event (result_event run eventType occurredAt metadata)) of
        Inl e \<Rightarrow> (Inl e, store)
      | Inr event \<Rightarrow> as_appendEvent ops event store)"

text \<open>What the \<open>catch\<close> makes of an error: the error itself is dropped.\<close>

definition schema_invalid_result :: "AgentContextBundle \<Rightarrow> agent_error + ExperimentValidationResult" where
  "schema_invalid_result context =
     (let v = \<lparr>vr_decision = Decision_block, vr_reasonCodes = [Reason_schema_invalid],
        vr_messages = [''Agent draft did not satisfy deterministic result artifact schemas.''],
        vr_evidenceRefs = cb_evidenceRefs context\<rparr>
      in parse_as Schema_validation (validation_result_shape v) v)"

definition gate_validation ::
  "platform \<Rightarrow> AgentRun \<Rightarrow> AgentContextBundle \<Rightarrow> AgentDraftArtifacts option \<times> (agent_error + ExperimentValidationResult)" where
  "gate_validation env run context =
     (case buildAgentDraftArtifacts env run context of
        Inl e \<Rightarrow> (None, schema_invalid_result context)
      | Inr artifacts \<Rightarrow>
          (Some artifacts,
           case validateExperimentPlan (env_lc env) context (af_hypothesis artifacts) (af_experimentPlan artifacts) of
             Inl e \<Rightarrow> schema_invalid_result context
           | Inr v \<Rightarrow> Inr v))"

definition evaluateAgentDraftResultGate ::
  "platform \<Rightarrow> 's AgentRunAuditStore \<Rightarrow> (nat \<Rightarrow> string) \<Rightarrow> AgentRun \<Rightarrow> AgentContextBundle \<Rightarrow> 's
   \<Rightarrow> (agent_error + AgentDraftResultGate) \<times> 's" where
  "evaluateAgentDraftResultGate env ops now runInput contextInput store =
     (case and_then (parse_run runInput) (\<lambda>run. and_then (parse_context env contextInput) (\<lambda>context.
            and_then (assertCapturedDraft run) (\<lambda>draft.
            let (artifacts, outcome) = gate_validation env run context
            in and_then outcome (\<lambda>validation. Inr (run, draft, artifacts, validation))))) of
        Inl e \<Rightarrow> (Inl e, store)
      | Inr (run, draft, artifacts, validation) \<Rightarrow>
          (case appendResultEvent ops run Ev_draft_validation_evaluated (now 0)
                 [(''decision'', JStr (decision_text (vr_decision validation))),
                  (''reasonCodes'', JArr (map (JStr \<circ> reason_text) (vr_reasonCodes validation))),
                  (''evidenceRefCount'', JNum (Finite (of_nat (length (vr_evidenceRefs validation))))),
                  (''truthStatus'', JStr (dx_truthStatus draft))] store of
             (Inl e, store') \<Rightarrow> (Inl e, store')
           | (Inr _, store') \<Rightarrow>
               (Inr \<lparr>rg_status = statusForValidation validation, rg_validationResult = validation,
                     rg_artifacts = artifacts\<rparr>, store')))"

section \<open>The review request\<close>

definition requestMerchantReviewForAgentDraft ::
  "platform \<Rightarrow> (string \<Rightarrow> bool) \<Rightarrow> 's AgentRunAuditStore \<Rightarrow> (nat \<Rightarrow> string) \<Rightarrow> AgentRun \<Rightarrow> AgentContextBundle
   \<Rightarrow> string \<Rightarrow> string \<Rightarrow> MerchantReviewActor option \<Rightarrow> 's \<Rightarrow> (agent_error + AgentMerchantReviewRequest) \<times> 's" where
  "requestMerchantReviewForAgentDraft env dt ops now run context reviewId submittedAt submittedBy store =
     (case evaluateAgentDraftResultGate env ops now run context store of
        (Inl e, store1) \<Rightarrow> (Inl e, store1)
      | (Inr gate, store1) \<Rightarrow>
          (case (rg_status gate, rg_artifacts gate) of
             (Validated_for_review_request, Some artifacts) \<Rightarrow>
               (case submitExperimentPlanForMerchantReview dt reviewId (af_experimentPlan artifacts)
                       (rg_validationResult gate) submittedAt submittedBy of
                  Inl e \<Rightarrow> (Inl (Parse_error Schema_submission), store1)
                | Inr submission \<Rightarrow>
                    (case appendResultEvent ops run Ev_merchant_review_requested (now 1)
                           [(''reviewId'', JStr (sb_reviewId submission)),
                            (''reviewStatus'', JStr (sb_reviewStatus submission)),
                            (''lifecycleState'', JStr (state_text (sb_lifecycleState submission))),
                            (''evidenceRefCount'', JNum (Finite (of_nat (length (sb_evidenceRefs submission))))),
                            (''merchantApprovalImplied'', JBool False),
                            (''businessMutationCalled'', JBool False)] store1 of
                       (Inl e, store2) \<Rightarrow> (Inl e, store2)
                     | (Inr _, store2) \<Rightarrow> (Inr \<lparr>rr_gate = gate, rr_submission = submission\<rparr>, store2)))
           | _ \<Rightarrow> (Inl (Plain_error
               ''Agent draft cannot request merchant review without an accepted deterministic result gate.''), store1)))"

end
