(* ===== verification/AgentLemmas.thy ===== *)
theory AgentLemmas
  imports AgentSidecar
begin

text \<open>
  What holds of every run of the sidecar: the contract of an audit store (a locale, interpreted on the
  in-memory store), the trail of events a run leaves in it, and the rules that carry both through the steps
  of a run and of its harness.
\<close>

section \<open>Steps\<close>

lemma bind_step_Inr_iff:
  "bind_step m f st = (Inr b, st') \<longleftrightarrow> (\<exists>a st1. m st = (Inr a, st1) \<and> f a st1 = (Inr b, st'))"
  by (auto simp: bind_step_def split: prod.splits sum.splits)

lemma bind_step_Inl_iff:
  "bind_step m f st = (Inl e, st') \<longleftrightarrow>
     m st = (Inl e, st') \<or> (\<exists>a st1. m st = (Inr a, st1) \<and> f a st1 = (Inl e, st'))"
  by (auto simp: bind_step_def split: prod.splits sum.splits)

lemma lift_step_iff [simp]: "lift_step r st = (r', st') \<longleftrightarrow> r = r' \<and> st' = st"
  by (auto simp: lift_step_def)

lemma return_step_iff [simp]: "return_step a st = (r, st') \<longleftrightarrow> r = Inr a \<and> st' = st"
  by (auto simp: return_step_def)

lemma read_clock_iff [simp]:
  "read_clock now st = (r, st') \<longleftrightarrow> r = Inr (now (ag_ticks st)) \<and> st' = st\<lparr>ag_ticks := ag_ticks st + 1\<rparr>"
  by (auto simp: read_clock_def)

lemma push_event_iff [simp]:
  "push_event e st = (r, st') \<longleftrightarrow> r = Inr () \<and> st' = st\<lparr>ag_events := ag_events st @ [e]\<rparr>"
  by (auto simp: push_event_def)

lemma store_step_iff:
  "store_step f st = (r, st') \<longleftrightarrow> (\<exists>s. f (ag_store st) = (r, s) \<and> st' = st\<lparr>ag_store := s\<rparr>)"
  by (auto simp: store_step_def split: prod.splits)

lemma call_back_iff [simp]:
  "call_back answer st = (r, st') \<longleftrightarrow> (case answer of None \<Rightarrow> Inr () | Some e \<Rightarrow> Inl e) = r \<and> st' = st"
  by (auto simp: call_back_def)

lemma run_event_type [simp]: "av_eventType (run_event a n eventType t md) = eventType"
  by (simp add: run_event_def)

lemmas step_Inr = bind_step_Inr_iff store_step_iff parse_run_event_def parse_run_def

section \<open>The trail\<close>

text \<open>Events of one attempt, numbered from the one after \<open>n\<close>.\<close>

fun trail :: "PreparedAgentAttempt \<Rightarrow> nat \<Rightarrow> AgentRunEvent list \<Rightarrow> bool" where
  "trail a n [] \<longleftrightarrow> True"
| "trail a n (e # es) \<longleftrightarrow>
     (\<exists>eventType occurredAt metadata. e = run_event a (n + 1) eventType occurredAt metadata)
     \<and> run_event_shape e \<and> trail a (n + 1) es"

lemma trail_append [simp]: "trail a n (xs @ ys) \<longleftrightarrow> trail a n xs \<and> trail a (n + length xs) ys"
  by (induction xs arbitrary: n) auto

lemma trail_ids:
  "trail a n es \<Longrightarrow> map av_agentRunEventId es
     = map (\<lambda>i. ''agent_run_event:'' @ pa_agentRunId a @ '':'' @ nat_text i) [n + 1..<n + 1 + length es]"
proof (induction es arbitrary: n)
  case (Cons e es)
  then show ?case by (auto simp: run_event_def upt_conv_Cons simp del: upt_Suc)
qed simp

lemma trail_run: "trail a n es \<Longrightarrow> e \<in> set es \<Longrightarrow>
    av_agentRunId e = pa_agentRunId a \<and> av_sessionId e = pa_sessionId a \<and> av_storeId e = pa_storeId a
    \<and> av_opportunityGapId e = pa_opportunityGapId a \<and> run_event_shape e"
  by (induction es arbitrary: n) (auto simp: run_event_def)

definition event_types :: "'s agent_state \<Rightarrow> AgentRunEventType list" where
  "event_types st = map av_eventType (ag_events st)"

lemma event_types_updates [simp]:
  "event_types (st\<lparr>ag_ticks := n\<rparr>) = event_types st" "event_types (st\<lparr>ag_store := s\<rparr>) = event_types st"
  by (simp_all add: event_types_def)

lemma appendEvent_types:
  "appendEvent inp cbs eventType t md st = (Inr u, st') \<Longrightarrow> event_types st' = event_types st @ [eventType]"
  by (auto simp: appendEvent_def step_Inr Let_def event_types_def split: option.splits)

lemma appendEventNow_types:
  "appendEventNow inp cbs eventType md st = (Inr u, st') \<Longrightarrow> event_types st' = event_types st @ [eventType]"
  by (auto simp: appendEventNow_def bind_step_Inr_iff dest: appendEvent_types)

section \<open>The contract of an audit store\<close>

text \<open>
  A store may refuse, and then keeps what it has; what it takes it holds: an event at the end of the
  trail, a run under its id.
\<close>

locale audit_store =
  fixes ops :: "'s AgentRunAuditStore"
    and runs :: "'s \<Rightarrow> string \<Rightarrow> AgentRun option"
    and stored :: "'s \<Rightarrow> AgentRunEvent list"
  assumes event_taken: "as_appendEvent ops e s = (Inr u, s') \<Longrightarrow> stored s' = stored s @ [e] \<and> runs s' = runs s"
    and event_refused: "as_appendEvent ops e s = (Inl x, s') \<Longrightarrow> stored s' = stored s \<and> runs s' = runs s"
    and run_added: "as_appendRun ops r s = (Inr u, s') \<Longrightarrow>
      stored s' = stored s \<and> runs s' = (runs s)(ar_agentRunId r \<mapsto> r)"
    and run_not_added: "as_appendRun ops r s = (Inl x, s') \<Longrightarrow> stored s' = stored s \<and> runs s' = runs s"
    and run_replaced: "as_replaceRun ops r s = (Inr u, s') \<Longrightarrow>
      stored s' = stored s \<and> runs s' = (runs s)(ar_agentRunId r \<mapsto> r)"
    and run_not_replaced: "as_replaceRun ops r s = (Inl x, s') \<Longrightarrow> stored s' = stored s \<and> runs s' = runs s"

text \<open>A reliable store takes everything that is well formed.\<close>

locale reliable_audit_store = audit_store +
  assumes takes_events: "run_event_shape e \<Longrightarrow> \<exists>s'. as_appendEvent ops e s = (Inr (), s')"
    and takes_runs: "run_shape r \<Longrightarrow> \<exists>s'. as_appendRun ops r s = (Inr (), s')"
    and replaces_runs: "run_shape r \<Longrightarrow> \<exists>s'. as_replaceRun ops r s = (Inr (), s')"

text \<open>A step that leaves the runs alone and appends events of some types, to its array and to the store alike.\<close>

definition audited ::
  "('s \<Rightarrow> string \<Rightarrow> AgentRun option) \<Rightarrow> ('s \<Rightarrow> AgentRunEvent list) \<Rightarrow> PreparedAgentAttempt
   \<Rightarrow> AgentRunEventType set \<Rightarrow> ('s, 'a) step \<Rightarrow> bool" where
  "audited runs stored a T m \<longleftrightarrow> (\<forall>st r st'. m st = (r, st') \<longrightarrow>
     (\<exists>new. ag_events st' = ag_events st @ new \<and> stored (ag_store st') = stored (ag_store st) @ new
        \<and> trail a (length (ag_events st)) new \<and> av_eventType ` set new \<subseteq> T \<and> runs (ag_store st') = runs (ag_store st)))"

lemma auditedE:
  assumes "audited runs stored a T m" "m st = (r, st')"
  obtains new where "ag_events st' = ag_events st @ new" "stored (ag_store st') = stored (ag_store st) @ new"
    "trail a (length (ag_events st)) new" "av_eventType ` set new \<subseteq> T" "runs (ag_store st') = runs (ag_store st)"
  using assms unfolding audited_def by blast

lemma audited_idle:
  assumes "\<And>st r st'. m st = (r, st') \<Longrightarrow> ag_events st' = ag_events st \<and> ag_store st' = ag_store st"
  shows "audited runs stored a T m"
  unfolding audited_def by (metis assms append_Nil2 empty_subsetI image_empty list.set(1) trail.simps(1))

lemma audited_return [intro, simp]: "audited runs stored a T (return_step x)"
  and audited_lift [intro, simp]: "audited runs stored a T (lift_step y)"
  and audited_clock [intro, simp]: "audited runs stored a T (read_clock now)"
  and audited_call_back [intro, simp]: "audited runs stored a T (call_back answer)"
  by (rule audited_idle, force)+

lemma audited_bind [intro]:
  assumes m: "audited runs stored a T m" and f: "\<And>x. audited runs stored a T (f x)"
  shows "audited runs stored a T (bind_step m f)"
  unfolding audited_def
proof (intro allI impI)
  fix st r st' assume run: "bind_step m f st = (r, st')"
  obtain r1 st1 where 1: "m st = (r1, st1)" by fastforce
  from m 1 obtain new where new: "ag_events st1 = ag_events st @ new" "stored (ag_store st1) = stored (ag_store st) @ new"
    "trail a (length (ag_events st)) new" "av_eventType ` set new \<subseteq> T" "runs (ag_store st1) = runs (ag_store st)"
    by (rule auditedE)
  show "\<exists>new. ag_events st' = ag_events st @ new \<and> stored (ag_store st') = stored (ag_store st) @ new
        \<and> trail a (length (ag_events st)) new \<and> av_eventType ` set new \<subseteq> T \<and> runs (ag_store st') = runs (ag_store st)"
  proof (cases r1)
    case (Inl e)
    with run 1 have "st' = st1" by (simp add: bind_step_def)
    with new show ?thesis by blast
  next
    case (Inr x)
    with run 1 have "f x st1 = (r, st')" by (simp add: bind_step_def)
    from auditedE [OF f this] obtain more where "ag_events st' = ag_events st1 @ more"
      "stored (ag_store st') = stored (ag_store st1) @ more" "trail a (length (ag_events st1)) more"
      "av_eventType ` set more \<subseteq> T" "runs (ag_store st') = runs (ag_store st1)" by blast
    with new show ?thesis by (intro exI [of _ "new @ more"]) (auto simp: image_Un)
  qed
qed

lemma audited_weaken: "audited runs stored a T m \<Longrightarrow> T \<subseteq> U \<Longrightarrow> audited runs stored a U m"
  unfolding audited_def by (meson subset_trans)

text \<open>A harness leaves what its boundary leaves, whatever it does with the answers.\<close>

lemma audited_harness:
  assumes "\<And>tool toolInput. audited runs stored a T (boundary tool toolInput)"
  shows "audited runs stored a T (run_harness boundary h)"
proof (induction h)
  case (Call_tool tool toolInput k)
  show ?case
    unfolding audited_def
  proof (intro allI impI)
    fix st r st' assume run: "run_harness boundary (Call_tool tool toolInput k) st = (r, st')"
    obtain answer st1 where 1: "boundary tool toolInput st = (answer, st1)" by fastforce
    with run have 2: "run_harness boundary (k answer) st1 = (r, st')" by simp
    from auditedE [OF assms 1] obtain new where "ag_events st1 = ag_events st @ new"
      "stored (ag_store st1) = stored (ag_store st) @ new" "trail a (length (ag_events st)) new"
      "av_eventType ` set new \<subseteq> T" "runs (ag_store st1) = runs (ag_store st)" by blast
    moreover from auditedE [OF Call_tool.IH 2] obtain more where "ag_events st' = ag_events st1 @ more"
      "stored (ag_store st') = stored (ag_store st1) @ more" "trail a (length (ag_events st1)) more"
      "av_eventType ` set more \<subseteq> T" "runs (ag_store st') = runs (ag_store st1)" by blast
    ultimately show "\<exists>new. ag_events st' = ag_events st @ new \<and> stored (ag_store st') = stored (ag_store st) @ new
        \<and> trail a (length (ag_events st)) new \<and> av_eventType ` set new \<subseteq> T \<and> runs (ag_store st') = runs (ag_store st)"
      by (intro exI [of _ "new @ more"]) (auto simp: image_Un)
  qed
qed (auto simp: run_harness.simps)

definition tool_event_types :: "AgentRunEventType set" where
  "tool_event_types = {Ev_tool_call_attempt, Ev_tool_call_denied, Ev_tool_result_sanitized}"

definition turn_event_types :: "AgentRunEventType set" where
  "turn_event_types = {Ev_run_started, Ev_attempt_loaded, Ev_policy_evaluated, Ev_runtime_selected, Ev_harness_invoked,
     Ev_harness_transcript_event} \<union> tool_event_types"

context reliable_audit_store
begin

lemma audited_append:
  assumes ops: "ra_auditStore inp = ops" and T: "eventType \<in> T"
  shows "audited runs stored (ra_preparedAttempt inp) T (appendEvent inp cbs eventType occurredAt md)"
  unfolding audited_def
proof (intro allI impI)
  fix st r st' assume run: "appendEvent inp cbs eventType occurredAt md st = (r, st')"
  let ?e = "run_event (ra_preparedAttempt inp) (length (ag_events st) + 1) eventType occurredAt md"
  show "\<exists>new. ag_events st' = ag_events st @ new \<and> stored (ag_store st') = stored (ag_store st) @ new
      \<and> trail (ra_preparedAttempt inp) (length (ag_events st)) new \<and> av_eventType ` set new \<subseteq> T
      \<and> runs (ag_store st') = runs (ag_store st)"
  proof (cases "run_event_shape ?e")
    case False
    with run have "st' = st" by (simp add: appendEvent_def Let_def bind_step_def lift_step_def parse_run_event_def parse_as_def)
    then show ?thesis by simp
  next
    case True
    from takes_events [OF True] obtain s where s: "as_appendEvent ops ?e (ag_store st) = (Inr (), s)" by blast
    have "ag_events st' = ag_events st @ [?e]" "ag_store st' = s"
      using run True s ops
      by (auto simp: appendEvent_def Let_def bind_step_def lift_step_def parse_run_event_def parse_as_def push_event_def
          store_step_def return_step_def call_back_def split: option.splits)
    with event_taken [OF s] True T show ?thesis
      by (intro exI [of _ "[?e]"]) (auto simp: run_event_def)
  qed
qed

lemma audited_append_now:
  assumes "ra_auditStore inp = ops" "eventType \<in> T"
  shows "audited runs stored (ra_preparedAttempt inp) T (appendEventNow inp cbs eventType md)"
  unfolding appendEventNow_def using assms by (intro audited_bind audited_clock audited_append)

lemma audited_guarded:
  assumes "ra_auditStore inp = ops" "tool_event_types \<subseteq> T"
  shows "audited runs stored (ra_preparedAttempt inp) T (guardedToolCall env inp cbs policy tools tool toolInput)"
  using assms unfolding guardedToolCall_def Let_def tool_event_types_def
  by (auto intro!: audited_bind audited_append_now)

lemma audited_transcript:
  assumes "ra_auditStore inp = ops" "Ev_harness_transcript_event \<in> T"
  shows "audited runs stored (ra_preparedAttempt inp) T (append_transcript inp cbs n ts)"
  using assms by (induction ts arbitrary: n) (auto intro!: audited_bind audited_append_now)

lemma audited_load:
  assumes "ra_auditStore inp = ops"
  shows "audited runs stored (ra_preparedAttempt inp) turn_event_types (load_attempt inp cbs startedAt)"
  using assms unfolding load_attempt_def Let_def
  by (intro audited_bind audited_append audited_append_now audited_lift audited_return) (auto simp: turn_event_types_def)

lemma audited_select:
  assumes "ra_auditStore inp = ops"
  shows "audited runs stored (ra_preparedAttempt inp) turn_event_types (select_runtime inp cbs prompt policy)"
  using assms unfolding select_runtime_def
  by (intro audited_bind audited_append_now audited_lift audited_return) (auto simp: turn_event_types_def)

end

section \<open>The in-memory store\<close>

lemma mem_put_run_iff:
  "mem_put_run r st = (Inr u, st') \<longleftrightarrow> run_shape r \<and> st' = st\<lparr>mu_runs := map_set (ar_agentRunId r) r (mu_runs st)\<rparr>"
  "mem_put_run r st = (Inl e, st') \<longleftrightarrow> \<not> run_shape r \<and> e = Parse_error Schema_run \<and> st' = st"
  by (auto simp: mem_put_run_def parse_run_def parse_as_def)

lemma mem_append_event_iff:
  "mem_append_event e st = (Inr u, st') \<longleftrightarrow> run_event_shape e \<and> st' = st\<lparr>mu_events := mu_events st @ [e]\<rparr>"
  "mem_append_event e st = (Inl x, st') \<longleftrightarrow> \<not> run_event_shape e \<and> x = Parse_error Schema_event \<and> st' = st"
  by (auto simp: mem_append_event_def parse_run_event_def parse_as_def)

lemma mem_ops_simps [simp]:
  "as_appendRun mem_audit_ops = mem_put_run" "as_replaceRun mem_audit_ops = mem_put_run"
  "as_appendEvent mem_audit_ops = mem_append_event"
  by (simp_all add: mem_audit_ops_def)

lemma map_get_set_fun: "map_get (map_set k v m) = (map_get m)(k \<mapsto> v)"
  by (rule update_conv')

interpretation mem_audit: reliable_audit_store mem_audit_ops "\<lambda>s. map_get (mu_runs s)" mu_events
proof unfold_locales
qed (auto simp: mem_put_run_iff mem_append_event_iff map_get_set_fun)

section \<open>Whole runs\<close>

text \<open>A step that ends by recording the run it returns, and records none when it throws.\<close>

definition records ::
  "('s \<Rightarrow> string \<Rightarrow> AgentRun option) \<Rightarrow> ('s \<Rightarrow> AgentRunEvent list) \<Rightarrow> PreparedAgentAttempt
   \<Rightarrow> AgentRunEventType set \<Rightarrow> ('s, AgentRun) step \<Rightarrow> bool" where
  "records runs stored a T m \<longleftrightarrow> (\<forall>st r st'. m st = (r, st') \<longrightarrow>
     (\<exists>new. ag_events st' = ag_events st @ new \<and> stored (ag_store st') = stored (ag_store st) @ new
        \<and> trail a (length (ag_events st)) new \<and> av_eventType ` set new \<subseteq> T
        \<and> runs (ag_store st') = (case r of Inl e \<Rightarrow> runs (ag_store st)
             | Inr run \<Rightarrow> (runs (ag_store st))(ar_agentRunId run \<mapsto> run))))"

lemma recordsE:
  assumes "records runs stored a T m" "m st = (r, st')"
  obtains new where "ag_events st' = ag_events st @ new" "stored (ag_store st') = stored (ag_store st) @ new"
    "trail a (length (ag_events st)) new" "av_eventType ` set new \<subseteq> T"
    "runs (ag_store st') = (case r of Inl e \<Rightarrow> runs (ag_store st) | Inr run \<Rightarrow> (runs (ag_store st))(ar_agentRunId run \<mapsto> run))"
  using assms unfolding records_def by blast

lemma records_bind:
  assumes m: "audited runs stored a T m" and f: "\<And>x. records runs stored a T (f x)"
  shows "records runs stored a T (bind_step m f)"
  unfolding records_def
proof (intro allI impI)
  fix st r st' assume run: "bind_step m f st = (r, st')"
  obtain r1 st1 where 1: "m st = (r1, st1)" by fastforce
  from m 1 obtain new where new: "ag_events st1 = ag_events st @ new" "stored (ag_store st1) = stored (ag_store st) @ new"
    "trail a (length (ag_events st)) new" "av_eventType ` set new \<subseteq> T" "runs (ag_store st1) = runs (ag_store st)"
    by (rule auditedE)
  show "\<exists>new. ag_events st' = ag_events st @ new \<and> stored (ag_store st') = stored (ag_store st) @ new
        \<and> trail a (length (ag_events st)) new \<and> av_eventType ` set new \<subseteq> T
        \<and> runs (ag_store st') = (case r of Inl e \<Rightarrow> runs (ag_store st)
             | Inr run \<Rightarrow> (runs (ag_store st))(ar_agentRunId run \<mapsto> run))"
  proof (cases r1)
    case (Inl e)
    with run 1 have "st' = st1" "r = Inl e" by (simp_all add: bind_step_def)
    with new show ?thesis by (intro exI [of _ new]) simp
  next
    case (Inr x)
    with run 1 have "f x st1 = (r, st')" by (simp add: bind_step_def)
    from recordsE [OF f this] obtain more where "ag_events st' = ag_events st1 @ more"
      "stored (ag_store st') = stored (ag_store st1) @ more" "trail a (length (ag_events st1)) more"
      "av_eventType ` set more \<subseteq> T" "runs (ag_store st') = (case r of Inl e \<Rightarrow> runs (ag_store st1)
         | Inr run \<Rightarrow> (runs (ag_store st1))(ar_agentRunId run \<mapsto> run))" by blast
    with new show ?thesis by (intro exI [of _ "new @ more"]) (auto simp: image_Un split: sum.splits)
  qed
qed

definition run_event_types :: "AgentRunEventType set" where
  "run_event_types = insert Ev_draft_captured turn_event_types"

lemma tool_events_of_run: "tool_event_types \<subseteq> run_event_types"
  by (auto simp: run_event_types_def turn_event_types_def)

context reliable_audit_store
begin

lemma records_replace:
  assumes "ra_auditStore inp = ops"
  shows "records runs stored a T (bind_step (store_step (as_replaceRun (ra_auditStore inp) run)) (\<lambda>_. return_step run))"
  unfolding records_def using assms run_replaced run_not_replaced
  by (auto simp: bind_step_def store_step_def return_step_def split: prod.splits sum.splits)

lemma records_capture:
  assumes "ra_auditStore inp = ops"
  shows "records runs stored (ra_preparedAttempt inp) run_event_types (capture_draft env inp cbs baseRun turn)"
  using assms unfolding capture_draft_def Let_def
  by (intro records_bind records_replace audited_lift audited_clock audited_transcript audited_append)
    (auto simp: run_event_types_def turn_event_types_def)

lemma records_try:
  assumes "ra_auditStore inp = ops"
  shows "records runs stored (ra_preparedAttempt inp) run_event_types (try_run env inp cbs baseRun)"
proof -
  have sub: "turn_event_types \<subseteq> run_event_types" by (auto simp: run_event_types_def)
  show ?thesis
    unfolding try_run_def
    by (auto simp: split_beta' intro!: records_bind records_capture audited_harness audited_guarded assms tool_events_of_run
        audited_weaken [OF audited_load sub] audited_weaken [OF audited_select sub])
qed

lemma records_failure:
  assumes "ra_auditStore inp = ops"
  shows "records runs stored (ra_preparedAttempt inp) {Ev_run_failed} (record_failure env inp cbs baseRun err)"
  unfolding record_failure_def
  by (intro records_bind records_replace audited_lift audited_clock audited_append assms) auto

end

text \<open>What a run that returns has done, step by step.\<close>

lemma load_Inr:
  assumes "load_attempt inp cbs startedAt st = (Inr (prompt, policy, tools), st')"
  shows "event_types st' = event_types st @ [Ev_run_started, Ev_attempt_loaded, Ev_policy_evaluated]"
    and "assertPreparedAttemptConsumable (ra_preparedAttempt inp) = Inr ()" "parsePrompt (ra_prompt inp) = Inr prompt"
    "parseAndCheckPolicy (ra_policy inp) (ra_preparedAttempt inp) = Inr policy"
    "assertToolSurface (ra_tools inp) policy = Inr tools"
  using assms unfolding load_attempt_def Let_def
  by (auto simp: bind_step_Inr_iff dest!: appendEvent_types appendEventNow_types)

lemma select_Inr:
  assumes "select_runtime inp cbs prompt policy st = (Inr h, st')"
  shows "event_types st' = event_types st @ [Ev_runtime_selected, Ev_harness_invoked]"
    and "\<exists>runtime runTurn. parseRuntime (ra_runtime inp) = Inr runtime \<and> ru_runTurn (ra_runtime inp) = Some runTurn
       \<and> h = runTurn (ra_preparedAttempt inp) prompt policy runtime"
  using assms unfolding select_runtime_def
  by (auto simp: bind_step_Inr_iff split: option.splits dest!: appendEventNow_types)

lemma transcript_Inr:
  "append_transcript inp cbs n ts st = (Inr u, st') \<Longrightarrow>
   event_types st' = event_types st @ replicate (length ts) Ev_harness_transcript_event"
proof (induction ts arbitrary: n st)
  case (Cons t ts)
  then show ?case by (fastforce simp: bind_step_Inr_iff split: option.splits dest: appendEventNow_types)
qed simp

lemma capture_Inr:
  assumes "capture_draft env inp cbs baseRun turn st = (Inr run, st')"
  shows "event_types st' = event_types st @ replicate (length (tu_transcript turn)) Ev_harness_transcript_event
      @ [Ev_draft_captured]"
    and "\<exists>completedAt. run = baseRun\<lparr>ar_status := Run_draft_captured, ar_completedAt := Some completedAt,
      ar_runtimeUsage := tu_runtimeUsage turn, ar_draft := Some (tu_draft turn)\<rparr>"
    and "run_shape run" "draft_shape (tu_draft turn)"
  using assms unfolding capture_draft_def Let_def
  by (auto simp: bind_step_Inr_iff store_step_iff parse_run_def dest!: transcript_Inr appendEvent_types)

lemma failure_Inr:
  assumes "record_failure env inp cbs baseRun err st = (Inr run, st')"
  shows "event_types st' = event_types st @ [Ev_run_failed]"
    and "\<exists>failedAt. run = baseRun\<lparr>ar_status := Run_failed, ar_completedAt := Some failedAt,
      ar_errorMessage := Some (redactText (error_message env err))\<rparr>"
    and "run_shape run"
  using assms unfolding record_failure_def
  by (auto simp: bind_step_Inr_iff store_step_iff parse_run_def dest!: appendEvent_types)

lemma base_Inr:
  assumes "baseAuditRun inp a startedAt = Inr baseRun"
  shows "run_shape baseRun" "ar_status baseRun = Run_started" "ar_agentRunId baseRun = pa_agentRunId a"
    "ar_draft baseRun = None" "ar_errorMessage baseRun = None" "ar_startedAt baseRun = startedAt"
    "ar_sessionId baseRun = pa_sessionId a" "ar_storeId baseRun = pa_storeId a" "ar_brandId baseRun = pa_brandId a"
    "ar_opportunityGapId baseRun = pa_opportunityGapId a"
  using assms by (auto simp: baseAuditRun_def parse_run_def Let_def)

lemma try_run_Inr:
  assumes "try_run env inp cbs baseRun st = (Inr run, st')"
  obtains prompt policy tools st1 h st2 turn st3 where
    "load_attempt inp cbs (ar_startedAt baseRun) st = (Inr (prompt, policy, tools), st1)"
    "select_runtime inp cbs prompt policy st1 = (Inr h, st2)"
    "run_harness (guardedToolCall env inp cbs policy tools) h st2 = (Inr turn, st3)"
    "capture_draft env inp cbs baseRun turn st3 = (Inr run, st')"
  using assms unfolding try_run_def by (auto simp: bind_step_Inr_iff)

lemma run_attempt_Inr:
  assumes "runAgentAttempt env inp s = (Inr (run, evs), s')"
  obtains baseRun s1 st where "parse_attempt (ra_preparedAttempt inp) = Inr (ra_preparedAttempt inp)"
    "baseAuditRun inp (ra_preparedAttempt inp) (ra_now inp 0) = Inr baseRun"
    "as_appendRun (ra_auditStore inp) baseRun s = (Inr (), s1)"
    "run_from_base env inp baseRun \<lparr>ag_events = [], ag_store = s1, ag_ticks = Suc 0\<rparr> = (Inr run, st)"
    "evs = ag_events st" "s' = ag_store st"
  using assms unfolding runAgentAttempt_def
  by (auto simp: bind_step_Inr_iff bind_step_Inl_iff store_step_iff parse_attempt_def Let_def split: prod.splits sum.splits)

end
