(* ===== verification/PreparedLemmas.thy ===== *)
theory PreparedLemmas
  imports PreparedAttempt
begin

text \<open>
  When an attempt is prepared: what the loops of the policy amount to, that the comparison of source
  scopes by their canonical text is equality, and the cases of \<open>prepareAgentAttempt\<close>.
\<close>

section \<open>Sources\<close>

lemma sorted_string_object:
  "\<exists>es'. sortForJson lc (string_object es) = string_object es' \<and> mset es' = mset es"
proof -
  let ?f = "\<lambda>(k, s). (k, JStr s)" and ?g = "\<lambda>(k, v). (k, case v of JStr s \<Rightarrow> s | _ \<Rightarrow> [])"
  let ?es = "map ?f es"
  let ?X = "from_entries (sort_on lc fst ?es)"
  have "map (\<lambda>(k, v). (k, sortForJson lc v)) ?es = ?es" by (induction es) auto
  then have sorted: "sortForJson lc (string_object es) = JObj ?X" by (simp only: sortForJson.simps)
  have mset: "mset ?X = mset ?es" by simp
  then have "set ?X = set ?es" by (metis set_mset_mset)
  then have "map (?f \<circ> ?g) ?X = map id ?X" by (intro map_cong) auto
  then have "JObj ?X = string_object (map ?g ?X)" by (simp add: o_def)
  moreover have "mset (map ?g ?X) = mset es"
  proof -
    have "mset (map ?g ?X) = mset (map ?g ?es)" using mset by (metis mset_map)
    also have "map ?g ?es = es" by (induction es) auto
    finally show ?thesis .
  qed
  ultimately show ?thesis using sorted by metis
qed

lemma source_entries_inject: "set (source_entries s) = set (source_entries t) \<Longrightarrow> s = t"
proof -
  assume eq: "set (source_entries s) = set (source_entries t)"
  have "(''source'', v) \<in> set (source_entries s) \<longleftrightarrow> v = sr_source s"
    "(''producerService'', v) \<in> set (source_entries s) \<longleftrightarrow> sr_producerService s = Some v"
    "(''producerEnvironment'', v) \<in> set (source_entries s) \<longleftrightarrow> sr_producerEnvironment s = Some v" for v s
    by (auto simp: source_entries_def split: option.splits)
  note mem = this
  have "sr_source s = sr_source t" using eq mem(1) by blast
  moreover have "sr_producerService s = sr_producerService t"
    using eq mem(2) by (metis not_Some_eq)
  moreover have "sr_producerEnvironment s = sr_producerEnvironment t"
    using eq mem(3) by (metis not_Some_eq)
  ultimately show "s = t" by simp
qed

lemma canonical_source_inject:
  "canonical_text nt lc (string_object (source_entries s)) = canonical_text nt lc (string_object (source_entries t))
   \<longleftrightarrow> s = t"
proof
  assume eq: "canonical_text nt lc (string_object (source_entries s)) = canonical_text nt lc (string_object (source_entries t))"
  obtain es where es: "sortForJson lc (string_object (source_entries s)) = string_object es" "mset es = mset (source_entries s)"
    using sorted_string_object by blast
  obtain fs where fs: "sortForJson lc (string_object (source_entries t)) = string_object fs" "mset fs = mset (source_entries t)"
    using sorted_string_object by blast
  from eq have "es = fs"
    unfolding canonical_text_def es(1) fs(1) json_text_string_object_inject .
  with es(2) fs(2) have "set (source_entries s) = set (source_entries t)" by (metis set_mset_mset)
  then show "s = t" by (rule source_entries_inject)
qed simp

section \<open>The policy\<close>

lemma find_ref_in: "find_ref refs kind = Some ref \<Longrightarrow> ref \<in> set refs \<and> wr_workerKind ref = kind"
  using find_in_list [of "\<lambda>r. wr_workerKind r = kind" refs ref] by (simp add: find_ref_def)

text \<open>The first reference of any required kind is the first of its own kind.\<close>

lemma find_required:
  "find (\<lambda>r. wr_workerKind r \<in> K) refs = Some ref \<Longrightarrow> find_ref refs (wr_workerKind ref) = Some ref"
  by (induction refs) (auto simp: find_ref_def split: if_splits dest: find_in_list)

lemma find_required_ex: "find_ref refs kind = Some ref \<Longrightarrow> kind \<in> K \<Longrightarrow>
    \<exists>r. find (\<lambda>r. wr_workerKind r \<in> K) refs = Some r"
  by (induction refs) (auto simp: find_ref_def split: if_splits)

definition kind_ok :: "PrepareAgentAttemptInput \<Rightarrow> WorkerFreshnessRef list \<Rightarrow> SourceRef \<Rightarrow> WorkerKind \<Rightarrow> bool" where
  "kind_ok inp refs source kind \<longleftrightarrow> (\<exists>ref. find_ref refs kind = Some ref \<and> tenantMatches inp ref
     \<and> wr_sourceScope ref = source
     \<and> (case pi_minimumCommittedAt inp of None \<Rightarrow> True | Some m \<Rightarrow> m = [] \<or> \<not> wr_committedAt ref < m)
     \<and> \<not> hasForbiddenRawData (JObj (wr_outputSummary ref)))"

lemma kind_failure_None_iff:
  "kind_failure env inp required refs kind = None \<longleftrightarrow>
     (\<exists>expected. find (\<lambda>r. wr_workerKind r \<in> set required) refs = Some expected
        \<and> kind_ok inp refs (wr_sourceScope expected) kind)"
  by (auto simp: kind_failure_def kind_ok_def sourceMatchesRequiredRefs_def canonical_source_inject
      split: option.splits if_splits)

lemma kinds_failure_None_iff:
  "kinds_failure env inp required refs kinds = None \<longleftrightarrow> (\<forall>kind \<in> set kinds. kind_failure env inp required refs kind = None)"
  by (induction kinds) (auto split: option.splits)

lemma required_kinds_iff:
  "kinds_failure env inp required refs required = None \<longleftrightarrow> (\<exists>source. \<forall>kind \<in> set required. kind_ok inp refs source kind)"
proof
  assume "kinds_failure env inp required refs required = None"
  then show "\<exists>source. \<forall>kind \<in> set required. kind_ok inp refs source kind"
    by (auto simp: kinds_failure_None_iff kind_failure_None_iff) (metis option.inject)
next
  assume "\<exists>source. \<forall>kind \<in> set required. kind_ok inp refs source kind"
  then obtain source where ok: "\<And>kind. kind \<in> set required \<Longrightarrow> kind_ok inp refs source kind" by blast
  have "kind_failure env inp required refs kind = None" if kind: "kind \<in> set required" for kind
  proof -
    from ok [OF kind] obtain ref where "find_ref refs kind = Some ref" by (auto simp: kind_ok_def)
    from find_required_ex [OF this kind] obtain expected
      where expected: "find (\<lambda>r. wr_workerKind r \<in> set required) refs = Some expected" by blast
    then have "wr_workerKind expected \<in> set required" using find_in_list by fastforce
    from ok [OF this] find_required [OF expected] have "wr_sourceScope expected = source" by (auto simp: kind_ok_def)
    with expected ok [OF kind] show ?thesis by (auto simp: kind_failure_None_iff)
  qed
  then show "kinds_failure env inp required refs required = None" by (simp add: kinds_failure_None_iff)
qed

lemma kinds_failure_status: "kinds_failure env inp required refs kinds = Some (status, reason) \<Longrightarrow>
    status \<noteq> Prepared \<and> status \<noteq> Blocked_dead_letter"
  by (induction kinds) (auto simp: kind_failure_def blocked_def split: option.splits if_splits)

definition safe_catalog :: "AgentReadOnlyToolDescriptor list \<Rightarrow> bool" where
  "safe_catalog catalog \<longleftrightarrow> list_all (\<lambda>tool. td_mutationPolicy tool = no_core_or_business_mutation
     \<and> td_capability tool = ''read_context'') catalog"

lemma policy_None_iff:
  "evaluatePreparedAttemptPolicy env inp required refs catalog = None \<longleftrightarrow>
     pi_identitySource inp = Deterministic_tenant_scope \<and> safe_catalog catalog
     \<and> list_all (\<lambda>d. dd_workerKind d \<notin> set required) (or_else (pi_deadLetterDiagnoses inp) [])
     \<and> (\<exists>source. \<forall>kind \<in> set required. kind_ok inp refs source kind)"
  by (auto simp: evaluatePreparedAttemptPolicy_def required_kinds_iff safe_catalog_def list_all_iff find_None_iff
      split: option.splits dest!: find_in_list)

lemma policy_not_prepared:
  "evaluatePreparedAttemptPolicy env inp required refs catalog = Some (status, reason) \<Longrightarrow> status \<noteq> Prepared"
  by (auto simp: evaluatePreparedAttemptPolicy_def blocked_def split: if_splits option.splits dest: kinds_failure_status)

section \<open>The cases of prepareAgentAttempt\<close>

lemma refs_Inr: "toWorkerFreshnessRefs records = Inr refs \<Longrightarrow>
    refs = map freshness_ref_of records \<and> list_all freshness_ref_shape refs"
  by (induction records arbitrary: refs) (auto simp: and_then_Inr_iff toWorkerFreshnessRef_def Let_def)

lemma index_ok:
  assumes "\<And>kind. kind \<in> set kinds \<Longrightarrow> find_ref refs kind \<noteq> None"
  shows "\<exists>entries. freshness_index refs kinds = Inr entries"
  using assms by (induction kinds) (auto simp: and_then_Inr_iff requireFreshnessRef_def split: option.splits)

lemma parse_attempt_Inr_iff [simp]: "parse_attempt a = Inr b \<longleftrightarrow> prepared_attempt_shape a \<and> b = a"
  by (auto simp: parse_attempt_def)

lemma prepare_InrE:
  assumes "prepareAgentAttempt env inp = Inr a"
  obtains (blocked) refs status reason where
      "toWorkerFreshnessRefs (pi_freshnessRecords inp) = Inr refs"
      "evaluatePreparedAttemptPolicy env inp (required_kinds inp) refs (tool_catalog inp) = Some (status, reason)"
      "a = (baseAttempt inp status (safeFreshnessRefs refs) (tool_catalog inp))\<lparr>pa_failureReason := Some reason\<rparr>"
      "prepared_attempt_shape a"
  | (over_budget) refs entries where
      "toWorkerFreshnessRefs (pi_freshnessRecords inp) = Inr refs"
      "evaluatePreparedAttemptPolicy env inp (required_kinds inp) refs (tool_catalog inp) = None"
      "freshness_index refs (required_kinds inp) = Inr entries"
      "bu_maxSeedBytes (pi_contextBudget inp) < int (byteLength env (context_seed_json (context_seed_of env inp entries)))"
      "a = (baseAttempt inp Blocked_policy refs (tool_catalog inp))\<lparr>pa_failureReason := Some
            \<lparr>pf_code = Code_context_budget_exceeded,
             pf_message = ''Prepared attempt context seed exceeds the configured context budget.''\<rparr>\<rparr>"
      "prepared_attempt_shape a"
  | (prepared) refs entries seed where
      "toWorkerFreshnessRefs (pi_freshnessRecords inp) = Inr refs"
      "evaluatePreparedAttemptPolicy env inp (required_kinds inp) refs (tool_catalog inp) = None"
      "freshness_index refs (required_kinds inp) = Inr entries"
      "seed = context_seed_of env inp entries"
      "int (byteLength env (context_seed_json seed)) \<le> bu_maxSeedBytes (pi_contextBudget inp)"
      "a = (baseAttempt inp Prepared refs (tool_catalog inp))
            \<lparr>pa_contextSeed := Some seed, pa_contextSeedHash := Some (stableHash env (context_seed_json seed))\<rparr>"
      "prepared_attempt_shape a"
proof -
  from assms obtain refs where refs: "toWorkerFreshnessRefs (pi_freshnessRecords inp) = Inr refs"
    unfolding prepareAgentAttempt_def Let_def by (auto simp: and_then_Inr_iff)
  show thesis
  proof (cases "evaluatePreparedAttemptPolicy env inp (required_kinds inp) refs (tool_catalog inp)")
    case (Some failure)
    obtain status reason where failure: "failure = (status, reason)" by force
    from assms have "prepared_attempt_shape a" and "a = (baseAttempt inp status (safeFreshnessRefs refs) (tool_catalog inp))\<lparr>pa_failureReason := Some reason\<rparr>"
      unfolding prepareAgentAttempt_def Let_def refs and_then.simps Some failure option.case prod.case by simp_all
    with refs Some failure show thesis by (auto intro: blocked)
  next
    case None
    from assms obtain entries where entries: "freshness_index refs (required_kinds inp) = Inr entries"
      unfolding prepareAgentAttempt_def Let_def refs and_then.simps None option.case and_then_Inr_iff by blast
    show thesis
    proof (cases "bu_maxSeedBytes (pi_contextBudget inp) < int (byteLength env (context_seed_json (context_seed_of env inp entries)))")
      case True
      with assms show thesis
        unfolding prepareAgentAttempt_def Let_def refs and_then.simps None option.case entries
        by (intro over_budget [OF refs None entries]) (simp_all add: and_then_Inr_iff)
    next
      case False
      with assms show thesis
        unfolding prepareAgentAttempt_def Let_def refs and_then.simps None option.case entries
        by (intro prepared [OF refs None entries refl]) (auto simp: and_then_Inr_iff)
    qed
  qed
qed

lemma prepare_shape: "prepareAgentAttempt env inp = Inr a \<Longrightarrow> prepared_attempt_shape a"
  by (erule prepare_InrE) simp_all

lemma baseAttempt_simps [simp]:
  "pa_status (baseAttempt inp status refs catalog) = status"
  "pa_workerFreshnessRefs (baseAttempt inp status refs catalog) = refs"
  "pa_brandId (baseAttempt inp status refs catalog) = pi_brandId inp"
  "pa_storeId (baseAttempt inp status refs catalog) = pi_storeId inp"
  "pa_agentRunId (baseAttempt inp status refs catalog) = pi_agentRunId inp"
  "pa_contextBudget (baseAttempt inp status refs catalog) = pi_contextBudget inp"
  "pa_allowedReadCapabilities (baseAttempt inp status refs catalog) = map td_name catalog"
  "pa_contextSeed (baseAttempt inp status refs catalog) = None"
  "pa_contextSeedHash (baseAttempt inp status refs catalog) = None"
  "pa_failureReason (baseAttempt inp status refs catalog) = None"
  by (simp_all add: baseAttempt_def)

section \<open>The tools\<close>

fun call_tool :: "tool_call \<Rightarrow> AgentReadOnlyToolName" where
  "call_tool (Call_worker_freshness kind) = Tool_worker_freshness"
| "call_tool (Call_projection_summary jobId) = Tool_projection_summary"
| "call_tool (Call_snapshot_summary jobId) = Tool_snapshot_summary"
| "call_tool (Call_benchmark_opportunity_gaps jobId) = Tool_benchmark_opportunity_gaps"
| "call_tool (Call_evidence_records jobId) = Tool_evidence_records"
| "call_tool Call_dead_letter_diagnosis = Tool_dead_letter_diagnosis"

fun call_kind :: "tool_call \<Rightarrow> WorkerKind option" where
  "call_kind (Call_worker_freshness kind) = Some kind"
| "call_kind (Call_projection_summary jobId) = Some Kind_projection"
| "call_kind (Call_snapshot_summary jobId) = Some Kind_snapshot"
| "call_kind (Call_benchmark_opportunity_gaps jobId) = Some Kind_benchmark"
| "call_kind (Call_evidence_records jobId) = Some Kind_evidence"
| "call_kind Call_dead_letter_diagnosis = None"

fun result_ref :: "tool_result \<Rightarrow> WorkerFreshnessRef option" where
  "result_ref (Freshness_result ref) = Some ref"
| "result_ref (Summary_result ref summary) = Some ref"
| "result_ref (Diagnosis_result reason) = None"

lemma readSummary_Inr:
  assumes "readSummary env a kind jobId = Inr res"
  obtains ref where "res = Summary_result ref (wr_outputSummary ref)" "pa_status a = Prepared"
    "find_ref (pa_workerFreshnessRefs a) kind = Some ref" "wr_committedJobId ref = jobId"
    "int (byteLength env (JObj (wr_outputSummary ref))) \<le> bu_maxToolResultBytes (pa_contextBudget a)"
    "\<not> hasForbiddenRawData (JObj (wr_outputSummary ref))"
  using assms unfolding readSummary_def assertPreparedForSummaryTool_def assertWithinToolBudget_def assertNoForbiddenRawData_def
    requireFreshnessRef_def
  by (auto simp: and_then_Inr_iff simp del: hasForbiddenRawData.simps split: option.splits)

lemma prepared_tool_ref:
  assumes "prepared_tool env a call = Inr res" "call_kind call = Some kind"
  obtains ref where "result_ref res = Some ref" "find_ref (pa_workerFreshnessRefs a) kind = Some ref"
    "pa_status a = Prepared"
proof (cases call)
  case (Call_worker_freshness k)
  with assms that show ?thesis
    by (auto simp: and_then_Inr_iff assertPreparedForSummaryTool_def requireFreshnessRef_def split: option.splits)
qed (use assms that in \<open>auto elim!: readSummary_Inr\<close>)

end
