(* ===== verification/AgentProperties.thy ===== *)
theory AgentProperties
  imports AgentLemmas PreparedLemmas
begin

text \<open>
  The properties of prepared attempts, their tools and the sidecar's runs, with their witnesses on one
  small attempt.
\<close>

section \<open>A sample attempt\<close>

definition sample_platform :: platform where
  "sample_platform = \<lparr>env_lc = default, env_numberText = (\<lambda>q. ''0''), env_sha256 = (\<lambda>s. ''h''),
     env_message = (\<lambda>e. ''error''), env_dateParse = (\<lambda>s. Some 0)\<rparr>"

definition sample_freshness :: "WorkerKind \<Rightarrow> WorkerFreshnessRecord" where
  "sample_freshness kind =
     \<lparr>wf_workerKind = kind, wf_tenantScope = \<lparr>ts_brandId = Text ''b'', ts_merchantId = Null, ts_storeId = Text ''s''\<rparr>,
      wf_sourceScope = \<lparr>ss_source = ''pos'', ss_producerService = Null, ss_producerEnvironment = Null\<rparr>,
      wf_committedWatermark = [], wf_committedJobId = ''j'', wf_committedAttemptId = 1,
      wf_outputSummary = [(''n'', JStr ''ok'')], wf_committedAt = ''t1''\<rparr>"

definition sample_budget :: PreparedAttemptContextBudget where
  "sample_budget = \<lparr>bu_maxSeedBytes = 4096, bu_maxToolResultBytes = 1024\<rparr>"

definition sample_prepare :: PrepareAgentAttemptInput where
  "sample_prepare =
     \<lparr>pi_attemptId = ''a'', pi_agentRunId = ''r'', pi_sessionId = ''e'', pi_brandId = ''b'', pi_storeId = ''s'',
      pi_opportunityGapId = ''g'', pi_requestedBy = ''u'', pi_createdAt = ''t'',
      pi_identitySource = Deterministic_tenant_scope, pi_freshnessRecords = [sample_freshness Kind_projection],
      pi_contextBudget = sample_budget, pi_evidenceRefs = Some [''v''], pi_assumptions = None,
      pi_minimumCommittedAt = Some ''t0'', pi_requiredWorkerKinds = Some [Kind_projection], pi_toolCatalog = None,
      pi_deadLetterDiagnoses = None\<rparr>"

definition sample_seed :: AgentContextSeed where
  "sample_seed = \<lparr>cs_brandId = ''b'', cs_storeId = ''s'', cs_opportunityGapId = ''g'', cs_evidenceRefs = [''v''],
     cs_assumptions = [''Peer benchmark comparison is directional and non-causal.''],
     cs_freshnessIndex = [\<lparr>fi_workerKind = Kind_projection, fi_toolName = Tool_projection_summary,
       fi_committedJobId = ''j'', fi_committedAttemptId = 1, fi_committedAt = ''t1''\<rparr>]\<rparr>"

definition sample_attempt :: PreparedAgentAttempt where
  "sample_attempt = (baseAttempt sample_prepare Prepared [freshness_ref_of (sample_freshness Kind_projection)]
     DEFAULT_AGENT_READ_ONLY_TOOL_DESCRIPTORS)
     \<lparr>pa_contextSeed := Some sample_seed, pa_contextSeedHash := Some ''sha256:h''\<rparr>"

lemma sample_attempt_status [simp]: "pa_status sample_attempt = Prepared"
  by (simp add: sample_attempt_def)

lemma sample_prepared: "prepareAgentAttempt sample_platform sample_prepare = Inr sample_attempt"
  by code_simp

section \<open>Prepared attempts\<close>

text \<open>C10. An attempt is prepared exactly when its identity comes from the tenant scope, every tool of the catalog
only reads, no required worker is dead-lettered, every required worker has committed freshness of the
brand and store, all of one source, not older than the minimum and without forbidden data, and the seed fits
its budget.\<close>

theorem prepared_exactly_when:
  assumes "prepareAgentAttempt env inp = Inr a"
  shows "pa_status a = Prepared \<longleftrightarrow>
      pi_identitySource inp = Deterministic_tenant_scope \<and> safe_catalog (tool_catalog inp)
    \<and> list_all (\<lambda>d. dd_workerKind d \<notin> set (required_kinds inp)) (or_else (pi_deadLetterDiagnoses inp) [])
    \<and> (\<exists>source. \<forall>kind \<in> set (required_kinds inp). kind_ok inp (map freshness_ref_of (pi_freshnessRecords inp)) source kind)
    \<and> (\<exists>entries. freshness_index (map freshness_ref_of (pi_freshnessRecords inp)) (required_kinds inp) = Inr entries
        \<and> int (byteLength env (context_seed_json (context_seed_of env inp entries))) \<le> bu_maxSeedBytes (pi_contextBudget inp))"
  using assms
proof (cases rule: prepare_InrE)
  case (blocked refs status reason)
  from blocked(2) have "\<not> evaluatePreparedAttemptPolicy env inp (required_kinds inp) refs (tool_catalog inp) = None" by simp
  with policy_not_prepared [OF blocked(2)] show ?thesis
    unfolding policy_None_iff refs_Inr [OF blocked(1), THEN conjunct1, symmetric]
    by (auto simp: blocked(3))
next
  case (over_budget refs entries)
  then show ?thesis
    unfolding refs_Inr [OF over_budget(1), THEN conjunct1, symmetric] by auto
next
  case (prepared refs entries seed)
  then show ?thesis
    unfolding refs_Inr [OF prepared(1), THEN conjunct1, symmetric] by (auto simp: policy_None_iff)
qed

theorem prepared_exactly_when_witness:
  "pa_status sample_attempt = Prepared
   \<and> \<not> pa_status sample_attempt = Blocked_policy \<and> pi_identitySource sample_prepare = Deterministic_tenant_scope"
  using prepared_exactly_when [OF sample_prepared] by simp

text \<open>C32. What is prepared is well formed and consistent: an attempt has a seed and its hash exactly when it is
prepared, a reason exactly when it is not, it allows the tools of the catalog, and tools are created for a
prepared or dead-lettered attempt only.\<close>

theorem prepared_attempt_consistent:
  assumes "prepareAgentAttempt env inp = Inr a"
  shows "prepared_attempt_shape a
    \<and> (pa_status a = Prepared \<longleftrightarrow> pa_contextSeed a \<noteq> None)
    \<and> (pa_status a = Prepared \<longleftrightarrow> pa_failureReason a = None)
    \<and> pa_contextSeedHash a = map_option (\<lambda>seed. stableHash env (context_seed_json seed)) (pa_contextSeed a)
    \<and> pa_allowedReadCapabilities a = map td_name (tool_catalog inp)
    \<and> ((\<exists>tools. createPreparedAttemptReadOnlyTools env a = Inr tools)
        \<longleftrightarrow> pa_status a = Prepared \<or> pa_status a = Blocked_dead_letter)"
proof -
  note shape = prepare_shape [OF assms]
  then have "(\<exists>tools. createPreparedAttemptReadOnlyTools env a = Inr tools)
      \<longleftrightarrow> pa_status a = Prepared \<or> pa_status a = Blocked_dead_letter"
    by (auto simp: createPreparedAttemptReadOnlyTools_def and_then_Inr_iff)
  with shape assms show ?thesis
    by (elim prepare_InrE) (auto dest: policy_not_prepared)
qed

theorem prepared_attempt_consistent_witness:
  "pa_contextSeed sample_attempt \<noteq> None \<and> (\<exists>tools. createPreparedAttemptReadOnlyTools sample_platform sample_attempt = Inr tools)"
  using prepared_attempt_consistent [OF sample_prepared] by simp




end
