(* ===== verification/RunOutcomes.thy ===== *)
theory RunOutcomes
  imports AgentLemmas
begin

text \<open>
  When a run of the sidecar comes to an end: over a reliable store, with callbacks that do not throw and a
  clock that tells the time, a run that is ready gets as far as its harness, and its harness decides how
  it ends.
\<close>

section \<open>Steps that return\<close>

definition succeeds :: "('s, 'a) step \<Rightarrow> bool" where
  "succeeds m \<longleftrightarrow> (\<forall>st. \<exists>a st'. m st = (Inr a, st'))"

lemma succeedsE: "succeeds m \<Longrightarrow> (\<And>a st'. m st = (Inr a, st') \<Longrightarrow> P) \<Longrightarrow> P"
  by (auto simp: succeeds_def)

lemma succeeds_return [intro, simp]: "succeeds (return_step a)"
  and succeeds_clock [intro, simp]: "succeeds (read_clock now)"
  by (simp_all add: succeeds_def return_step_def read_clock_def)

lemma succeeds_bind [intro]: "succeeds m \<Longrightarrow> (\<And>a. succeeds (f a)) \<Longrightarrow> succeeds (bind_step m f)"
  unfolding succeeds_def bind_step_Inr_iff by metis

lemma succeeds_lift_bind: "r = Inr a \<Longrightarrow> succeeds (f a) \<Longrightarrow> succeeds (bind_step (lift_step r) f)"
  by (simp add: succeeds_def bind_step_def lift_step_def)

lemma succeeds_clock_bind:
  "(\<And>n. succeeds (f (now n))) \<Longrightarrow> succeeds (bind_step (read_clock now) f)"
  by (simp add: succeeds_def bind_step_def read_clock_def)

lemma succeeds_bind_inv: "(\<And>st. \<exists>st'. m st = (Inr a, st')) \<Longrightarrow> succeeds (f a) \<Longrightarrow> succeeds (bind_step m f)"
  unfolding succeeds_def bind_step_Inr_iff by metis

text \<open>A harness that finishes with a good result whatever its tools answer.\<close>

primrec finishes :: "(AgentHarnessTurnResult \<Rightarrow> bool) \<Rightarrow> harness \<Rightarrow> bool" where
  "finishes P (Finish r) \<longleftrightarrow> P r"
| "finishes P (Fail e) \<longleftrightarrow> False"
| "finishes P (Call_tool tool toolInput k) \<longleftrightarrow> (\<forall>answer. finishes P (k answer))"

lemma finishes_run: "finishes P h \<Longrightarrow> \<exists>r st'. run_harness boundary h st = (Inr r, st') \<and> P r"
proof (induction h arbitrary: st)
  case (Call_tool tool toolInput k)
  obtain answer st1 where "boundary tool toolInput st = (answer, st1)" by fastforce
  with Call_tool show ?case by simp
qed (simp_all add: return_step_def)

section \<open>Inputs that are ready\<close>

definition silent :: "AgentHarnessCallbacks \<Rightarrow> bool" where
  "silent cbs \<longleftrightarrow> (\<forall>e. cb_onAuditEvent cbs e = None) \<and> (\<forall>n t. cb_onTranscriptEvent cbs n t = None)"

text \<open>The caller's side: well-formed attempt, callbacks that do not throw, a clock.\<close>

definition well_placed :: "'s RunAgentAttemptInput \<Rightarrow> AgentHarnessCallbacks \<Rightarrow> bool" where
  "well_placed inp cbs \<longleftrightarrow> prepared_attempt_shape (ra_preparedAttempt inp) \<and> ra_callbacks inp = Some cbs \<and> silent cbs
     \<and> (\<forall>n. nonempty (ra_now inp n))"

text \<open>All checks before the harness pass; \<open>h\<close> is the harness of the turn.\<close>

definition ready :: "'s RunAgentAttemptInput \<Rightarrow> harness \<Rightarrow> bool" where
  "ready inp h \<longleftrightarrow> assertPreparedAttemptConsumable (ra_preparedAttempt inp) = Inr ()
     \<and> parsePrompt (ra_prompt inp) = Inr (ra_prompt inp)
     \<and> parseAndCheckPolicy (ra_policy inp) (ra_preparedAttempt inp) = Inr (ra_policy inp)
     \<and> (\<exists>tools. assertToolSurface (ra_tools inp) (ra_policy inp) = Inr tools)
     \<and> parseRuntime (ra_runtime inp) = Inr (ru_config (ra_runtime inp))
     \<and> (\<exists>runTurn. ru_runTurn (ra_runtime inp) = Some runTurn
         \<and> h = runTurn (ra_preparedAttempt inp) (ra_prompt inp) (ra_policy inp) (ru_config (ra_runtime inp)))"

definition good_turn :: "AgentHarnessTurnResult \<Rightarrow> bool" where
  "good_turn r \<longleftrightarrow> draft_shape (tu_draft r) \<and> (case tu_runtimeUsage r of None \<Rightarrow> True | Some u \<Rightarrow> usage_shape u)
     \<and> list_all (\<lambda>t. nonempty (te_summary t)) (tu_transcript r)"

lemma text_ne [simp]: "nonempty (c # s)"
  by (simp add: nonempty_def)

lemma base_run_ok:
  assumes "well_placed inp cbs"
  shows "\<exists>base. baseAuditRun inp (ra_preparedAttempt inp) (ra_now inp n) = Inr base"
proof -
  let ?a = "ra_preparedAttempt inp"
  have seed: "list_all nonempty (case pa_contextSeed ?a of None \<Rightarrow> [] | Some s \<Rightarrow> cs_evidenceRefs s)"
    using assms by (auto simp: well_placed_def prepared_attempt_shape_def context_seed_shape_def split: option.splits)
  have hash: "nonempty (or_else (pa_contextSeedHash ?a) ''missing_context_seed_hash'')"
    using assms by (cases "pa_contextSeedHash ?a") (auto simp: well_placed_def prepared_attempt_shape_def optional_nonempty_def nonempty_def)
  show ?thesis
    using assms seed hash unfolding baseAuditRun_def parse_run_def Let_def well_placed_def
    by (auto simp: run_shape_def prepared_attempt_shape_def runtime_shape_def prompt_shape_def policy_shape_def
        optional_nonempty_def)
qed

lemma finite_metadata:
  "list_all (\<lambda>(k, v). json_numbers_finite v) (toJsonMetadata md) \<longleftrightarrow>
     list_all (\<lambda>(k, v). case v of None \<Rightarrow> True | Some j \<Rightarrow> json_numbers_finite j) md"
proof (induction md)
  case Nil
  show ?case by (simp add: toJsonMetadata_def List.map_filter_simps)
next
  case (Cons e md)
  obtain k v where "e = (k, v)" by force
  with Cons show ?case by (cases v) (auto simp: toJsonMetadata_def List.map_filter_simps)
qed

lemma finite_strings [simp]: "list_all json_numbers_finite (map (JStr \<circ> f) xs)" "list_all json_numbers_finite (map JStr ys)"
  by (simp_all add: list_all_iff)

lemma finite_usage: "json_numbers_finite (runtimeUsageMetadata u)"
  by (simp add: runtimeUsageMetadata_def finite_metadata int_json_def split: option.splits)

lemma event_ok:
  assumes "prepared_attempt_shape a" "nonempty t" "json_numbers_finite (JObj (toJsonMetadata md))"
  shows "run_event_shape (run_event a n eventType t md)"
  using assms by (auto simp: run_event_def run_event_shape_def prepared_attempt_shape_def)

context reliable_audit_store
begin

lemma append_succeeds:
  assumes "well_placed inp cbs" "ra_auditStore inp = ops" "nonempty t" "json_numbers_finite (JObj (toJsonMetadata md))"
  shows "succeeds (appendEvent inp (Some cbs) eventType t md)"
  unfolding succeeds_def
proof
  fix st :: "'a agent_state"
  let ?e = "run_event (ra_preparedAttempt inp) (length (ag_events st) + 1) eventType t md"
  have ok: "run_event_shape ?e" using assms by (intro event_ok) (auto simp: well_placed_def)
  obtain s where s: "as_appendEvent ops ?e (ag_store st) = (Inr (), s)" using takes_events [OF ok] by blast
  have "cb_onAuditEvent cbs ?e = None" using assms(1) by (simp add: well_placed_def silent_def)
  with ok s assms(2) show "\<exists>a st'. appendEvent inp (Some cbs) eventType t md st = (Inr a, st')"
    by (auto simp: appendEvent_def Let_def bind_step_def lift_step_def parse_run_event_def parse_as_def push_event_def
        store_step_def call_back_def)
qed

lemma append_now_succeeds:
  assumes "well_placed inp cbs" "ra_auditStore inp = ops" "json_numbers_finite (JObj (toJsonMetadata md))"
  shows "succeeds (appendEventNow inp cbs eventType md)"
  unfolding appendEventNow_def
  by (rule succeeds_clock_bind, rule append_succeeds) (use assms in \<open>auto simp: well_placed_def\<close>)

lemma load_succeeds:
  assumes "well_placed inp cbs" "ra_auditStore inp = ops" "ready inp h" "nonempty startedAt"
  obtains tools where "\<And>st. \<exists>st'. load_attempt inp cbs startedAt st = (Inr (ra_prompt inp, ra_policy inp, tools), st')"
proof -
  from assms(3) obtain tools where tools: "assertToolSurface (ra_tools inp) (ra_policy inp) = Inr tools" by (auto simp: ready_def)
  have "succeeds (load_attempt inp cbs startedAt)"
    unfolding load_attempt_def Let_def
    apply (rule succeeds_bind, rule append_succeeds [OF assms(1,2,4)], simp add: finite_metadata)
    apply (rule succeeds_lift_bind [where a = "()"]) apply (use assms(3) in \<open>simp add: ready_def\<close>)
    apply (rule succeeds_bind, rule append_now_succeeds [OF assms(1,2)], simp add: finite_metadata nat_json_def)
    apply (rule succeeds_lift_bind) apply (use assms(3) in \<open>simp add: ready_def\<close>)
    apply (rule succeeds_lift_bind) apply (use assms(3) in \<open>simp add: ready_def\<close>)
    apply (rule succeeds_lift_bind, rule tools)
    apply (rule succeeds_bind, rule append_now_succeeds [OF assms(1,2)], simp add: finite_metadata)
    apply simp
    done
  moreover have "load_attempt inp cbs startedAt st = (Inr x, st') \<Longrightarrow> x = (ra_prompt inp, ra_policy inp, tools)" for x st st'
    using load_Inr(3,4,5) [of inp cbs startedAt st _ _ _ st'] assms(3) tools
    by (cases x) (auto simp: ready_def)
  ultimately show ?thesis using that unfolding succeeds_def by metis
qed

lemma select_succeeds:
  assumes "well_placed inp cbs" "ra_auditStore inp = ops" "ready inp h"
  shows "\<exists>st'. select_runtime inp cbs (ra_prompt inp) (ra_policy inp) st = (Inr h, st')"
proof -
  from assms(3) obtain runTurn where turn: "ru_runTurn (ra_runtime inp) = Some runTurn"
    "h = runTurn (ra_preparedAttempt inp) (ra_prompt inp) (ra_policy inp) (ru_config (ra_runtime inp))"
    "parseRuntime (ra_runtime inp) = Inr (ru_config (ra_runtime inp))" by (auto simp: ready_def)
  have "succeeds (select_runtime inp cbs (ra_prompt inp) (ra_policy inp))"
    unfolding select_runtime_def
    apply (rule succeeds_lift_bind, rule turn(3))
    apply (rule succeeds_lift_bind, simp add: turn(1))
    apply (rule succeeds_bind, rule append_now_succeeds [OF assms(1,2)], simp add: finite_metadata)
    apply (rule succeeds_bind, rule append_now_succeeds [OF assms(1,2)], simp add: finite_metadata nat_json_def)
    apply simp
    done
  then obtain x st' where x: "select_runtime inp cbs (ra_prompt inp) (ra_policy inp) st = (Inr x, st')" by (rule succeedsE)
  with select_Inr(2) [OF x] turn show ?thesis by auto
qed

lemma transcript_succeeds:
  assumes "well_placed inp cbs" "ra_auditStore inp = ops"
  shows "succeeds (append_transcript inp cbs n ts)"
proof (induction ts arbitrary: n)
  case (Cons t ts)
  have "succeeds (call_back (cb_onTranscriptEvent cbs n t))"
    using assms(1) by (simp add: well_placed_def silent_def call_back_def succeeds_def lift_step_def)
  then show ?case
    unfolding append_transcript.simps
    by (intro succeeds_bind append_now_succeeds [OF assms] Cons.IH) (simp_all add: finite_metadata)
qed simp

lemma capture_succeeds:
  assumes "well_placed inp cbs" "ra_auditStore inp = ops" "run_shape baseRun" "good_turn turn"
  shows "succeeds (capture_draft env inp cbs baseRun turn)"
proof -
  let ?run = "\<lambda>t. baseRun\<lparr>ar_status := Run_draft_captured, ar_completedAt := Some t,
      ar_runtimeUsage := tu_runtimeUsage turn, ar_draft := Some (tu_draft turn)\<rparr>"
  have clock: "nonempty (ra_now inp n)" for n using assms(1) by (simp add: well_placed_def)
  have run: "run_shape (?run (ra_now inp n))" for n
    using assms(3,4) clock by (auto simp: run_shape_def good_turn_def optional_nonempty_def nonempty_def)
  have replace: "succeeds (store_step (as_replaceRun (ra_auditStore inp) r))" if "run_shape r" for r
    using replaces_runs [OF that] assms(2) unfolding succeeds_def store_step_iff by metis
  show ?thesis
    unfolding capture_draft_def Let_def
    apply (rule succeeds_lift_bind) apply (use assms(4) in \<open>simp add: good_turn_def parse_as_def\<close>)
    apply (rule succeeds_lift_bind) apply (use assms(4) in \<open>simp add: good_turn_def parse_as_def\<close>)
    apply (rule succeeds_bind, rule transcript_succeeds [OF assms(1,2)])
    apply (rule succeeds_lift_bind) apply (use assms(4) in \<open>simp add: good_turn_def parse_as_def\<close>)
    apply (rule succeeds_lift_bind [where a = "()"])
     apply (use assms(4) in \<open>simp add: good_turn_def assertNoCoreWrites_def draft_shape_def throw_plain_def throw_if_def\<close>)
    apply (rule succeeds_clock_bind)
    apply (rule succeeds_lift_bind) apply (use run in \<open>simp add: parse_run_def parse_as_def\<close>)
    apply (rule succeeds_bind, rule append_succeeds [OF assms(1,2) clock])
     apply (simp add: finite_metadata nat_json_def int_json_def finite_usage split: option.splits)
    apply (rule succeeds_bind, rule replace, rule run, simp)
    done
qed

lemma failure_succeeds:
  assumes "well_placed inp cbs" "ra_auditStore inp = ops" "run_shape baseRun" "nonempty (redactText (error_message env err))"
  shows "succeeds (record_failure env inp (Some cbs) baseRun err)"
proof -
  have clock: "nonempty (ra_now inp n)" for n using assms(1) by (simp add: well_placed_def)
  let ?run = "\<lambda>t. baseRun\<lparr>ar_status := Run_failed, ar_completedAt := Some t,
      ar_errorMessage := Some (redactText (error_message env err))\<rparr>"
  have run: "run_shape (?run (ra_now inp n))" for n
    using assms(3,4) clock by (auto simp: run_shape_def optional_nonempty_def nonempty_def)
  have replace: "succeeds (store_step (as_replaceRun (ra_auditStore inp) r))" if "run_shape r" for r
    using replaces_runs [OF that] assms(2) unfolding succeeds_def store_step_iff by metis
  show ?thesis
    unfolding record_failure_def
    apply (rule succeeds_clock_bind)
    apply (rule succeeds_lift_bind) apply (use run in \<open>simp add: parse_run_def parse_as_def\<close>)
    apply (rule succeeds_bind, rule append_succeeds [OF assms(1,2) clock])
     apply (simp add: finite_metadata int_json_def)
    apply (rule succeeds_bind, rule replace, rule run, simp)
    done
qed

text \<open>A run that is ready reaches its harness.\<close>

lemma try_reaches_harness:
  assumes "well_placed inp cbs" "ra_auditStore inp = ops" "ready inp h" "nonempty (ar_startedAt baseRun)"
  obtains tools st2 where "try_run env inp cbs baseRun st
    = bind_step (run_harness (guardedToolCall env inp cbs (ra_policy inp) tools) h)
        (\<lambda>result. capture_draft env inp cbs baseRun result) st2"
proof -
  from load_succeeds [OF assms] obtain tools where
    load: "\<And>st. \<exists>st'. load_attempt inp cbs (ar_startedAt baseRun) st = (Inr (ra_prompt inp, ra_policy inp, tools), st')" by blast
  obtain st1 where 1: "load_attempt inp cbs (ar_startedAt baseRun) st = (Inr (ra_prompt inp, ra_policy inp, tools), st1)"
    using load by blast
  obtain st2 where 2: "select_runtime inp cbs (ra_prompt inp) (ra_policy inp) st1 = (Inr h, st2)"
    using select_succeeds [OF assms(1-3)] by blast
  show thesis by (rule that [of tools st2]) (simp add: try_run_def bind_step_def 1 2)
qed

lemma try_captures:
  assumes "well_placed inp cbs" "ra_auditStore inp = ops" "ready inp h" "run_shape baseRun" "finishes good_turn h"
  shows "\<exists>run st'. try_run env inp cbs baseRun st = (Inr run, st') \<and> ar_status run = Run_draft_captured"
proof -
  have started: "nonempty (ar_startedAt baseRun)" using assms(4) by (simp add: run_shape_def)
  obtain tools st2 where attempt: "try_run env inp cbs baseRun st
    = bind_step (run_harness (guardedToolCall env inp cbs (ra_policy inp) tools) h)
        (\<lambda>result. capture_draft env inp cbs baseRun result) st2"
    by (rule try_reaches_harness [OF assms(1-3) started])
  obtain turn st3 where turn: "run_harness (guardedToolCall env inp cbs (ra_policy inp) tools) h st2 = (Inr turn, st3)" "good_turn turn"
    using finishes_run [OF assms(5)] by blast
  obtain run st' where run: "capture_draft env inp cbs baseRun turn st3 = (Inr run, st')"
    using capture_succeeds [OF assms(1,2,4) turn(2)] by (rule succeedsE)
  with capture_Inr(2) [OF run] turn(1) show ?thesis unfolding attempt by (auto simp: bind_step_def)
qed

text \<open>From the call to the first event.\<close>

lemma run_attempt_base:
  assumes "well_placed inp cbs" "ra_auditStore inp = ops"
  obtains base s1 where "run_shape base" "ar_status base = Run_started" "ar_agentRunId base = pa_agentRunId (ra_preparedAttempt inp)"
    "runs s1 = (runs s)(pa_agentRunId (ra_preparedAttempt inp) \<mapsto> base)" "stored s1 = stored s"
    "\<And>r st. run_from_base env inp base \<lparr>ag_events = [], ag_store = s1, ag_ticks = Suc 0\<rparr> = (r, st) \<Longrightarrow>
       runAgentAttempt env inp s = (case r of Inl e \<Rightarrow> Inl e | Inr run \<Rightarrow> Inr (run, ag_events st), ag_store st)"
proof -
  obtain base where base: "baseAuditRun inp (ra_preparedAttempt inp) (ra_now inp 0) = Inr base"
    using base_run_ok [OF assms(1)] by blast
  note b = base_Inr [OF base]
  obtain s1 where s1: "as_appendRun ops base s = (Inr (), s1)" using takes_runs [OF b(1)] by blast
  have shape: "parse_attempt (ra_preparedAttempt inp) = Inr (ra_preparedAttempt inp)"
    using assms(1) by (simp add: well_placed_def parse_attempt_def parse_as_def)
  show thesis
  proof (rule that [OF b(1,2,3)])
    show "runs s1 = (runs s)(pa_agentRunId (ra_preparedAttempt inp) \<mapsto> base)" "stored s1 = stored s"
      using run_added [OF s1] b(3) by auto
  next
    fix r st assume "run_from_base env inp base \<lparr>ag_events = [], ag_store = s1, ag_ticks = Suc 0\<rparr> = (r, st)"
    then show "runAgentAttempt env inp s = (case r of Inl e \<Rightarrow> Inl e | Inr run \<Rightarrow> Inr (run, ag_events st), ag_store st)"
      using shape base s1 assms(2)
      by (simp add: runAgentAttempt_def bind_step_def lift_step_def read_clock_def store_step_def)
  qed
qed

end

section \<open>How a run ends\<close>

text \<open>The end a run and its events agree on.\<close>

definition run_closed :: "AgentRun \<Rightarrow> AgentRunEvent list \<Rightarrow> bool" where
  "run_closed run evs \<longleftrightarrow>
     ar_status run = Run_draft_captured \<and> ar_draft run \<noteq> None \<and> ar_errorMessage run = None
       \<and> av_eventType (last evs) = Ev_draft_captured
     \<or> ar_status run = Run_failed \<and> ar_draft run = None \<and> ar_errorMessage run \<noteq> None
       \<and> av_eventType (last evs) = Ev_run_failed"

definition fresh_base :: "PreparedAgentAttempt \<Rightarrow> AgentRun \<Rightarrow> bool" where
  "fresh_base a base \<longleftrightarrow> ar_agentRunId base = pa_agentRunId a \<and> ar_draft base = None \<and> ar_errorMessage base = None"

lemma last_type: "event_types st' = event_types st @ xs @ [t] \<Longrightarrow> av_eventType (last (ag_events st')) = t"
  by (metis event_types_def append_assoc last_map last_snoc map_is_Nil_conv snoc_eq_iff_butlast)

context reliable_audit_store
begin

lemma failure_closes:
  assumes "ra_auditStore inp = ops" "fresh_base (ra_preparedAttempt inp) base"
    and fail: "record_failure env inp cbs base err st1 = (Inr run, st)"
    and "stored (ag_store st1) = before @ ag_events st1" "trail (ra_preparedAttempt inp) 0 (ag_events st1)"
      "runs (ag_store st1) = runs0"
  shows "stored (ag_store st) = before @ ag_events st \<and> trail (ra_preparedAttempt inp) 0 (ag_events st)
    \<and> runs (ag_store st) = runs0(pa_agentRunId (ra_preparedAttempt inp) \<mapsto> run)
    \<and> run_shape run \<and> ar_agentRunId run = pa_agentRunId (ra_preparedAttempt inp) \<and> run_closed run (ag_events st)"
proof -
  note f = failure_Inr [OF fail]
  from f(1) have "av_eventType (last (ag_events st)) = Ev_run_failed" using last_type [of st st1 "[]"] by simp
  moreover obtain new where "ag_events st = ag_events st1 @ new" "stored (ag_store st) = stored (ag_store st1) @ new"
    "trail (ra_preparedAttempt inp) (length (ag_events st1)) new"
    "runs (ag_store st) = (runs (ag_store st1))(ar_agentRunId run \<mapsto> run)"
    by (rule recordsE [OF records_failure [OF assms(1)] fail]) simp
  ultimately show ?thesis
    using f(2,3) assms(2,4-) by (auto simp: fresh_base_def run_closed_def)
qed

lemma capture_closes:
  assumes "ra_auditStore inp = ops" "fresh_base (ra_preparedAttempt inp) base"
    and run: "try_run env inp cbs base st0 = (Inr run, st)"
    and "stored (ag_store st0) = before" "ag_events st0 = []" "runs (ag_store st0) = runs0"
  shows "stored (ag_store st) = before @ ag_events st \<and> trail (ra_preparedAttempt inp) 0 (ag_events st)
    \<and> runs (ag_store st) = runs0(pa_agentRunId (ra_preparedAttempt inp) \<mapsto> run)
    \<and> run_shape run \<and> ar_agentRunId run = pa_agentRunId (ra_preparedAttempt inp) \<and> run_closed run (ag_events st)"
proof -
  from run obtain turn st3 where capture: "capture_draft env inp cbs base turn st3 = (Inr run, st)" by (rule try_run_Inr)
  note c = capture_Inr [OF capture]
  from c(1) have "av_eventType (last (ag_events st)) = Ev_draft_captured" by (rule last_type)
  moreover obtain new where "ag_events st = ag_events st0 @ new" "stored (ag_store st) = stored (ag_store st0) @ new"
    "trail (ra_preparedAttempt inp) (length (ag_events st0)) new"
    "runs (ag_store st) = (runs (ag_store st0))(ar_agentRunId run \<mapsto> run)"
    by (rule recordsE [OF records_try [OF assms(1)] run]) simp
  ultimately show ?thesis
    using c(2,3) assms(2,4-) by (auto simp: fresh_base_def run_closed_def)
qed

lemma run_from_base_closes:
  assumes ops: "ra_auditStore inp = ops" and base: "fresh_base (ra_preparedAttempt inp) base"
    and run: "run_from_base env inp base st0 = (Inr run, st)"
    and st0: "stored (ag_store st0) = before" "ag_events st0 = []" "runs (ag_store st0) = runs0"
  shows "stored (ag_store st) = before @ ag_events st \<and> trail (ra_preparedAttempt inp) 0 (ag_events st)
    \<and> runs (ag_store st) = runs0(pa_agentRunId (ra_preparedAttempt inp) \<mapsto> run)
    \<and> run_shape run \<and> ar_agentRunId run = pa_agentRunId (ra_preparedAttempt inp) \<and> run_closed run (ag_events st)"
proof (cases "ra_callbacks inp")
  case None
  with run show ?thesis
    unfolding run_from_base_def by (intro failure_closes [OF ops base]) (use st0 in simp_all)
next
  case (Some cbs)
  obtain r st1 where 1: "try_run env inp cbs base st0 = (r, st1)" by fastforce
  show ?thesis
  proof (cases r)
    case (Inl err)
    with run Some 1 have "record_failure env inp (Some cbs) base err st1 = (Inr run, st)" by (simp add: run_from_base_def)
    moreover obtain new where "ag_events st1 = new" "stored (ag_store st1) = before @ new"
      "trail (ra_preparedAttempt inp) 0 new" "runs (ag_store st1) = runs0"
      by (rule recordsE [OF records_try [OF ops] 1]) (use st0 Inl in simp)
    ultimately show ?thesis by (intro failure_closes [OF ops base]) simp_all
  next
    case (Inr run')
    with run Some 1 have "try_run env inp cbs base st0 = (Inr run, st)" by (simp add: run_from_base_def)
    then show ?thesis by (rule capture_closes [OF ops base _ st0])
  qed
qed

text \<open>A run returns unless the text of its error is redacted to nothing; then it stays as it was started.\<close>

lemma run_from_base_returns:
  assumes "well_placed inp cbs" and ops: "ra_auditStore inp = ops" and base: "run_shape base"
    and st0: "ag_events st0 = []"
  shows "(\<exists>run st. run_from_base env inp base st0 = (Inr run, st))
    \<or> (\<exists>st err. run_from_base env inp base st0 = (Inl (Parse_error Schema_run), st)
        \<and> redactText (error_message env err) = [] \<and> fst (try_run env inp cbs base st0) = Inl err
        \<and> runs (ag_store st) = runs (ag_store st0) \<and> Ev_run_failed \<notin> av_eventType ` set (ag_events st))"
proof -
  have cbs: "ra_callbacks inp = Some cbs" using assms(1) by (simp add: well_placed_def)
  obtain r st1 where 1: "try_run env inp cbs base st0 = (r, st1)" by fastforce
  show ?thesis
  proof (cases r)
    case (Inr run)
    with 1 cbs show ?thesis by (simp add: run_from_base_def)
  next
    case (Inl err)
    show ?thesis
    proof (cases "redactText (error_message env err) = []")
      case False
      then have "succeeds (record_failure env inp (Some cbs) base err)"
        by (intro failure_succeeds [OF assms(1) ops base]) (simp add: nonempty_def)
      with 1 Inl cbs show ?thesis by (auto simp: run_from_base_def succeeds_def)
    next
      case True
      then have "record_failure env inp (Some cbs) base err st1 = (Inl (Parse_error Schema_run), st1\<lparr>ag_ticks := ag_ticks st1 + 1\<rparr>)"
        by (simp add: record_failure_def bind_step_def read_clock_def lift_step_def parse_run_def parse_as_def run_shape_def
            optional_nonempty_def)
      moreover have "runs (ag_store st1) = runs (ag_store st0)" "Ev_run_failed \<notin> av_eventType ` set (ag_events st1)"
        by (rule recordsE [OF records_try [OF ops] 1];
            use Inl st0 in \<open>auto simp: run_event_types_def turn_event_types_def tool_event_types_def\<close>)+
      ultimately show ?thesis using 1 Inl cbs True by (auto simp: run_from_base_def)
    qed
  qed
qed

end

end
