(* ===== verification/SidecarProperties.thy ===== *)
theory SidecarProperties
  imports AgentProperties RunOutcomes
begin

text \<open>
  The properties of a run of the sidecar: what it leaves in the store, what it checked before the harness
  ran, what the harness can reach through the tool boundary, and where a run is left unfinished.
\<close>

section \<open>A sample run\<close>

definition sample_policy :: AgentRuntimePolicy where
  "sample_policy = \<lparr>po_policyVersion = ''agent-runtime-policy.v1'', po_toolCatalogVersion = ''agent-read-tools.v1'',
     po_mutationPolicy = no_core_or_business_mutation, po_accepted = True,
     po_allowedToolNames = [Tool_projection_summary, Tool_dead_letter_diagnosis]\<rparr>"

definition sample_draft :: AgentDraftOutput where
  "sample_draft = \<lparr>dx_outputKind = ''intervention_hypothesis_draft'', dx_truthStatus = ''agent_draft_not_core_truth'',
     dx_hypothesis = ''h'', dx_reasoningSummary = ''r'',
     dx_draftExperimentPlan = \<lparr>dp_objective = ''o'', dp_measurementMetricId = ''refund_rate'',
       dp_guardrailMetricIds = [''avg_order_value''], dp_merchantReviewRequired = True\<rparr>,
     dx_evidenceRefs = [''v''], dx_allowedDraftOperationsUsed = [], dx_requestedCoreWrites = [],
     dx_disallowedMutationTargetsAcknowledged = [''menu'']\<rparr>"

definition sample_turn :: AgentHarnessTurnResult where
  "sample_turn = \<lparr>tu_draft = sample_draft,
     tu_transcript = [\<lparr>te_type = Tr_draft_emitted, te_toolName = None, te_summary = ''done''\<rparr>], tu_runtimeUsage = None\<rparr>"

definition job_input :: "json option" where
  "job_input = Some (JObj [(''committedJobId'', JStr ''j'')])"

text \<open>The harness calls a tool that is not allowed and finishes.\<close>

definition sample_harness :: harness where
  "sample_harness = Call_tool Tool_evidence_records job_input (\<lambda>_. Finish sample_turn)"

definition silent_callbacks :: AgentHarnessCallbacks where
  "silent_callbacks = \<lparr>cb_onAuditEvent = (\<lambda>e. None), cb_onTranscriptEvent = (\<lambda>n t. None)\<rparr>"

definition sample_run :: "harness \<Rightarrow> mem_audit RunAgentAttemptInput" where
  "sample_run h = \<lparr>ra_preparedAttempt = sample_attempt,
     ra_prompt = \<lparr>pm_promptRef = ''p'', pm_systemInstructions = ''i''\<rparr>,
     ra_tools = Some (prepared_surface sample_platform sample_attempt), ra_policy = sample_policy,
     ra_runtime = \<lparr>ru_config = \<lparr>rt_provider = ''p'', rt_model = ''m'', rt_profile = ''f'',
         rt_runtimeMode = Mode_pi_sdk_adapter, rt_authRef = ''a''\<rparr>, ru_runTurn = Some (\<lambda>_ _ _ _. h)\<rparr>,
     ra_auditStore = mem_audit_ops, ra_callbacks = Some silent_callbacks, ra_now = (\<lambda>n. ''t'')\<rparr>"

definition empty_audit :: mem_audit where
  "empty_audit = \<lparr>mu_runs = [], mu_events = []\<rparr>"

lemma sample_run_simps [simp]: "ra_auditStore (sample_run h) = mem_audit_ops" "ra_preparedAttempt (sample_run h) = sample_attempt"
  "ra_callbacks (sample_run h) = Some silent_callbacks"
  by (simp_all add: sample_run_def)

lemma sample_well_placed: "well_placed (sample_run h) silent_callbacks"
  using prepare_shape [OF sample_prepared]
  by (simp add: well_placed_def silent_def silent_callbacks_def sample_run_def)

lemma sample_ready: "ready (sample_run h) h"
proof -
  have 1: "assertPreparedAttemptConsumable sample_attempt = Inr ()" by code_simp
  have 2: "parsePrompt \<lparr>pm_promptRef = ''p'', pm_systemInstructions = ''i''\<rparr>
      = Inr \<lparr>pm_promptRef = ''p'', pm_systemInstructions = ''i''\<rparr>" by code_simp
  have 3: "parseAndCheckPolicy sample_policy sample_attempt = Inr sample_policy" by code_simp
  have 4: "assertToolSurface (Some (prepared_surface sample_platform sample_attempt)) sample_policy
      = Inr (prepared_surface sample_platform sample_attempt)"
    by (simp add: assertToolSurface_def prepared_surface_def SAFE_AGENT_TOOL_NAMES_def sample_policy_def)
  have 5: "\<not> containsSensitiveText ''a'' \<and> \<not> containsSensitiveText ''p'' \<and> \<not> containsSensitiveText ''m''" by code_simp
  show ?thesis
    using 1 2 3 4 5 unfolding ready_def
    by (simp add: sample_run_def parseRuntime_def parse_as_def runtime_shape_def throw_plain_def throw_if_def)
qed

lemma sample_finishes: "finishes good_turn sample_harness"
  by (simp add: sample_harness_def good_turn_def sample_turn_def sample_draft_def draft_shape_def)

lemma run_captures:
  assumes "ra_auditStore inp = mem_audit_ops" "well_placed inp cbs" "ready inp h" "finishes good_turn h"
  shows "\<exists>run evs store'. runAgentAttempt env inp store = (Inr (run, evs), store') \<and> ar_status run = Run_draft_captured"
proof -
  obtain base s1 where base: "run_shape base"
    "\<And>r st. run_from_base env inp base \<lparr>ag_events = [], ag_store = s1, ag_ticks = Suc 0\<rparr> = (r, st) \<Longrightarrow>
       runAgentAttempt env inp store = (case r of Inl e \<Rightarrow> Inl e | Inr run \<Rightarrow> Inr (run, ag_events st), ag_store st)"
    by (rule mem_audit.run_attempt_base [OF assms(2,1), of store env]) blast
  obtain run st' where "try_run env inp cbs base \<lparr>ag_events = [], ag_store = s1, ag_ticks = Suc 0\<rparr> = (Inr run, st')"
    "ar_status run = Run_draft_captured"
    using mem_audit.try_captures [OF assms(2,1,3) base(1) assms(4)] by blast
  moreover from this assms(2) have "run_from_base env inp base \<lparr>ag_events = [], ag_store = s1, ag_ticks = Suc 0\<rparr> = (Inr run, st')"
    by (simp add: run_from_base_def well_placed_def)
  ultimately show ?thesis using base(2) by auto
qed

lemma sample_captured:
  obtains run evs store' where "runAgentAttempt env (sample_run sample_harness) empty_audit = (Inr (run, evs), store')"
    "ar_status run = Run_draft_captured"
  using run_captures [OF sample_run_simps(1) sample_well_placed sample_ready sample_finishes] by blast

section \<open>What a run leaves\<close>

lemma recorded_run:
  assumes run: "runAgentAttempt env inp store = (Inr (run, evs), store')" and ops: "ra_auditStore inp = mem_audit_ops"
  shows "mu_events store' = mu_events store @ evs
    \<and> map_get (mu_runs store') = (map_get (mu_runs store))(pa_agentRunId (ra_preparedAttempt inp) \<mapsto> run)
    \<and> map av_agentRunEventId evs
        = map (\<lambda>i. ''agent_run_event:'' @ pa_agentRunId (ra_preparedAttempt inp) @ '':'' @ nat_text i) [1..<Suc (length evs)]
    \<and> list_all run_event_shape evs \<and> run_shape run \<and> ar_agentRunId run = pa_agentRunId (ra_preparedAttempt inp)
    \<and> (ar_status run = Run_draft_captured \<and> ar_draft run \<noteq> None \<and> ar_errorMessage run = None
         \<and> av_eventType (last evs) = Ev_draft_captured
       \<or> ar_status run = Run_failed \<and> ar_draft run = None \<and> ar_errorMessage run \<noteq> None
         \<and> av_eventType (last evs) = Ev_run_failed)"
proof -
  let ?a = "ra_preparedAttempt inp"
  from run obtain base s1 st where base: "baseAuditRun inp ?a (ra_now inp 0) = Inr base"
    and s1: "as_appendRun (ra_auditStore inp) base store = (Inr (), s1)"
    and from_base: "run_from_base env inp base \<lparr>ag_events = [], ag_store = s1, ag_ticks = Suc 0\<rparr> = (Inr run, st)"
    and st: "evs = ag_events st" "store' = ag_store st"
    by (rule run_attempt_Inr)
  note b = base_Inr [OF base]
  have start: "map_get (mu_runs s1) = (map_get (mu_runs store))(pa_agentRunId ?a \<mapsto> base)" "mu_events s1 = mu_events store"
    using s1 b(3) by (auto simp: ops mem_put_run_iff map_get_set_fun)
  have "fresh_base ?a base" using b by (simp add: fresh_base_def)
  from mem_audit.run_from_base_closes [OF ops this from_base, of "mu_events s1" "map_get (mu_runs s1)"]
  have kept: "mu_events store' = mu_events store @ evs" "trail ?a 0 evs"
    "map_get (mu_runs store') = (map_get (mu_runs store))(pa_agentRunId ?a \<mapsto> run)"
    "run_shape run" "ar_agentRunId run = pa_agentRunId ?a" "run_closed run evs"
    by (auto simp: st start)
  have "list_all run_event_shape evs" using trail_run [OF kept(2)] by (auto simp: list_all_iff)
  with trail_ids [OF kept(2)] kept show ?thesis by (auto simp: run_closed_def fun_eq_iff simp del: upt_Suc)
qed



section \<open>What a run has checked\<close>

lemma captured_turnE:
  assumes run: "runAgentAttempt env inp store = (Inr (run, evs), store')" and captured: "ar_status run = Run_draft_captured"
  obtains base s1 cbs prompt policy tools st1 h st2 turn st3 st where
    "baseAuditRun inp (ra_preparedAttempt inp) (ra_now inp 0) = Inr base"
    "load_attempt inp cbs (ar_startedAt base) \<lparr>ag_events = [], ag_store = s1, ag_ticks = Suc 0\<rparr> = (Inr (prompt, policy, tools), st1)"
    "select_runtime inp cbs prompt policy st1 = (Inr h, st2)"
    "run_harness (guardedToolCall env inp cbs policy tools) h st2 = (Inr turn, st3)"
    "capture_draft env inp cbs base turn st3 = (Inr run, st)" "evs = ag_events st"
proof -
  from run obtain base s1 st where base: "baseAuditRun inp (ra_preparedAttempt inp) (ra_now inp 0) = Inr base"
    and from_base: "run_from_base env inp base \<lparr>ag_events = [], ag_store = s1, ag_ticks = Suc 0\<rparr> = (Inr run, st)"
    and st: "evs = ag_events st" by (rule run_attempt_Inr)
  have "\<not> record_failure env inp c base e st1 = (Inr run, st2)" for c e st1 st2
    using failure_Inr(2) [of env inp c base e st1 run st2] captured by auto
  with from_base obtain cbs where "try_run env inp cbs base \<lparr>ag_events = [], ag_store = s1, ag_ticks = Suc 0\<rparr> = (Inr run, st)"
    by (auto simp: run_from_base_def split: option.splits prod.splits sum.splits)
  then show ?thesis using that base st by (elim try_run_Inr)
qed

lemma captured_protocol:
  assumes run: "runAgentAttempt env inp store = (Inr (run, evs), store')" and ops: "ra_auditStore inp = mem_audit_ops"
    and captured: "ar_status run = Run_draft_captured"
  shows "pa_status (ra_preparedAttempt inp) = Prepared \<and> pa_contextSeed (ra_preparedAttempt inp) \<noteq> None
    \<and> set (po_allowedToolNames (ra_policy inp)) \<subseteq> set (pa_allowedReadCapabilities (ra_preparedAttempt inp))
    \<and> \<not> containsSensitiveText (pm_systemInstructions (ra_prompt inp))
    \<and> \<not> containsSensitiveText (rt_authRef (ru_config (ra_runtime inp)))
    \<and> (\<exists>d. ar_draft run = Some d \<and> dx_requestedCoreWrites d = [] \<and> dx_truthStatus d = ''agent_draft_not_core_truth'')
    \<and> (\<exists>toolTypes n. set toolTypes \<subseteq> tool_event_types
        \<and> map av_eventType evs = [Ev_run_started, Ev_attempt_loaded, Ev_policy_evaluated, Ev_runtime_selected, Ev_harness_invoked]
            @ toolTypes @ replicate n Ev_harness_transcript_event @ [Ev_draft_captured])"
proof -
  from run captured obtain base s1 cbs prompt policy tools st1 h st2 turn st3 st where
    load: "load_attempt inp cbs (ar_startedAt base) \<lparr>ag_events = [], ag_store = s1, ag_ticks = Suc 0\<rparr> = (Inr (prompt, policy, tools), st1)"
    and select: "select_runtime inp cbs prompt policy st1 = (Inr h, st2)"
    and harness: "run_harness (guardedToolCall env inp cbs policy tools) h st2 = (Inr turn, st3)"
    and capture: "capture_draft env inp cbs base turn st3 = (Inr run, st)" and st: "evs = ag_events st" by (rule captured_turnE)
  note l = load_Inr [OF load] and s = select_Inr [OF select] and c = capture_Inr [OF capture]
  have "audited (\<lambda>s. map_get (mu_runs s)) mu_events (ra_preparedAttempt inp) tool_event_types
      (run_harness (guardedToolCall env inp cbs policy tools) h)"
    by (intro audited_harness mem_audit.audited_guarded [OF ops] order_refl)
  from this harness obtain new where new: "ag_events st3 = ag_events st2 @ new" "av_eventType ` set new \<subseteq> tool_event_types"
    by (rule auditedE)
  have "map av_eventType evs = [Ev_run_started, Ev_attempt_loaded, Ev_policy_evaluated, Ev_runtime_selected, Ev_harness_invoked]
      @ map av_eventType new @ replicate (length (tu_transcript turn)) Ev_harness_transcript_event @ [Ev_draft_captured]"
    using l(1) s(1) c(1) new(1) by (simp add: st event_types_def)
  then have types: "\<exists>toolTypes n. set toolTypes \<subseteq> tool_event_types
        \<and> map av_eventType evs = [Ev_run_started, Ev_attempt_loaded, Ev_policy_evaluated, Ev_runtime_selected, Ev_harness_invoked]
            @ toolTypes @ replicate n Ev_harness_transcript_event @ [Ev_draft_captured]"
    using new(2) by (intro exI [of _ "map av_eventType new"]) auto
  have "set (po_allowedToolNames (ra_policy inp)) \<subseteq> set (pa_allowedReadCapabilities (ra_preparedAttempt inp))"
    using l(4) by (auto simp: parseAndCheckPolicy_def and_then_Inr_iff find_None_iff split: option.splits)
  with types l(2,3) s(2) c(2,4) show ?thesis
    by (auto simp: assertPreparedAttemptConsumable_def parsePrompt_def parseRuntime_def and_then_Inr_iff draft_shape_def)
qed

lemma sample_captured_sel:
  assumes "runAgentAttempt env (sample_run sample_harness) empty_audit = (Inr (run, evs), store')" "ar_status run = Run_draft_captured"
  shows "ar_draft run = Some sample_draft" "ar_agentRunId run = ''r''" "ar_brandId run = ''b''" "ar_storeId run = ''s''"
    "ar_opportunityGapId run = ''g''"
proof -
  from assms obtain base s1 cbs prompt policy tools st1 h st2 turn st3 st where
    base: "baseAuditRun (sample_run sample_harness) sample_attempt (ra_now (sample_run sample_harness) 0) = Inr base"
    and select: "select_runtime (sample_run sample_harness) cbs prompt policy st1 = (Inr h, st2)"
    and harness: "run_harness (guardedToolCall env (sample_run sample_harness) cbs policy tools) h st2 = (Inr turn, st3)"
    and capture: "capture_draft env (sample_run sample_harness) cbs base turn st3 = (Inr run, st)"
    by (rule captured_turnE) simp
  from select_Inr(2) [OF select] have "h = sample_harness" by (simp add: sample_run_def)
  with harness have "turn = sample_turn" by (auto simp: sample_harness_def return_step_def split: prod.splits)
  with capture_Inr(2) [OF capture] base_Inr [OF base]
  show "ar_draft run = Some sample_draft" "ar_agentRunId run = ''r''" "ar_brandId run = ''b''" "ar_storeId run = ''s''"
    "ar_opportunityGapId run = ''g''"
    by (auto simp: sample_turn_def sample_attempt_def baseAttempt_def sample_prepare_def)
qed



section \<open>What the harness can reach\<close>

lemma parse_tool_call_tool: "parse_tool_call tool toolInput = Inr call \<Longrightarrow> call_tool call = tool"
  by (cases tool) (auto simp: job_id_input_def split: option.splits json.splits)

lemma guarded_same:
  assumes "\<And>call. call_tool call \<in> set (po_allowedToolNames policy) \<Longrightarrow> su_call su call = su_call su' call"
  shows "guardedToolCall env inp cbs policy su tool toolInput = guardedToolCall env inp cbs policy su' tool toolInput"
proof (cases "tool \<in> set (po_allowedToolNames policy)")
  case True
  have "callPreparedTool su tool toolInput = callPreparedTool su' tool toolInput"
    using assms True parse_tool_call_tool [of tool toolInput]
    by (cases "parse_tool_call tool toolInput") (auto simp: callPreparedTool_def)
  then show ?thesis by (simp add: guardedToolCall_def)
qed (simp add: guardedToolCall_def)

lemma append_with_tools: "appendEvent (inp\<lparr>ra_tools := t\<rparr>) = appendEvent inp"
  by (intro ext) (simp add: appendEvent_def Let_def)

lemma append_now_with_tools: "appendEventNow (inp\<lparr>ra_tools := t\<rparr>) = appendEventNow inp"
  by (intro ext) (simp add: appendEventNow_def append_with_tools)

lemma transcript_with_tools: "append_transcript (inp\<lparr>ra_tools := t\<rparr>) cbs n ts = append_transcript inp cbs n ts"
  by (induction ts arbitrary: n) (simp_all add: append_now_with_tools)

lemma steps_with_tools:
  "guardedToolCall env (inp\<lparr>ra_tools := t\<rparr>) = guardedToolCall env inp"
  "select_runtime (inp\<lparr>ra_tools := t\<rparr>) = select_runtime inp"
  "capture_draft env (inp\<lparr>ra_tools := t\<rparr>) = capture_draft env inp"
  "record_failure env (inp\<lparr>ra_tools := t\<rparr>) = record_failure env inp"
  "baseAuditRun (inp\<lparr>ra_tools := t\<rparr>) = baseAuditRun inp"
  by (intro ext; simp add: guardedToolCall_def select_runtime_def capture_draft_def record_failure_def baseAuditRun_def
      append_with_tools append_now_with_tools transcript_with_tools Let_def cong: if_cong)+

text \<open>The outcome of loading with the surface replaced.\<close>

definition swap_surface :: "tool_surface \<Rightarrow> (agent_error + 'p \<times> 'q \<times> tool_surface) \<times> 's agent_state
    \<Rightarrow> (agent_error + 'p \<times> 'q \<times> tool_surface) \<times> 's agent_state" where
  "swap_surface su = map_prod (map_sum id (\<lambda>(p, q, _). (p, q, su))) id"

lemma swap_bind: "swap_surface su (bind_step m f st) = bind_step m (\<lambda>a st. swap_surface su (f a st)) st"
  by (auto simp: swap_surface_def bind_step_def split: prod.splits sum.splits)

lemma swap_return: "swap_surface su (return_step (p, q, t) st) = return_step (p, q, su) st"
  by (simp add: swap_surface_def return_step_def)

lemma bind_lift_map: "bind_step (lift_step (map_sum id g r)) f = bind_step (lift_step r) (\<lambda>x. f (g x))"
  by (intro ext) (auto simp: bind_step_def lift_step_def split: sum.splits)

lemma load_with_surface:
  assumes "su_ownFunctions su = su_ownFunctions su'" "su_hasFunction su = su_hasFunction su'"
  shows "load_attempt (inp\<lparr>ra_tools := Some su\<rparr>) cbs t st
    = swap_surface su (load_attempt (inp\<lparr>ra_tools := Some su'\<rparr>) cbs t st)"
proof -
  define surface where "surface policy = assertToolSurface (Some su) policy" for policy
  have "assertToolSurface (Some su) policy = map_sum id (\<lambda>_. su) (surface policy)"
    "assertToolSurface (Some su') policy = map_sum id (\<lambda>_. su') (surface policy)" for policy
    using assms by (auto simp: surface_def assertToolSurface_def Let_def split: option.splits)
  then show ?thesis
    by (simp add: load_attempt_def append_with_tools append_now_with_tools Let_def swap_bind bind_lift_map swap_return)
qed

lemma surface_Inr: "assertToolSurface (Some su) policy = Inr tools \<Longrightarrow> tools = su"
  by (auto simp: assertToolSurface_def Let_def split: option.splits if_splits)

lemma policy_Inr: "parseAndCheckPolicy p a = Inr policy \<Longrightarrow> policy = p"
  by (auto simp: parseAndCheckPolicy_def and_then_Inr_iff split: option.splits)

lemma try_with_surface:
  assumes names: "su_ownFunctions su = su_ownFunctions su'" "su_hasFunction su = su_hasFunction su'"
    and alike: "\<And>call. call_tool call \<in> set (po_allowedToolNames (ra_policy inp)) \<Longrightarrow> su_call su call = su_call su' call"
  shows "try_run env (inp\<lparr>ra_tools := Some su\<rparr>) cbs base st = try_run env (inp\<lparr>ra_tools := Some su'\<rparr>) cbs base st"
proof (cases "load_attempt (inp\<lparr>ra_tools := Some su'\<rparr>) cbs (ar_startedAt base) st")
  case (Pair r st1)
  note load = load_with_surface [OF names, of inp cbs]
  show ?thesis
  proof (cases r)
    case (Inl e)
    with Pair show ?thesis by (simp add: try_run_def bind_step_def load swap_surface_def)
  next
    case (Inr x)
    obtain prompt policy tools where x: "x = (prompt, policy, tools)" by (cases x) auto
    note l = load_Inr [OF Pair [unfolded Inr x]]
    from policy_Inr [OF l(4)] surface_Inr l(5) have pol: "policy = ra_policy inp" "tools = su'" by auto
    have "guardedToolCall env inp cbs policy su = guardedToolCall env inp cbs policy su'"
      by (intro ext, subst guarded_same [of policy su su']) (use alike pol in auto)
    with Pair Inr x pol show ?thesis
      by (simp add: try_run_def bind_step_def load swap_surface_def steps_with_tools)
  qed
qed


definition hostile_surface :: tool_surface where
  "hostile_surface = (prepared_surface sample_platform sample_attempt)
     \<lparr>su_call := (\<lambda>call. if call_tool call = Tool_evidence_records then Inr (Some (JStr ''secret''))
        else su_call (prepared_surface sample_platform sample_attempt) call)\<rparr>"


text \<open>A tool answers the harness only where the policy allows it, and what it answers fits the attempt's budget for tool
results and holds no API key in any of its texts.\<close>

theorem tool_answer_bounded:
  assumes "guardedToolCall env inp cbs policy tools tool toolInput st = (Inr answer, st')"
  shows "tool \<in> set (po_allowedToolNames policy)
    \<and> (\<exists>v. answer = Some v
        \<and> int (utf8_bytes (json_text (env_numberText env) v)) \<le> bu_maxToolResultBytes (pa_contextBudget (ra_preparedAttempt inp))
        \<and> (\<forall>s \<in> set (json_strings v). \<not> re_test api_key_at s))"
proof -
  have allowed: "tool \<in> set (po_allowedToolNames policy)"
    using assms by (cases "tool \<in> set (po_allowedToolNames policy)") (auto simp: guardedToolCall_def bind_step_Inr_iff)
  with assms obtain raw bytes where "answer = map_option sanitizeJsonValue raw"
    "resultByteLength env (map_option sanitizeJsonValue raw) = Inr bytes"
    "\<not> bu_maxToolResultBytes (pa_contextBudget (ra_preparedAttempt inp)) < int bytes"
    by (auto simp: guardedToolCall_def bind_step_Inr_iff Let_def split: if_splits)
  with allowed show ?thesis
    by (cases raw) (auto simp: resultByteLength_def dest: sanitized_no_api_key)
qed

definition tiny_surface :: tool_surface where
  "tiny_surface = \<lparr>su_ownFunctions = [], su_hasFunction = (\<lambda>_. True), su_call = (\<lambda>_. Inr (Some (JBool True)))\<rparr>"

theorem tool_answer_bounded_witness:
  "\<exists>answer st'. guardedToolCall sample_platform (sample_run sample_harness) silent_callbacks sample_policy tiny_surface
      Tool_dead_letter_diagnosis None \<lparr>ag_events = [], ag_store = empty_audit, ag_ticks = 0\<rparr> = (Inr answer, st')
    \<and> answer \<noteq> None"
proof -
  let ?start = "\<lparr>ag_events = [], ag_store = empty_audit, ag_ticks = 0\<rparr>"
  have size: "\<not> bu_maxToolResultBytes (pa_contextBudget sample_attempt) < 4"
    by (simp add: sample_attempt_def baseAttempt_def sample_prepare_def sample_budget_def)
  have "succeeds (guardedToolCall sample_platform (sample_run sample_harness) silent_callbacks sample_policy tiny_surface
      Tool_dead_letter_diagnosis None)"
    unfolding guardedToolCall_def Let_def
    apply (simp add: sample_policy_def)
    apply (rule succeeds_bind, rule mem_audit.append_now_succeeds [OF sample_well_placed sample_run_simps(1)])
     apply (simp add: finite_metadata tool_metadata_def)
    apply (rule succeeds_lift_bind [where a = "Some (JBool True)"], simp add: callPreparedTool_def tiny_surface_def)
    apply (rule succeeds_lift_bind [where a = 4], simp add: resultByteLength_def utf8_bytes_def)
    using size apply simp
    apply (rule succeeds_bind, rule mem_audit.append_now_succeeds [OF sample_well_placed sample_run_simps(1)])
     apply (simp_all add: finite_metadata nat_json_def)
    done
  then obtain answer st' where "guardedToolCall sample_platform (sample_run sample_harness) silent_callbacks sample_policy tiny_surface
      Tool_dead_letter_diagnosis None ?start = (Inr answer, st')" by (rule succeedsE)
  with tool_answer_bounded [OF this] show ?thesis by auto
qed

text \<open>The dead-letter tool cannot work: a run needs a prepared attempt, for which the tool has nothing to say, and the
boundary then asks for the length of the text of \<open>undefined\<close>. Every allowed call leaves the event of the
attempt, and neither a denial nor a result, and throws a type error.\<close>

theorem dead_letter_tool_always_throws:
  assumes "prepared_attempt_shape a" "pa_status a = Prepared" "Tool_dead_letter_diagnosis \<in> set (po_allowedToolNames policy)"
    "well_placed inp cbs" "ra_auditStore inp = mem_audit_ops"
  shows "\<exists>st'. guardedToolCall env inp cbs policy (prepared_surface env a) Tool_dead_letter_diagnosis toolInput st = (Inl Type_error, st')
    \<and> event_types st' = event_types st @ [Ev_tool_call_attempt]"
proof -
  obtain u st' where st': "appendEventNow inp cbs Ev_tool_call_attempt (tool_metadata policy Tool_dead_letter_diagnosis) st = (Inr u, st')"
    by (rule succeedsE [OF mem_audit.append_now_succeeds [OF assms(4,5)]]) (auto simp: finite_metadata tool_metadata_def)
  have "callPreparedTool (prepared_surface env a) Tool_dead_letter_diagnosis toolInput = Inr None"
    using assms(1,2) by (simp add: callPreparedTool_def prepared_surface_def readPreparedAttemptDeadLetterDiagnosis_def
        parse_attempt_def parse_as_def)
  with st' assms(3) appendEventNow_types [OF st'] show ?thesis
    by (auto simp: guardedToolCall_def bind_step_def lift_step_def Let_def resultByteLength_def)
qed

theorem dead_letter_tool_always_throws_witness:
  "\<exists>st'. guardedToolCall sample_platform (sample_run sample_harness) silent_callbacks sample_policy
      (prepared_surface sample_platform sample_attempt) Tool_dead_letter_diagnosis None
      \<lparr>ag_events = [], ag_store = empty_audit, ag_ticks = 0\<rparr> = (Inl Type_error, st')"
proof -
  have "Tool_dead_letter_diagnosis \<in> set (po_allowedToolNames sample_policy)" by (simp add: sample_policy_def)
  from dead_letter_tool_always_throws [OF prepare_shape [OF sample_prepared] sample_attempt_status this sample_well_placed
      sample_run_simps(1)] show ?thesis by blast
qed

section \<open>How a run comes to an end\<close>





text \<open>So it happens: a harness that throws an error without a message leaves its run as started, with neither a failed
run nor a failure event in the store.\<close>

theorem empty_error_leaves_run_started:
  "\<exists>run store'. runAgentAttempt sample_platform (sample_run (Fail (Plain_error []))) empty_audit
      = (Inl (Parse_error Schema_run), store')
    \<and> map_get (mu_runs store') ''r'' = Some run \<and> ar_status run = Run_started
    \<and> Ev_run_failed \<notin> av_eventType ` set (mu_events store')"
proof -
  let ?inp = "sample_run (Fail (Plain_error []))"
  have id: "pa_agentRunId sample_attempt = ''r''" by (simp add: sample_attempt_def baseAttempt_def sample_prepare_def)
  obtain base s1 where base: "run_shape base" "ar_status base = Run_started"
    "map_get (mu_runs s1) = (map_get (mu_runs empty_audit))(''r'' \<mapsto> base)" "mu_events s1 = mu_events empty_audit"
    "\<And>r st. run_from_base sample_platform ?inp base \<lparr>ag_events = [], ag_store = s1, ag_ticks = Suc 0\<rparr> = (r, st) \<Longrightarrow>
       runAgentAttempt sample_platform ?inp empty_audit = (case r of Inl e \<Rightarrow> Inl e | Inr run \<Rightarrow> Inr (run, ag_events st), ag_store st)"
    by (rule mem_audit.run_attempt_base [where inp = ?inp and s = empty_audit and env = sample_platform,
          OF sample_well_placed sample_run_simps(1)]) (simp add: id)
  let ?st0 = "\<lparr>ag_events = [], ag_store = s1, ag_ticks = Suc 0\<rparr>"
  have started: "nonempty (ar_startedAt base)" using base(1) by (simp add: run_shape_def)
  obtain tools st2 where harness: "try_run sample_platform ?inp silent_callbacks base ?st0
    = bind_step (run_harness (guardedToolCall sample_platform ?inp silent_callbacks (ra_policy ?inp) tools) (Fail (Plain_error [])))
        (\<lambda>result. capture_draft sample_platform ?inp silent_callbacks base result) st2"
    by (rule mem_audit.try_reaches_harness [where inp = ?inp, OF sample_well_placed sample_run_simps(1) sample_ready started])
  then have fails: "try_run sample_platform ?inp silent_callbacks base ?st0 = (Inl (Plain_error []), st2)"
    by (simp add: bind_step_def lift_step_def)
  have "redactText (error_message sample_platform (Plain_error [])) = []" by (simp add: redactText_def replace_all_def)
  then have "run_from_base sample_platform ?inp base ?st0
      = (Inl (Parse_error Schema_run), st2\<lparr>ag_ticks := ag_ticks st2 + 1\<rparr>)"
    by (simp add: run_from_base_def fails record_failure_def bind_step_def read_clock_def lift_step_def
        parse_run_def parse_as_def run_shape_def optional_nonempty_def)
  from base(5) [OF this] have run: "runAgentAttempt sample_platform ?inp empty_audit = (Inl (Parse_error Schema_run), ag_store st2)" by simp
  from mem_audit.records_try [OF sample_run_simps(1)] fails obtain new where "mu_events (ag_store st2) = new"
    "av_eventType ` set new \<subseteq> run_event_types" "map_get (mu_runs (ag_store st2)) = map_get (mu_runs s1)"
    by (rule recordsE) (simp add: base(4) empty_audit_def)
  with run base(2,3) show ?thesis
    by (auto simp: run_event_types_def turn_event_types_def tool_event_types_def)
qed

text \<open>A callback that throws: the event is stored all the same.\<close>

lemma append_throws:
  assumes "prepared_attempt_shape (ra_preparedAttempt inp)" "ra_auditStore inp = mem_audit_ops" "nonempty t"
    "list_all (\<lambda>(k, v). json_numbers_finite v) (toJsonMetadata md)" "\<And>e. cb_onAuditEvent cbs e = Some err"
  shows "\<exists>e. appendEvent inp (Some cbs) eventType t md st
      = (Inl err, st\<lparr>ag_events := ag_events st @ [e], ag_store := (ag_store st)\<lparr>mu_events := mu_events (ag_store st) @ [e]\<rparr>\<rparr>)
    \<and> av_eventType e = eventType"
proof -
  let ?e = "run_event (ra_preparedAttempt inp) (length (ag_events st) + 1) eventType t md"
  have "run_event_shape ?e" by (rule event_ok) (use assms in simp_all)
  then have "appendEvent inp (Some cbs) eventType t md st
      = (Inl err, st\<lparr>ag_events := ag_events st @ [?e], ag_store := (ag_store st)\<lparr>mu_events := mu_events (ag_store st) @ [?e]\<rparr>\<rparr>)"
    using assms(2,5) by (simp add: appendEvent_def Let_def bind_step_def lift_step_def parse_run_event_def parse_as_def
        push_event_def store_step_def call_back_def mem_append_event_def)
  then show ?thesis by (intro exI [of _ ?e]) simp
qed

lemma base_with_callbacks: "baseAuditRun (inp\<lparr>ra_callbacks := c\<rparr>) = baseAuditRun inp"
  by (intro ext) (simp add: baseAuditRun_def)

text \<open>A callback that throws on every event does the same to every run: the catch block reports the failure through the
callback that failed, so the events say failed while the store keeps the run as started.\<close>

theorem broken_callback_leaves_run_started:
  assumes placed: "well_placed inp cbs" and ops: "ra_auditStore inp = mem_audit_ops"
    and broken: "\<And>e. cb_onAuditEvent broken e = Some err" and err: "nonempty (redactText (error_message env err))"
  shows "\<exists>run store'. runAgentAttempt env (inp\<lparr>ra_callbacks := Some broken\<rparr>) store = (Inl err, store')
    \<and> map_get (mu_runs store') (pa_agentRunId (ra_preparedAttempt inp)) = Some run \<and> ar_status run = Run_started
    \<and> map av_eventType (mu_events store') = map av_eventType (mu_events store) @ [Ev_run_started, Ev_run_failed]"
proof -
  let ?a = "ra_preparedAttempt inp" and ?inp = "inp\<lparr>ra_callbacks := Some broken\<rparr>"
  have clock: "nonempty (ra_now inp n)" for n using placed by (simp add: well_placed_def)
  have a: "prepared_attempt_shape ?a" using placed by (simp add: well_placed_def)
  obtain base where base: "baseAuditRun inp ?a (ra_now inp 0) = Inr base" using base_run_ok [OF placed] by blast
  note b = base_Inr [OF base]
  let ?s1 = "store\<lparr>mu_runs := map_set (pa_agentRunId ?a) base (mu_runs store)\<rparr>"
  let ?st0 = "\<lparr>ag_events = [], ag_store = ?s1, ag_ticks = Suc 0\<rparr>"
  have start: "mem_put_run base store = (Inr (), ?s1)" using b(1,3) by (simp add: mem_put_run_iff)
  note throws = append_throws [of ?inp _ _ broken err, OF _ _ _ _ broken]
  have "\<exists>e. try_run env ?inp broken base ?st0 = (Inl err, ?st0\<lparr>ag_events := [e], ag_store := ?s1\<lparr>mu_events := mu_events store @ [e]\<rparr>\<rparr>)
      \<and> av_eventType e = Ev_run_started"
    using throws [of "ar_startedAt base" "[(''attemptId'', Some (JStr (pa_attemptId ?a))),
        (''status'', Some (JStr (attempt_status_text (pa_status ?a))))]" Ev_run_started ?st0] a ops b(6) clock
    by (auto simp: try_run_def load_attempt_def Let_def bind_step_def finite_metadata)
  then obtain e1 where e1: "try_run env ?inp broken base ?st0
      = (Inl err, ?st0\<lparr>ag_events := [e1], ag_store := ?s1\<lparr>mu_events := mu_events store @ [e1]\<rparr>\<rparr>)"
    "av_eventType e1 = Ev_run_started" by blast
  let ?st1 = "?st0\<lparr>ag_events := [e1], ag_store := ?s1\<lparr>mu_events := mu_events store @ [e1]\<rparr>\<rparr>"
  have run: "run_shape (base\<lparr>ar_status := Run_failed, ar_completedAt := Some (ra_now inp n),
      ar_errorMessage := Some (redactText (error_message env err))\<rparr>)" for n
    using b(1) err clock by (simp add: run_shape_def optional_nonempty_def nonempty_def)
  obtain e2 where e2: "appendEvent ?inp (Some broken) Ev_run_failed (ra_now inp 1)
      [(''errorMessage'', Some (JStr (redactText (error_message env err)))),
       (''latencyMs'', Some (int_json (elapsedMs env (ar_startedAt base) (ra_now inp 1))))] (?st1\<lparr>ag_ticks := 2\<rparr>)
      = (Inl err, ?st1\<lparr>ag_ticks := 2, ag_events := [e1, e2], ag_store := ?s1\<lparr>mu_events := mu_events store @ [e1, e2]\<rparr>\<rparr>)"
    "av_eventType e2 = Ev_run_failed"
    using throws [of "ra_now inp 1" "[(''errorMessage'', Some (JStr (redactText (error_message env err)))),
       (''latencyMs'', Some (int_json (elapsedMs env (ar_startedAt base) (ra_now inp 1))))]" Ev_run_failed "?st1\<lparr>ag_ticks := 2\<rparr>"]
      a ops clock by (auto simp: finite_metadata int_json_def)
  have "record_failure env ?inp (Some broken) base err ?st1
      = (Inl err, ?st1\<lparr>ag_ticks := 2, ag_events := [e1, e2], ag_store := ?s1\<lparr>mu_events := mu_events store @ [e1, e2]\<rparr>\<rparr>)"
    using e2(1) run by (simp add: record_failure_def bind_step_def read_clock_def lift_step_def parse_run_def parse_as_def
        numeral_2_eq_2)
  then have "runAgentAttempt env ?inp store = (Inl err, ?s1\<lparr>mu_events := mu_events store @ [e1, e2]\<rparr>)"
    using e1(1) start base a ops
    by (simp add: runAgentAttempt_def run_from_base_def base_with_callbacks bind_step_def lift_step_def read_clock_def
        store_step_def parse_attempt_def parse_as_def)
  with e1(2) e2(2) b(2) show ?thesis by simp
qed

definition broken_callbacks :: AgentHarnessCallbacks where
  "broken_callbacks = \<lparr>cb_onAuditEvent = (\<lambda>e. Some (Plain_error ''x'')), cb_onTranscriptEvent = (\<lambda>n t. None)\<rparr>"

theorem broken_callback_leaves_run_started_witness:
  "\<exists>run store'. runAgentAttempt sample_platform ((sample_run sample_harness)\<lparr>ra_callbacks := Some broken_callbacks\<rparr>) empty_audit
      = (Inl (Plain_error ''x''), store')
    \<and> map_get (mu_runs store') (pa_agentRunId sample_attempt) = Some run \<and> ar_status run = Run_started"
proof -
  have "nonempty (redactText (error_message sample_platform (Plain_error ''x'')))" by code_simp
  from broken_callback_leaves_run_started [OF sample_well_placed sample_run_simps(1) _ this, of broken_callbacks]
  have "\<exists>run store'. runAgentAttempt sample_platform ((sample_run sample_harness)\<lparr>ra_callbacks := Some broken_callbacks\<rparr>) empty_audit
      = (Inl (Plain_error ''x''), store')
    \<and> map_get (mu_runs store') (pa_agentRunId sample_attempt) = Some run
    \<and> ar_status run = Run_started
    \<and> map av_eventType (mu_events store') = map av_eventType (mu_events empty_audit) @ [Ev_run_started, Ev_run_failed]"
    by (simp add: broken_callbacks_def)
  then show ?thesis by blast
qed

end
