(* ===== verification/BoundaryProperties.thy ===== *)
theory BoundaryProperties
  imports ResultBoundary ReviewProperties SidecarProperties
begin

text \<open>
  The properties of the way from a captured draft to the merchant: which drafts pass the gate, what a review
  request may contain, and what both leave in the audit store.
\<close>

section \<open>Drafts the gate lets through\<close>

lemma metric_of_text_known: "metric_of_text s = Some m \<longleftrightarrow> metric_text m = s"
  by (cases m) (auto simp: metric_of_text_def)

lemma those_metrics:
  assumes "those (map metric_of_text ids) = Some ms"
  shows "map metric_text ms = ids"
  using assms by (induction ids arbitrary: ms) (auto simp: metric_of_text_known split: option.splits)

lemma those_map_ex: "(\<exists>ys. those (map f xs) = Some ys) \<longleftrightarrow> (\<forall>x \<in> set xs. f x \<noteq> None)"
  by (induction xs) (auto split: option.splits)

definition draft_artifacts_ok :: "AgentRun \<Rightarrow> AgentContextBundle \<Rightarrow> AgentDraftOutput \<Rightarrow> bool" where
  "draft_artifacts_ok run c d \<longleftrightarrow>
     ar_agentRunId run = cb_agentRunId c \<and> ar_brandId run = cb_brandId c \<and> ar_storeId run = cb_storeId c
     \<and> ar_opportunityGapId run = cb_opportunityGapId c
     \<and> list_all (\<lambda>m. metric_of_text m \<noteq> None)
         (dp_measurementMetricId (dx_draftExperimentPlan d) # dp_guardrailMetricIds (dx_draftExperimentPlan d))
     \<and> dx_evidenceRefs d \<noteq> []"

text \<open>A draft is grounded in its context: it measures known metrics with a guardrail, and cites only the
evidence of a context with positive confidence.\<close>

definition draft_grounded :: "AgentRun \<Rightarrow> AgentContextBundle \<Rightarrow> AgentDraftOutput \<Rightarrow> bool" where
  "draft_grounded run c d \<longleftrightarrow> draft_artifacts_ok run c d
     \<and> set (dx_evidenceRefs d) \<subseteq> set (cb_evidenceRefs c) \<and> 0 < og_confidence (cb_opportunityGap c)
     \<and> dp_guardrailMetricIds (dx_draftExperimentPlan d) \<noteq> []"

text \<open>What the gate is given: a well-formed captured run with its draft, and a well-formed context.\<close>

definition gate_input :: "platform \<Rightarrow> AgentRun \<Rightarrow> AgentContextBundle \<Rightarrow> AgentDraftOutput \<Rightarrow> bool" where
  "gate_input env run c d \<longleftrightarrow> run_shape run \<and> ar_status run = Run_draft_captured \<and> ar_draft run = Some d
     \<and> parse_bundle (env_lc env) c = Inr c"

lemma gate_inputD:
  assumes "gate_input env run c d"
  shows "parse_run run = Inr run" "parse_context env c = Inr c" "assertCapturedDraft run = Inr d" "draft_shape d"
    "gap_fact_shape (cb_opportunityGap c)" "list_all nonempty (cb_assumptions c)" "list_all nonempty (cb_evidenceRefs c)"
    "nonempty (ar_agentRunId run)" "nonempty (ar_sessionId run)" "nonempty (ar_storeId run)"
    "nonempty (ar_opportunityGapId run)" "nonempty (ar_brandId run)"
proof -
  have "draft_shape d" using assms by (auto simp: gate_input_def run_shape_def)
  then show "assertCapturedDraft run = Inr d" "draft_shape d"
    using assms by (simp_all add: gate_input_def assertCapturedDraft_def draft_shape_def throw_plain_def throw_if_def)
qed (use assms in \<open>auto simp: gate_input_def parse_run_def parse_as_def parse_context_def parse_bundle_def bundle_shape_def
    run_shape_def nonempty_refs_def\<close>)

lemma draft_uncertainty_ok:
  assumes "gate_input env run c d"
  shows "uncertainty_shape (draft_uncertainty c d)" "un_confidence (draft_uncertainty c d) \<le> 4 / 5"
    "0 < un_confidence (draft_uncertainty c d) \<longleftrightarrow> 0 < og_confidence (cb_opportunityGap c)"
  using gate_inputD [OF assms]
  by (auto simp: draft_uncertainty_def Let_def uncertainty_shape_def gap_fact_shape_def draft_shape_def nonempty_refs_def)

lemma draft_refs_ok:
  assumes "gate_input env run c d"
  shows "nonempty_refs (uniqueSorted lc (dx_evidenceRefs d)) \<longleftrightarrow> dx_evidenceRefs d \<noteq> []"
  using gate_inputD(4) [OF assms] by (simp add: nonempty_refs_def draft_shape_def list_all_iff)

lemma hypothesis_built:
  assumes "gate_input env run c d"
  shows "(\<exists>h. draft_hypothesis env run c d = Inr h)
    \<longleftrightarrow> dx_evidenceRefs d \<noteq> [] \<and> metric_of_text (dp_measurementMetricId (dx_draftExperimentPlan d)) \<noteq> None"
  using gate_inputD [OF assms] draft_uncertainty_ok [OF assms] draft_refs_ok [OF assms]
  by (auto simp: draft_hypothesis_def Let_def parse_as_def hypothesis_shape_def draft_shape_def nonempty_def
      split: option.splits if_splits)

lemma hypothesis_sel:
  assumes "draft_hypothesis env run c d = Inr h"
  shows "hypothesis_shape h" "hy_hypothesisId h = ''intervention_hypothesis:'' @ ar_agentRunId run"
    "hy_agentRunId h = ar_agentRunId run" "hy_brandId h = ar_brandId run" "hy_storeId h = ar_storeId run"
    "hy_opportunityGapId h = ar_opportunityGapId run" "set (hy_evidenceRefs h) = set (dx_evidenceRefs d)"
    "hy_uncertainty h = draft_uncertainty c d"
  using assms by (auto simp: draft_hypothesis_def Let_def split: option.splits)

lemma plan_sel:
  assumes "draft_plan env run c d = Inr p"
  shows "plan_shape p" "ep_experimentPlanId p = ''experiment_plan:'' @ ar_agentRunId run"
    "ep_hypothesisId p = ''intervention_hypothesis:'' @ ar_agentRunId run"
    "ep_agentRunId p = ar_agentRunId run" "ep_brandId p = ar_brandId run" "ep_storeId p = ar_storeId run"
    "ep_opportunityGapId p = ar_opportunityGapId run" "set (ep_evidenceRefs p) = set (dx_evidenceRefs d)"
    "ep_uncertainty p = draft_uncertainty c d"
    "sf_merchantConfirmationRequired (ep_safety p) = dp_merchantReviewRequired (dx_draftExperimentPlan d)"
    "sf_rollbackSupported (ep_safety p)"
    "map (metric_text \<circ> gr_metricId) (me_guardrails (ep_measurement p)) = dp_guardrailMetricIds (dx_draftExperimentPlan d)"
    "\<forall>g \<in> set (me_guardrails (ep_measurement p)). gr_relation g = Must_not_degrade \<and> set (gr_evidenceRefs g) = set (dx_evidenceRefs d)"
  using assms by (auto simp: draft_plan_def Let_def comp_def split: option.splits dest: those_metrics)

lemma plan_built:
  assumes "gate_input env run c d"
  shows "(\<exists>p. draft_plan env run c d = Inr p) \<longleftrightarrow> dx_evidenceRefs d \<noteq> []
    \<and> list_all (\<lambda>m. metric_of_text m \<noteq> None)
        (dp_measurementMetricId (dx_draftExperimentPlan d) # dp_guardrailMetricIds (dx_draftExperimentPlan d))"
proof (cases "those (map metric_of_text (dp_guardrailMetricIds (dx_draftExperimentPlan d)))")
  case None
  then show ?thesis using those_map_ex [of metric_of_text "dp_guardrailMetricIds (dx_draftExperimentPlan d)"]
    by (auto simp: draft_plan_def Let_def list_all_iff split: option.splits)
next
  case (Some ms)
  then have "list_all (\<lambda>m. metric_of_text m \<noteq> None) (dp_guardrailMetricIds (dx_draftExperimentPlan d))"
    using those_map_ex [of metric_of_text "dp_guardrailMetricIds (dx_draftExperimentPlan d)"] by (simp add: list_all_iff)
  with Some show ?thesis
    using gate_inputD [OF assms] draft_uncertainty_ok [OF assms] draft_refs_ok [OF assms]
    by (auto simp: draft_plan_def Let_def parse_as_def plan_shape_def guardrail_shape_def draft_shape_def nonempty_def
        list_all_iff nonempty_refs_def split: option.splits if_splits)
qed

lemma artifacts_sel:
  assumes "gate_input env run c d" "buildAgentDraftArtifacts env run c = Inr a"
  shows "draft_hypothesis env run c d = Inr (af_hypothesis a)" "draft_plan env run c d = Inr (af_experimentPlan a)"
    "ar_agentRunId run = cb_agentRunId c" "ar_brandId run = cb_brandId c" "ar_storeId run = cb_storeId c"
    "ar_opportunityGapId run = cb_opportunityGapId c"
  using assms(2) gate_inputD [OF assms(1)] by (auto simp: buildAgentDraftArtifacts_def and_then_Inr_iff)

lemma artifacts_built:
  assumes "gate_input env run c d"
  shows "(\<exists>a. buildAgentDraftArtifacts env run c = Inr a) \<longleftrightarrow> draft_artifacts_ok run c d"
  using hypothesis_built [OF assms] plan_built [OF assms] gate_inputD [OF assms]
  by (auto simp: buildAgentDraftArtifacts_def and_then_Inr_iff draft_artifacts_ok_def)

lemma artifacts_grounded:
  assumes "gate_input env run c d" "buildAgentDraftArtifacts env run c = Inr a"
  shows "grounded_plan (env_lc env) c (af_hypothesis a) (af_experimentPlan a) \<longleftrightarrow> draft_grounded run c d"
proof -
  note a = artifacts_sel [OF assms]
  note h = hypothesis_sel [OF a(1)] and p = plan_sel [OF a(2)] and u = draft_uncertainty_ok [OF assms(1)]
  have guardrails: "me_guardrails (ep_measurement (af_experimentPlan a)) = []
      \<longleftrightarrow> dp_guardrailMetricIds (dx_draftExperimentPlan d) = []"
    using p(12) by (metis map_is_Nil_conv)
  have "draft_artifacts_ok run c d" using artifacts_built [OF assms(1)] assms(2) by blast
  then show ?thesis
    using h p u a(3-6) guardrails assms(1) gate_inputD(4) [OF assms(1)]
    by (auto simp: grounded_plan_def draft_grounded_def gate_input_def draft_shape_def)
qed

section \<open>The gate\<close>

lemma gate_validation_form:
  assumes "gate_input env run c d" "gate_validation env run c = (artifacts, outcome)"
  shows "\<exists>v. outcome = Inr v \<and> vr_decision v = (if draft_grounded run c d
        then (if og_sampleStatus (cb_opportunityGap c) = Peer_sufficient then Decision_accept else Decision_needs_more_data)
        else Decision_block)
      \<and> (artifacts \<noteq> None \<longleftrightarrow> draft_artifacts_ok run c d)
      \<and> (artifacts = None \<longrightarrow> vr_reasonCodes v = [Reason_schema_invalid])
      \<and> validation_result_shape v"
proof (cases "buildAgentDraftArtifacts env run c")
  case (Inl e)
  then have "\<not> draft_artifacts_ok run c d" using artifacts_built [OF assms(1)] by auto
  with Inl assms(2) gate_inputD(7) [OF assms(1)] show ?thesis
    by (auto simp: gate_validation_def schema_invalid_result_def Let_def parse_as_def validation_result_shape_def
        draft_grounded_def nonempty_def)
next
  case (Inr a)
  then have ok: "draft_artifacts_ok run c d" using artifacts_built [OF assms(1)] by blast
  from validation_total [of "env_lc env" c "af_hypothesis a" "af_experimentPlan a"]
  obtain v where v: "validateExperimentPlan (env_lc env) c (af_hypothesis a) (af_experimentPlan a) = Inr v"
    "vr_decision v = (if draft_grounded run c d
        then (if og_sampleStatus (cb_opportunityGap c) = Peer_sufficient then Decision_accept else Decision_needs_more_data)
        else Decision_block)" "validation_result_shape v"
    unfolding artifacts_grounded [OF assms(1) Inr] by blast
  with Inr assms(2) ok show ?thesis by (auto simp: gate_validation_def)
qed

lemma result_event_ok:
  assumes "gate_input env run c d" "nonempty t" "json_numbers_finite (JObj md)"
  shows "run_event_shape (result_event run eventType t md)"
  using gate_inputD(8-11) [OF assms(1)] assms(2,3)
  by (simp add: run_event_shape_def result_event_def nonempty_def)

definition gate_status :: "AgentRun \<Rightarrow> AgentContextBundle \<Rightarrow> AgentDraftOutput \<Rightarrow> AgentResultBoundaryStatus" where
  "gate_status run c d = (if draft_grounded run c d
     then (if og_sampleStatus (cb_opportunityGap c) = Peer_sufficient then Validated_for_review_request else Gate_needs_more_data)
     else Gate_blocked)"

context reliable_audit_store
begin

lemma result_event_stored:
  assumes "gate_input env run c d" "nonempty t" "json_numbers_finite (JObj md)"
  shows "\<exists>s' e. appendResultEvent ops run eventType t md s = (Inr (), s') \<and> stored s' = stored s @ [e]
    \<and> runs s' = runs s \<and> av_eventType e = eventType \<and> av_agentRunId e = ar_agentRunId run
    \<and> av_metadata e = md \<and> run_event_shape e"
proof -
  let ?e = "result_event run eventType t md"
  from takes_events [OF result_event_ok [OF assms]] obtain s' where s': "as_appendEvent ops ?e s = (Inr (), s')" by blast
  have "appendResultEvent ops run eventType t md s = (Inr (), s')"
    using s' result_event_ok [OF assms, of eventType] gate_inputD(1) [OF assms(1)]
    by (simp add: appendResultEvent_def parse_run_event_def parse_as_def)
  with event_taken [OF s'] result_event_ok [OF assms, of eventType] show ?thesis
    by (intro exI [of _ s'] exI [of _ ?e]) (simp add: result_event_def)
qed

lemma gate_evaluated:
  assumes inp: "gate_input env run c d" and clock: "nonempty (now 0)"
  shows "\<exists>gate s' e. evaluateAgentDraftResultGate env ops now run c s = (Inr gate, s')
    \<and> stored s' = stored s @ [e] \<and> runs s' = runs s
    \<and> av_eventType e = Ev_draft_validation_evaluated \<and> av_agentRunId e = ar_agentRunId run
    \<and> rg_status gate = gate_status run c d
    \<and> (rg_artifacts gate, Inr (rg_validationResult gate)) = gate_validation env run c
    \<and> get_prop (av_metadata e) ''decision'' = Some (JStr (decision_text (vr_decision (rg_validationResult gate))))
    \<and> run_event_shape e"
proof -
  obtain artifacts v where v: "gate_validation env run c = (artifacts, Inr v)"
    "vr_decision v = (if draft_grounded run c d
        then (if og_sampleStatus (cb_opportunityGap c) = Peer_sufficient then Decision_accept else Decision_needs_more_data)
        else Decision_block)"
    using gate_validation_form [OF inp] by (cases "gate_validation env run c") blast
  let ?md = "[(''decision'', JStr (decision_text (vr_decision v))),
      (''reasonCodes'', JArr (map (JStr \<circ> reason_text) (vr_reasonCodes v))),
      (''evidenceRefCount'', JNum (Finite (of_nat (length (vr_evidenceRefs v))))),
      (''truthStatus'', JStr (dx_truthStatus d))]"
  have "json_numbers_finite (JObj ?md)" by (simp add: list_all_iff)
  from result_event_stored [OF inp clock this, of Ev_draft_validation_evaluated s] obtain s' e where
    "appendResultEvent ops run Ev_draft_validation_evaluated (now 0) ?md s = (Inr (), s')" "stored s' = stored s @ [e]"
    "runs s' = runs s" "av_eventType e = Ev_draft_validation_evaluated" "av_agentRunId e = ar_agentRunId run"
    "av_metadata e = ?md" "run_event_shape e" by blast
  with v gate_inputD(1-3) [OF inp] show ?thesis
    by (intro exI [of _ "\<lparr>rg_status = gate_status run c d, rg_validationResult = v, rg_artifacts = artifacts\<rparr>"]
        exI [of _ s'] exI [of _ e])
      (simp add: evaluateAgentDraftResultGate_def statusForValidation_def gate_status_def get_prop_def)
qed

lemma review_requested:
  assumes inp: "gate_input env run c d" and clock: "nonempty (now 0)" "nonempty (now 1)"
    and validated: "gate_status run c d = Validated_for_review_request"
    and review: "reviewId \<noteq> []" "dt submittedAt" "case submittedBy of None \<Rightarrow> True | Some a \<Rightarrow> actor_shape a"
  shows "\<exists>req s' e1 e2. requestMerchantReviewForAgentDraft env dt ops now run c reviewId submittedAt submittedBy s = (Inr req, s')
    \<and> stored s' = stored s @ [e1, e2] \<and> runs s' = runs s
    \<and> av_eventType e1 = Ev_draft_validation_evaluated \<and> av_eventType e2 = Ev_merchant_review_requested
    \<and> av_agentRunId e1 = ar_agentRunId run \<and> av_agentRunId e2 = ar_agentRunId run
    \<and> run_event_shape e1 \<and> run_event_shape e2 \<and> get_prop (av_metadata e1) ''decision'' = Some (JStr ''accept'')
    \<and> (\<exists>a. buildAgentDraftArtifacts env run c = Inr a \<and> submitExperimentPlanForMerchantReview dt reviewId (af_experimentPlan a)
          (rg_validationResult (rr_gate req)) submittedAt submittedBy = Inr (rr_submission req))"
proof -
  obtain gate s1 e1 where gate: "evaluateAgentDraftResultGate env ops now run c s = (Inr gate, s1)"
    "stored s1 = stored s @ [e1]" "runs s1 = runs s" "av_eventType e1 = Ev_draft_validation_evaluated"
    "av_agentRunId e1 = ar_agentRunId run" "rg_status gate = gate_status run c d"
    "(rg_artifacts gate, Inr (rg_validationResult gate)) = gate_validation env run c"
    "get_prop (av_metadata e1) ''decision'' = Some (JStr (decision_text (vr_decision (rg_validationResult gate))))"
    "run_event_shape e1"
    using gate_evaluated [of env run c d now s, OF inp clock(1)] by blast
  from validated have grounded: "draft_grounded run c d" "og_sampleStatus (cb_opportunityGap c) = Peer_sufficient"
    by (auto simp: gate_status_def split: if_splits)
  from gate_validation_form [OF inp gate(7) [symmetric]] grounded
  have v: "vr_decision (rg_validationResult gate) = Decision_accept" "validation_result_shape (rg_validationResult gate)"
    by auto
  from grounded(1) artifacts_built [OF inp] obtain a where a: "buildAgentDraftArtifacts env run c = Inr a"
    by (auto simp: draft_grounded_def)
  with gate(7) have artifacts: "rg_artifacts gate = Some a" by (auto simp: gate_validation_def)
  from plan_sel(1) [OF artifacts_sel(2) [OF inp a]] v review obtain sub where
    sub: "submitExperimentPlanForMerchantReview dt reviewId (af_experimentPlan a) (rg_validationResult gate) submittedAt submittedBy
      = Inr sub"
    using submission_ok_iff [of dt reviewId "af_experimentPlan a" "rg_validationResult gate" submittedAt submittedBy] by auto
  let ?md = "[(''reviewId'', JStr (sb_reviewId sub)), (''reviewStatus'', JStr (sb_reviewStatus sub)),
      (''lifecycleState'', JStr (state_text (sb_lifecycleState sub))),
      (''evidenceRefCount'', JNum (Finite (of_nat (length (sb_evidenceRefs sub))))),
      (''merchantApprovalImplied'', JBool False), (''businessMutationCalled'', JBool False)]"
  have "json_numbers_finite (JObj ?md)" by simp
  from result_event_stored [OF inp clock(2) this, of Ev_merchant_review_requested s1] obtain s' e2 where
    "appendResultEvent ops run Ev_merchant_review_requested (now 1) ?md s1 = (Inr (), s')" "stored s' = stored s1 @ [e2]"
    "runs s' = runs s1" "av_eventType e2 = Ev_merchant_review_requested" "av_agentRunId e2 = ar_agentRunId run"
    "run_event_shape e2" by blast
  with v(1) gate artifacts sub a validated show ?thesis
    by (intro exI [of _ "\<lparr>rr_gate = gate, rr_submission = sub\<rparr>"] exI [of _ s'] exI [of _ e1] exI [of _ e2])
      (simp add: requestMerchantReviewForAgentDraft_def)
qed

lemma review_refused:
  assumes inp: "gate_input env run c d" and clock: "nonempty (now 0)"
    and refused: "gate_status run c d \<noteq> Validated_for_review_request"
  shows "\<exists>s' e. requestMerchantReviewForAgentDraft env dt ops now run c reviewId submittedAt submittedBy s
      = (Inl (Plain_error ''Agent draft cannot request merchant review without an accepted deterministic result gate.''), s')
    \<and> stored s' = stored s @ [e] \<and> runs s' = runs s \<and> av_eventType e = Ev_draft_validation_evaluated"
proof -
  obtain gate s1 e1 where gate: "evaluateAgentDraftResultGate env ops now run c s = (Inr gate, s1)"
    "stored s1 = stored s @ [e1]" "runs s1 = runs s" "av_eventType e1 = Ev_draft_validation_evaluated"
    "rg_status gate = gate_status run c d"
    using gate_evaluated [of env run c d now s, OF inp clock] by blast
  with refused show ?thesis
    by (intro exI [of _ s1] exI [of _ e1])
      (cases "gate_status run c d"; simp add: requestMerchantReviewForAgentDraft_def)
qed

end

lemma result_event_Inr:
  assumes "appendResultEvent ops run eventType t md s = (Inr u, s')"
  shows "nonempty t"
  using assms by (auto simp: appendResultEvent_def and_then_Inr_iff parse_run_event_def run_event_shape_def result_event_def
      split: sum.splits)

lemma gate_Inr:
  assumes "evaluateAgentDraftResultGate env ops now run c s = (Inr gate, s')"
  shows "\<exists>d md. gate_input env run c d
    \<and> appendResultEvent ops run Ev_draft_validation_evaluated (now 0) md s = (Inr (), s')
    \<and> gate_validation env run c = (rg_artifacts gate, Inr (rg_validationResult gate))"
proof -
  from assms have run: "parse_run run = Inr run"
    by (cases "run_shape run") (auto simp: evaluateAgentDraftResultGate_def parse_run_def parse_as_def)
  with assms have c: "parse_context env c = Inr c"
    by (cases "parse_bundle (env_lc env) c = Inr c") (auto simp: evaluateAgentDraftResultGate_def parse_context_def parse_as_def)
  with assms run obtain d where d: "assertCapturedDraft run = Inr d"
    by (cases "assertCapturedDraft run") (auto simp: evaluateAgentDraftResultGate_def)
  obtain artifacts outcome where gv: "gate_validation env run c = (artifacts, outcome)" by fastforce
  with assms run c d obtain v where v: "outcome = Inr v"
    by (cases outcome) (auto simp: evaluateAgentDraftResultGate_def)
  have "gate_input env run c d"
    using run c d by (auto simp: gate_input_def parse_run_def parse_context_def assertCapturedDraft_def and_then_Inr_iff
        split: option.splits)
  with assms run c d gv v show ?thesis
    by (intro exI [of _ d]) (auto simp: evaluateAgentDraftResultGate_def split: prod.splits sum.splits)
qed

lemma request_Inr:
  assumes "requestMerchantReviewForAgentDraft env dt ops now run c reviewId submittedAt submittedBy s = (Inr req, s')"
  shows "\<exists>s1 (a :: AgentDraftArtifacts) md. evaluateAgentDraftResultGate env ops now run c s = (Inr (rr_gate req), s1)
    \<and> submitExperimentPlanForMerchantReview dt reviewId (af_experimentPlan a) (rg_validationResult (rr_gate req))
        submittedAt submittedBy = Inr (rr_submission req)
    \<and> appendResultEvent ops run Ev_merchant_review_requested (now 1) md s1 = (Inr (), s')"
proof -
  obtain r s1 where r: "evaluateAgentDraftResultGate env ops now run c s = (r, s1)" by fastforce
  with assms obtain gate where gate: "r = Inr gate" by (cases r) (auto simp: requestMerchantReviewForAgentDraft_def)
  with assms r obtain a where a: "rg_status gate = Validated_for_review_request" "rg_artifacts gate = Some a"
    by (cases "rg_status gate"; cases "rg_artifacts gate") (auto simp: requestMerchantReviewForAgentDraft_def)
  with assms r gate obtain sub where "submitExperimentPlanForMerchantReview dt reviewId (af_experimentPlan a)
      (rg_validationResult gate) submittedAt submittedBy = Inr sub"
    by (cases "submitExperimentPlanForMerchantReview dt reviewId (af_experimentPlan a) (rg_validationResult gate) submittedAt
        submittedBy") (auto simp: requestMerchantReviewForAgentDraft_def)
  with assms r gate a show ?thesis
    by (intro exI [of _ s1] exI [of _ a])
      (auto simp: requestMerchantReviewForAgentDraft_def split: prod.splits sum.splits)
qed

text \<open>A request that returns was given what the gate needs, and was validated.\<close>

lemma requestE:
  assumes "requestMerchantReviewForAgentDraft env dt ops now run c reviewId submittedAt submittedBy s = (Inr req, s')"
  obtains d where "gate_input env run c d" "nonempty (now 0)" "nonempty (now 1)"
    "reviewId \<noteq> []" "dt submittedAt" "case submittedBy of None \<Rightarrow> True | Some a \<Rightarrow> actor_shape a"
proof -
  from request_Inr [OF assms] obtain s1 and a :: AgentDraftArtifacts and md where
    gate: "evaluateAgentDraftResultGate env ops now run c s = (Inr (rr_gate req), s1)"
    and sub: "submitExperimentPlanForMerchantReview dt reviewId (af_experimentPlan a) (rg_validationResult (rr_gate req))
        submittedAt submittedBy = Inr (rr_submission req)"
    and event: "appendResultEvent ops run Ev_merchant_review_requested (now 1) md s1 = (Inr (), s')" by blast
  from gate_Inr [OF gate] obtain d md' where inp: "gate_input env run c d"
    and event': "appendResultEvent ops run Ev_draft_validation_evaluated (now 0) md' s = (Inr (), s1)" by blast
  show ?thesis
    using that [OF inp] result_event_Inr [OF event] result_event_Inr [OF event']
      submission_ok_iff [of dt reviewId "af_experimentPlan a" "rg_validationResult (rr_gate req)" submittedAt submittedBy] sub by blast
qed

lemma no_identity_reason:
  assumes "checkIdentity c h p = []" "validateExperimentPlan lc c h p = Inr v"
  shows "Reason_identity_mismatch \<notin> set (vr_reasonCodes v)"
proof -
  have "Reason_identity_mismatch \<notin> set (map fst (validation_findings c h p))"
    using assms(1) by (auto simp: validation_findings_def checkTruthBoundary_def checkEvidenceRefs_def checkUncertainty_def
        checkSafety_def Let_def finding_if_def split: if_splits)
  with assms(2) show ?thesis
    by (auto simp: validateExperimentPlan_def validation_result_def Let_def split: if_splits)
qed

section \<open>Samples\<close>

definition captured_run :: AgentRun where
  "captured_run = \<lparr>ar_agentRunId = ''r'', ar_sessionId = ''e'', ar_attemptId = ''a'', ar_brandId = ''b'', ar_storeId = ''s'',
     ar_opportunityGapId = ''g'', ar_status = Run_draft_captured, ar_startedAt = ''t'', ar_completedAt = Some ''t'',
     ar_provider = ''p'', ar_model = ''m'', ar_profile = ''f'', ar_runtimeMode = Mode_pi_sdk_adapter, ar_authRef = ''a'',
     ar_promptRef = ''p'', ar_contextBundleVersion = ''agent-context-bundle.v1'', ar_contextSeedHash = ''sha256:h'',
     ar_toolCatalogVersion = ''agent-read-tools.v1'', ar_toolPolicyVersion = ''agent-runtime-policy.v1'',
     ar_runtimeUsage = None, ar_draft = Some sample_draft, ar_errorMessage = None, ar_evidenceRefs = [''v'']\<rparr>"

definition boundary_context :: AgentContextBundle where
  "boundary_context = plain_context\<lparr>cb_agentRunId := ''r'', cb_sessionId := ''e'', cb_brandId := ''b'', cb_storeId := ''s'',
     cb_opportunityGapId := ''g'', cb_factEvidenceRefs := [''v''], cb_evidenceRefs := [''v''],
     cb_opportunityGap := plain_gap\<lparr>og_opportunityGapId := ''g'', og_brandId := ''b'', og_storeId := ''s'',
       og_evidenceRefs := [''v'']\<rparr>\<rparr>"

lemma boundary_context_parses: "parse_bundle (env_lc sample_platform) boundary_context = Inr boundary_context"
  by code_simp

lemma sample_gate_input: "gate_input sample_platform captured_run boundary_context sample_draft"
proof -
  have "run_shape captured_run" by code_simp
  with boundary_context_parses show ?thesis by (simp add: gate_input_def captured_run_def)
qed

lemma sample_gate_status: "gate_status captured_run boundary_context sample_draft = Validated_for_review_request"
  by code_simp

section \<open>Properties\<close>

text \<open>C16. The gate is total and exact: for a well-formed captured run and context it returns a gate and appends one event of
the run, leaving all runs alone; it validates the drafts that measure known metrics, have a guardrail, and cite
evidence, all of it from the context of the same run, store and gap, when that gap has positive confidence and a
sufficient sample; without the sample it asks for more data, and it blocks every other draft.\<close>

theorem draft_gate_exact:
  assumes "gate_input env run c d" "nonempty (now 0)"
  shows "\<exists>gate store' e. evaluateAgentDraftResultGate env mem_audit_ops now run c store = (Inr gate, store')
    \<and> rg_status gate = (if draft_grounded run c d
         then (if og_sampleStatus (cb_opportunityGap c) = Peer_sufficient then Validated_for_review_request else Gate_needs_more_data)
         else Gate_blocked)
    \<and> (rg_artifacts gate \<noteq> None \<longleftrightarrow> draft_artifacts_ok run c d)
    \<and> mu_events store' = mu_events store @ [e] \<and> av_eventType e = Ev_draft_validation_evaluated
    \<and> av_agentRunId e = ar_agentRunId run \<and> map_get (mu_runs store') = map_get (mu_runs store)"
proof -
  obtain gate s' e where gate: "evaluateAgentDraftResultGate env mem_audit_ops now run c store = (Inr gate, s')"
    "mu_events s' = mu_events store @ [e]" "map_get (mu_runs s') = map_get (mu_runs store)"
    "av_eventType e = Ev_draft_validation_evaluated" "av_agentRunId e = ar_agentRunId run"
    "rg_status gate = gate_status run c d" "(rg_artifacts gate, Inr (rg_validationResult gate)) = gate_validation env run c"
    using mem_audit.gate_evaluated [where now = now and s = store, OF assms] by blast
  from gate_validation_form [OF assms(1) gate(7) [symmetric]]
  have "rg_artifacts gate \<noteq> None \<longleftrightarrow> draft_artifacts_ok run c d" by blast
  with gate show ?thesis by (intro exI [of _ gate] exI [of _ s'] exI [of _ e]) (simp add: gate_status_def)
qed

theorem draft_gate_exact_witness:
  "\<exists>gate store'. evaluateAgentDraftResultGate sample_platform mem_audit_ops (\<lambda>n. ''t'') captured_run boundary_context empty_audit
      = (Inr gate, store') \<and> rg_status gate = Validated_for_review_request \<and> length (mu_events store') = 1"
proof -
  have "nonempty ''t''" by (simp add: nonempty_def)
  from draft_gate_exact [OF sample_gate_input, of "\<lambda>n. ''t''", OF this, of empty_audit] sample_gate_status
  show ?thesis by (auto simp: gate_status_def empty_audit_def split: if_splits)
qed

text \<open>C11. What reaches the merchant is grounded and no more than a draft: the submitted plan is of the run, its brand, its
store and its gap; it cites exactly the evidence of the draft, all of it from the context, with a confidence above zero
and at most four fifths; it must be confirmed, can be rolled back, has a guardrail, and asks for no writes; the action is only
drafted. The request appends exactly two events and changes no run.\<close>

theorem review_request_sound:
  assumes "requestMerchantReviewForAgentDraft env dt mem_audit_ops now run c reviewId submittedAt submittedBy store = (Inr req, store')"
  shows "\<exists>d p. ar_draft run = Some d \<and> p = sb_experimentPlan (rr_submission req)
    \<and> ep_agentRunId p = ar_agentRunId run \<and> ep_brandId p = ar_brandId run \<and> ep_storeId p = ar_storeId run
    \<and> ep_opportunityGapId p = ar_opportunityGapId run
    \<and> set (sb_evidenceRefs (rr_submission req)) = set (dx_evidenceRefs d) \<and> set (dx_evidenceRefs d) \<subseteq> set (cb_evidenceRefs c)
    \<and> 0 < un_confidence (ep_uncertainty p) \<and> un_confidence (ep_uncertainty p) \<le> 4 / 5
    \<and> sf_merchantConfirmationRequired (ep_safety p) \<and> sf_rollbackSupported (ep_safety p)
    \<and> me_guardrails (ep_measurement p) \<noteq> [] \<and> ep_requestedCoreWrites p = []
    \<and> sb_lifecycleState (rr_submission req) = Drafted
    \<and> map av_eventType (mu_events store')
        = map av_eventType (mu_events store) @ [Ev_draft_validation_evaluated, Ev_merchant_review_requested]
    \<and> map_get (mu_runs store') = map_get (mu_runs store)"
proof -
  from assms obtain d where inp: "gate_input env run c d" "nonempty (now 0)" "nonempty (now 1)"
    and review: "reviewId \<noteq> []" "dt submittedAt" "case submittedBy of None \<Rightarrow> True | Some a \<Rightarrow> actor_shape a"
    by (rule requestE)
  have status: "gate_status run c d = Validated_for_review_request"
    using mem_audit.review_refused [where now = now and s = store and dt = dt and reviewId = reviewId
        and submittedAt = submittedAt and submittedBy = submittedBy, OF inp(1,2)] assms by auto
  from mem_audit.review_requested [where now = now and s = store and dt = dt and reviewId = reviewId
        and submittedAt = submittedAt and submittedBy = submittedBy, OF inp status review] assms obtain a where
    a: "buildAgentDraftArtifacts env run c = Inr a"
    and sub: "submitExperimentPlanForMerchantReview dt reviewId (af_experimentPlan a) (rg_validationResult (rr_gate req))
        submittedAt submittedBy = Inr (rr_submission req)"
    and kept: "map av_eventType (mu_events store')
        = map av_eventType (mu_events store) @ [Ev_draft_validation_evaluated, Ev_merchant_review_requested]"
      "map_get (mu_runs store') = map_get (mu_runs store)"
    by auto
  from status have "draft_grounded run c d" by (auto simp: gate_status_def split: if_splits)
  then have grounded: "grounded_plan (env_lc env) c (af_hypothesis a) (af_experimentPlan a)"
    by (simp add: artifacts_grounded [OF inp(1) a])
  note p = plan_sel [OF artifacts_sel(2) [OF inp(1) a]] and s = submission_sel [OF sub]
  have "ep_requestedCoreWrites (af_experimentPlan a) = []" using p(1) by (simp add: plan_shape_def)
  moreover have "ar_draft run = Some d" using inp(1) by (simp add: gate_input_def)
  ultimately show ?thesis
    using grounded p s kept draft_uncertainty_ok(2) [OF inp(1)] by (auto simp: grounded_plan_def)
qed

lemma sample_review:
  "\<exists>req store'. requestMerchantReviewForAgentDraft sample_platform (\<lambda>_. True) mem_audit_ops (\<lambda>n. ''t'') captured_run
      boundary_context ''v1'' ''t'' None empty_audit = (Inr req, store')"
  using mem_audit.review_requested [where now = "\<lambda>n. ''t''" and s = empty_audit and dt = "\<lambda>_. True" and reviewId = "''v1''"
      and submittedAt = "''t''" and submittedBy = None, OF sample_gate_input _ _ sample_gate_status]
  by (auto simp: nonempty_def)

theorem review_request_sound_witness:
  "\<exists>req store'. requestMerchantReviewForAgentDraft sample_platform (\<lambda>_. True) mem_audit_ops (\<lambda>n. ''t'') captured_run
      boundary_context ''v1'' ''t'' None empty_audit = (Inr req, store')
    \<and> set (sb_evidenceRefs (rr_submission req)) = {''v''} \<and> sb_lifecycleState (rr_submission req) = Drafted"
proof -
  obtain req store' where req: "requestMerchantReviewForAgentDraft sample_platform (\<lambda>_. True) mem_audit_ops (\<lambda>n. ''t'')
      captured_run boundary_context ''v1'' ''t'' None empty_audit = (Inr req, store')" using sample_review by blast
  from review_request_sound [OF req] req show ?thesis by (auto simp: captured_run_def sample_draft_def)
qed

text \<open>C6. Every run the sidecar captures can go to the merchant, and which ones do is decided by its draft and the
context alone: after a captured run, a request for review with an id and a time returns a submission exactly when the
draft is grounded in the context and the sample of its gap is sufficient; the store then holds the events of the run, the
evaluation and, if submitted, the request, and the run as it was captured.\<close>

theorem captured_run_reviewed:
  assumes run: "runAgentAttempt env inp store = (Inr (run, evs), store1)" "ra_auditStore inp = mem_audit_ops"
    "ar_status run = Run_draft_captured"
    and parses: "parse_bundle (env_lc env) c = Inr c" and clock: "nonempty (now 0)" "nonempty (now 1)"
    and review: "reviewId \<noteq> []" "dt submittedAt"
  shows "\<exists>d result store2. ar_draft run = Some d
    \<and> requestMerchantReviewForAgentDraft env dt mem_audit_ops now run c reviewId submittedAt None store1 = (result, store2)
    \<and> ((\<exists>req. result = Inr req) \<longleftrightarrow> draft_grounded run c d \<and> og_sampleStatus (cb_opportunityGap c) = Peer_sufficient)
    \<and> map av_eventType (mu_events store2) = map av_eventType (mu_events store @ evs)
        @ Ev_draft_validation_evaluated # (if (\<exists>req. result = Inr req) then [Ev_merchant_review_requested] else [])
    \<and> map_get (mu_runs store2) (ar_agentRunId run) = Some run"
proof -
  from recorded_run [OF run(1,2)] run(3) obtain d where d: "run_shape run" "ar_draft run = Some d"
    and kept: "mu_events store1 = mu_events store @ evs" "map_get (mu_runs store1) (ar_agentRunId run) = Some run" by auto
  have inp: "gate_input env run c d" using d run(3) parses by (simp add: gate_input_def)
  have status: "gate_status run c d = Validated_for_review_request
      \<longleftrightarrow> draft_grounded run c d \<and> og_sampleStatus (cb_opportunityGap c) = Peer_sufficient"
    by (simp add: gate_status_def)
  show ?thesis
  proof (cases "gate_status run c d = Validated_for_review_request")
    case True
    from mem_audit.review_requested [where now = now and s = store1 and dt = dt and reviewId = reviewId
        and submittedAt = submittedAt and submittedBy = None, OF inp clock True review]
    obtain req s' where "requestMerchantReviewForAgentDraft env dt mem_audit_ops now run c reviewId submittedAt None store1 = (Inr req, s')"
      "map av_eventType (mu_events s') = map av_eventType (mu_events store1) @ [Ev_draft_validation_evaluated, Ev_merchant_review_requested]"
      "map_get (mu_runs s') = map_get (mu_runs store1)" by auto
    with d kept True status show ?thesis by auto
  next
    case False
    from mem_audit.review_refused [where now = now and s = store1 and dt = dt and reviewId = reviewId
        and submittedAt = submittedAt and submittedBy = None, OF inp clock(1) False]
    obtain e s' where "requestMerchantReviewForAgentDraft env dt mem_audit_ops now run c reviewId submittedAt None store1 = (Inl e, s')"
      "map av_eventType (mu_events s') = map av_eventType (mu_events store1) @ [Ev_draft_validation_evaluated]"
      "map_get (mu_runs s') = map_get (mu_runs store1)" by auto
    with d kept False status show ?thesis by auto
  qed
qed

theorem captured_run_reviewed_witness:
  "\<exists>run evs store1 result store2. runAgentAttempt sample_platform (sample_run sample_harness) empty_audit = (Inr (run, evs), store1)
    \<and> requestMerchantReviewForAgentDraft sample_platform (\<lambda>_. True) mem_audit_ops (\<lambda>n. ''t'') run boundary_context ''v1'' ''t''
        None store1 = (result, store2)
    \<and> Ev_draft_validation_evaluated \<in> set (map av_eventType (mu_events store2))"
proof -
  obtain run evs store1 where run: "runAgentAttempt sample_platform (sample_run sample_harness) empty_audit = (Inr (run, evs), store1)"
    "ar_status run = Run_draft_captured" by (rule sample_captured)
  have "nonempty ''t''" by (simp add: nonempty_def)
  from captured_run_reviewed [OF run(1) sample_run_simps(1) run(2) boundary_context_parses, where now = "\<lambda>n. ''t''"
      and reviewId = "''v1''" and submittedAt = "''t''" and dt = "\<lambda>_. True", OF this this] run(1)
  show ?thesis by (auto simp del: set_map)
qed

text \<open>The gate never tells the reason identity_mismatch: a run of another store, brand or gap than its context is blocked
as schema_invalid, because the error that names the mismatch is caught with all others.\<close>

theorem gate_hides_identity_mismatch:
  assumes "evaluateAgentDraftResultGate env ops now run c store = (Inr gate, store')"
  shows "Reason_identity_mismatch \<notin> set (vr_reasonCodes (rg_validationResult gate))
    \<and> (ar_storeId run \<noteq> cb_storeId c \<longrightarrow> vr_reasonCodes (rg_validationResult gate) = [Reason_schema_invalid])"
proof -
  from gate_Inr [OF assms] obtain d where inp: "gate_input env run c d"
    and gv: "gate_validation env run c = (rg_artifacts gate, Inr (rg_validationResult gate))" by blast
  show ?thesis
  proof (cases "buildAgentDraftArtifacts env run c")
    case (Inl e)
    with gv show ?thesis by (auto simp: gate_validation_def schema_invalid_result_def Let_def)
  next
    case (Inr a)
    note sel = artifacts_sel [OF inp Inr] hypothesis_sel [OF artifacts_sel(1) [OF inp Inr]] plan_sel [OF artifacts_sel(2) [OF inp Inr]]
    have "checkIdentity c (af_hypothesis a) (af_experimentPlan a) = []"
      using sel by (simp add: checkIdentity_def)
    from no_identity_reason [OF this] gv Inr sel(5) validation_total [of "env_lc env" c "af_hypothesis a" "af_experimentPlan a"]
    show ?thesis by (auto simp: gate_validation_def)
  qed
qed

theorem gate_hides_identity_mismatch_witness:
  "\<exists>gate store'. evaluateAgentDraftResultGate sample_platform mem_audit_ops (\<lambda>n. ''t'') (captured_run\<lparr>ar_storeId := ''other''\<rparr>)
      boundary_context empty_audit = (Inr gate, store')
    \<and> vr_reasonCodes (rg_validationResult gate) = [Reason_schema_invalid]"
proof -
  have "run_shape (captured_run\<lparr>ar_storeId := ''other''\<rparr>)" by code_simp
  then have "gate_input sample_platform (captured_run\<lparr>ar_storeId := ''other''\<rparr>) boundary_context sample_draft"
    using boundary_context_parses by (simp add: gate_input_def captured_run_def)
  moreover have "nonempty ''t''" by (simp add: nonempty_def)
  ultimately obtain gate store' where gate: "evaluateAgentDraftResultGate sample_platform mem_audit_ops (\<lambda>n. ''t'')
      (captured_run\<lparr>ar_storeId := ''other''\<rparr>) boundary_context empty_audit = (Inr gate, store')"
    using mem_audit.gate_evaluated [where now = "\<lambda>n. ''t''" and s = empty_audit] by blast
  from gate_hides_identity_mismatch [OF gate] gate show ?thesis
    by (auto simp: boundary_context_def)
qed

end
