(* ===== verification/AgentObservability.thy ===== *)
theory AgentObservability
  imports AgentSidecar
begin

text \<open>
  The observability report over one run and its events, \<open>src/src/agent/observability.ts\<close>: counters,
  coverage, latency and usage, and the guard that refuses a report whose text is too long or holds
  something that looks like a secret. Of an event only its type and, for evaluations, its decision are read.
\<close>

section \<open>The report\<close>

record RemovedSurface =
  rs_surface :: string
  rs_productionMatches :: nat
  rs_testMatches :: nat

record AgentRuntimeDeletionProof =
  del_removedSurfaces :: "RemovedSurface list"
  del_residuals :: "string list"

record AuditCoverage =
  cov_preparedAttempt :: bool
  cov_policyEvaluation :: bool
  cov_runtimeSelection :: bool
  cov_harnessInvocation :: bool
  cov_toolCalls :: bool
  cov_toolDenials :: bool
  cov_sanitizedToolResults :: bool
  cov_draftCapture :: bool
  cov_validatorOutcome :: bool
  cov_reviewHandoffRequest :: bool
  cov_providerOrRuntimeFailure :: bool

record MetricCounters =
  ctr_runsStarted :: nat
  ctr_runsDraftCaptured :: nat
  ctr_runsFailed :: nat
  ctr_toolCallsAttempted :: nat
  ctr_toolCallsDenied :: nat
  ctr_toolResultsSanitized :: nat
  ctr_validationAccepted :: nat
  ctr_validationBlocked :: nat
  ctr_reviewRequests :: nat
  ctr_durationObservations :: nat

record AgentRuntimeObservabilityReport =
  rp_auditEvents :: "(AgentRunEventType, nat) jsmap"
  rp_auditCoverage :: AuditCoverage
  rp_metricCounters :: MetricCounters
  rp_latencyAvailable :: bool
  rp_latencyMs :: int
  rp_runtimeUsage :: "AgentRuntimeUsage option"
  rp_deletionProof :: "AgentRuntimeDeletionProof option"
  rp_residuals :: "string list"

definition has :: "AgentRunEvent list \<Rightarrow> AgentRunEventType \<Rightarrow> bool" where
  "has events eventType \<longleftrightarrow> list_ex (\<lambda>event. av_eventType event = eventType) events"

definition countBy :: "'v list \<Rightarrow> ('v, nat) jsmap" where
  "countBy vs = foldl (\<lambda>counts v. map_set v (or_else (map_get counts v) 0 + 1) counts) [] vs"

definition validationDecisions :: "AgentRunEvent list \<Rightarrow> json option list" where
  "validationDecisions events = map (\<lambda>event. get_prop (av_metadata event) ''decision'')
     (filter (\<lambda>event. av_eventType event = Ev_draft_validation_evaluated) events)"

definition report_residuals :: "string list" where
  "report_residuals = [''production dashboards/SLOs/paging/incident management remain residual'',
     ''cloud secret deployment hardening remains residual'',
     ''probe uses local/test selected runtimes and in-memory audit only'']"

definition agent_report ::
  "platform \<Rightarrow> AgentRun \<Rightarrow> AgentRunEvent list \<Rightarrow> AgentRuntimeDeletionProof option \<Rightarrow> AgentRuntimeObservabilityReport" where
  "agent_report env run events deletionProof =
     (let auditEvents = countBy (map av_eventType events);
          counted = (\<lambda>eventType. or_else (map_get auditEvents eventType) 0);
          decided = (\<lambda>d. length (filter (\<lambda>decision. decision = Some (JStr d)) (validationDecisions events)))
      in \<lparr>rp_auditEvents = auditEvents,
          rp_auditCoverage = \<lparr>
            cov_preparedAttempt = has events Ev_attempt_loaded,
            cov_policyEvaluation = has events Ev_policy_evaluated,
            cov_runtimeSelection = has events Ev_runtime_selected,
            cov_harnessInvocation = has events Ev_harness_invoked,
            cov_toolCalls = has events Ev_tool_call_attempt,
            cov_toolDenials = has events Ev_tool_call_denied,
            cov_sanitizedToolResults = has events Ev_tool_result_sanitized,
            cov_draftCapture = has events Ev_draft_captured,
            cov_validatorOutcome = has events Ev_draft_validation_evaluated,
            cov_reviewHandoffRequest = has events Ev_merchant_review_requested,
            cov_providerOrRuntimeFailure = has events Ev_run_failed\<rparr>,
          rp_metricCounters = \<lparr>
            ctr_runsStarted = counted Ev_run_started,
            ctr_runsDraftCaptured = counted Ev_draft_captured,
            ctr_runsFailed = counted Ev_run_failed,
            ctr_toolCallsAttempted = counted Ev_tool_call_attempt,
            ctr_toolCallsDenied = counted Ev_tool_call_denied,
            ctr_toolResultsSanitized = counted Ev_tool_result_sanitized,
            ctr_validationAccepted = decided ''accept'',
            ctr_validationBlocked = decided ''block'',
            ctr_reviewRequests = counted Ev_merchant_review_requested,
            ctr_durationObservations = (if truthy (ar_completedAt run) then 1 else 0)\<rparr>,
          rp_latencyAvailable = truthy (ar_completedAt run),
          rp_latencyMs = (case ar_completedAt run of
              Some completedAt \<Rightarrow> if completedAt = [] then 0 else elapsedMs env (ar_startedAt run) completedAt
            | None \<Rightarrow> 0),
          rp_runtimeUsage = ar_runtimeUsage run,
          rp_deletionProof = deletionProof,
          rp_residuals = report_residuals\<rparr>)"

section \<open>Its text\<close>

definition usage_json :: "AgentRuntimeUsage option \<Rightarrow> json" where
  "usage_json u =
     (case u of
        None \<Rightarrow> JObj [(''available'', JBool False)]
      | Some usage \<Rightarrow>
          (case runtimeUsageMetadata usage of
             JObj entries \<Rightarrow> JObj ((''available'', JBool True) # entries)
           | v \<Rightarrow> v))"

definition proof_json :: "AgentRuntimeDeletionProof \<Rightarrow> json" where
  "proof_json p = JObj
     [(''removedSurfaces'', JArr (map (\<lambda>r. JObj [(''surface'', JStr (rs_surface r)),
          (''productionMatches'', int_json (int (rs_productionMatches r))),
          (''testMatches'', int_json (int (rs_testMatches r))),
          (''status'', JStr ''removed_from_production'')]) (del_removedSurfaces p))),
      (''residuals'', JArr (map JStr (del_residuals p)))]"

definition coverage_json :: "AuditCoverage \<Rightarrow> json" where
  "coverage_json c = JObj
     [(''preparedAttempt'', JBool (cov_preparedAttempt c)), (''policyEvaluation'', JBool (cov_policyEvaluation c)),
      (''runtimeSelection'', JBool (cov_runtimeSelection c)), (''harnessInvocation'', JBool (cov_harnessInvocation c)),
      (''toolCalls'', JBool (cov_toolCalls c)), (''toolDenials'', JBool (cov_toolDenials c)),
      (''sanitizedToolResults'', JBool (cov_sanitizedToolResults c)), (''draftCapture'', JBool (cov_draftCapture c)),
      (''validatorOutcome'', JBool (cov_validatorOutcome c)),
      (''reviewHandoffRequest'', JBool (cov_reviewHandoffRequest c)),
      (''providerOrRuntimeFailure'', JBool (cov_providerOrRuntimeFailure c))]"

definition counters_json :: "MetricCounters \<Rightarrow> json" where
  "counters_json m = JObj (map (\<lambda>(k, n). (k, int_json (int n)))
     [(''runsStarted'', ctr_runsStarted m), (''runsDraftCaptured'', ctr_runsDraftCaptured m),
      (''runsFailed'', ctr_runsFailed m), (''toolCallsAttempted'', ctr_toolCallsAttempted m),
      (''toolCallsDenied'', ctr_toolCallsDenied m), (''toolResultsSanitized'', ctr_toolResultsSanitized m),
      (''validationAccepted'', ctr_validationAccepted m), (''validationBlocked'', ctr_validationBlocked m),
      (''reviewRequests'', ctr_reviewRequests m), (''durationObservations'', ctr_durationObservations m)])"

text \<open>\<open>JSON.stringify\<close> leaves out the proof when it is \<open>undefined\<close>.\<close>

definition report_json :: "AgentRuntimeObservabilityReport \<Rightarrow> json" where
  "report_json r = JObj (toJsonMetadata
     [(''service'', Some (JStr ''data-dyna'')), (''runtimeEnvironment'', Some (JStr ''local_test'')),
      (''reportKind'', Some (JStr ''agent_runtime_observability.v1'')),
      (''auditEvents'', Some (JObj (map (\<lambda>(e, n). (event_type_text e, int_json (int n))) (rp_auditEvents r)))),
      (''auditCoverage'', Some (coverage_json (rp_auditCoverage r))),
      (''metricCounters'', Some (counters_json (rp_metricCounters r))),
      (''latency'', Some (JObj [(''available'', JBool (rp_latencyAvailable r)), (''latencyMs'', int_json (rp_latencyMs r))])),
      (''runtimeUsage'', Some (usage_json (rp_runtimeUsage r))),
      (''deletionProof'', map_option proof_json (rp_deletionProof r)),
      (''residuals'', Some (JArr (map JStr (rp_residuals r))))])"

section \<open>The guard\<close>

definition maxReportBytes :: nat where
  "maxReportBytes = 8192"

text \<open>The expression of \<open>assertNoAgentObservabilityLeak\<close>, all of it without regard to case.\<close>

definition leak_at :: "string \<Rightarrow> bool" where
  "leak_at s \<longleftrightarrow>
     (let spaces = span js_space (drop 6 s)
      in ci_starts ''bearer'' s \<and> 0 < spaces \<and> 0 < span not_space (drop (6 + spaces) s))
     \<or> list_ex (\<lambda>word. ci_starts word s)
         [''authorization:'', ''password='', ''database_url'', ''begin rsa private key'', ''4111111111111111'',
          ''customerphone='', ''paymentid='']
     \<or> list_ex (\<lambda>word. ci_starts word s \<and> 0 < span not_space (drop (length word) s))
         [''secret='', ''token='', ''credential='']
     \<or> (ci_starts ''sk-'' s \<and> 0 < span key_char (drop 3 s))
     \<or> raw_payload_length s \<noteq> None"

definition assertNoAgentObservabilityLeak :: "string \<Rightarrow> agent_error + unit" where
  "assertNoAgentObservabilityLeak output = throw_plain (re_test leak_at output)
     ''Agent observability output leaked a forbidden secret, raw payload, or customer/payment identifier.''"

definition assertAgentObservabilitySafe :: "platform \<Rightarrow> json \<Rightarrow> agent_error + unit" where
  "assertAgentObservabilitySafe env v =
     (let encoded = json_text (env_numberText env) v in
      and_then (throw_plain (maxReportBytes < utf8_bytes encoded)
        ''Agent observability report exceeded the bounded local/test byte budget.'') (\<lambda>_.
      assertNoAgentObservabilityLeak encoded))"

fun parse_run_events :: "AgentRunEvent list \<Rightarrow> agent_error + AgentRunEvent list" where
  "parse_run_events [] = Inr []"
| "parse_run_events (e # es) =
     and_then (parse_run_event e) (\<lambda>event. and_then (parse_run_events es) (\<lambda>events. Inr (event # events)))"

definition buildAgentRuntimeObservabilityReport ::
  "platform \<Rightarrow> AgentRun \<Rightarrow> AgentRunEvent list \<Rightarrow> AgentRuntimeDeletionProof option
   \<Rightarrow> agent_error + AgentRuntimeObservabilityReport" where
  "buildAgentRuntimeObservabilityReport env runInput eventsInput deletionProof =
     and_then (parse_run runInput) (\<lambda>run.
     and_then (parse_run_events eventsInput) (\<lambda>events.
     let report = agent_report env run events deletionProof in
     and_then (assertAgentObservabilitySafe env (report_json report)) (\<lambda>_. Inr report)))"

section \<open>Counting\<close>

lemma countBy_count: "map_get (countBy vs) v = (if v \<in> set vs then Some (count_list vs v) else None)"
proof (induction vs rule: rev_induct)
  case (snoc w ws)
  then show ?case by (auto simp: countBy_def map_get_set count_notin)
qed (simp add: countBy_def)

lemma counted: "or_else (map_get (countBy vs) v) 0 = count_list vs v"
  by (simp add: countBy_count count_notin)

lemma count_pos_iff: "0 < count_list xs t \<longleftrightarrow> t \<in> set xs"
  by (metis count_list_0_iff neq0_conv)

lemma has_counted: "has events t \<longleftrightarrow> 0 < count_list (map av_eventType events) t"
  unfolding count_pos_iff by (auto simp: has_def list_ex_iff)

lemma parse_run_events_Inr [simp]: "parse_run_events es = Inr es' \<longleftrightarrow> list_all run_event_shape es \<and> es' = es"
  by (induction es arbitrary: es') (auto simp: and_then_Inr_iff parse_run_event_def)

lemma report_sel:
  "rp_metricCounters (agent_report env run events p) =
     \<lparr>ctr_runsStarted = count_list (map av_eventType events) Ev_run_started,
      ctr_runsDraftCaptured = count_list (map av_eventType events) Ev_draft_captured,
      ctr_runsFailed = count_list (map av_eventType events) Ev_run_failed,
      ctr_toolCallsAttempted = count_list (map av_eventType events) Ev_tool_call_attempt,
      ctr_toolCallsDenied = count_list (map av_eventType events) Ev_tool_call_denied,
      ctr_toolResultsSanitized = count_list (map av_eventType events) Ev_tool_result_sanitized,
      ctr_validationAccepted = length (filter (\<lambda>d. d = Some (JStr ''accept'')) (validationDecisions events)),
      ctr_validationBlocked = length (filter (\<lambda>d. d = Some (JStr ''block'')) (validationDecisions events)),
      ctr_reviewRequests = count_list (map av_eventType events) Ev_merchant_review_requested,
      ctr_durationObservations = (if truthy (ar_completedAt run) then 1 else 0)\<rparr>"
  by (simp add: agent_report_def counted Let_def)

lemma coverage_sel:
  "rp_auditCoverage (agent_report env run events p) =
     (let covered = (\<lambda>t. 0 < count_list (map av_eventType events) t) in
      \<lparr>cov_preparedAttempt = covered Ev_attempt_loaded, cov_policyEvaluation = covered Ev_policy_evaluated,
       cov_runtimeSelection = covered Ev_runtime_selected, cov_harnessInvocation = covered Ev_harness_invoked,
       cov_toolCalls = covered Ev_tool_call_attempt, cov_toolDenials = covered Ev_tool_call_denied,
       cov_sanitizedToolResults = covered Ev_tool_result_sanitized, cov_draftCapture = covered Ev_draft_captured,
       cov_validatorOutcome = covered Ev_draft_validation_evaluated,
       cov_reviewHandoffRequest = covered Ev_merchant_review_requested,
       cov_providerOrRuntimeFailure = covered Ev_run_failed\<rparr>)"
  by (simp add: agent_report_def has_counted Let_def)

lemma build_report_eq:
  assumes "run_shape run" "list_all run_event_shape events"
  shows "buildAgentRuntimeObservabilityReport env run events p
    = and_then (assertAgentObservabilitySafe env (report_json (agent_report env run events p)))
        (\<lambda>_. Inr (agent_report env run events p))"
proof -
  have "parse_run run = Inr run" "parse_run_events events = Inr events"
    using assms by (simp_all add: parse_run_def)
  then show ?thesis by (simp only: buildAgentRuntimeObservabilityReport_def and_then.simps Let_def)
qed

end
