(* ===== verification/ReportProperties.thy ===== *)
theory ReportProperties
  imports BoundaryProperties AgentObservability
begin

text \<open>
  What the observability report says of a run that went to the merchant: the composition of a run, the
  review request and the report.
\<close>

lemma tool_types_count:
  assumes "set ts \<subseteq> tool_event_types" "t \<notin> tool_event_types"
  shows "count_list ts t = 0"
  using assms by (auto simp: count_list_0_iff)

text \<open>C31. The report of a reviewed run accounts for it: over the events of a captured run and of its review request, which
together are what the store has gained, the report counts one start, one captured draft, no failure, one accepted and no
blocked validation, one review request, and the tool calls of the run; it covers every stage but the failure, and tool calls
exactly when it counts some; it is returned unless its text is too long or looks like a leak.\<close>

theorem reviewed_run_reported:
  assumes run: "runAgentAttempt env inp store = (Inr (run, evs), store1)" "ra_auditStore inp = mem_audit_ops"
    "ar_status run = Run_draft_captured"
    and review: "requestMerchantReviewForAgentDraft env dt mem_audit_ops now run c reviewId submittedAt submittedBy store1
      = (Inr req, store2)"
  shows "\<exists>new. mu_events store2 = mu_events store @ evs @ new
    \<and> (let rep = agent_report env run (evs @ new) proof; m = rp_metricCounters rep; v = rp_auditCoverage rep in
        buildAgentRuntimeObservabilityReport env run (evs @ new) proof
          = and_then (assertAgentObservabilitySafe env (report_json rep)) (\<lambda>_. Inr rep)
        \<and> ctr_runsStarted m = 1 \<and> ctr_runsDraftCaptured m = 1 \<and> ctr_runsFailed m = 0
        \<and> ctr_validationAccepted m = 1 \<and> ctr_validationBlocked m = 0 \<and> ctr_reviewRequests m = 1
        \<and> cov_preparedAttempt v \<and> cov_policyEvaluation v \<and> cov_runtimeSelection v \<and> cov_harnessInvocation v
        \<and> cov_draftCapture v \<and> cov_validatorOutcome v \<and> cov_reviewHandoffRequest v \<and> \<not> cov_providerOrRuntimeFailure v
        \<and> ctr_toolCallsAttempted m = count_list (map av_eventType evs) Ev_tool_call_attempt
        \<and> (cov_toolCalls v \<longleftrightarrow> 0 < ctr_toolCallsAttempted m))"
proof -
  from recorded_run [OF run(1,2)] have kept: "mu_events store1 = mu_events store @ evs" "list_all run_event_shape evs"
    "run_shape run" by auto
  from captured_protocol [OF run] obtain ts n where ts: "set ts \<subseteq> tool_event_types"
    "map av_eventType evs = [Ev_run_started, Ev_attempt_loaded, Ev_policy_evaluated, Ev_runtime_selected, Ev_harness_invoked]
      @ ts @ replicate n Ev_harness_transcript_event @ [Ev_draft_captured]" by auto
  from review obtain d where inp: "gate_input env run c d" "nonempty (now 0)" "nonempty (now 1)"
    and review': "reviewId \<noteq> []" "dt submittedAt" "case submittedBy of None \<Rightarrow> True | Some a \<Rightarrow> actor_shape a"
    by (rule requestE)
  have status: "gate_status run c d = Validated_for_review_request"
    using mem_audit.review_refused [where now = now and s = store1 and dt = dt and reviewId = reviewId
        and submittedAt = submittedAt and submittedBy = submittedBy, OF inp(1,2)] review by auto
  from mem_audit.review_requested [where now = now and s = store1 and dt = dt and reviewId = reviewId
      and submittedAt = submittedAt and submittedBy = submittedBy, OF inp status review'] review
  obtain e1 e2 where es: "mu_events store2 = mu_events store1 @ [e1, e2]" "av_eventType e1 = Ev_draft_validation_evaluated"
    "av_eventType e2 = Ev_merchant_review_requested" "run_event_shape e1" "run_event_shape e2"
    "get_prop (av_metadata e1) ''decision'' = Some (JStr ''accept'')" by auto
  have "filter (\<lambda>e. av_eventType e = Ev_draft_validation_evaluated) evs = []"
  proof -
    have "Ev_draft_validation_evaluated \<notin> set (map av_eventType evs)"
      using ts(1) unfolding ts(2) by (auto simp: tool_event_types_def)
    then show ?thesis by (force simp: filter_empty_conv)
  qed
  then have decisions: "validationDecisions (evs @ [e1, e2]) = [Some (JStr ''accept'')]"
    using es by (simp add: validationDecisions_def)
  have "mu_events store2 = mu_events store @ evs @ [e1, e2]" using es(1) kept(1) by simp
  moreover have "list_all run_event_shape (evs @ [e1, e2])" using kept(2) es(4,5) by simp
  moreover have types: "map av_eventType (evs @ [e1, e2])
      = [Ev_run_started, Ev_attempt_loaded, Ev_policy_evaluated, Ev_runtime_selected, Ev_harness_invoked]
        @ ts @ replicate n Ev_harness_transcript_event
        @ [Ev_draft_captured, Ev_draft_validation_evaluated, Ev_merchant_review_requested]"
    using ts(2) es(2,3) by simp
  moreover note count = tool_types_count [OF ts(1)]
  ultimately show ?thesis
    unfolding Let_def
    by (intro exI [of _ "[e1, e2]"] conjI)
      (simp_all add: build_report_eq kept(3) report_sel coverage_sel Let_def decisions count_list_append count
        tool_event_types_def)
qed

theorem reviewed_run_reported_witness:
  "\<exists>run evs store1 req store2 new. runAgentAttempt sample_platform (sample_run sample_harness) empty_audit = (Inr (run, evs), store1)
    \<and> requestMerchantReviewForAgentDraft sample_platform (\<lambda>_. True) mem_audit_ops (\<lambda>n. ''t'') run boundary_context ''v1'' ''t''
        None store1 = (Inr req, store2)
    \<and> ctr_reviewRequests (rp_metricCounters (agent_report sample_platform run (evs @ new) None)) = 1"
proof -
  obtain run evs store1 where run: "runAgentAttempt sample_platform (sample_run sample_harness) empty_audit = (Inr (run, evs), store1)"
    "ar_status run = Run_draft_captured" by (rule sample_captured)
  note sel = sample_captured_sel [OF run]
  from recorded_run [OF run(1) sample_run_simps(1)] have "run_shape run" by blast
  then have inp: "gate_input sample_platform run boundary_context sample_draft"
    using run(2) sel(1) boundary_context_parses by (simp add: gate_input_def)
  have "gate_status run boundary_context sample_draft = gate_status captured_run boundary_context sample_draft"
    using sel by (simp add: gate_status_def draft_grounded_def draft_artifacts_ok_def captured_run_def)
  then have status: "gate_status run boundary_context sample_draft = Validated_for_review_request"
    by (simp add: sample_gate_status)
  obtain req store2 where req: "requestMerchantReviewForAgentDraft sample_platform (\<lambda>_. True) mem_audit_ops (\<lambda>n. ''t'') run
      boundary_context ''v1'' ''t'' None store1 = (Inr req, store2)"
    using mem_audit.review_requested [where now = "\<lambda>n. ''t''" and s = store1 and dt = "\<lambda>_. True" and reviewId = "''v1''"
        and submittedAt = "''t''" and submittedBy = None, OF inp _ _ status] by (auto simp: nonempty_def)
  from reviewed_run_reported [OF run(1) sample_run_simps(1) run(2) req, of None] run(1) req
  show ?thesis unfolding Let_def by blast
qed

end
