(* ===== verification/ToolCalls.thy ===== *)
theory ToolCalls
  imports RunOutcomes
begin

text \<open>
  Tool calls of one turn that overlap in time. Between two \<open>await\<close>s \<open>guardedToolCall\<close> runs without a break,
  so a call is a sequence of segments, and the calls a harness has started interleave segment by segment:
  each first segment records an event and waits for the store, the next one tells the callback and waits for
  it, the third one goes on with the call. The store takes an event, or refuses it, in the segment that
  calls it, as the in-memory store does; a harness that waits for all its calls is meant.
\<close>

section \<open>Segments\<close>

text \<open>What a call does when its event is recorded and told.\<close>

datatype call_rest = Then_throw agent_error | Then_call | Then_return "json option"

datatype call_phase =
  Requested
| Recorded AgentRunEvent call_rest
| Notified call_rest
| Answered "agent_error + json option"

text \<open>\<open>appendEvent\<close> up to \<open>await store.appendEvent(event)\<close>.\<close>

definition record_event ::
  "'s RunAgentAttemptInput \<Rightarrow> AgentRunEventType \<times> (string \<times> json option) list \<Rightarrow> ('s, AgentRunEvent) step" where
  "record_event inp = (\<lambda>(eventType, metadata).
     bind_step (read_clock (ra_now inp)) (\<lambda>occurredAt st.
       bind_step (lift_step (parse_run_event
           (run_event (ra_preparedAttempt inp) (length (ag_events st) + 1) eventType occurredAt metadata))) (\<lambda>event.
       bind_step (push_event event) (\<lambda>_.
       bind_step (store_step (as_appendEvent (ra_auditStore inp) event)) (\<lambda>_.
       return_step event))) st))"

definition begin_event ::
  "'s RunAgentAttemptInput \<Rightarrow> AgentRunEventType \<times> (string \<times> json option) list \<Rightarrow> call_rest \<Rightarrow> ('s, call_phase) step" where
  "begin_event inp body rest st = (case record_event inp body st of
       (Inl e, st') \<Rightarrow> (Inr (Answered (Inl e)), st')
     | (Inr event, st') \<Rightarrow> (Inr (Recorded event rest), st'))"

definition policy_denial :: "AgentRuntimePolicy \<Rightarrow> AgentReadOnlyToolName \<Rightarrow> AgentRunEventType \<times> (string \<times> json option) list" where
  "policy_denial policy toolName = (Ev_tool_call_denied,
     [(''toolName'', Some (JStr (tool_text toolName))),
      (''reason'', Some (JStr ''tool_not_allowed_by_runtime_policy'')),
      (''policyVersion'', Some (JStr (po_policyVersion policy))),
      (''mutationPolicy'', Some (JStr (po_mutationPolicy policy)))])"

definition budget_denial ::
  "AgentRuntimePolicy \<Rightarrow> AgentReadOnlyToolName \<Rightarrow> nat \<Rightarrow> int \<Rightarrow> AgentRunEventType \<times> (string \<times> json option) list" where
  "budget_denial policy toolName resultBytes maxBytes = (Ev_tool_call_denied,
     [(''toolName'', Some (JStr (tool_text toolName))),
      (''reason'', Some (JStr ''sanitized_tool_result_exceeds_budget'')),
      (''resultBytes'', nat_json resultBytes),
      (''maxToolResultBytes'', Some (JNum (Finite (of_int maxBytes)))),
      (''policyVersion'', Some (JStr (po_policyVersion policy)))])"

definition sanitized_note :: "AgentRuntimePolicy \<Rightarrow> AgentReadOnlyToolName \<Rightarrow> nat \<Rightarrow> AgentRunEventType \<times> (string \<times> json option) list" where
  "sanitized_note policy toolName resultBytes = (Ev_tool_result_sanitized,
     [(''toolName'', Some (JStr (tool_text toolName))), (''resultBytes'', nat_json resultBytes),
      (''policyVersion'', Some (JStr (po_policyVersion policy))),
      (''mutationPolicy'', Some (JStr (po_mutationPolicy policy)))])"

text \<open>The raw result, redacted and measured.\<close>

definition measured_result ::
  "platform \<Rightarrow> tool_surface \<Rightarrow> AgentReadOnlyToolName \<Rightarrow> json option \<Rightarrow> agent_error + json option \<times> nat" where
  "measured_result env tools toolName toolInput =
     and_then (callPreparedTool tools toolName toolInput) (\<lambda>rawResult.
       let sanitizedResult = map_option sanitizeJsonValue rawResult in
       and_then (resultByteLength env sanitizedResult) (\<lambda>resultBytes. Inr (sanitizedResult, resultBytes)))"

fun call_segment ::
  "platform \<Rightarrow> 's RunAgentAttemptInput \<Rightarrow> AgentHarnessCallbacks \<Rightarrow> AgentRuntimePolicy \<Rightarrow> tool_surface
   \<Rightarrow> AgentReadOnlyToolName \<times> json option \<Rightarrow> call_phase \<Rightarrow> ('s, call_phase) step" where
  "call_segment env inp callbacks policy tools (toolName, toolInput) Requested =
     (if toolName \<notin> set (po_allowedToolNames policy)
      then begin_event inp (policy_denial policy toolName) (Then_throw (Plain_error
             (''Agent runtime policy denied tool call before execution: '' @ tool_text toolName @ ''.'')))
      else begin_event inp (Ev_tool_call_attempt, tool_metadata policy toolName) Then_call)"
| "call_segment env inp callbacks policy tools call (Recorded event rest) =
     return_step (case cb_onAuditEvent callbacks event of None \<Rightarrow> Notified rest | Some e \<Rightarrow> Answered (Inl e))"
| "call_segment env inp callbacks policy tools call (Notified (Then_throw e)) = return_step (Answered (Inl e))"
| "call_segment env inp callbacks policy tools call (Notified (Then_return v)) = return_step (Answered (Inr v))"
| "call_segment env inp callbacks policy tools (toolName, toolInput) (Notified Then_call) =
     (case measured_result env tools toolName toolInput of
        Inl e \<Rightarrow> return_step (Answered (Inl e))
      | Inr (sanitizedResult, resultBytes) \<Rightarrow>
          (let maxBytes = bu_maxToolResultBytes (pa_contextBudget (ra_preparedAttempt inp)) in
           if maxBytes < int resultBytes
           then begin_event inp (budget_denial policy toolName resultBytes maxBytes) (Then_throw (Plain_error
                  (''Agent runtime tool result exceeded sanitized result budget: '' @ tool_text toolName @ ''.'')))
           else begin_event inp (sanitized_note policy toolName resultBytes) (Then_return sanitizedResult)))"
| "call_segment env inp callbacks policy tools call (Answered r) = return_step (Answered r)"

text \<open>The calls a harness has started, and an order in which their segments run.\<close>

definition turn_segment ::
  "platform \<Rightarrow> 's RunAgentAttemptInput \<Rightarrow> AgentHarnessCallbacks \<Rightarrow> AgentRuntimePolicy \<Rightarrow> tool_surface
   \<Rightarrow> (AgentReadOnlyToolName \<times> json option) list \<Rightarrow> nat \<Rightarrow> call_phase list \<Rightarrow> ('s, call_phase list) step" where
  "turn_segment env inp callbacks policy tools calls i phases =
     (if i < length calls
      then bind_step (call_segment env inp callbacks policy tools (calls ! i) (phases ! i)) (\<lambda>p. return_step (phases[i := p]))
      else return_step phases)"

primrec run_segments ::
  "platform \<Rightarrow> 's RunAgentAttemptInput \<Rightarrow> AgentHarnessCallbacks \<Rightarrow> AgentRuntimePolicy \<Rightarrow> tool_surface
   \<Rightarrow> (AgentReadOnlyToolName \<times> json option) list \<Rightarrow> nat list \<Rightarrow> call_phase list \<Rightarrow> ('s, call_phase list) step" where
  "run_segments env inp callbacks policy tools calls [] phases = return_step phases"
| "run_segments env inp callbacks policy tools calls (i # order) phases =
     bind_step (turn_segment env inp callbacks policy tools calls i phases)
       (run_segments env inp callbacks policy tools calls order)"

definition run_calls ::
  "platform \<Rightarrow> 's RunAgentAttemptInput \<Rightarrow> AgentHarnessCallbacks \<Rightarrow> AgentRuntimePolicy \<Rightarrow> tool_surface
   \<Rightarrow> (AgentReadOnlyToolName \<times> json option) list \<Rightarrow> nat list \<Rightarrow> ('s, call_phase list) step" where
  "run_calls env inp callbacks policy tools calls order =
     run_segments env inp callbacks policy tools calls order (replicate (length calls) Requested)"

section \<open>A call on its own\<close>

lemma append_now_segments:
  "appendEventNow inp cbs eventType md st = (case record_event inp (eventType, md) st of
       (Inl e, st') \<Rightarrow> (Inl e, st')
     | (Inr event, st') \<Rightarrow> (case cb_onAuditEvent cbs event of None \<Rightarrow> (Inr (), st') | Some e \<Rightarrow> (Inl e, st')))"
  by (simp add: appendEventNow_def appendEvent_def record_event_def read_clock_def Let_def bind_step_def lift_step_def
      push_event_def store_step_def return_step_def call_back_def split: prod.splits sum.splits option.splits)

lemma segment_phase: "\<exists>p' st'. call_segment env inp cbs policy tools call p st = (Inr p', st')"
  by (cases "(env, inp, cbs, policy, tools, call, p)" rule: call_segment.cases)
    (auto simp: begin_event_def return_step_def Let_def split: prod.splits sum.splits)

text \<open>Five segments, with nothing in between, are \<open>guardedToolCall\<close>, whatever the store and the callbacks do.\<close>

definition five_segments ::
  "platform \<Rightarrow> 's RunAgentAttemptInput \<Rightarrow> AgentHarnessCallbacks \<Rightarrow> AgentRuntimePolicy \<Rightarrow> tool_surface
   \<Rightarrow> AgentReadOnlyToolName \<times> json option \<Rightarrow> ('s, call_phase) step" where
  "five_segments env inp cbs policy tools call =
     bind_step (call_segment env inp cbs policy tools call Requested) (\<lambda>p.
     bind_step (call_segment env inp cbs policy tools call p) (\<lambda>p.
     bind_step (call_segment env inp cbs policy tools call p) (\<lambda>p.
     bind_step (call_segment env inp cbs policy tools call p) (call_segment env inp cbs policy tools call))))"

lemma begin_bind:
  "bind_step (begin_event inp body rest) f st = (case record_event inp body st of
       (Inl e, st') \<Rightarrow> f (Answered (Inl e)) st' | (Inr event, st') \<Rightarrow> f (Recorded event rest) st')"
  by (simp add: bind_step_def begin_event_def split: prod.splits sum.splits)

lemma append_now_bind:
  "bind_step (appendEventNow inp cbs eventType md) f st = (case record_event inp (eventType, md) st of
       (Inl e, st') \<Rightarrow> (Inl e, st')
     | (Inr event, st') \<Rightarrow> (case cb_onAuditEvent cbs event of None \<Rightarrow> f () st' | Some e \<Rightarrow> (Inl e, st')))"
  by (simp add: bind_step_def append_now_segments split: prod.splits sum.splits option.splits)

lemma return_bind: "bind_step (return_step a) f st = f a st"
  by (simp add: bind_step_def return_step_def)

lemma lift_bind: "bind_step (lift_step r) f st = (case r of Inl e \<Rightarrow> (Inl e, st) | Inr a \<Rightarrow> f a st)"
  by (simp add: bind_step_def lift_step_def split: sum.splits)

lemmas segment_run = begin_bind append_now_bind return_bind lift_bind return_step_def [of "Answered r" for r]

lemma five_segments_guarded:
  "five_segments env inp cbs policy tools (tool, toolInput) st =
     (case guardedToolCall env inp cbs policy tools tool toolInput st of (r, st') \<Rightarrow> (Inr (Answered r), st'))"
proof -
  let ?seg = "call_segment env inp cbs policy tools (tool, toolInput)"
  obtain r st1 where denied: "record_event inp (policy_denial policy tool) st = (r, st1)" by force
  obtain r' st2 where attempt: "record_event inp (Ev_tool_call_attempt, tool_metadata policy tool) st = (r', st2)" by force
  show ?thesis
  proof (cases "tool \<in> set (po_allowedToolNames policy)")
    case False
    with denied show ?thesis
      by (cases r) (auto simp: five_segments_def guardedToolCall_def segment_run policy_denial_def lift_step_def split: option.splits)
  next
    case True
    show ?thesis
    proof (cases "measured_result env tools tool toolInput")
      case (Inl e)
      with True attempt show ?thesis
        by (cases r') (auto simp: five_segments_def guardedToolCall_def segment_run measured_result_def
            Let_def split: option.splits sum.splits)
    next
      case (Inr m)
      obtain v n where m: "m = (v, n)" by force
      with Inr obtain raw where raw: "callPreparedTool tools tool toolInput = Inr raw" "v = map_option sanitizeJsonValue raw"
        "resultByteLength env v = Inr n"
        by (auto simp: measured_result_def Let_def and_then_Inr_iff)
      with True Inr m attempt show ?thesis
        by (cases r') (auto simp: five_segments_def guardedToolCall_def segment_run sanitized_note_def
            budget_denial_def return_step_def Let_def split: option.splits sum.splits prod.splits)
    qed
  qed
qed

end
