(* ===== verification/ToolCallLemmas.thy ===== *)
theory ToolCallLemmas
  imports ToolCalls
begin

text \<open>
  What overlapping tool calls keep, whatever the order of their segments: the trail of the run, what may be
  answered, how many segments are left, and what every call still owes to the trail and to its caller.
\<close>

section \<open>Facts about every segment\<close>

text \<open>A fact about one call that its segments keep holds of all calls in every order.\<close>

lemma run_segments_keep:
  assumes step: "\<And>call p st p' st'. call_segment env inp cbs policy tools call p st = (Inr p', st') \<Longrightarrow> P call p \<Longrightarrow> P call p'"
    and "run_segments env inp cbs policy tools calls order phases st = (Inr phases', st')" "list_all2 P calls phases"
  shows "list_all2 P calls phases'"
  using assms(2,3)
proof (induction order arbitrary: phases st)
  case (Cons i order)
  then obtain phases1 st1 where 1: "turn_segment env inp cbs policy tools calls i phases st = (Inr phases1, st1)"
    and 2: "run_segments env inp cbs policy tools calls order phases1 st1 = (Inr phases', st')"
    by (auto simp: bind_step_Inr_iff)
  have "list_all2 P calls phases1"
  proof (cases "i < length calls")
    case True
    with 1 obtain p where p: "call_segment env inp cbs policy tools (calls ! i) (phases ! i) st = (Inr p, st1)"
      "phases1 = phases[i := p]" by (auto simp: turn_segment_def bind_step_Inr_iff)
    have "P (calls ! i) p" using step [OF p(1)] Cons.prems(2) True by (simp add: list_all2_conv_all_nth)
    with p(2) Cons.prems(2) True show ?thesis by (simp add: list_all2_conv_all_nth nth_list_update)
  qed (use 1 Cons.prems(2) in \<open>simp add: turn_segment_def\<close>)
  with Cons.IH 2 show ?case by blast
qed simp

lemma begin_phase: "begin_event inp body rest st = (Inr p, st') \<Longrightarrow> (\<exists>e. p = Answered (Inl e)) \<or> (\<exists>event. p = Recorded event rest)"
  by (auto simp: begin_event_def split: prod.splits sum.splits)

lemma turn_phases:
  "length phases = length calls \<Longrightarrow>
     \<exists>phases' st'. turn_segment env inp cbs policy tools calls i phases st = (Inr phases', st') \<and> length phases' = length calls"
  using segment_phase [of env inp cbs policy tools "calls ! i" "phases ! i" st]
  by (auto simp: turn_segment_def bind_step_def return_step_def)

lemma run_phases:
  "length phases = length calls \<Longrightarrow>
     \<exists>phases' st'. run_segments env inp cbs policy tools calls order phases st = (Inr phases', st') \<and> length phases' = length calls"
proof (induction order arbitrary: phases st)
  case (Cons i order)
  from turn_phases [OF Cons.prems] obtain phases1 st1 where
    "turn_segment env inp cbs policy tools calls i phases st = (Inr phases1, st1)" "length phases1 = length calls" by blast
  with Cons.IH [OF this(2), of st1] show ?case by (auto simp: bind_step_Inr_iff)
qed (simp add: return_step_def)

section \<open>Segments that are left\<close>

fun segments_left :: "call_phase \<Rightarrow> nat" where
  "segments_left Requested = 5"
| "segments_left (Recorded event Then_call) = 4"
| "segments_left (Notified Then_call) = 3"
| "segments_left (Recorded event rest) = 2"
| "segments_left (Notified rest) = 1"
| "segments_left (Answered r) = 0"

lemma segments_left_0 [simp]: "segments_left p = 0 \<longleftrightarrow> (\<exists>r. p = Answered r)"
  by (cases p rule: segments_left.cases) auto

lemma segment_left:
  assumes "call_segment env inp cbs policy tools call p st = (Inr p', st')"
  shows "segments_left p' \<le> segments_left p - 1"
proof (cases p)
  case (Recorded event rest)
  with assms show ?thesis by (cases rest) (auto split: option.splits)
next
  case Requested
  with assms show ?thesis by (cases call) (auto dest!: begin_phase split: if_splits)
next
  case (Notified rest)
  with assms show ?thesis by (cases rest; cases call) (auto dest!: begin_phase simp: Let_def split: if_splits sum.splits)
qed (use assms in auto)

lemma run_segments_left:
  assumes "run_segments env inp cbs policy tools calls order phases st = (Inr phases', st')"
    "length phases = length calls" "i < length calls"
  shows "segments_left (phases' ! i) \<le> segments_left (phases ! i) - count_list order i"
  using assms(1,2)
proof (induction order arbitrary: phases st)
  case (Cons k order)
  then obtain phases1 st1 where 1: "turn_segment env inp cbs policy tools calls k phases st = (Inr phases1, st1)"
    and 2: "run_segments env inp cbs policy tools calls order phases1 st1 = (Inr phases', st')"
    by (auto simp: bind_step_Inr_iff)
  have len: "length phases1 = length calls"
    using turn_phases [OF Cons.prems(2), of env inp cbs policy tools k st] 1 by auto
  have "segments_left (phases1 ! i) \<le> segments_left (phases ! i) - (if k = i then 1 else 0)"
    using 1 assms(3) Cons.prems(2)
    by (auto simp: turn_segment_def bind_step_Inr_iff nth_list_update dest!: segment_left split: if_splits)
  with Cons.IH [OF 2 len] show ?case by (auto split: if_splits)
qed simp

section \<open>The trail\<close>

lemma audited_same_state:
  assumes "audited runs stored a T m" "\<And>st r st'. m' st = (r, st') \<Longrightarrow> \<exists>r'. m st = (r', st')"
  shows "audited runs stored a T m'"
  using assms unfolding audited_def by blast

lemma record_event_append:
  "record_event inp (eventType, md) st = (r, st') \<Longrightarrow>
     \<exists>r'. bind_step (read_clock (ra_now inp)) (\<lambda>t. appendEvent inp None eventType t md) st = (r', st')"
  by (auto simp: record_event_def appendEvent_def Let_def bind_step_def return_step_def split: prod.splits sum.splits)

context reliable_audit_store
begin

lemma audited_begin:
  assumes "ra_auditStore inp = ops" "fst body \<in> T"
  shows "audited runs stored (ra_preparedAttempt inp) T (begin_event inp body rest)"
proof (rule audited_same_state)
  show "audited runs stored (ra_preparedAttempt inp) T
      (bind_step (read_clock (ra_now inp)) (\<lambda>t. appendEvent inp None (fst body) t (snd body)))"
    using assms by (intro audited_bind audited_clock audited_append)
  fix st r st' assume "begin_event inp body rest st = (r, st')"
  then obtain r1 where "record_event inp (fst body, snd body) st = (r1, st')"
    by (auto simp: begin_event_def split: prod.splits sum.splits)
  from record_event_append [OF this]
  show "\<exists>r'. bind_step (read_clock (ra_now inp)) (\<lambda>t. appendEvent inp None (fst body) t (snd body)) st = (r', st')" .
qed

lemma audited_segment:
  assumes "ra_auditStore inp = ops" "tool_event_types \<subseteq> T"
  shows "audited runs stored (ra_preparedAttempt inp) T (call_segment env inp cbs policy tools call p)"
  using assms
  by (cases "(env, inp, cbs, policy, tools, call, p)" rule: call_segment.cases)
    (auto simp: Let_def tool_event_types_def policy_denial_def budget_denial_def sanitized_note_def
      intro!: audited_begin split: sum.splits)

lemma audited_run_segments:
  assumes "ra_auditStore inp = ops" "tool_event_types \<subseteq> T"
  shows "audited runs stored (ra_preparedAttempt inp) T (run_segments env inp cbs policy tools calls order phases)"
  using assms
  by (induction order arbitrary: phases) (auto simp: turn_segment_def intro!: audited_bind audited_segment)

text \<open>With callbacks that do not throw, an event with finite numbers is recorded.\<close>

lemma begin_records:
  assumes "well_placed inp cbs" "ra_auditStore inp = ops" "json_numbers_finite (JObj (toJsonMetadata md))"
  shows "\<exists>event st'. begin_event inp (eventType, md) rest st = (Inr (Recorded event rest), st')
     \<and> ag_events st' = ag_events st @ [event] \<and> av_eventType event = eventType \<and> av_metadata event = toJsonMetadata md"
proof -
  let ?e = "run_event (ra_preparedAttempt inp) (length (ag_events st) + 1) eventType (ra_now inp (ag_ticks st)) md"
  have ok: "run_event_shape ?e" using assms by (intro event_ok) (auto simp: well_placed_def)
  obtain s where s: "as_appendEvent ops ?e (ag_store st) = (Inr (), s)" using takes_events [OF ok] by blast
  have "begin_event inp (eventType, md) rest st
      = (Inr (Recorded ?e rest), st\<lparr>ag_ticks := ag_ticks st + 1, ag_events := ag_events st @ [?e], ag_store := s\<rparr>)"
    using ok s assms(2)
    by (simp add: begin_event_def record_event_def read_clock_def bind_step_def lift_step_def parse_run_event_def parse_as_def
        push_event_def store_step_def return_step_def)
  then show ?thesis by (simp add: run_event_def)
qed

end

section \<open>What a call still owes\<close>

definition event_body :: "AgentRunEvent \<Rightarrow> AgentRunEventType \<times> json_object" where
  "event_body e = (av_eventType e, av_metadata e)"

definition body_of :: "AgentRunEventType \<times> (string \<times> json option) list \<Rightarrow> AgentRunEventType \<times> json_object" where
  "body_of = (\<lambda>(eventType, md). (eventType, toJsonMetadata md))"

definition owed_after_call ::
  "platform \<Rightarrow> 's RunAgentAttemptInput \<Rightarrow> AgentRuntimePolicy \<Rightarrow> tool_surface \<Rightarrow> AgentReadOnlyToolName \<times> json option
   \<Rightarrow> (AgentRunEventType \<times> json_object) list \<times> (agent_error + json option)" where
  "owed_after_call env inp policy tools = (\<lambda>(toolName, toolInput).
     case measured_result env tools toolName toolInput of
       Inl e \<Rightarrow> ([], Inl e)
     | Inr (v, n) \<Rightarrow>
         (let maxBytes = bu_maxToolResultBytes (pa_contextBudget (ra_preparedAttempt inp)) in
          if maxBytes < int n
          then ([body_of (budget_denial policy toolName n maxBytes)], Inl (Plain_error
                 (''Agent runtime tool result exceeded sanitized result budget: '' @ tool_text toolName @ ''.'')))
          else ([body_of (sanitized_note policy toolName n)], Inr v)))"

fun owed_rest ::
  "platform \<Rightarrow> 's RunAgentAttemptInput \<Rightarrow> AgentRuntimePolicy \<Rightarrow> tool_surface \<Rightarrow> AgentReadOnlyToolName \<times> json option
   \<Rightarrow> call_rest \<Rightarrow> (AgentRunEventType \<times> json_object) list \<times> (agent_error + json option)" where
  "owed_rest env inp policy tools call (Then_throw e) = ([], Inl e)"
| "owed_rest env inp policy tools call (Then_return v) = ([], Inr v)"
| "owed_rest env inp policy tools call Then_call = owed_after_call env inp policy tools call"

fun owed ::
  "platform \<Rightarrow> 's RunAgentAttemptInput \<Rightarrow> AgentRuntimePolicy \<Rightarrow> tool_surface \<Rightarrow> AgentReadOnlyToolName \<times> json option
   \<Rightarrow> call_phase \<Rightarrow> (AgentRunEventType \<times> json_object) list \<times> (agent_error + json option)" where
  "owed env inp policy tools (toolName, toolInput) Requested =
     (if toolName \<notin> set (po_allowedToolNames policy)
      then ([body_of (policy_denial policy toolName)], Inl (Plain_error
             (''Agent runtime policy denied tool call before execution: '' @ tool_text toolName @ ''.'')))
      else apfst (Cons (body_of (Ev_tool_call_attempt, tool_metadata policy toolName)))
             (owed_after_call env inp policy tools (toolName, toolInput)))"
| "owed env inp policy tools call (Recorded event rest) = owed_rest env inp policy tools call rest"
| "owed env inp policy tools call (Notified rest) = owed_rest env inp policy tools call rest"
| "owed env inp policy tools call (Answered r) = ([], r)"

lemma finite_bodies:
  "json_numbers_finite (JObj (toJsonMetadata (snd (policy_denial policy tool))))"
  "json_numbers_finite (JObj (toJsonMetadata (snd (budget_denial policy tool n m))))"
  "json_numbers_finite (JObj (toJsonMetadata (snd (sanitized_note policy tool n))))"
  "json_numbers_finite (JObj (toJsonMetadata (tool_metadata policy tool)))"
  by (simp_all add: finite_metadata policy_denial_def budget_denial_def sanitized_note_def tool_metadata_def nat_json_def)

context reliable_audit_store
begin

lemma begin_owed:
  assumes "well_placed inp cbs" "ra_auditStore inp = ops" "json_numbers_finite (JObj (toJsonMetadata (snd body)))"
    and "begin_event inp body rest st = (Inr p, st')"
  shows "\<exists>new. ag_events st' = ag_events st @ new
     \<and> map event_body new @ fst (owed env inp policy tools call p) = body_of body # fst (owed_rest env inp policy tools call rest)
     \<and> snd (owed env inp policy tools call p) = snd (owed_rest env inp policy tools call rest)"
  using begin_records [OF assms(1-3), of "fst body" rest st] assms(4)
  by (auto simp: event_body_def body_of_def split_beta)

lemma segment_owed:
  assumes wp: "well_placed inp cbs" and ops: "ra_auditStore inp = ops"
    and step: "call_segment env inp cbs policy tools call p st = (Inr p', st')"
  shows "\<exists>new. ag_events st' = ag_events st @ new
     \<and> map event_body new @ fst (owed env inp policy tools call p') = fst (owed env inp policy tools call p)
     \<and> snd (owed env inp policy tools call p') = snd (owed env inp policy tools call p)"
proof (cases p)
  case Requested
  obtain tool toolInput where call: "call = (tool, toolInput)" by force
  have attempt: "json_numbers_finite (JObj (toJsonMetadata (snd (Ev_tool_call_attempt, tool_metadata policy tool))))"
    using finite_bodies(4) by simp
  from Requested step call show ?thesis
    using begin_owed [OF wp ops finite_bodies(1), of policy tool _ st p' st' env policy tools call]
      begin_owed [OF wp ops attempt, of Then_call st p' st' env policy tools call]
    by (fastforce split: if_splits)
next
  case (Recorded event rest)
  have "cb_onAuditEvent cbs event = None" using wp by (simp add: well_placed_def silent_def)
  with Recorded step show ?thesis by simp
next
  case (Notified rest)
  show ?thesis
  proof (cases rest)
    case Then_call
    obtain tool toolInput where call: "call = (tool, toolInput)" by force
    show ?thesis
    proof (cases "measured_result env tools tool toolInput")
      case (Inl e)
      with step Notified Then_call call show ?thesis by (simp add: owed_after_call_def)
    next
      case (Inr m)
      obtain v n where "m = (v, n)" by force
      with Inr step Notified Then_call call show ?thesis
        using begin_owed [OF wp ops finite_bodies(2), of policy tool n _ _ st p' st' env policy tools call]
          begin_owed [OF wp ops finite_bodies(3), of policy tool n _ st p' st' env policy tools call]
        by (fastforce simp: owed_after_call_def Let_def split: if_splits)
    qed
  qed (use Notified step in simp_all)
qed (use step in simp)

text \<open>What the events hold and the calls still owe is the same after every segment.\<close>

lemma run_segments_owed:
  assumes wp: "well_placed inp cbs" and ops: "ra_auditStore inp = ops"
    and "run_segments env inp cbs policy tools calls order phases st = (Inr phases', st')" "length phases = length calls"
  shows "\<exists>new. ag_events st' = ag_events st @ new
     \<and> mset (map event_body new) + (\<Sum>i<length calls. mset (fst (owed env inp policy tools (calls ! i) (phases' ! i))))
       = (\<Sum>i<length calls. mset (fst (owed env inp policy tools (calls ! i) (phases ! i))))
     \<and> (\<forall>i<length calls. snd (owed env inp policy tools (calls ! i) (phases' ! i))
          = snd (owed env inp policy tools (calls ! i) (phases ! i)))"
  using assms(3,4)
proof (induction order arbitrary: phases st)
  case (Cons k order)
  let ?owed = "\<lambda>i p. owed env inp policy tools (calls ! i) p"
  from Cons.prems obtain phases1 st1 where 1: "turn_segment env inp cbs policy tools calls k phases st = (Inr phases1, st1)"
    and 2: "run_segments env inp cbs policy tools calls order phases1 st1 = (Inr phases', st')"
    by (auto simp: bind_step_Inr_iff)
  have len: "length phases1 = length calls"
    using turn_phases [OF Cons.prems(2), of env inp cbs policy tools k st] 1 by auto
  have "\<exists>new. ag_events st1 = ag_events st @ new
     \<and> mset (map event_body new) + (\<Sum>i<length calls. mset (fst (?owed i (phases1 ! i))))
       = (\<Sum>i<length calls. mset (fst (?owed i (phases ! i))))
     \<and> (\<forall>i<length calls. snd (?owed i (phases1 ! i)) = snd (?owed i (phases ! i)))"
  proof (cases "k < length calls")
    case True
    with 1 obtain p where p: "call_segment env inp cbs policy tools (calls ! k) (phases ! k) st = (Inr p, st1)"
      and phases1: "phases1 = phases[k := p]" by (auto simp: turn_segment_def bind_step_Inr_iff)
    from segment_owed [OF wp ops p] obtain new where new: "ag_events st1 = ag_events st @ new"
      "map event_body new @ fst (?owed k p) = fst (?owed k (phases ! k))" "snd (?owed k p) = snd (?owed k (phases ! k))" by blast
    have "mset (map event_body new) + mset (fst (?owed k p)) = mset (fst (?owed k (phases ! k)))"
      by (metis new(2) mset_append)
    moreover have "(\<Sum>i\<in>{..<length calls} - {k}. mset (fst (?owed i (phases1 ! i))))
        = (\<Sum>i\<in>{..<length calls} - {k}. mset (fst (?owed i (phases ! i))))"
      by (rule sum.cong) (auto simp: phases1)
    ultimately have "mset (map event_body new) + (\<Sum>i<length calls. mset (fst (?owed i (phases1 ! i))))
       = (\<Sum>i<length calls. mset (fst (?owed i (phases ! i))))"
      using True Cons.prems(2)
      by (simp add: sum.remove [of "{..<length calls}" k] phases1 add.assoc [symmetric])
    moreover have "\<forall>i<length calls. snd (?owed i (phases1 ! i)) = snd (?owed i (phases ! i))"
      using new(3) True Cons.prems(2) by (auto simp: phases1 nth_list_update)
    ultimately show ?thesis using new(1) by blast
  qed (use 1 in \<open>simp add: turn_segment_def\<close>)
  then obtain new where new: "ag_events st1 = ag_events st @ new"
    "mset (map event_body new) + (\<Sum>i<length calls. mset (fst (?owed i (phases1 ! i))))
       = (\<Sum>i<length calls. mset (fst (?owed i (phases ! i))))"
    "\<forall>i<length calls. snd (?owed i (phases1 ! i)) = snd (?owed i (phases ! i))" by blast
  from Cons.IH [OF 2 len] obtain more where "ag_events st' = ag_events st1 @ more"
    "mset (map event_body more) + (\<Sum>i<length calls. mset (fst (?owed i (phases' ! i))))
       = (\<Sum>i<length calls. mset (fst (?owed i (phases1 ! i))))"
    "\<forall>i<length calls. snd (?owed i (phases' ! i)) = snd (?owed i (phases1 ! i))" by blast
  with new show ?case
    by (intro exI [of _ "new @ more"]) (auto simp: add.assoc)
qed simp

lemma guarded_owed:
  assumes wp: "well_placed inp cbs" and ops: "ra_auditStore inp = ops"
    and run: "guardedToolCall env inp cbs policy tools (fst call) (snd call) st = (r, st')"
  shows "\<exists>new. ag_events st' = ag_events st @ new
     \<and> map event_body new = fst (owed env inp policy tools call Requested) \<and> r = snd (owed env inp policy tools call Requested)"
proof -
  let ?seg = "call_segment env inp cbs policy tools call" and ?owed = "owed env inp policy tools call"
  have "five_segments env inp cbs policy tools call st = (Inr (Answered r), st')"
    using five_segments_guarded [of env inp cbs policy tools "fst call" "snd call" st] run by simp
  then obtain p1 s1 p2 s2 p3 s3 p4 s4 where
    steps: "?seg Requested st = (Inr p1, s1)" "?seg p1 s1 = (Inr p2, s2)" "?seg p2 s2 = (Inr p3, s3)" "?seg p3 s3 = (Inr p4, s4)"
      "?seg p4 s4 = (Inr (Answered r), st')"
    by (auto simp: five_segments_def bind_step_Inr_iff)
  note owes = segment_owed [OF wp ops]
  from owes [OF steps(1)] obtain n1 where 1: "ag_events s1 = ag_events st @ n1"
    "map event_body n1 @ fst (?owed p1) = fst (?owed Requested)" "snd (?owed p1) = snd (?owed Requested)" by blast
  from owes [OF steps(2)] obtain n2 where 2: "ag_events s2 = ag_events s1 @ n2"
    "map event_body n2 @ fst (?owed p2) = fst (?owed p1)" "snd (?owed p2) = snd (?owed p1)" by blast
  from owes [OF steps(3)] obtain n3 where 3: "ag_events s3 = ag_events s2 @ n3"
    "map event_body n3 @ fst (?owed p3) = fst (?owed p2)" "snd (?owed p3) = snd (?owed p2)" by blast
  from owes [OF steps(4)] obtain n4 where 4: "ag_events s4 = ag_events s3 @ n4"
    "map event_body n4 @ fst (?owed p4) = fst (?owed p3)" "snd (?owed p4) = snd (?owed p3)" by blast
  from owes [OF steps(5)] obtain n5 where 5: "ag_events st' = ag_events s4 @ n5"
    "map event_body n5 @ [] = fst (?owed p4)" "r = snd (?owed p4)" by auto
  show ?thesis
    by (rule exI [of _ "n1 @ n2 @ n3 @ n4 @ n5"])
      (simp add: 1(1) 2(1) 3(1) 4(1) 5(1,3) 1(2,3) [symmetric] 2(2,3) [symmetric] 3(2,3) [symmetric] 4(2,3) [symmetric]
        5(2) [symmetric])
qed

end

end
