(* ===== verification/OverlapProperties.thy ===== *)
theory OverlapProperties
  imports SidecarProperties ToolCallLemmas
begin

text \<open>
  The properties of tool calls that overlap in one turn: what they leave in the trail and may answer in every
  order of their segments, and that, with callbacks that do not throw, no call can tell it was not alone.
\<close>

section \<open>What overlapping calls may do\<close>

definition bounded_answer :: "platform \<Rightarrow> 's RunAgentAttemptInput \<Rightarrow> json option \<Rightarrow> bool" where
  "bounded_answer env inp answer \<longleftrightarrow> (\<exists>v. answer = Some v
     \<and> int (utf8_bytes (json_text (env_numberText env) v)) \<le> bu_maxToolResultBytes (pa_contextBudget (ra_preparedAttempt inp))
     \<and> (\<forall>s \<in> set (json_strings v). \<not> re_test api_key_at s))"

text \<open>A call past its first segment is allowed, or only throws.\<close>

fun rest_admitted :: "platform \<Rightarrow> 's RunAgentAttemptInput \<Rightarrow> AgentRuntimePolicy \<Rightarrow> AgentReadOnlyToolName \<times> json option
   \<Rightarrow> call_rest \<Rightarrow> bool" where
  "rest_admitted env inp policy call (Then_throw e) \<longleftrightarrow> True"
| "rest_admitted env inp policy call Then_call \<longleftrightarrow> fst call \<in> set (po_allowedToolNames policy)"
| "rest_admitted env inp policy call (Then_return v) \<longleftrightarrow>
     fst call \<in> set (po_allowedToolNames policy) \<and> bounded_answer env inp v"

fun admitted :: "platform \<Rightarrow> 's RunAgentAttemptInput \<Rightarrow> AgentRuntimePolicy \<Rightarrow> AgentReadOnlyToolName \<times> json option
   \<Rightarrow> call_phase \<Rightarrow> bool" where
  "admitted env inp policy call Requested \<longleftrightarrow> True"
| "admitted env inp policy call (Recorded event rest) \<longleftrightarrow> rest_admitted env inp policy call rest"
| "admitted env inp policy call (Notified rest) \<longleftrightarrow> rest_admitted env inp policy call rest"
| "admitted env inp policy call (Answered a) \<longleftrightarrow>
     (case a of Inl e \<Rightarrow> True | Inr v \<Rightarrow> rest_admitted env inp policy call (Then_return v))"

lemma measured_bounded:
  assumes "measured_result env tools tool toolInput = Inr (v, n)"
    "\<not> bu_maxToolResultBytes (pa_contextBudget (ra_preparedAttempt inp)) < int n"
  shows "bounded_answer env inp v"
  using assms
  by (auto simp: measured_result_def and_then_Inr_iff Let_def resultByteLength_def bounded_answer_def
      dest: sanitized_no_api_key split: option.splits)

lemma segment_admitted:
  assumes step: "call_segment env inp cbs policy tools call p st = (Inr p', st')" and p: "admitted env inp policy call p"
  shows "admitted env inp policy call p'"
proof (cases p)
  case Requested
  with step show ?thesis by (cases call) (auto dest!: begin_phase split: if_splits)
next
  case (Recorded event rest)
  with step p show ?thesis by (auto split: option.splits)
next
  case (Notified rest)
  with step p show ?thesis
    by (cases rest; cases call; auto dest!: begin_phase simp: Let_def split: if_splits sum.splits)
      (rule measured_bounded)
qed (use step p in auto)

text \<open>C23. Tool calls that overlap in one turn, in whatever order their segments run and whatever the callbacks do: the
events they append are numbered on without a gap, are tool events, and are the same in the array and in the
store, whose runs stay as they are; a call that answers is allowed by the policy, and what it answers fits the
attempt's budget and holds no API key in any of its texts; and every call that gets five segments has ended.\<close>

theorem overlapping_calls_sound:
  assumes run: "run_calls env inp cbs policy tools calls order st = (r, st')" and ops: "ra_auditStore inp = mem_audit_ops"
  shows "\<exists>phases new. r = Inr phases \<and> length phases = length calls
    \<and> ag_events st' = ag_events st @ new \<and> mu_events (ag_store st') = mu_events (ag_store st) @ new
    \<and> map_get (mu_runs (ag_store st')) = map_get (mu_runs (ag_store st))
    \<and> map av_agentRunEventId new
        = map (\<lambda>i. ''agent_run_event:'' @ pa_agentRunId (ra_preparedAttempt inp) @ '':'' @ nat_text i)
            [length (ag_events st) + 1..<length (ag_events st) + 1 + length new]
    \<and> av_eventType ` set new \<subseteq> tool_event_types
    \<and> (\<forall>i < length calls. \<forall>answer. phases ! i = Answered (Inr answer) \<longrightarrow>
         fst (calls ! i) \<in> set (po_allowedToolNames policy) \<and> bounded_answer env inp answer)
    \<and> (\<forall>i < length calls. 5 \<le> count_list order i \<longrightarrow> (\<exists>a. phases ! i = Answered a))"
proof -
  let ?start = "replicate (length calls) Requested"
  obtain phases where r: "r = Inr phases" "length phases = length calls"
    using run_phases [of ?start calls env inp cbs policy tools order st] run by (auto simp: run_calls_def)
  with run have segments: "run_segments env inp cbs policy tools calls order ?start st = (Inr phases, st')"
    by (simp add: run_calls_def)
  obtain new where new: "ag_events st' = ag_events st @ new" "mu_events (ag_store st') = mu_events (ag_store st) @ new"
    "trail (ra_preparedAttempt inp) (length (ag_events st)) new" "av_eventType ` set new \<subseteq> tool_event_types"
    "map_get (mu_runs (ag_store st')) = map_get (mu_runs (ag_store st))"
    by (rule auditedE [OF mem_audit.audited_run_segments [OF ops order_refl] segments])
  have "list_all2 (admitted env inp policy) calls phases"
    by (rule run_segments_keep [OF segment_admitted segments]) (auto simp: list_all2_conv_all_nth)
  then have "\<forall>i < length calls. \<forall>answer. phases ! i = Answered (Inr answer) \<longrightarrow>
      fst (calls ! i) \<in> set (po_allowedToolNames policy) \<and> bounded_answer env inp answer"
    by (force dest: list_all2_nthD)
  moreover have "\<forall>i < length calls. 5 \<le> count_list order i \<longrightarrow> (\<exists>a. phases ! i = Answered a)"
    using run_segments_left [OF segments] by (metis diff_is_0_eq le_zero_eq length_replicate nth_replicate
        segments_left.simps(1) segments_left_0)
  ultimately show ?thesis using r new(1,2,4,5) trail_ids [OF new(3)] by blast
qed

text \<open>Two calls, one not allowed, that take turns.\<close>

definition two_calls :: "(AgentReadOnlyToolName \<times> json option) list" where
  "two_calls = [(Tool_dead_letter_diagnosis, None), (Tool_evidence_records, job_input)]"

definition turns :: "nat list" where
  "turns = [0, 1, 1, 0, 0, 1, 1, 0, 0, 1]"

definition run_two :: "(mem_audit, call_phase list) step" where
  "run_two = run_calls sample_platform (sample_run sample_harness) silent_callbacks sample_policy tiny_surface two_calls turns"

theorem overlapping_calls_sound_witness:
  "\<exists>phases st'. run_two \<lparr>ag_events = [], ag_store = empty_audit, ag_ticks = 0\<rparr> = (Inr phases, st')
    \<and> mu_events (ag_store st') = ag_events st' \<and> (\<exists>a b. phases = [Answered a, Answered (Inl b)])"
proof -
  let ?start = "\<lparr>ag_events = [], ag_store = empty_audit, ag_ticks = 0\<rparr>"
  obtain r st' where run: "run_two ?start = (r, st')" by force
  from overlapping_calls_sound [OF run [unfolded run_two_def] sample_run_simps(1)] obtain phases new where
    phases: "r = Inr phases" "length phases = length two_calls"
    "ag_events st' = [] @ new" "mu_events (ag_store st') = mu_events empty_audit @ new"
    "\<forall>i < length two_calls. \<forall>answer. phases ! i = Answered (Inr answer) \<longrightarrow> fst (two_calls ! i) \<in> set (po_allowedToolNames sample_policy)
       \<and> bounded_answer sample_platform (sample_run sample_harness) answer"
    "\<forall>i < length two_calls. 5 \<le> count_list turns i \<longrightarrow> (\<exists>a. phases ! i = Answered a)"
    unfolding agent_state.select_convs by blast
  have "\<exists>a. phases ! 0 = Answered a" "\<exists>a. phases ! 1 = Answered a"
    using phases(6) by (simp_all add: turns_def two_calls_def)
  moreover have "phases ! 1 \<noteq> Answered (Inr answer)" for answer
    using phases(5) [rule_format, of 1 answer] by (auto simp: two_calls_def sample_policy_def)
  ultimately obtain a b where "phases ! 0 = Answered a" "phases ! 1 = Answered (Inl b)"
    by (metis old.sum.exhaust)
  with phases(2) have "phases = [Answered a, Answered (Inl b)]"
    by (auto simp: two_calls_def length_Suc_conv)
  with run phases(1,3,4) show ?thesis by (auto simp: empty_audit_def)
qed

section \<open>Overlapping calls are calls on their own\<close>

text \<open>The events \<open>guardedToolCall\<close> appends from a state, without their numbers and times.\<close>

definition alone_events ::
  "platform \<Rightarrow> mem_audit RunAgentAttemptInput \<Rightarrow> AgentHarnessCallbacks \<Rightarrow> AgentRuntimePolicy \<Rightarrow> tool_surface
   \<Rightarrow> mem_audit agent_state \<Rightarrow> AgentReadOnlyToolName \<times> json option \<Rightarrow> (AgentRunEventType \<times> json_object) list" where
  "alone_events env inp cbs policy tools st call =
     map event_body (drop (length (ag_events st))
       (ag_events (snd (guardedToolCall env inp cbs policy tools (fst call) (snd call) st))))"

definition alone_answer ::
  "platform \<Rightarrow> mem_audit RunAgentAttemptInput \<Rightarrow> AgentHarnessCallbacks \<Rightarrow> AgentRuntimePolicy \<Rightarrow> tool_surface
   \<Rightarrow> mem_audit agent_state \<Rightarrow> AgentReadOnlyToolName \<times> json option \<Rightarrow> agent_error + json option" where
  "alone_answer env inp cbs policy tools st call =
     fst (guardedToolCall env inp cbs policy tools (fst call) (snd call) st)"

lemma alone_owed:
  assumes "well_placed inp cbs" "ra_auditStore inp = mem_audit_ops"
  shows "alone_events env inp cbs policy tools st call = fst (owed env inp policy tools call Requested)"
    "alone_answer env inp cbs policy tools st call = snd (owed env inp policy tools call Requested)"
  using mem_audit.guarded_owed [OF assms, of env policy tools call st]
  by (auto simp: alone_events_def alone_answer_def prod_eq_iff)

text \<open>C34. With callbacks that do not throw and a clock that tells the time, overlapping tool calls that all get their five
segments answer, in whatever order these run, what each would have answered alone from the start, and together
append the events each would have appended alone.\<close>

theorem overlapping_calls_as_alone:
  assumes run: "run_calls env inp cbs policy tools calls order st = (Inr phases, st')" and ops: "ra_auditStore inp = mem_audit_ops"
    and placed: "well_placed inp cbs" and ends: "\<forall>i < length calls. 5 \<le> count_list order i"
  shows "phases = map (\<lambda>call. Answered (alone_answer env inp cbs policy tools st call)) calls
    \<and> (\<exists>new. ag_events st' = ag_events st @ new
        \<and> mset (map event_body new) = (\<Sum>call \<leftarrow> calls. mset (alone_events env inp cbs policy tools st call)))"
proof -
  let ?start = "replicate (length calls) Requested" and ?owed = "owed env inp policy tools"
  from run have segments: "run_segments env inp cbs policy tools calls order ?start st = (Inr phases, st')"
    by (simp add: run_calls_def)
  have len: "length phases = length calls"
    using run_phases [of ?start calls env inp cbs policy tools order st] segments by auto
  have answered: "\<exists>a. phases ! i = Answered a" if "i < length calls" for i
    using run_segments_left [OF segments _ that] ends that
    by (metis diff_is_0_eq le_zero_eq length_replicate nth_replicate segments_left.simps(1) segments_left_0)
  from mem_audit.run_segments_owed [OF placed ops segments] obtain new where
    new: "ag_events st' = ag_events st @ new"
    "mset (map event_body new) + (\<Sum>i<length calls. mset (fst (?owed (calls ! i) (phases ! i))))
       = (\<Sum>i<length calls. mset (fst (?owed (calls ! i) Requested)))"
    "\<forall>i<length calls. snd (?owed (calls ! i) (phases ! i)) = snd (?owed (calls ! i) Requested)" by auto
  have "(\<Sum>i<length calls. mset (fst (?owed (calls ! i) (phases ! i)))) = {#}"
    by (rule sum.neutral) (use answered in fastforce)
  with new(2) have "mset (map event_body new) = (\<Sum>call \<leftarrow> calls. mset (alone_events env inp cbs policy tools st call))"
    by (simp add: sum_list_sum_nth atLeast0LessThan alone_owed [OF placed ops])
  moreover have "phases = map (\<lambda>call. Answered (alone_answer env inp cbs policy tools st call)) calls"
  proof (rule nth_equalityI)
    fix i assume "i < length phases"
    with len have i: "i < length calls" by simp
    from answered [OF this] obtain a where "phases ! i = Answered a" by blast
    with new(3) i show "phases ! i = map (\<lambda>call. Answered (alone_answer env inp cbs policy tools st call)) calls ! i"
      by (auto simp: alone_owed [OF placed ops])
  qed (simp add: len)
  ultimately show ?thesis using new(1) by blast
qed

theorem overlapping_calls_as_alone_witness:
  "\<exists>phases st'. run_two \<lparr>ag_events = [], ag_store = empty_audit, ag_ticks = 0\<rparr> = (Inr phases, st')
    \<and> phases = map (\<lambda>call. Answered (alone_answer sample_platform (sample_run sample_harness) silent_callbacks sample_policy
        tiny_surface \<lparr>ag_events = [], ag_store = empty_audit, ag_ticks = 0\<rparr> call)) two_calls"
proof -
  let ?start = "\<lparr>ag_events = [], ag_store = empty_audit, ag_ticks = 0\<rparr>"
  obtain phases st' where run: "run_two ?start = (Inr phases, st')"
    using run_phases [of "replicate (length two_calls) Requested" two_calls sample_platform "sample_run sample_harness"
        silent_callbacks sample_policy tiny_surface turns ?start]
    by (auto simp: run_two_def run_calls_def)
  have "\<forall>i < length two_calls. 5 \<le> count_list turns i"
    by (auto simp: two_calls_def turns_def less_Suc_eq)
  from overlapping_calls_as_alone [OF run [unfolded run_two_def] sample_run_simps(1) sample_well_placed this] run
  show ?thesis by blast
qed

end
