(* ===== verification/TestDatabase.thy ===== *)
theory TestDatabase
  imports JsText
begin

text \<open>
  Where the local test database is: \<open>src/src/app/config/postgres-test-config.ts\<close> and the same address in
  \<open>src/scripts/run-migrations.mjs\<close> and \<open>src/scripts/check-db-migrations.mjs\<close>, with the guard that lets the
  check wipe a schema. \<open>new URL\<close> is a parameter; \<open>encodeURIComponent\<close> and \<open>decodeURIComponent\<close> are
  written out for code units below 256, and decode what they encode.
\<close>

section \<open>Percent encoding\<close>

definition uri_unreserved :: "char \<Rightarrow> bool" where
  "uri_unreserved c \<longleftrightarrow> (let n = of_char c :: nat in
     (48 \<le> n \<and> n \<le> 57) \<or> (65 \<le> n \<and> n \<le> 90) \<or> (97 \<le> n \<and> n \<le> 122)) \<or> c \<in> set ''-_.!~*()'' \<or> c = CHR 0x27"

definition hex_digit :: "nat \<Rightarrow> char" where
  "hex_digit n = (if n < 10 then char_of (48 + n) else char_of (55 + n))"

definition percent_byte :: "nat \<Rightarrow> string" where
  "percent_byte n = [CHR ''%'', hex_digit (n div 16), hex_digit (n mod 16)]"

text \<open>The UTF-8 bytes of a code unit below 256.\<close>

definition utf8_of :: "char \<Rightarrow> nat list" where
  "utf8_of c = (let n = of_char c in if n < 128 then [n] else [192 + n div 64, 128 + n mod 64])"

definition encode_char :: "char \<Rightarrow> string" where
  "encode_char c = (if uri_unreserved c then [c] else concat (map percent_byte (utf8_of c)))"

definition encodeURIComponent :: "string \<Rightarrow> string" where
  "encodeURIComponent s = concat (map encode_char s)"

definition hex_value :: "char \<Rightarrow> nat option" where
  "hex_value c = (let n = of_char c in
     if 48 \<le> n \<and> n \<le> 57 then Some (n - 48)
     else if 65 \<le> n \<and> n \<le> 70 then Some (n - 55)
     else if 97 \<le> n \<and> n \<le> 102 then Some (n - 87) else None)"

fun percent_at :: "string \<Rightarrow> nat option" where
  "percent_at (p # a # b # s) =
     (if p = CHR ''%'' then Option.bind (hex_value a) (\<lambda>x. Option.bind (hex_value b) (\<lambda>y. Some (16 * x + y))) else None)"
| "percent_at s = None"

text \<open>\<open>None\<close>: a \<open>URIError\<close>, or a character that is no code unit below 256.\<close>

function decodeURIComponent :: "string \<Rightarrow> string option" where
  "decodeURIComponent [] = Some []"
| "decodeURIComponent (c # s) =
     (if c \<noteq> CHR ''%'' then map_option (Cons c) (decodeURIComponent s)
      else (case percent_at (c # s) of
              None \<Rightarrow> None
            | Some n \<Rightarrow>
                if n < 128 then map_option (Cons (char_of n)) (decodeURIComponent (drop 2 s))
                else if n = 194 \<or> n = 195 then
                  (case percent_at (drop 2 s) of
                     None \<Rightarrow> None
                   | Some m \<Rightarrow>
                       if 128 \<le> m \<and> m < 192
                       then map_option (Cons (char_of ((n - 192) * 64 + (m - 128)))) (decodeURIComponent (drop 5 s))
                       else None)
                else None))"
  by pat_completeness auto
termination by (relation "measure length") auto

lemma hex_value_digit [simp]: "n < 16 \<Longrightarrow> hex_value (hex_digit n) = Some n"
  by (auto simp: hex_value_def hex_digit_def)

lemma percent_at_byte [simp]: "n < 256 \<Longrightarrow> percent_at (percent_byte n @ s) = Some n"
  by (simp add: percent_byte_def)

lemma percent_byte_parts:
  "hd (percent_byte n) = CHR ''%''" "percent_byte n = CHR ''%'' # tl (percent_byte n)" "length (percent_byte n) = 3"
  by (simp_all add: percent_byte_def)

lemma decode_encode_char: "decodeURIComponent (encode_char c @ s) = map_option (Cons c) (decodeURIComponent s)"
proof (cases "uri_unreserved c")
  case True
  then have "c \<noteq> CHR ''%''" by (auto simp: uri_unreserved_def)
  with True show ?thesis by (simp add: encode_char_def)
next
  case False
  let ?n = "of_char c :: nat"
  have n: "?n < 256" by simp
  show ?thesis
  proof (cases "?n < 128")
    case True
    have "decodeURIComponent (percent_byte ?n @ s) = map_option (Cons (char_of ?n)) (decodeURIComponent s)"
      using percent_at_byte [OF n, of s] True
      by (simp add: percent_byte_def del: percent_at.simps)
    with False True show ?thesis by (simp add: encode_char_def utf8_of_def)
  next
    case high: False
    let ?a = "192 + ?n div 64" and ?b = "128 + ?n mod 64"
    have d: "?n div 64 < 4" by (rule less_mult_imp_div_less) simp
    have "?a < 256" "?b < 256" using d by simp_all
    note at = percent_at_byte [OF this(1), of "percent_byte ?b @ s"] percent_at_byte [OF this(2), of s]
    have "?n div 64 = 2 \<or> ?n div 64 = 3" using high d by (cases "?n div 64 < 2") auto
    moreover have "(?n div 64) * 64 + ?n mod 64 = ?n" by simp
    ultimately have "decodeURIComponent (percent_byte ?a @ percent_byte ?b @ s) = map_option (Cons (char_of ?n)) (decodeURIComponent s)"
      using at by (auto simp: percent_byte_def simp del: percent_at.simps)
    with False high show ?thesis by (simp add: encode_char_def utf8_of_def Let_def)
  qed
qed

lemma decode_encode [simp]: "decodeURIComponent (encodeURIComponent s) = Some s"
  by (induction s) (simp_all add: encodeURIComponent_def decode_encode_char)

section \<open>The address\<close>

record url =
  ur_protocol :: string
  ur_username :: string
  ur_hostname :: string
  ur_port :: string
  ur_pathname :: string

text \<open>\<open>new URL\<close>, and the text \<open>z.string().url()\<close> lets pass.\<close>

record url_reader =
  ur_new :: "string \<Rightarrow> url option"
  ur_zod :: "string \<Rightarrow> string option"

record test_env =
  te_databaseUrl :: "string option"
  te_dbName :: "string option"
  te_dbUser :: "string option"
  te_dbPassword :: "string option"
  te_dbHost :: "string option"
  te_dbPort :: "string option"
  te_resetAllowed :: "string option"

datatype test_db_error =
  Invalid_test_config
| Invalid_url
| Malformed_uri
| Not_the_test_database
| Not_a_local_host
| Refusing_to_reset

definition database_address :: "string \<Rightarrow> string \<Rightarrow> string \<Rightarrow> string \<Rightarrow> string \<Rightarrow> string" where
  "database_address username password host port database =
     ''postgresql://'' @ username @ '':'' @ password @ ''@'' @ host @ '':'' @ port @ ''/'' @ database"

definition buildDatabaseUrl :: "string \<Rightarrow> string \<Rightarrow> string \<Rightarrow> string \<Rightarrow> string \<Rightarrow> string" where
  "buildDatabaseUrl dbName dbUser dbPassword dbHost dbPort =
     database_address (encodeURIComponent dbUser) (encodeURIComponent dbPassword) dbHost dbPort (encodeURIComponent dbName)"

text \<open>The address of all three programs.\<close>

definition databaseUrl :: "test_env \<Rightarrow> string" where
  "databaseUrl env =
     or_else (te_databaseUrl env)
       (buildDatabaseUrl (or_else (te_dbName env) ''data_dyna_test'') (or_else (te_dbUser env) ''data_dyna'')
          (or_else (te_dbPassword env) ''data_dyna_local_password'') (or_else (te_dbHost env) ''localhost'')
          (or_else (te_dbPort env) ''55432''))"

definition decode_uri :: "string \<Rightarrow> test_db_error + string" where
  "decode_uri s = (case decodeURIComponent s of None \<Rightarrow> Inl Malformed_uri | Some t \<Rightarrow> Inr t)"

text \<open>\<open>hostname.replace(/^\[|\]$/g, "")\<close>.\<close>

definition without_brackets :: "string \<Rightarrow> string" where
  "without_brackets h =
     (let t = (if starts_with ''['' h then tl h else h) in if t \<noteq> [] \<and> last t = CHR '']'' then butlast t else t)"

definition local_hosts :: "string list" where
  "local_hosts = [''localhost'', ''127.0.0.1'', ''::1'']"

definition assertLocalTestDatabase :: "url_reader \<Rightarrow> string \<Rightarrow> test_db_error + unit" where
  "assertLocalTestDatabase rd address =
     (case ur_new rd address of
        None \<Rightarrow> Inl Invalid_url
      | Some parsed \<Rightarrow>
          and_then (decode_uri (drop 1 (ur_pathname parsed))) (\<lambda>database.
          and_then (throw_if (database \<noteq> ''data_dyna_test'') Not_the_test_database) (\<lambda>_.
          throw_if (without_brackets (ur_hostname parsed) \<notin> set local_hosts) Not_a_local_host)))"

text \<open>A text that is no URL is an error too; zod decides whether it is an issue or the \<open>TypeError\<close> of the
refinement.\<close>

definition loadPostgresTestConfig :: "url_reader \<Rightarrow> test_env \<Rightarrow> test_db_error + string" where
  "loadPostgresTestConfig rd env =
     (case ur_zod rd (databaseUrl env) of
        None \<Rightarrow> Inl Invalid_test_config
      | Some v \<Rightarrow>
          (case ur_new rd v of
             None \<Rightarrow> Inl Invalid_test_config
           | Some parsed \<Rightarrow>
               if ur_protocol parsed \<notin> {''postgresql:'', ''postgres:''} then Inl Invalid_test_config
               else and_then (assertLocalTestDatabase rd v) (\<lambda>_. Inr v)))"

text \<open>\<open>parsed.port || '5432'\<close>.\<close>

definition port_of :: "url \<Rightarrow> string" where
  "port_of parsed = (if ur_port parsed = [] then ''5432'' else ur_port parsed)"

definition assertResetTargetIsTestOnly :: "url_reader \<Rightarrow> test_env \<Rightarrow> string \<Rightarrow> test_db_error + unit" where
  "assertResetTargetIsTestOnly rd env address =
     (case ur_new rd address of
        None \<Rightarrow> Inl Invalid_url
      | Some parsed \<Rightarrow>
          and_then (decode_uri (drop 1 (ur_pathname parsed))) (\<lambda>database.
          and_then (decode_uri (ur_username parsed)) (\<lambda>username.
          let localDefaultTarget = database = ''data_dyna_test'' \<and> username = ''data_dyna''
                \<and> without_brackets (ur_hostname parsed) \<in> set local_hosts \<and> port_of parsed = ''55432'';
              explicitlyAllowedTestTarget = database = ''data_dyna_test'' \<and> te_resetAllowed env = Some ''true''
          in throw_if (\<not> localDefaultTarget \<and> \<not> explicitlyAllowedTestTarget) Refusing_to_reset)))"

section \<open>What the guards let pass\<close>

text \<open>The database a URL names.\<close>

definition names_database :: "url_reader \<Rightarrow> string \<Rightarrow> string \<Rightarrow> bool" where
  "names_database rd address database \<longleftrightarrow>
     (\<exists>parsed. ur_new rd address = Some parsed \<and> decodeURIComponent (drop 1 (ur_pathname parsed)) = Some database)"

definition on_this_machine :: "url_reader \<Rightarrow> string \<Rightarrow> bool" where
  "on_this_machine rd address \<longleftrightarrow>
     (\<exists>parsed. ur_new rd address = Some parsed \<and> without_brackets (ur_hostname parsed) \<in> set local_hosts)"

lemma decode_uri_Inr [simp]: "decode_uri s = Inr t \<longleftrightarrow> decodeURIComponent s = Some t"
  by (simp add: decode_uri_def split: option.splits)

lemma local_test_database_iff:
  "assertLocalTestDatabase rd address = Inr () \<longleftrightarrow> names_database rd address ''data_dyna_test'' \<and> on_this_machine rd address"
  by (auto simp: assertLocalTestDatabase_def names_database_def on_this_machine_def and_then_Inr_iff split: option.splits)

lemma reset_target_test_only:
  "assertResetTargetIsTestOnly rd env address = Inr () \<Longrightarrow>
     names_database rd address ''data_dyna_test'' \<and> (te_resetAllowed env = Some ''true'' \<or> on_this_machine rd address)"
  by (auto simp: assertResetTargetIsTestOnly_def names_database_def on_this_machine_def and_then_Inr_iff Let_def
      split: option.splits)

text \<open>
  What the URL standard says of the addresses built here, for a host name of letters, digits, dots and
  hyphens and a port of digits: the parts come back as they were put in, but for a path of dots.
\<close>

definition plain_host :: "string \<Rightarrow> bool" where
  "plain_host h \<longleftrightarrow> h \<noteq> [] \<and> list_all (\<lambda>c. js_digit c \<or> (js_word c \<and> c \<noteq> CHR ''_'') \<or> c = CHR ''.'' \<or> c = CHR ''-'') h"

definition reads_addresses :: "url_reader \<Rightarrow> bool" where
  "reads_addresses rd \<longleftrightarrow> (\<forall>user password host port database. plain_host host \<and> port \<noteq> [] \<and> list_all js_digit port \<longrightarrow>
     (let address = database_address (encodeURIComponent user) (encodeURIComponent password) host port (encodeURIComponent database) in
      (\<exists>parsed. ur_new rd address = Some parsed \<and> ur_zod rd address = Some address \<and> ur_protocol parsed = ''postgresql:''
        \<and> ur_hostname parsed = host
        \<and> ur_pathname parsed = ''/'' @ (if database \<in> {''.'', ''..''} then [] else encodeURIComponent database))))"

lemma plain_host_brackets: "plain_host h \<Longrightarrow> without_brackets h = h"
proof -
  assume h: "plain_host h"
  then have "CHR ''['' \<notin> set h" "CHR '']'' \<notin> set h"
    by (auto simp: plain_host_def list_all_iff js_digit_def js_word_def dest!: bspec)
  then show ?thesis by (cases h) (auto simp: without_brackets_def Let_def dest: last_in_set)
qed

lemma built_config:
  assumes "reads_addresses rd" "te_databaseUrl env = None" "plain_host (or_else (te_dbHost env) ''localhost'')"
    "or_else (te_dbPort env) ''55432'' \<noteq> []" "list_all js_digit (or_else (te_dbPort env) ''55432'')"
  shows "loadPostgresTestConfig rd env =
    (if or_else (te_dbName env) ''data_dyna_test'' \<noteq> ''data_dyna_test'' then Inl Not_the_test_database
     else if or_else (te_dbHost env) ''localhost'' \<notin> set local_hosts then Inl Not_a_local_host
     else Inr (databaseUrl env))"
proof -
  let ?name = "or_else (te_dbName env) ''data_dyna_test''" and ?host = "or_else (te_dbHost env) ''localhost''"
  from assms obtain parsed where parsed: "ur_new rd (databaseUrl env) = Some parsed"
    "ur_zod rd (databaseUrl env) = Some (databaseUrl env)" "ur_protocol parsed = ''postgresql:''" "ur_hostname parsed = ?host"
    "ur_pathname parsed = ''/'' @ (if ?name \<in> {''.'', ''..''} then [] else encodeURIComponent ?name)"
    using assms(1) [unfolded reads_addresses_def Let_def, rule_format, of ?host "or_else (te_dbPort env) ''55432''"
        "or_else (te_dbUser env) ''data_dyna''" "or_else (te_dbPassword env) ''data_dyna_local_password''" ?name]
    by (auto simp: databaseUrl_def buildDatabaseUrl_def)
  define database where "database = (if ?name \<in> {''.'', ''..''} then [] else ?name)"
  have decoded: "decodeURIComponent (drop 1 (ur_pathname parsed)) = Some database"
    by (simp add: parsed(5) database_def)
  have "database = ''data_dyna_test'' \<longleftrightarrow> ?name = ''data_dyna_test''" by (auto simp: database_def)
  then show ?thesis
    using parsed(1-4) decoded plain_host_brackets [OF assms(3)]
    by (simp add: loadPostgresTestConfig_def assertLocalTestDatabase_def throw_if_def decode_uri_def)
qed

end
