(* ===== verification/ScriptSteps.thy ===== *)
theory ScriptSteps
  imports TestDatabase
begin

text \<open>
  Steps of a script: a step changes a state and returns or throws; \<open>try\<close> with \<open>catch\<close> and with
  \<open>finally\<close> are functions on steps. Facts a step keeps are carried through by \<open>keeps\<close>.
\<close>

type_synonym ('s, 'e, 'a) act = "'s \<Rightarrow> ('e + 'a) \<times> 's"

definition act_return :: "'a \<Rightarrow> ('s, 'e, 'a) act" where
  "act_return a s = (Inr a, s)"

definition act_throw :: "'e \<Rightarrow> ('s, 'e, 'a) act" where
  "act_throw e s = (Inl e, s)"

definition act_lift :: "'e + 'a \<Rightarrow> ('s, 'e, 'a) act" where
  "act_lift r s = (r, s)"

definition act_bind :: "('s, 'e, 'a) act \<Rightarrow> ('a \<Rightarrow> ('s, 'e, 'b) act) \<Rightarrow> ('s, 'e, 'b) act" where
  "act_bind m f s = (case m s of (Inl e, s') \<Rightarrow> (Inl e, s') | (Inr a, s') \<Rightarrow> f a s')"

definition act_then :: "('s, 'e, 'a) act \<Rightarrow> ('s, 'e, 'b) act \<Rightarrow> ('s, 'e, 'b) act" where
  "act_then m n = act_bind m (\<lambda>_. n)"

text \<open>\<open>try { m } catch (e) { h }\<close>.\<close>

definition act_catch :: "('s, 'e, 'a) act \<Rightarrow> ('e \<Rightarrow> ('s, 'f, 'a) act) \<Rightarrow> ('s, 'f, 'a) act" where
  "act_catch m h s = (case m s of (Inl e, s') \<Rightarrow> h e s' | (Inr a, s') \<Rightarrow> (Inr a, s'))"

text \<open>\<open>try { m } finally { n }\<close>: an error of \<open>n\<close> replaces the outcome of \<open>m\<close>.\<close>

definition act_finally :: "('s, 'e, 'a) act \<Rightarrow> ('s, 'e, unit) act \<Rightarrow> ('s, 'e, 'a) act" where
  "act_finally m n s = (case m s of (r, s') \<Rightarrow>
     (case n s' of (Inl e, s'') \<Rightarrow> (Inl e, s'') | (Inr _, s'') \<Rightarrow> (r, s'')))"

fun act_each :: "('x \<Rightarrow> ('s, 'e, unit) act) \<Rightarrow> 'x list \<Rightarrow> ('s, 'e, unit) act" where
  "act_each f [] = act_return ()"
| "act_each f (x # xs) = act_then (f x) (act_each f xs)"

named_theorems act_simps \<open>what a step comes to\<close>

lemma act_return_iff [simp]: "act_return a s = (r, s') \<longleftrightarrow> r = Inr a \<and> s' = s"
  and act_throw_iff [simp]: "act_throw e s = (r, s') \<longleftrightarrow> r = Inl e \<and> s' = s"
  and act_lift_iff [simp]: "act_lift x s = (r, s') \<longleftrightarrow> x = r \<and> s' = s"
  by (auto simp: act_return_def act_throw_def act_lift_def)

lemma act_bind_Inr [act_simps]: "act_bind m f s = (Inr b, s') \<longleftrightarrow> (\<exists>a s1. m s = (Inr a, s1) \<and> f a s1 = (Inr b, s'))"
  by (auto simp: act_bind_def split: prod.splits sum.splits)

lemma act_bind_Inl [act_simps]:
  "act_bind m f s = (Inl e, s') \<longleftrightarrow> m s = (Inl e, s') \<or> (\<exists>a s1. m s = (Inr a, s1) \<and> f a s1 = (Inl e, s'))"
  by (auto simp: act_bind_def split: prod.splits sum.splits)

lemma act_then_Inr [act_simps]: "act_then m n s = (Inr b, s') \<longleftrightarrow> (\<exists>a s1. m s = (Inr a, s1) \<and> n s1 = (Inr b, s'))"
  and act_then_Inl [act_simps]:
    "act_then m n s = (Inl e, s') \<longleftrightarrow> m s = (Inl e, s') \<or> (\<exists>a s1. m s = (Inr a, s1) \<and> n s1 = (Inl e, s'))"
  by (simp_all add: act_then_def act_simps)

lemma act_catch_iff [act_simps]:
  "act_catch m h s = (r, s') \<longleftrightarrow> (\<exists>a. m s = (Inr a, s') \<and> r = Inr a) \<or> (\<exists>e s1. m s = (Inl e, s1) \<and> h e s1 = (r, s'))"
  by (auto simp: act_catch_def split: prod.splits sum.splits)

lemma act_finally_Inr [act_simps]:
  "act_finally m n s = (Inr a, s') \<longleftrightarrow> (\<exists>s1. m s = (Inr a, s1) \<and> n s1 = (Inr (), s'))"
  by (auto simp: act_finally_def split: prod.splits sum.splits)

lemma act_finally_Inl [act_simps]:
  "act_finally m n s = (Inl e, s') \<longleftrightarrow>
     (\<exists>r s1. m s = (r, s1) \<and> (n s1 = (Inl e, s') \<or> r = Inl e \<and> n s1 = (Inr (), s')))"
  by (auto simp: act_finally_def split: prod.splits sum.splits)

section \<open>What steps keep\<close>

definition keeps :: "('s \<Rightarrow> bool) \<Rightarrow> ('s, 'e, 'a) act \<Rightarrow> bool" where
  "keeps I m \<longleftrightarrow> (\<forall>s r s'. m s = (r, s') \<longrightarrow> I s \<longrightarrow> I s')"

lemma keepsD: "keeps I m \<Longrightarrow> m s = (r, s') \<Longrightarrow> I s \<Longrightarrow> I s'"
  by (auto simp: keeps_def)

lemma keeps_return [intro, simp]: "keeps I (act_return a)"
  and keeps_throw [intro, simp]: "keeps I (act_throw e)"
  and keeps_lift [intro, simp]: "keeps I (act_lift x)"
  by (simp_all add: keeps_def)

lemma keeps_bind [intro]: "keeps I m \<Longrightarrow> (\<And>a. keeps I (f a)) \<Longrightarrow> keeps I (act_bind m f)"
  by (auto simp: keeps_def act_bind_def split: prod.splits sum.splits)

lemma keeps_then [intro]: "keeps I m \<Longrightarrow> keeps I n \<Longrightarrow> keeps I (act_then m n)"
  by (auto simp: act_then_def)

lemma keeps_catch [intro]: "keeps I m \<Longrightarrow> (\<And>e. keeps I (h e)) \<Longrightarrow> keeps I (act_catch m h)"
  by (auto simp: keeps_def act_catch_def split: prod.splits sum.splits)

lemma keeps_finally [intro]: "keeps I m \<Longrightarrow> keeps I n \<Longrightarrow> keeps I (act_finally m n)"
  by (fastforce simp: keeps_def act_finally_def split: prod.splits sum.splits)

lemma keeps_each [intro]: "(\<And>x. keeps I (f x)) \<Longrightarrow> keeps I (act_each f xs)"
  by (induction xs) auto

end
