(* ===== verification/Migrations.thy ===== *)
theory Migrations
  imports ScriptSteps
begin

text \<open>
  The migration runner, \<open>src/scripts/run-migrations.mjs\<close>, and the integration check that resets the test
  database and runs it, \<open>src/scripts/check-db-migrations.mjs\<close>. The directory, the \<open>pg\<close> client and the
  child process are parameters; a step is a function on the database, what was sent to it, and the two
  streams the script writes to.
\<close>

section \<open>The world of a script\<close>

text \<open>\<open>wd_sent\<close> has the statements sent so far, each with the address it was sent to; \<open>wd_slept\<close> the milliseconds slept.\<close>

record 'd script_world =
  wd_db :: 'd
  wd_sent :: "(string \<times> string) list"
  wd_slept :: nat
  wd_out :: "string list"
  wd_err :: "string list"

text \<open>An error: its message, and \<open>migrationFailureLogged\<close>.\<close>

record script_error =
  sx_message :: string
  sx_logged :: bool

definition plain_error :: "string \<Rightarrow> script_error" where
  "plain_error m = \<lparr>sx_message = m, sx_logged = False\<rparr>"

type_synonym ('d, 'a) script_act = "('d script_world, script_error, 'a) act"

text \<open>A \<open>pg\<close> client of an address; \<open>Inl\<close> has the message of the error.\<close>

record 'd pg_client =
  pc_connect :: "string \<Rightarrow> 'd \<Rightarrow> (string + unit) \<times> 'd"
  pc_query :: "string \<Rightarrow> string \<Rightarrow> 'd \<Rightarrow> (string + unit) \<times> 'd"
  pc_end :: "string \<Rightarrow> 'd \<Rightarrow> (string + unit) \<times> 'd"

record migration_dir =
  md_readdir :: "string + string list"
  md_readFile :: "string \<Rightarrow> string + string"

definition on_db :: "('d \<Rightarrow> (string + 'a) \<times> 'd) \<Rightarrow> ('d, 'a) script_act" where
  "on_db f st = (case f (wd_db st) of (r, d) \<Rightarrow> (map_sum plain_error id r, st\<lparr>wd_db := d\<rparr>))"

definition send :: "'d pg_client \<Rightarrow> string \<Rightarrow> string \<Rightarrow> ('d, unit) script_act" where
  "send client url sql st = on_db (pc_query client url sql) (st\<lparr>wd_sent := wd_sent st @ [(url, sql)]\<rparr>)"

definition write_out :: "string \<Rightarrow> ('d, unit) script_act" where
  "write_out line st = (Inr (), st\<lparr>wd_out := wd_out st @ [line]\<rparr>)"

definition write_err :: "string \<Rightarrow> ('d, unit) script_act" where
  "write_err line st = (Inr (), st\<lparr>wd_err := wd_err st @ [line]\<rparr>)"

definition fail :: "string \<Rightarrow> ('d, 'a) script_act" where
  "fail m = act_throw (plain_error m)"

section \<open>The runner\<close>

definition ends_with :: "string \<Rightarrow> string \<Rightarrow> bool" where
  "ends_with suffix s \<longleftrightarrow> starts_with (rev suffix) (rev s)"

fun address_error :: "test_db_error \<Rightarrow> string" where
  "address_error Invalid_url = ''Invalid URL''"
| "address_error Malformed_uri = ''URI malformed''"
| "address_error Refusing_to_reset =
     ''Refusing to reset a database outside the reviewed local/CI test target. ''
     @ ''Use data_dyna_test on localhost:55432 as data_dyna, or set DATA_DYNA_TEST_DATABASE_RESET_ALLOWED=true for a CI-only test database.''"
| "address_error Not_the_test_database = ''Invalid Data Dyna PostgreSQL local/test config: database must be data_dyna_test.''"
| "address_error Not_a_local_host =
     ''Invalid Data Dyna PostgreSQL local/test config: host must be localhost, 127.0.0.1, or ::1.''"
| "address_error Invalid_test_config = ''Invalid Data Dyna PostgreSQL local/test config''"

definition describeDatabase :: "url_reader \<Rightarrow> string \<Rightarrow> test_db_error + string" where
  "describeDatabase rd address =
     (case ur_new rd address of
        None \<Rightarrow> Inl Invalid_url
      | Some parsed \<Rightarrow>
          and_then (decode_uri (ur_username parsed)) (\<lambda>username.
          Inr (drop 1 (ur_pathname parsed) @ '' at '' @ ur_hostname parsed @ '':'' @ port_of parsed @ '' as '' @ username)))"

definition listMigrationFiles :: "string comparator \<Rightarrow> migration_dir \<Rightarrow> script_error + string list" where
  "listMigrationFiles lc dir =
     (case md_readdir dir of
        Inl m \<Rightarrow> Inl (plain_error m)
      | Inr names \<Rightarrow>
          (let files = sort_on lc (\<lambda>file. file) (filter (ends_with ''.sql'') names) in
           if files = [] then Inl (plain_error ''No migration files found in migrations/*.sql.'') else Inr files))"

definition read_migration :: "migration_dir \<Rightarrow> string \<Rightarrow> script_error + string" where
  "read_migration dir file =
     (case md_readFile dir file of
        Inl m \<Rightarrow> Inl (plain_error m)
      | Inr sql \<Rightarrow> if js_trim sql = [] then Inl (plain_error (''Migration '' @ file @ '' is empty.'')) else Inr sql)"

definition in_transaction :: "'d pg_client \<Rightarrow> string \<Rightarrow> string \<Rightarrow> ('d, unit) script_act" where
  "in_transaction client url sql =
     act_then (send client url ''BEGIN'') (act_then (send client url sql) (send client url ''COMMIT''))"

definition migration_failed :: "'d pg_client \<Rightarrow> string \<Rightarrow> string \<Rightarrow> script_error \<Rightarrow> ('d, unit) script_act" where
  "migration_failed client url file e =
     act_then (act_catch (send client url ''ROLLBACK'') (\<lambda>_. act_return ()))
    (act_then (write_err ''failed'')
    (act_then (write_err (''Migration failed: '' @ file))
    (act_then (write_err (''PostgreSQL error: '' @ sx_message e))
              (act_throw (e\<lparr>sx_logged := True\<rparr>)))))"

definition applyMigration :: "'d pg_client \<Rightarrow> string \<Rightarrow> migration_dir \<Rightarrow> string \<Rightarrow> ('d, unit) script_act" where
  "applyMigration client url dir file =
     act_bind (act_lift (read_migration dir file)) (\<lambda>sql.
     act_then (write_out (''Applying '' @ file @ '' ... ''))
       (act_catch (act_then (in_transaction client url sql) (write_out ''ok'')) (migration_failed client url file)))"

definition run_migrations :: "url_reader \<Rightarrow> string comparator \<Rightarrow> 'd pg_client \<Rightarrow> migration_dir \<Rightarrow> test_env \<Rightarrow> ('d, unit) script_act" where
  "run_migrations rd lc client dir env =
     (let url = databaseUrl env in
      act_bind (act_lift (listMigrationFiles lc dir)) (\<lambda>files.
      act_bind (act_lift (map_sum (\<lambda>e. plain_error (address_error e)) id (describeDatabase rd url))) (\<lambda>target.
      act_then (write_out (''Running '' @ nat_text (length files) @ '' migrations in lexicographic order against '' @ target @ ''.''))
     (act_then (on_db (pc_connect client url))
     (act_then (act_finally (act_each (applyMigration client url dir) files) (on_db (pc_end client url)))
               (write_out (''Applied '' @ nat_text (length files) @ '' migrations.'')))))))"

text \<open>The exit code.\<close>

definition migration_runner ::
  "url_reader \<Rightarrow> string comparator \<Rightarrow> 'd pg_client \<Rightarrow> migration_dir \<Rightarrow> test_env \<Rightarrow> 'd script_world \<Rightarrow> nat \<times> 'd script_world" where
  "migration_runner rd lc client dir env st =
     (case run_migrations rd lc client dir env st of
        (Inr _, st') \<Rightarrow> (0, st')
      | (Inl e, st') \<Rightarrow>
          (1, if sx_logged e then st' else snd (write_err (''Migration runner failed: '' @ sx_message e) st')))"

section \<open>The integration check\<close>

definition sleep :: "nat \<Rightarrow> ('d, unit) script_act" where
  "sleep ms st = (Inr (), st\<lparr>wd_slept := wd_slept st + ms\<rparr>)"

definition withClient :: "'d pg_client \<Rightarrow> string \<Rightarrow> ('d, 'a) script_act \<Rightarrow> ('d, 'a) script_act" where
  "withClient client url action =
     act_then (on_db (pc_connect client url)) (act_finally action (on_db (pc_end client url)))"

text \<open>The loop over the attempts that are left; \<open>latest\<close> is the message of the last error.\<close>

fun wait_attempts :: "'d pg_client \<Rightarrow> string \<Rightarrow> nat \<Rightarrow> string \<Rightarrow> ('d, unit) script_act" where
  "wait_attempts client url 0 latest =
     fail (''PostgreSQL was not reachable for migration integration checks: '' @ latest)"
| "wait_attempts client url (Suc n) latest =
     (\<lambda>st. case withClient client url (send client url ''SELECT 1'') st of
        (Inr _, st') \<Rightarrow> (Inr (), st')
      | (Inl e, st') \<Rightarrow> act_then (sleep 1000) (wait_attempts client url n (sx_message e)) st')"

definition waitForPostgres :: "'d pg_client \<Rightarrow> string \<Rightarrow> ('d, unit) script_act" where
  "waitForPostgres client url = wait_attempts client url 30 ''''"

definition drop_schema :: string where
  "drop_schema = ''DROP SCHEMA IF EXISTS public CASCADE''"

definition resetPublicSchema :: "'d pg_client \<Rightarrow> string \<Rightarrow> ('d, unit) script_act" where
  "resetPublicSchema client url =
     withClient client url (act_then (send client url drop_schema) (send client url ''CREATE SCHEMA public''))"

text \<open>The child: an error when it cannot be started, or its exit code (\<open>None\<close> when a signal ended it).\<close>

definition exit_text :: "nat option \<Rightarrow> string" where
  "exit_text code = (case code of None \<Rightarrow> ''null'' | Some n \<Rightarrow> nat_text n)"

definition runMigrationRunner :: "(string \<Rightarrow> 'd \<Rightarrow> (string + nat option) \<times> 'd) \<Rightarrow> string \<Rightarrow> ('d, unit) script_act" where
  "runMigrationRunner spawn url =
     act_bind (on_db (spawn url)) (\<lambda>code.
     if code = Some 0 then act_return () else fail (''Migration runner exited with code '' @ exit_text code))"

text \<open>\<open>expectCheckViolation\<close> and \<open>expectUniqueViolation\<close>: the answer to a statement is an error, with its code and
the constraint or message it names, or none; the transaction is rolled back whatever happened.\<close>

record 'd checked_client =
  cc_client :: "'d pg_client"
  cc_insert :: "string \<Rightarrow> string \<Rightarrow> 'd \<Rightarrow> (string \<times> string) option \<times> 'd"
  cc_tables :: "string \<Rightarrow> 'd \<Rightarrow> string list"

definition try_insert :: "'d checked_client \<Rightarrow> string \<Rightarrow> string \<Rightarrow> ('d, (string \<times> string) option) script_act" where
  "try_insert cc url sql st =
     (case cc_insert cc url sql (wd_db st) of
        (violation, d) \<Rightarrow> (Inr violation, st\<lparr>wd_db := d, wd_sent := wd_sent st @ [(url, sql)]\<rparr>))"

definition expect_violation :: "string \<Rightarrow> string \<Rightarrow> string \<Rightarrow> 'd checked_client \<Rightarrow> string \<Rightarrow> string \<Rightarrow> string \<Rightarrow> ('d, unit) script_act" where
  "expect_violation expected kind fault cc url label sql =
     act_then (send (cc_client cc) url ''BEGIN'')
       (act_bind (act_finally (try_insert cc url sql)
           (act_catch (send (cc_client cc) url ''ROLLBACK'') (\<lambda>_. act_return ()))) (\<lambda>violation.
        case violation of
          None \<Rightarrow> fail (label @ '': expected PostgreSQL to reject the '' @ fault @ '' insert.'')
        | Some (code, named) \<Rightarrow>
            if code \<noteq> expected then fail (label @ '': expected '' @ kind @ '' violation, got '' @ code @ ''.'')
            else write_out (''Verified '' @ kind @ '' constraint: '' @ label @ '' ('' @ named @ '')'')))"

definition expectCheckViolation :: "'d checked_client \<Rightarrow> string \<Rightarrow> string \<Rightarrow> string \<Rightarrow> ('d, unit) script_act" where
  "expectCheckViolation = expect_violation ''23514'' ''CHECK'' ''invalid''"

definition expectUniqueViolation :: "'d checked_client \<Rightarrow> string \<Rightarrow> string \<Rightarrow> string \<Rightarrow> ('d, unit) script_act" where
  "expectUniqueViolation = expect_violation ''23505'' ''UNIQUE'' ''duplicate''"

definition expectedTables :: "string list" where
  "expectedTables =
     [''action_effects'', ''agent_run_events'', ''agent_runs'', ''carts'', ''evidence_records'',
      ''experiment_action_lifecycle_records'', ''experiment_plan_reviews'', ''experiment_review_decisions'',
      ''experiment_review_views'', ''guardrail_results'', ''intervention_trajectories'', ''invalid_raw_events'', ''items'',
      ''member_profiles'', ''member_rfm_snapshots'', ''members'', ''menus'', ''merchant_actions'', ''merchant_confirmations'',
      ''merchant_preference_candidates'', ''merchant_preferences'', ''metric_snapshots'', ''opportunity_gaps'',
      ''order_items'', ''orders'', ''payments'', ''peer_benchmarks'', ''peer_groups'', ''raw_events'', ''refunds'',
      ''restaurant_segments'', ''sessions'', ''store_profile_snapshots'', ''worker_checkpoints'', ''worker_dead_letters'',
      ''worker_job_attempts'', ''worker_jobs'']"

definition assertTablesExist :: "'d checked_client \<Rightarrow> string \<Rightarrow> ('d, unit) script_act" where
  "assertTablesExist cc url st =
     (let existing = cc_tables cc url (wd_db st);
          missing = filter (\<lambda>table. table \<notin> set existing) expectedTables in
      if missing \<noteq> [] then fail (''Missing migrated tables: '' @ join '', '' missing) st
      else write_out (''Verified migrated table catalog: '' @ nat_text (length expectedTables) @ '' expected tables exist.'') st)"

text \<open>The check; \<open>contracts\<close> are the assertions on the constraints of the tables, after the catalog.\<close>

definition check_db_migrations ::
  "url_reader \<Rightarrow> 'd checked_client \<Rightarrow> (string \<Rightarrow> 'd \<Rightarrow> (string + nat option) \<times> 'd)
   \<Rightarrow> (string \<Rightarrow> ('d, unit) script_act) list \<Rightarrow> test_env \<Rightarrow> ('d, unit) script_act" where
  "check_db_migrations rd cc spawn contracts env =
     (let url = databaseUrl env; client = cc_client cc in
      act_bind (act_lift (map_sum (\<lambda>e. plain_error (address_error e)) id (assertResetTargetIsTestOnly rd env url))) (\<lambda>_.
      act_then (waitForPostgres client url)
     (act_then (resetPublicSchema client url)
     (act_then (write_out ''Reset public schema in local/CI test database.'')
     (act_then (runMigrationRunner spawn url)
     (act_then (withClient client url (act_then (assertTablesExist cc url) (act_each (\<lambda>check. check url) contracts)))
               (write_out ''DB migration integration check passed: table catalog and required PostgreSQL constraints verified.'')))))))"

end
