(* ===== verification/JsRegex.thy ===== *)
theory JsRegex
  imports JsText
begin

text \<open>
  Regular expressions with the backtracking of JavaScript. An expression is a tree; \<open>matches\<close> lists every
  way it matches at a place of a text, the one the engine takes first at the head, so greedy and lazy
  repetition differ in the order only. A repetition takes no empty turn, as in the standard, so as many
  turns as there are characters left are enough (\<open>iterate_complete\<close>). \<open>spans\<close> says what is matched, without
  the order, and \<open>matches_spans\<close> that the two agree. Groups inside a repetition do not occur.
\<close>

section \<open>Expressions\<close>

datatype re =
  Nothing
| One "char \<Rightarrow> bool"
| Look "char option \<Rightarrow> string \<Rightarrow> bool"
| Seq re re
| Alt re re
| Star bool re
| Group nat re

text \<open>A place in a text: the character before, the rest, and the groups captured so far.\<close>

record place =
  pl_before :: "char option"
  pl_rest :: string
  pl_groups :: "(nat \<times> string) list"

primrec iterate :: "bool \<Rightarrow> (place \<Rightarrow> place list) \<Rightarrow> nat \<Rightarrow> place \<Rightarrow> place list" where
  "iterate greedy m 0 p = [p]"
| "iterate greedy m (Suc n) p =
     (let more = concat (map (iterate greedy m n) (filter (\<lambda>q. length (pl_rest q) < length (pl_rest p)) (m p))) in
      if greedy then more @ [p] else p # more)"

fun matches :: "re \<Rightarrow> place \<Rightarrow> place list" where
  "matches Nothing p = [p]"
| "matches (One P) p =
     (case pl_rest p of [] \<Rightarrow> [] | c # s \<Rightarrow> if P c then [p\<lparr>pl_before := Some c, pl_rest := s\<rparr>] else [])"
| "matches (Look P) p = (if P (pl_before p) (pl_rest p) then [p] else [])"
| "matches (Seq a b) p = concat (map (matches b) (matches a p))"
| "matches (Alt a b) p = matches a p @ matches b p"
| "matches (Star greedy a) p = iterate greedy (matches a) (length (pl_rest p)) p"
| "matches (Group n a) p =
     map (\<lambda>q. q\<lparr>pl_groups := (n, take (length (pl_rest p) - length (pl_rest q)) (pl_rest p)) # pl_groups q\<rparr>) (matches a p)"

text \<open>The usual forms.\<close>

definition re_text :: "string \<Rightarrow> re" where
  "re_text s = foldr (\<lambda>c. Seq (One (\<lambda>x. x = c))) s Nothing"

definition re_plus :: "re \<Rightarrow> re" where
  "re_plus a = Seq a (Star True a)"

definition re_opt :: "re \<Rightarrow> re" where
  "re_opt a = Alt a Nothing"

definition re_seq :: "re list \<Rightarrow> re" where
  "re_seq rs = foldr Seq rs Nothing"

definition newline :: char where
  "newline = CHR 0x0A"

definition line_end :: "char \<Rightarrow> bool" where
  "line_end c \<longleftrightarrow> c = CHR 0x0A \<or> c = CHR 0x0D"

text \<open>\<open>^\<close> and \<open>$\<close> with the flag \<open>m\<close>, \<open>\b\<close>, and the classes.\<close>

definition re_bol :: re where
  "re_bol = Look (\<lambda>prev rest. case prev of None \<Rightarrow> True | Some c \<Rightarrow> line_end c)"

definition re_eol :: re where
  "re_eol = Look (\<lambda>prev rest. case rest of [] \<Rightarrow> True | c # _ \<Rightarrow> line_end c)"

definition re_boundary :: re where
  "re_boundary = Look at_boundary"

definition re_space :: re where
  "re_space = One js_space"

definition re_not :: "char list \<Rightarrow> re" where
  "re_not cs = One (\<lambda>c. c \<notin> set cs)"

definition re_any :: re where
  "re_any = One (\<lambda>_. True)"

definition re_dot :: re where
  "re_dot = One (\<lambda>c. \<not> line_end c)"

section \<open>Searching\<close>

definition place_at :: "char option \<Rightarrow> string \<Rightarrow> place" where
  "place_at prev s = \<lparr>pl_before = prev, pl_rest = s, pl_groups = []\<rparr>"

text \<open>The first match at or after a place: where it starts, the text there, and the place where it ends.\<close>

fun re_search :: "re \<Rightarrow> char option \<Rightarrow> nat \<Rightarrow> string \<Rightarrow> (nat \<times> string \<times> place) option" where
  "re_search r prev i s =
     (case matches r (place_at prev s) of
        q # _ \<Rightarrow> Some (i, s, q)
      | [] \<Rightarrow> (case s of [] \<Rightarrow> None | c # cs \<Rightarrow> re_search r (Some c) (Suc i) cs))"

declare re_search.simps [simp del]

definition re_exec :: "re \<Rightarrow> string \<Rightarrow> (nat \<times> string \<times> place) option" where
  "re_exec r s = re_search r None 0 s"

definition group :: "nat \<Rightarrow> place \<Rightarrow> string option" where
  "group n q = map_of (pl_groups q) n"

text \<open>\<open>text.match(r)?.[1] ?? null\<close>.\<close>

definition first_group :: "re \<Rightarrow> string \<Rightarrow> string option" where
  "first_group r s = Option.bind (re_exec r s) (\<lambda>(i, t, q). group 1 q)"

text \<open>\<open>text.matchAll(r)\<close>: after a match the search goes on at its end, and one further when it was empty.\<close>

function re_all :: "re \<Rightarrow> char option \<Rightarrow> nat \<Rightarrow> string \<Rightarrow> (nat \<times> place) list" where
  "re_all r prev i s =
     (case matches r (place_at prev s) of
        q # _ \<Rightarrow>
          (i, q) # (if length (pl_rest q) < length s then re_all r (pl_before q) (i + (length s - length (pl_rest q))) (pl_rest q)
                    else (case s of [] \<Rightarrow> [] | c # cs \<Rightarrow> re_all r (Some c) (Suc i) cs))
      | [] \<Rightarrow> (case s of [] \<Rightarrow> [] | c # cs \<Rightarrow> re_all r (Some c) (Suc i) cs))"
  by pat_completeness auto
termination by (relation "measure (\<lambda>(r, prev, i, s). length s)") auto

declare re_all.simps [simp del]

definition matchAll :: "re \<Rightarrow> string \<Rightarrow> (nat \<times> place) list" where
  "matchAll r s = re_all r None 0 s"

section \<open>What is matched\<close>

definition last_char :: "char option \<Rightarrow> string \<Rightarrow> char option" where
  "last_char prev w = (if w = [] then prev else Some (last w))"

text \<open>\<open>spans r b w z\<close>: the expression matches \<open>w\<close>, after the character \<open>b\<close> and before the text \<open>z\<close>.\<close>

inductive spans :: "re \<Rightarrow> char option \<Rightarrow> string \<Rightarrow> string \<Rightarrow> bool" where
  spans_Nothing: "spans Nothing b [] z"
| spans_One: "P c \<Longrightarrow> spans (One P) b [c] z"
| spans_Look: "P b z \<Longrightarrow> spans (Look P) b [] z"
| spans_Seq: "spans r b u (v @ z) \<Longrightarrow> spans r' (last_char b u) v z \<Longrightarrow> spans (Seq r r') b (u @ v) z"
| spans_Left: "spans r b w z \<Longrightarrow> spans (Alt r r') b w z"
| spans_Right: "spans r' b w z \<Longrightarrow> spans (Alt r r') b w z"
| spans_Done: "spans (Star g r) b [] z"
| spans_Turn: "spans r b u (v @ z) \<Longrightarrow> u \<noteq> [] \<Longrightarrow> spans (Star g r) (last_char b u) v z \<Longrightarrow> spans (Star g r) b (u @ v) z"
| spans_Group: "spans r b w z \<Longrightarrow> spans (Group n r) b w z"

inductive_cases spans_cases:
  "spans Nothing b w z" "spans (One P) b w z" "spans (Look P) b w z" "spans (Seq r r') b w z" "spans (Alt r r') b w z"
  "spans (Group n r) b w z"

inductive_cases spans_StarE: "spans (Star g r) b w z"

lemma last_char_append [simp]: "last_char (last_char b u) v = last_char b (u @ v)"
  by (simp add: last_char_def)

text \<open>A place that a match leads to.\<close>

definition leads :: "re \<Rightarrow> place \<Rightarrow> place \<Rightarrow> bool" where
  "leads r p q \<longleftrightarrow> (\<exists>w. pl_rest p = w @ pl_rest q \<and> pl_before q = last_char (pl_before p) w \<and> spans r (pl_before p) w (pl_rest q))"

lemma leads_shorter: "leads r p q \<Longrightarrow> length (pl_rest q) \<le> length (pl_rest p)"
  by (auto simp: leads_def)

lemma iterate_leads:
  assumes m: "\<And>p q. q \<in> set (m p) \<Longrightarrow> leads r p q"
  shows "q \<in> set (iterate g m n p) \<Longrightarrow> leads (Star g r) p q"
proof (induction n arbitrary: p)
  case 0
  then show ?case by (auto simp: leads_def last_char_def intro: spans_Done)
next
  case (Suc n)
  show ?case
  proof (cases "q = p")
    case True
    then show ?thesis by (auto simp: leads_def last_char_def intro: spans_Done)
  next
    case False
    with Suc.prems obtain p1 where p1: "p1 \<in> set (m p)" "length (pl_rest p1) < length (pl_rest p)" "q \<in> set (iterate g m n p1)"
      by (auto simp: Let_def split: if_splits)
    from m [OF p1(1)] obtain u where u: "pl_rest p = u @ pl_rest p1" "pl_before p1 = last_char (pl_before p) u"
      "spans r (pl_before p) u (pl_rest p1)" by (auto simp: leads_def)
    from Suc.IH [OF p1(3)] obtain v where v: "pl_rest p1 = v @ pl_rest q" "pl_before q = last_char (pl_before p1) v"
      "spans (Star g r) (pl_before p1) v (pl_rest q)" by (auto simp: leads_def)
    have "u \<noteq> []" using u(1) p1(2) by auto
    with u v have "spans (Star g r) (pl_before p) (u @ v) (pl_rest q)"
      by (intro spans_Turn) auto
    with u v show ?thesis by (auto simp: leads_def intro!: exI [of _ "u @ v"])
  qed
qed

lemma matches_sound: "q \<in> set (matches r p) \<Longrightarrow> leads r p q"
proof (induction r arbitrary: p q)
  case (Seq a b)
  then obtain p1 where p1: "p1 \<in> set (matches a p)" "q \<in> set (matches b p1)" by auto
  from Seq.IH(1) [OF p1(1)] Seq.IH(2) [OF p1(2)] obtain u v where u: "pl_rest p = u @ pl_rest p1" "pl_before p1 = last_char (pl_before p) u" "spans a (pl_before p) u (pl_rest p1)"
    and v: "pl_rest p1 = v @ pl_rest q" "pl_before q = last_char (pl_before p1) v" "spans b (pl_before p1) v (pl_rest q)"
    by (auto simp: leads_def)
  from u v have "spans (Seq a b) (pl_before p) (u @ v) (pl_rest q)" by (intro spans_Seq) auto
  with u v show ?case by (auto simp: leads_def intro!: exI [of _ "u @ v"])
next
  case (Star g a)
  then show ?case using iterate_leads [of "matches a" a q g "length (pl_rest p)" p] by simp
next
  case (One P)
  then obtain c where c: "pl_rest p = c # pl_rest q" "pl_before q = Some c" "P c" by (cases "pl_rest p") (auto split: if_splits)
  then have "spans (One P) (pl_before p) [c] (pl_rest q)" by (intro spans_One)
  with c show ?case by (auto simp: leads_def last_char_def intro: exI [of _ "[c]"])
next
  case (Group n a)
  then show ?case by (fastforce simp: leads_def intro: spans_Group)
next
  case (Alt a b)
  then show ?case by (fastforce simp: leads_def intro: spans_Left spans_Right)
qed (auto simp: leads_def last_char_def intro: spans_Nothing spans_Look split: if_splits)

text \<open>As many turns as there are characters are enough.\<close>

lemma iterate_complete:
  assumes m: "\<And>p w z. pl_rest p = w @ z \<Longrightarrow> spans r (pl_before p) w z \<Longrightarrow>
      \<exists>q \<in> set (m p). pl_rest q = z \<and> pl_before q = last_char (pl_before p) w"
  shows "spans (Star g r) (pl_before p) w z \<Longrightarrow> pl_rest p = w @ z \<Longrightarrow> length w \<le> n \<Longrightarrow>
      \<exists>q \<in> set (iterate g m n p). pl_rest q = z \<and> pl_before q = last_char (pl_before p) w"
proof (induction n arbitrary: p w)
  case 0
  then show ?case by (simp add: last_char_def)
next
  case (Suc n)
  from Suc.prems(1) consider "w = []" | u v where "w = u @ v" "spans r (pl_before p) u (v @ z)" "u \<noteq> []"
      "spans (Star g r) (last_char (pl_before p) u) v z" by (auto elim: spans_StarE)
  then show ?case
  proof cases
    case 1
    with Suc.prems(2) show ?thesis by (auto simp: last_char_def Let_def)
  next
    case (2 u v)
    from m [of p u "v @ z"] 2 Suc.prems(2) obtain p1 where p1: "p1 \<in> set (m p)" "pl_rest p1 = v @ z"
      "pl_before p1 = last_char (pl_before p) u" by auto
    have "length v \<le> n" using 2 Suc.prems(3) by (cases u) auto
    with Suc.IH [of p1 v] p1 2 obtain q where "q \<in> set (iterate g m n p1)" "pl_rest q = z"
      "pl_before q = last_char (pl_before p) (u @ v)" by auto
    moreover have "length (pl_rest p1) < length (pl_rest p)" using p1(2) 2 Suc.prems(2) by simp
    ultimately show ?thesis using p1(1) 2 by (auto simp: Let_def)
  qed
qed

lemma matches_complete:
  "pl_rest p = w @ z \<Longrightarrow> spans r (pl_before p) w z \<Longrightarrow>
     \<exists>q \<in> set (matches r p). pl_rest q = z \<and> pl_before q = last_char (pl_before p) w"
proof (induction r arbitrary: p w z)
  case (Seq a b)
  from Seq.prems(2) obtain u v where w: "w = u @ v" and u: "spans a (pl_before p) u (v @ z)"
    and v: "spans b (last_char (pl_before p) u) v z" by (elim spans_cases) auto
  from Seq.IH(1) [OF _ u] Seq.prems(1) w obtain p1 where p1: "p1 \<in> set (matches a p)" "pl_rest p1 = v @ z"
    "pl_before p1 = last_char (pl_before p) u" by auto
  from Seq.IH(2) [OF p1(2)] v p1(3) obtain q where "q \<in> set (matches b p1)" "pl_rest q = z"
    "pl_before q = last_char (pl_before p) (u @ v)" by auto
  with p1(1) w show ?case by auto
next
  case (Star g a)
  from iterate_complete [of a "matches a" g p w z "length (pl_rest p)", OF Star.IH] Star.prems show ?case by simp
next
  case (Alt a b)
  then show ?case by (fastforce elim: spans_cases)
next
  case (Group n a)
  then have "spans a (pl_before p) w z" by (auto elim: spans_cases)
  from Group.IH [OF Group.prems(1) this] show ?case by auto
qed (auto simp: last_char_def elim!: spans_cases)

lemma matches_spans:
  "(\<exists>q \<in> set (matches r p). pl_rest q = z) \<longleftrightarrow> (\<exists>w. pl_rest p = w @ z \<and> spans r (pl_before p) w z)"
  using matches_sound [of _ r p] matches_complete [of p _ z r] unfolding leads_def by blast

lemma matches_Nil_iff: "matches r p = [] \<longleftrightarrow> (\<nexists>w z. pl_rest p = w @ z \<and> spans r (pl_before p) w z)"
proof -
  have "matches r p = [] \<longleftrightarrow> (\<nexists>z. \<exists>q \<in> set (matches r p). pl_rest q = z)"
    by (cases "matches r p") auto
  then show ?thesis by (auto simp: matches_spans)
qed

text \<open>A text matches somewhere exactly when some part of it is spanned.\<close>

lemma search_Some_iff:
  "(\<exists>x. re_search r prev i s = Some x) \<longleftrightarrow> (\<exists>u w z. s = u @ w @ z \<and> spans r (last_char prev u) w z)"
proof (induction s arbitrary: prev i)
  case Nil
  have "(\<exists>x. re_search r prev i [] = Some x) \<longleftrightarrow> matches r (place_at prev []) \<noteq> []"
    by (subst re_search.simps) (simp split: list.splits)
  then show ?case by (simp add: matches_Nil_iff place_at_def last_char_def)
next
  case (Cons c cs)
  show ?case
  proof (cases "matches r (place_at prev (c # cs))")
    case Nil
    then have none: "\<nexists>w z. c # cs = w @ z \<and> spans r prev w z" by (simp add: matches_Nil_iff place_at_def)
    have "(\<exists>x. re_search r prev i (c # cs) = Some x) \<longleftrightarrow> (\<exists>u w z. cs = u @ w @ z \<and> spans r (last_char (Some c) u) w z)"
      using Nil Cons.IH [of "Some c" "Suc i"] by (subst re_search.simps) (simp only: list.case)
    also have "\<dots> \<longleftrightarrow> (\<exists>u w z. c # cs = u @ w @ z \<and> spans r (last_char prev u) w z)"
    proof
      assume "\<exists>u w z. cs = u @ w @ z \<and> spans r (last_char (Some c) u) w z"
      then obtain u w z where "cs = u @ w @ z" "spans r (last_char (Some c) u) w z" by blast
      then have "c # cs = (c # u) @ w @ z \<and> spans r (last_char prev (c # u)) w z"
        by (auto simp: last_char_def split: if_splits)
      then show "\<exists>u w z. c # cs = u @ w @ z \<and> spans r (last_char prev u) w z" by blast
    next
      assume "\<exists>u w z. c # cs = u @ w @ z \<and> spans r (last_char prev u) w z"
      then obtain u w z where u: "c # cs = u @ w @ z" "spans r (last_char prev u) w z" by blast
      with none obtain u' where "u = c # u'" by (cases u) (auto simp: last_char_def)
      with u have "cs = u' @ w @ z \<and> spans r (last_char (Some c) u') w z" by (auto simp: last_char_def split: if_splits)
      then show "\<exists>u w z. cs = u @ w @ z \<and> spans r (last_char (Some c) u) w z" by blast
    qed
    finally show ?thesis .
  next
    case (Cons q qs)
    from matches_sound [of q r "place_at prev (c # cs)"] Cons obtain w where
      "c # cs = [] @ w @ pl_rest q \<and> spans r (last_char prev []) w (pl_rest q)"
      by (auto simp: leads_def place_at_def last_char_def)
    then have "\<exists>u w z. c # cs = u @ w @ z \<and> spans r (last_char prev u) w z" by blast
    with Cons show ?thesis by (subst re_search.simps) simp
  qed
qed

definition re_matches :: "re \<Rightarrow> string \<Rightarrow> bool" where
  "re_matches r s \<longleftrightarrow> re_exec r s \<noteq> None"

lemma re_matches_iff: "re_matches r s \<longleftrightarrow> (\<exists>u w z. s = u @ w @ z \<and> spans r (last_char None u) w z)"
  using search_Some_iff [of r None 0 s] by (auto simp: re_matches_def re_exec_def)

end
