(* ===== verification/BoundaryCheck.thy ===== *)
theory BoundaryCheck
  imports JsRegex
begin

text \<open>
  The architecture check, \<open>src/scripts/check-boundaries.mjs\<close>: it finds the source files, reads their imports
  with two regular expressions, resolves the relative ones and holds them against eight rules. A path is the
  list of its segments; the file system is a tree. File names are taken without separators in them.
\<close>

section \<open>Files\<close>

datatype file_node = File_node string | Dir_node "(string \<times> file_node) list" | Other_node

type_synonym path = "string list"

fun node_at :: "file_node \<Rightarrow> path \<Rightarrow> file_node option" where
  "node_at n [] = Some n"
| "node_at (Dir_node entries) (s # p) = Option.bind (map_of entries s) (\<lambda>n. node_at n p)"
| "node_at n (s # p) = None"

definition is_file :: "file_node \<Rightarrow> path \<Rightarrow> bool" where
  "is_file fs p = (case node_at fs p of Some (File_node t) \<Rightarrow> True | _ \<Rightarrow> False)"

definition path_text :: "path \<Rightarrow> string" where
  "path_text = join ''/''"

text \<open>\<open>/\.[cm]?tsx?$/\<close>.\<close>

definition source_name :: re where
  "source_name = re_seq [re_text ''.'', re_opt (One (\<lambda>c. c = CHR ''c'' \<or> c = CHR ''m'')), re_text ''ts'', re_opt (re_text ''x''),
     Look (\<lambda>prev rest. rest = [])]"

text \<open>The source files below a directory, sorted by their whole paths at every level.\<close>

fun findSourceFiles :: "path \<Rightarrow> file_node \<Rightarrow> path list" where
  "findSourceFiles dir (Dir_node entries) =
     sort_on default path_text (concat (map (\<lambda>(name, node).
       case node of
         Dir_node _ \<Rightarrow> findSourceFiles (dir @ [name]) node
       | File_node _ \<Rightarrow> if re_matches source_name name then [dir @ [name]] else []
       | Other_node \<Rightarrow> []) entries))"
| "findSourceFiles dir _ = []"

section \<open>Imports\<close>

definition quote :: re where
  "quote = One (\<lambda>c. c = CHR 0x22 \<or> c = CHR 0x27)"

definition quoted_specifier :: re where
  "quoted_specifier = re_seq [quote, Group 1 (re_plus (One (\<lambda>c. c \<noteq> CHR 0x22 \<and> c \<noteq> CHR 0x27))), quote]"

text \<open>\<open>/^\s*(?:import|export)\s+(?:type\s+)?(?:[\s\S]*?\s+from\s+)?["']([^"']+)["']/gm\<close>.\<close>

definition staticImportOrExport :: re where
  "staticImportOrExport = re_seq [re_bol, Star True re_space, Alt (re_text ''import'') (re_text ''export''), re_plus re_space,
     re_opt (Seq (re_text ''type'') (re_plus re_space)),
     re_opt (re_seq [Star False re_any, re_plus re_space, re_text ''from'', re_plus re_space]), quoted_specifier]"

text \<open>\<open>/\bimport\(\s*["']([^"']+)["']\s*\)/g\<close>.\<close>

definition dynamicImport :: re where
  "dynamicImport = re_seq [re_boundary, re_text ''import('', Star True re_space, quoted_specifier, Star True re_space, re_text '')'']"

record import_ref =
  im_specifier :: string
  im_line :: nat

definition lineNumberAt :: "string \<Rightarrow> nat \<Rightarrow> nat" where
  "lineNumberAt source index = Suc (length (filter (\<lambda>c. c = newline) (take index source)))"

definition imports_by :: "re \<Rightarrow> string \<Rightarrow> import_ref list" where
  "imports_by r source =
     map (\<lambda>(index, q). \<lparr>im_specifier = or_else (group 1 q) [], im_line = lineNumberAt source index\<rparr>) (matchAll r source)"

definition collectImports :: "string \<Rightarrow> import_ref list" where
  "collectImports source = imports_by staticImportOrExport source @ imports_by dynamicImport source"

fun split_path :: "string \<Rightarrow> string \<Rightarrow> path" where
  "split_path acc [] = [acc]"
| "split_path acc (c # cs) = (if c = CHR ''/'' then acc # split_path [] cs else split_path (acc @ [c]) cs)"

text \<open>\<open>path.resolve\<close> of a relative text against a directory.\<close>

definition resolve_segment :: "string \<Rightarrow> path \<Rightarrow> path" where
  "resolve_segment s p = (if s = [] \<or> s = ''.'' then p else if s = ''..'' then butlast p else p @ [s])"

definition resolve_path :: "path \<Rightarrow> string \<Rightarrow> path" where
  "resolve_path dir specifier = fold resolve_segment (split_path [] specifier) dir"

definition with_suffix :: "path \<Rightarrow> string \<Rightarrow> path" where
  "with_suffix p suffix = (if p = [] then [suffix] else butlast p @ [last p @ suffix])"

definition import_candidates :: "path \<Rightarrow> path list" where
  "import_candidates resolved =
     [resolved, with_suffix resolved ''.ts'', with_suffix resolved ''.tsx'', with_suffix resolved ''.mts'',
      with_suffix resolved ''.cts'', resolved @ [''index.ts''], resolved @ [''index.tsx'']]"

text \<open>The project path of a file, and of an import's target: relative to the root of the repository.\<close>

definition toProjectPath :: "path \<Rightarrow> path \<Rightarrow> path" where
  "toProjectPath repoRoot p = drop (length repoRoot) p"

definition resolveRelativeImport :: "file_node \<Rightarrow> path \<Rightarrow> path \<Rightarrow> string \<Rightarrow> path option" where
  "resolveRelativeImport fs repoRoot sourceFile specifier =
     (if \<not> starts_with ''.'' specifier then None
      else case find (is_file fs) (import_candidates (resolve_path (butlast sourceFile) specifier)) of
             None \<Rightarrow> None
           | Some targetFile \<Rightarrow>
               (let srcRoot = repoRoot @ [''src'']; relativeToSrc = drop (length srcRoot) targetFile in
                if take (length srcRoot) targetFile \<noteq> srcRoot \<or> starts_with ''..'' (path_text relativeToSrc) then None
                else Some (toProjectPath repoRoot targetFile)))"

definition moduleName :: "path \<Rightarrow> string option" where
  "moduleName p = (case p of first # second # _ \<Rightarrow> if first = ''src'' then Some second else None | _ \<Rightarrow> None)"

section \<open>Rules\<close>

record boundary_rule =
  br_id :: string
  br_description :: string
  br_matches :: "string option \<Rightarrow> string option \<Rightarrow> path \<Rightarrow> bool"

definition between :: "string \<Rightarrow> string list \<Rightarrow> string option \<Rightarrow> string option \<Rightarrow> path \<Rightarrow> bool" where
  "between source targets sourceModule targetModule targetPath \<longleftrightarrow>
     sourceModule = Some source \<and> targetModule \<in> Some ` set targets"

definition boundary_rules :: "boundary_rule list" where
  "boundary_rules =
     [\<lparr>br_id = ''contracts-no-business-modules'', br_description = ''src/contracts must not import project business modules.'',
       br_matches = (\<lambda>sourceModule targetModule targetPath.
         sourceModule = Some ''contracts'' \<and> targetModule \<noteq> Some ''contracts'')\<rparr>,
      \<lparr>br_id = ''ingestion-no-downstream-modules'',
       br_description = ''src/ingestion must not import snapshots, benchmarks, agent, merchant-review, or evidence.'',
       br_matches = between ''ingestion'' [''snapshots'', ''benchmarks'', ''agent'', ''merchant-review'', ''evidence'']\<rparr>,
      \<lparr>br_id = ''projections-no-downstream-modules'',
       br_description = ''src/projections must not import snapshots, benchmarks, agent, merchant-review, or evidence.'',
       br_matches = between ''projections'' [''snapshots'', ''benchmarks'', ''agent'', ''merchant-review'', ''evidence'']\<rparr>,
      \<lparr>br_id = ''snapshots-no-agent-review-evidence'',
       br_description = ''src/snapshots must not import agent, merchant-review, or evidence.'',
       br_matches = between ''snapshots'' [''agent'', ''merchant-review'', ''evidence'']\<rparr>,
      \<lparr>br_id = ''benchmarks-no-agent-review-evidence'',
       br_description = ''src/benchmarks must not import agent, merchant-review, or evidence.'',
       br_matches = between ''benchmarks'' [''agent'', ''merchant-review'', ''evidence'']\<rparr>,
      \<lparr>br_id = ''agent-no-ingestion-stores'', br_description = ''src/agent must not import ingestion stores or I/O handlers.'',
       br_matches = between ''agent'' [''ingestion'']\<rparr>,
      \<lparr>br_id = ''agent-no-projection-rebuild-internals'', br_description = ''src/agent must not import projection rebuild internals.'',
       br_matches = between ''agent'' [''projections'']\<rparr>,
      \<lparr>br_id = ''evidence-no-agent-sidecar-runtime'',
       br_description = ''src/evidence must not import the agent sidecar runtime; use plan schemas/types instead.'',
       br_matches = (\<lambda>sourceModule targetModule targetPath.
         sourceModule = Some ''evidence'' \<and> targetPath = [''src'', ''agent'', ''agent-sidecar.ts''])\<rparr>]"

section \<open>The check\<close>

record boundary_violation =
  bv_rule :: string
  bv_sourcePath :: path
  bv_targetPath :: path
  bv_specifier :: string
  bv_line :: nat

definition file_text :: "file_node \<Rightarrow> path \<Rightarrow> string" where
  "file_text fs p = (case node_at fs p of Some (File_node t) \<Rightarrow> t | _ \<Rightarrow> [])"

definition import_violations :: "file_node \<Rightarrow> path \<Rightarrow> path \<Rightarrow> import_ref \<Rightarrow> boundary_violation list" where
  "import_violations fs repoRoot sourceFile imported =
     (case resolveRelativeImport fs repoRoot sourceFile (im_specifier imported) of
        None \<Rightarrow> []
      | Some targetPath \<Rightarrow>
          (let sourcePath = toProjectPath repoRoot sourceFile in
           map (\<lambda>rule. \<lparr>bv_rule = br_id rule, bv_sourcePath = sourcePath, bv_targetPath = targetPath,
                  bv_specifier = im_specifier imported, bv_line = im_line imported\<rparr>)
             (filter (\<lambda>rule. br_matches rule (moduleName sourcePath) (moduleName targetPath) targetPath) boundary_rules)))"

definition boundary_violations :: "file_node \<Rightarrow> path \<Rightarrow> boundary_violation list" where
  "boundary_violations fs repoRoot =
     (let srcRoot = repoRoot @ [''src''];
          sourceFiles = (case node_at fs srcRoot of None \<Rightarrow> [] | Some n \<Rightarrow> findSourceFiles srcRoot n) in
      concat (map (\<lambda>sourceFile.
        concat (map (import_violations fs repoRoot sourceFile) (collectImports (file_text fs sourceFile)))) sourceFiles))"

definition check_boundaries :: "file_node \<Rightarrow> path \<Rightarrow> nat" where
  "check_boundaries fs repoRoot = (if boundary_violations fs repoRoot \<noteq> [] then 1 else 0)"

definition boundary_script :: "string list \<Rightarrow> file_node \<Rightarrow> path \<Rightarrow> nat" where
  "boundary_script argv fs repoRoot = (if ''--list-rules'' \<in> set argv then 0 else check_boundaries fs repoRoot)"

end
