(* ===== verification/SchemaCheck.thy ===== *)
theory SchemaCheck
  imports JsRegex
begin

text \<open>
  The schema safety check, \<open>src/scripts/check-schema-migration-safety.mjs\<close>: fifteen regular expressions that
  source files and migrations must match. The files are a function from the paths below the root.
\<close>

section \<open>Expressions over words\<close>

text \<open>A word as it stands, a word in any case, and white space that must, or may, be there.\<close>

definition ci_char :: "char \<Rightarrow> re" where
  "ci_char c = One (\<lambda>x. js_lower_char x = js_lower_char c)"

definition ci_text :: "string \<Rightarrow> re" where
  "ci_text s = foldr (\<lambda>c. Seq (ci_char c)) s Nothing"

definition some_space :: re where
  "some_space = re_plus re_space"

definition any_space :: re where
  "any_space = Star True re_space"

definition any_quote :: re where
  "any_quote = One (\<lambda>c. c = CHR 0x22 \<or> c = CHR 0x27)"

definition sql_quoted :: "string \<Rightarrow> re" where
  "sql_quoted s = ci_text (CHR 0x27 # s @ [CHR 0x27])"

fun spaced :: "re list \<Rightarrow> re" where
  "spaced [] = Nothing"
| "spaced [r] = r"
| "spaced (r # rs) = Seq r (Seq some_space (spaced rs))"

text \<open>\<open>name\s*=\s*z\.literal\(\s*["']v["']\s*\)\<close>.\<close>

definition zod_literal :: "string \<Rightarrow> string \<Rightarrow> re" where
  "zod_literal schema v = re_seq [re_text schema, any_space, re_text ''='', any_space, re_text ''z.literal('', any_space, any_quote,
     re_text v, any_quote, any_space, re_text '')'']"

text \<open>\<open>CHECK\s*\(\s*column\s*op\s*value\s*\)\<close>.\<close>

definition sql_check :: "string \<Rightarrow> string \<Rightarrow> re \<Rightarrow> re" where
  "sql_check column comparison v = re_seq [ci_text ''CHECK'', any_space, ci_text ''('', any_space, ci_text column, any_space,
     ci_text comparison, any_space, v, any_space, ci_text '')'']"

definition not_null_text :: "string \<Rightarrow> re \<Rightarrow> re" where
  "not_null_text column v = spaced [ci_text column, ci_text ''TEXT'', ci_text ''NOT'', ci_text ''NULL'', sql_check column ''='' v]"

definition quoted_property :: "string \<Rightarrow> string \<Rightarrow> re" where
  "quoted_property prop_name v = re_seq [re_text (prop_name @ '':''), any_space, any_quote, re_text v, any_quote]"

section \<open>The checks\<close>

record safety_check =
  sc_id :: string
  sc_path :: string
  sc_description :: string
  sc_matches :: "string \<Rightarrow> bool"

definition at_least :: "nat \<Rightarrow> re \<Rightarrow> string \<Rightarrow> bool" where
  "at_least n r s \<longleftrightarrow> n \<le> length (matchAll r s)"

definition final_fact_source :: re where
  "final_fact_source = quoted_property ''finalFactSource'' ''pos''"

definition min_peer_default :: re where
  "min_peer_default = re_seq [re_text ''DEFAULT_MIN_PEER_STORE_COUNT'', any_space, re_text ''='', any_space, re_text ''3'']"

definition min_peer_floor :: re where
  "min_peer_floor = re_seq [re_text ''Math.max('', any_space, re_text ''input.minPeerStoreCount'', any_space, re_text ''??'', any_space,
     re_text ''DEFAULT_MIN_PEER_STORE_COUNT'', any_space, re_text '','', any_space, re_text ''DEFAULT_MIN_PEER_STORE_COUNT'',
     any_space, re_text '')'']"

definition no_business_mutation :: re where
  "no_business_mutation = spaced [ci_text ''business_mutation_called'', ci_text ''BOOLEAN'', ci_text ''NOT'', ci_text ''NULL'',
     ci_text ''DEFAULT'', ci_text ''FALSE'', sql_check ''business_mutation_called'' ''='' (ci_text ''FALSE'')]"

definition no_generated_claims :: re where
  "no_generated_claims = (let empty_array = Seq (sql_quoted ''[]'') (ci_text ''::jsonb'') in
     spaced [ci_text ''llm_generated_claims'', ci_text ''JSONB'', ci_text ''NOT'', ci_text ''NULL'', ci_text ''DEFAULT'', empty_array,
       sql_check ''llm_generated_claims'' ''='' empty_array])"

definition peer_floor_column :: re where
  "peer_floor_column = spaced [ci_text ''min_peer_store_count'', ci_text ''INTEGER'', ci_text ''NOT'', ci_text ''NULL'',
     sql_check ''min_peer_store_count'' ''>='' (ci_text ''3'')]"

definition rfm_source :: re where
  "rfm_source = Seq (re_seq [re_text ''DATAMESH_MEMBER_LABELS_SOURCE_TABLE'', any_space, re_text ''='', any_space, any_quote,
     re_text ''report.crm.member_labels'', any_quote, some_space]) (spaced [re_text ''as'', re_text ''const''])"

definition safety_checks :: "safety_check list" where
  "safety_checks =
     [\<lparr>sc_id = ''event-contract-version-source'', sc_path = ''src/contracts/event-contract.ts'',
       sc_description = ''event-contract.v1 remains the event schema contract literal.'',
       sc_matches = re_matches (zod_literal ''EventContractVersionSchema'' ''event-contract.v1'')\<rparr>,
      \<lparr>sc_id = ''agent-context-bundle-version-source'', sc_path = ''src/agent/context-bundle.ts'',
       sc_description = ''agent-context-bundle.v1 remains the Agent context bundle contract literal.'',
       sc_matches = re_matches (zod_literal ''AgentContextBundleVersionSchema'' ''agent-context-bundle.v1'')\<rparr>,
      \<lparr>sc_id = ''agent-context-bundle-version-migration'', sc_path = ''migrations/0005_agent_runs.sql'',
       sc_description = ''agent_runs persists only agent-context-bundle.v1 context bundles.'',
       sc_matches = re_matches (not_null_text ''context_bundle_version'' (sql_quoted ''agent-context-bundle.v1''))\<rparr>,
      \<lparr>sc_id = ''merchant-review-version-source'', sc_path = ''src/merchant-review/experiment-review.ts'',
       sc_description = ''merchant-review.v1 remains the merchant review contract literal.'',
       sc_matches = re_matches (zod_literal ''MerchantReviewContractVersionSchema'' ''merchant-review.v1'')\<rparr>,
      \<lparr>sc_id = ''evidence-store-version-source'', sc_path = ''src/evidence/evidence-store.ts'',
       sc_description = ''evidence-store.v1 remains the evidence store contract literal.'',
       sc_matches = re_matches (zod_literal ''EvidenceStoreContractVersionSchema'' ''evidence-store.v1'')\<rparr>,
      \<lparr>sc_id = ''business-mutation-disabled-migration'', sc_path = ''migrations/0006_merchant_review.sql'',
       sc_description = ''merchant lifecycle records cannot call business mutations.'',
       sc_matches = re_matches no_business_mutation\<rparr>,
      \<lparr>sc_id = ''llm-generated-claims-empty-migration'', sc_path = ''migrations/0007_evidence_store.sql'',
       sc_description = ''evidence records keep llm_generated_claims pinned to an empty JSON array.'',
       sc_matches = re_matches no_generated_claims\<rparr>,
      \<lparr>sc_id = ''pos-final-fact-source-migration'', sc_path = ''migrations/0002_business_projections.sql'',
       sc_description = ''orders, payments, and refunds keep POS as the final fact source.'',
       sc_matches = at_least 3 (not_null_text ''final_fact_source'' (sql_quoted ''pos''))\<rparr>,
      \<lparr>sc_id = ''pos-final-fact-source-source'', sc_path = ''src/projections/business-projections.ts'',
       sc_description = ''projection types and builders keep finalFactSource as pos.'',
       sc_matches = (\<lambda>text. re_matches final_fact_source text \<and> at_least 3 final_fact_source text)\<rparr>,
      \<lparr>sc_id = ''datamesh-rfm-source-source'', sc_path = ''src/datamesh/rfm-member-labels.ts'',
       sc_description = ''Datamesh RFM adapter keeps report.crm.member_labels as its source table.'',
       sc_matches = re_matches rfm_source\<rparr>,
      \<lparr>sc_id = ''datamesh-rfm-source-migration'', sc_path = ''migrations/0002_business_projections.sql'',
       sc_description = ''member_rfm_snapshots requires source_table = report.crm.member_labels.'',
       sc_matches = re_matches (not_null_text ''source_table'' (sql_quoted ''report.crm.member_labels''))\<rparr>,
      \<lparr>sc_id = ''peer-deidentification-source'', sc_path = ''src/benchmarks/opportunity-gaps.ts'',
       sc_description = ''peer benchmark output remains aggregate-only with no peer store IDs.'',
       sc_matches = re_matches (quoted_property ''deidentificationMethod'' ''aggregate_only_no_peer_store_ids'')\<rparr>,
      \<lparr>sc_id = ''peer-deidentification-migration'', sc_path = ''migrations/0004_peer_benchmarks.sql'',
       sc_description = ''peer_groups requires aggregate-only deidentification.'',
       sc_matches = re_matches (not_null_text ''deidentification_method'' (sql_quoted ''aggregate_only_no_peer_store_ids''))\<rparr>,
      \<lparr>sc_id = ''peer-threshold-floor-source'', sc_path = ''src/benchmarks/opportunity-gaps.ts'',
       sc_description = ''peer benchmark code keeps the minimum peer store floor at 3.'',
       sc_matches = (\<lambda>text. re_matches min_peer_default text \<and> re_matches min_peer_floor text)\<rparr>,
      \<lparr>sc_id = ''peer-threshold-floor-migration'', sc_path = ''migrations/0004_peer_benchmarks.sql'',
       sc_description = ''peer benchmark tables keep min_peer_store_count >= 3 constraints.'',
       sc_matches = at_least 2 peer_floor_column\<rparr>]"

datatype safety_failure = File_missing | Contract_missing

definition safety_failure_of :: "(string \<Rightarrow> string option) \<Rightarrow> safety_check \<Rightarrow> safety_failure option" where
  "safety_failure_of files check =
     (case files (sc_path check) of
        None \<Rightarrow> Some File_missing
      | Some t \<Rightarrow> if sc_matches check t then None else Some Contract_missing)"

definition safety_failures :: "(string \<Rightarrow> string option) \<Rightarrow> (string \<times> safety_failure) list" where
  "safety_failures files =
     List.map_filter (\<lambda>check. map_option (Pair (sc_id check)) (safety_failure_of files check)) safety_checks"

definition check_schema_migrations :: "(string \<Rightarrow> string option) \<Rightarrow> nat" where
  "check_schema_migrations files = (if safety_failures files \<noteq> [] then 1 else 0)"

text \<open>\<open>--root\<close>: the root it names, if it is there; \<open>None\<close> when its value is missing. And the exit code of the script.\<close>

definition root_flag :: "string list \<Rightarrow> string option option" where
  "root_flag argv =
     (case dropWhile (\<lambda>a. a \<noteq> ''--root'') argv of
        [] \<Rightarrow> Some None
      | _ # rest \<Rightarrow> (case rest of [] \<Rightarrow> None | v # _ \<Rightarrow> if v = [] then None else Some (Some v)))"

definition schema_script :: "string list \<Rightarrow> (string option \<Rightarrow> string \<Rightarrow> string option) \<Rightarrow> nat" where
  "schema_script argv files_at =
     (case root_flag argv of
        None \<Rightarrow> 2
      | Some named \<Rightarrow> if ''--list-checks'' \<in> set argv then 0 else check_schema_migrations (files_at named))"

end
