(* ===== verification/GateProperties.thy ===== *)
theory GateProperties
  imports BoundaryCheck SchemaCheck
begin

text \<open>
  What the repository's own gates guarantee when they pass, and what passes them that should not.
\<close>

section \<open>Layers\<close>

definition layer :: "string \<Rightarrow> nat option" where
  "layer m = (if m = ''contracts'' then Some 0
     else if m \<in> {''ingestion'', ''projections''} then Some 1
     else if m \<in> {''snapshots'', ''benchmarks''} then Some 2
     else if m \<in> {''agent'', ''merchant-review'', ''evidence''} then Some 3 else None)"

definition source_files :: "file_node \<Rightarrow> path \<Rightarrow> path list" where
  "source_files fs repoRoot =
     (case node_at fs (repoRoot @ [''src'']) of None \<Rightarrow> [] | Some n \<Rightarrow> findSourceFiles (repoRoot @ [''src'']) n)"

lemma no_rule_matches:
  assumes "check_boundaries fs repoRoot = 0" "sourceFile \<in> set (source_files fs repoRoot)"
    "imported \<in> set (collectImports (file_text fs sourceFile))"
    "resolveRelativeImport fs repoRoot sourceFile (im_specifier imported) = Some targetPath"
  shows "\<not> list_ex (\<lambda>rule. br_matches rule (moduleName (toProjectPath repoRoot sourceFile)) (moduleName targetPath) targetPath)
      boundary_rules"
proof -
  have "import_violations fs repoRoot sourceFile imported = []"
    using assms(1-3) by (auto simp: check_boundaries_def boundary_violations_def source_files_def Let_def split: if_splits)
  with assms(4) show ?thesis by (auto simp: import_violations_def Let_def filter_empty_conv list_ex_iff)
qed

text \<open>C28. When the architecture check passes, every import it reads goes from a module to its own layer or a lower one - the
contracts, ingestion and projections, snapshots and benchmarks, the agent with review and evidence - the
contracts import nothing but themselves, the agent reaches neither ingestion nor projections, and the evidence
not the sidecar.\<close>

theorem boundary_check_layers:
  assumes passes: "check_boundaries fs repoRoot = 0" and source: "sourceFile \<in> set (source_files fs repoRoot)"
    and imported: "imported \<in> set (collectImports (file_text fs sourceFile))"
    and target: "resolveRelativeImport fs repoRoot sourceFile (im_specifier imported) = Some targetPath"
    and modules: "moduleName (toProjectPath repoRoot sourceFile) = Some m" "moduleName targetPath = Some m'"
  shows "(\<forall>k k'. layer m = Some k \<and> layer m' = Some k' \<longrightarrow> k' \<le> k) \<and> (m = ''contracts'' \<longrightarrow> m' = ''contracts'')
    \<and> (m = ''agent'' \<longrightarrow> m' \<noteq> ''ingestion'' \<and> m' \<noteq> ''projections'')
    \<and> (m = ''evidence'' \<longrightarrow> targetPath \<noteq> [''src'', ''agent'', ''agent-sidecar.ts''])"
proof -
  from no_rule_matches [OF passes source imported target] modules
  have "(m = ''contracts'' \<longrightarrow> m' = ''contracts'')"
    "(m = ''ingestion'' \<or> m = ''projections'' \<longrightarrow> m' \<notin> {''snapshots'', ''benchmarks'', ''agent'', ''merchant-review'', ''evidence''})"
    "(m = ''snapshots'' \<or> m = ''benchmarks'' \<longrightarrow> m' \<notin> {''agent'', ''merchant-review'', ''evidence''})"
    "(m = ''agent'' \<longrightarrow> m' \<noteq> ''ingestion'' \<and> m' \<noteq> ''projections'')"
    "(m = ''evidence'' \<longrightarrow> targetPath \<noteq> [''src'', ''agent'', ''agent-sidecar.ts''])"
    by (auto simp: boundary_rules_def between_def)
  then show ?thesis by (auto simp: layer_def split: if_splits)
qed

definition in_quotes :: "string \<Rightarrow> string" where
  "in_quotes s = CHR 0x22 # s @ [CHR 0x22]"

text \<open>A repository whose evidence imports the contracts.\<close>

definition good_source :: string where
  "good_source = ''import { a } from '' @ in_quotes ''../contracts/e.ts'' @ '';''"

definition good_repo :: file_node where
  "good_repo = Dir_node [(''src'', Dir_node [(''evidence'', Dir_node [(''s.ts'', File_node good_source)]),
     (''contracts'', Dir_node [(''e.ts'', File_node '''')])])]"

theorem boundary_check_layers_witness:
  "check_boundaries good_repo [] = 0 \<and> the (layer ''contracts'') \<le> the (layer ''evidence'')"
proof -
  let ?f = "[''src'', ''evidence'', ''s.ts'']" and ?t = "[''src'', ''contracts'', ''e.ts'']"
  have passes: "check_boundaries good_repo [] = 0" by code_simp
  have source: "?f \<in> set (source_files good_repo [])" by code_simp
  have imported: "\<lparr>im_specifier = ''../contracts/e.ts'', im_line = 1\<rparr> \<in> set (collectImports (file_text good_repo ?f))" by code_simp
  have target: "resolveRelativeImport good_repo [] ?f (im_specifier \<lparr>im_specifier = ''../contracts/e.ts'', im_line = 1\<rparr>) = Some ?t"
    by code_simp
  have modules: "moduleName (toProjectPath [] ?f) = Some ''evidence''" "moduleName ?t = Some ''contracts''" by code_simp+
  have "layer ''evidence'' = Some 3" "layer ''contracts'' = Some 0" by (simp_all add: layer_def)
  with conjunct1 [OF boundary_check_layers [OF passes source imported target modules]] passes show ?thesis by (metis option.sel)
qed

section \<open>What the architecture check does not see\<close>

text \<open>A file of the ingestion that exports a constant and then imports the agent for its effects.\<close>

definition blind_source :: string where
  "blind_source = ''export const a = 1;'' @ newline # ''import '' @ in_quotes ''../agent/a.ts'' @ '';'' @ newline #
     ''import b from '' @ in_quotes ''./c.ts''"

definition blind_repo :: file_node where
  "blind_repo = Dir_node [(''src'', Dir_node [(''agent'', Dir_node [(''a.ts'', File_node '''')]),
     (''ingestion'', Dir_node [(''c.ts'', File_node ''''), (''x.ts'', File_node blind_source)])])]"

text \<open>The lazy gap of the import expression begins at an export and runs to the next from, over an import in between: a
file of the ingestion that imports the agent for its effects passes the check, though the same line alone is
reported by the ingestion's rule.\<close>

theorem boundary_check_blind:
  "check_boundaries blind_repo [] = 0
    \<and> map im_specifier (collectImports blind_source) = [''./c.ts'']
    \<and> map bv_rule (import_violations blind_repo [] [''src'', ''ingestion'', ''x.ts'']
        (hd (collectImports (''import '' @ in_quotes ''../agent/a.ts''))))
      = [''ingestion-no-downstream-modules'']"
  by code_simp

section \<open>What the schema check does not see\<close>

text \<open>An expression without assertions matches a text wherever it stands.\<close>

primrec no_look :: "re \<Rightarrow> bool" where
  "no_look Nothing = True"
| "no_look (One P) = True"
| "no_look (Look P) = False"
| "no_look (Seq a b) = (no_look a \<and> no_look b)"
| "no_look (Alt a b) = (no_look a \<and> no_look b)"
| "no_look (Star g a) = no_look a"
| "no_look (Group n a) = no_look a"

lemma spans_anywhere: "spans r b w z \<Longrightarrow> no_look r \<Longrightarrow> spans r b' w z'"
  by (induction arbitrary: b' z' rule: spans.induct) (auto intro: spans.intros)

lemma matches_anywhere:
  assumes "no_look r" "re_matches r t"
  shows "re_matches r (u @ t @ v)"
proof -
  from assms(2) obtain x w z where t: "t = x @ w @ z" and w: "spans r (last_char None x) w z" by (auto simp: re_matches_iff)
  have "u @ t @ v = (u @ x) @ w @ (z @ v) \<and> spans r (last_char None (u @ x)) w (z @ v)"
    using t spans_anywhere [OF w assms(1)] by simp
  then show ?thesis unfolding re_matches_iff by blast
qed

lemma no_look_text [simp]: "no_look (ci_text s)"
  unfolding ci_text_def by (induction s) (simp_all add: ci_char_def)

lemma no_look_parts [simp]: "no_look any_space" "no_look some_space" "no_look (sql_quoted s)"
  by (simp_all add: any_space_def some_space_def re_plus_def re_space_def sql_quoted_def)

text \<open>The check takes a constraint that is commented out for the constraint.\<close>

lemma commented_constraint_passes:
  "re_matches no_business_mutation t \<Longrightarrow> re_matches no_business_mutation (''/* '' @ t @ '' */'')"
  by (rule matches_anywhere) (simp_all add: no_business_mutation_def sql_check_def re_seq_def)

end
