(* ===== verification/PlanCheck.thy ===== *)
theory PlanCheck
  imports Migrations SchemaCheck
begin

text \<open>
  The plan check, \<open>src/scripts/check-plan-control-plane.mjs\<close>: the README of \<open>docs/plan\<close> names the active pack
  of three files and the active slice, and every pack's plan, status and workset must tell the same story.
  Files are a function from their paths below \<open>docs/plan\<close>; the four Chinese markers are parameters, since a
  character of the model is a code unit below 256.
\<close>

section \<open>Sections and lists\<close>

text \<open>\<open>text.match(r)\<close>: the text before the match, and the place where it ends; \<open>text.search(r)\<close>.\<close>

definition heading :: "string \<Rightarrow> re" where
  "heading title = re_seq [re_bol, re_text (''## '' @ title), Star True re_space, re_eol]"

definition search_index :: "re \<Rightarrow> string \<Rightarrow> nat option" where
  "search_index r s = map_option fst (re_exec r s)"

definition up_to_match :: "re \<Rightarrow> string \<Rightarrow> string" where
  "up_to_match r s = (case search_index r s of None \<Rightarrow> s | Some n \<Rightarrow> take n s)"

definition section_of :: "string \<Rightarrow> string \<Rightarrow> string option" where
  "section_of t title =
     map_option (\<lambda>(i, s, q). up_to_match (Seq re_bol (re_text ''## '')) (pl_rest q)) (re_exec (heading title) t)"

text \<open>\<open>if (!body) return\<close>: an empty section is none.\<close>

definition body_of :: "string \<Rightarrow> string \<Rightarrow> string option" where
  "body_of t title = (case section_of t title of Some [] \<Rightarrow> None | b \<Rightarrow> b)"

definition backtick :: char where
  "backtick = CHR 0x60"

text \<open>A lead at the beginning of a line, then a name in backticks.\<close>

definition ticked :: "re \<Rightarrow> re" where
  "ticked r = re_seq [re_text [backtick], r, re_text [backtick]]"

definition some_name :: re where
  "some_name = Group 1 (re_plus (re_not [backtick]))"

definition line_lead :: "string \<Rightarrow> re" where
  "line_lead lead = re_seq [re_bol, re_text lead, ticked some_name]"

definition firstBacktickListItem :: "string \<Rightarrow> string \<Rightarrow> string option" where
  "firstBacktickListItem t title = Option.bind (body_of t title) (first_group (line_lead ''- ''))"

definition pack_roles :: "string list" where
  "pack_roles = [''PLAN'', ''STATUS'', ''WORKSET'']"

definition role_re :: re where
  "role_re = Alt (re_text ''PLAN'') (Alt (re_text ''STATUS'') (re_text ''WORKSET''))"

definition pack_file :: re where
  "pack_file = re_seq [re_bol, re_text ''- '', ticked (Seq (re_text ''docs/plan/'')
     (Group 1 (re_seq [re_plus (re_not [backtick]), re_text ''_'', role_re, re_text ''.md''])))]"

definition first_groups :: "re \<Rightarrow> string \<Rightarrow> string list" where
  "first_groups r s = List.map_filter (\<lambda>(i, q). group 1 q) (matchAll r s)"

definition activePackFiles :: "string \<Rightarrow> string list" where
  "activePackFiles readme = (case body_of readme ''Active Pack'' of None \<Rightarrow> [] | Some body \<Rightarrow> first_groups pack_file body)"

text \<open>\<open>file.match(/_(PLAN|STATUS|WORKSET)\.md$/)?.[1]\<close>.\<close>

definition role_of :: "string \<Rightarrow> string option" where
  "role_of file = first_group (re_seq [re_text ''_'', Group 1 role_re, re_text ''.md'', Look (\<lambda>prev rest. rest = [])]) file"

text \<open>The name is the first group here, the mark the second.\<close>

record plan_stage =
  ps_done :: bool
  ps_id :: string

definition stage_line :: re where
  "stage_line = re_seq [re_bol, re_text ''- ['', Group 2 (One (\<lambda>c. c \<in> set '' xX'')), re_text ''] '', ticked some_name]"

definition parseStageOrder :: "string \<Rightarrow> plan_stage list" where
  "parseStageOrder t = map (\<lambda>(i, q). \<lparr>ps_done = js_lower (or_else (group 2 q) []) = ''x'', ps_id = or_else (group 1 q) []\<rparr>)
     (matchAll stage_line t)"

record active_stage =
  as_id :: "string option"
  as_owner :: "string option"
  as_state :: "string option"
  as_priority :: "string option"
  as_body :: "string option"

text \<open>Both sections that describe the active stage are read alike.\<close>

definition stage_of_section :: "string \<Rightarrow> string \<Rightarrow> active_stage" where
  "stage_of_section title t =
     (case body_of t title of
        None \<Rightarrow> \<lparr>as_id = None, as_owner = None, as_state = None, as_priority = None, as_body = None\<rparr>
      | Some body \<Rightarrow>
          \<lparr>as_id = first_group (line_lead ''### '') body, as_owner = first_group (line_lead ''- Owner: '') body,
           as_state = first_group (line_lead ''- State: '') body, as_priority = first_group (line_lead ''- Priority: '') body,
           as_body = Some body\<rparr>)"

definition parseActiveStage :: "string \<Rightarrow> active_stage" where
  "parseActiveStage = stage_of_section ''Active Stage''"

definition immediateFocus :: "string \<Rightarrow> active_stage" where
  "immediateFocus = stage_of_section ''Immediate Focus''"

definition allActiveSteps :: "string \<Rightarrow> string list" where
  "allActiveSteps = first_groups (line_lead ''- active_step: '')"

definition block_head :: "string \<Rightarrow> re" where
  "block_head name = re_seq [re_bol, re_text (''#### '' @ backtick # name @ [backtick]), Star True re_dot, re_eol]"

definition block_end :: re where
  "block_end = Alt (Seq re_bol (re_text (''#### '' @ [backtick]))) (Seq re_bol (re_text ''## ''))"

definition planBlock :: "string \<Rightarrow> string \<Rightarrow> string option" where
  "planBlock planText name =
     map_option (\<lambda>(i, s, q). take (length s - length (pl_rest q)) s @ up_to_match block_end (pl_rest q)) (re_exec (block_head name) planText)"

section \<open>Failures\<close>

text \<open>A null in a template.\<close>

definition shown :: "string option \<Rightarrow> string" where
  "shown v = or_else v ''null''"

definition failing :: "bool \<Rightarrow> string \<Rightarrow> string list" where
  "failing b message = (if b then [message] else [])"

definition checkRequiredMarkers :: "string \<Rightarrow> string option \<Rightarrow> string list \<Rightarrow> string list" where
  "checkRequiredMarkers label body markers =
     concat (map (\<lambda>marker. failing (\<not> (case body of None \<Rightarrow> False | Some b \<Rightarrow> text_includes b marker))
       (label @ '' missing required marker '' @ marker)) markers)"

text \<open>The Chinese markers: the goal, the deliverables (of a plan, and of a workset), and what to avoid.\<close>

record plan_markers =
  pm_goal :: string
  pm_deliverables :: string
  pm_must_deliver :: string
  pm_avoid :: string

definition plan_block_markers :: "plan_markers \<Rightarrow> string list" where
  "plan_block_markers m = [''- Owner:'', ''- State:'', ''- Priority:'', pm_goal m, pm_deliverables m, ''done_when:'', ''stop_boundary:'', pm_avoid m]"

definition stage_markers :: "plan_markers \<Rightarrow> string list" where
  "stage_markers m = [''- Owner:'', ''- State:'', ''- Priority:'', pm_goal m, pm_must_deliver m, ''done_when:'', ''stop_boundary:'', pm_avoid m]"

text \<open>\<open>docs/plan\<close>: what is in its files, and the entries of the directory (\<open>None\<close>: there is no such directory).\<close>

record plan_dir =
  pd_file :: "string \<Rightarrow> string option"
  pd_entries :: "string list option"

definition stage_ids :: "plan_stage list \<Rightarrow> string" where
  "stage_ids stages = join '', '' (map ps_id stages)"

definition pending_stages :: "plan_stage list \<Rightarrow> plan_stage list" where
  "pending_stages = filter (\<lambda>stage. \<not> ps_done stage)"

section \<open>The active pack\<close>

text \<open>Both are there and they differ.\<close>

definition differ :: "string option \<Rightarrow> string option \<Rightarrow> bool" where
  "differ a b \<longleftrightarrow> truthy a \<and> truthy b \<and> a \<noteq> b"

definition complete_failures :: "plan_stage list \<Rightarrow> active_stage \<Rightarrow> string option \<Rightarrow> string list" where
  "complete_failures pending activeStage intendedHandoff =
     failing (pending \<noteq> []) (''active PACK_COMPLETE is illegal while active WORKSET has pending stages: '' @ stage_ids pending)
     @ failing (as_owner activeStage \<noteq> Some ''closeout'') (''PACK_COMPLETE active owner must be closeout, found '' @ shown (as_owner activeStage))
     @ failing (as_state activeStage \<noteq> Some ''DONE'') (''PACK_COMPLETE active state must be DONE, found '' @ shown (as_state activeStage))
     @ failing (or_else intendedHandoff [] \<notin> {''autopilot-closeout'', ''closeout''})
         (''PACK_COMPLETE intended handoff must be closeout/autopilot-closeout, found '' @ shown intendedHandoff)"

definition slice_failures ::
  "plan_markers \<Rightarrow> string \<Rightarrow> plan_stage list \<Rightarrow> active_stage \<Rightarrow> active_stage \<Rightarrow> string option \<Rightarrow> string option \<Rightarrow> string list" where
  "slice_failures m planText stageOrder activeStage focus slice intendedHandoff =
     (let ordered = find (\<lambda>stage. Some (ps_id stage) = slice) stageOrder;
          block = planBlock planText (or_else slice []) in
      failing (ordered = None) (''active slice '' @ shown slice @ '' is not listed in active WORKSET Stage Order'')
      @ failing (case ordered of None \<Rightarrow> False | Some stage \<Rightarrow> ps_done stage)
          (''active slice '' @ shown slice @ '' is already checked done in active WORKSET Stage Order'')
      @ failing (intendedHandoff \<noteq> as_owner activeStage)
          (''README intended handoff '' @ shown intendedHandoff @ '' does not match active stage owner '' @ shown (as_owner activeStage))
      @ failing (block = None) (''active PLAN missing slice block for '' @ shown slice)
      @ checkRequiredMarkers (''active PLAN block '' @ shown slice) block (plan_block_markers m)
      @ checkRequiredMarkers (''active WORKSET stage '' @ shown slice) (as_body activeStage) (stage_markers m)
      @ checkRequiredMarkers (''active STATUS focus '' @ shown slice) (as_body focus) (stage_markers m))"

definition pack_failures ::
  "plan_markers \<Rightarrow> string \<Rightarrow> string \<Rightarrow> string \<Rightarrow> string option \<Rightarrow> string option \<Rightarrow> string list" where
  "pack_failures m planText statusText worksetText slice intendedHandoff =
     (let activeStage = parseActiveStage worksetText; focus = immediateFocus statusText;
          stageOrder = parseStageOrder worksetText in
      failing (slice \<noteq> as_id activeStage)
        (''README active slice '' @ shown slice @ '' does not match WORKSET active stage '' @ shown (as_id activeStage))
      @ concat (map (\<lambda>step. failing (Some step \<noteq> slice)
          (''STATUS active_step '' @ step @ '' does not match README active slice '' @ shown slice)) (allActiveSteps statusText))
      @ concat (map (\<lambda>step. failing (Some step \<noteq> slice)
          (''WORKSET machine active_step '' @ step @ '' does not match README active slice '' @ shown slice)) (allActiveSteps worksetText))
      @ failing (truthy (as_id focus) \<and> as_id focus \<noteq> slice)
          (''STATUS Immediate Focus '' @ shown (as_id focus) @ '' does not match README active slice '' @ shown slice)
      @ failing (differ (as_owner focus) (as_owner activeStage))
          (''STATUS focus owner '' @ shown (as_owner focus) @ '' does not match WORKSET owner '' @ shown (as_owner activeStage))
      @ failing (differ (as_state focus) (as_state activeStage))
          (''STATUS focus state '' @ shown (as_state focus) @ '' does not match WORKSET state '' @ shown (as_state activeStage))
      @ (if slice = Some ''PACK_COMPLETE'' then complete_failures (pending_stages stageOrder) activeStage intendedHandoff
         else slice_failures m planText stageOrder activeStage focus slice intendedHandoff))"

definition role_failures :: "string list \<Rightarrow> string list" where
  "role_failures activeFiles =
     concat (map (\<lambda>role. failing (Some role \<notin> role_of ` set activeFiles) (''README Active Pack missing '' @ role @ '' file'')) pack_roles)"

definition with_role :: "string \<Rightarrow> string list \<Rightarrow> string option" where
  "with_role role = find (ends_with (''_'' @ role @ ''.md''))"

definition active_failures :: "plan_markers \<Rightarrow> plan_dir \<Rightarrow> string \<Rightarrow> string list" where
  "active_failures m dir readme =
     (let activeFiles = activePackFiles readme;
          slice = firstBacktickListItem readme ''Current Active Slice'';
          intendedHandoff = firstBacktickListItem readme ''Intended Handoff'' in
      failing (length activeFiles \<noteq> 3) (''README Active Pack must list exactly 3 pack files, found '' @ nat_text (length activeFiles))
      @ role_failures activeFiles
      @ failing (\<not> truthy slice) ''README Current Active Slice is missing''
      @ failing (\<not> truthy intendedHandoff) ''README Intended Handoff is missing''
      @ concat (map (\<lambda>file. failing (pd_file dir file = None) (''README Active Pack file does not exist: '' @ file)) activeFiles)
      @ (case (with_role ''PLAN'' activeFiles, with_role ''STATUS'' activeFiles, with_role ''WORKSET'' activeFiles) of
           (Some activePlan, Some activeStatus, Some activeWorkset) \<Rightarrow>
             if list_all (\<lambda>file. pd_file dir file \<noteq> None) activeFiles
             then pack_failures m (or_else (pd_file dir activePlan) []) (or_else (pd_file dir activeStatus) [])
                    (or_else (pd_file dir activeWorkset) []) slice intendedHandoff
             else []
         | _ \<Rightarrow> []))"

definition readme_failures :: "plan_markers \<Rightarrow> plan_dir \<Rightarrow> string list" where
  "readme_failures m dir =
     (case pd_file dir ''README.md'' of None \<Rightarrow> [''docs/plan/README.md is missing''] | Some readme \<Rightarrow> active_failures m dir readme)"

section \<open>Every pack\<close>

definition stage_text :: "plan_stage \<Rightarrow> string" where
  "stage_text stage = (if ps_done stage then ''true'' else ''false'') @ '':'' @ ps_id stage"

text \<open>The failures of one pack. \<open>planBlock\<close> of a stage without an id throws a \<open>TypeError\<close>: \<open>None\<close>.\<close>

definition pack_stage_failures :: "string \<Rightarrow> string \<Rightarrow> plan_stage list \<Rightarrow> active_stage \<Rightarrow> string list option" where
  "pack_stage_failures prefix planText stageOrder activeStage =
     (let worksetFile = prefix @ ''_WORKSET.md''; planFile = prefix @ ''_PLAN.md''; pending = pending_stages stageOrder in
      if as_id activeStage = Some ''PACK_COMPLETE'' then
        Some (failing (pending \<noteq> []) (worksetFile @ '' is PACK_COMPLETE but has pending stages: '' @ stage_ids pending)
          @ failing (as_owner activeStage \<noteq> Some ''closeout'' \<or> as_state activeStage \<noteq> Some ''DONE'')
              (worksetFile @ '' PACK_COMPLETE must be owner closeout and state DONE''))
      else
        map_option (\<lambda>name.
          failing (\<not> list_ex (\<lambda>stage. ps_id stage = name) stageOrder) (worksetFile @ '' Active Stage '' @ name @ '' is not in Stage Order'')
          @ failing (planBlock planText name = None) (planFile @ '' missing active slice block '' @ name)) (as_id activeStage))"

definition workset_failures :: "string \<Rightarrow> string \<Rightarrow> string \<Rightarrow> string \<Rightarrow> string list option" where
  "workset_failures prefix worksetText planText statusText =
     (let worksetFile = prefix @ ''_WORKSET.md''; planFile = prefix @ ''_PLAN.md''; statusFile = prefix @ ''_STATUS.md'';
          stageOrder = parseStageOrder worksetText; statusStages = parseStageOrder statusText;
          activeStage = parseActiveStage worksetText in
      map_option (\<lambda>stage_failures.
        failing (stageOrder = []) (worksetFile @ '' Stage Order has no checklist items'')
        @ failing (\<not> truthy (as_id activeStage)) (worksetFile @ '' missing Active Stage ID'')
        @ failing (statusStages \<noteq> [] \<and> join ''|'' (map stage_text statusStages) \<noteq> join ''|'' (map stage_text stageOrder))
            (statusFile @ '' Planned Stages checklist does not match '' @ worksetFile @ '' Stage Order'')
        @ stage_failures
        @ concat (map (\<lambda>stage. failing (planBlock planText (ps_id stage) = None)
            (planFile @ '' missing Stage Order slice block '' @ ps_id stage)) stageOrder)
        @ concat (map (\<lambda>step. failing (Some step \<noteq> as_id activeStage)
            (prefix @ '' machine active_step '' @ step @ '' does not match WORKSET Active Stage '' @ shown (as_id activeStage)))
            (allActiveSteps statusText @ allActiveSteps worksetText)))
        (pack_stage_failures prefix planText stageOrder activeStage))"

text \<open>The files of one workset. Nothing is read when one of the other two is missing; a workset that cannot
be read, a directory say, throws.\<close>

definition pack_prefix :: "string \<Rightarrow> string" where
  "pack_prefix worksetFile = take (length worksetFile - length ''_WORKSET.md'') worksetFile"

definition workset_file_failures :: "plan_dir \<Rightarrow> string \<Rightarrow> string list option" where
  "workset_file_failures dir worksetFile =
     (let prefix = pack_prefix worksetFile; planFile = prefix @ ''_PLAN.md''; statusFile = prefix @ ''_STATUS.md'' in
      case (pd_file dir planFile, pd_file dir statusFile) of
        (Some planText, Some statusText) \<Rightarrow>
          Option.bind (pd_file dir worksetFile) (\<lambda>worksetText. workset_failures prefix worksetText planText statusText)
      | (p, q) \<Rightarrow> Some (failing (p = None) (worksetFile @ '' has no matching '' @ planFile)
          @ failing (q = None) (worksetFile @ '' has no matching '' @ statusFile)))"

fun all_failures :: "plan_dir \<Rightarrow> string list \<Rightarrow> string list option" where
  "all_failures dir [] = Some []"
| "all_failures dir (worksetFile # files) =
     Option.bind (workset_file_failures dir worksetFile) (\<lambda>fs. map_option ((@) fs) (all_failures dir files))"

definition worksetFiles :: "string list \<Rightarrow> string list" where
  "worksetFiles entries = sort_on default (\<lambda>file. file) (filter (ends_with ''_WORKSET.md'') entries)"

text \<open>All failures; \<open>None\<close> when an exception ends the script.\<close>

definition plan_failures :: "plan_markers \<Rightarrow> plan_dir \<Rightarrow> string list option" where
  "plan_failures m dir =
     Option.bind (pd_entries dir) (\<lambda>entries. map_option ((@) (readme_failures m dir)) (all_failures dir (worksetFiles entries)))"

text \<open>The exit code and what is printed to the two streams; an exception that nobody catches exits with 1.\<close>

definition check_plan :: "plan_markers \<Rightarrow> (string option \<Rightarrow> plan_dir) \<Rightarrow> string list \<Rightarrow> nat \<times> string list \<times> string list" where
  "check_plan m dir_at argv =
     (case root_flag argv of
        None \<Rightarrow> (2, [], [''Missing value for --root''])
      | Some named \<Rightarrow>
          (let dir = dir_at named in
           case plan_failures m dir of
             None \<Rightarrow> (1, [], [])
           | Some [] \<Rightarrow> (0, [''Plan control-plane check passed: README plus ''
               @ nat_text (length (worksetFiles (or_else (pd_entries dir) []))) @ '' workset pack(s).''], [])
           | Some failures \<Rightarrow> (1, [], ''Plan control-plane check failed:'' # map (\<lambda>failure. ''- '' @ failure) failures)))"

end
