(* ===== verification/PlanProperties.thy ===== *)
theory PlanProperties
  imports PlanCheck
begin

text \<open>
  What the plan check promises when it passes, and the workset that makes it crash.
\<close>

section \<open>Where a search ends\<close>

lemma search_found:
  "re_search r prev i s = Some (j, t, q) \<Longrightarrow> \<exists>u. s = u @ t \<and> q \<in> set (matches r (place_at (last_char prev u) t))"
proof (induction s arbitrary: prev i)
  case Nil
  then show ?case by (subst (asm) re_search.simps) (auto simp: last_char_def split: list.splits)
next
  case (Cons c cs)
  show ?case
  proof (cases "matches r (place_at prev (c # cs))")
    case Nil
    then have "re_search r (Some c) (Suc i) cs = Some (j, t, q)"
      using Cons.prems by (subst (asm) re_search.simps) (simp only: list.case)
    from Cons.IH [OF this] obtain u where u: "cs = u @ t" "q \<in> set (matches r (place_at (last_char (Some c) u) t))" by blast
    moreover have "last_char (Some c) u = last_char prev (c # u)" by (auto simp: last_char_def)
    ultimately have "c # cs = (c # u) @ t \<and> q \<in> set (matches r (place_at (last_char prev (c # u)) t))" by simp
    then show ?thesis by blast
  next
    case (Cons q' qs)
    then have "t = c # cs" "q = q'" using Cons.prems by (subst (asm) re_search.simps; simp)+
    with Cons have "c # cs = [] @ t \<and> q \<in> set (matches r (place_at (last_char prev []) t))"
      by (auto simp: last_char_def)
    then show ?thesis by blast
  qed
qed

lemma matches_text:
  "matches (re_text w) p =
     (if take (length w) (pl_rest p) = w
      then [p\<lparr>pl_before := last_char (pl_before p) w, pl_rest := drop (length w) (pl_rest p)\<rparr>] else [])"
proof (induction w arbitrary: p)
  case Nil
  then show ?case by (simp add: re_text_def last_char_def)
next
  case (Cons c w)
  have "matches (re_text (c # w)) p = concat (map (matches (re_text w)) (matches (One (\<lambda>x. x = c)) p))" by (simp add: re_text_def)
  then show ?case by (cases "pl_rest p") (auto simp: Cons.IH last_char_def)
qed

lemma starts_with_iff: "starts_with u s \<longleftrightarrow> (\<exists>v. s = u @ v)"
  by (induction u s rule: starts_with.induct) auto

lemma ends_with_iff: "ends_with suffix s \<longleftrightarrow> (\<exists>v. s = v @ suffix)"
  unfolding ends_with_def starts_with_iff by (metis rev_append rev_rev_ident)

text \<open>The role a file name is given is the one it ends with.\<close>

lemma role_ending:
  assumes "role_of file = Some role"
  shows "ends_with (''_'' @ role @ ''.md'') file"
proof -
  let ?tail = "Seq (re_text ''.md'') (Seq (Look (\<lambda>prev rest. rest = [])) Nothing)"
  from assms obtain i t q where "re_search (Seq (re_text ''_'') (Seq (Group 1 role_re) ?tail)) None 0 file = Some (i, t, q)"
    and role: "group 1 q = Some role"
    by (auto simp: role_of_def first_group_def re_exec_def re_seq_def bind_eq_Some_conv)
  from search_found [OF this(1)] obtain u where u: "file = u @ t"
    and q: "q \<in> set (matches (Seq (re_text ''_'') (Seq (Group 1 role_re) ?tail)) (place_at (last_char None u) t))" by blast
  from q obtain p2 q2 where t: "take 1 t = ''_''" and p2: "q2 \<in> set (matches role_re p2)" "pl_rest p2 = drop 1 t" "pl_groups p2 = []"
    and tail: "q \<in> set (matches ?tail (q2\<lparr>pl_groups := (1, take (length (pl_rest p2) - length (pl_rest q2)) (pl_rest p2)) # pl_groups q2\<rparr>))"
    by (auto simp: matches_text place_at_def split: if_splits)
  from matches_sound [OF p2(1)] obtain w where w: "drop 1 t = w @ pl_rest q2" using p2(2) by (auto simp: leads_def)
  from tail have "group 1 q = Some (take (length (pl_rest p2) - length (pl_rest q2)) (pl_rest p2))"
    and last: "take 3 (pl_rest q2) = ''.md''" "drop 3 (pl_rest q2) = []"
    by (auto simp: matches_text group_def split: if_splits)
  with role w p2(2) have "role = w" by simp
  moreover have "t = take 1 t @ drop 1 t" "pl_rest q2 = take 3 (pl_rest q2) @ drop 3 (pl_rest q2)" by simp_all
  then have "t = ''_'' @ w @ ''.md''" using t w last by (metis append_assoc append_Nil2)
  ultimately show ?thesis
    by (auto simp: u ends_with_iff)
qed

section \<open>A check that passes\<close>

lemma failing_Nil [simp]: "failing b message = [] \<longleftrightarrow> \<not> b"
  by (simp add: failing_def)

text \<open>The pack of a workset is in order: every stage has its block in the plan, every machine step names the active stage,
which is one of the stages, or the pack is complete and so are its stages.\<close>

definition agrees :: "string \<Rightarrow> string \<Rightarrow> string \<Rightarrow> bool" where
  "agrees a worksetText statusText \<longleftrightarrow> as_id (parseActiveStage worksetText) = Some a
     \<and> (\<forall>step \<in> set (allActiveSteps statusText) \<union> set (allActiveSteps worksetText). step = a)
     \<and> (a = ''PACK_COMPLETE'' \<longrightarrow> (\<forall>stage \<in> set (parseStageOrder worksetText). ps_done stage)
          \<and> as_owner (parseActiveStage worksetText) = Some ''closeout'' \<and> as_state (parseActiveStage worksetText) = Some ''DONE'')"

definition pack_in_order :: "plan_dir \<Rightarrow> string \<Rightarrow> bool" where
  "pack_in_order dir prefix \<longleftrightarrow>
     (\<exists>planText statusText worksetText a.
        pd_file dir (prefix @ ''_PLAN.md'') = Some planText \<and> pd_file dir (prefix @ ''_STATUS.md'') = Some statusText
        \<and> pd_file dir (prefix @ ''_WORKSET.md'') = Some worksetText
        \<and> parseStageOrder worksetText \<noteq> []
        \<and> (\<forall>stage \<in> set (parseStageOrder worksetText). planBlock planText (ps_id stage) \<noteq> None)
        \<and> agrees a worksetText statusText
        \<and> (a \<noteq> ''PACK_COMPLETE'' \<longrightarrow> (\<exists>stage \<in> set (parseStageOrder worksetText). ps_id stage = a)))"

lemma workset_in_order:
  assumes "workset_failures prefix worksetText planText statusText = Some []"
  shows "parseStageOrder worksetText \<noteq> []
    \<and> (\<forall>stage \<in> set (parseStageOrder worksetText). planBlock planText (ps_id stage) \<noteq> None)
    \<and> (\<exists>a. agrees a worksetText statusText
        \<and> (a \<noteq> ''PACK_COMPLETE'' \<longrightarrow> (\<exists>stage \<in> set (parseStageOrder worksetText). ps_id stage = a)))"
proof -
  from assms have parts: "parseStageOrder worksetText \<noteq> []" "truthy (as_id (parseActiveStage worksetText))"
    "\<forall>stage \<in> set (parseStageOrder worksetText). planBlock planText (ps_id stage) \<noteq> None"
    "\<forall>step \<in> set (allActiveSteps statusText) \<union> set (allActiveSteps worksetText). Some step = as_id (parseActiveStage worksetText)"
    and stages: "pack_stage_failures prefix planText (parseStageOrder worksetText) (parseActiveStage worksetText) = Some []"
    by (auto simp: workset_failures_def Let_def)
  from parts(2) obtain a where a: "as_id (parseActiveStage worksetText) = Some a"
    by (cases "as_id (parseActiveStage worksetText)") (auto simp: truthy_def)
  from stages a have "agrees a worksetText statusText
      \<and> (a \<noteq> ''PACK_COMPLETE'' \<longrightarrow> (\<exists>stage \<in> set (parseStageOrder worksetText). ps_id stage = a))"
    using parts(4) by (auto simp: agrees_def pack_stage_failures_def pending_stages_def filter_empty_conv list_ex_iff Let_def split: if_splits)
  with parts(1,3) show ?thesis by blast
qed

lemma prefix_restored: "ends_with suffix s \<Longrightarrow> take (length s - length suffix) s @ suffix = s"
  by (auto simp: ends_with_iff)

lemma worksets_in_order:
  assumes "all_failures dir files = Some []" "worksetFile \<in> set files" "ends_with ''_WORKSET.md'' worksetFile"
  shows "pack_in_order dir (pack_prefix worksetFile)"
proof -
  from assms(1,2) have "workset_file_failures dir worksetFile = Some []"
    by (induction files) (auto simp: bind_eq_Some_conv)
  then obtain planText statusText worksetText where files: "pd_file dir (pack_prefix worksetFile @ ''_PLAN.md'') = Some planText"
    "pd_file dir (pack_prefix worksetFile @ ''_STATUS.md'') = Some statusText" "pd_file dir worksetFile = Some worksetText"
    and none: "workset_failures (pack_prefix worksetFile) worksetText planText statusText = Some []"
    by (auto simp: workset_file_failures_def Let_def bind_eq_Some_conv split: option.splits)
  have "pack_prefix worksetFile @ ''_WORKSET.md'' = worksetFile"
    using prefix_restored [OF assms(3)] by (simp add: pack_prefix_def)
  with files workset_in_order [OF none] show ?thesis unfolding pack_in_order_def by metis
qed

text \<open>The active pack: its three files, and the slice they agree on.\<close>

definition active_pack_in_order :: "plan_dir \<Rightarrow> bool" where
  "active_pack_in_order dir \<longleftrightarrow>
     (\<exists>readme plan status workset planText statusText worksetText a.
        pd_file dir ''README.md'' = Some readme \<and> set (activePackFiles readme) = {plan, status, workset}
        \<and> ends_with ''_PLAN.md'' plan \<and> ends_with ''_STATUS.md'' status \<and> ends_with ''_WORKSET.md'' workset
        \<and> pd_file dir plan = Some planText \<and> pd_file dir status = Some statusText \<and> pd_file dir workset = Some worksetText
        \<and> firstBacktickListItem readme ''Current Active Slice'' = Some a \<and> agrees a worksetText statusText
        \<and> (a \<noteq> ''PACK_COMPLETE'' \<longrightarrow> planBlock planText a \<noteq> None
            \<and> (\<exists>stage \<in> set (parseStageOrder worksetText). ps_id stage = a \<and> \<not> ps_done stage)
            \<and> firstBacktickListItem readme ''Intended Handoff'' = as_owner (parseActiveStage worksetText)))"

lemma two_endings: "ends_with u s \<Longrightarrow> ends_with v s \<Longrightarrow> length u \<le> length v \<Longrightarrow> ends_with u v"
  by (auto simp: ends_with_iff append_eq_append_conv2)

lemma with_role_found:
  assumes "Some role \<in> role_of ` set files"
  obtains found where "with_role role files = Some found" "found \<in> set files" "ends_with (''_'' @ role @ ''.md'') found"
proof -
  from assms obtain f where f: "f \<in> set files" "role_of f = Some role" by (metis imageE)
  with role_ending [OF f(2)] have "find (ends_with (''_'' @ role @ ''.md'')) files \<noteq> None" by (metis find_None_iff)
  then obtain found where "find (ends_with (''_'' @ role @ ''.md'')) files = Some found" by blast
  moreover from this have "found \<in> set files" "ends_with (''_'' @ role @ ''.md'') found" by (metis find_Some_iff nth_mem)+
  ultimately show ?thesis using that by (simp add: with_role_def)
qed

lemma three_files:
  assumes "length files = 3" "role_failures files = []"
  obtains plan status workset where "with_role ''PLAN'' files = Some plan" "with_role ''STATUS'' files = Some status"
    "with_role ''WORKSET'' files = Some workset" "set files = {plan, status, workset}"
    "ends_with ''_PLAN.md'' plan" "ends_with ''_STATUS.md'' status" "ends_with ''_WORKSET.md'' workset"
proof -
  from assms(2) have "Some role \<in> role_of ` set files" if "role \<in> set pack_roles" for role using that by (auto simp: role_failures_def)
  then have "Some ''PLAN'' \<in> role_of ` set files" "Some ''STATUS'' \<in> role_of ` set files" "Some ''WORKSET'' \<in> role_of ` set files"
    by (simp_all add: pack_roles_def)
  then obtain plan status workset where found: "with_role ''PLAN'' files = Some plan" "with_role ''STATUS'' files = Some status"
    "with_role ''WORKSET'' files = Some workset"
    and mem: "plan \<in> set files" "status \<in> set files" "workset \<in> set files"
    and endings: "ends_with ''_PLAN.md'' plan" "ends_with ''_STATUS.md'' status" "ends_with ''_WORKSET.md'' workset"
    by (auto elim!: with_role_found)
  have "plan \<noteq> status" "plan \<noteq> workset" "status \<noteq> workset"
    using two_endings [OF endings(1), of "''_STATUS.md''"] two_endings [OF endings(1), of "''_WORKSET.md''"]
      two_endings [OF endings(2), of "''_WORKSET.md''"] endings by (auto simp: ends_with_def)
  then have "card {plan, status, workset} = 3" by simp
  moreover have "card (set files) \<le> 3" using card_length [of files] assms(1) by simp
  ultimately have "{plan, status, workset} = set files" using mem by (intro card_seteq) auto
  with found endings that show ?thesis by metis
qed

lemma checked_pack_in_order:
  assumes "pack_failures m planText statusText worksetText (Some a) intendedHandoff = []"
  shows "agrees a worksetText statusText
    \<and> (a \<noteq> ''PACK_COMPLETE'' \<longrightarrow> planBlock planText a \<noteq> None
        \<and> (\<exists>stage \<in> set (parseStageOrder worksetText). ps_id stage = a \<and> \<not> ps_done stage)
        \<and> intendedHandoff = as_owner (parseActiveStage worksetText))"
proof -
  from assms have a: "as_id (parseActiveStage worksetText) = Some a"
    and steps: "\<forall>step \<in> set (allActiveSteps statusText) \<union> set (allActiveSteps worksetText). step = a"
    and rest: "if a = ''PACK_COMPLETE''
      then complete_failures (pending_stages (parseStageOrder worksetText)) (parseActiveStage worksetText) intendedHandoff = []
      else slice_failures m planText (parseStageOrder worksetText) (parseActiveStage worksetText) (immediateFocus statusText) (Some a)
        intendedHandoff = []"
    by (auto simp: pack_failures_def Let_def split: if_splits)
  show ?thesis
  proof (cases "a = ''PACK_COMPLETE''")
    case True
    with rest a steps show ?thesis
      by (simp add: agrees_def complete_failures_def pending_stages_def filter_empty_conv)
  next
    case False
    with rest obtain stage where "find (\<lambda>stage. Some (ps_id stage) = Some a) (parseStageOrder worksetText) = Some stage"
      "\<not> ps_done stage" "planBlock planText a \<noteq> None" "intendedHandoff = as_owner (parseActiveStage worksetText)"
      by (auto simp: slice_failures_def Let_def split: option.splits)
    with False a steps show ?thesis by (fastforce simp: agrees_def find_Some_iff)
  qed
qed

lemma readme_in_order:
  assumes "readme_failures m dir = []"
  shows "active_pack_in_order dir"
proof -
  from assms obtain readme where readme: "pd_file dir ''README.md'' = Some readme" and none: "active_failures m dir readme = []"
    by (auto simp: readme_failures_def split: option.splits)
  let ?files = "activePackFiles readme" and ?slice = "firstBacktickListItem readme ''Current Active Slice''"
  from none have "length ?files = 3" "role_failures ?files = []" "truthy ?slice" "\<forall>f \<in> set ?files. pd_file dir f \<noteq> None"
    by (auto simp: active_failures_def Let_def)
  moreover from this(1,2) obtain plan status workset where found: "with_role ''PLAN'' ?files = Some plan"
    "with_role ''STATUS'' ?files = Some status" "with_role ''WORKSET'' ?files = Some workset"
    and files: "set ?files = {plan, status, workset}"
    and endings: "ends_with ''_PLAN.md'' plan" "ends_with ''_STATUS.md'' status" "ends_with ''_WORKSET.md'' workset"
    by (rule three_files)
  ultimately obtain planText statusText worksetText a where texts: "pd_file dir plan = Some planText"
    "pd_file dir status = Some statusText" "pd_file dir workset = Some worksetText" and slice: "?slice = Some a"
    by (cases ?slice) (auto simp: truthy_def)
  from none found files texts slice
  have "pack_failures m planText statusText worksetText (Some a) (firstBacktickListItem readme ''Intended Handoff'') = []"
    by (simp add: active_failures_def Let_def list_all_iff)
  from checked_pack_in_order [OF this] readme files endings texts slice show ?thesis
    unfolding active_pack_in_order_def by metis
qed

text \<open>C26. A plan check that passes can be trusted: the README names one plan, one status and one workset, all of them there,
and the slice it calls active is the active stage of that workset and of every machine step in both files; a slice still
to do is an unchecked stage with a block in the plan and is handed to its owner, and a complete pack has no stage left;
and every other pack of the directory is in order too, each of its stages with a block in its plan.\<close>

theorem plan_check_sound:
  assumes passes: "fst (check_plan m dir_at argv) = 0"
  shows "\<exists>named entries. root_flag argv = Some named \<and> active_pack_in_order (dir_at named)
    \<and> pd_entries (dir_at named) = Some entries
    \<and> (\<forall>f \<in> set entries. ends_with ''_WORKSET.md'' f \<longrightarrow> pack_in_order (dir_at named) (pack_prefix f))"
proof -
  from passes obtain named where named: "root_flag argv = Some named" and none: "plan_failures m (dir_at named) = Some []"
    by (auto simp: check_plan_def Let_def split: option.splits list.splits)
  then obtain entries where entries: "pd_entries (dir_at named) = Some entries" "readme_failures m (dir_at named) = []"
    "all_failures (dir_at named) (worksetFiles entries) = Some []"
    by (auto simp: plan_failures_def bind_eq_Some_conv)
  have "pack_in_order (dir_at named) (pack_prefix f)" if "f \<in> set entries" "ends_with ''_WORKSET.md'' f" for f
    using worksets_in_order [OF entries(3)] that by (simp add: worksetFiles_def)
  with named entries(1) readme_in_order [OF entries(2)] show ?thesis by blast
qed

text \<open>A directory with one pack, in progress.\<close>

definition ticks :: "string \<Rightarrow> string" where
  "ticks s = backtick # s @ [backtick]"

definition small_markers :: plan_markers where
  "small_markers = \<lparr>pm_goal = ''G:'', pm_deliverables = ''D:'', pm_must_deliver = ''M:'', pm_avoid = ''A:''\<rparr>"

definition marked :: "string list \<Rightarrow> string" where
  "marked extra = join [newline] ([''- Owner: '' @ ticks ''agent'', ''- State: '' @ ticks ''READY'', ''- Priority: '' @ ticks ''P1'', ''G:'']
     @ extra @ [''done_when:'', ''stop_boundary:'', ''A:''])"

definition small_readme :: string where
  "small_readme = join [newline] [''## Active Pack'', ''- '' @ ticks ''docs/plan/a_PLAN.md'', ''- '' @ ticks ''docs/plan/a_STATUS.md'',
     ''- '' @ ticks ''docs/plan/a_WORKSET.md'', ''## Current Active Slice'', ''- '' @ ticks ''S1'', ''## Intended Handoff'',
     ''- '' @ ticks ''agent'']"

definition small_plan :: string where
  "small_plan = join [newline] [''#### '' @ ticks ''S1'', marked [''D:'']]"

definition small_status :: string where
  "small_status = join [newline] [''- active_step: '' @ ticks ''S1'', ''## Immediate Focus'', ''### '' @ ticks ''S1'', marked [''M:'']]"

definition small_workset :: string where
  "small_workset = join [newline] [''- [ ] '' @ ticks ''S1'', ''## Active Stage'', ''### '' @ ticks ''S1'', marked [''M:'']]"

definition small_dir :: "string \<Rightarrow> plan_dir" where
  "small_dir worksetText =
     \<lparr>pd_file = map_of [(''README.md'', small_readme), (''a_PLAN.md'', small_plan), (''a_STATUS.md'', small_status),
        (''a_WORKSET.md'', worksetText)],
      pd_entries = Some [''README.md'', ''a_PLAN.md'', ''a_STATUS.md'', ''a_WORKSET.md'']\<rparr>"

lemma small_dir_passes: "fst (check_plan small_markers (\<lambda>_. small_dir small_workset) []) = 0"
  by code_simp

theorem plan_check_sound_witness:
  "fst (check_plan small_markers (\<lambda>_. small_dir small_workset) []) = 0 \<and> active_pack_in_order (small_dir small_workset)"
  using plan_check_sound [OF small_dir_passes] small_dir_passes by blast

section \<open>The workset without an active stage\<close>

text \<open>A workset without an active stage is not reported but crashes the check: the message for it is recorded, and then
the block of a stage without an id is looked up, which throws. Whatever else is wrong in the directory, the script
then exits with 1 and prints none of its failures.\<close>

theorem missing_stage_crashes:
  assumes entries: "pd_entries (dir_at named) = Some entries" "worksetFile \<in> set entries" "ends_with ''_WORKSET.md'' worksetFile"
    and there: "pd_file (dir_at named) (pack_prefix worksetFile @ ''_PLAN.md'') \<noteq> None"
      "pd_file (dir_at named) (pack_prefix worksetFile @ ''_STATUS.md'') \<noteq> None"
      "pd_file (dir_at named) worksetFile = Some worksetText"
    and no_stage: "as_id (parseActiveStage worksetText) = None" and root: "root_flag argv = Some named"
  shows "check_plan m dir_at argv = (1, [], [])"
proof -
  have "workset_file_failures (dir_at named) worksetFile = None"
    using there no_stage by (auto simp: workset_file_failures_def workset_failures_def pack_stage_failures_def Let_def)
  then have "all_failures (dir_at named) files = None" if "worksetFile \<in> set files" for files
    using that by (induction files) (auto split: option.splits simp: bind_eq_None_conv)
  then have "plan_failures m (dir_at named) = None"
    using entries by (simp add: plan_failures_def worksetFiles_def)
  with root show ?thesis by (simp add: check_plan_def)
qed

theorem missing_stage_crashes_witness:
  "check_plan small_markers (\<lambda>_. small_dir ''- [ ]'') [] = (1, [], [])"
proof -
  let ?dir = "small_dir ''- [ ]''" and ?entries = "[''README.md'', ''a_PLAN.md'', ''a_STATUS.md'', ''a_WORKSET.md'']"
  have "pd_entries ?dir = Some ?entries" "pd_file ?dir ''a_WORKSET.md'' = Some ''- [ ]''" by (simp_all add: small_dir_def)
  note there = this
  have plan: "pd_file ?dir (pack_prefix ''a_WORKSET.md'' @ ''_PLAN.md'') \<noteq> None"
    and status: "pd_file ?dir (pack_prefix ''a_WORKSET.md'' @ ''_STATUS.md'') \<noteq> None"
    by (simp_all add: small_dir_def pack_prefix_def)
  have entry: "''a_WORKSET.md'' \<in> set ?entries" and ending: "ends_with ''_WORKSET.md'' ''a_WORKSET.md''"
    by (simp_all add: ends_with_def)
  have no_stage: "as_id (parseActiveStage ''- [ ]'') = None" by code_simp
  have root: "root_flag [] = Some None" by (simp add: root_flag_def)
  show ?thesis by (rule missing_stage_crashes [OF there(1) entry ending plan status there(2) no_stage root])
qed

end
