(* ===== verification/ServerProcess.thy ===== *)
theory ServerProcess
  imports RuntimeProperties
begin

text \<open>
  The process of \<open>src/src/app/server.ts\<close>: it reads its configuration, builds the runtime server and listens; the
  first SIGINT or SIGTERM closes it, each handler being installed once, so that a signal that comes again
  finds none and ends the process. What Fastify answers to \<open>listen\<close> and \<open>close\<close>, and when, are steps.
\<close>

section \<open>The process\<close>

datatype stop_signal = SIGINT | SIGTERM

datatype listen_state = Listen_pending | Listening | Listen_failed

datatype close_caller = By_signal stop_signal | By_failed_start

datatype server_log = Shutting_down stop_signal | Now_listening string nat RuntimeEnvironment | Failed_to_start string

datatype process_state = Running | Exited nat | Killed stop_signal

text \<open>\<open>sv_calls\<close> has all calls of \<open>app.close()\<close>, \<open>sv_waiting\<close> those not settled; \<open>sv_rejected\<close> and \<open>sv_closed\<close> say how
calls have ended.\<close>

record server_state =
  sv_config :: "RuntimeConfig option"
  sv_closing :: bool
  sv_handlers :: "stop_signal list"
  sv_listen :: listen_state
  sv_calls :: "close_caller list"
  sv_waiting :: "close_caller list"
  sv_closed :: bool
  sv_rejected :: "close_caller list"
  sv_logs :: "server_log list"
  sv_exitCode :: "nat option"
  sv_process :: process_state

text \<open>The module up to \<open>await app.listen\<close>; an exception in it ends the process with 1.\<close>

definition dead_process :: server_state where
  "dead_process = \<lparr>sv_config = None, sv_closing = False, sv_handlers = [], sv_listen = Listen_failed, sv_calls = [], sv_waiting = [],
     sv_closed = False, sv_rejected = [], sv_logs = [], sv_exitCode = None, sv_process = Exited 1\<rparr>"

definition listening_process :: "RuntimeConfig \<Rightarrow> server_state" where
  "listening_process config = \<lparr>sv_config = Some config, sv_closing = False, sv_handlers = [SIGINT, SIGTERM], sv_listen = Listen_pending,
     sv_calls = [], sv_waiting = [], sv_closed = False, sv_rejected = [], sv_logs = [], sv_exitCode = None, sv_process = Running\<rparr>"

definition server_start :: "text_readers \<Rightarrow> process_env \<Rightarrow> (string \<Rightarrow> ('s, 'p) store_ops) \<Rightarrow> server_state" where
  "server_start rd env pool =
     (case loadRuntimeConfig rd env of
        Inl e \<Rightarrow> dead_process
      | Inr config \<Rightarrow>
          (case buildDataDynaRuntimeServer rd env pool (Some config) of
             Inl e \<Rightarrow> dead_process
           | Inr app \<Rightarrow> listening_process config))"

definition call_close :: "close_caller \<Rightarrow> server_state \<Rightarrow> server_state" where
  "call_close caller st = st\<lparr>sv_calls := sv_calls st @ [caller], sv_waiting := sv_waiting st @ [caller]\<rparr>"

definition closeRuntime :: "stop_signal \<Rightarrow> server_state \<Rightarrow> server_state" where
  "closeRuntime s st =
     (if sv_closing st then st
      else call_close (By_signal s) (st\<lparr>sv_closing := True, sv_logs := sv_logs st @ [Shutting_down s]\<rparr>))"

text \<open>\<open>process.once\<close>: the handler is gone before it runs, and without one the signal does what it does by default.\<close>

definition on_signal :: "stop_signal \<Rightarrow> server_state \<Rightarrow> server_state" where
  "on_signal s st =
     (if s \<in> set (sv_handlers st) then closeRuntime s (st\<lparr>sv_handlers := removeAll s (sv_handlers st)\<rparr>)
      else st\<lparr>sv_process := Killed s\<rparr>)"

definition on_listening :: "server_state \<Rightarrow> server_state" where
  "on_listening st =
     (case sv_config st of
        None \<Rightarrow> st
      | Some config \<Rightarrow> st\<lparr>sv_listen := Listening,
          sv_logs := sv_logs st @ [Now_listening (rc_httpHost config) (rc_httpPort config) (rc_runtimeEnvironment config)]\<rparr>)"

definition on_listen_error :: "string \<Rightarrow> server_state \<Rightarrow> server_state" where
  "on_listen_error e st = call_close By_failed_start (st\<lparr>sv_listen := Listen_failed, sv_logs := sv_logs st @ [Failed_to_start e]\<rparr>)"

text \<open>A call of \<open>close\<close> settles. A failed start swallows its error and sets the exit code; nobody handles the
rejection of a handler, which ends the process.\<close>

definition on_closed :: "close_caller \<Rightarrow> bool \<Rightarrow> server_state \<Rightarrow> server_state" where
  "on_closed caller fine st =
     (let st = st\<lparr>sv_waiting := remove1 caller (sv_waiting st), sv_closed := sv_closed st \<or> fine,
                  sv_rejected := (if fine then sv_rejected st else sv_rejected st @ [caller])\<rparr> in
      case caller of
        By_failed_start \<Rightarrow> st\<lparr>sv_exitCode := Some 1\<rparr>
      | By_signal s \<Rightarrow> if fine then st else st\<lparr>sv_process := Exited 1\<rparr>)"

text \<open>Nothing is left to wait for, and nothing listens.\<close>

definition finished :: "server_state \<Rightarrow> bool" where
  "finished st \<longleftrightarrow> sv_listen st \<noteq> Listen_pending \<and> sv_waiting st = [] \<and> (sv_closed st \<or> sv_listen st = Listen_failed)"

definition exit_process :: "server_state \<Rightarrow> server_state" where
  "exit_process st = st\<lparr>sv_process := Exited (or_else (sv_exitCode st) 0)\<rparr>"

inductive server_step :: "server_state \<Rightarrow> server_state \<Rightarrow> bool" where
  signal: "sv_process st = Running \<Longrightarrow> server_step st (on_signal s st)"
| listening: "sv_process st = Running \<Longrightarrow> sv_listen st = Listen_pending \<Longrightarrow> server_step st (on_listening st)"
| listen_error: "sv_process st = Running \<Longrightarrow> sv_listen st = Listen_pending \<Longrightarrow> server_step st (on_listen_error e st)"
| closed: "sv_process st = Running \<Longrightarrow> caller \<in> set (sv_waiting st) \<Longrightarrow> server_step st (on_closed caller fine st)"
| exit: "sv_process st = Running \<Longrightarrow> finished st \<Longrightarrow> server_step st (exit_process st)"

inductive_cases server_stepE: "server_step st st'"

inductive server_reachable :: "server_state \<Rightarrow> server_state \<Rightarrow> bool" for start where
  started: "server_reachable start start"
| stepped: "server_reachable start st \<Longrightarrow> server_step st st' \<Longrightarrow> server_reachable start st'"

section \<open>What holds throughout\<close>

definition failed_start :: "server_state \<Rightarrow> bool" where
  "failed_start st \<longleftrightarrow> sv_listen st = Listen_failed"

definition shutdown_logs :: "server_state \<Rightarrow> server_log list" where
  "shutdown_logs st = filter (\<lambda>l. case l of Shutting_down s \<Rightarrow> True | _ \<Rightarrow> False) (sv_logs st)"

definition signal_calls :: "server_state \<Rightarrow> close_caller list" where
  "signal_calls st = filter (\<lambda>c. c \<noteq> By_failed_start) (sv_calls st)"

definition server_inv :: "server_state \<Rightarrow> bool" where
  "server_inv st \<longleftrightarrow> sv_config st \<noteq> None
     \<and> length (signal_calls st) = (if sv_closing st then 1 else 0)
     \<and> length (shutdown_logs st) = (if sv_closing st then 1 else 0)
     \<and> count_list (sv_calls st) By_failed_start = (if failed_start st then 1 else 0)
     \<and> set (sv_waiting st) \<subseteq> set (sv_calls st) \<and> distinct (sv_waiting st) \<and> set (sv_rejected st) \<subseteq> set (sv_calls st)
     \<and> (sv_exitCode st = (if failed_start st \<and> By_failed_start \<notin> set (sv_waiting st) then Some 1 else None))
     \<and> (sv_closed st \<longrightarrow> sv_calls st \<noteq> []) \<and> (\<forall>s. By_signal s \<in> set (sv_waiting st) \<longrightarrow> sv_closing st)
     \<and> (sv_closing st \<longleftrightarrow> set (sv_handlers st) \<noteq> {SIGINT, SIGTERM})
     \<and> (case sv_process st of
          Running \<Rightarrow> \<forall>s. By_signal s \<notin> set (sv_rejected st)
        | Exited n \<Rightarrow> n = (if failed_start st \<or> (\<exists>s. By_signal s \<in> set (sv_rejected st)) then 1 else 0) \<and> (n = 0 \<longrightarrow> finished st)
        | Killed s \<Rightarrow> s \<notin> set (sv_handlers st))"

lemma listening_process_inv: "server_inv (listening_process config)"
  by (simp add: server_inv_def listening_process_def signal_calls_def shutdown_logs_def failed_start_def)

lemmas server_inv_defs = server_inv_def signal_calls_def shutdown_logs_def failed_start_def finished_def

lemma both_signals: "set hs \<noteq> {SIGINT, SIGTERM} \<longleftrightarrow> SIGINT \<notin> set hs \<or> SIGTERM \<notin> set hs"
  by (auto intro: stop_signal.exhaust)

lemma signal_keeps: "server_inv st \<Longrightarrow> sv_process st = Running \<Longrightarrow> server_inv (on_signal s st)"
  by (cases s) (auto simp: server_inv_defs on_signal_def closeRuntime_def call_close_def both_signals)

lemma listening_keeps: "server_inv st \<Longrightarrow> sv_process st = Running \<Longrightarrow> sv_listen st = Listen_pending \<Longrightarrow> server_inv (on_listening st)"
  by (cases "sv_config st") (simp_all add: server_inv_defs on_listening_def, blast)

lemma listen_error_keeps:
  "server_inv st \<Longrightarrow> sv_process st = Running \<Longrightarrow> sv_listen st = Listen_pending \<Longrightarrow> server_inv (on_listen_error e st)"
  by (auto simp: server_inv_defs on_listen_error_def call_close_def count_list_0_iff)

lemma closed_keeps:
  "server_inv st \<Longrightarrow> sv_process st = Running \<Longrightarrow> caller \<in> set (sv_waiting st) \<Longrightarrow> server_inv (on_closed caller fine st)"
  by (cases caller) (auto simp: server_inv_defs on_closed_def Let_def count_list_0_iff split: if_splits)

lemma exit_keeps: "server_inv st \<Longrightarrow> sv_process st = Running \<Longrightarrow> finished st \<Longrightarrow> server_inv (exit_process st)"
  by (auto simp: server_inv_defs exit_process_def split: if_splits)

lemma step_keeps: "server_step st st' \<Longrightarrow> server_inv st \<Longrightarrow> server_inv st'"
  by (elim server_stepE) (auto intro: signal_keeps listening_keeps listen_error_keeps closed_keeps exit_keeps)

lemma dead_process_stays: "server_reachable start st \<Longrightarrow> sv_process start \<noteq> Running \<Longrightarrow> st = start"
  by (induction rule: server_reachable.induct) (auto elim: server_stepE)

lemma reachable_inv: "server_reachable (listening_process config) st \<Longrightarrow> server_inv st"
  by (induction rule: server_reachable.induct) (auto intro: listening_process_inv step_keeps)

lemma step_config: "server_step st st' \<Longrightarrow> sv_config st' = sv_config st"
  by (elim server_stepE)
    (auto simp: on_signal_def closeRuntime_def call_close_def on_listening_def on_listen_error_def on_closed_def exit_process_def Let_def
      split: option.splits close_caller.splits)

lemma reachable_config: "server_reachable start st \<Longrightarrow> sv_config st = sv_config start"
  by (induction rule: server_reachable.induct) (auto simp: step_config)

lemma length_split: "length xs = length (filter (\<lambda>x. x \<noteq> a) xs) + count_list xs a"
  by (induction xs) auto

section \<open>How the process can end\<close>


text \<open>A server that is interrupted while it starts, listens, closes and exits.\<close>

definition stopped_server :: server_state where
  "stopped_server = exit_process (on_closed (By_signal SIGINT) True (on_listening (on_signal SIGINT (listening_process sample_config))))"

lemma stopped_server_reachable:
  "server_reachable (server_start sample_readers sample_env (\<lambda>url. sample_ops)) stopped_server"
proof -
  have start: "server_start sample_readers sample_env (\<lambda>url. sample_ops) = listening_process sample_config"
    by (simp add: server_start_def sample_env_loads buildDataDynaRuntimeServer_def requireRuntimeDatabaseUrl_def buildDataDynaApp_def
        requireIngestionCredentials_def sample_config_def)
  show ?thesis unfolding start stopped_server_def
    by (intro server_reachable.stepped [OF _ server_step.exit] server_reachable.stepped [OF _ server_step.closed]
        server_reachable.stepped [OF _ server_step.listening] server_reachable.stepped [OF _ server_step.signal] server_reachable.started)
      (simp_all add: listening_process_def on_signal_def closeRuntime_def call_close_def on_listening_def on_closed_def finished_def)
qed


end
