(* ===== verification/SmokeTest.thy ===== *)
theory SmokeTest
  imports Migrations PosIngestion RuntimeConfig
begin

text \<open>
  The smoke test of a running service, \<open>src/scripts/smoke-runtime.mjs\<close>: it reads the first credential of the
  environment, posts events with it over HTTP, counts rows, and removes the rows of its run. \<open>fetch\<close> and the
  \<open>pg\<close> client are records of what they do to a world; the time in the name of a run is given. An assertion
  that fails throws an error whose message is its label.
\<close>

section \<open>The run\<close>

record smoke_credential =
  sk_credentialId :: string
  sk_token :: string
  sk_merchantId :: string
  sk_storeId :: string
  sk_producerService :: string
  sk_producerEnvironment :: string
  sk_source :: string

record smoke_run =
  sn_runId :: string
  sn_credential :: smoke_credential
  sn_baseUrl :: string

definition idempotencyKey :: "smoke_run \<Rightarrow> string" where
  "idempotencyKey run = sn_runId run @ '':event:idempotency''"

definition duplicateEventId :: "smoke_run \<Rightarrow> string" where
  "duplicateEventId run = sn_runId run @ '':event:duplicate-attempt''"

definition firstEventId :: "smoke_run \<Rightarrow> string" where
  "firstEventId run = sn_runId run @ '':event:first''"

definition tenantMismatchIdempotencyKey :: "smoke_run \<Rightarrow> string" where
  "tenantMismatchIdempotencyKey run = sn_runId run @ '':event:tenant-mismatch:idempotency''"

definition tenantMismatchEventId :: "smoke_run \<Rightarrow> string" where
  "tenantMismatchEventId run = sn_runId run @ '':event:tenant-mismatch''"

definition batchEventId :: "smoke_run \<Rightarrow> string" where
  "batchEventId run = sn_runId run @ '':batch:event''"

definition batchIdempotencyKey :: "smoke_run \<Rightarrow> string" where
  "batchIdempotencyKey run = sn_runId run @ '':batch:idempotency''"

definition allIdempotencyKeys :: "smoke_run \<Rightarrow> string list" where
  "allIdempotencyKeys run = [idempotencyKey run, tenantMismatchIdempotencyKey run, batchIdempotencyKey run]"

definition allEventIds :: "smoke_run \<Rightarrow> string list" where
  "allEventIds run = [firstEventId run, duplicateEventId run, tenantMismatchEventId run, batchEventId run]"

section \<open>The environment\<close>

record smoke_env =
  sm_databaseUrl :: "string option"
  sm_credentials :: "string option"
  sm_httpHost :: "string option"
  sm_httpPort :: "string option"

definition requiredEnv :: "string \<Rightarrow> string option \<Rightarrow> script_error + string" where
  "requiredEnv var v =
     (let t = js_trim (or_else v []) in
      if t = [] then Inl (plain_error (''Runtime smoke precondition failed: '' @ var @ '' must be set. ''
        @ ''Run npm run test:db:migrations, start npm run app:start with DATA_DYNA_DATABASE_URL and DATA_DYNA_INGESTION_CREDENTIALS_JSON, ''
        @ ''then run npm run smoke:runtime.''))
      else Inr t)"

text \<open>\<open>value?.name\<close>, \<open>value?.[0]\<close> and \<open>value?.length\<close>.\<close>

fun jfield :: "json option \<Rightarrow> string \<Rightarrow> json option" where
  "jfield (Some (JObj fs)) k = get_prop fs k"
| "jfield _ k = None"

fun jfirst :: "json option \<Rightarrow> json option" where
  "jfirst (Some (JArr (v # vs))) = Some v"
| "jfirst (Some (JStr (c # cs))) = Some (JStr [c])"
| "jfirst (Some (JObj fs)) = get_prop fs ''0''"
| "jfirst _ = None"

fun jlength :: "json option \<Rightarrow> json option" where
  "jlength (Some (JArr vs)) = Some (JNum (Finite (of_nat (length vs))))"
| "jlength (Some (JStr t)) = Some (JNum (Finite (of_nat (length t))))"
| "jlength (Some (JObj fs)) = get_prop fs ''length''"
| "jlength _ = None"

text \<open>A field that must be a string with more than white space in it, trimmed.\<close>

definition required_text :: "string \<Rightarrow> json option \<Rightarrow> script_error + string" where
  "required_text field v =
     (case v of
        Some (JStr s) \<Rightarrow>
          if js_trim s = [] then Inl (plain_error (''Runtime smoke '' @ field @ '' must be non-empty.'')) else Inr (js_trim s)
      | _ \<Rightarrow> Inl (plain_error (''Runtime smoke '' @ field @ '' must be a string.'')))"

definition smoke_credential_of :: "json option \<Rightarrow> script_error + smoke_credential" where
  "smoke_credential_of credential =
     (let producer = jfield credential ''producer'' in
      and_then (required_text ''credentialId'' (jfield credential ''credentialId'')) (\<lambda>credentialId.
      and_then (required_text ''token'' (jfield credential ''token'')) (\<lambda>token.
      and_then (required_text ''merchantId'' (jfield credential ''merchantId'')) (\<lambda>merchantId.
      and_then (required_text ''first storeId'' (jfirst (jfield credential ''storeIds''))) (\<lambda>storeId.
      and_then (required_text ''producer.service'' (jfield producer ''service'')) (\<lambda>producerService.
      and_then (required_text ''producer.environment'' (jfield producer ''environment'')) (\<lambda>producerEnvironment.
      and_then (required_text ''source'' (jfield credential ''source'')) (\<lambda>source.
      Inr \<lparr>sk_credentialId = credentialId, sk_token = token, sk_merchantId = merchantId, sk_storeId = storeId,
           sk_producerService = producerService, sk_producerEnvironment = producerEnvironment, sk_source = source\<rparr>))))))))"

definition requiredIngestionCredential :: "(string \<Rightarrow> json option) \<Rightarrow> smoke_env \<Rightarrow> script_error + smoke_credential" where
  "requiredIngestionCredential parse env =
     and_then (requiredEnv ''DATA_DYNA_INGESTION_CREDENTIALS_JSON'' (sm_credentials env)) (\<lambda>rawCredentials.
     case parse rawCredentials of
       None \<Rightarrow> Inl (plain_error (''Runtime smoke precondition failed: DATA_DYNA_INGESTION_CREDENTIALS_JSON must be valid JSON ''
         @ ''with at least one local/test credential.''))
     | Some (JArr (credential # rest)) \<Rightarrow> smoke_credential_of (Some credential)
     | Some _ \<Rightarrow> Inl (plain_error (''Runtime smoke precondition failed: DATA_DYNA_INGESTION_CREDENTIALS_JSON must contain ''
         @ ''at least one credential.'')))"

definition formatHost :: "string \<Rightarrow> string" where
  "formatHost host = (if CHR '':'' \<in> set host \<and> \<not> starts_with ''['' host then ''['' @ host @ '']'' else host)"

definition or_default :: "string option \<Rightarrow> string \<Rightarrow> string" where
  "or_default v d = (let t = js_trim (or_else v []) in if t = [] then d else t)"

definition runtimeBaseUrl :: "smoke_env \<Rightarrow> string" where
  "runtimeBaseUrl env =
     (let host = or_default (sm_httpHost env) ''127.0.0.1''; port = or_default (sm_httpPort env) ''3000'';
          clientHost = (if host = ''0.0.0.0'' \<or> host = ''::'' then ''127.0.0.1'' else host) in
      ''http://'' @ formatHost clientHost @ '':'' @ port)"

section \<open>HTTP and the database\<close>

text \<open>The body of a response: none, a JSON text, or another text.\<close>

datatype body_text = Empty_body | Json_body json | Other_body string

record http_response =
  hr_status :: nat
  hr_body :: body_text
  hr_wwwAuthenticate :: "string option"

record http_request =
  ht_method :: string
  ht_path :: string
  ht_headers :: "(string \<times> string) list"
  ht_payload :: "json option"

datatype smoke_count = Count_raw "string list" | Count_invalid string

datatype smoke_delete = Delete_raw "string list" "string list" | Delete_invalid string

text \<open>\<open>sd_tables\<close>: whether both tables are there; \<open>sd_count\<close>: the count in the first row, if there is one.\<close>

record 'w smoke_io =
  sd_fetch :: "string \<Rightarrow> http_request \<Rightarrow> 'w \<Rightarrow> (string + http_response) \<times> 'w"
  sd_connect :: "'w \<Rightarrow> (string + unit) \<times> 'w"
  sd_end :: "'w \<Rightarrow> (string + unit) \<times> 'w"
  sd_tables :: "'w \<Rightarrow> (string + bool) \<times> 'w"
  sd_count :: "smoke_count \<Rightarrow> 'w \<Rightarrow> (string + nat option) \<times> 'w"
  sd_delete :: "smoke_delete \<Rightarrow> 'w \<Rightarrow> (string + unit) \<times> 'w"

record smoke_response =
  sp_status :: nat
  sp_body :: "json option"
  sp_wwwAuthenticate :: "string option"

definition smoke_request :: "string \<Rightarrow> json option \<Rightarrow> (string \<times> string) list \<Rightarrow> http_request" where
  "smoke_request path payload extraHeaders =
     \<lparr>ht_method = (if payload = None then ''GET'' else ''POST''), ht_path = path,
      ht_headers = (if payload = None then extraHeaders else (''content-type'', ''application/json'') # extraHeaders),
      ht_payload = payload\<rparr>"

definition requestJson ::
  "'w smoke_io \<Rightarrow> smoke_run \<Rightarrow> string \<Rightarrow> string \<Rightarrow> json option \<Rightarrow> (string \<times> string) list \<Rightarrow> ('w, smoke_response) script_act" where
  "requestJson io run label path payload extraHeaders =
     act_bind (act_catch (on_db (sd_fetch io (sn_baseUrl run) (smoke_request path payload extraHeaders)))
       (\<lambda>e. fail (label @ '' failed before HTTP response from '' @ sn_baseUrl run @ '': '' @ sx_message e
          @ ''. Start the runtime server before running npm run smoke:runtime.''))) (\<lambda>response.
     case hr_body response of
       Other_body t \<Rightarrow> fail (label @ '' returned non-JSON response with status '' @ nat_text (hr_status response) @ '': '' @ t)
     | Empty_body \<Rightarrow> act_return \<lparr>sp_status = hr_status response, sp_body = None, sp_wwwAuthenticate = hr_wwwAuthenticate response\<rparr>
     | Json_body body \<Rightarrow>
         act_return \<lparr>sp_status = hr_status response, sp_body = Some body, sp_wwwAuthenticate = hr_wwwAuthenticate response\<rparr>)"

section \<open>Assertions\<close>

definition expect :: "bool \<Rightarrow> string \<Rightarrow> ('w, unit) script_act" where
  "expect b label = (if b then act_return () else fail label)"

definition expect_all :: "(bool \<times> string) list \<Rightarrow> ('w, unit) script_act" where
  "expect_all = act_each (\<lambda>(b, label). expect b label)"

text \<open>Reading a property of the body throws a \<open>TypeError\<close> when there is none.\<close>

definition response_body :: "smoke_response \<Rightarrow> ('w, json option) script_act" where
  "response_body response =
     (case sp_body response of
        None \<Rightarrow> fail ''Cannot read properties of undefined''
      | Some JNull \<Rightarrow> fail ''Cannot read properties of null''
      | Some body \<Rightarrow> act_return (Some body))"

abbreviation jnumber :: "int \<Rightarrow> json option" where
  "jnumber n \<equiv> Some (JNum (Finite (of_int n)))"

definition assertUnauthorized :: "smoke_response \<Rightarrow> string \<Rightarrow> ('w, unit) script_act" where
  "assertUnauthorized response label =
     act_then (expect_all [(sp_status response = 401, label @ '' status''),
       (sp_wwwAuthenticate response = Some ''Bearer'', label @ '' WWW-Authenticate'')])
     (act_bind (response_body response) (\<lambda>body.
      expect_all [(jfield body ''ok'' = Some (JBool False), label @ '' ok''), (jfield body ''status'' = jnumber 401, label @ '' body status''),
        (jfield (jfield body ''error'') ''code'' = Some (JStr ''UNAUTHORIZED''), label @ '' error code''),
        (jfield (jfield body ''error'') ''message'' = Some (JStr ''Unauthorized''), label @ '' error message'')]))"

definition assertMigratedSchema :: "'w smoke_io \<Rightarrow> ('w, unit) script_act" where
  "assertMigratedSchema io =
     act_bind (on_db (sd_tables io)) (\<lambda>migrated.
     if migrated then act_return ()
     else fail (''Runtime smoke precondition failed: migrated raw event tables are missing. ''
       @ ''Run npm run test:db:migrations before npm run smoke:runtime.''))"

definition cleanFixtures :: "'w smoke_io \<Rightarrow> smoke_run \<Rightarrow> ('w, unit) script_act" where
  "cleanFixtures io run =
     act_then (on_db (sd_delete io (Delete_raw (allIdempotencyKeys run) (allEventIds run))))
              (on_db (sd_delete io (Delete_invalid (sn_runId run))))"

definition expect_rawEventCount :: "'w smoke_io \<Rightarrow> string list \<Rightarrow> nat \<Rightarrow> string \<Rightarrow> ('w, unit) script_act" where
  "expect_rawEventCount io keys n label = act_bind (on_db (sd_count io (Count_raw keys))) (\<lambda>c. expect (c = Some n) label)"

definition expect_invalidEventCount :: "'w smoke_io \<Rightarrow> smoke_run \<Rightarrow> nat \<Rightarrow> string \<Rightarrow> ('w, unit) script_act" where
  "expect_invalidEventCount io run n label = act_bind (on_db (sd_count io (Count_invalid (sn_runId run)))) (\<lambda>c. expect (c = Some n) label)"

section \<open>Events\<close>

definition authorizationHeader :: "smoke_run \<Rightarrow> (string \<times> string) list" where
  "authorizationHeader run = [(''authorization'', ''Bearer '' @ sk_token (sn_credential run))]"

text \<open>\<open>validEvent\<close> with the merchant and the store it is for.\<close>

definition tenant_event :: "smoke_run \<Rightarrow> string \<Rightarrow> string \<Rightarrow> string \<Rightarrow> string \<Rightarrow> json" where
  "tenant_event run merchantId storeId eventId eventIdempotencyKey =
     (let cr = sn_credential run; runId = sn_runId run in JObj
       [(''version'', JStr ''event-contract.v1''), (''source'', JStr (sk_source cr)), (''domain'', JStr ''transaction_scene''),
        (''name'', JStr ''pos.order_paid''), (''occurredAt'', JStr ''2026-05-02T10:00:00.000Z''),
        (''producer'', JObj [(''service'', JStr (sk_producerService cr)), (''environment'', JStr (sk_producerEnvironment cr)),
           (''emittedAt'', JStr ''2026-05-02T10:00:01.000Z'')]),
        (''identity'', JObj [(''brandId'', JStr ''brand-runtime-smoke''), (''merchantId'', JStr merchantId), (''storeId'', JStr storeId),
           (''memberId'', JStr (runId @ '':member'')), (''actorType'', JStr ''cashier'')]),
        (''correlation'', JObj [(''eventId'', JStr eventId), (''traceId'', JStr (runId @ '':trace''))]),
        (''entity'', JObj [(''type'', JStr ''order''), (''id'', JStr (runId @ '':order''))]),
        (''properties'', JObj [(''amount'', JNum (Finite (85 / 2))), (''paymentMethod'', JStr ''cash''), (''smokeRunId'', JStr runId)]),
        (''idempotency'', JObj [(''key'', JStr eventIdempotencyKey), (''scope'', JStr ''store'')])])"

definition smoke_validEvent :: "smoke_run \<Rightarrow> string \<Rightarrow> string \<Rightarrow> json" where
  "smoke_validEvent run = tenant_event run (sk_merchantId (sn_credential run)) (sk_storeId (sn_credential run))"

definition mismatched_event :: "smoke_run \<Rightarrow> json" where
  "mismatched_event run = tenant_event run (sk_merchantId (sn_credential run) @ ''-mismatch'') (sk_storeId (sn_credential run) @ ''-mismatch'')
     (tenantMismatchEventId run) (tenantMismatchIdempotencyKey run)"

definition invalidPayload :: "smoke_run \<Rightarrow> json" where
  "invalidPayload run = JObj [(''smokeRunId'', JStr (sn_runId run)), (''invalidSingle'', JBool True)]"

text \<open>\<open>assert.deepEqual\<close>: the order of the fields of an object does not matter.\<close>

lemma size_member: "(v :: json) \<in> set vs \<Longrightarrow> size v < Suc (size_list size vs)"
  and size_field: "(k :: string, v :: json) \<in> set fs \<Longrightarrow> size v < Suc (size_list (size_prod (\<lambda>x. 0) size) fs)"
  by (induction vs) (auto, induction fs, auto)

function (sequential) deep_equal :: "json \<Rightarrow> json \<Rightarrow> bool" where
  "deep_equal (JObj fs) (JObj gs) \<longleftrightarrow> length fs = length gs
     \<and> list_all (\<lambda>(k, v). case get_prop gs k of None \<Rightarrow> False | Some w \<Rightarrow> deep_equal v w) fs"
| "deep_equal (JArr vs) (JArr ws) \<longleftrightarrow> length vs = length ws \<and> list_all (\<lambda>(v, w). deep_equal v w) (zip vs ws)"
| "deep_equal v w \<longleftrightarrow> v = w"
  by pat_completeness auto
termination
  by (relation "measure (\<lambda>(v, w). size v)") (auto dest: set_zip_leftD intro: size_member size_field)

definition is_text :: "json option \<Rightarrow> bool" where
  "is_text v \<longleftrightarrow> (case v of Some (JStr t) \<Rightarrow> True | _ \<Rightarrow> False)"

section \<open>The test\<close>

definition check_health :: "'w smoke_io \<Rightarrow> smoke_run \<Rightarrow> ('w, unit) script_act" where
  "check_health io run =
     act_bind (requestJson io run ''GET /healthz'' ''/healthz'' None []) (\<lambda>health.
     act_then (expect (sp_status health = 200) ''GET /healthz status'')
     (act_bind (response_body health) (\<lambda>body.
      expect_all [(jfield body ''ok'' = Some (JBool True), ''GET /healthz ok''),
        (jfield body ''service'' = Some (JStr ''data-dyna''), ''GET /healthz service''),
        (is_text (jfield body ''runtimeEnvironment''), ''GET /healthz runtimeEnvironment'')])))"

definition check_unauthorized :: "'w smoke_io \<Rightarrow> smoke_run \<Rightarrow> string \<Rightarrow> (string \<times> string) list \<Rightarrow> ('w, unit) script_act" where
  "check_unauthorized io run what headers =
     act_bind (requestJson io run (''POST /events '' @ what) ''/events''
       (Some (smoke_validEvent run (firstEventId run) (idempotencyKey run))) headers) (\<lambda>response.
     act_then (assertUnauthorized response (''POST /events '' @ what))
    (act_then (expect_rawEventCount io (allIdempotencyKeys run) 0 (what @ '' raw event count''))
              (expect_invalidEventCount io run 0 (what @ '' invalid event count''))))"

definition check_accepted :: "'w smoke_io \<Rightarrow> smoke_run \<Rightarrow> ('w, unit) script_act" where
  "check_accepted io run =
     (let cr = sn_credential run in
      act_bind (requestJson io run ''POST /events accepted'' ''/events''
        (Some (smoke_validEvent run (firstEventId run) (idempotencyKey run))) (authorizationHeader run)) (\<lambda>accepted.
      act_then (expect (sp_status accepted = 202) ''POST /events accepted status'')
     (act_then (act_bind (response_body accepted) (\<lambda>body. let persisted = jfield body ''persisted'' in
        expect_all [(jfield body ''ok'' = Some (JBool True), ''POST /events accepted ok''),
          (jfield body ''status'' = jnumber 202, ''POST /events accepted body status''),
          (jfield body ''duplicate'' = Some (JBool False), ''POST /events accepted duplicate''),
          (jfield persisted ''eventId'' = Some (JStr (firstEventId run)), ''POST /events accepted eventId''),
          (jfield persisted ''idempotencyKey'' = Some (JStr (idempotencyKey run)), ''POST /events accepted idempotencyKey''),
          (jfield persisted ''credentialId'' = Some (JStr (sk_credentialId cr)), ''POST /events accepted credentialId''),
          (jfield persisted ''merchantId'' = Some (JStr (sk_merchantId cr)), ''POST /events accepted merchantId''),
          (jfield persisted ''storeId'' = Some (JStr (sk_storeId cr)), ''POST /events accepted storeId''),
          (jfield persisted ''producerEnvironment'' = Some (JStr (sk_producerEnvironment cr)),
             ''POST /events accepted producerEnvironment'')]))
      (expect_rawEventCount io (allIdempotencyKeys run) 1 ''accepted raw event count''))))"

definition check_duplicate :: "'w smoke_io \<Rightarrow> smoke_run \<Rightarrow> ('w, unit) script_act" where
  "check_duplicate io run =
     act_bind (requestJson io run ''POST /events duplicate'' ''/events''
       (Some (smoke_validEvent run (duplicateEventId run) (idempotencyKey run))) (authorizationHeader run)) (\<lambda>duplicate.
     act_then (expect (sp_status duplicate = 202) ''POST /events duplicate status'')
    (act_then (act_bind (response_body duplicate) (\<lambda>body. let persisted = jfield body ''persisted'' in
       expect_all [(jfield body ''ok'' = Some (JBool True), ''POST /events duplicate ok''),
         (jfield body ''status'' = jnumber 202, ''POST /events duplicate body status''),
         (jfield body ''duplicate'' = Some (JBool True), ''POST /events duplicate flag''),
         (jfield persisted ''eventId'' = Some (JStr (firstEventId run)), ''POST /events duplicate persisted eventId''),
         (jfield persisted ''idempotencyKey'' = Some (JStr (idempotencyKey run)), ''POST /events duplicate idempotencyKey'')]))
     (expect_rawEventCount io [idempotencyKey run] 1 ''duplicate raw event count'')))"

definition check_tenantMismatch :: "'w smoke_io \<Rightarrow> smoke_run \<Rightarrow> ('w, unit) script_act" where
  "check_tenantMismatch io run =
     act_bind (requestJson io run ''POST /events tenant mismatch'' ''/events'' (Some (mismatched_event run)) (authorizationHeader run))
       (\<lambda>tenantMismatch.
     act_then (expect (sp_status tenantMismatch = 403) ''POST /events tenant mismatch status'')
    (act_then (act_bind (response_body tenantMismatch) (\<lambda>body.
       expect_all [(jfield body ''ok'' = Some (JBool False), ''POST /events tenant mismatch ok''),
         (jfield body ''status'' = jnumber 403, ''POST /events tenant mismatch body status''),
         (jfield (jfield body ''error'') ''code'' = Some (JStr ''TENANT_MISMATCH''), ''POST /events tenant mismatch code''),
         (jfield (jfield body ''invalid'') ''credentialId'' = Some (JStr (sk_credentialId (sn_credential run))),
            ''POST /events tenant mismatch credential audit''),
         (jfield (jfield body ''invalid'') ''reasonCode'' = Some (JStr ''TENANT_MISMATCH''), ''POST /events tenant mismatch reason code'')]))
    (act_then (expect_rawEventCount io [tenantMismatchIdempotencyKey run] 0 ''tenant mismatch raw event count'')
              (expect_invalidEventCount io run 1 ''tenant mismatch invalid event count''))))"

definition nonempty_text :: "json option \<Rightarrow> bool" where
  "nonempty_text v \<longleftrightarrow> (case v of Some (JStr t) \<Rightarrow> t \<noteq> [] | _ \<Rightarrow> False)"

definition check_invalid :: "'w smoke_io \<Rightarrow> smoke_run \<Rightarrow> ('w, unit) script_act" where
  "check_invalid io run =
     act_bind (requestJson io run ''POST /events invalid'' ''/events'' (Some (invalidPayload run)) (authorizationHeader run)) (\<lambda>invalid.
     act_then (expect (sp_status invalid = 400) ''POST /events invalid status'')
     (act_bind (response_body invalid) (\<lambda>body. let audited = jfield body ''invalid''; reason = jfield audited ''reason'' in
       expect_all [(jfield body ''ok'' = Some (JBool False), ''POST /events invalid ok''),
         (jfield body ''status'' = jnumber 400, ''POST /events invalid body status''),
         (case jfield audited ''payload'' of None \<Rightarrow> False | Some v \<Rightarrow> deep_equal v (invalidPayload run), ''POST /events invalid payload''),
         (jfield audited ''credentialId'' = Some (JStr (sk_credentialId (sn_credential run))), ''POST /events invalid credential audit''),
         (is_text reason, ''POST /events invalid reason''),
         (nonempty_text reason, ''POST /events invalid reason non-empty'')])))"

definition check_batch :: "'w smoke_io \<Rightarrow> smoke_run \<Rightarrow> ('w, unit) script_act" where
  "check_batch io run =
     act_bind (requestJson io run ''POST /events/batch'' ''/events/batch''
       (Some (JArr [smoke_validEvent run (batchEventId run) (batchIdempotencyKey run)])) (authorizationHeader run)) (\<lambda>batch.
     act_then (expect (sp_status batch = 207) ''POST /events/batch status'')
    (act_then (act_bind (response_body batch) (\<lambda>body.
       let results = jfield body ''results''; first = jfirst results; persisted = jfield first ''persisted'' in
       expect_all [(jfield body ''ok'' = Some (JBool True), ''POST /events/batch ok''),
         (jfield body ''status'' = jnumber 207, ''POST /events/batch body status''),
         (jlength results = jnumber 1, ''POST /events/batch result count''),
         (jfield first ''ok'' = Some (JBool True), ''POST /events/batch first ok''),
         (jfield first ''status'' = jnumber 202, ''POST /events/batch first status''),
         (jfield first ''duplicate'' = Some (JBool False), ''POST /events/batch first duplicate''),
         (jfield persisted ''eventId'' = Some (JStr (batchEventId run)), ''POST /events/batch eventId''),
         (jfield persisted ''idempotencyKey'' = Some (JStr (batchIdempotencyKey run)), ''POST /events/batch idempotencyKey''),
         (jfield persisted ''credentialId'' = Some (JStr (sk_credentialId (sn_credential run))), ''POST /events/batch credentialId'')]))
    (act_then (expect_rawEventCount io (allIdempotencyKeys run) 2 ''batch raw event count'')
              (expect_invalidEventCount io run 2 ''invalid event count''))))"

definition smoke_body :: "'w smoke_io \<Rightarrow> smoke_run \<Rightarrow> ('w, unit) script_act" where
  "smoke_body io run =
     act_each (\<lambda>step. step)
       [assertMigratedSchema io, cleanFixtures io run, check_health io run,
        check_unauthorized io run ''missing credential'' [],
        check_unauthorized io run ''invalid credential'' [(''authorization'', ''Bearer '' @ sn_runId run @ '':invalid-token'')],
        check_accepted io run, check_duplicate io run, check_tenantMismatch io run, check_invalid io run, check_batch io run]"

definition smoke_main :: "'w smoke_io \<Rightarrow> smoke_run \<Rightarrow> ('w, unit) script_act" where
  "smoke_main io run =
     act_then (write_out (''Data Dyna runtime smoke preconditions: run migrations first, start npm run app:start separately, ''
       @ ''and set DATA_DYNA_DATABASE_URL plus DATA_DYNA_INGESTION_CREDENTIALS_JSON for the migrated local/test runtime.''))
    (act_then (on_db (sd_connect io))
    (act_then (act_finally (smoke_body io run)
        (act_then (act_catch (cleanFixtures io run) (\<lambda>_. act_return ())) (on_db (sd_end io))))
     (write_out (''Runtime smoke passed against '' @ sn_baseUrl run @ '' with run '' @ sn_runId run @ ''.''))))"

text \<open>The module and its exit code; \<open>io_for\<close> is what the client of a database does. An error before \<open>main\<close> is not
caught; Node prints it and exits with 1 as well.\<close>

definition smoke_run_of :: "(string \<Rightarrow> json option) \<Rightarrow> smoke_env \<Rightarrow> string \<Rightarrow> script_error + string \<times> smoke_run" where
  "smoke_run_of parse env now =
     and_then (requiredEnv ''DATA_DYNA_DATABASE_URL'' (sm_databaseUrl env)) (\<lambda>address.
     and_then (requiredIngestionCredential parse env) (\<lambda>credential.
     Inr (address, \<lparr>sn_runId = ''runtime-smoke-'' @ now, sn_credential = credential, sn_baseUrl = runtimeBaseUrl env\<rparr>)))"

definition smoke_test ::
  "(string \<Rightarrow> json option) \<Rightarrow> smoke_env \<Rightarrow> string \<Rightarrow> (string \<Rightarrow> 'w smoke_io) \<Rightarrow> 'w script_world \<Rightarrow> nat \<times> 'w script_world" where
  "smoke_test parse env now io_for st =
     (case smoke_run_of parse env now of
        Inl e \<Rightarrow> (1, snd (write_err (sx_message e) st))
      | Inr (address, run) \<Rightarrow>
          (case smoke_main (io_for address) run st of
             (Inr _, st') \<Rightarrow> (0, st')
           | (Inl e, st') \<Rightarrow> (1, snd (write_err (sx_message e) st'))))"

section \<open>The test against the runtime\<close>

text \<open>The server and its database: what \<open>post_events\<close> and \<open>post_events_batch\<close> work on, and the requests so far, each of
which has a clock. Counting and deleting is what the SQL of the script says; \<open>@>\<close> is containment of JSON.\<close>

record smoke_world =
  rw_route :: "json pg_tables route_state"
  rw_requests :: nat

definition tables_of :: "smoke_world \<Rightarrow> json pg_tables" where
  "tables_of w = ist_store (rs_ingest (rw_route w))"

fun holds_run :: "string \<Rightarrow> json audited_payload \<Rightarrow> bool" where
  "holds_run runId (PostedPayload p) \<longleftrightarrow> jfield (Some p) ''smokeRunId'' = Some (JStr runId)
     \<or> jfield (jfield (Some p) ''properties'') ''smokeRunId'' = Some (JStr runId)"
| "holds_run runId (ParsedPayload e) \<longleftrightarrow> get_prop (ev_properties e) ''smokeRunId'' = Some (JStr runId)"

fun count_rows :: "smoke_count \<Rightarrow> json pg_tables \<Rightarrow> nat" where
  "count_rows (Count_raw keys) t = length (filter (\<lambda>row. idempotency_key row \<in> set keys) (raw_events t))"
| "count_rows (Count_invalid runId) t = length (filter (\<lambda>r. holds_run runId (ir_payload r)) (invalid_raw_events t))"

fun delete_rows :: "smoke_delete \<Rightarrow> json pg_tables \<Rightarrow> json pg_tables" where
  "delete_rows (Delete_raw keys ids) t =
     t\<lparr>raw_events := filter (\<lambda>row. \<not> (idempotency_key row \<in> set keys \<or> event_id row \<in> set ids)) (raw_events t)\<rparr>"
| "delete_rows (Delete_invalid runId) t =
     t\<lparr>invalid_raw_events := filter (\<lambda>r. \<not> holds_run runId (ir_payload r)) (invalid_raw_events t)\<rparr>"

text \<open>A reply on the wire: only a refused credential sets the header.\<close>

definition http_reply :: "json json_forms \<Rightarrow> json route_reply \<Rightarrow> http_response" where
  "http_reply jf reply =
     \<lparr>hr_status = reply_status reply,
      hr_body = (case reply_body jf reply of None \<Rightarrow> Empty_body | Some body \<Rightarrow> Json_body body),
      hr_wwwAuthenticate = (case reply of UnauthorizedReply \<Rightarrow> Some ''Bearer'' | _ \<Rightarrow> None)\<rparr>"

fun environment_name :: "RuntimeEnvironment \<Rightarrow> string" where
  "environment_name Run_local = ''local''"
| "environment_name Run_test = ''test''"

definition health_response :: "RuntimeEnvironment \<Rightarrow> http_response" where
  "health_response env =
     \<lparr>hr_status = 200, hr_body = Json_body (JObj [(''ok'', JBool True), (''service'', JStr ''data-dyna''),
        (''runtimeEnvironment'', JStr (environment_name env))]), hr_wwwAuthenticate = None\<rparr>"

definition not_found :: http_response where
  "not_found = \<lparr>hr_status = 404, hr_body = Json_body (JObj [(''statusCode'', JNum (Finite 404))]), hr_wwwAuthenticate = None\<rparr>"

definition http_route_request :: "http_request \<Rightarrow> 'b \<Rightarrow> 'b route_request" where
  "http_route_request rq body =
     \<lparr>req_method = ht_method rq, req_authorization = header_of (ht_headers rq) ''authorization'',
      req_xRequestId = header_of (ht_headers rq) ''x-request-id'', req_xCorrelationId = header_of (ht_headers rq) ''x-correlation-id'',
      req_body = body\<rparr>"

fun batch_payload :: "json \<Rightarrow> json BatchPayload" where
  "batch_payload (JArr ps) = ArrayPayload ps"
| "batch_payload p = NotAnArray p"

definition runtime_fetch ::
  "(json \<Rightarrow> string list + DataDynaEvent) \<Rightarrow> json json_forms \<Rightarrow> (json pg_tables, json) data_dyna_app \<Rightarrow> (nat \<Rightarrow> route_clock)
   \<Rightarrow> http_request \<Rightarrow> smoke_world \<Rightarrow> http_response \<times> smoke_world" where
  "runtime_fetch safeParse jf app clk rq w =
     (let n = rw_requests w; w = w\<lparr>rw_requests := Suc n\<rparr> in
      if ht_method rq = ''GET'' \<and> ht_path rq = ''/healthz'' then (health_response (ap_healthEnvironment app), w)
      else (case (ap_events app, ht_payload rq) of
              (Some dep, Some payload) \<Rightarrow>
                if ht_path rq = ''/events'' then
                  (let (reply, st) = post_events safeParse dep (clk n) (http_route_request rq payload) (rw_route w)
                   in (http_reply jf reply, w\<lparr>rw_route := st\<rparr>))
                else if ht_path rq = ''/events/batch'' then
                  (let (reply, st) = post_events_batch safeParse dep (clk n) (http_route_request rq (batch_payload payload)) (rw_route w)
                   in (http_reply jf reply, w\<lparr>rw_route := st\<rparr>))
                else (not_found, w)
            | _ \<Rightarrow> (not_found, w)))"

definition on_tables :: "(json pg_tables \<Rightarrow> json pg_tables) \<Rightarrow> smoke_world \<Rightarrow> smoke_world" where
  "on_tables f w = w\<lparr>rw_route := (rw_route w)\<lparr>rs_ingest := (rs_ingest (rw_route w))\<lparr>ist_store := f (tables_of w)\<rparr>\<rparr>\<rparr>"

definition runtime_io ::
  "(json \<Rightarrow> string list + DataDynaEvent) \<Rightarrow> json json_forms \<Rightarrow> (json pg_tables, json) data_dyna_app \<Rightarrow> (nat \<Rightarrow> route_clock)
   \<Rightarrow> string \<Rightarrow> smoke_world smoke_io" where
  "runtime_io safeParse jf app clk address =
     \<lparr>sd_fetch = (\<lambda>url rq w. if url \<noteq> address then (Inl ''fetch failed'', w)
        else case runtime_fetch safeParse jf app clk rq w of (response, w') \<Rightarrow> (Inr response, w')),
      sd_connect = (\<lambda>w. (Inr (), w)), sd_end = (\<lambda>w. (Inr (), w)), sd_tables = (\<lambda>w. (Inr True, w)),
      sd_count = (\<lambda>c w. (Inr (Some (count_rows c (tables_of w))), w)),
      sd_delete = (\<lambda>d w. (Inr (), on_tables (delete_rows d) w))\<rparr>"

end
