(* ===== verification/SmokeProperties.thy ===== *)
theory SmokeProperties
  imports SmokeTest RouteProperties
begin

text \<open>
  A service that is configured as the smoke test expects passes it, and the test leaves the database as it
  found it.
\<close>

section \<open>What the test relies on\<close>

text \<open>The event a payload of the test is parsed to.\<close>

definition smoke_event :: "smoke_run \<Rightarrow> EventSource \<Rightarrow> Environment \<Rightarrow> string \<Rightarrow> string \<Rightarrow> string \<Rightarrow> string \<Rightarrow> DataDynaEvent" where
  "smoke_event run src env merchantId storeId eventId eventKey =
     \<lparr>ev_version = V_event_contract_v1, ev_source = src, ev_domain = Dom_transaction_scene, ev_name = EN_pos_order_paid,
      ev_occurredAt = ''2026-05-02T10:00:00.000Z'',
      ev_producer = \<lparr>prd_service = sk_producerService (sn_credential run), prd_app = None, prd_environment = Some env,
        prd_emittedAt = ''2026-05-02T10:00:01.000Z'', prd_schemaRef = None\<rparr>,
      ev_identity = \<lparr>idt_brandId = Some ''brand-runtime-smoke'', idt_storeId = Some storeId, idt_merchantId = Some merchantId,
        idt_memberId = Some (sn_runId run @ '':member''), idt_customerId = None, idt_deviceId = None, idt_actorType = Some Act_cashier\<rparr>,
      ev_correlation = \<lparr>cor_eventId = eventId, cor_traceId = Some (sn_runId run @ '':trace''), cor_sessionId = None,
        cor_requestId = None, cor_causationId = None, cor_correlationId = None\<rparr>,
      ev_entity = \<lparr>ent_type = Ent_order, ent_id = sn_runId run @ '':order'', ent_version = None\<rparr>,
      ev_properties = [(''amount'', JNum (Finite (85 / 2))), (''paymentMethod'', JStr ''cash''), (''smokeRunId'', JStr (sn_runId run))],
      ev_idempotency = \<lparr>idm_key = eventKey, idm_scope = Scope_store\<rparr>\<rparr>"

text \<open>zod reads the events of the test, and refuses its invalid payload with a reason.\<close>

definition smoke_parser :: "(json \<Rightarrow> string list + DataDynaEvent) \<Rightarrow> smoke_run \<Rightarrow> EventSource \<Rightarrow> Environment \<Rightarrow> bool" where
  "smoke_parser safeParse run src env \<longleftrightarrow>
     (\<forall>m s i k. m \<noteq> [] \<and> s \<noteq> [] \<and> i \<noteq> [] \<and> k \<noteq> [] \<longrightarrow> safeParse (tenant_event run m s i k) = Inr (smoke_event run src env m s i k))
     \<and> (\<exists>issues. safeParse (invalidPayload run) = Inl issues \<and> join ''; '' issues \<noteq> [])"

text \<open>The JSON of a record has its fields, those that are set.\<close>

definition smoke_forms :: "json json_forms \<Rightarrow> bool" where
  "smoke_forms jf \<longleftrightarrow>
     (\<forall>r. jfield (Some (jf_record jf r)) ''eventId'' = Some (JStr (re_eventId r))
       \<and> jfield (Some (jf_record jf r)) ''idempotencyKey'' = Some (JStr (re_idempotencyKey r))
       \<and> jfield (Some (jf_record jf r)) ''credentialId'' = jstr (re_credentialId r)
       \<and> jfield (Some (jf_record jf r)) ''merchantId'' = jstr (re_merchantId r)
       \<and> jfield (Some (jf_record jf r)) ''storeId'' = jstr (re_storeId r)
       \<and> jfield (Some (jf_record jf r)) ''producerEnvironment'' = jstr (map_option environment_text (re_producerEnvironment r)))
     \<and> (\<forall>i. jfield (Some (jf_invalid jf i)) ''reason'' = Some (JStr (ir_reason i))
       \<and> jfield (Some (jf_invalid jf i)) ''credentialId'' = jstr (ir_credentialId i)
       \<and> jfield (Some (jf_invalid jf i)) ''reasonCode'' = jstr (ir_reasonCode i)
       \<and> (\<forall>p. ir_payload i = PostedPayload p \<longrightarrow> jfield (Some (jf_invalid jf i)) ''payload'' = Some p))"

text \<open>PostgreSQL can store what the test sends; JSONB keeps the fields of a payload.\<close>

definition smoke_database :: "json pg_server \<Rightarrow> smoke_run \<Rightarrow> EventSource \<Rightarrow> Environment \<Rightarrow> bool" where
  "smoke_database srv run src env \<longleftrightarrow>
     (\<forall>m s i k. db_storable srv (smoke_event run src env m s i k))
     \<and> (\<forall>p reason ctx. holds_run (sn_runId run) p \<longrightarrow> db_auditable srv p reason ctx \<and> holds_run (sn_runId run) (db_payload srv p))
     \<and> (\<exists>q. db_payload srv (PostedPayload (invalidPayload run)) = PostedPayload q \<and> deep_equal q (invalidPayload run))"

text \<open>The runtime has the credential of the test, on its database.\<close>

definition knows_credential :: "IngestionCredential list \<Rightarrow> IngestionCredential \<Rightarrow> smoke_run \<Rightarrow> EventSource \<Rightarrow> Environment \<Rightarrow> bool" where
  "knows_credential credentials cr run src env \<longleftrightarrow>
     (\<forall>c \<in> set (sn_runId run). \<not> js_space c) \<and> cr \<in> set credentials \<and> distinct (map cr_token credentials) \<and> sn_runId run @ '':invalid-token'' \<notin> cr_token ` set credentials
     \<and> cr_token cr \<noteq> [] \<and> (\<forall>c \<in> set (cr_token cr). \<not> js_space c)
     \<and> (let sk = sn_credential run in
        sk_credentialId sk = cr_credentialId cr \<and> sk_token sk = cr_token cr \<and> sk_merchantId sk = cr_merchantId cr \<and> cr_merchantId cr \<noteq> []
        \<and> sk_storeId sk \<in> set (cr_storeIds cr) \<and> sk_storeId sk \<noteq> [] \<and> sk_producerService sk = cr_producerService cr
        \<and> sk_producerEnvironment sk = cr_producerEnvironment cr \<and> sk_source sk = cr_source cr
        \<and> environment_text env = cr_producerEnvironment cr \<and> source_text src = cr_source cr)"

definition serves_smoke ::
  "(json \<Rightarrow> string list + DataDynaEvent) \<Rightarrow> json json_forms \<Rightarrow> (json pg_tables, json) data_dyna_app \<Rightarrow> json pg_server \<Rightarrow> smoke_run
   \<Rightarrow> (json pg_tables, json) EventsRouteOptions \<Rightarrow> IngestionCredential \<Rightarrow> EventSource \<Rightarrow> Environment \<Rightarrow> bool" where
  "serves_smoke safeParse jf app srv run dep cr src env \<longleftrightarrow>
     smoke_parser safeParse run src env \<and> smoke_forms jf \<and> smoke_database srv run src env
     \<and> ap_events app = Some dep \<and> opt_ops dep = pg_ops srv \<and> knows_credential (opt_credentials dep) cr run src env"

section \<open>Steps\<close>

lemma expect_all_ok: "list_all fst xs \<Longrightarrow> expect_all xs st = (Inr (), st)"
  by (induction xs) (auto simp: expect_all_def expect_def act_then_def act_bind_def act_return_def)

lemma expect_ok: "b \<Longrightarrow> expect b label st = (Inr (), st)"
  by (simp add: expect_def act_return_def)

lemma act_then_ok: "m st = (Inr a, st') \<Longrightarrow> act_then m n st = n st'"
  and act_bind_ok: "m st = (Inr a, st') \<Longrightarrow> act_bind m f st = f a st'"
  by (simp_all add: act_then_def act_bind_def)

lemma response_body_ok: "sp_body r = Some b \<Longrightarrow> b \<noteq> JNull \<Longrightarrow> response_body r st = (Inr (Some b), st)"
  by (cases b) (simp_all add: response_body_def act_return_def)

lemma requestJson_ok:
  assumes "sd_fetch io (sn_baseUrl run) (smoke_request path payload headers) (wd_db st) = (Inr response, w)" "hr_body response = Json_body body"
  shows "requestJson io run label path payload headers st
    = (Inr \<lparr>sp_status = hr_status response, sp_body = Some body, sp_wwwAuthenticate = hr_wwwAuthenticate response\<rparr>, st\<lparr>wd_db := w\<rparr>)"
  using assms by (simp add: requestJson_def act_bind_def act_catch_def on_db_def act_return_def)

lemma runtime_io_sel:
  "sd_fetch (runtime_io safeParse jf app clk address) address rq w = (case runtime_fetch safeParse jf app clk rq w of (response, w') \<Rightarrow> (Inr response, w'))"
  "sd_connect (runtime_io safeParse jf app clk address) w = (Inr (), w)" "sd_end (runtime_io safeParse jf app clk address) w = (Inr (), w)"
  "sd_tables (runtime_io safeParse jf app clk address) w = (Inr True, w)"
  "sd_count (runtime_io safeParse jf app clk address) c w = (Inr (Some (count_rows c (tables_of w))), w)"
  "sd_delete (runtime_io safeParse jf app clk address) d w = (Inr (), on_tables (delete_rows d) w)"
  by (simp_all add: runtime_io_def)

lemma raw_count_ok:
  "count_rows (Count_raw keys) (tables_of (wd_db st)) = n \<Longrightarrow>
     expect_rawEventCount (runtime_io safeParse jf app clk address) keys n label st = (Inr (), st)"
  by (simp add: expect_rawEventCount_def act_bind_def on_db_def runtime_io_sel expect_def act_return_def)

lemma invalid_count_ok:
  "count_rows (Count_invalid (sn_runId run)) (tables_of (wd_db st)) = n \<Longrightarrow>
     expect_invalidEventCount (runtime_io safeParse jf app clk address) run n label st = (Inr (), st)"
  by (simp add: expect_invalidEventCount_def act_bind_def on_db_def runtime_io_sel expect_def act_return_def)

section \<open>Triples on the tables\<close>

text \<open>From tables with \<open>P\<close> a step goes on, changes nothing but the service, and leaves tables with \<open>Q\<close>.\<close>

definition passes :: "(json pg_tables \<Rightarrow> bool) \<Rightarrow> (smoke_world, unit) script_act \<Rightarrow> (json pg_tables \<Rightarrow> bool) \<Rightarrow> bool" where
  "passes P m Q \<longleftrightarrow> (\<forall>st. P (tables_of (wd_db st)) \<longrightarrow> (\<exists>w'. m st = (Inr (), st\<lparr>wd_db := w'\<rparr>) \<and> Q (tables_of w')))"

lemma passesI:
  "(\<And>st. P (tables_of (wd_db st)) \<Longrightarrow> \<exists>w'. m st = (Inr (), st\<lparr>wd_db := w'\<rparr>) \<and> Q (tables_of w')) \<Longrightarrow> passes P m Q"
  by (simp add: passes_def)

lemma passesD: "passes P m Q \<Longrightarrow> P (tables_of (wd_db st)) \<Longrightarrow> \<exists>w'. m st = (Inr (), st\<lparr>wd_db := w'\<rparr>) \<and> Q (tables_of w')"
  by (simp add: passes_def)

lemma same_db: "(st :: 'd script_world)\<lparr>wd_db := wd_db st\<rparr> = st"
  by simp

lemma passes_here: "(\<And>st. P (tables_of (wd_db st)) \<Longrightarrow> m st = (Inr (), st) \<and> Q (tables_of (wd_db st))) \<Longrightarrow> passes P m Q"
  by (rule passesI) (metis same_db)

lemma passes_return: "passes P (act_return ()) P"
  by (rule passes_here) (simp add: act_return_def)

lemma passes_then:
  assumes "passes P m Q" "passes Q n R"
  shows "passes P (act_then m n) R"
proof (rule passesI)
  fix st :: "smoke_world script_world"
  assume "P (tables_of (wd_db st))"
  then obtain w where w: "m st = (Inr (), st\<lparr>wd_db := w\<rparr>)" "Q (tables_of w)" using passesD [OF assms(1)] by blast
  then obtain w' where "n (st\<lparr>wd_db := w\<rparr>) = (Inr (), st\<lparr>wd_db := w'\<rparr>)" "R (tables_of w')"
    using passesD [OF assms(2), of "st\<lparr>wd_db := w\<rparr>"] by auto
  with w(1) show "\<exists>w'. act_then m n st = (Inr (), st\<lparr>wd_db := w'\<rparr>) \<and> R (tables_of w')" by (auto simp: act_then_ok)
qed

lemma passes_weaken: "passes P m Q \<Longrightarrow> (\<And>t. Q t \<Longrightarrow> R t) \<Longrightarrow> passes P m R"
  unfolding passes_def by blast

lemma passes_none: "passes P (act_each f []) P"
  by (simp add: passes_return)

lemma passes_each: "passes P m Q \<Longrightarrow> passes Q (act_each (\<lambda>step. step) ms) R \<Longrightarrow> passes P (act_each (\<lambda>step. step) (m # ms)) R"
  by (simp add: passes_then)

lemma passes_expect_all: "(\<And>t. P t \<Longrightarrow> list_all fst xs) \<Longrightarrow> passes P (expect_all xs) P"
  by (rule passes_here) (simp add: expect_all_ok)

lemma passes_expect: "(\<And>t. P t \<Longrightarrow> b) \<Longrightarrow> passes P (expect b label) P"
  by (rule passes_here) (simp add: expect_ok)

lemma passes_raw_count:
  "(\<And>t. P t \<Longrightarrow> count_rows (Count_raw keys) t = n)
   \<Longrightarrow> passes P (expect_rawEventCount (runtime_io safeParse jf app clk address) keys n label) P"
  by (rule passes_here) (simp add: raw_count_ok)

lemma passes_invalid_count:
  "(\<And>t. P t \<Longrightarrow> count_rows (Count_invalid (sn_runId run)) t = n)
   \<Longrightarrow> passes P (expect_invalidEventCount (runtime_io safeParse jf app clk address) run n label) P"
  by (rule passes_here) (simp add: invalid_count_ok)

lemma passes_body:
  "sp_body r = Some (JObj fs) \<Longrightarrow> passes P (f (Some (JObj fs))) Q \<Longrightarrow> passes P (act_bind (response_body r) f) Q"
  by (rule passesI) (auto simp: act_bind_ok [OF response_body_ok] dest: passesD)

text \<open>A request: what the service answers, and the tables it leaves.\<close>

definition replied :: "http_response \<Rightarrow> smoke_response" where
  "replied response = \<lparr>sp_status = hr_status response, sp_body = (case hr_body response of Json_body b \<Rightarrow> Some b | _ \<Rightarrow> None),
     sp_wwwAuthenticate = hr_wwwAuthenticate response\<rparr>"

lemma passes_request:
  assumes fetch: "\<And>w. P (tables_of w) \<Longrightarrow> \<exists>response body w'. runtime_fetch safeParse jf app clk (smoke_request path payload headers) w = (response, w')
        \<and> hr_body response = Json_body body \<and> A (replied response) \<and> Q (tables_of w')"
    and go: "\<And>r. A r \<Longrightarrow> passes Q (f r) R"
  shows "passes P (act_bind (requestJson (runtime_io safeParse jf app clk (sn_baseUrl run)) run label path payload headers) f) R"
proof (rule passesI)
  fix st :: "smoke_world script_world"
  assume "P (tables_of (wd_db st))"
  then obtain response body w' where r: "runtime_fetch safeParse jf app clk (smoke_request path payload headers) (wd_db st) = (response, w')"
    "hr_body response = Json_body body" "A (replied response)" "Q (tables_of w')" using fetch by blast
  then obtain w'' where "f (replied response) (st\<lparr>wd_db := w'\<rparr>) = (Inr (), st\<lparr>wd_db := w''\<rparr>)" "R (tables_of w'')"
    using passesD [OF go, of "replied response" "st\<lparr>wd_db := w'\<rparr>"] by auto
  with r show "\<exists>w''. act_bind (requestJson (runtime_io safeParse jf app clk (sn_baseUrl run)) run label path payload headers) f st
      = (Inr (), st\<lparr>wd_db := w''\<rparr>) \<and> R (tables_of w'')"
    by (auto simp: act_bind_ok [OF requestJson_ok] runtime_io_sel replied_def)
qed

section \<open>What the service answers\<close>

lemma fetch_health:
  "runtime_fetch safeParse jf app clk (smoke_request ''/healthz'' None []) w
     = (health_response (ap_healthEnvironment app), w\<lparr>rw_requests := Suc (rw_requests w)\<rparr>)"
  by (simp add: runtime_fetch_def smoke_request_def Let_def)

lemma fetch_refused:
  assumes "ap_events app = Some dep" "authenticateIngestionRequest (header_of headers ''authorization'') (opt_credentials dep) = None"
    "fst ` set headers \<subseteq> {''authorization''}"
  shows "\<exists>w'. runtime_fetch safeParse jf app clk (smoke_request ''/events'' (Some p) headers) w = (http_reply jf UnauthorizedReply, w')
    \<and> tables_of w' = tables_of w"
  using assms(1,2)
  by (simp add: runtime_fetch_def smoke_request_def Let_def post_events_def reject_unauthorized_def http_route_request_def
      header_of_def tables_of_def)

lemma fetch_event:
  assumes "ap_events app = Some dep" "authenticateIngestionRequest (header_of headers ''authorization'') (opt_credentials dep) = Some c"
    "handlePostEvent (clk_now (clk (rw_requests w))) safeParse (opt_ops dep) (opt_postHogSink dep) p (Some c) (rs_ingest (rw_route w)) = (Inr result, ing)"
  shows "\<exists>w'. runtime_fetch safeParse jf app clk (smoke_request ''/events'' (Some p) headers) w = (http_reply jf (EventReply result), w')
    \<and> tables_of w' = ist_store ing"
  using assms
  by (simp add: runtime_fetch_def smoke_request_def Let_def post_events_def http_route_request_def header_of_def tables_of_def)

lemma fetch_batch:
  assumes "ap_events app = Some dep" "authenticateIngestionRequest (header_of headers ''authorization'') (opt_credentials dep) = Some c"
    "handlePostEvent (clk_now (clk (rw_requests w))) safeParse (opt_ops dep) (opt_postHogSink dep) p (Some c) (rs_ingest (rw_route w)) = (Inr result, ing)"
  shows "\<exists>w'. runtime_fetch safeParse jf app clk (smoke_request ''/events/batch'' (Some (JArr [p])) headers) w
      = (http_reply jf (BatchReply (BatchResults (result_ok result) [result])), w') \<and> tables_of w' = ist_store ing"
  using assms
  by (simp add: runtime_fetch_def smoke_request_def Let_def post_events_batch_def http_route_request_def header_of_def tables_of_def
      handlePostEventsBatch_def del: emitBatchIngestionResult.simps)

section \<open>What a post does to the tables\<close>

lemma post_new:
  assumes "safeParse p = Inr e" "validateTenantPolicy e c = TenantPolicyOk" "db_storable srv e"
    "idm_key (ev_idempotency e) \<notin> idempotency_key ` set (raw_events (ist_store st))"
    "cor_eventId (ev_correlation e) \<notin> event_id ` set (raw_events (ist_store st))"
  shows "\<exists>ing. handlePostEvent now safeParse (pg_ops srv) hasSink p (Some c) st
      = (Inr (AcceptedEvent False (pg_record srv now (Some (ctx_credentialId c)) e)), ing)
    \<and> ist_store ing = (ist_store st)\<lparr>raw_events := raw_events (ist_store st) @ [raw_event_row srv now (Some (ctx_credentialId c)) e]\<rparr>"
proof -
  let ?row = "raw_event_row srv now (Some (ctx_credentialId c)) e"
  have "idempotency_key ?row = idm_key (ev_idempotency e)" by (simp add: raw_event_row_def)
  then have "tenant_idempotency_index ?row \<notin> tenant_idempotency_index ` set (raw_events (ist_store st))"
    using assms(4) by (force simp: tenant_idempotency_index_def)
  with assms(3,5) show ?thesis
    using assms(1,2)
    by (simp add: handlePostEvent_def persistValidEvent_def make_ops_def pg_persistAccepted_def insert_raw_event_def Let_def
        pg_record_def enqueueProductAnalytics_def)
qed

lemma post_duplicate:
  assumes "safeParse p = Inr e" "validateTenantPolicy e c = TenantPolicyOk" "db_storable srv e" "pg_inv (ist_store st)" "no_empty_tenant e"
    "row \<in> set (raw_events (ist_store st))" "record_identity (toRawEventRecord row) = rawEventIdempotencyIdentity e"
    "cor_eventId (ev_correlation e) \<notin> event_id ` set (raw_events (ist_store st))"
  shows "\<exists>ing. handlePostEvent now safeParse (pg_ops srv) hasSink p (Some c) st = (Inr (AcceptedEvent True (toRawEventRecord row)), ing)
    \<and> ist_store ing = ist_store st"
proof -
  have "pg_persistAccepted srv now e (Some (ctx_credentialId c)) (ist_store st)
      = (Inr \<lparr>pr_record = toRawEventRecord row, pr_duplicate = True\<rparr>, ist_store st)"
    using assms(6,8) by (intro pg.accept_duplicate assms(3-5,7)) (force simp: pg_accepted_def)+
  with assms(1,2) show ?thesis by (simp add: handlePostEvent_def persistValidEvent_def make_ops_def)
qed

lemma post_mismatch:
  assumes "safeParse p = Inr e" "validateTenantPolicy e c = TenantPolicyFailure status code message"
    "\<And>reason ctx. db_auditable srv (ParsedPayload e) reason ctx"
  shows "\<exists>ing i. handlePostEvent now safeParse (pg_ops srv) hasSink p (Some c) st = (Inr (TenantPolicyRejected status code message i), ing)
    \<and> ist_store ing = (ist_store st)\<lparr>invalid_raw_events := invalid_raw_events (ist_store st) @ [i]\<rparr>
    \<and> ir_payload i = db_payload srv (ParsedPayload e) \<and> ir_credentialId i = Some (ctx_credentialId c)
    \<and> ir_reasonCode i = Some (tenant_code_text code)"
  using assms by (simp add: handlePostEvent_def rejectTenantPolicy_def audit_def make_ops_def pg_persistInvalid_def Let_def
      invalidRawEventRecord_def buildInvalidAuditContext_def)

lemma post_invalid:
  assumes "safeParse p = Inl issues" "\<And>reason ctx. db_auditable srv (PostedPayload p) reason ctx"
  shows "\<exists>ing i. handlePostEvent now safeParse (pg_ops srv) hasSink p (Some c) st = (Inr (InvalidEvent i), ing)
    \<and> ist_store ing = (ist_store st)\<lparr>invalid_raw_events := invalid_raw_events (ist_store st) @ [i]\<rparr>
    \<and> ir_payload i = db_payload srv (PostedPayload p) \<and> ir_credentialId i = Some (ctx_credentialId c) \<and> ir_reason i = join ''; '' issues"
  using assms by (simp add: handlePostEvent_def rejectInvalidEvent_def audit_def make_ops_def pg_persistInvalid_def Let_def
      invalidRawEventRecord_def buildInvalidAuditContext_def)

section \<open>The rows of a run\<close>

definition own_event :: "smoke_run \<Rightarrow> EventSource \<Rightarrow> Environment \<Rightarrow> string \<Rightarrow> string \<Rightarrow> DataDynaEvent" where
  "own_event run src env = smoke_event run src env (sk_merchantId (sn_credential run)) (sk_storeId (sn_credential run))"

definition own_rows :: "json pg_server \<Rightarrow> smoke_run \<Rightarrow> EventSource \<Rightarrow> Environment \<Rightarrow> (string \<times> string) list \<Rightarrow> RawEventRow list \<Rightarrow> bool" where
  "own_rows srv run src env = list_all2 (\<lambda>(i, k) row.
     \<exists>now. row = raw_event_row srv now (Some (sk_credentialId (sn_credential run))) (own_event run src env i k))"

text \<open>No row of the run; the tables after it stored events, given by id and key, and invalid payloads.\<close>

definition clean_of :: "smoke_run \<Rightarrow> json pg_tables \<Rightarrow> bool" where
  "clean_of run t \<longleftrightarrow> pg_inv t
     \<and> (\<forall>row \<in> set (raw_events t). idempotency_key row \<notin> set (allIdempotencyKeys run) \<and> event_id row \<notin> set (allEventIds run))
     \<and> (\<forall>i \<in> set (invalid_raw_events t). \<not> holds_run (sn_runId run) (ir_payload i))"

definition posted ::
  "json pg_server \<Rightarrow> smoke_run \<Rightarrow> EventSource \<Rightarrow> Environment \<Rightarrow> json pg_tables \<Rightarrow> (string \<times> string) list \<Rightarrow> nat \<Rightarrow> json pg_tables \<Rightarrow> bool" where
  "posted srv run src env t0 events n t \<longleftrightarrow> pg_inv t \<and> (\<exists>rows invs. raw_events t = raw_events t0 @ rows
     \<and> invalid_raw_events t = invalid_raw_events t0 @ invs \<and> length invs = n
     \<and> own_rows srv run src env events rows
     \<and> list_all (\<lambda>i. holds_run (sn_runId run) (ir_payload i)) invs)"

lemma own_event_sel [simp]:
  "idm_key (ev_idempotency (own_event run src env i k)) = k" "cor_eventId (ev_correlation (own_event run src env i k)) = i"
  "idempotency_key (raw_event_row srv now c (own_event run src env i k)) = k"
  by (simp_all add: own_event_def smoke_event_def raw_event_row_def)

lemma posted_keys:
  assumes "own_rows srv run src env events rows"
  shows "map idempotency_key rows = map snd events" "map event_id rows = map fst events"
  using assms unfolding own_rows_def by (induction rule: list_all2_induct) auto

lemma own_rows_more: "own_rows srv run src env events rows \<Longrightarrow> row = raw_event_row srv now (Some (sk_credentialId (sn_credential run))) (own_event run src env i k)
    \<Longrightarrow> own_rows srv run src env (events @ [(i, k)]) (rows @ [row])"
  unfolding own_rows_def by (rule list_all2_appendI) auto

lemma filter_none: "(\<And>x. x \<in> set xs \<Longrightarrow> \<not> P x) \<Longrightarrow> filter P xs = []"
  by simp

lemma posted_raw_count:
  assumes "clean_of run t0" "set keys \<subseteq> set (allIdempotencyKeys run)" "posted srv run src env t0 events n t"
  shows "count_rows (Count_raw keys) t = length (filter (\<lambda>k. k \<in> set keys) (map snd events))"
proof -
  from assms(3) obtain rows where t: "raw_events t = raw_events t0 @ rows"
    and rows: "own_rows srv run src env events rows"
    by (auto simp: posted_def)
  have "filter (\<lambda>row. idempotency_key row \<in> set keys) (raw_events t0) = []"
    by (rule filter_none) (use assms(1,2) in \<open>auto simp: clean_of_def\<close>)
  with t have "count_rows (Count_raw keys) t = length (filter (\<lambda>k. k \<in> set keys) (map idempotency_key rows))"
    by (simp add: filter_map comp_def)
  with posted_keys(1) [OF rows] show ?thesis by simp
qed

lemma posted_invalid_count:
  assumes "clean_of run t0" "posted srv run src env t0 events n t"
  shows "count_rows (Count_invalid (sn_runId run)) t = n"
  using assms by (auto simp: posted_def clean_of_def filter_none list_all_iff)

definition cleaned :: "smoke_run \<Rightarrow> json pg_tables \<Rightarrow> json pg_tables" where
  "cleaned run t = \<lparr>raw_events = filter (\<lambda>row. \<not> (idempotency_key row \<in> set (allIdempotencyKeys run) \<or> event_id row \<in> set (allEventIds run))) (raw_events t),
     invalid_raw_events = filter (\<lambda>i. \<not> holds_run (sn_runId run) (ir_payload i)) (invalid_raw_events t)\<rparr>"

lemma cleaned_clean: "pg_inv t \<Longrightarrow> clean_of run (cleaned run t)"
  by (auto simp: clean_of_def cleaned_def pg_inv_def distinct_map_filter)

lemma cleaned_posted:
  assumes "clean_of run t0" "posted srv run src env t0 events n t" "snd ` set events \<subseteq> set (allIdempotencyKeys run)"
  shows "cleaned run t = t0"
proof -
  from assms(2) obtain rows invs where t: "raw_events t = raw_events t0 @ rows" "invalid_raw_events t = invalid_raw_events t0 @ invs"
    and rows: "own_rows srv run src env events rows"
    and invs: "list_all (\<lambda>i. holds_run (sn_runId run) (ir_payload i)) invs"
    by (auto simp: posted_def)
  have "idempotency_key ` set rows = snd ` set events" using posted_keys(1) [OF rows] by (metis set_map)
  with assms(3) have "\<forall>row \<in> set rows. idempotency_key row \<in> set (allIdempotencyKeys run)" by blast
  with t invs assms(1) show ?thesis
    by (intro pg_tables.equality) (auto simp: cleaned_def clean_of_def list_all_iff filter_none filter_id_conv)
qed

lemma on_tables_tables [simp]: "tables_of (on_tables f w) = f (tables_of w)"
  by (simp add: on_tables_def tables_of_def)

lemma delete_cleaned:
  "delete_rows (Delete_invalid (sn_runId run)) (delete_rows (Delete_raw (allIdempotencyKeys run) (allEventIds run)) t) = cleaned run t"
  by (simp add: cleaned_def)

lemma on_tables_twice: "on_tables f (on_tables g w) = on_tables (\<lambda>t. f (g t)) w"
  by (simp add: on_tables_def tables_of_def)

lemma cleanFixtures_ok:
  "cleanFixtures (runtime_io safeParse jf app clk address) run st = (Inr (), st\<lparr>wd_db := on_tables (cleaned run) (wd_db st)\<rparr>)"
  unfolding cleanFixtures_def act_then_def act_bind_def on_db_def runtime_io_sel
  by (simp del: delete_rows.simps add: on_tables_twice delete_cleaned)

lemma passes_clean:
  "(\<And>t. P t \<Longrightarrow> Q (cleaned run t)) \<Longrightarrow> passes P (cleanFixtures (runtime_io safeParse jf app clk address) run) Q"
  by (rule passesI) (metis cleanFixtures_ok on_tables_tables)

section \<open>The steps of the test\<close>

lemma passes_schema: "passes P (assertMigratedSchema (runtime_io safeParse jf app clk address)) P"
  by (rule passes_here) (simp add: assertMigratedSchema_def act_bind_def on_db_def runtime_io_sel act_return_def)

lemma replied_reply [simp]:
  "sp_status (replied (http_reply jf reply)) = reply_status reply"
  "sp_body (replied (http_reply jf reply)) = reply_body jf reply"
  "sp_wwwAuthenticate (replied (http_reply jf reply)) = (case reply of UnauthorizedReply \<Rightarrow> Some ''Bearer'' | _ \<Rightarrow> None)"
  by (simp_all add: replied_def http_reply_def split: option.split)

lemma reply_json [simp]: "(\<exists>body. hr_body (http_reply jf reply) = Json_body body) \<longleftrightarrow> reply_body jf reply \<noteq> None"
  by (simp add: http_reply_def split: option.split)

lemma reply_bodies:
  "sp_body (replied (http_reply jf UnauthorizedReply)) = Some (JObj [(''ok'', JBool False), (''status'', JNum (Finite 401)),
      (''error'', JObj [(''code'', JStr ''UNAUTHORIZED''), (''message'', JStr ''Unauthorized'')])])"
  "sp_body (replied (http_reply jf (EventReply (AcceptedEvent dup r)))) = Some (JObj [(''ok'', JBool True), (''status'', JNum (Finite 202)),
      (''duplicate'', JBool dup), (''persisted'', jf_record jf r)])"
  "sp_body (replied (http_reply jf (EventReply (InvalidEvent i)))) = Some (JObj [(''ok'', JBool False), (''status'', JNum (Finite 400)),
      (''invalid'', jf_invalid jf i)])"
  "sp_body (replied (http_reply jf (EventReply (TenantPolicyRejected status code msg i)))) = Some (JObj [(''ok'', JBool False),
      (''status'', JNum (Finite (of_nat status))), (''error'', JObj [(''code'', JStr (tenant_code_text code)), (''message'', JStr msg)]),
      (''invalid'', jf_invalid jf i)])"
  "sp_body (replied (http_reply jf (BatchReply (BatchResults ok rs)))) = Some (JObj [(''ok'', JBool ok), (''status'', JNum (Finite 207)),
      (''results'', JArr (map (event_result_json jf) rs))])"
  by simp_all

lemma jfield_Cons [simp]:
  "jfield (Some (JObj ((k, v) # fs))) q = (if k = q then Some v else jfield (Some (JObj fs)) q)"
  by (simp add: get_prop_def)

declare jfield.simps(1) [simp del]

lemma health_reply [simp]:
  "sp_status (replied (health_response env)) = 200"
  "sp_body (replied (health_response env)) = Some (JObj [(''ok'', JBool True), (''service'', JStr ''data-dyna''),
        (''runtimeEnvironment'', JStr (environment_name env))])"
  by (simp_all add: replied_def health_response_def)

lemma passes_health: "passes P (check_health (runtime_io safeParse jf app clk (sn_baseUrl run)) run) P"
  unfolding check_health_def
proof (rule passes_request [where A = "\<lambda>r. r = replied (health_response (ap_healthEnvironment app))" and Q = P], goal_cases)
  case (1 w)
  then show ?case by (simp add: fetch_health health_response_def tables_of_def)
next
  case (2 r)
  show ?case unfolding 2
    by (rule passes_then [OF passes_expect passes_body [OF health_reply(2) passes_expect_all]])
      (simp_all add: is_text_def)
qed

section \<open>The service knows the test\<close>

lemma header_own: "header_of (authorizationHeader run) ''authorization'' = OneHeader (''Bearer '' @ sk_token (sn_credential run))"
  by (simp add: header_of_def authorizationHeader_def)

lemma run_names_nonempty [simp]:
  "idempotencyKey run \<noteq> []" "duplicateEventId run \<noteq> []" "firstEventId run \<noteq> []" "tenantMismatchIdempotencyKey run \<noteq> []"
  "tenantMismatchEventId run \<noteq> []" "batchEventId run \<noteq> []" "batchIdempotencyKey run \<noteq> []"
  by (simp_all add: idempotencyKey_def duplicateEventId_def firstEventId_def tenantMismatchIdempotencyKey_def
      tenantMismatchEventId_def batchEventId_def batchIdempotencyKey_def)

lemma run_names_differ [simp]:
  "duplicateEventId run \<noteq> firstEventId run" "batchEventId run \<noteq> firstEventId run"
  "batchIdempotencyKey run \<noteq> idempotencyKey run" "tenantMismatchIdempotencyKey run \<noteq> idempotencyKey run"
  "tenantMismatchIdempotencyKey run \<noteq> batchIdempotencyKey run"
  by (simp_all add: idempotencyKey_def duplicateEventId_def firstEventId_def tenantMismatchIdempotencyKey_def
      batchEventId_def batchIdempotencyKey_def)

declare run_names_differ [THEN not_sym, simp]

lemma serves_app: "serves_smoke safeParse jf app srv run dep cr src env \<Longrightarrow> ap_events app = Some dep \<and> opt_ops dep = pg_ops srv"
  by (simp add: serves_smoke_def)

lemma serves_auth:
  assumes "serves_smoke safeParse jf app srv run dep cr src env"
  shows "authenticateIngestionRequest (header_of (authorizationHeader run) ''authorization'') (opt_credentials dep) = Some (withoutToken cr)"
proof -
  have cr: "cr \<in> set (opt_credentials dep)" "distinct (map cr_token (opt_credentials dep))" "cr_token cr \<noteq> []"
    "\<forall>c \<in> set (cr_token cr). \<not> js_space c" "sk_token (sn_credential run) = cr_token cr"
    using assms by (simp_all add: serves_smoke_def knows_credential_def Let_def)
  then show ?thesis
    by (simp add: authenticateIngestionRequest_def header_own bearer_round_trip [OF cr(3,4), simplified] find_token [OF cr(2,1)])
qed

lemma refuses_none: "authenticateIngestionRequest (header_of [] ''authorization'') credentials = None"
  by (simp add: authenticateIngestionRequest_def header_of_def)

lemma refuses_other:
  assumes "serves_smoke safeParse jf app srv run dep cr src env"
  shows "authenticateIngestionRequest (header_of [(''authorization'', ''Bearer '' @ sn_runId run @ '':invalid-token'')] ''authorization'')
      (opt_credentials dep) = None"
proof -
  let ?token = "sn_runId run @ '':invalid-token''"
  have "\<forall>c \<in> set (sn_runId run). \<not> js_space c" "?token \<notin> cr_token ` set (opt_credentials dep)"
    using assms by (simp_all add: serves_smoke_def knows_credential_def)
  moreover from this(1) have "\<forall>c \<in> set ?token. \<not> js_space c" by (auto simp: js_space_def)
  ultimately have "extractBearerToken (OneHeader (''Bearer '' @ ?token)) = Some ?token"
    "find (\<lambda>candidate. cr_token candidate = ?token) (opt_credentials dep) = None"
    using bearer_round_trip [of ?token] by (auto simp: find_None_iff image_iff)
  then show ?thesis by (simp add: authenticateIngestionRequest_def header_of_def)
qed

lemma serves_policy:
  assumes "serves_smoke safeParse jf app srv run dep cr src env"
  shows "validateTenantPolicy (own_event run src env i k) (withoutToken cr) = TenantPolicyOk"
    and "no_empty_tenant (own_event run src env i k)"
    and "db_storable srv (own_event run src env i k)"
    and "i \<noteq> [] \<Longrightarrow> k \<noteq> [] \<Longrightarrow> safeParse (smoke_validEvent run i k) = Inr (own_event run src env i k)"
    and "ctx_credentialId (withoutToken cr) = sk_credentialId (sn_credential run)"
  using assms
  by (auto simp: serves_smoke_def knows_credential_def Let_def own_event_def tenant_policy_ok_iff smoke_event_def withoutToken_def
      no_empty_tenant_def smoke_database_def smoke_parser_def smoke_validEvent_def)

definition other_event :: "smoke_run \<Rightarrow> EventSource \<Rightarrow> Environment \<Rightarrow> DataDynaEvent" where
  "other_event run src env = smoke_event run src env (sk_merchantId (sn_credential run) @ ''-mismatch'')
     (sk_storeId (sn_credential run) @ ''-mismatch'') (tenantMismatchEventId run) (tenantMismatchIdempotencyKey run)"

lemma serves_mismatch:
  assumes "serves_smoke safeParse jf app srv run dep cr src env"
  shows "validateTenantPolicy (other_event run src env) (withoutToken cr) = TenantPolicyFailure 403 TENANT_MISMATCH ''Tenant mismatch''"
    and "safeParse (mismatched_event run) = Inr (other_event run src env)"
    and "db_auditable srv (ParsedPayload (other_event run src env)) reason ctx"
    and "holds_run (sn_runId run) (db_payload srv (ParsedPayload (other_event run src env)))"
proof -
  have "holds_run (sn_runId run) (ParsedPayload (other_event run src env))"
    by (simp add: other_event_def smoke_event_def get_prop_def)
  with assms show "db_auditable srv (ParsedPayload (other_event run src env)) reason ctx"
    "holds_run (sn_runId run) (db_payload srv (ParsedPayload (other_event run src env)))"
    by (simp_all add: serves_smoke_def smoke_database_def)
qed (use assms in \<open>auto simp: serves_smoke_def knows_credential_def Let_def other_event_def validateTenantPolicy_def smoke_event_def
      withoutToken_def truthy_def smoke_parser_def mismatched_event_def\<close>)

lemma serves_invalid:
  assumes "serves_smoke safeParse jf app srv run dep cr src env"
  shows "db_auditable srv (PostedPayload (invalidPayload run)) reason ctx"
    and "holds_run (sn_runId run) (db_payload srv (PostedPayload (invalidPayload run)))"
proof -
  have "holds_run (sn_runId run) (PostedPayload (invalidPayload run))" by (simp add: invalidPayload_def)
  with assms show "db_auditable srv (PostedPayload (invalidPayload run)) reason ctx"
    "holds_run (sn_runId run) (db_payload srv (PostedPayload (invalidPayload run)))"
    by (simp_all add: serves_smoke_def smoke_database_def)
qed

section \<open>Every step passes\<close>

lemma posted_start: "clean_of run t0 \<Longrightarrow> posted srv run src env t0 [] 0 t0"
  by (simp add: posted_def clean_of_def own_rows_def)

lemma posted_fresh:
  assumes "clean_of run t0" "posted srv run src env t0 events n t"
  shows "k \<in> set (allIdempotencyKeys run) \<Longrightarrow> k \<notin> snd ` set events \<Longrightarrow> k \<notin> idempotency_key ` set (raw_events t)"
    and "i \<in> set (allEventIds run) \<Longrightarrow> i \<notin> fst ` set events \<Longrightarrow> i \<notin> event_id ` set (raw_events t)"
proof -
  from assms(2) obtain rows where t: "raw_events t = raw_events t0 @ rows"
    and rows: "own_rows srv run src env events rows"
    by (auto simp: posted_def)
  have own: "idempotency_key ` set rows = snd ` set events" "event_id ` set rows = fst ` set events"
    using posted_keys [OF rows] by (metis set_map)+
  show "k \<notin> idempotency_key ` set (raw_events t)" if "k \<in> set (allIdempotencyKeys run)" "k \<notin> snd ` set events"
    using that assms(1) own(1) t by (auto simp: clean_of_def image_Un)
  show "i \<notin> event_id ` set (raw_events t)" if "i \<in> set (allEventIds run)" "i \<notin> fst ` set events"
    using that assms(1) own(2) t by (auto simp: clean_of_def image_Un)
qed

lemma posted_event:
  assumes "posted srv run src env t0 events n t" "no_empty_tenant (own_event run src env i k)"
    "k \<notin> idempotency_key ` set (raw_events t)" "i \<notin> event_id ` set (raw_events t)"
  shows "posted srv run src env t0 (events @ [(i, k)]) n
    (t\<lparr>raw_events := raw_events t @ [raw_event_row srv now (Some (sk_credentialId (sn_credential run))) (own_event run src env i k)]\<rparr>)"
proof -
  let ?row = "raw_event_row srv now (Some (sk_credentialId (sn_credential run))) (own_event run src env i k)"
  have "tenant_idempotency_index ?row \<notin> tenant_idempotency_index ` set (raw_events t)"
    using assms(3) by (force simp: tenant_idempotency_index_def)
  moreover have "merchant_id ?row \<noteq> Some []" "store_id ?row \<noteq> Some []"
    using assms(2) by (simp_all add: raw_event_row_def no_empty_tenant_def)
  ultimately have "pg_inv (t\<lparr>raw_events := raw_events t @ [?row]\<rparr>)"
    using assms(1,4) by (auto simp: posted_def pg_inv_def)
  moreover obtain rows invs where "raw_events t = raw_events t0 @ rows" "invalid_raw_events t = invalid_raw_events t0 @ invs" "length invs = n"
    "own_rows srv run src env events rows"
    "list_all (\<lambda>i. holds_run (sn_runId run) (ir_payload i)) invs"
    using assms(1) by (auto simp: posted_def)
  ultimately show ?thesis
    unfolding posted_def
    by (intro conjI exI [of _ "rows @ [?row]"] exI [of _ invs]) (auto intro: own_rows_more)
qed

lemma posted_invalid:
  assumes "posted srv run src env t0 events n t" "holds_run (sn_runId run) (ir_payload i)"
  shows "posted srv run src env t0 events (Suc n) (t\<lparr>invalid_raw_events := invalid_raw_events t @ [i]\<rparr>)"
proof -
  obtain rows invs where "raw_events t = raw_events t0 @ rows" "invalid_raw_events t = invalid_raw_events t0 @ invs" "length invs = n" "pg_inv t"
    "own_rows srv run src env events rows"
    "list_all (\<lambda>i. holds_run (sn_runId run) (ir_payload i)) invs"
    using assms(1) by (auto simp: posted_def)
  with assms(2) show ?thesis
    unfolding posted_def
    by (intro conjI exI [of _ rows] exI [of _ "invs @ [i]"]) (simp_all add: pg_inv_def)
qed

lemma passes_posted_raw:
  assumes "clean_of run t0" "set keys \<subseteq> set (allIdempotencyKeys run)" "length (filter (\<lambda>k. k \<in> set keys) (map snd events)) = m"
  shows "passes (posted srv run src env t0 events n) (expect_rawEventCount (runtime_io safeParse jf app clk address) keys m label)
    (posted srv run src env t0 events n)"
  by (rule passes_raw_count) (simp only: posted_raw_count [OF assms(1,2)] assms(3))

lemma passes_posted_invalid:
  assumes "clean_of run t0"
  shows "passes (posted srv run src env t0 events n) (expect_invalidEventCount (runtime_io safeParse jf app clk address) run n label)
    (posted srv run src env t0 events n)"
  by (rule passes_invalid_count) (simp only: posted_invalid_count [OF assms])

lemma passes_unauthorized:
  assumes "clean_of run t0" "ap_events app = Some dep" "authenticateIngestionRequest (header_of headers ''authorization'') (opt_credentials dep) = None"
    "fst ` set headers \<subseteq> {''authorization''}"
  shows "passes (posted srv run src env t0 [] 0) (check_unauthorized (runtime_io safeParse jf app clk (sn_baseUrl run)) run what headers)
    (posted srv run src env t0 [] 0)"
  unfolding check_unauthorized_def
proof (rule passes_request [where A = "\<lambda>r. r = replied (http_reply jf UnauthorizedReply)" and Q = "posted srv run src env t0 [] 0"], goal_cases)
  case (1 w)
  then show ?case
    using fetch_refused [OF assms(2-4), of safeParse jf clk "smoke_validEvent run (firstEventId run) (idempotencyKey run)" w]
    by auto
next
  case (2 r)
  show ?case
    unfolding 2 assertUnauthorized_def
    by (rule passes_then [OF passes_then [OF passes_expect_all passes_body [OF reply_bodies(1) passes_expect_all]]
          passes_then [OF passes_posted_raw passes_posted_invalid]])
      (simp_all add: assms(1))
qed

text \<open>The record of an own event has what the test looks for.\<close>

lemma own_record_json:
  assumes "serves_smoke safeParse jf app srv run dep cr src env"
  shows "jfield (Some (jf_record jf (pg_record srv now (Some (sk_credentialId (sn_credential run))) (own_event run src env i k)))) q
    = (if q = ''eventId'' then Some (JStr i) else if q = ''idempotencyKey'' then Some (JStr k)
       else if q = ''credentialId'' then Some (JStr (sk_credentialId (sn_credential run)))
       else if q = ''merchantId'' then Some (JStr (sk_merchantId (sn_credential run)))
       else if q = ''storeId'' then Some (JStr (sk_storeId (sn_credential run)))
       else if q = ''producerEnvironment'' then Some (JStr (sk_producerEnvironment (sn_credential run)))
       else jfield (Some (jf_record jf (pg_record srv now (Some (sk_credentialId (sn_credential run))) (own_event run src env i k)))) q)"
  using assms
  by (simp add: serves_smoke_def smoke_forms_def pg_record_def toRawEventRecord_def raw_event_row_def own_event_def smoke_event_def
      knows_credential_def Let_def)

lemma own_post:
  assumes "clean_of run t0" "serves_smoke safeParse jf app srv run dep cr src env" "posted srv run src env t0 events n (ist_store st)"
    "k \<in> set (allIdempotencyKeys run)" "k \<notin> snd ` set events" "i \<in> set (allEventIds run)" "i \<notin> fst ` set events" "i \<noteq> []" "k \<noteq> []"
  shows "\<exists>ing. handlePostEvent now safeParse (pg_ops srv) hasSink (smoke_validEvent run i k) (Some (withoutToken cr)) st
      = (Inr (AcceptedEvent False (pg_record srv now (Some (sk_credentialId (sn_credential run))) (own_event run src env i k))), ing)
    \<and> posted srv run src env t0 (events @ [(i, k)]) n (ist_store ing)"
proof -
  let ?e = "own_event run src env i k"
  have fresh: "k \<notin> idempotency_key ` set (raw_events (ist_store st))" "i \<notin> event_id ` set (raw_events (ist_store st))"
    using posted_fresh [OF assms(1,3)] assms(4-7) by simp_all
  have "idm_key (ev_idempotency ?e) \<notin> idempotency_key ` set (raw_events (ist_store st))"
    "cor_eventId (ev_correlation ?e) \<notin> event_id ` set (raw_events (ist_store st))"
    using fresh by simp_all
  from post_new [where e = ?e and st = st and safeParse = safeParse and p = "smoke_validEvent run i k", OF serves_policy(4) [OF assms(2,8,9)] serves_policy(1) [OF assms(2), of i k]
      serves_policy(3) [OF assms(2), of i k] this, of now hasSink]
    posted_event [OF assms(3) serves_policy(2) [OF assms(2)] fresh, of now] serves_policy(5) [OF assms(2)]
  show ?thesis by auto
qed

lemma passes_accepted:
  assumes "clean_of run t0" "serves_smoke safeParse jf app srv run dep cr src env"
  shows "passes (posted srv run src env t0 [] 0) (check_accepted (runtime_io safeParse jf app clk (sn_baseUrl run)) run)
    (posted srv run src env t0 [(firstEventId run, idempotencyKey run)] 0)"
  unfolding check_accepted_def Let_def
proof (rule passes_request [where A = "\<lambda>r. \<exists>now. r = replied (http_reply jf (EventReply (AcceptedEvent False
        (pg_record srv now (Some (sk_credentialId (sn_credential run))) (own_event run src env (firstEventId run) (idempotencyKey run))))))"
      and Q = "posted srv run src env t0 [(firstEventId run, idempotencyKey run)] 0"], goal_cases)
  case (1 w)
  from own_post [OF assms 1 [unfolded tables_of_def], of "idempotencyKey run" "firstEventId run"]
  obtain ing where ing: "handlePostEvent (clk_now (clk (rw_requests w))) safeParse (opt_ops dep) (opt_postHogSink dep)
      (smoke_validEvent run (firstEventId run) (idempotencyKey run)) (Some (withoutToken cr)) (rs_ingest (rw_route w))
      = (Inr (AcceptedEvent False (pg_record srv (clk_now (clk (rw_requests w))) (Some (sk_credentialId (sn_credential run)))
          (own_event run src env (firstEventId run) (idempotencyKey run)))), ing)"
    "posted srv run src env t0 [(firstEventId run, idempotencyKey run)] 0 (ist_store ing)"
    using serves_app [OF assms(2)] by (auto simp: allIdempotencyKeys_def allEventIds_def)
  from fetch_event [where w = w and clk = clk and app = app and jf = jf, OF _ serves_auth [OF assms(2)] ing(1)] serves_app [OF assms(2)] ing(2) show ?case by fastforce
next
  case (2 r)
  then obtain now where r: "r = replied (http_reply jf (EventReply (AcceptedEvent False
        (pg_record srv now (Some (sk_credentialId (sn_credential run))) (own_event run src env (firstEventId run) (idempotencyKey run))))))" by blast
  show ?case
    unfolding r
    by (rule passes_then [OF passes_expect passes_then [OF passes_body [OF reply_bodies(2) passes_expect_all] passes_posted_raw]])
      (simp_all add: assms(1) own_record_json [OF assms(2)] allIdempotencyKeys_def)
qed

lemma passes_duplicate:
  assumes "clean_of run t0" "serves_smoke safeParse jf app srv run dep cr src env"
  shows "passes (posted srv run src env t0 [(firstEventId run, idempotencyKey run)] 0)
    (check_duplicate (runtime_io safeParse jf app clk (sn_baseUrl run)) run)
    (posted srv run src env t0 [(firstEventId run, idempotencyKey run)] 0)"
  unfolding check_duplicate_def Let_def
proof (rule passes_request [where A = "\<lambda>r. \<exists>now. r = replied (http_reply jf (EventReply (AcceptedEvent True
        (pg_record srv now (Some (sk_credentialId (sn_credential run))) (own_event run src env (firstEventId run) (idempotencyKey run))))))"
      and Q = "posted srv run src env t0 [(firstEventId run, idempotencyKey run)] 0"], goal_cases)
  case (1 w)
  let ?e = "own_event run src env (duplicateEventId run) (idempotencyKey run)" and ?st = "rs_ingest (rw_route w)"
  from 1 obtain rows where rows: "pg_inv (tables_of w)" "raw_events (tables_of w) = raw_events t0 @ rows"
    "own_rows srv run src env [(firstEventId run, idempotencyKey run)] rows" by (auto simp: posted_def)
  then obtain now row where row: "row \<in> set (raw_events (ist_store ?st))" "pg_inv (ist_store ?st)"
    "row = raw_event_row srv now (Some (sk_credentialId (sn_credential run))) (own_event run src env (firstEventId run) (idempotencyKey run))"
    unfolding own_rows_def list_all2_Cons1 by (fastforce simp: tables_of_def)
  have same: "record_identity (toRawEventRecord row) = rawEventIdempotencyIdentity ?e"
    unfolding row(3) by (simp add: rawEventIdempotencyIdentity_def own_event_def smoke_event_def)
  have fresh: "cor_eventId (ev_correlation ?e) \<notin> event_id ` set (raw_events (ist_store ?st))"
    using posted_fresh(2) [OF assms(1) 1, of "duplicateEventId run"] by (simp add: allEventIds_def tables_of_def)
  have parsed: "safeParse (smoke_validEvent run (duplicateEventId run) (idempotencyKey run)) = Inr ?e"
    by (rule serves_policy(4) [OF assms(2)]) simp_all
  obtain ing where ing: "handlePostEvent (clk_now (clk (rw_requests w))) safeParse (opt_ops dep) (opt_postHogSink dep)
      (smoke_validEvent run (duplicateEventId run) (idempotencyKey run)) (Some (withoutToken cr)) ?st
      = (Inr (AcceptedEvent True (toRawEventRecord row)), ing)" "ist_store ing = ist_store ?st"
    using post_duplicate [where safeParse = safeParse and p = "smoke_validEvent run (duplicateEventId run) (idempotencyKey run)", OF parsed serves_policy(1,3) [OF assms(2)] row(2) serves_policy(2) [OF assms(2)] row(1) same fresh]
      serves_app [OF assms(2)] by metis
  from fetch_event [where w = w and clk = clk and app = app and jf = jf, OF _ serves_auth [OF assms(2)] ing(1)] serves_app [OF assms(2)] ing(2) 1 row(3)
  show ?case by (fastforce simp: pg_record_def tables_of_def)
next
  case (2 r)
  then obtain now where r: "r = replied (http_reply jf (EventReply (AcceptedEvent True
        (pg_record srv now (Some (sk_credentialId (sn_credential run))) (own_event run src env (firstEventId run) (idempotencyKey run))))))" by blast
  show ?case
    unfolding r
    by (rule passes_then [OF passes_expect passes_then [OF passes_body [OF reply_bodies(2) passes_expect_all] passes_posted_raw]])
      (simp_all add: assms(1) own_record_json [OF assms(2)] allIdempotencyKeys_def)
qed

lemma audit_json:
  assumes "serves_smoke safeParse jf app srv run dep cr src env"
  shows "jfield (Some (jf_invalid jf i)) ''credentialId'' = jstr (ir_credentialId i)"
    "jfield (Some (jf_invalid jf i)) ''reasonCode'' = jstr (ir_reasonCode i)"
    "jfield (Some (jf_invalid jf i)) ''reason'' = Some (JStr (ir_reason i))"
    "ir_payload i = PostedPayload p \<Longrightarrow> jfield (Some (jf_invalid jf i)) ''payload'' = Some p"
  using assms by (simp_all add: serves_smoke_def smoke_forms_def)

lemma passes_tenantMismatch:
  assumes "clean_of run t0" "serves_smoke safeParse jf app srv run dep cr src env"
  shows "passes (posted srv run src env t0 [(firstEventId run, idempotencyKey run)] 0)
    (check_tenantMismatch (runtime_io safeParse jf app clk (sn_baseUrl run)) run)
    (posted srv run src env t0 [(firstEventId run, idempotencyKey run)] 1)"
  unfolding check_tenantMismatch_def
proof (rule passes_request [where A = "\<lambda>r. \<exists>i. r = replied (http_reply jf (EventReply (TenantPolicyRejected 403 TENANT_MISMATCH ''Tenant mismatch'' i)))
          \<and> ir_credentialId i = Some (sk_credentialId (sn_credential run)) \<and> ir_reasonCode i = Some ''TENANT_MISMATCH''"
      and Q = "posted srv run src env t0 [(firstEventId run, idempotencyKey run)] 1"], goal_cases)
  case (1 w)
  from post_mismatch [where safeParse = safeParse and p = "mismatched_event run", OF serves_mismatch(2,1,3) [OF assms(2)]]
  obtain ing i where ing: "handlePostEvent (clk_now (clk (rw_requests w))) safeParse (opt_ops dep) (opt_postHogSink dep)
      (mismatched_event run) (Some (withoutToken cr)) (rs_ingest (rw_route w))
      = (Inr (TenantPolicyRejected 403 TENANT_MISMATCH ''Tenant mismatch'' i), ing)"
    "ist_store ing = (tables_of w)\<lparr>invalid_raw_events := invalid_raw_events (tables_of w) @ [i]\<rparr>"
    "ir_payload i = db_payload srv (ParsedPayload (other_event run src env))"
    "ir_credentialId i = Some (sk_credentialId (sn_credential run))" "ir_reasonCode i = Some ''TENANT_MISMATCH''"
    using serves_app [OF assms(2)] serves_policy(5) [OF assms(2)] by (metis tables_of_def tenant_code_text.simps(2))
  have "posted srv run src env t0 [(firstEventId run, idempotencyKey run)] 1 (ist_store ing)"
    using posted_invalid [OF 1, of i] ing(2,3) serves_mismatch(4) [OF assms(2)] by simp
  with fetch_event [where w = w and clk = clk and app = app and jf = jf, OF _ serves_auth [OF assms(2)] ing(1)] serves_app [OF assms(2)] ing(4,5)
  show ?case by fastforce
next
  case (2 r)
  then obtain i where r: "r = replied (http_reply jf (EventReply (TenantPolicyRejected 403 TENANT_MISMATCH ''Tenant mismatch'' i)))"
    "ir_credentialId i = Some (sk_credentialId (sn_credential run))" "ir_reasonCode i = Some ''TENANT_MISMATCH''" by blast
  show ?case
    unfolding r(1)
    by (rule passes_then [OF passes_expect passes_then [OF passes_body [OF reply_bodies(4) passes_expect_all]
          passes_then [OF passes_posted_raw passes_posted_invalid]]])
      (simp_all add: assms(1) audit_json [OF assms(2)] r(2,3) allIdempotencyKeys_def)
qed

lemma passes_invalid:
  assumes "clean_of run t0" "serves_smoke safeParse jf app srv run dep cr src env"
  shows "passes (posted srv run src env t0 [(firstEventId run, idempotencyKey run)] 1)
    (check_invalid (runtime_io safeParse jf app clk (sn_baseUrl run)) run)
    (posted srv run src env t0 [(firstEventId run, idempotencyKey run)] 2)"
  unfolding check_invalid_def Let_def
proof (rule passes_request [where A = "\<lambda>r. \<exists>i q. r = replied (http_reply jf (EventReply (InvalidEvent i)))
          \<and> ir_credentialId i = Some (sk_credentialId (sn_credential run)) \<and> ir_reason i \<noteq> []
          \<and> ir_payload i = PostedPayload q \<and> deep_equal q (invalidPayload run)"
      and Q = "posted srv run src env t0 [(firstEventId run, idempotencyKey run)] 2"], goal_cases)
  case (1 w)
  obtain issues q where given: "safeParse (invalidPayload run) = Inl issues" "join ''; '' issues \<noteq> []"
    "db_payload srv (PostedPayload (invalidPayload run)) = PostedPayload q" "deep_equal q (invalidPayload run)"
    using assms(2) by (auto simp: serves_smoke_def smoke_parser_def smoke_database_def)
  from post_invalid [where safeParse = safeParse and p = "invalidPayload run", OF given(1) serves_invalid(1) [OF assms(2)]]
  obtain ing i where ing: "handlePostEvent (clk_now (clk (rw_requests w))) safeParse (opt_ops dep) (opt_postHogSink dep)
      (invalidPayload run) (Some (withoutToken cr)) (rs_ingest (rw_route w)) = (Inr (InvalidEvent i), ing)"
    "ist_store ing = (tables_of w)\<lparr>invalid_raw_events := invalid_raw_events (tables_of w) @ [i]\<rparr>"
    "ir_payload i = db_payload srv (PostedPayload (invalidPayload run))"
    "ir_credentialId i = Some (sk_credentialId (sn_credential run))" "ir_reason i = join ''; '' issues"
    using serves_app [OF assms(2)] serves_policy(5) [OF assms(2)] by (metis tables_of_def)
  have "posted srv run src env t0 [(firstEventId run, idempotencyKey run)] 2 (ist_store ing)"
    using posted_invalid [OF 1, of i] ing(2,3) serves_invalid(2) [OF assms(2)] by (simp add: numeral_2_eq_2)
  with fetch_event [where w = w and clk = clk and app = app and jf = jf, OF _ serves_auth [OF assms(2)] ing(1)] serves_app [OF assms(2)]
    ing(3-5) given
  show ?case by fastforce
next
  case (2 r)
  then obtain i q where r: "r = replied (http_reply jf (EventReply (InvalidEvent i)))" "ir_reason i \<noteq> []" "deep_equal q (invalidPayload run)"
    "ir_credentialId i = Some (sk_credentialId (sn_credential run))" "ir_payload i = PostedPayload q" by blast
  show ?case
    unfolding r(1)
    by (rule passes_then [OF passes_expect passes_body [OF reply_bodies(3) passes_expect_all]])
      (simp_all add: audit_json [OF assms(2)] r is_text_def nonempty_text_def)
qed

lemma passes_batch:
  assumes "clean_of run t0" "serves_smoke safeParse jf app srv run dep cr src env"
  shows "passes (posted srv run src env t0 [(firstEventId run, idempotencyKey run)] 2)
    (check_batch (runtime_io safeParse jf app clk (sn_baseUrl run)) run)
    (posted srv run src env t0 [(firstEventId run, idempotencyKey run), (batchEventId run, batchIdempotencyKey run)] 2)"
  unfolding check_batch_def Let_def
proof (rule passes_request [where A = "\<lambda>r. \<exists>now. r = replied (http_reply jf (BatchReply (BatchResults True [AcceptedEvent False
        (pg_record srv now (Some (sk_credentialId (sn_credential run))) (own_event run src env (batchEventId run) (batchIdempotencyKey run)))])))"
      and Q = "posted srv run src env t0 [(firstEventId run, idempotencyKey run), (batchEventId run, batchIdempotencyKey run)] 2"], goal_cases)
  case (1 w)
  from own_post [OF assms 1 [unfolded tables_of_def], of "batchIdempotencyKey run" "batchEventId run"]
  obtain ing where ing: "handlePostEvent (clk_now (clk (rw_requests w))) safeParse (opt_ops dep) (opt_postHogSink dep)
      (smoke_validEvent run (batchEventId run) (batchIdempotencyKey run)) (Some (withoutToken cr)) (rs_ingest (rw_route w))
      = (Inr (AcceptedEvent False (pg_record srv (clk_now (clk (rw_requests w))) (Some (sk_credentialId (sn_credential run)))
          (own_event run src env (batchEventId run) (batchIdempotencyKey run)))), ing)"
    "posted srv run src env t0 [(firstEventId run, idempotencyKey run), (batchEventId run, batchIdempotencyKey run)] 2 (ist_store ing)"
    using serves_app [OF assms(2)] by (auto simp: allIdempotencyKeys_def allEventIds_def)
  from fetch_batch [where w = w and clk = clk and app = app and jf = jf, OF _ serves_auth [OF assms(2)] ing(1)] serves_app [OF assms(2)] ing(2)
  show ?case by fastforce
next
  case (2 r)
  then obtain now where r: "r = replied (http_reply jf (BatchReply (BatchResults True [AcceptedEvent False
        (pg_record srv now (Some (sk_credentialId (sn_credential run))) (own_event run src env (batchEventId run) (batchIdempotencyKey run)))])))" by blast
  show ?case
    unfolding r
    by (rule passes_then [OF passes_expect passes_then [OF passes_body [OF reply_bodies(5) passes_expect_all]
          passes_then [OF passes_posted_raw passes_posted_invalid]]])
      (simp_all add: assms(1) own_record_json [OF assms(2)] allIdempotencyKeys_def)
qed

section \<open>The whole test\<close>

lemma passes_smoke_body:
  assumes "serves_smoke safeParse jf app srv run dep cr src env" "pg_inv t"
  shows "passes (\<lambda>t'. t' = t) (smoke_body (runtime_io safeParse jf app clk (sn_baseUrl run)) run)
    (posted srv run src env (cleaned run t) [(firstEventId run, idempotencyKey run), (batchEventId run, batchIdempotencyKey run)] 2)"
  unfolding smoke_body_def
proof (rule passes_each [OF passes_schema passes_each [OF passes_clean]])
  note c = cleaned_clean [OF assms(2), of run]
  note a = serves_app [OF assms(1), THEN conjunct1]
  show "posted srv run src env (cleaned run t) [] 0 (cleaned run t')" if "t' = t" for t'
    using posted_start [OF c] that by simp
  show "passes (posted srv run src env (cleaned run t) [] 0) (act_each (\<lambda>step. step)
       [check_health (runtime_io safeParse jf app clk (sn_baseUrl run)) run,
        check_unauthorized (runtime_io safeParse jf app clk (sn_baseUrl run)) run ''missing credential'' [],
        check_unauthorized (runtime_io safeParse jf app clk (sn_baseUrl run)) run ''invalid credential''
          [(''authorization'', ''Bearer '' @ sn_runId run @ '':invalid-token'')],
        check_accepted (runtime_io safeParse jf app clk (sn_baseUrl run)) run, check_duplicate (runtime_io safeParse jf app clk (sn_baseUrl run)) run,
        check_tenantMismatch (runtime_io safeParse jf app clk (sn_baseUrl run)) run, check_invalid (runtime_io safeParse jf app clk (sn_baseUrl run)) run,
        check_batch (runtime_io safeParse jf app clk (sn_baseUrl run)) run])
     (posted srv run src env (cleaned run t) [(firstEventId run, idempotencyKey run), (batchEventId run, batchIdempotencyKey run)] 2)"
    by (rule passes_each [OF passes_health passes_each [OF passes_unauthorized [OF c a refuses_none]
        passes_each [OF passes_unauthorized [OF c a refuses_other [OF assms(1)]] passes_each [OF passes_accepted [OF c assms(1)]
        passes_each [OF passes_duplicate [OF c assms(1)] passes_each [OF passes_tenantMismatch [OF c assms(1)]
        passes_each [OF passes_invalid [OF c assms(1)] passes_each [OF passes_batch [OF c assms(1)] passes_none]]]]]]]]) simp_all
qed

lemma smoke_main_passes:
  assumes "serves_smoke safeParse jf app srv run dep cr src env" "pg_inv (tables_of (wd_db st))"
  shows "\<exists>st'. smoke_main (runtime_io safeParse jf app clk (sn_baseUrl run)) run st = (Inr (), st')
    \<and> tables_of (wd_db st') = cleaned run (tables_of (wd_db st))"
proof -
  let ?t = "tables_of (wd_db st)" and ?io = "runtime_io safeParse jf app clk (sn_baseUrl run)"
  obtain st1 where st1: "write_out (''Data Dyna runtime smoke preconditions: run migrations first, start npm run app:start separately, ''
       @ ''and set DATA_DYNA_DATABASE_URL plus DATA_DYNA_INGESTION_CREDENTIALS_JSON for the migrated local/test runtime.'') st = (Inr (), st1)"
    "wd_db st1 = wd_db st" by (simp add: write_out_def)
  with passes_smoke_body [OF assms] obtain w where w: "smoke_body ?io run st1 = (Inr (), st1\<lparr>wd_db := w\<rparr>)"
    "posted srv run src env (cleaned run ?t) [(firstEventId run, idempotencyKey run), (batchEventId run, batchIdempotencyKey run)] 2 (tables_of w)"
    unfolding passes_def by metis
  have "cleaned run (tables_of w) = cleaned run ?t"
    by (rule cleaned_posted [OF cleaned_clean [OF assms(2)] w(2)]) (simp add: allIdempotencyKeys_def)
  with w(1) st1 show ?thesis
    by (simp add: smoke_main_def act_then_def act_bind_def act_finally_def on_db_def runtime_io_sel act_catch_def cleanFixtures_ok
        write_out_def)
qed

text \<open>Whatever the service answers, and whatever it does to its database meanwhile, no row of the run is left.\<close>

lemma smoke_main_cleans:
  assumes "smoke_main ((runtime_io safeParse jf app clk address)\<lparr>sd_fetch := fetch\<rparr>) run st = (r, st')"
  shows "\<exists>t. tables_of (wd_db st') = cleaned run t"
proof -
  let ?io = "(runtime_io safeParse jf app clk address)\<lparr>sd_fetch := fetch\<rparr>"
  obtain r2 s2 where body: "smoke_body ?io run s = (r2 s, s2 s)" for s
    by (rule that [of "\<lambda>s. fst (smoke_body ?io run s)" "\<lambda>s. snd (smoke_body ?io run s)"]) simp
  have clean: "cleanFixtures ?io run = cleanFixtures (runtime_io safeParse jf app clk address) run"
    by (simp add: cleanFixtures_def)
  show ?thesis
    using assms
    by (auto simp: smoke_main_def act_then_def act_bind_def act_finally_def on_db_def runtime_io_sel act_catch_def clean cleanFixtures_ok
        write_out_def body split: sum.splits)
qed


section \<open>A service and its test\<close>

definition sample_smoke_credential :: smoke_credential where
  "sample_smoke_credential = \<lparr>sk_credentialId = ''c1'', sk_token = ''t1'', sk_merchantId = ''m1'', sk_storeId = ''s1'',
     sk_producerService = ''pos-lite-cashier'', sk_producerEnvironment = ''test'', sk_source = ''pos''\<rparr>"

definition sample_smoke_run :: smoke_run where
  "sample_smoke_run = \<lparr>sn_runId = ''runtime-smoke-1'', sn_credential = sample_smoke_credential, sn_baseUrl = ''http://127.0.0.1:3000''\<rparr>"

definition sample_smoke_env :: smoke_env where
  "sample_smoke_env = \<lparr>sm_databaseUrl = Some ''postgres://local/test'', sm_credentials = Some ''[c1]'', sm_httpHost = None, sm_httpPort = None\<rparr>"

definition sample_credential_parse :: "string \<Rightarrow> json option" where
  "sample_credential_parse s = Some (JArr [JObj [(''credentialId'', JStr ''c1''), (''token'', JStr ''t1''), (''merchantId'', JStr ''m1''),
     (''storeIds'', JArr [JStr ''s1'']),
     (''producer'', JObj [(''service'', JStr ''pos-lite-cashier''), (''environment'', JStr ''test'')]), (''source'', JStr ''pos'')]])"

lemma sample_smoke_run: "smoke_run_of sample_credential_parse sample_smoke_env ''1'' = Inr (''postgres://local/test'', sample_smoke_run)"
  by code_simp

text \<open>A parser that reads the events of the run, and the JSON of the records.\<close>

definition json_text :: "json option \<Rightarrow> string" where
  "json_text v = (case v of Some (JStr s) \<Rightarrow> s | _ \<Rightarrow> [])"

definition sample_reader :: "smoke_run \<Rightarrow> json \<Rightarrow> string list + DataDynaEvent" where
  "sample_reader run p =
     (let idt = jfield (Some p) ''identity''; m = json_text (jfield idt ''merchantId''); s = json_text (jfield idt ''storeId'');
          i = json_text (jfield (jfield (Some p) ''correlation'') ''eventId''); k = json_text (jfield (jfield (Some p) ''idempotency'') ''key'')
      in if p = tenant_event run m s i k then Inr (smoke_event run Src_pos Env_test m s i k) else Inl [''Invalid event''])"

fun set_field :: "string \<Rightarrow> json option \<Rightarrow> (string \<times> json) list" where
  "set_field k None = []"
| "set_field k (Some v) = [(k, v)]"

definition sample_json_forms :: "json json_forms" where
  "sample_json_forms = \<lparr>
     jf_record = (\<lambda>r. JObj (set_field ''eventId'' (Some (JStr (re_eventId r))) @ set_field ''idempotencyKey'' (Some (JStr (re_idempotencyKey r)))
       @ set_field ''credentialId'' (jstr (re_credentialId r)) @ set_field ''merchantId'' (jstr (re_merchantId r))
       @ set_field ''storeId'' (jstr (re_storeId r)) @ set_field ''producerEnvironment'' (jstr (map_option environment_text (re_producerEnvironment r))))),
     jf_invalid = (\<lambda>i. JObj (set_field ''reason'' (Some (JStr (ir_reason i))) @ set_field ''credentialId'' (jstr (ir_credentialId i))
       @ set_field ''reasonCode'' (jstr (ir_reasonCode i))
       @ set_field ''payload'' (case ir_payload i of PostedPayload p \<Rightarrow> Some p | _ \<Rightarrow> None))),
     jf_exception = (\<lambda>_. None)\<rparr>"

definition sample_json_server :: "json pg_server" where
  "sample_json_server = \<lparr>db_instant = (\<lambda>t. t), db_properties = (\<lambda>p. p), db_event = (\<lambda>e. e), db_payload = (\<lambda>p. p),
     db_storable = (\<lambda>_. True), db_auditable = (\<lambda>_ _ _. True)\<rparr>"

definition sample_json_options :: "(json pg_tables, json) EventsRouteOptions" where
  "sample_json_options = \<lparr>opt_ops = pg_ops sample_json_server, opt_postHogSink = False, opt_credentials = [sample_credential],
     opt_runtimeEnvironment = Run_test\<rparr>"

lemma jfield_fields: "jfield (Some (JObj (set_field k v @ fs))) q = (if k = q then (case v of Some w \<Rightarrow> Some w | None \<Rightarrow> jfield (Some (JObj fs)) q)
    else jfield (Some (JObj fs)) q)"
  by (cases v) simp_all

lemma jfield_last: "jfield (Some (JObj (set_field k v))) q = (if k = q then v else None)"
  by (cases v) (simp_all add: jfield.simps(1) get_prop_def)

lemma sample_serves:
  "serves_smoke (sample_reader sample_smoke_run) sample_json_forms \<lparr>ap_healthEnvironment = Run_test, ap_events = Some sample_json_options\<rparr>
     sample_json_server sample_smoke_run sample_json_options sample_credential Src_pos Env_test"
  unfolding serves_smoke_def
proof (intro conjI)
  show "smoke_parser (sample_reader sample_smoke_run) sample_smoke_run Src_pos Env_test"
    by (simp add: smoke_parser_def sample_reader_def Let_def tenant_event_def json_text_def invalidPayload_def)
  show "smoke_forms sample_json_forms"
    by (simp add: smoke_forms_def sample_json_forms_def jfield_fields jfield_last split: option.split)
  show "smoke_database sample_json_server sample_smoke_run Src_pos Env_test"
    by (simp add: smoke_database_def sample_json_server_def invalidPayload_def get_prop_def)
  show "knows_credential (opt_credentials sample_json_options) sample_credential sample_smoke_run Src_pos Env_test"
    by (simp add: knows_credential_def sample_json_options_def sample_smoke_run_def sample_smoke_credential_def sample_credential_def js_space_def)
qed (simp_all add: sample_json_options_def)


end
