(* ===== verification/Spec2Isabelle.thy ===== *)
theory Spec2Isabelle
  imports RuntimeProperties ProjectionProperties EvidenceProperties ReportProperties OverlapProperties
    MigrationProperties GateProperties PlanProperties ServerProcess SmokeProperties
begin

text \<open>
  A verification library for data-dyna, the event-driven data core of an independent cafe: events
  come in over HTTP, are stored once per tenant, and are folded into business projections; from these
  come the snapshots of a store, the gaps to its peers, the experiments an agent proposes and a merchant
  reviews, and the evidence of what they did, rebuilt by bounded workers that take jobs from a durable
  queue. The agent itself runs in a sidecar: an attempt is prepared from what the workers committed, its
  tools are reached through a guarded boundary, and its draft passes a deterministic gate on its way to
  the merchant.

  The parts, in the order of the theories, with the source they model (paths under
  \<open>src/src\<close>):

  \<^item> \<open>Prelude\<close>, \<open>JsValue\<close>, \<open>JsText\<close>: what all parts share of the language: errors as sums,
    \<open>??\<close> and truthiness, \<open>Map\<close> and \<open>Set\<close> as lists in insertion order, sorting by
    \<open>localeCompare\<close> (a comparator parameter), JSON values and \<open>JSON.stringify\<close>, character
    classes and global regular-expression replacement.
  \<^item> \<open>EventContract\<close>: the records and enumerations of \<open>contracts/event-contract.ts\<close>; what zod
    does to raw JSON is the parameter \<open>safeParse\<close>, of which \<open>parses_contract\<close> says that an
    accepted event satisfies \<open>valid_event\<close>.
  \<^item> \<open>RawEventStore\<close>: \<open>ingestion/raw-event-store.ts\<close>, the idempotency identity, the in-memory
    store with its two maps and invariant \<open>mem_inv\<close>, and the abstract store \<open>spec_accept\<close> (two
    sets of taken ids). Locale \<open>raw_event_store\<close> holds the laws a store promises.
  \<^item> \<open>Ingestion\<close>: \<open>ingestion/event-handlers.ts\<close> and \<open>posthog-sink.ts\<close> over any store.
  \<^item> \<open>PostgresRawEvents\<close>: \<open>app/repositories/postgres-raw-event-repository.ts\<close> with the unique
    indexes of \<open>migrations/0008_raw_event_tenancy.sql\<close>; one SQL statement is one atomic step, and
    the phases of a call interleave with those of other calls.
  \<^item> \<open>Auth\<close>, \<open>Observability\<close>, \<open>EventsRoute\<close>, \<open>RuntimeConfig\<close>: \<open>app/auth\<close>,
    \<open>app/config/runtime-config.ts\<close>, \<open>app/observability\<close> and \<open>app/http/events-route.ts\<close>, and the server
    built from the environment (\<open>app/app.ts\<close>, \<open>app/runtime-server.ts\<close>); the state of the route is the
    ingestion state with the emitted log and metric records.
  \<^item> \<open>PosProducer\<close>, \<open>PosIngestion\<close>: \<open>app/producers\<close> and the composition of the delivery
    client with the route.
  \<^item> \<open>Projections\<close>, \<open>ProjectionInvariants\<close>: \<open>projections/business-projections.ts\<close> and
    \<open>datamesh/rfm-member-labels.ts\<close>; \<open>proj_state\<close> holds the maps of the rebuild.
  \<^item> \<open>WorkerJobs\<close>, \<open>WorkerInvariants\<close>, \<open>WorkerQueue\<close>: the queue of
    \<open>app/workers/durable-worker-job-repository.ts\<close> over the tables of
    \<open>migrations/0009_worker_jobs.sql\<close>; \<open>worker_reachable\<close> is the step relation of its
    operations and \<open>worker_inv\<close> their invariant; times are milliseconds.
  \<^item> \<open>FailurePolicy\<close>, \<open>BoundedRunner\<close>: \<open>app/workers/worker-failure-policy.ts\<close>,
    \<open>bounded-worker-runner.ts\<close> and \<open>worker-observability.ts\<close> over any job repository (locale
    \<open>worker_repository\<close>, interpreted on the queue in \<open>WorkerQueue\<close>).
  \<^item> \<open>Snapshots\<close>, \<open>Benchmarks\<close>, \<open>CafeLemmas\<close>: \<open>snapshots/independent-cafe-snapshots.ts\<close> and
    \<open>benchmarks/opportunity-gaps.ts\<close>, pure functions of the projections; numbers are exact rationals.
  \<^item> \<open>ContextBundle\<close>, \<open>ExperimentPlans\<close>: \<open>agent/context-bundle.ts\<close>, \<open>experiment-plan.ts\<close> and
    \<open>experiment-validator.ts\<close>. A zod schema is a test of the fields (\<open>_shape\<close>) and the messages of its
    refinement (\<open>_issues\<close>), put together by \<open>checked\<close>.
  \<^item> \<open>MerchantReview\<close>: \<open>merchant-review/experiment-review.ts\<close>, the review of a plan, the lifecycle of an
    action (\<open>lifecycle_history\<close> is its step relation), preferences, and the \<open>mobile_hq\<close> events.
  \<^item> \<open>Evidence\<close>: \<open>evidence/evidence-store.ts\<close>, with both kinds of error, failed schemas and \<open>throw\<close>.
  \<^item> \<open>ScheduledWorkers\<close>: the projection, snapshot, benchmark and evidence workers of \<open>app/workers\<close> as
    inputs of the bounded runner.
  \<^item> \<open>JsonText\<close>: \<open>JSON.stringify\<close> of any value, its UTF-8 length, and the canonical form an attempt is
    hashed by; \<open>canonical_bytes_eq\<close> says that the canonical form is as long as the text itself.
  \<^item> \<open>AgentTools\<close>, \<open>PreparedAttempt\<close>, \<open>PreparedLemmas\<close>: \<open>agent/agent-tools.ts\<close> and
    \<open>agent/prepared-attempt.ts\<close>: the allow-list, the policy that prepares or blocks an attempt, its seed
    and the read-only tools. \<open>platform\<close> gathers what the agent part takes from JavaScript; errors are
    \<open>agent_error\<close>; \<open>prepare_InrE\<close> has the three ways an attempt can come out.
  \<^item> \<open>AgentRedaction\<close>, \<open>AgentSidecar\<close>: \<open>agent/agent-sidecar.ts\<close>. A step is a function on the events, the
    store and the clock that returns or throws and keeps what it did; the harness is a tree of tool calls
    whose continuation sees only what the boundary answers, so a turn that does not end is no harness.
  \<^item> \<open>AgentLemmas\<close>, \<open>RunOutcomes\<close>: the contract of an audit store (locales \<open>audit_store\<close> and
    \<open>reliable_audit_store\<close>, interpreted on the in-memory store), the trail of events a step leaves, and
    when a run comes to an end.
  \<^item> \<open>ToolCalls\<close>, \<open>ToolCallLemmas\<close>: the tool calls of one turn that overlap in time, cut into the segments
    between two \<open>await\<close>s and run in any order; \<open>five_segments_guarded\<close> says that a call's segments, run without
    a break, are \<open>guardedToolCall\<close>, and \<open>owed\<close> is what a call has still to append and to answer.
  \<^item> \<open>ResultBoundary\<close>, \<open>AgentObservability\<close>: \<open>agent/result-boundary.ts\<close>, from a captured draft to the
    review request, and \<open>agent/observability.ts\<close>, the report over a run and its events.
  \<^item> \<open>ServerProcess\<close>: \<open>app/server.ts\<close>, start-up, signals and listening as the step relation \<open>server_step\<close> with
    the invariant \<open>server_inv\<close>.
  \<^item> \<open>TestDatabase\<close>, \<open>ScriptSteps\<close>, \<open>Migrations\<close>: the address of the test database
    (\<open>app/config/postgres-test-config.ts\<close>), the migration runner \<open>src/scripts/run-migrations.mjs\<close> and the integration
    check \<open>check-db-migrations.mjs\<close>. A script is a step that returns or throws (\<open>act_bind\<close>, \<open>act_catch\<close>,
    \<open>act_finally\<close>); \<open>transactional\<close> says what PostgreSQL promises of transactions.
  \<^item> \<open>SmokeTest\<close>: \<open>smoke-runtime.mjs\<close> over the records \<open>smoke_io\<close> of what \<open>fetch\<close> and the \<open>pg\<close> client do;
    \<open>runtime_io\<close> is the record for the modelled service and its tables. \<open>SmokeProperties\<close> runs the one against the
    other, with triples on the tables (\<open>passes\<close>).
  \<^item> \<open>JsRegex\<close>: regular expressions with the order in which JavaScript backtracks, and what they match
    (\<open>spans\<close>). \<open>BoundaryCheck\<close>, \<open>SchemaCheck\<close>, \<open>PlanCheck\<close>: the gates \<open>check-boundaries.mjs\<close>,
    \<open>check-schema-migration-safety.mjs\<close> and \<open>check-plan-control-plane.mjs\<close> over the files they read.
  \<^item> \<open>Samples\<close> and the theories ending in \<open>Properties\<close>: concrete inputs, and the properties
    with their witnesses: \<open>IngestionProperties\<close> (what a post does to the store, concurrently too),
    \<open>RouteProperties\<close> (tenants, credentials, labels), \<open>ProjectionProperties\<close> (order, references,
    provenance), \<open>WorkerProperties\<close> (queue and runner), \<open>CafeProperties\<close> (isolation of a store,
    anonymity of its peers, ranking, the way to an agent's context), \<open>ReviewProperties\<close> (validation,
    submission, lifecycle, events), \<open>EvidenceProperties\<close> (effects, verdicts, worker runs),
    \<open>RuntimeProperties\<close> (a configured server), \<open>AgentProperties\<close> (prepared attempts and their tools),
    \<open>SidecarProperties\<close> (what a run records, what the harness can reach, how a run ends),
    \<open>OverlapProperties\<close> (tool calls in any order), \<open>BoundaryProperties\<close> (gate and review request), \<open>ReportProperties\<close> (a run, its review and its
    report together), \<open>MigrationProperties\<close> (which migrations are applied, which database may be reset),
    \<open>GateProperties\<close> and \<open>PlanProperties\<close> (what a gate that passes guarantees, and what gets past it); the
    properties of a sale from the register to the projections are here.

  There is no fuel: every loop of the source is over a finite array, and the recursive functions have
  termination proofs. Not modelled: Fastify, the \<open>pg\<close> client, zod's reading of raw JSON, SHA-256 and
  MD5 (parameters), freezing and identity of objects, tool calls a harness starts and does not wait
  for, audit stores that take an event later than they are called, the rows the integration check inserts to
  provoke each constraint of the migrations (SQL, a parameter of \<open>check_db_migrations\<close>), and the probes, which
  drive the parts above with fixtures and print what they saw.
\<close>

section \<open>A sale, from the register to the projections\<close>

text \<open>Whatever the route replies to a delivery, the producer reads it as what it is: sent, duplicate,
invalid, the two tenant refusals, unauthorized, or a failure to retry; it reports success exactly for
the status 202 and never blocks the sale.\<close>

theorem delivery_reads_reply:
  assumes "post_events safeParse dep clk (route_request_of wire (delivery_request tok tmo payload)) st = (reply, st')"
  shows "sendDataDynaEventToEvents tok tmo (events_transport wire jf safeParse dep clk) payload st
      = (classifyEventsDeliveryResponse (int (reply_status reply)) (reply_body jf reply), st')
    \<and> dl_outcome (classifyEventsDeliveryResponse (int (reply_status reply)) (reply_body jf reply))
      = expected_outcome reply
    \<and> (dl_ok (classifyEventsDeliveryResponse (int (reply_status reply)) (reply_body jf reply))
        \<longleftrightarrow> reply_status reply = 202)
    \<and> \<not> dl_primaryFlowBlocked (classifyEventsDeliveryResponse (int (reply_status reply)) (reply_body jf reply))"
proof -
  from post_events_consistent [OF assms] have "reply_consistent reply" "\<forall>b. reply \<noteq> BatchReply b" by auto
  from classify_reply [OF this] show ?thesis
    by (simp add: sendDataDynaEventToEvents_def events_transport_def assms)
      (simp add: classifyEventsDeliveryResponse_def deliveryResult_def)
qed

definition sample_forms :: "DataDynaEvent json_forms" where
  "sample_forms = \<lparr>jf_record = (\<lambda>r. JNull), jf_invalid = (\<lambda>i. JNull), jf_exception = (\<lambda>e. None)\<rparr>"

lemma sample_fixture_parses: "parses_fixture (\<lambda>_. True) (\<lambda>x. if valid_fixture (\<lambda>_. True) x then Some x else None)"
  by (simp add: parses_fixture_def)

theorem delivery_reads_reply_witness:
  "dl_outcome (fst (sendDataDynaEventToEvents ''unknown'' None
     (events_transport (\<lambda>e. e) sample_forms sample_parse sample_options sample_clock) sample_event sample_route_start))
   = Out_unauthorized"
proof -
  let ?rq = "route_request_of (\<lambda>e. e) (delivery_request ''unknown'' None sample_event)"
  have "extractBearerToken (OneHeader (''Bearer '' @ ''unknown'')) = Some ''unknown''"
    by (rule bearer_round_trip) (simp_all add: js_space_def)
  then have "authenticateIngestionRequest (req_authorization ?rq) [sample_credential] = None"
    by (simp add: authenticateIngestionRequest_def route_request_of_def delivery_request_def header_of_def
        sample_credential_def)
  then obtain st' where "post_events sample_parse sample_options sample_clock ?rq sample_route_start = (UnauthorizedReply, st')"
    by (simp add: post_events_def reject_unauthorized_def Let_def)
  from delivery_reads_reply [OF this, of sample_forms] show ?thesis by simp
qed

text \<open>C1. A paid order delivered with the credential of its store arrives exactly once: when neither its
event id nor its idempotency identity is stored, the first delivery reports sent and stores one
record, and a second delivery of the same order, at any later time, reports duplicate and stores
nothing.\<close>

theorem pos_delivery_exactly_once:
  assumes fixture: "parses_fixture dt parseFixture" "parseFixture x = Some f"
    and credential: "pos_credential cr f" "cr \<in> set (opt_credentials dep)"
      "distinct (map cr_token (opt_credentials dep))" "opt_ops dep = pg_ops srv"
    and parser: "safeParse (wire (pos_event f)) = Inr (pos_event f)"
    and store: "pg_inv (ist_store (rs_ingest st))" "db_storable srv (pos_event f)"
      "pos_event_id f \<notin> re_eventId ` set (pg_accepted (ist_store (rs_ingest st)))"
      "rawEventIdempotencyIdentity (pos_event f) \<notin> record_identity ` set (pg_accepted (ist_store (rs_ingest st)))"
    and first: "deliverPosOrderPaidFixtureToEvents dt parseFixture (cr_token cr) tmo
        (events_transport wire jf safeParse dep clk) x st = (d1, st1)"
    and second: "deliverPosOrderPaidFixtureToEvents dt parseFixture (cr_token cr) tmo2
        (events_transport wire jf safeParse dep clk2) x st1 = (d2, st2)"
  shows "dl_outcome d1 = Out_sent \<and> dl_outcome d2 = Out_duplicate \<and> dl_ok d1 \<and> dl_ok d2
    \<and> pg_accepted (ist_store (rs_ingest st1)) = pg_accepted (ist_store (rs_ingest st))
        @ [pg_record srv (clk_now clk) (Some (cr_credentialId cr)) (pos_event f)]
    \<and> rs_ingest st2 = rs_ingest st1"
proof -
  let ?e = "pos_event f" and ?c = "withoutToken cr"
  let ?r = "pg_record srv (clk_now clk) (Some (cr_credentialId cr)) ?e"
  have valid: "valid_fixture dt f" using fixture by (auto simp: parses_fixture_def)
  then have tenant: "no_empty_tenant ?e" by (intro valid_event_no_empty_tenant pos_event_valid)
  have ok: "validateTenantPolicy ?e ?c = TenantPolicyOk" by (rule pos_policy_ok [OF valid credential(1)])
  have eid: "cor_eventId (ev_correlation ?e) = pos_event_id f" by (simp add: pos_event_def)
  have cid: "ctx_credentialId ?c = cr_credentialId cr" by (simp add: withoutToken_def)
  have handler: "handlePostEvent now safeParse (opt_ops dep) (opt_postHogSink dep) (wire ?e) (Some ?c) s
      = persistValidEvent now (pg_ops srv) (opt_postHogSink dep) ?e (Some ?c) s" for now s
    by (simp add: handlePostEvent_def parser ok credential(4))
  from pg.accept_new [OF store(1,2) tenant, of "clk_now clk" "Some (cr_credentialId cr)"] store(3,4) eid
  obtain t where t: "pg_persistAccepted srv (clk_now clk) ?e (Some (cr_credentialId cr)) (ist_store (rs_ingest st))
      = (Inr \<lparr>pr_record = ?r, pr_duplicate = False\<rparr>, t)" "pg_accepted t = pg_accepted (ist_store (rs_ingest st)) @ [?r]"
    by auto
  obtain ing where h1: "handlePostEvent (clk_now clk) safeParse (opt_ops dep) (opt_postHogSink dep) (wire ?e) (Some ?c)
      (rs_ingest st) = (Inr (AcceptedEvent False ?r), ing)" "ist_store ing = t"
    unfolding handler by (simp add: persistValidEvent_def cid t(1) enqueueProductAnalytics_def Let_def)
  note via = deliver_via_route [where dt = dt and parseFixture = parseFixture and x = x and f = f and cr = cr
      and dep = dep and wire = wire and safeParse = safeParse and jf = jf, OF fixture credential(1-3) parser]
  from via [where clk = clk and st = st and tmo = tmo, OF h1(1)] first
  have d1: "d1 = classifyEventsDeliveryResponse 202 (Some (event_result_json jf (AcceptedEvent False ?r)))"
    "rs_ingest st1 = ing" by auto
  from pg.persist_again [OF store(1) tenant t(1), of "clk_now clk2" "Some (cr_credentialId cr)"]
  have again: "pg_persistAccepted srv (clk_now clk2) ?e (Some (cr_credentialId cr)) t
      = (Inr \<lparr>pr_record = ?r, pr_duplicate = True\<rparr>, t)" by simp
  have h2: "handlePostEvent (clk_now clk2) safeParse (opt_ops dep) (opt_postHogSink dep) (wire ?e) (Some ?c)
      (rs_ingest st1) = (Inr (AcceptedEvent True ?r), rs_ingest st1)"
    unfolding handler by (simp add: persistValidEvent_def cid d1(2) h1(2) again Let_def)
  from via [where clk = clk2 and st = st1 and tmo = tmo2, OF h2] second
  have d2: "d2 = classifyEventsDeliveryResponse 202 (Some (event_result_json jf (AcceptedEvent True ?r)))"
    "rs_ingest st2 = rs_ingest st1" by auto
  show ?thesis
    using t(2) h1(2) by (simp add: d1 d2 classifyEventsDeliveryResponse_def deliveryResult_def
        isDuplicateResponse_def get_prop_def)
qed

theorem pos_delivery_exactly_once_witness:
  "\<exists>d1 st1 d2 st2.
     deliverPosOrderPaidFixtureToEvents (\<lambda>_. True) (\<lambda>x. if valid_fixture (\<lambda>_. True) x then Some x else None) ''t1'' None
       (events_transport (\<lambda>e. e) sample_forms sample_parse sample_options sample_clock) sample_fixture sample_route_start
       = (d1, st1)
     \<and> deliverPosOrderPaidFixtureToEvents (\<lambda>_. True) (\<lambda>x. if valid_fixture (\<lambda>_. True) x then Some x else None) ''t1'' None
       (events_transport (\<lambda>e. e) sample_forms sample_parse sample_options sample_clock) sample_fixture st1 = (d2, st2)
     \<and> dl_outcome d1 = Out_sent \<and> dl_outcome d2 = Out_duplicate
     \<and> length (pg_accepted (ist_store (rs_ingest st2))) = 1"
proof -
  let ?deliver = "deliverPosOrderPaidFixtureToEvents (\<lambda>_. True) (\<lambda>x. if valid_fixture (\<lambda>_. True) x then Some x else None)
      ''t1'' None (events_transport (\<lambda>e. e) sample_forms sample_parse sample_options sample_clock) sample_fixture"
  obtain d1 st1 where 1: "?deliver sample_route_start = (d1, st1)" by fastforce
  obtain d2 st2 where 2: "?deliver st1 = (d2, st2)" by fastforce
  have cr: "pos_credential sample_credential sample_fixture" "cr_token sample_credential = ''t1''"
    by (simp_all add: pos_credential_def sample_credential_def sample_fixture_def js_space_def)
  have "dl_outcome d1 = Out_sent \<and> dl_outcome d2 = Out_duplicate \<and> dl_ok d1 \<and> dl_ok d2
    \<and> pg_accepted (ist_store (rs_ingest st1)) = pg_accepted (ist_store (rs_ingest sample_route_start))
        @ [pg_record sample_server (clk_now sample_clock) (Some (cr_credentialId sample_credential)) (pos_event sample_fixture)]
    \<and> rs_ingest st2 = rs_ingest st1"
    by (rule pos_delivery_exactly_once [OF sample_fixture_parses _ cr(1) _ _ _ _ sample_route_inv _ _ _
          1 [folded cr(2)] 2 [folded cr(2)]])
      (use sample_event_parsed sample_fixture_valid in
        \<open>simp_all add: sample_ops_def sample_event_def sample_route_start_def sample_start_def\<close>)
  with 1 2 show ?thesis by (simp add: sample_route_start_def sample_start_def)
qed

text \<open>Two payments are told apart by the service exactly when their merchants, stores, orders or
payments differ, as long as order ids have no colon.\<close>

theorem pos_identity_exact:
  assumes "CHR '':'' \<notin> set (fx_orderId f)" "CHR '':'' \<notin> set (fx_orderId g)"
  shows "rawEventIdempotencyIdentity (pos_event f) = rawEventIdempotencyIdentity (pos_event g)
   \<longleftrightarrow> fx_merchantId f = fx_merchantId g \<and> fx_storeId f = fx_storeId g
     \<and> fx_orderId f = fx_orderId g \<and> fx_paymentId f = fx_paymentId g"
  by (simp add: pos_identity_iff pos_idempotency_key_inject [OF assms])

theorem pos_identity_exact_witness:
  "rawEventIdempotencyIdentity (pos_event sample_fixture)
     \<noteq> rawEventIdempotencyIdentity (pos_event (sample_fixture\<lparr>fx_paymentId := ''p2''\<rparr>))"
  using pos_identity_exact [of sample_fixture "sample_fixture\<lparr>fx_paymentId := ''p2''\<rparr>"]
  by (simp add: sample_fixture_def)

text \<open>The ids of the keys are joined with an unescaped colon: two different payments of one store,
whose order and payment ids split differently at a colon, have the same event id and the same
idempotency identity, so the second is acknowledged as a duplicate and its sale is lost.\<close>

theorem pos_payments_collapse:
  "let f = sample_fixture\<lparr>fx_orderId := ''7'', fx_paymentId := ''1:2''\<rparr>;
       g = sample_fixture\<lparr>fx_orderId := ''7:1'', fx_paymentId := ''2''\<rparr>
   in fx_orderId f \<noteq> fx_orderId g \<and> pos_event_id f = pos_event_id g
      \<and> rawEventIdempotencyIdentity (pos_event f) = rawEventIdempotencyIdentity (pos_event g)"
  by (simp add: Let_def pos_identity_iff pos_idempotency_key_def pos_event_id_def)

text \<open>The events of the POS mapper carry no amount, no item and no payment id: their orders are
projected as paid, with no total and no payment row.\<close>

theorem mapped_orders_have_no_payment:
  "map (\<lambda>ord. (or_orderId ord, or_status ord, or_totalAmount ord)) (bp_orders
       (rebuildBusinessProjections default
         \<lparr>in_rawEvents = [rawEventRecord ''t0'' None (pos_event sample_fixture)], in_rfmRows = None, in_rebuiltAt = None\<rparr>))
     = [(''o1'', Order_paid, None)]
   \<and> bp_payments (rebuildBusinessProjections default
         \<lparr>in_rawEvents = [rawEventRecord ''t0'' None (pos_event sample_fixture)], in_rfmRows = None, in_rebuiltAt = None\<rparr>) = []"
  by code_simp

end
